(* ===== verification/Lending_Errors.thy ===== *)
theory Lending_Errors imports Main begin

text \<open>
  The program's error codes, the enum \<open>LendingError\<close> of \<open>lib.rs\<close>. Anchor numbers the
  variants in the order of the enum and two errors are equal when their numbers are, so a variant
  is its position in the enum; the abbreviations below are the variants, in source order.
\<close>

datatype lending_error = LendingError nat

abbreviation "InvalidMarketAuthority \<equiv> LendingError 0"
abbreviation "InvalidMarketOwner \<equiv> LendingError 1"
abbreviation "InvalidAccountOwner \<equiv> LendingError 2"
abbreviation "InvalidAmount \<equiv> LendingError 3"
abbreviation "InvalidConfig \<equiv> LendingError 4"
abbreviation "InvalidSigner \<equiv> LendingError 5"
abbreviation "InvalidAccountInput \<equiv> LendingError 6"
abbreviation "MathOverflow \<equiv> LendingError 7"
abbreviation "InsufficientLiquidity \<equiv> LendingError 8"
abbreviation "ReserveStale \<equiv> LendingError 9"
abbreviation "WithdrawTooSmall \<equiv> LendingError 10"
abbreviation "WithdrawTooLarge \<equiv> LendingError 11"
abbreviation "BorrowTooSmall \<equiv> LendingError 12"
abbreviation "BorrowTooLarge \<equiv> LendingError 13"
abbreviation "RepayTooSmall \<equiv> LendingError 14"
abbreviation "LiquidationTooSmall \<equiv> LendingError 15"
abbreviation "ObligationHealthy \<equiv> LendingError 16"
abbreviation "ObligationStale \<equiv> LendingError 17"
abbreviation "ObligationReserveLimit \<equiv> LendingError 18"
abbreviation "InvalidObligationOwner \<equiv> LendingError 19"
abbreviation "ObligationDepositsEmpty \<equiv> LendingError 20"
abbreviation "ObligationBorrowsEmpty \<equiv> LendingError 21"
abbreviation "ObligationDepositsZero \<equiv> LendingError 22"
abbreviation "ObligationBorrowsZero \<equiv> LendingError 23"
abbreviation "InvalidObligationCollateral \<equiv> LendingError 24"
abbreviation "InvalidObligationLiquidity \<equiv> LendingError 25"
abbreviation "ObligationCollateralEmpty \<equiv> LendingError 26"
abbreviation "ObligationLiquidityEmpty \<equiv> LendingError 27"
abbreviation "NegativeInterestRate \<equiv> LendingError 28"
abbreviation "InvalidOracleConfig \<equiv> LendingError 29"
abbreviation "InsufficientProtocolFeesToRedeem \<equiv> LendingError 30"
abbreviation "FlashBorrowCpi \<equiv> LendingError 31"
abbreviation "NoFlashRepayFound \<equiv> LendingError 32"
abbreviation "InvalidFlashRepay \<equiv> LendingError 33"
abbreviation "FlashRepayCpi \<equiv> LendingError 34"
abbreviation "MultipleFlashBorrows \<equiv> LendingError 35"
abbreviation "FlashLoansDisabled \<equiv> LendingError 36"
abbreviation "SwitchboardV2Error \<equiv> LendingError 37"
abbreviation "CouldNotDeserializeScope \<equiv> LendingError 38"
abbreviation "PriceTooOld \<equiv> LendingError 39"
abbreviation "PriceTooDivergentFromTwap \<equiv> LendingError 40"
abbreviation "InvalidTwapPrice \<equiv> LendingError 41"
abbreviation "GlobalEmergencyMode \<equiv> LendingError 42"
abbreviation "InvalidFlag \<equiv> LendingError 43"
abbreviation "PriceNotValid \<equiv> LendingError 44"
abbreviation "PriceIsBiggerThanHeuristic \<equiv> LendingError 45"
abbreviation "PriceIsLowerThanHeuristic \<equiv> LendingError 46"
abbreviation "PriceIsZero \<equiv> LendingError 47"
abbreviation "PriceConfidenceTooWide \<equiv> LendingError 48"
abbreviation "IntegerOverflow \<equiv> LendingError 49"
abbreviation "NoFarmForReserve \<equiv> LendingError 50"
abbreviation "IncorrectInstructionInPosition \<equiv> LendingError 51"
abbreviation "NoPriceFound \<equiv> LendingError 52"
abbreviation "InvalidTwapConfig \<equiv> LendingError 53"
abbreviation "InvalidPythPriceAccount \<equiv> LendingError 54"
abbreviation "InvalidSwitchboardAccount \<equiv> LendingError 55"
abbreviation "InvalidScopePriceAccount \<equiv> LendingError 56"
abbreviation "ObligationCollateralLtvZero \<equiv> LendingError 57"
abbreviation "InvalidObligationSeedsValue \<equiv> LendingError 58"
abbreviation "DeprecatedInvalidObligationId \<equiv> LendingError 59"
abbreviation "InvalidBorrowRateCurvePoint \<equiv> LendingError 60"
abbreviation "InvalidUtilizationRate \<equiv> LendingError 61"
abbreviation "CannotSocializeObligationWithCollateral \<equiv> LendingError 62"
abbreviation "ObligationEmpty \<equiv> LendingError 63"
abbreviation "WithdrawalCapReached \<equiv> LendingError 64"
abbreviation "LastTimestampGreaterThanCurrent \<equiv> LendingError 65"
abbreviation "LiquidationRewardTooSmall \<equiv> LendingError 66"
abbreviation "IsolatedAssetTierViolation \<equiv> LendingError 67"
abbreviation "InconsistentElevationGroup \<equiv> LendingError 68"
abbreviation "InvalidElevationGroup \<equiv> LendingError 69"
abbreviation "InvalidElevationGroupConfig \<equiv> LendingError 70"
abbreviation "UnhealthyElevationGroupLtv \<equiv> LendingError 71"
abbreviation "ElevationGroupNewLoansDisabled \<equiv> LendingError 72"
abbreviation "ReserveDeprecated \<equiv> LendingError 73"
abbreviation "ReferrerAccountNotInitialized \<equiv> LendingError 74"
abbreviation "ReferrerAccountMintMissmatch \<equiv> LendingError 75"
abbreviation "ReferrerAccountWrongAddress \<equiv> LendingError 76"
abbreviation "ReferrerAccountReferrerMissmatch \<equiv> LendingError 77"
abbreviation "ReferrerAccountMissing \<equiv> LendingError 78"
abbreviation "InsufficientReferralFeesToRedeem \<equiv> LendingError 79"
abbreviation "CpiDisabled \<equiv> LendingError 80"
abbreviation "ShortUrlNotAsciiAlphanumeric \<equiv> LendingError 81"
abbreviation "ReserveObsolete \<equiv> LendingError 82"
abbreviation "ElevationGroupAlreadyActivated \<equiv> LendingError 83"
abbreviation "ObligationInObsoleteReserve \<equiv> LendingError 84"
abbreviation "ReferrerStateOwnerMismatch \<equiv> LendingError 85"
abbreviation "UserMetadataOwnerAlreadySet \<equiv> LendingError 86"
abbreviation "CollateralNonLiquidatable \<equiv> LendingError 87"
abbreviation "BorrowingDisabled \<equiv> LendingError 88"
abbreviation "BorrowLimitExceeded \<equiv> LendingError 89"
abbreviation "DepositLimitExceeded \<equiv> LendingError 90"
abbreviation "BorrowingDisabledOutsideElevationGroup \<equiv> LendingError 91"
abbreviation "NetValueRemainingTooSmall \<equiv> LendingError 92"
abbreviation "WorseLtvBlocked \<equiv> LendingError 93"
abbreviation "LiabilitiesBiggerThanAssets \<equiv> LendingError 94"
abbreviation "ReserveTokenBalanceMismatch \<equiv> LendingError 95"
abbreviation "ReserveVaultBalanceMismatch \<equiv> LendingError 96"
abbreviation "ReserveAccountingMismatch \<equiv> LendingError 97"
abbreviation "BorrowingAboveUtilizationRateDisabled \<equiv> LendingError 98"
abbreviation "LiquidationBorrowFactorPriority \<equiv> LendingError 99"
abbreviation "LiquidationLowestLiquidationLtvPriority \<equiv> LendingError 100"
abbreviation "ElevationGroupBorrowLimitExceeded \<equiv> LendingError 101"
abbreviation "ElevationGroupWithoutDebtReserve \<equiv> LendingError 102"
abbreviation "ElevationGroupMaxCollateralReserveZero \<equiv> LendingError 103"
abbreviation "ElevationGroupHasAnotherDebtReserve \<equiv> LendingError 104"
abbreviation "ElevationGroupDebtReserveAsCollateral \<equiv> LendingError 105"
abbreviation "ObligationCollateralExceedsElevationGroupLimit \<equiv> LendingError 106"
abbreviation "ObligationElevationGroupMultipleDebtReserve \<equiv> LendingError 107"
abbreviation "UnsupportedTokenExtension \<equiv> LendingError 108"
abbreviation "InvalidTokenAccount \<equiv> LendingError 109"
abbreviation "DepositDisabledOutsideElevationGroup \<equiv> LendingError 110"
abbreviation "CannotCalculateReferralAmountDueToSlotsMismatch \<equiv> LendingError 111"
abbreviation "ObligationOwnersMustMatch \<equiv> LendingError 112"
abbreviation "ObligationsMustMatch \<equiv> LendingError 113"
abbreviation "LendingMarketsMustMatch \<equiv> LendingError 114"
abbreviation "ObligationCurrentlyMarkedForDeleveraging \<equiv> LendingError 115"
abbreviation "MaximumWithdrawValueZero \<equiv> LendingError 116"
abbreviation "ZeroMaxLtvAssetsInDeposits \<equiv> LendingError 117"
abbreviation "LowestLtvAssetsPriority \<equiv> LendingError 118"
abbreviation "WorseLtvThanUnhealthyLtv \<equiv> LendingError 119"
abbreviation "FarmAccountsMissing \<equiv> LendingError 120"
abbreviation "RepayTooSmallForFullLiquidation \<equiv> LendingError 121"
abbreviation "InsufficientRepayAmount \<equiv> LendingError 122"
abbreviation "OrderIndexOutOfBounds \<equiv> LendingError 123"
abbreviation "InvalidOrderConfiguration \<equiv> LendingError 124"
abbreviation "OrderConfigurationNotSupportedByObligation \<equiv> LendingError 125"
abbreviation "OperationNotPermittedWithCurrentObligationOrders \<equiv> LendingError 126"
abbreviation "OperationNotPermittedMarketImmutable \<equiv> LendingError 127"
abbreviation "OrderCreationDisabled \<equiv> LendingError 128"
abbreviation "NoUpgradeAuthority \<equiv> LendingError 129"
abbreviation "InitialAdminDepositExecuted \<equiv> LendingError 130"
abbreviation "ReserveHasNotReceivedInitialDeposit \<equiv> LendingError 131"
abbreviation "CTokenUsageBlocked \<equiv> LendingError 132"
abbreviation "CannotUseSameReserve \<equiv> LendingError 133"
abbreviation "TransactionIncludesRestrictedPrograms \<equiv> LendingError 134"
abbreviation "BorrowOrderDebtLiquidityMintMismatch \<equiv> LendingError 135"
abbreviation "BorrowOrderMaxBorrowRateExceeded \<equiv> LendingError 136"
abbreviation "BorrowOrderMinDebtTermInsufficient \<equiv> LendingError 137"
abbreviation "BorrowOrderFillTimeLimitExceeded \<equiv> LendingError 138"
abbreviation "ReserveDebtMaturityReached \<equiv> LendingError 139"
abbreviation "NonUpdatableOrderConfiguration \<equiv> LendingError 140"
abbreviation "BorrowOrderExecutionDisabled \<equiv> LendingError 141"
abbreviation "DebtReachedReserveDebtTerm \<equiv> LendingError 142"
abbreviation "ExpectationNotMet \<equiv> LendingError 143"
abbreviation "BorrowOrderFillValueTooSmall \<equiv> LendingError 144"
abbreviation "WithdrawTicketIssuanceDisabled \<equiv> LendingError 145"
abbreviation "WithdrawTicketRedemptionDisabled \<equiv> LendingError 146"
abbreviation "WithdrawTicketStillValid \<equiv> LendingError 147"
abbreviation "WithdrawTicketRequiresFullRedemption \<equiv> LendingError 148"
abbreviation "UserTokenBalanceMismatch \<equiv> LendingError 149"
abbreviation "WithdrawQueuedLiquidityValueTooSmall \<equiv> LendingError 150"
abbreviation "InvalidTokenAccountState \<equiv> LendingError 151"
abbreviation "WithdrawTicketInvalid \<equiv> LendingError 152"
abbreviation "BorrowOrderValueTooSmall \<equiv> LendingError 153"
abbreviation "WithdrawTicketValueTooSmall \<equiv> LendingError 154"
abbreviation "InvalidWithdrawTicketProgressCallbackConfig \<equiv> LendingError 155"
abbreviation "WithdrawTicketProgressCallbackAccountsMissing \<equiv> LendingError 156"
abbreviation "BorrowRolloverConfigurationDisabled \<equiv> LendingError 157"
abbreviation "InvalidObligationConfigUpdateSubject \<equiv> LendingError 158"
abbreviation "BorrowRolloverLiquidityMintMismatch \<equiv> LendingError 159"
abbreviation "ObligationBorrowRolloverNotApplicable \<equiv> LendingError 160"
abbreviation "ObligationBorrowOutsideRolloverWindow \<equiv> LendingError 161"
abbreviation "ObligationBorrowRolloverNotEnabledByOwner \<equiv> LendingError 162"
abbreviation "ObligationBorrowRolloverTargetReserveMismatch \<equiv> LendingError 163"
abbreviation "BorrowRolloverExecutionDisabled \<equiv> LendingError 164"
abbreviation "ObligationAccountingMismatch \<equiv> LendingError 165"
abbreviation "PartialRolloverValueTooSmall \<equiv> LendingError 166"
abbreviation "ObligationBorrowRolloverConfigMismatch \<equiv> LendingError 167"
abbreviation "ObligationBorrowRolloverMustProlongDebtTerm \<equiv> LendingError 168"
abbreviation "RolloverNotSupportedInElevationGroup \<equiv> LendingError 169"
abbreviation "WithdrawTicketCancellationDisabled \<equiv> LendingError 170"
abbreviation "WithdrawTicketFullyCancelled \<equiv> LendingError 171"
abbreviation "CloneSourceReserveDisabled \<equiv> LendingError 172"
abbreviation "CloneTargetReserveAlreadyInUse \<equiv> LendingError 173"
abbreviation "ClonedReserveLiquidityMintMismatch \<equiv> LendingError 174"
abbreviation "ReserveEmergencyMode \<equiv> LendingError 175"
abbreviation "ObligationOwnershipTransferInProgress \<equiv> LendingError 176"
abbreviation "ObligationOwnershipTransferNotInInitiatedState \<equiv> LendingError 177"
abbreviation "ObligationPendingOwnerNotSet \<equiv> LendingError 178"
abbreviation "ObligationInvalidPendingOwner \<equiv> LendingError 179"
abbreviation "ObligationOwnershipTransferNotApproved \<equiv> LendingError 180"
abbreviation "ObligationHasActiveBorrowOrders \<equiv> LendingError 181"
abbreviation "OnlyComputeBudgetCompanionIxsAllowed \<equiv> LendingError 182"
abbreviation "MissingPermissioner \<equiv> LendingError 183"
abbreviation "ReserveRewardsDisabled \<equiv> LendingError 184"

end
