(* ===== verification/Prelude.thy ===== *)
theory Prelude imports Lending_Errors "HOL-Library.Word" "HOL-Library.Monad_Syntax" begin

text \<open>
  What every component of the development shares: machine integers at the
  widths of the Rust sources, results of calls that may fail, Rust's checked,
  saturating and overflow-checked arithmetic, and the few facts about rounding
  division that the fixed-point code needs.
\<close>

section \<open>Collections of rewrite rules\<close>

named_theorems res_simps \<open>when a sequence of fallible calls returns, and what\<close>
named_theorems arith_simps \<open>when an overflow-checked operation returns, read over naturals\<close>

section \<open>Machine integers\<close>

type_synonym u8 = "8 word"
type_synonym u16 = "16 word"
type_synonym u32 = "32 word"
type_synonym u64 = "64 word"
type_synonym u128 = "128 word"
type_synonym u256 = "256 word"
type_synonym i64 = "64 word"
type_synonym pubkey = "256 word"

text \<open>A lossless conversion to a wider type (\<open>u64\<close> to \<open>u128\<close> and so on) keeps the value.\<close>

lemma unat_ucast_widen [simp]:
  "LENGTH('a::len) \<le> LENGTH('b::len) \<Longrightarrow> unat (ucast (x :: 'a word) :: 'b word) = unat x"
  by (simp add: unsigned_ucast_eq take_bit_nat_eq_self_iff less_le_trans [OF unsigned_less])

lemma word_unat_eqI: "unat a = unat b \<Longrightarrow> (a :: 'a::len word) = b"
  by (rule unsigned_word_eqI)

lemma unat_lt: "unat (x :: 'a::len word) < 2 ^ LENGTH('a)"
  by (rule unsigned_less)

lemma unat_eq_0 [simp]: "unat (x :: 'a::len word) = 0 \<longleftrightarrow> x = 0"
  by (rule unat_0_iff)

lemma ucast_widen_eq_0 [simp]:
  "LENGTH('a::len) \<le> LENGTH('b::len) \<Longrightarrow> (ucast (x :: 'a word) :: 'b word) = 0 \<longleftrightarrow> x = 0"
  by (metis unat_eq_0 unat_ucast_widen)

lemma unat_eq_lt: "unat (x :: 'a::len word) = n \<Longrightarrow> n < 2 ^ LENGTH('a)"
  using unat_lt by metis

lemma unat_of_nat_lt: "n < 2 ^ LENGTH('a) \<Longrightarrow> unat (of_nat n :: 'a::len word) = n"
  by (simp add: unat_of_nat)

lemmas u64_lt = unat_lt [where ?'a = 64, simplified]
lemmas u128_lt = unat_lt [where ?'a = 128, simplified]

lemma unat_max_word64 [simp]: "unat (- 1 :: u64) = 2 ^ 64 - 1"
  by (simp add: unsigned_minus_1_eq_mask mask_eq_exp_minus_1)

section \<open>Results\<close>

text \<open>
  A fallible call of the program returns a value or aborts the transaction: with one of
  the program's error codes, with an error of the runtime or of the account framework (a
  missing signer, an account that is not the expected one), or with a panic (an overflow check,
  an \<open>unwrap\<close> or \<open>expect\<close>, an index out of range, a division by zero).
\<close>

datatype error = LendingErr lending_error | ProgramErr | Panic

type_synonym 'a res = "error + 'a"

definition rbind :: "'a res \<Rightarrow> ('a \<Rightarrow> 'b res) \<Rightarrow> 'b res" where
  "rbind m f = (case m of Inl e \<Rightarrow> Inl e | Inr a \<Rightarrow> f a)"

lemma rbind_simps [simp]:
  "rbind (Inl e) f = Inl e"
  "rbind (Inr a) f = f a"
  by (simp_all add: rbind_def)

lemma rbind_eq_Inr [res_simps]:
  "rbind m f = Inr y \<longleftrightarrow> (\<exists>x. m = Inr x \<and> f x = Inr y)"
  by (cases m) auto

lemma rbind_eq_Inl [res_simps]:
  "rbind m f = Inl e \<longleftrightarrow> m = Inl e \<or> (\<exists>x. m = Inr x \<and> f x = Inl e)"
  by (cases m) auto

lemma rbind_cong [fundef_cong]:
  "m = m' \<Longrightarrow> (\<And>x. m' = Inr x \<Longrightarrow> f x = f' x) \<Longrightarrow> rbind m f = rbind m' f'"
  by (cases m') auto

lemma rbind_assoc: "rbind (rbind m f) g = rbind m (\<lambda>x. rbind (f x) g)"
  by (cases m) auto

definition fail :: "lending_error \<Rightarrow> 'a res" where
  "fail e = Inl (LendingErr e)"

definition ensure :: "bool \<Rightarrow> lending_error \<Rightarrow> unit res" where
  "ensure b e = (if b then Inr () else fail e)"

definition ok_or :: "'a option \<Rightarrow> error \<Rightarrow> 'a res" where
  "ok_or x e = (case x of None \<Rightarrow> Inl e | Some a \<Rightarrow> Inr a)"

lemma fail_eq [res_simps]:
  "(fail e = Inr x) = False"
  "(fail e = Inl e') = (e' = LendingErr e)"
  by (auto simp: fail_def)

lemma ensure_eq [res_simps]:
  "ensure b e = Inr u \<longleftrightarrow> b"
  "ensure b e = Inl e' \<longleftrightarrow> \<not> b \<and> e' = LendingErr e"
  by (auto simp: ensure_def fail_def)

lemma ensure_simps [simp]:
  "ensure True e = Inr ()"
  "ensure False e = Inl (LendingErr e)"
  by (simp_all add: ensure_def fail_def)

lemma ok_or_eq [res_simps]:
  "ok_or x e = Inr a \<longleftrightarrow> x = Some a"
  "ok_or x e = Inl e' \<longleftrightarrow> x = None \<and> e' = e"
  by (auto simp: ok_or_def split: option.splits)

lemma ok_or_simps [simp]:
  "ok_or (Some a) e = Inr a"
  "ok_or None e = Inl e"
  by (simp_all add: ok_or_def)

definition is_ok :: "'a res \<Rightarrow> bool" where
  "is_ok m \<longleftrightarrow> (\<exists>x. m = Inr x)"

lemma is_ok_simps [simp]: "is_ok (Inr x)" "\<not> is_ok (Inl e)"
  by (simp_all add: is_ok_def)

text \<open>\<open>unwrap\<close> and \<open>expect\<close> turn an error into a panic.\<close>

definition unwrap :: "'a res \<Rightarrow> 'a res" where
  "unwrap m = (case m of Inl _ \<Rightarrow> Inl Panic | Inr a \<Rightarrow> Inr a)"

lemma unwrap_simps [simp]: "unwrap (Inl e) = Inl Panic" "unwrap (Inr a) = Inr a"
  by (simp_all add: unwrap_def)

lemma unwrap_eq [res_simps]:
  "unwrap m = Inr a \<longleftrightarrow> m = Inr a"
  "unwrap m = Inl e \<longleftrightarrow> (\<exists>e'. m = Inl e') \<and> e = Panic"
  by (auto simp: unwrap_def split: sum.splits)

section \<open>Checked arithmetic\<close>

text \<open>
  \<open>to_word n\<close> is the word with the value \<open>n\<close>, if there is one. The checked operations
  of the standard library are \<open>to_word_opt\<close> of the exact result; the plain operators, which
  the workspace compiles with \<open>overflow-checks = true\<close>, panic instead of returning None.
\<close>

definition to_word :: "nat \<Rightarrow> 'a::len word res" where
  "to_word n = (if n < 2 ^ LENGTH('a) then Inr (of_nat n) else Inl Panic)"

definition to_word_opt :: "nat \<Rightarrow> 'a::len word option" where
  "to_word_opt n = (if n < 2 ^ LENGTH('a) then Some (of_nat n) else None)"

lemma to_word_eq [arith_simps]:
  "to_word n = Inr (w :: 'a::len word) \<longleftrightarrow> unat w = n"
  "(to_word n :: 'a::len word res) = Inl e \<longleftrightarrow> 2 ^ LENGTH('a) \<le> n \<and> e = Panic"
  by (auto simp: to_word_def unat_of_nat)

lemma to_word_opt_eq [arith_simps]:
  "to_word_opt n = Some (w :: 'a::len word) \<longleftrightarrow> unat w = n"
  "(to_word_opt n :: 'a::len word option) = None \<longleftrightarrow> 2 ^ LENGTH('a) \<le> n"
  by (auto simp: to_word_opt_def unat_of_nat)

definition checked_add :: "'a::len word \<Rightarrow> 'a word \<Rightarrow> 'a word option" where
  "checked_add a b = to_word_opt (unat a + unat b)"

definition checked_sub :: "'a::len word \<Rightarrow> 'a word \<Rightarrow> 'a word option" where
  "checked_sub a b = (if b \<le> a then Some (a - b) else None)"

definition checked_mul :: "'a::len word \<Rightarrow> 'a word \<Rightarrow> 'a word option" where
  "checked_mul a b = to_word_opt (unat a * unat b)"

definition add_ov :: "'a::len word \<Rightarrow> 'a word \<Rightarrow> 'a word res" where
  "add_ov a b = ok_or (checked_add a b) Panic"

definition sub_ov :: "'a::len word \<Rightarrow> 'a word \<Rightarrow> 'a word res" where
  "sub_ov a b = ok_or (checked_sub a b) Panic"

definition mul_ov :: "'a::len word \<Rightarrow> 'a word \<Rightarrow> 'a word res" where
  "mul_ov a b = ok_or (checked_mul a b) Panic"

definition saturating_sub :: "'a::len word \<Rightarrow> 'a word \<Rightarrow> 'a word" where
  "saturating_sub a b = (if b \<le> a then a - b else 0)"

definition saturating_mul :: "'a::len word \<Rightarrow> 'a word \<Rightarrow> 'a word" where
  "saturating_mul a b = (case checked_mul a b of None \<Rightarrow> - 1 | Some c \<Rightarrow> c)"

lemma checked_eq [arith_simps]:
  "checked_add a b = Some c \<longleftrightarrow> unat c = unat a + unat b"
  "checked_sub a b = Some c \<longleftrightarrow> unat b \<le> unat a \<and> unat c = unat a - unat b"
  "checked_mul a b = Some c \<longleftrightarrow> unat c = unat a * unat b"
  "checked_add a b = None \<longleftrightarrow> 2 ^ LENGTH('a) \<le> unat a + unat b"
  "checked_sub a b = None \<longleftrightarrow> unat a < unat b"
  "checked_mul a b = None \<longleftrightarrow> 2 ^ LENGTH('a) \<le> unat a * unat b"
  for a b c :: "'a::len word"
  by (auto simp: checked_add_def checked_sub_def checked_mul_def arith_simps word_le_nat_alt
      unat_sub intro: word_unat_eqI)

lemma ov_eq [arith_simps]:
  "add_ov a b = Inr c \<longleftrightarrow> unat c = unat a + unat b"
  "sub_ov a b = Inr c \<longleftrightarrow> unat b \<le> unat a \<and> unat c = unat a - unat b"
  "mul_ov a b = Inr c \<longleftrightarrow> unat c = unat a * unat b"
  "add_ov a b = Inl e \<longleftrightarrow> 2 ^ LENGTH('a) \<le> unat a + unat b \<and> e = Panic"
  "sub_ov a b = Inl e \<longleftrightarrow> unat a < unat b \<and> e = Panic"
  "mul_ov a b = Inl e \<longleftrightarrow> 2 ^ LENGTH('a) \<le> unat a * unat b \<and> e = Panic"
  for a b c :: "'a::len word"
  by (auto simp: add_ov_def sub_ov_def mul_ov_def res_simps arith_simps)

text \<open>
  How an equivalence for a composed operation is proved: its result is right when it returns,
  and under the condition it does not fail.
\<close>

lemma res_iffI:
  assumes "\<And>r'. m = Inr r' \<Longrightarrow> C \<and> unat r' = n"
    and "\<And>e. C \<Longrightarrow> unat r = n \<Longrightarrow> m = Inl e \<Longrightarrow> False"
  shows "m = Inr (r :: 'a::len word) \<longleftrightarrow> C \<and> unat r = n"
  using assms by (cases m) (auto intro: word_unat_eqI)

lemma unat_saturating_sub [simp]: "unat (saturating_sub a b) = unat a - unat b"
  by (simp add: saturating_sub_def word_le_nat_alt unat_sub)

lemma unat_saturating_mul_le: "unat (saturating_mul a b) \<le> unat a * unat b"
  for a b :: "'a::len word"
proof (cases "checked_mul a b")
  case None
  then have "2 ^ LENGTH('a) \<le> unat a * unat b" by (simp add: checked_eq)
  with unat_lt [of "- 1 :: 'a word"] have "unat (- 1 :: 'a word) \<le> unat a * unat b"
    by (rule order.strict_implies_order [OF order.strict_trans2])
  with None show ?thesis by (simp add: saturating_mul_def)
next
  case (Some c)
  then have "unat c = unat a * unat b" by (simp add: checked_eq)
  with Some show ?thesis by (simp add: saturating_mul_def)
qed

lemma unat_min [simp]: "unat (min a b) = min (unat a) (unat b)" for a b :: "'a::len word"
  by (simp add: min_def word_le_nat_alt)

lemma unat_max [simp]: "unat (max a b) = max (unat a) (unat b)" for a b :: "'a::len word"
  by (simp add: max_def word_le_nat_alt)

section \<open>Rounding division over naturals\<close>

definition ceil_div :: "nat \<Rightarrow> nat \<Rightarrow> nat" where
  "ceil_div a b = (a + b - 1) div b"

lemma ceil_div_le_iff: "0 < b \<Longrightarrow> ceil_div a b \<le> n \<longleftrightarrow> a \<le> n * b"
  by (auto simp: ceil_div_def div_less_iff_less_mult simp flip: less_Suc_eq_le)

lemma le_ceil_div: "0 < b \<Longrightarrow> a \<le> ceil_div a b * b"
  using ceil_div_le_iff [of b a "ceil_div a b"] by simp

lemma ceil_div_less: "0 < b \<Longrightarrow> ceil_div a b * b < a + b"
  by (rule le_less_trans [OF div_times_less_eq_dividend [of "a + b - 1" b, folded ceil_div_def]]) simp

lemma ceil_div_exact [simp]: "0 < b \<Longrightarrow> ceil_div (a * b) b = a"
  by (rule antisym) (use ceil_div_le_iff [of b "a * b"] le_ceil_div [of b "a * b"] in auto)

lemma ceil_div_mono: "0 < b \<Longrightarrow> a \<le> a' \<Longrightarrow> ceil_div a b \<le> ceil_div a' b"
  by (simp add: ceil_div_def div_le_mono)

lemma div_le_ceil_div: "a div b \<le> ceil_div a b"
  by (cases "b = 0") (auto simp: ceil_div_def intro: div_le_mono)

lemma ceil_div_le_Suc_div: "0 < b \<Longrightarrow> ceil_div a b \<le> Suc (a div b)"
  by (simp add: ceil_div_le_iff) (metis dividend_less_div_times add.commute less_imp_le mult_Suc)

lemma div_mult_le': "(a :: nat) div b * b \<le> a"
  by (rule div_times_less_eq_dividend)

lemma less_div_mult: "0 < b \<Longrightarrow> (a :: nat) < (a div b + 1) * b"
  by (metis dividend_less_div_times add.commute mult_Suc Suc_eq_plus1)

end
