(* ===== verification/Num_Lib.thy ===== *)
theory Num_Lib imports Prelude begin

text \<open>
  The two arithmetic packages the program is built on, neither of which is part of the
  repository: the crate \<open>fixed\<close>, whose type \<open>U68F60\<close> is the program's \<open>Fraction\<close>, and the
  macro \<open>construct_uint!\<close> of the crate \<open>uint\<close>, which makes its 256-bit integers.
  A \<open>Fraction\<close> is represented by its bits (\<open>to_bits\<close> and \<open>from_bits\<close> are the identity):
  the value is the bits divided by \<open>2 ^ 60\<close>. The operations are a parameter of the model, a
  record of functions; the locale \<open>num_lib\<close> states what their documentation promises.
  The workspace builds the crate \<open>fixed\<close> with \<open>debug-assertions = true\<close>, so that an
  operator whose result does not fit panics.
\<close>

section \<open>The operations\<close>

type_synonym frac = u128

definition fx_scale :: nat where
  "fx_scale = 2 ^ 60"

definition fx_one :: frac where
  "fx_one = 2 ^ 60"

record numlib =
  fx_add :: "frac \<Rightarrow> frac \<Rightarrow> frac res"
  fx_sub :: "frac \<Rightarrow> frac \<Rightarrow> frac res"
  fx_mul :: "frac \<Rightarrow> frac \<Rightarrow> frac res"
  fx_div :: "frac \<Rightarrow> frac \<Rightarrow> frac res"
  fx_mul_int :: "frac \<Rightarrow> u128 \<Rightarrow> frac res"
  fx_div_int :: "frac \<Rightarrow> u128 \<Rightarrow> frac res"
  fx_checked_sub :: "frac \<Rightarrow> frac \<Rightarrow> frac option"
  fx_checked_mul :: "frac \<Rightarrow> frac \<Rightarrow> frac option"
  fx_saturating_sub :: "frac \<Rightarrow> frac \<Rightarrow> frac"
  fx_from_num :: "u128 \<Rightarrow> frac res"
  fx_const_from_int :: "u128 \<Rightarrow> frac res"
  fx_unwrapped_div_int :: "frac \<Rightarrow> u128 \<Rightarrow> frac res"
  fx_floor :: "frac \<Rightarrow> frac"
  fx_ceil :: "frac \<Rightarrow> frac res"
  fx_round :: "frac \<Rightarrow> frac res"
  fx_to_u64 :: "frac \<Rightarrow> u64 res"
  fx_to_u128 :: "frac \<Rightarrow> u128"
  fx_checked_to_u64 :: "frac \<Rightarrow> u64 option"
  fx_checked_to_u32 :: "frac \<Rightarrow> u32 option"
  u256_add :: "u256 \<Rightarrow> u256 \<Rightarrow> u256 res"
  u256_sub :: "u256 \<Rightarrow> u256 \<Rightarrow> u256 res"
  u256_mul :: "u256 \<Rightarrow> u256 \<Rightarrow> u256 res"
  u256_div :: "u256 \<Rightarrow> u256 \<Rightarrow> u256 res"
  u256_checked_add :: "u256 \<Rightarrow> u256 \<Rightarrow> u256 option"
  u256_checked_mul :: "u256 \<Rightarrow> u256 \<Rightarrow> u256 option"
  u256_checked_div :: "u256 \<Rightarrow> u256 \<Rightarrow> u256 option"
  u256_shl :: "u256 \<Rightarrow> nat \<Rightarrow> u256"
  u256_shr :: "u256 \<Rightarrow> nat \<Rightarrow> u256"
  u256_from :: "u128 \<Rightarrow> u256"
  u256_to_u128 :: "u256 \<Rightarrow> u128 option"

lemma fx_scale_pos [simp]: "0 < fx_scale"
  by (simp add: fx_scale_def)

lemma unat_fx_one [simp]: "unat fx_one = fx_scale"
  by (simp add: fx_one_def fx_scale_def)

lemma u32_scale_lt: "unat (x :: u32) * fx_scale < 2 ^ 128"
proof -
  have "unat x * fx_scale < 2 ^ 32 * fx_scale" using unat_lt [of x] by simp
  then show ?thesis by (simp add: fx_scale_def)
qed

lemma u64_scale_lt: "unat (n :: u64) * fx_scale < 2 ^ 128"
proof -
  have "unat n * fx_scale < 2 ^ 64 * fx_scale" using unat_lt [of n] by simp
  then show ?thesis by (simp add: fx_scale_def)
qed

text \<open>The product of two fixed-point values, rounded down.\<close>

definition fmul :: "nat \<Rightarrow> nat \<Rightarrow> nat" where
  "fmul a b = a * b div fx_scale"

lemma fmul_mono: "a \<le> a' \<Longrightarrow> b \<le> b' \<Longrightarrow> fmul a b \<le> fmul a' b'"
  by (simp add: fmul_def div_le_mono mult_le_mono)

lemma fmul_one_le: "fx_scale \<le> b \<Longrightarrow> a \<le> fmul a b"
  using fmul_mono [of a a fx_scale b] by (simp add: fmul_def)

lemma fmul_le_left: "b \<le> fx_scale \<Longrightarrow> fmul a b \<le> a"
  using fmul_mono [of a a b fx_scale] by (simp add: fmul_def)

section \<open>What the crates document\<close>

locale num_lib =
  fixes L :: numlib
  assumes add: "fx_add L a b = to_word (unat a + unat b)"
    and sub: "fx_sub L a b = (if b \<le> a then Inr (a - b) else Inl Panic)"
    and mul: "fx_mul L a b = to_word (unat a * unat b div fx_scale)"
    and div: "fx_div L a b = (if b = 0 then Inl Panic else to_word (unat a * fx_scale div unat b))"
    and mul_int: "fx_mul_int L a n = to_word (unat a * unat n)"
    and div_int: "fx_div_int L a n = (if n = 0 then Inl Panic else Inr (a div n))"
    and checked_sub: "fx_checked_sub L a b = (if b \<le> a then Some (a - b) else None)"
    and checked_mul: "fx_checked_mul L a b = to_word_opt (unat a * unat b div fx_scale)"
    and saturating_sub: "fx_saturating_sub L a b = (if b \<le> a then a - b else 0)"
    and from_num: "fx_from_num L n = to_word (unat n * fx_scale)"
    and const_from_int: "fx_const_from_int L n = to_word (unat n * fx_scale)"
    and unwrapped_div_int:
      "fx_unwrapped_div_int L a n = (if n = 0 then Inl Panic else Inr (a div n))"
    and floor: "fx_floor L a = of_nat (unat a div fx_scale * fx_scale)"
    and ceil: "fx_ceil L a = to_word (ceil_div (unat a) fx_scale * fx_scale)"
    and round: "fx_round L a = to_word ((unat a + fx_scale div 2) div fx_scale * fx_scale)"
    and to_u64: "fx_to_u64 L a = to_word (unat a div fx_scale)"
    and to_u128: "fx_to_u128 L a = of_nat (unat a div fx_scale)"
    and checked_to_u64: "fx_checked_to_u64 L a = to_word_opt (unat a div fx_scale)"
    and checked_to_u32: "fx_checked_to_u32 L a = to_word_opt (unat a div fx_scale)"
    and add256: "u256_add L x y = to_word (unat x + unat y)"
    and sub256: "u256_sub L x y = (if y \<le> x then Inr (x - y) else Inl Panic)"
    and mul256: "u256_mul L x y = to_word (unat x * unat y)"
    and div256: "u256_div L x y = (if y = 0 then Inl Panic else Inr (x div y))"
    and checked_add256: "u256_checked_add L x y = to_word_opt (unat x + unat y)"
    and checked_mul256: "u256_checked_mul L x y = to_word_opt (unat x * unat y)"
    and checked_div256: "u256_checked_div L x y = (if y = 0 then None else Some (x div y))"
    and shl256: "u256_shl L x k = push_bit k x"
    and shr256: "u256_shr L x k = drop_bit k x"
    and from_u128: "u256_from L n = ucast n"
    and to_u128_256: "u256_to_u128 L x = to_word_opt (unat x)"

text \<open>
  Read over naturals: when an operation returns, and what. Products and quotients of values
  are never taken in a word.
\<close>

context num_lib begin

lemma fx_eq [arith_simps]:
  "fx_add L a b = Inr c \<longleftrightarrow> unat c = unat a + unat b"
  "fx_sub L a b = Inr c \<longleftrightarrow> unat b \<le> unat a \<and> unat c = unat a - unat b"
  "fx_mul L a b = Inr c \<longleftrightarrow> unat c = unat a * unat b div fx_scale"
  "fx_div L a b = Inr c \<longleftrightarrow> b \<noteq> 0 \<and> unat c = unat a * fx_scale div unat b"
  "fx_mul_int L a n = Inr c \<longleftrightarrow> unat c = unat a * unat n"
  "fx_div_int L a n = Inr c \<longleftrightarrow> n \<noteq> 0 \<and> unat c = unat a div unat n"
  "fx_from_num L n = Inr c \<longleftrightarrow> unat c = unat n * fx_scale"
  "fx_const_from_int L n = Inr c \<longleftrightarrow> unat c = unat n * fx_scale"
  "fx_unwrapped_div_int L a n = Inr c \<longleftrightarrow> n \<noteq> 0 \<and> unat c = unat a div unat n"
  "fx_ceil L a = Inr c \<longleftrightarrow> unat c = ceil_div (unat a) fx_scale * fx_scale"
  "fx_round L a = Inr c \<longleftrightarrow> unat c = (unat a + fx_scale div 2) div fx_scale * fx_scale"
  "fx_to_u64 L a = Inr w \<longleftrightarrow> unat w = unat a div fx_scale"
  by (auto simp: add sub mul div mul_int div_int from_num const_from_int unwrapped_div_int ceil
      round to_u64 arith_simps
      word_le_nat_alt unat_sub unat_div intro: word_unat_eqI)

lemma fx_opt_eq [arith_simps]:
  "fx_checked_sub L a b = Some c \<longleftrightarrow> unat b \<le> unat a \<and> unat c = unat a - unat b"
  "fx_checked_mul L a b = Some c \<longleftrightarrow> unat c = unat a * unat b div fx_scale"
  "fx_checked_to_u64 L a = Some w \<longleftrightarrow> unat w = unat a div fx_scale"
  "fx_checked_to_u32 L a = Some v \<longleftrightarrow> unat v = unat a div fx_scale"
  by (auto simp: checked_sub checked_mul checked_to_u64 checked_to_u32 arith_simps
      word_le_nat_alt unat_sub intro: word_unat_eqI)

lemma fx_err [arith_simps]:
  "fx_add L a b = Inl e \<longleftrightarrow> 2 ^ 128 \<le> unat a + unat b \<and> e = Panic"
  "fx_sub L a b = Inl e \<longleftrightarrow> unat a < unat b \<and> e = Panic"
  "fx_mul L a b = Inl e \<longleftrightarrow> 2 ^ 128 \<le> unat a * unat b div fx_scale \<and> e = Panic"
  "fx_div L a b = Inl e \<longleftrightarrow> (b = 0 \<or> 2 ^ 128 \<le> unat a * fx_scale div unat b) \<and> e = Panic"
  "fx_mul_int L a n = Inl e \<longleftrightarrow> 2 ^ 128 \<le> unat a * unat n \<and> e = Panic"
  "fx_div_int L a n = Inl e \<longleftrightarrow> n = 0 \<and> e = Panic"
  "fx_from_num L n = Inl e \<longleftrightarrow> 2 ^ 128 \<le> unat n * fx_scale \<and> e = Panic"
  "fx_ceil L a = Inl e \<longleftrightarrow> 2 ^ 128 \<le> ceil_div (unat a) fx_scale * fx_scale \<and> e = Panic"
  "fx_to_u64 L a = Inl e \<longleftrightarrow> 2 ^ 64 \<le> unat a div fx_scale \<and> e = Panic"
  "fx_checked_sub L a b = None \<longleftrightarrow> unat a < unat b"
  "fx_checked_mul L a b = None \<longleftrightarrow> 2 ^ 128 \<le> unat a * unat b div fx_scale"
  "fx_checked_to_u64 L a = None \<longleftrightarrow> 2 ^ 64 \<le> unat a div fx_scale"
  "fx_checked_to_u32 L a = None \<longleftrightarrow> 2 ^ 32 \<le> unat a div fx_scale"
  by (auto simp: add sub mul div mul_int div_int from_num ceil to_u64 checked_sub checked_mul
      checked_to_u64 checked_to_u32 arith_simps word_le_nat_alt)

lemma unat_fx_saturating_sub [simp]: "unat (fx_saturating_sub L a b) = unat a - unat b"
  by (simp add: saturating_sub word_le_nat_alt unat_sub)

lemma unat_fx_floor [simp]: "unat (fx_floor L a) = unat a div fx_scale * fx_scale"
  by (simp only: floor, rule unat_of_nat_lt)
     (rule le_less_trans [OF div_times_less_eq_dividend unat_lt])

lemma unat_fx_to_u128 [simp]: "unat (fx_to_u128 L a) = unat a div fx_scale"
  by (simp only: to_u128, rule unat_of_nat_lt) (rule le_less_trans [OF div_le_dividend unat_lt])

lemma u256_eq [arith_simps]:
  "u256_add L x y = Inr z \<longleftrightarrow> unat z = unat x + unat y"
  "u256_sub L x y = Inr z \<longleftrightarrow> unat y \<le> unat x \<and> unat z = unat x - unat y"
  "u256_mul L x y = Inr z \<longleftrightarrow> unat z = unat x * unat y"
  "u256_div L x y = Inr z \<longleftrightarrow> y \<noteq> 0 \<and> unat z = unat x div unat y"
  "u256_checked_add L x y = Some z \<longleftrightarrow> unat z = unat x + unat y"
  "u256_checked_mul L x y = Some z \<longleftrightarrow> unat z = unat x * unat y"
  "u256_checked_div L x y = Some z \<longleftrightarrow> y \<noteq> 0 \<and> unat z = unat x div unat y"
  "u256_to_u128 L x = Some n \<longleftrightarrow> unat n = unat x"
  by (auto simp: add256 sub256 mul256 div256 checked_add256 checked_mul256 checked_div256
      to_u128_256 arith_simps word_le_nat_alt unat_sub unat_div intro: word_unat_eqI)

lemma u256_err [arith_simps]:
  "u256_add L x y = Inl e \<longleftrightarrow> 2 ^ 256 \<le> unat x + unat y \<and> e = Panic"
  "u256_sub L x y = Inl e \<longleftrightarrow> unat x < unat y \<and> e = Panic"
  "u256_mul L x y = Inl e \<longleftrightarrow> 2 ^ 256 \<le> unat x * unat y \<and> e = Panic"
  "u256_div L x y = Inl e \<longleftrightarrow> y = 0 \<and> e = Panic"
  "u256_checked_add L x y = None \<longleftrightarrow> 2 ^ 256 \<le> unat x + unat y"
  "u256_checked_mul L x y = None \<longleftrightarrow> 2 ^ 256 \<le> unat x * unat y"
  "u256_checked_div L x y = None \<longleftrightarrow> y = 0"
  "u256_to_u128 L x = None \<longleftrightarrow> 2 ^ 128 \<le> unat x"
  by (auto simp: add256 sub256 mul256 div256 checked_add256 checked_mul256 checked_div256
      to_u128_256 arith_simps word_le_nat_alt)

lemma unat_u256_from [simp]: "unat (u256_from L n) = unat n"
  by (simp add: from_u128)

lemma unat_u256_shr [simp]: "unat (u256_shr L x k) = unat x div 2 ^ k"
  by (simp only: shr256 unat_drop_bit_eq) (rule drop_bit_eq_div)

lemma u256_shl_mod: "unat (u256_shl L x k) = unat x * 2 ^ k mod 2 ^ 256"
  by (simp only: shl256 unsigned_push_bit_eq) (simp add: take_bit_eq_mod push_bit_eq_mult)

lemma unat_u256_shl: "unat x * 2 ^ k < 2 ^ 256 \<Longrightarrow> unat (u256_shl L x k) = unat x * 2 ^ k"
  by (simp only: u256_shl_mod mod_less)

end

section \<open>The documented operations as functions\<close>

text \<open>
  A provider of the interface that computes: the arithmetic of the documentation itself.
  Witnesses are evaluated with it.
\<close>

definition std_lib :: numlib where
  "std_lib = \<lparr>
    fx_add = (\<lambda>a b. to_word (unat a + unat b)),
    fx_sub = (\<lambda>a b. if b \<le> a then Inr (a - b) else Inl Panic),
    fx_mul = (\<lambda>a b. to_word (unat a * unat b div fx_scale)),
    fx_div = (\<lambda>a b. if b = 0 then Inl Panic else to_word (unat a * fx_scale div unat b)),
    fx_mul_int = (\<lambda>a n. to_word (unat a * unat n)),
    fx_div_int = (\<lambda>a n. if n = 0 then Inl Panic else Inr (a div n)),
    fx_checked_sub = (\<lambda>a b. if b \<le> a then Some (a - b) else None),
    fx_checked_mul = (\<lambda>a b. to_word_opt (unat a * unat b div fx_scale)),
    fx_saturating_sub = (\<lambda>a b. if b \<le> a then a - b else 0),
    fx_from_num = (\<lambda>n. to_word (unat n * fx_scale)),
    fx_const_from_int = (\<lambda>n. to_word (unat n * fx_scale)),
    fx_unwrapped_div_int = (\<lambda>a n. if n = 0 then Inl Panic else Inr (a div n)),
    fx_floor = (\<lambda>a. of_nat (unat a div fx_scale * fx_scale)),
    fx_ceil = (\<lambda>a. to_word (ceil_div (unat a) fx_scale * fx_scale)),
    fx_round = (\<lambda>a. to_word ((unat a + fx_scale div 2) div fx_scale * fx_scale)),
    fx_to_u64 = (\<lambda>a. to_word (unat a div fx_scale)),
    fx_to_u128 = (\<lambda>a. of_nat (unat a div fx_scale)),
    fx_checked_to_u64 = (\<lambda>a. to_word_opt (unat a div fx_scale)),
    fx_checked_to_u32 = (\<lambda>a. to_word_opt (unat a div fx_scale)),
    u256_add = (\<lambda>x y. to_word (unat x + unat y)),
    u256_sub = (\<lambda>x y. if y \<le> x then Inr (x - y) else Inl Panic),
    u256_mul = (\<lambda>x y. to_word (unat x * unat y)),
    u256_div = (\<lambda>x y. if y = 0 then Inl Panic else Inr (x div y)),
    u256_checked_add = (\<lambda>x y. to_word_opt (unat x + unat y)),
    u256_checked_mul = (\<lambda>x y. to_word_opt (unat x * unat y)),
    u256_checked_div = (\<lambda>x y. if y = 0 then None else Some (x div y)),
    u256_shl = (\<lambda>x k. push_bit k x),
    u256_shr = (\<lambda>x k. drop_bit k x),
    u256_from = (\<lambda>n. ucast n),
    u256_to_u128 = (\<lambda>x. to_word_opt (unat x)) \<rparr>"

interpretation std: num_lib std_lib
  by unfold_locales (simp_all add: std_lib_def)

lemmas std_eval = std.add std.sub std.mul std.div std.mul_int std.div_int std.checked_sub
  std.checked_mul std.saturating_sub std.from_num std.const_from_int std.unwrapped_div_int std.floor std.ceil std.round std.to_u64
  std.to_u128 std.checked_to_u64 std.checked_to_u32 std.add256 std.sub256 std.mul256 std.div256
  std.checked_add256 std.checked_mul256 std.checked_div256 std.shl256 std.shr256 std.from_u128
  std.to_u128_256 to_word_def to_word_opt_def fx_scale_def fx_one_def ceil_div_def

end
