(* ===== verification/Fraction.thy ===== *)
theory Fraction imports Num_Lib begin

text \<open>
  The fixed-point helpers of \<open>utils/fraction.rs\<close>: the extension trait of \<open>Fraction\<close>, the
  256-bit \<open>BigFraction\<close> and its operators. Every operation is given by an equivalence over
  naturals that says when it returns and what; the components use only those.
\<close>

section \<open>Fraction\<close>

definition FRACTION_ONE_SCALED :: u128 where
  "FRACTION_ONE_SCALED = fx_one"

definition FRAC_NBITS :: nat where
  "FRAC_NBITS = 60"

lemma scale_eq_nbits: "2 ^ FRAC_NBITS = fx_scale"
  by (simp add: FRAC_NBITS_def fx_scale_def)

definition fraction_lit :: "nat \<Rightarrow> frac" where
  "fraction_lit n = of_nat (n * fx_scale)"

lemma unat_fraction_lit [simp]: "n < 2 ^ 68 \<Longrightarrow> unat (fraction_lit n) = n * fx_scale"
  unfolding fraction_lit_def fx_scale_def by (rule unat_of_nat_lt) simp

text \<open>\<open>pow_fraction\<close>: the loop \<open>while n > 1\<close> with its early returns (the \<open>?\<close> of the source).\<close>

fun pow_loop :: "numlib \<Rightarrow> nat \<Rightarrow> frac \<Rightarrow> frac \<Rightarrow> (frac \<times> frac) option" where
  "pow_loop L n x y =
     (if n > 1 then do {
        y' \<leftarrow> (if n mod 2 = 1 then fx_checked_mul L x y else Some y);
        x' \<leftarrow> fx_checked_mul L x x;
        pow_loop L (n div 2) x' y'
      } else Some (x, y))"

declare pow_loop.simps [simp del]

definition pow_fraction :: "numlib \<Rightarrow> frac \<Rightarrow> u32 \<Rightarrow> frac option" where
  "pow_fraction L f pw =
     (if pw = 0 then Some fx_one
      else do {
        (x, y) \<leftarrow> pow_loop L (unat pw) f fx_one;
        fx_checked_mul L x y
      })"

definition checked_pow :: "numlib \<Rightarrow> frac \<Rightarrow> u32 \<Rightarrow> frac option" where
  "checked_pow L f pw = pow_fraction L f pw"

definition bps_u128_to_fraction :: "numlib \<Rightarrow> u128 \<Rightarrow> frac res" where
  "bps_u128_to_fraction L bps =
     (if bps = 10000 then Inr fx_one
      else rbind (fx_const_from_int L bps) (\<lambda>f. fx_unwrapped_div_int L f 10000))"

definition pct_u128_to_fraction :: "numlib \<Rightarrow> u128 \<Rightarrow> frac res" where
  "pct_u128_to_fraction L percent =
     (if percent = 100 then Inr fx_one
      else rbind (fx_const_from_int L percent) (\<lambda>f. fx_unwrapped_div_int L f 100))"

text \<open>
  \<open>to_percent\<close> and \<open>to_bps\<close> are generic in the integer they convert to; \<open>conv\<close> is that
  conversion. Rounding may panic, so the option is inside a result.
\<close>

definition to_percent :: "numlib \<Rightarrow> (frac \<Rightarrow> 'a option) \<Rightarrow> frac \<Rightarrow> 'a option res" where
  "to_percent L conv f =
     (case fx_checked_mul L f (fraction_lit 100) of
        None \<Rightarrow> Inr None
      | Some m \<Rightarrow> rbind (fx_round L m) (\<lambda>r. Inr (conv r)))"

definition to_bps :: "numlib \<Rightarrow> (frac \<Rightarrow> 'a option) \<Rightarrow> frac \<Rightarrow> 'a option res" where
  "to_bps L conv f =
     (case fx_checked_mul L f (fraction_lit 10000) of
        None \<Rightarrow> Inr None
      | Some m \<Rightarrow> rbind (fx_round L m) (\<lambda>r. Inr (conv r)))"

definition from_percent :: "numlib \<Rightarrow> u128 \<Rightarrow> frac res" where
  "from_percent L percent = rbind (fx_from_num L percent) (\<lambda>p. fx_div_int L p 100)"

definition from_bps :: "numlib \<Rightarrow> u128 \<Rightarrow> frac res" where
  "from_bps L bps = rbind (fx_from_num L bps) (\<lambda>b. fx_div_int L b 10000)"

definition mul_int_ratio :: "numlib \<Rightarrow> frac \<Rightarrow> u128 \<Rightarrow> u128 \<Rightarrow> frac res" where
  "mul_int_ratio L f numerator denominator =
     rbind (fx_mul_int L f numerator) (\<lambda>p. fx_div_int L p denominator)"

definition full_mul_int_ratio :: "numlib \<Rightarrow> frac \<Rightarrow> u128 \<Rightarrow> u128 \<Rightarrow> frac res" where
  "full_mul_int_ratio L f numerator denominator =
     rbind (u256_mul L (u256_from L f) (u256_from L numerator)) (\<lambda>p.
     rbind (u256_div L p (u256_from L denominator)) (\<lambda>q.
     ok_or (u256_to_u128 L q) Panic))"

definition full_mul_int_ratio_ceil :: "numlib \<Rightarrow> frac \<Rightarrow> u128 \<Rightarrow> u128 \<Rightarrow> frac res" where
  "full_mul_int_ratio_ceil L f numerator denominator =
     rbind (u256_mul L (u256_from L f) (u256_from L numerator)) (\<lambda>p.
     rbind (u256_add L p (u256_from L denominator)) (\<lambda>s.
     rbind (u256_sub L s (u256_from L 1)) (\<lambda>s1.
     rbind (u256_div L s1 (u256_from L denominator)) (\<lambda>q.
     ok_or (u256_to_u128 L q) Panic))))"

definition div_ceil :: "numlib \<Rightarrow> frac \<Rightarrow> frac \<Rightarrow> frac res" where
  "div_ceil L self denum =
     rbind (sub_ov denum 1) (\<lambda>denum1.
     rbind (u256_add L (u256_shl L (u256_from L self) FRAC_NBITS) (u256_from L denum1)) (\<lambda>s.
     rbind (u256_div L s (u256_from L denum)) (\<lambda>q.
     ok_or (u256_to_u128 L q) Panic)))"

definition to_floor :: "numlib \<Rightarrow> frac \<Rightarrow> u64 res" where
  "to_floor L f = fx_to_u64 L (fx_floor L f)"

definition to_ceil :: "numlib \<Rightarrow> frac \<Rightarrow> u64 res" where
  "to_ceil L f = rbind (fx_ceil L f) (fx_to_u64 L)"

definition to_round :: "numlib \<Rightarrow> frac \<Rightarrow> u64 res" where
  "to_round L f = rbind (fx_round L f) (fx_to_u64 L)"

definition try_to_floor :: "numlib \<Rightarrow> frac \<Rightarrow> u64 option" where
  "try_to_floor L f = fx_checked_to_u64 L (fx_floor L f)"

definition try_to_ceil :: "numlib \<Rightarrow> frac \<Rightarrow> u64 option res" where
  "try_to_ceil L f = rbind (fx_ceil L f) (\<lambda>c. Inr (fx_checked_to_u64 L c))"

definition try_to_round :: "numlib \<Rightarrow> frac \<Rightarrow> u64 option res" where
  "try_to_round L f = rbind (fx_round L f) (\<lambda>c. Inr (fx_checked_to_u64 L c))"

text \<open>\<open>FractionDisplay\<close>: the integer part and the four decimals that \<open>fmt\<close> prints.\<close>

definition ROUND_COMP :: nat where
  "ROUND_COMP = 2 ^ 60 div (10000 * 2)"

definition fraction_display :: "frac \<Rightarrow> (nat \<times> nat) res" where
  "fraction_display f =
     rbind (to_word (unat f + ROUND_COMP)) (\<lambda>sf :: u128.
       let i = unat sf div 2 ^ 60;
           f_p = unat sf mod 2 ^ 60;
           f_p' = (f_p div 2 ^ 30 * 10000) div 2 ^ 30
       in Inr (i, f_p'))"

text \<open>\<open>Fraction::from(u64)\<close>.\<close>

definition frac_of_u64 :: "numlib \<Rightarrow> u64 \<Rightarrow> frac res" where
  "frac_of_u64 L n = fx_from_num L (ucast n)"

section \<open>BigFraction\<close>

datatype big_fraction = BigFraction (bf_bits: u256)

instantiation big_fraction :: linorder
begin

definition less_eq_big_fraction :: "big_fraction \<Rightarrow> big_fraction \<Rightarrow> bool" where
  "less_eq_big_fraction a b \<longleftrightarrow> bf_bits a \<le> bf_bits b"

definition less_big_fraction :: "big_fraction \<Rightarrow> big_fraction \<Rightarrow> bool" where
  "less_big_fraction a b \<longleftrightarrow> bf_bits a < bf_bits b"

instance
  by standard (auto simp: less_eq_big_fraction_def less_big_fraction_def big_fraction.expand)

end

abbreviation bf_val :: "big_fraction \<Rightarrow> nat" where
  "bf_val x \<equiv> unat (bf_bits x)"

definition panicking_shl :: "numlib \<Rightarrow> u256 \<Rightarrow> nat \<Rightarrow> u256 res" where
  "panicking_shl L number bit_count =
     (let result = u256_shl L number bit_count;
          recovered_number = u256_shr L result bit_count
      in if recovered_number \<noteq> number then Inl Panic else Inr result)"

definition bf_from :: "numlib \<Rightarrow> frac \<Rightarrow> big_fraction" where
  "bf_from L f = BigFraction (u256_from L f)"

definition bf_try_into :: "numlib \<Rightarrow> big_fraction \<Rightarrow> frac res" where
  "bf_try_into L v = ok_or (u256_to_u128 L (bf_bits v)) (LendingErr IntegerOverflow)"

definition bf_from_num :: "numlib \<Rightarrow> u128 \<Rightarrow> big_fraction res" where
  "bf_from_num L num =
     rbind (panicking_shl L (u256_from L num) FRAC_NBITS) (\<lambda>sf. Inr (BigFraction sf))"

definition bf_div_ceil :: "numlib \<Rightarrow> big_fraction \<Rightarrow> big_fraction \<Rightarrow> big_fraction res" where
  "bf_div_ceil L self rhs =
     rbind (panicking_shl L (bf_bits self) FRAC_NBITS) (\<lambda>extra_scaled.
     rbind (u256_add L extra_scaled (bf_bits rhs)) (\<lambda>s.
     rbind (u256_sub L s (u256_from L 1)) (\<lambda>s1.
     rbind (u256_div L s1 (bf_bits rhs)) (\<lambda>q. Inr (BigFraction q)))))"

definition bf_add :: "numlib \<Rightarrow> big_fraction \<Rightarrow> big_fraction \<Rightarrow> big_fraction res" where
  "bf_add L a b = rbind (u256_add L (bf_bits a) (bf_bits b)) (\<lambda>s. Inr (BigFraction s))"

definition bf_sub :: "numlib \<Rightarrow> big_fraction \<Rightarrow> big_fraction \<Rightarrow> big_fraction res" where
  "bf_sub L a b = rbind (u256_sub L (bf_bits a) (bf_bits b)) (\<lambda>s. Inr (BigFraction s))"

definition bf_mul :: "numlib \<Rightarrow> big_fraction \<Rightarrow> big_fraction \<Rightarrow> big_fraction res" where
  "bf_mul L a b =
     rbind (u256_mul L (bf_bits a) (bf_bits b)) (\<lambda>extra_scaled.
     Inr (BigFraction (u256_shr L extra_scaled FRAC_NBITS)))"

definition bf_div :: "numlib \<Rightarrow> big_fraction \<Rightarrow> big_fraction \<Rightarrow> big_fraction res" where
  "bf_div L a b =
     rbind (panicking_shl L (bf_bits a) FRAC_NBITS) (\<lambda>extra_scaled.
     rbind (u256_div L extra_scaled (bf_bits b)) (\<lambda>q. Inr (BigFraction q)))"

definition bf_div_fraction :: "numlib \<Rightarrow> big_fraction \<Rightarrow> frac \<Rightarrow> big_fraction res" where
  "bf_div_fraction L a b =
     rbind (panicking_shl L (bf_bits a) FRAC_NBITS) (\<lambda>extra_scaled.
     rbind (u256_div L extra_scaled (u256_from L b)) (\<lambda>q. Inr (BigFraction q)))"

definition bf_mul_int :: "numlib \<Rightarrow> big_fraction \<Rightarrow> u128 \<Rightarrow> big_fraction res" where
  "bf_mul_int L a n = rbind (u256_mul L (bf_bits a) (u256_from L n)) (\<lambda>p. Inr (BigFraction p))"

definition bf_div_int :: "numlib \<Rightarrow> big_fraction \<Rightarrow> u128 \<Rightarrow> big_fraction res" where
  "bf_div_int L a n = rbind (u256_div L (bf_bits a) (u256_from L n)) (\<lambda>q. Inr (BigFraction q))"

section \<open>What the operations compute\<close>

context num_lib begin

lemma from_u128_zero_iff [simp]: "u256_from L n = 0 \<longleftrightarrow> n = 0"
  by (metis unat_u256_from unat_eq_zero)

lemma u256_shl_frac: "unat (u256_shl L (u256_from L f) FRAC_NBITS) = unat f * fx_scale"
  using unat_lt [of f] by (subst unat_u256_shl) (simp_all add: FRAC_NBITS_def fx_scale_def)

lemma mul_u128_lt: "unat (a :: u128) * unat (b :: u128) < 2 ^ 256"
  using mult_strict_mono [OF unat_lt [of a] unat_lt [of b]] by simp

lemma from_percent_eq [arith_simps]:
  "from_percent L p = Inr f \<longleftrightarrow> unat p * fx_scale < 2 ^ 128 \<and> unat f = unat p * fx_scale div 100"
  by (rule res_iffI) (auto simp: from_percent_def res_simps arith_simps dest: unat_eq_lt)

lemma from_bps_eq [arith_simps]:
  "from_bps L p = Inr f \<longleftrightarrow> unat p * fx_scale < 2 ^ 128 \<and> unat f = unat p * fx_scale div 10000"
  by (rule res_iffI) (auto simp: from_bps_def res_simps arith_simps dest: unat_eq_lt)

lemma mul_int_ratio_eq [arith_simps]:
  "mul_int_ratio L f n d = Inr r \<longleftrightarrow>
     (d \<noteq> 0 \<and> unat f * unat n < 2 ^ 128) \<and> unat r = unat f * unat n div unat d"
  by (rule res_iffI) (auto simp: mul_int_ratio_def res_simps arith_simps dest: unat_eq_lt)

lemma full_mul_int_ratio_eq [arith_simps]:
  "full_mul_int_ratio L f n d = Inr r \<longleftrightarrow> d \<noteq> 0 \<and> unat r = unat f * unat n div unat d"
  using mul_u128_lt [of f n]
  by (intro res_iffI) (auto simp: full_mul_int_ratio_def res_simps arith_simps dest: unat_eq_lt)

lemma full_mul_int_ratio_ceil_eq [arith_simps]:
  "full_mul_int_ratio_ceil L f n d = Inr r \<longleftrightarrow>
     (d \<noteq> 0 \<and> unat f * unat n + unat d < 2 ^ 256) \<and> unat r = ceil_div (unat f * unat n) (unat d)"
  by (rule res_iffI)
     (auto simp: full_mul_int_ratio_ceil_def res_simps arith_simps ceil_div_def unat_gt_0
       dest: unat_eq_lt)

lemma div_ceil_eq [arith_simps]:
  "div_ceil L a d = Inr r \<longleftrightarrow> d \<noteq> 0 \<and> unat r = ceil_div (unat a * fx_scale) (unat d)"
  using u128_lt [of a] u128_lt [of d]
  by (intro res_iffI)
     (auto simp: div_ceil_def res_simps arith_simps ceil_div_def u256_shl_frac unat_gt_0
       fx_scale_def dest: unat_eq_lt)

lemma to_floor_eq [arith_simps]: "to_floor L f = Inr w \<longleftrightarrow> unat w = unat f div fx_scale"
  by (auto simp: to_floor_def arith_simps)

lemma try_to_floor_eq [arith_simps]:
  "try_to_floor L f = Some w \<longleftrightarrow> unat w = unat f div fx_scale"
  by (auto simp: try_to_floor_def arith_simps)

lemma to_ceil_eq [arith_simps]:
  "to_ceil L f = Inr w \<longleftrightarrow> unat w = ceil_div (unat f) fx_scale"
proof -
  have "to_ceil L f = Inr w \<longleftrightarrow> True \<and> unat w = ceil_div (unat f) fx_scale"
    using u64_lt [of w]
    by (intro res_iffI) (auto simp: to_ceil_def res_simps arith_simps fx_scale_def)
  then show ?thesis by simp
qed

lemma to_round_eq [arith_simps]:
  "to_round L f = Inr w \<longleftrightarrow> unat w = (unat f + fx_scale div 2) div fx_scale"
proof -
  have "to_round L f = Inr w \<longleftrightarrow> True \<and> unat w = (unat f + fx_scale div 2) div fx_scale"
    using u64_lt [of w]
    by (intro res_iffI) (auto simp: to_round_def res_simps arith_simps round fx_scale_def)
  then show ?thesis by simp
qed

lemma bf_eqI: "bf_val x = bf_val y \<Longrightarrow> x = y"
  by (simp add: big_fraction.expand word_unat_eqI)

lemma bf_iffI:
  assumes "\<And>r'. m = Inr r' \<Longrightarrow> C \<and> bf_val r' = n"
    and "\<And>e. C \<Longrightarrow> bf_val r = n \<Longrightarrow> m = Inl e \<Longrightarrow> False"
  shows "m = Inr r \<longleftrightarrow> C \<and> bf_val r = n"
  using assms by (cases m) (auto intro: bf_eqI)

lemma bf_from_val [simp]: "bf_val (bf_from L f) = unat f"
  by (simp add: bf_from_def)

lemma bf_from_eq_0 [simp]: "bf_bits (bf_from L f) = 0 \<longleftrightarrow> f = 0"
  by (simp add: bf_from_def)

lemma panicking_shl_eq [arith_simps]:
  "panicking_shl L x k = Inr r \<longleftrightarrow> unat x * 2 ^ k < 2 ^ 256 \<and> unat r = unat x * 2 ^ k"
proof (rule res_iffI)
  fix r' assume "panicking_shl L x k = Inr r'"
  then have r': "r' = u256_shl L x k" and "unat (u256_shr L (u256_shl L x k) k) = unat x"
    by (auto simp: panicking_shl_def Let_def split: if_splits)
  then have "unat x * 2 ^ k mod 2 ^ 256 div 2 ^ k = unat x" by (simp add: u256_shl_mod)
  then have "unat x * 2 ^ k \<le> unat x * 2 ^ k mod 2 ^ 256"
    by (metis div_mult_le')
  then have "unat x * 2 ^ k < 2 ^ 256"
    by (rule le_less_trans) simp
  with r' show "unat x * 2 ^ k < 2 ^ 256 \<and> unat r' = unat x * 2 ^ k"
    by (simp add: unat_u256_shl)
next
  fix e assume "unat x * 2 ^ k < 2 ^ 256" "panicking_shl L x k = Inl e"
  then have "u256_shr L (u256_shl L x k) k \<noteq> x" and lt: "unat x * 2 ^ k < 2 ^ 256"
    by (auto simp: panicking_shl_def Let_def split: if_splits)
  moreover have "u256_shr L (u256_shl L x k) k = x"
    by (rule word_unat_eqI) (use lt in \<open>simp add: unat_u256_shl\<close>)
  ultimately show False by simp
qed

lemma panicking_shl_err [arith_simps]:
  "panicking_shl L x k = Inl e \<longleftrightarrow> 2 ^ 256 \<le> unat x * 2 ^ k \<and> e = Panic"
proof (cases "panicking_shl L x k")
  case (Inl e')
  moreover from Inl have "e' = Panic"
    by (auto simp: panicking_shl_def Let_def split: if_splits)
  moreover have "\<not> unat x * 2 ^ k < 2 ^ 256"
    using Inl panicking_shl_eq [of x k "u256_shl L x k"] by (auto simp: unat_u256_shl)
  ultimately show ?thesis by auto
next
  case (Inr r)
  then show ?thesis using panicking_shl_eq [of x k r] by auto
qed

lemma bf_try_into_eq [arith_simps]: "bf_try_into L x = Inr f \<longleftrightarrow> unat f = bf_val x"
  by (simp add: bf_try_into_def res_simps arith_simps)

lemma bf_from_num_eq [arith_simps]:
  "bf_from_num L n = Inr z \<longleftrightarrow> bf_val z = unat n * fx_scale"
proof -
  have "bf_from_num L n = Inr z \<longleftrightarrow> True \<and> bf_val z = unat n * fx_scale"
    using u128_lt [of n]
    by (intro bf_iffI) (auto simp: bf_from_num_def res_simps arith_simps scale_eq_nbits fx_scale_def)
  then show ?thesis by simp
qed

lemma bf_mul_eq [arith_simps]:
  "bf_mul L x y = Inr z \<longleftrightarrow>
     bf_val x * bf_val y < 2 ^ 256 \<and> bf_val z = bf_val x * bf_val y div fx_scale"
  by (rule bf_iffI) (auto simp: bf_mul_def res_simps arith_simps scale_eq_nbits dest: unat_eq_lt)

lemma bf_div_fraction_eq [arith_simps]:
  "bf_div_fraction L x f = Inr z \<longleftrightarrow>
     (f \<noteq> 0 \<and> bf_val x * fx_scale < 2 ^ 256) \<and> bf_val z = bf_val x * fx_scale div unat f"
  by (rule bf_iffI) (auto simp: bf_div_fraction_def res_simps arith_simps scale_eq_nbits)

lemma bf_div_eq [arith_simps]:
  "bf_div L x y = Inr z \<longleftrightarrow>
     (bf_bits y \<noteq> 0 \<and> bf_val x * fx_scale < 2 ^ 256) \<and> bf_val z = bf_val x * fx_scale div bf_val y"
  by (rule bf_iffI) (auto simp: bf_div_def res_simps arith_simps scale_eq_nbits)

lemma bf_div_ceil_eq [arith_simps]:
  "bf_div_ceil L x y = Inr z \<longleftrightarrow>
     (bf_bits y \<noteq> 0 \<and> bf_val x * fx_scale + bf_val y < 2 ^ 256) \<and>
     bf_val z = ceil_div (bf_val x * fx_scale) (bf_val y)"
  by (rule bf_iffI)
     (auto simp: bf_div_ceil_def res_simps arith_simps scale_eq_nbits ceil_div_def unat_gt_0
       dest: unat_eq_lt)

lemma bf_mul_int_eq [arith_simps]:
  "bf_mul_int L x n = Inr z \<longleftrightarrow>
     bf_val x * unat n < 2 ^ 256 \<and> bf_val z = bf_val x * unat n"
  by (rule bf_iffI) (auto simp: bf_mul_int_def res_simps arith_simps dest: unat_eq_lt)

lemma bf_div_int_eq [arith_simps]:
  "bf_div_int L x n = Inr z \<longleftrightarrow> n \<noteq> 0 \<and> bf_val z = bf_val x div unat n"
  by (rule bf_iffI) (auto simp: bf_div_int_def res_simps arith_simps)

lemma bf_add_eq [arith_simps]:
  "bf_add L x y = Inr z \<longleftrightarrow> bf_val x + bf_val y < 2 ^ 256 \<and> bf_val z = bf_val x + bf_val y"
  by (rule bf_iffI) (auto simp: bf_add_def res_simps arith_simps dest: unat_eq_lt)

lemma bf_sub_eq [arith_simps]:
  "bf_sub L x y = Inr z \<longleftrightarrow> bf_val y \<le> bf_val x \<and> bf_val z = bf_val x - bf_val y"
  by (rule bf_iffI) (auto simp: bf_sub_def res_simps arith_simps)

lemma bf_err [arith_simps]:
  "bf_add L x y = Inl e \<longleftrightarrow> 2 ^ 256 \<le> bf_val x + bf_val y \<and> e = Panic"
  "bf_sub L x y = Inl e \<longleftrightarrow> bf_val x < bf_val y \<and> e = Panic"
  "bf_mul L x y = Inl e \<longleftrightarrow> 2 ^ 256 \<le> bf_val x * bf_val y \<and> e = Panic"
  "bf_mul_int L x n = Inl e \<longleftrightarrow> 2 ^ 256 \<le> bf_val x * unat n \<and> e = Panic"
  "bf_div_int L x n = Inl e \<longleftrightarrow> n = 0 \<and> e = Panic"
  "bf_try_into L x = Inl e \<longleftrightarrow> 2 ^ 128 \<le> bf_val x \<and> e = LendingErr IntegerOverflow"
  "bf_from_num L n \<noteq> Inl e"
  using u128_lt [of n]
  by (auto simp: bf_add_def bf_sub_def bf_mul_def bf_mul_int_def bf_div_int_def
      bf_try_into_def bf_from_num_def res_simps arith_simps scale_eq_nbits fx_scale_def)

lemma bf_div_fraction_err [arith_simps]:
  "bf_div_fraction L x f = Inl e \<longleftrightarrow> (f = 0 \<or> 2 ^ 256 \<le> bf_val x * fx_scale) \<and> e = Panic"
proof (cases "bf_div_fraction L x f")
  case (Inl e')
  then show ?thesis
    by (auto simp: bf_div_fraction_def res_simps arith_simps scale_eq_nbits)
next
  case (Inr z)
  then show ?thesis using bf_div_fraction_eq [of x f z] by auto
qed

lemma bf_div_ceil_err [arith_simps]:
  "bf_div_ceil L x y = Inl e \<longleftrightarrow>
     (bf_bits y = 0 \<or> 2 ^ 256 \<le> bf_val x * fx_scale + bf_val y) \<and> e = Panic"
proof (cases "bf_div_ceil L x y")
  case (Inl e')
  then have "e' = Panic" by (auto simp: bf_div_ceil_def res_simps arith_simps)
  moreover have "bf_bits y = 0 \<or> 2 ^ 256 \<le> bf_val x * fx_scale + bf_val y"
    using Inl by (auto simp: bf_div_ceil_def res_simps arith_simps scale_eq_nbits unat_gt_0 not_less)
  ultimately show ?thesis using Inl by auto
next
  case (Inr z)
  then show ?thesis using bf_div_ceil_eq [of x y z] by auto
qed

lemma to_floor_err [arith_simps]:
  "to_floor L f = Inl e \<longleftrightarrow> 2 ^ 64 \<le> unat f div fx_scale \<and> e = Panic"
  by (auto simp: to_floor_def arith_simps)

lemma full_mul_int_ratio_err [arith_simps]:
  "full_mul_int_ratio L f n d = Inl e \<longleftrightarrow> (d = 0 \<or> 2 ^ 128 \<le> unat f * unat n div unat d) \<and> e = Panic"
proof (cases "full_mul_int_ratio L f n d")
  case (Inl e')
  then show ?thesis
    using mul_u128_lt [of f n] by (auto simp: full_mul_int_ratio_def res_simps arith_simps)
next
  case (Inr z)
  then show ?thesis using full_mul_int_ratio_eq [of f n d z] u128_lt [of z] by auto
qed

lemma to_ceil_err [arith_simps]:
  "to_ceil L f = Inl e \<longleftrightarrow> 2 ^ 64 \<le> ceil_div (unat f) fx_scale \<and> e = Panic"
proof (cases "to_ceil L f")
  case (Inl e')
  then show ?thesis by (auto simp: to_ceil_def res_simps arith_simps fx_scale_def)
next
  case (Inr w)
  then have "unat w = ceil_div (unat f) fx_scale" by (simp add: to_ceil_eq)
  with Inr show ?thesis using u64_lt [of w] by auto
qed

lemma frac_of_u64_eq [arith_simps]:
  "frac_of_u64 L n = Inr f \<longleftrightarrow> unat f = unat n * fx_scale"
  "frac_of_u64 L n \<noteq> Inl e"
  using u64_scale_lt [of n] by (auto simp: frac_of_u64_def arith_simps)

lemma frac_of_u64_ex: "\<exists>f. frac_of_u64 L n = Inr f \<and> unat f = unat n * fx_scale"
  by (cases "frac_of_u64 L n") (auto simp: arith_simps)

lemma fx_mul_fits: "fmul (unat a) (unat b) < 2 ^ 128 \<Longrightarrow>
  \<exists>c. fx_mul L a b = Inr c \<and> unat c = fmul (unat a) (unat b)"
  by (cases "fx_mul L a b") (auto simp: fx_eq fx_err fmul_def)

lemma fx_add_fits: "unat a + unat b < 2 ^ 128 \<Longrightarrow>
  \<exists>c. fx_add L a b = Inr c \<and> unat c = unat a + unat b"
  by (cases "fx_add L a b") (auto simp: fx_eq fx_err)

lemma fx_sub_fits: "unat b \<le> unat a \<Longrightarrow>
  \<exists>c. fx_sub L a b = Inr c \<and> unat c = unat a - unat b"
  by (cases "fx_sub L a b") (auto simp: fx_eq fx_err)

section \<open>The power loop\<close>

lemma pow_step_bound:
  fixes X Y S :: nat
  assumes "A * S ^ (m - 1) \<le> X' ^ m * Y'" "X' * S \<le> X * X" "Y' * S ^ b \<le> X ^ b * Y" "0 < m"
  shows "A * S ^ (2 * m + b - 1) \<le> X ^ (2 * m + b) * Y"
proof -
  have "A * S ^ (2 * m + b - 1) = A * S ^ (m - 1) * S ^ m * S ^ b"
  proof -
    have "2 * m + b - 1 = (m - 1) + m + b" using \<open>0 < m\<close> by simp
    then show ?thesis by (simp only: power_add mult.assoc)
  qed
  also have "\<dots> \<le> X' ^ m * Y' * S ^ m * S ^ b"
    by (intro mult_right_mono assms(1)) simp_all
  also have "\<dots> = (X' * S) ^ m * (Y' * S ^ b)" by (simp add: power_mult_distrib)
  also have "\<dots> \<le> (X * X) ^ m * (X ^ b * Y)"
    by (intro mult_mono power_mono assms(2,3)) simp_all
  also have "\<dots> = X ^ (2 * m + b) * Y"
    by (simp add: power_add power_mult power2_eq_square)
  finally show ?thesis .
qed

lemma pow_loop_bound:
  "pow_loop L n x y = Some (x1, y1) \<Longrightarrow> 0 < n \<Longrightarrow>
     unat x1 * unat y1 * fx_scale ^ (n - 1) \<le> unat x ^ n * unat y"
proof (induction n arbitrary: x y rule: less_induct)
  case (less n)
  show ?case
  proof (cases "n > 1")
    case False
    with less.prems have "n = 1" "x1 = x" "y1 = y" by (auto simp: pow_loop.simps)
    then show ?thesis by simp
  next
    case True
    with less.prems(1) obtain x' y' where
      y': "(if n mod 2 = 1 then fx_checked_mul L x y else Some y) = Some y'" and
      x': "fx_checked_mul L x x = Some x'" and
      rec: "pow_loop L (n div 2) x' y' = Some (x1, y1)"
      by (auto simp: pow_loop.simps [of L n] split: bind_splits)
    have "unat x' * fx_scale \<le> unat x * unat x"
      using x' by (simp add: arith_simps div_mult_le')
    moreover have "unat y' * fx_scale ^ (n mod 2) \<le> unat x ^ (n mod 2) * unat y"
      using y' by (cases "n mod 2 = 1") (auto simp: arith_simps div_mult_le' mod2_eq_if)
    moreover have "unat x1 * unat y1 * fx_scale ^ (n div 2 - 1) \<le> unat x' ^ (n div 2) * unat y'"
      using True by (intro less.IH rec) auto
    ultimately have "unat x1 * unat y1 * fx_scale ^ (2 * (n div 2) + n mod 2 - 1)
        \<le> unat x ^ (2 * (n div 2) + n mod 2) * unat y"
      using True by (intro pow_step_bound) auto
    then show ?thesis by simp
  qed
qed

lemma pow_loop_int:
  assumes "unat x = k * fx_scale" "unat y = j * fx_scale" "0 < n" "0 < j \<or> k = 0"
    and "k ^ n * j * fx_scale < 2 ^ 128"
  shows "\<exists>x1 y1 a b. pow_loop L n x y = Some (x1, y1) \<and> unat x1 = a * fx_scale \<and>
           unat y1 = b * fx_scale \<and> a * b = k ^ n * j"
  using assms
proof (induction n arbitrary: x y k j rule: less_induct)
  case (less n)
  show ?case
  proof (cases "n > 1")
    case False
    with less.prems have "n = 1" "pow_loop L n x y = Some (x, y)"
      by (auto simp: pow_loop.simps [of L n])
    with less.prems show ?thesis by auto
  next
    case True
    let ?j = "k ^ (n mod 2) * j"
    have pow: "(k * k) ^ (n div 2) * ?j = k ^ n * j"
    proof -
      have "(k * k) ^ (n div 2) * ?j = k ^ (2 * (n div 2) + n mod 2) * j"
        by (simp only: power_add power_mult power2_eq_square mult.assoc)
      then show ?thesis by simp
    qed
    have "k * k \<le> k ^ n * j"
      using power_increasing [of 2 n k] True less.prems(4)
      by (cases "k = 0") (auto simp: power2_eq_square intro: order_trans)
    then have "k * k * fx_scale < 2 ^ 128"
      using less.prems(5) by (meson le_less_trans mult_le_mono1)
    then obtain x' where x': "fx_checked_mul L x x = Some x'" "unat x' = k * k * fx_scale"
      using less.prems(1) by (cases "fx_checked_mul L x x") (auto simp: arith_simps algebra_simps)
    have "k * j \<le> k ^ n * j"
      using power_increasing [of 1 n k] True by (cases "k = 0") auto
    then have "k * j * fx_scale < 2 ^ 128"
      using less.prems(5) by (meson le_less_trans mult_le_mono1)
    then have "\<exists>y'. fx_checked_mul L x y = Some y' \<and> unat y' = k * j * fx_scale"
      using less.prems(1,2) by (cases "fx_checked_mul L x y") (auto simp: arith_simps algebra_simps)
    then obtain y' where y': "(if n mod 2 = 1 then fx_checked_mul L x y else Some y) = Some y'"
      "unat y' = ?j * fx_scale"
      using less.prems(2) by (cases "n mod 2 = 1") auto
    have "\<exists>x1 y1 a b. pow_loop L (n div 2) x' y' = Some (x1, y1) \<and> unat x1 = a * fx_scale \<and>
           unat y1 = b * fx_scale \<and> a * b = (k * k) ^ (n div 2) * ?j"
      using True less.prems x' y' by (intro less.IH) (auto simp: pow)
    then show ?thesis using True x' y' pow by (auto simp: pow_loop.simps [of L n])
  qed
qed

lemma pow_fraction_bound:
  "pow_fraction L f p = Some r \<Longrightarrow> p \<noteq> 0 \<Longrightarrow>
     unat r * fx_scale ^ (unat p - 1) \<le> unat f ^ unat p"
proof -
  assume "pow_fraction L f p = Some r" "p \<noteq> 0"
  then obtain x1 y1 where loop: "pow_loop L (unat p) f fx_one = Some (x1, y1)"
    and r: "fx_checked_mul L x1 y1 = Some r"
    by (auto simp: pow_fraction_def split: bind_splits)
  from loop have "unat x1 * unat y1 * fx_scale ^ (unat p - 1) \<le> unat f ^ unat p * fx_scale"
    using pow_loop_bound [of "unat p" f fx_one x1 y1] \<open>p \<noteq> 0\<close> by (simp add: unat_gt_0)
  moreover have "unat r * fx_scale \<le> unat x1 * unat y1"
    using r by (simp add: arith_simps div_mult_le')
  ultimately have "(unat r * fx_scale) * fx_scale ^ (unat p - 1) \<le> unat f ^ unat p * fx_scale"
    by (meson mult_le_mono1 order_trans)
  then have "(unat r * fx_scale ^ (unat p - 1)) * fx_scale \<le> unat f ^ unat p * fx_scale"
    by (simp add: algebra_simps)
  then show ?thesis by simp
qed

lemma pow_fraction_int:
  assumes "unat f = k * fx_scale" "k ^ unat p * fx_scale < 2 ^ 128"
  shows "\<exists>r. pow_fraction L f p = Some r \<and> unat r = k ^ unat p * fx_scale"
proof (cases "p = 0")
  case False
  then obtain x1 y1 a b where "pow_loop L (unat p) f fx_one = Some (x1, y1)"
    "unat x1 = a * fx_scale" "unat y1 = b * fx_scale" "a * b = k ^ unat p"
    using pow_loop_int [of f k fx_one 1 "unat p"] assms by (auto simp: unat_gt_0)
  moreover from this have "unat x1 * unat y1 div fx_scale = k ^ unat p * fx_scale"
    by (metis mult.assoc mult.commute nonzero_mult_div_cancel_right fx_scale_pos less_numeral_extra(3))
  moreover have "fx_checked_mul L x1 y1 = Some (of_nat (k ^ unat p * fx_scale))"
    using calculation(5) assms(2) by (simp add: fx_opt_eq unat_of_nat_lt del: of_nat_mult)
  ultimately show ?thesis
    using False assms(2) by (simp add: pow_fraction_def unat_of_nat_lt del: of_nat_mult)
qed (use assms in \<open>simp add: pow_fraction_def\<close>)

end
section \<open>Properties\<close>

text \<open>
  C37. Integer powers of a fixed-point number: \<open>pow_fraction\<close> never overestimates the power
  (every truncation rounds down), and on an integer base it returns the exact power whenever the
  power fits into a \<open>Fraction\<close>: the final squarings of the loop overflow for no input whose
  result fits.
\<close>

theorem pow_fraction_correct:
  assumes "num_lib L"
  shows "(\<forall>r. pow_fraction L f p = Some r \<and> p \<noteq> 0 \<longrightarrow>
            unat r * fx_scale ^ (unat p - 1) \<le> unat f ^ unat p) \<and>
         (\<forall>k. unat f = k * fx_scale \<and> k ^ unat p * fx_scale < 2 ^ 128 \<longrightarrow>
            (\<exists>r. pow_fraction L f p = Some r \<and> unat r = k ^ unat p * fx_scale))"
  using num_lib.pow_fraction_bound [OF assms, of f p] num_lib.pow_fraction_int [OF assms, of f _ p]
  by blast

theorem pow_fraction_correct_witness:
  "\<exists>r. pow_fraction std_lib (fraction_lit 3) 5 = Some r \<and> unat r = 243 * fx_scale"
  using pow_fraction_correct [OF std.num_lib_axioms, of "fraction_lit 3" 5, THEN conjunct2, THEN spec, of 3]
  by (simp add: fx_scale_def)

text \<open>
  C27. \<open>Fraction::div_ceil\<close> is the exact ceiling of the quotient: it returns the least fixed-point
  number whose product with the divisor reaches the dividend, and it is exact (no extra quantum is
  added) whenever the division is. It fails exactly on a zero divisor or a quotient that does not
  fit.
\<close>

theorem div_ceil_exact_ceiling:
  assumes "num_lib L"
  shows "(\<forall>n. div_ceil L a d = Inr n \<longrightarrow>
            d \<noteq> 0 \<and> unat a * fx_scale \<le> unat n * unat d \<and>
            (\<forall>m. unat a * fx_scale \<le> m * unat d \<longrightarrow> unat n \<le> m)) \<and>
         (\<forall>q :: frac. d \<noteq> 0 \<and> unat a * fx_scale = unat q * unat d \<longrightarrow> div_ceil L a d = Inr q) \<and>
         (is_ok (div_ceil L a d) \<longleftrightarrow> d \<noteq> 0 \<and> ceil_div (unat a * fx_scale) (unat d) < 2 ^ 128)"
proof -
  note eq = num_lib.div_ceil_eq [OF assms, of a d]
  have pos: "d \<noteq> 0 \<Longrightarrow> 0 < unat d" by (simp add: unat_gt_0)
  have "is_ok (div_ceil L a d)" if "d \<noteq> 0" "ceil_div (unat a * fx_scale) (unat d) < 2 ^ 128"
  proof -
    have "div_ceil L a d = Inr (of_nat (ceil_div (unat a * fx_scale) (unat d)))"
      using that by (simp add: eq unat_of_nat_lt)
    then show ?thesis by simp
  qed
  moreover have "d \<noteq> 0 \<and> ceil_div (unat a * fx_scale) (unat d) < 2 ^ 128" if "is_ok (div_ceil L a d)"
    using that by (auto simp: is_ok_def eq dest: unat_eq_lt)
  ultimately show ?thesis
    using pos by (auto simp: eq le_ceil_div ceil_div_le_iff)
qed

theorem div_ceil_exact_ceiling_witness:
  "div_ceil std_lib fx_one fx_one = Inr fx_one"
  using div_ceil_exact_ceiling [OF std.num_lib_axioms, of fx_one fx_one,
      THEN conjunct2, THEN conjunct1, THEN spec, of fx_one]
  by (simp add: fx_one_def fx_scale_def)

end
