(* ===== verification/Last_Update.thy ===== *)
theory Last_Update imports Prelude begin

unbundle bit_operations_syntax

text \<open>
  The freshness stamp of reserves and obligations (\<open>state/last_update.rs\<close>): the slot of the
  last refresh, a stale mark, and the price checks that passed at that refresh.
\<close>

section \<open>Price status flags\<close>

type_synonym price_status_flags = u8

definition PRICE_LOADED :: price_status_flags where "PRICE_LOADED = 0b000001"
definition PRICE_AGE_CHECKED :: price_status_flags where "PRICE_AGE_CHECKED = 0b000010"
definition TWAP_CHECKED :: price_status_flags where "TWAP_CHECKED = 0b000100"
definition TWAP_AGE_CHECKED :: price_status_flags where "TWAP_AGE_CHECKED = 0b001000"
definition HEURISTIC_CHECKED :: price_status_flags where "HEURISTIC_CHECKED = 0b010000"
definition PRICE_USAGE_ALLOWED :: price_status_flags where "PRICE_USAGE_ALLOWED = 0b100000"

definition ALL_CHECKS :: price_status_flags where
  "ALL_CHECKS = PRICE_LOADED OR PRICE_AGE_CHECKED OR TWAP_CHECKED OR TWAP_AGE_CHECKED OR
     HEURISTIC_CHECKED OR PRICE_USAGE_ALLOWED"

definition NO_CHECKS :: price_status_flags where
  "NO_CHECKS = 0"

definition LIQUIDATION_CHECKS :: price_status_flags where
  "LIQUIDATION_CHECKS = PRICE_LOADED OR PRICE_AGE_CHECKED OR PRICE_USAGE_ALLOWED"

text \<open>\<open>contains\<close> and \<open>from_bits_truncate\<close> of the bitflags macro.\<close>

definition flags_contain :: "price_status_flags \<Rightarrow> price_status_flags \<Rightarrow> bool" where
  "flags_contain fs gs \<longleftrightarrow> fs AND gs = gs"

definition flags_truncate :: "u8 \<Rightarrow> price_status_flags" where
  "flags_truncate b = b AND ALL_CHECKS"

lemma flags_contain_refl [simp]: "flags_contain fs fs"
  by (simp add: flags_contain_def)

lemma flags_contain_none [simp]: "flags_contain fs NO_CHECKS"
  by (simp add: flags_contain_def NO_CHECKS_def)

lemma flags_contain_trans: "flags_contain a b \<Longrightarrow> flags_contain b c \<Longrightarrow> flags_contain a c"
  unfolding flags_contain_def by (metis and.assoc)

lemma ALL_CHECKS_eval: "ALL_CHECKS = 63"
  by (simp add: ALL_CHECKS_def PRICE_LOADED_def PRICE_AGE_CHECKED_def TWAP_CHECKED_def
      TWAP_AGE_CHECKED_def HEURISTIC_CHECKED_def PRICE_USAGE_ALLOWED_def)

lemma LIQUIDATION_CHECKS_eval: "LIQUIDATION_CHECKS = 35"
  by (simp add: LIQUIDATION_CHECKS_def PRICE_LOADED_def PRICE_AGE_CHECKED_def
      PRICE_USAGE_ALLOWED_def)

lemma all_contains_liquidation: "flags_contain ALL_CHECKS LIQUIDATION_CHECKS"
  by (simp add: flags_contain_def ALL_CHECKS_eval LIQUIDATION_CHECKS_eval)

section \<open>LastUpdate\<close>

definition STALE_AFTER_SLOTS_ELAPSED :: u64 where
  "STALE_AFTER_SLOTS_ELAPSED = 1"

text \<open>The padding of the account layout carries no information and is left out.\<close>

record last_update =
  lu_slot :: u64
  lu_stale :: u8
  lu_price_status :: u8

definition last_update_new :: "u64 \<Rightarrow> last_update" where
  "last_update_new slot = \<lparr> lu_slot = slot, lu_stale = 1, lu_price_status = 0 \<rparr>"

definition last_update_default :: last_update where
  "last_update_default = last_update_new 0"

definition slots_elapsed :: "last_update \<Rightarrow> u64 \<Rightarrow> u64 res" where
  "slots_elapsed lu slot = ok_or (checked_sub slot (lu_slot lu)) (LendingErr MathOverflow)"

definition update_slot :: "last_update \<Rightarrow> u64 \<Rightarrow> price_status_flags option \<Rightarrow> last_update" where
  "update_slot lu slot price_status =
     (let lu' = lu\<lparr> lu_slot := slot, lu_stale := 0 \<rparr>
      in case price_status of
           None \<Rightarrow> lu'
         | Some ps \<Rightarrow> lu'\<lparr> lu_price_status := ps \<rparr>)"

definition mark_stale :: "last_update \<Rightarrow> last_update" where
  "mark_stale lu = lu\<lparr> lu_stale := 1 \<rparr>"

definition get_price_status :: "last_update \<Rightarrow> price_status_flags" where
  "get_price_status lu = flags_truncate (lu_price_status lu)"

definition is_stale :: "last_update \<Rightarrow> u64 \<Rightarrow> price_status_flags \<Rightarrow> bool res" where
  "is_stale lu slot min_price_status =
     (let is_price_status_ok = flags_contain (get_price_status lu) min_price_status
      in if lu_stale lu \<noteq> 0 then Inr True
         else rbind (slots_elapsed lu slot) (\<lambda>n.
           Inr (n \<ge> STALE_AFTER_SLOTS_ELAPSED \<or> \<not> is_price_status_ok)))"

definition last_update_eq :: "last_update \<Rightarrow> last_update \<Rightarrow> bool" where
  "last_update_eq a b \<longleftrightarrow> lu_slot a = lu_slot b"

lemma slots_elapsed_eq [arith_simps]:
  "slots_elapsed lu s = Inr n \<longleftrightarrow> unat (lu_slot lu) \<le> unat s \<and> unat n = unat s - unat (lu_slot lu)"
  "slots_elapsed lu s = Inl e \<longleftrightarrow> unat s < unat (lu_slot lu) \<and> e = LendingErr MathOverflow"
  by (auto simp: slots_elapsed_def res_simps arith_simps)

lemma is_stale_fresh_iff [res_simps]:
  "is_stale lu s ps = Inr False \<longleftrightarrow>
     lu_stale lu = 0 \<and> lu_slot lu = s \<and> flags_contain (get_price_status lu) ps"
proof -
  have one_le: "1 \<le> n \<longleftrightarrow> unat n \<noteq> 0" for n :: u64
    by (simp add: word_le_nat_alt Suc_le_eq unat_gt_0)
  show ?thesis
    by (auto simp: is_stale_def Let_def res_simps arith_simps STALE_AFTER_SLOTS_ELAPSED_def one_le
        intro: word_unat_eqI)
qed

lemma is_stale_error_iff [res_simps]:
  "is_stale lu s ps = Inl e \<longleftrightarrow> lu_stale lu = 0 \<and> s < lu_slot lu \<and> e = LendingErr MathOverflow"
  by (auto simp: is_stale_def Let_def res_simps arith_simps word_less_nat_alt)

lemma mark_stale_is_stale [simp]: "is_stale (mark_stale lu) s ps = Inr True"
  by (simp add: mark_stale_def is_stale_def)

lemma update_slot_simps [simp]:
  "lu_slot (update_slot lu s p) = s"
  "lu_stale (update_slot lu s p) = 0"
  "lu_price_status (update_slot lu s p) = (case p of None \<Rightarrow> lu_price_status lu | Some q \<Rightarrow> q)"
  by (auto simp: update_slot_def Let_def split: option.splits)

section \<open>Histories\<close>

text \<open>What the program does to a stamp: refresh it at some slot, or mark it stale.\<close>

datatype stamp_event = Refresh u64 "price_status_flags option" | Touch

primrec stamp_step :: "stamp_event \<Rightarrow> last_update \<Rightarrow> last_update" where
  "stamp_step (Refresh s p) lu = update_slot lu s p"
| "stamp_step Touch lu = mark_stale lu"

definition stamp_run :: "stamp_event list \<Rightarrow> last_update \<Rightarrow> last_update" where
  "stamp_run es lu = fold stamp_step es lu"

text \<open>
  Freshness: after any history of refreshes and stale marks of a new stamp, the stamp counts
  as fresh at a slot exactly when the last thing that happened to it is a refresh at that very
  slot and its price status contains every required check. The check itself errs only for a
  fresh stamp from the future.
\<close>

theorem fresh_only_after_refresh_in_slot:
  "(is_stale (stamp_run es (last_update_new s0)) s ps = Inr False \<longleftrightarrow>
      (\<exists>p. es \<noteq> [] \<and> last es = Refresh s p) \<and>
      flags_contain (get_price_status (stamp_run es (last_update_new s0))) ps) \<and>
   (\<forall>e. is_stale (stamp_run es (last_update_new s0)) s ps = Inl e \<longleftrightarrow>
      (\<exists>s' p. es \<noteq> [] \<and> last es = Refresh s' p \<and> s < s') \<and> e = LendingErr MathOverflow)"
proof (cases es rule: rev_cases)
  case Nil
  then show ?thesis by (simp add: stamp_run_def last_update_new_def res_simps)
next
  case (snoc es' ev)
  then show ?thesis
    by (cases ev) (auto simp: stamp_run_def res_simps)
qed

end
