(* ===== verification/Withdrawal_Caps.thy ===== *)
theory Withdrawal_Caps imports Prelude begin

text \<open>
  The withdrawal caps of a reserve (\<open>WithdrawalCaps\<close> of \<open>state/reserve.rs\<close> and
  \<open>lending_market/withdrawal_cap_operations.rs\<close>): a signed counter of the net outflow of the
  current interval, which is not allowed to pass a configured capacity.
\<close>

section \<open>Signed 64-bit integers\<close>

text \<open>An \<open>i64\<close> is a word read with \<open>sint\<close>.\<close>

definition to_i64_opt :: "int \<Rightarrow> i64 option" where
  "to_i64_opt n = (if - (2 ^ 63) \<le> n \<and> n < 2 ^ 63 then Some (word_of_int n) else None)"

definition i64_checked_add :: "i64 \<Rightarrow> i64 \<Rightarrow> i64 option" where
  "i64_checked_add a b = to_i64_opt (sint a + sint b)"

definition i64_checked_sub :: "i64 \<Rightarrow> i64 \<Rightarrow> i64 option" where
  "i64_checked_sub a b = to_i64_opt (sint a - sint b)"

definition i64_clamp :: "int \<Rightarrow> i64" where
  "i64_clamp n = word_of_int (max (- (2 ^ 63)) (min n (2 ^ 63 - 1)))"

definition i64_saturating_add :: "i64 \<Rightarrow> i64 \<Rightarrow> i64" where
  "i64_saturating_add a b = i64_clamp (sint a + sint b)"

definition i64_saturating_sub :: "i64 \<Rightarrow> i64 \<Rightarrow> i64" where
  "i64_saturating_sub a b = i64_clamp (sint a - sint b)"

definition i64_of_u64 :: "u64 \<Rightarrow> i64 option" where
  "i64_of_u64 a = to_i64_opt (uint a)"

lemma sint_word_of_int_i64:
  "- (2 ^ 63) \<le> n \<Longrightarrow> n < 2 ^ 63 \<Longrightarrow> sint (word_of_int n :: i64) = n"
  by (simp add: signed_take_bit_int_eq_self_iff sint_sbintrunc')

lemma sint_i64_bounds: "- (2 ^ 63) \<le> sint (a :: i64)" "sint (a :: i64) < 2 ^ 63"
  using sint_ge [of a] sint_lt [of a] by simp_all

lemma to_i64_opt_eq [arith_simps]:
  "to_i64_opt n = Some w \<longleftrightarrow> sint w = n"
  "to_i64_opt n = None \<longleftrightarrow> n < - (2 ^ 63) \<or> 2 ^ 63 \<le> n"
proof -
  show "to_i64_opt n = Some w \<longleftrightarrow> sint w = n"
    using sint_i64_bounds [of w] by (auto simp: to_i64_opt_def sint_word_of_int_i64)
  show "to_i64_opt n = None \<longleftrightarrow> n < - (2 ^ 63) \<or> 2 ^ 63 \<le> n"
    by (auto simp: to_i64_opt_def)
qed

lemma i64_checked_eq [arith_simps]:
  "i64_checked_add a b = Some c \<longleftrightarrow> sint c = sint a + sint b"
  "i64_checked_sub a b = Some c \<longleftrightarrow> sint c = sint a - sint b"
  "i64_checked_add a b = None \<longleftrightarrow> sint a + sint b < - (2 ^ 63) \<or> 2 ^ 63 \<le> sint a + sint b"
  "i64_checked_sub a b = None \<longleftrightarrow> sint a - sint b < - (2 ^ 63) \<or> 2 ^ 63 \<le> sint a - sint b"
  "i64_of_u64 n = Some c \<longleftrightarrow> sint c = uint n"
  "i64_of_u64 n = None \<longleftrightarrow> 2 ^ 63 \<le> uint n"
proof -
  have "\<not> uint n < - (2 ^ 63)" by (rule leD) (rule order_trans [OF _ uint_ge_0], simp)
  then show "i64_of_u64 n = None \<longleftrightarrow> 2 ^ 63 \<le> uint n"
    by (simp add: i64_of_u64_def arith_simps)
qed (simp_all add: i64_checked_add_def i64_checked_sub_def i64_of_u64_def arith_simps)

section \<open>The counter\<close>

record withdrawal_caps =
  config_capacity :: i64
  wc_current_total :: i64
  last_interval_start_timestamp :: u64
  config_interval_length_seconds :: u64

datatype withdrawal_cap_action = Add | Remove

datatype withdrawal_cap_overflow_action = SaturatingOverflow | ErrorOnOverflow

datatype withdrawal_cap_accumulator_action = KeepAccumulator | ResetAccumulator

definition update_counter ::
  "withdrawal_caps \<Rightarrow> u64 \<Rightarrow> withdrawal_cap_action \<Rightarrow> withdrawal_cap_overflow_action \<Rightarrow>
   withdrawal_caps res" where
  "update_counter caps requested_amount action overflow_action =
     (case action of
        Add \<Rightarrow> (case overflow_action of
          SaturatingOverflow \<Rightarrow>
            rbind (ok_or (i64_of_u64 requested_amount) (LendingErr MathOverflow)) (\<lambda>amount.
            Inr (caps\<lparr> wc_current_total := i64_saturating_add (wc_current_total caps) amount \<rparr>))
        | ErrorOnOverflow \<Rightarrow>
            rbind (ok_or (i64_of_u64 requested_amount) (LendingErr IntegerOverflow)) (\<lambda>amount.
            rbind (ok_or (i64_checked_add (wc_current_total caps) amount) (LendingErr MathOverflow))
              (\<lambda>total. Inr (caps\<lparr> wc_current_total := total \<rparr>))))
      | Remove \<Rightarrow> (case overflow_action of
          SaturatingOverflow \<Rightarrow>
            rbind (ok_or (i64_of_u64 requested_amount) (LendingErr MathOverflow)) (\<lambda>amount.
            Inr (caps\<lparr> wc_current_total := i64_saturating_sub (wc_current_total caps) amount \<rparr>))
        | ErrorOnOverflow \<Rightarrow>
            rbind (ok_or (i64_of_u64 requested_amount) (LendingErr IntegerOverflow)) (\<lambda>amount.
            rbind (ok_or (i64_checked_sub (wc_current_total caps) amount) (LendingErr MathOverflow))
              (\<lambda>total. Inr (caps\<lparr> wc_current_total := total \<rparr>)))))"

definition check_last_interval_elapsed :: "withdrawal_caps \<Rightarrow> u64 \<Rightarrow> bool res" where
  "check_last_interval_elapsed caps curr_timestamp =
     (if last_interval_start_timestamp caps > curr_timestamp
      then fail LastTimestampGreaterThanCurrent
      else Inr (config_interval_length_seconds caps \<le>
                saturating_sub curr_timestamp (last_interval_start_timestamp caps)))"

definition reset_current_interval_and_counter ::
  "withdrawal_caps \<Rightarrow> u64 \<Rightarrow> withdrawal_caps" where
  "reset_current_interval_and_counter caps curr_timestamp =
     caps\<lparr> wc_current_total := 0, last_interval_start_timestamp := curr_timestamp \<rparr>"

text \<open>
  The subtraction is made in \<open>i128\<close>, where the difference of two \<open>i64\<close> values does not wrap; it
  is non-negative and below \<open>2 ^ 64\<close>, so that the \<open>expect\<close> of the conversion cannot fire.
\<close>

definition remaining_withdrawal_caps_amount :: "withdrawal_caps \<Rightarrow> u64 \<Rightarrow> u64 res" where
  "remaining_withdrawal_caps_amount caps timestamp =
     (if config_interval_length_seconds caps = 0 then Inr (- 1)
      else if sint (config_capacity caps) < 0 then Inr 0
      else
        let time_spent = saturating_sub timestamp (last_interval_start_timestamp caps);
            interval_elapsed = time_spent \<ge> config_interval_length_seconds caps;
            current_total = (if interval_elapsed then 0 else wc_current_total caps)
        in if sint current_total \<le> sint (config_capacity caps)
           then let remaining_amount = sint (config_capacity caps) - sint current_total
                in if 0 \<le> remaining_amount \<and> remaining_amount < 2 ^ 64
                   then Inr (word_of_int remaining_amount) else Inl Panic
           else Inr 0)"

definition check_and_update_withdrawal_caps ::
  "withdrawal_caps \<Rightarrow> u64 \<Rightarrow> u64 \<Rightarrow> withdrawal_cap_action \<Rightarrow> withdrawal_caps res" where
  "check_and_update_withdrawal_caps caps requested_amount curr_timestamp action =
     (if config_interval_length_seconds caps \<noteq> 0 then
        rbind (check_last_interval_elapsed caps curr_timestamp) (\<lambda>elapsed.
        let caps = (if elapsed then reset_current_interval_and_counter caps curr_timestamp
                    else caps)
        in rbind (if action = Add
                  then rbind (remaining_withdrawal_caps_amount caps curr_timestamp) (\<lambda>remaining.
                       Inr (requested_amount > remaining))
                  else Inr False) (\<lambda>cap_reached.
           if cap_reached then fail WithdrawalCapReached
           else update_counter caps requested_amount action ErrorOnOverflow))
      else update_counter caps requested_amount action SaturatingOverflow)"

definition add_to_withdrawal_accum ::
  "withdrawal_caps \<Rightarrow> u64 \<Rightarrow> u64 \<Rightarrow> withdrawal_caps res" where
  "add_to_withdrawal_accum caps requested_amount curr_timestamp =
     check_and_update_withdrawal_caps caps requested_amount curr_timestamp Add"

definition sub_from_withdrawal_accum ::
  "withdrawal_caps \<Rightarrow> u64 \<Rightarrow> u64 \<Rightarrow> withdrawal_caps res" where
  "sub_from_withdrawal_accum caps requested_amount curr_timestamp =
     check_and_update_withdrawal_caps caps requested_amount curr_timestamp Remove"

section \<open>The operations, read over integers\<close>

text \<open>
  The net outflow that counts at a time: zero once the interval is over. \<open>cap_entry\<close> is what a
  movement does to the counter when it is accepted.
\<close>

definition interval_over :: "withdrawal_caps \<Rightarrow> u64 \<Rightarrow> bool" where
  "interval_over caps t \<longleftrightarrow>
     unat (config_interval_length_seconds caps) \<le> unat t - unat (last_interval_start_timestamp caps)"

definition counted :: "withdrawal_caps \<Rightarrow> u64 \<Rightarrow> int" where
  "counted caps t = (if interval_over caps t then 0 else sint (wc_current_total caps))"

definition cap_entry :: "withdrawal_caps \<Rightarrow> u64 \<Rightarrow> int \<Rightarrow> withdrawal_caps" where
  "cap_entry caps t flow =
     caps\<lparr> wc_current_total := word_of_int (counted caps t + flow),
           last_interval_start_timestamp :=
             (if interval_over caps t then t else last_interval_start_timestamp caps) \<rparr>"

lemma counted_bounds: "- (2 ^ 63) \<le> counted caps t" "counted caps t < 2 ^ 63"
  using sint_i64_bounds by (auto simp: counted_def)

lemma remaining_withdrawal_caps_amount_eq [arith_simps]:
  assumes "config_interval_length_seconds caps \<noteq> 0"
  shows "remaining_withdrawal_caps_amount caps t = Inr r \<longleftrightarrow>
    uint r = (if 0 \<le> sint (config_capacity caps) \<and> counted caps t \<le> sint (config_capacity caps)
              then sint (config_capacity caps) - counted caps t else 0)"
proof -
  have "word_of_int n = r \<longleftrightarrow> uint r = n" if "0 \<le> n" "n < 2 ^ 64" for n
    using that by (auto simp: uint_word_of_int)
  moreover have "interval_over caps t \<longleftrightarrow>
      config_interval_length_seconds caps \<le> saturating_sub t (last_interval_start_timestamp caps)"
    by (simp add: interval_over_def word_le_nat_alt)
  ultimately show ?thesis
    using sint_i64_bounds [of "config_capacity caps"] sint_i64_bounds [of "wc_current_total caps"] assms
    by (simp add: remaining_withdrawal_caps_amount_def Let_def counted_def uint_0_iff
        del: of_int_diff of_int_sint)
qed

lemma check_last_interval_elapsed_eq [arith_simps]:
  "check_last_interval_elapsed caps t = Inr b \<longleftrightarrow>
     last_interval_start_timestamp caps \<le> t \<and> b = interval_over caps t"
  "check_last_interval_elapsed caps t = Inl e \<longleftrightarrow>
     t < last_interval_start_timestamp caps \<and> e = LendingErr LastTimestampGreaterThanCurrent"
  by (auto simp: check_last_interval_elapsed_def interval_over_def res_simps word_le_nat_alt
      word_less_nat_alt)

lemma reset_counted:
  "counted caps t =
     sint (wc_current_total (if interval_over caps t
             then reset_current_interval_and_counter caps t else caps))"
  by (simp add: counted_def reset_current_interval_and_counter_def)

text \<open>What an update does, once the interval is known: both kinds of movement.\<close>

definition flow_of :: "withdrawal_cap_action \<Rightarrow> u64 \<Rightarrow> int" where
  "flow_of action amount = (case action of Add \<Rightarrow> uint amount | Remove \<Rightarrow> - uint amount)"

lemma sint_lt_of_eq: "sint (c :: i64) = n \<Longrightarrow> - (2 ^ 63) \<le> n \<and> n < 2 ^ 63"
  using sint_i64_bounds [of c] by simp

lemma sint_word_inject: "sint a = sint b \<longleftrightarrow> a = b" for a b :: i64
  by (metis signed_word_eqI)

lemma sint_eq_uint_i64: "uint (n :: i64) < 2 ^ 63 \<Longrightarrow> sint n = uint n"
  using sint_word_of_int_i64 [of "uint n"] order_trans [OF _ uint_ge_0, of "- (2 ^ 63)" n] by simp

lemma ex_sint_uint:
  "(\<exists>c :: i64. sint c = uint (n :: u64) \<and> P c) \<longleftrightarrow> uint n < 2 ^ 63 \<and> P n"
  using sint_lt_of_eq [of _ "uint n"] sint_eq_uint_i64 [of n] by (metis sint_word_inject)

lemma update_counter_error_eq [arith_simps]:
  "update_counter caps amount action ErrorOnOverflow = Inr caps' \<longleftrightarrow>
     (\<exists>total. sint total = sint (wc_current_total caps) + flow_of action amount \<and>
        uint amount < 2 ^ 63 \<and> caps' = caps\<lparr> wc_current_total := total \<rparr>)"
  by (cases action)
     (auto simp: update_counter_def flow_of_def res_simps arith_simps ex_sint_uint sint_eq_uint_i64)

definition at_time :: "withdrawal_caps \<Rightarrow> u64 \<Rightarrow> withdrawal_caps" where
  "at_time caps t =
     (if interval_over caps t then reset_current_interval_and_counter caps t else caps)"

lemma at_time_simps [simp]:
  "config_capacity (at_time caps t) = config_capacity caps"
  "config_interval_length_seconds (at_time caps t) = config_interval_length_seconds caps"
  "sint (wc_current_total (at_time caps t)) = counted caps t"
  by (simp_all add: at_time_def counted_def reset_current_interval_and_counter_def)

lemma counted_at_time [simp]: "counted (at_time caps t) t = counted caps t"
  by (auto simp: counted_def at_time_def reset_current_interval_and_counter_def)

lemma cap_entry_at_time:
  "cap_entry caps t n = (at_time caps t)\<lparr> wc_current_total := word_of_int (counted caps t + n) \<rparr>"
  by (simp add: cap_entry_def at_time_def reset_current_interval_and_counter_def)

definition movement_allowed ::
  "withdrawal_caps \<Rightarrow> u64 \<Rightarrow> u64 \<Rightarrow> withdrawal_cap_action \<Rightarrow> bool" where
  "movement_allowed caps amount t action \<longleftrightarrow>
     last_interval_start_timestamp caps \<le> t \<and> uint amount < 2 ^ 63 \<and>
     (case action of
        Add \<Rightarrow> amount = 0 \<or>
               0 \<le> sint (config_capacity caps) \<and>
               counted caps t + uint amount \<le> sint (config_capacity caps)
      | Remove \<Rightarrow> - (2 ^ 63) \<le> counted caps t - uint amount)"

lemma remaining_exists:
  "\<exists>r. remaining_withdrawal_caps_amount caps t = Inr r"
proof (cases "config_interval_length_seconds caps = 0")
  case False
  have "\<exists>r :: u64. uint r = n" if "0 \<le> n" "n < 2 ^ 64" for n
    using that by (intro exI [of _ "word_of_int n"]) (simp add: uint_word_of_int)
  then have "\<exists>r :: u64. uint r = (if 0 \<le> sint (config_capacity caps) \<and>
    counted caps t \<le> sint (config_capacity caps) then sint (config_capacity caps) - counted caps t else 0)"
    using sint_i64_bounds [of "config_capacity caps"] counted_bounds [of caps t] by simp
  with False show ?thesis
    by (simp add: remaining_withdrawal_caps_amount_eq)
qed (simp add: remaining_withdrawal_caps_amount_def)

lemma add_within_remaining:
  assumes "config_interval_length_seconds caps \<noteq> 0"
  shows "(\<exists>r. remaining_withdrawal_caps_amount caps t = Inr r \<and> amount \<le> r) \<longleftrightarrow>
    amount = 0 \<or> 0 \<le> sint (config_capacity caps) \<and>
      counted caps t + uint amount \<le> sint (config_capacity caps)"
proof -
  obtain r where r: "remaining_withdrawal_caps_amount caps t = Inr r"
    using remaining_exists by blast
  define a where "a = uint amount"
  have "amount = 0 \<longleftrightarrow> a = 0" "amount \<le> r \<longleftrightarrow> a \<le> uint r" "0 \<le> a"
    by (simp_all add: a_def word_le_def uint_0_iff)
  then show ?thesis
    using r remaining_withdrawal_caps_amount_eq [OF assms, of t r]
    by (auto simp flip: a_def split: if_splits)
qed

lemma ex_sint:
  "(\<exists>c :: i64. sint c = n \<and> P c) \<longleftrightarrow> - (2 ^ 63) \<le> n \<and> n < 2 ^ 63 \<and> P (word_of_int n)"
  using sint_lt_of_eq [of _ n] sint_word_of_int_i64 [of n] by (metis sint_word_inject)

lemma movement_allowed_iff:
  "movement_allowed caps amount t action \<longleftrightarrow>
     last_interval_start_timestamp caps \<le> t \<and>
     (action = Add \<longrightarrow> amount = 0 \<or> 0 \<le> sint (config_capacity caps) \<and>
        counted caps t + uint amount \<le> sint (config_capacity caps)) \<and>
     - (2 ^ 63) \<le> counted caps t + flow_of action amount \<and>
     counted caps t + flow_of action amount < 2 ^ 63 \<and> uint amount < 2 ^ 63"
proof -
  define a where "a = uint amount"
  have "0 \<le> a" "amount = 0 \<longleftrightarrow> a = 0" by (simp_all add: a_def uint_0_iff)
  then show ?thesis
    using counted_bounds [of caps t] sint_i64_bounds(2) [of "config_capacity caps"]
    unfolding movement_allowed_def flow_of_def a_def [symmetric]
    by (cases action; simp; linarith)
qed

lemma check_and_update_steps:
  assumes "config_interval_length_seconds caps \<noteq> 0"
  shows "check_and_update_withdrawal_caps caps amount t action = Inr caps' \<longleftrightarrow>
    last_interval_start_timestamp caps \<le> t \<and>
    (action = Add \<longrightarrow>
       (\<exists>r. remaining_withdrawal_caps_amount (at_time caps t) t = Inr r \<and> amount \<le> r)) \<and>
    update_counter (at_time caps t) amount action ErrorOnOverflow = Inr caps'"
proof -
  have "(if b then fail e else m) = Inr caps' \<longleftrightarrow> \<not> b \<and> m = Inr caps'"
    for b e and m :: "withdrawal_caps res"
    by (simp add: fail_eq)
  moreover obtain r where "remaining_withdrawal_caps_amount (at_time caps t) t = Inr r"
    using remaining_exists by blast
  ultimately show ?thesis
    using assms
    by (cases "action = Add")
       (auto simp add: check_and_update_withdrawal_caps_def Let_def rbind_eq_Inr not_less
         check_last_interval_elapsed_eq at_time_def [symmetric])
qed

lemma check_and_update_eq:
  assumes "config_interval_length_seconds caps \<noteq> 0"
  shows "check_and_update_withdrawal_caps caps amount t action = Inr caps' \<longleftrightarrow>
    movement_allowed caps amount t action \<and> caps' = cap_entry caps t (flow_of action amount)"
  using assms add_within_remaining [of "at_time caps t" t amount]
  by (simp add: check_and_update_steps update_counter_error_eq ex_sint movement_allowed_iff
      cap_entry_at_time)


section \<open>Histories of movements\<close>

text \<open>
  A movement that errs aborts its transaction and leaves the counter alone. The ledger beside
  the counter lists the accepted flows of the current interval; the program does not keep it.
\<close>

type_synonym movement = "withdrawal_cap_action \<times> u64 \<times> u64"

definition move :: "withdrawal_caps \<Rightarrow> movement \<Rightarrow> withdrawal_caps res" where
  "move caps m = (case m of (action, amount, t) \<Rightarrow>
     (case action of Add \<Rightarrow> add_to_withdrawal_accum caps amount t
                   | Remove \<Rightarrow> sub_from_withdrawal_accum caps amount t))"

fun ledger_step ::
  "movement \<Rightarrow> withdrawal_caps \<times> (u64 \<times> int) list \<Rightarrow> withdrawal_caps \<times> (u64 \<times> int) list" where
  "ledger_step (action, amount, t) (caps, ledger) =
     (case move caps (action, amount, t) of
        Inl _ \<Rightarrow> (caps, ledger)
      | Inr caps' \<Rightarrow>
          (caps', (if interval_over caps t then [] else ledger) @ [(t, flow_of action amount)]))"

definition ledger_run ::
  "movement list \<Rightarrow> withdrawal_caps \<Rightarrow> withdrawal_caps \<times> (u64 \<times> int) list" where
  "ledger_run ms caps = fold ledger_step ms (caps, [])"

definition in_interval :: "withdrawal_caps \<Rightarrow> u64 \<Rightarrow> bool" where
  "in_interval caps t \<longleftrightarrow> last_interval_start_timestamp caps \<le> t \<and> \<not> interval_over caps t"

definition ledger_ok :: "withdrawal_caps \<times> (u64 \<times> int) list \<Rightarrow> bool" where
  "ledger_ok cl \<longleftrightarrow>
     sum_list (map snd (snd cl)) = sint (wc_current_total (fst cl)) \<and>
     sint (wc_current_total (fst cl)) \<le> sint (config_capacity (fst cl)) \<and>
     list_all (in_interval (fst cl) \<circ> fst) (snd cl)"

lemma move_eq:
  "config_interval_length_seconds caps \<noteq> 0 \<Longrightarrow>
   move caps (action, amount, t) = Inr caps' \<longleftrightarrow>
     movement_allowed caps amount t action \<and> caps' = cap_entry caps t (flow_of action amount)"
  by (cases action)
     (simp_all add: move_def add_to_withdrawal_accum_def sub_from_withdrawal_accum_def
       check_and_update_eq)

lemma cap_entry_simps [simp]:
  "config_capacity (cap_entry caps t n) = config_capacity caps"
  "config_interval_length_seconds (cap_entry caps t n) = config_interval_length_seconds caps"
  by (simp_all add: cap_entry_def)

lemma cap_entry_total:
  "movement_allowed caps amount t action \<Longrightarrow>
   sint (wc_current_total (cap_entry caps t (flow_of action amount))) =
     counted caps t + flow_of action amount"
  by (simp add: cap_entry_def movement_allowed_iff sint_word_of_int_i64 del: of_int_add)

lemma allowed_le_capacity:
  assumes "movement_allowed caps amount t action" "0 \<le> sint (config_capacity caps)"
    and "counted caps t \<le> sint (config_capacity caps)"
  shows "counted caps t + flow_of action amount \<le> sint (config_capacity caps)"
proof -
  define a where "a = uint amount"
  have "0 \<le> a" "amount = 0 \<longleftrightarrow> a = 0" by (simp_all add: a_def uint_0_iff)
  with assms show ?thesis
    by (cases action) (auto simp: movement_allowed_def flow_of_def simp flip: a_def)
qed

lemma in_interval_entry:
  assumes "config_interval_length_seconds caps \<noteq> 0" "last_interval_start_timestamp caps \<le> t"
  shows "in_interval (cap_entry caps t n) t"
    and "\<not> interval_over caps t \<Longrightarrow> in_interval (cap_entry caps t n) t' = in_interval caps t'"
  using assms by (auto simp: in_interval_def interval_over_def cap_entry_def unat_gt_0)

lemma ledger_step_ok:
  assumes "ledger_ok cl" "config_interval_length_seconds (fst cl) \<noteq> 0"
    and "0 \<le> sint (config_capacity (fst cl))"
  shows "ledger_ok (ledger_step m cl) \<and>
    config_capacity (fst (ledger_step m cl)) = config_capacity (fst cl) \<and>
    config_interval_length_seconds (fst (ledger_step m cl)) = config_interval_length_seconds (fst cl)"
proof -
  obtain action amount t where m: "m = (action, amount, t)" by (cases m)
  obtain caps ledger where cl: "cl = (caps, ledger)" by (cases cl)
  show ?thesis
  proof (cases "move caps (action, amount, t)")
    case Inl
    with assms show ?thesis by (simp add: m cl)
  next
    case (Inr caps')
    with assms have allowed: "movement_allowed caps amount t action"
      and caps': "caps' = cap_entry caps t (flow_of action amount)"
      by (auto simp: cl move_eq)
    then have start: "last_interval_start_timestamp caps \<le> t" by (simp add: movement_allowed_iff)
    have "counted caps t \<le> sint (config_capacity caps)"
      using assms by (simp add: counted_def ledger_ok_def cl)
    then show ?thesis
      using assms Inr allowed_le_capacity [OF allowed] in_interval_entry [OF _ start]
      by (auto simp: m cl ledger_ok_def caps' cap_entry_total [OF allowed] counted_def list_all_iff)
  qed
qed

lemma ledger_run_ok:
  assumes "ledger_ok cl" "config_interval_length_seconds (fst cl) \<noteq> 0"
    and "0 \<le> sint (config_capacity (fst cl))"
  shows "ledger_ok (fold ledger_step ms cl) \<and>
    config_capacity (fst (fold ledger_step ms cl)) = config_capacity (fst cl)"
  using assms
proof (induction ms arbitrary: cl)
  case (Cons m ms)
  from Cons.IH [of "ledger_step m cl"] ledger_step_ok [OF Cons.prems, of m] Cons.prems
  show ?case by simp
qed simp

section \<open>Properties\<close>

text \<open>
  A movement of the withdrawal counter succeeds exactly when the clock has not run
  backwards, the amount fits an \<open>i64\<close> and, for a withdrawal, the amount is within what remains
  of the capacity (the outflow of an interval that is over does not count); the counter then
  moves by exactly the amount. With a zero interval length the caps never reject an amount that
  fits an \<open>i64\<close>.
\<close>

theorem withdrawal_cap_admission:
  "(config_interval_length_seconds caps \<noteq> 0 \<longrightarrow>
      (add_to_withdrawal_accum caps amount t = Inr caps' \<longleftrightarrow>
         movement_allowed caps amount t Add \<and> caps' = cap_entry caps t (uint amount)) \<and>
      (sub_from_withdrawal_accum caps amount t = Inr caps' \<longleftrightarrow>
         movement_allowed caps amount t Remove \<and> caps' = cap_entry caps t (- uint amount))) \<and>
   (config_interval_length_seconds caps = 0 \<longrightarrow>
      is_ok (add_to_withdrawal_accum caps amount t) = (uint amount < 2 ^ 63))"
proof -
  have "is_ok (add_to_withdrawal_accum caps amount t) = (uint amount < 2 ^ 63)"
    if "config_interval_length_seconds caps = 0"
  proof -
    have "is_ok (rbind (ok_or x e) (\<lambda>a. Inr (f a))) \<longleftrightarrow> x \<noteq> None"
      for x :: "i64 option" and e and f :: "i64 \<Rightarrow> withdrawal_caps"
      by (cases x) auto
    then show ?thesis
      using that i64_checked_eq(6) [of amount]
      by (simp add: add_to_withdrawal_accum_def check_and_update_withdrawal_caps_def
          update_counter_def del: not_None_eq)
        (metis not_le)
  qed
  then show ?thesis
    by (simp add: add_to_withdrawal_accum_def sub_from_withdrawal_accum_def check_and_update_eq
        flow_of_def)
qed

theorem withdrawal_cap_admission_witness:
  "add_to_withdrawal_accum
     \<lparr> config_capacity = 100, wc_current_total = 40, last_interval_start_timestamp = 10,
       config_interval_length_seconds = 60 \<rparr> 60 20 =
   Inr \<lparr> config_capacity = 100, wc_current_total = 100, last_interval_start_timestamp = 10,
         config_interval_length_seconds = 60 \<rparr>"
  using withdrawal_cap_admission [of "\<lparr> config_capacity = 100, wc_current_total = 40,
      last_interval_start_timestamp = 10, config_interval_length_seconds = 60 \<rparr>" 60 20]
  by (simp add: movement_allowed_def cap_entry_def counted_def interval_over_def)

text \<open>
  C21. The cap holds in every interval: after any history of movements, of which the rejected
  ones change nothing, the counter is the exact net outflow of the movements accepted since the
  current interval started, all of them lie within that interval, and their net never passes the
  configured capacity.
\<close>

theorem withdrawal_cap_bounds_every_interval:
  assumes "wc_current_total caps = 0" "0 \<le> sint (config_capacity caps)"
    and "config_interval_length_seconds caps \<noteq> 0"
  shows "ledger_ok (ledger_run ms caps) \<and>
    sum_list (map snd (snd (ledger_run ms caps))) \<le> sint (config_capacity caps)"
proof -
  have "ledger_ok (caps, [])" using assms by (simp add: ledger_ok_def)
  with ledger_run_ok [of "(caps, [])" ms] assms show ?thesis
    by (auto simp: ledger_run_def ledger_ok_def)
qed

theorem withdrawal_cap_bounds_every_interval_witness:
  "ledger_ok (ledger_run [(Add, 70, 5), (Add, 50, 6), (Remove, 20, 7), (Add, 50, 8)]
     \<lparr> config_capacity = 100, wc_current_total = 0, last_interval_start_timestamp = 0,
       config_interval_length_seconds = 60 \<rparr>)"
  using withdrawal_cap_bounds_every_interval [of "\<lparr> config_capacity = 100, wc_current_total = 0,
      last_interval_start_timestamp = 0, config_interval_length_seconds = 60 \<rparr>"
      "[(Add, 70, 5), (Add, 50, 6), (Remove, 20, 7), (Add, 50, 8)]"]
  by simp

end
