(* ===== verification/Borrow_Rate_Curve.thy ===== *)
theory Borrow_Rate_Curve imports Fraction begin

text \<open>
  The borrow rate as a piecewise linear function of the utilization rate
  (\<open>utils/borrow_rate_curve.rs\<close>). The array \<open>[CurvePoint; 11]\<close> is a list of length 11.
\<close>

section \<open>Points, segments and curves\<close>

definition MAX_UTILIZATION_RATE_BPS :: u32 where
  "MAX_UTILIZATION_RATE_BPS = 10000"

record curve_point =
  utilization_rate_bps :: u32
  borrow_rate_bps :: u32

definition curve_point_new :: "u32 \<Rightarrow> u32 \<Rightarrow> curve_point" where
  "curve_point_new u r = \<lparr> utilization_rate_bps = u, borrow_rate_bps = r \<rparr>"

record curve_segment =
  slope_nom :: u32
  slope_denom :: u32
  start_point :: curve_point

record borrow_rate_curve =
  points :: "curve_point list"

definition segment_from_points :: "curve_point \<Rightarrow> curve_point \<Rightarrow> curve_segment res" where
  "segment_from_points start_pt end_pt =
     rbind (ok_or (checked_sub (borrow_rate_bps end_pt) (borrow_rate_bps start_pt))
              (LendingErr InvalidBorrowRateCurvePoint)) (\<lambda>nom.
     if utilization_rate_bps end_pt \<le> utilization_rate_bps start_pt
     then fail InvalidBorrowRateCurvePoint
     else rbind (sub_ov (utilization_rate_bps end_pt) (utilization_rate_bps start_pt)) (\<lambda>denom.
       Inr \<lparr> slope_nom = nom, slope_denom = denom, start_point = start_pt \<rparr>))"

definition segment_get_borrow_rate :: "numlib \<Rightarrow> curve_segment \<Rightarrow> frac \<Rightarrow> frac res" where
  "segment_get_borrow_rate L seg utilization_rate =
     rbind (from_bps L (ucast (utilization_rate_bps (start_point seg)))) (\<lambda>start_utilization_rate.
     rbind (ok_or (fx_checked_sub L utilization_rate start_utilization_rate)
              (LendingErr InvalidUtilizationRate)) (\<lambda>coef.
     rbind (fx_mul_int L coef (ucast (slope_nom seg))) (\<lambda>nom.
     rbind (fx_div_int L nom (ucast (slope_denom seg))) (\<lambda>base_rate.
     rbind (from_bps L (ucast (borrow_rate_bps (start_point seg)))) (\<lambda>offset.
     fx_add L base_rate offset)))))"

text \<open>The loop of \<open>validate\<close> over the points after the first.\<close>

fun validate_points :: "curve_point \<Rightarrow> curve_point list \<Rightarrow> unit res" where
  "validate_points last_pt [] = Inr ()"
| "validate_points last_pt (pt # pts) =
     (if utilization_rate_bps last_pt = MAX_UTILIZATION_RATE_BPS then
        if utilization_rate_bps pt \<noteq> MAX_UTILIZATION_RATE_BPS
        then fail InvalidBorrowRateCurvePoint
        else if borrow_rate_bps pt < borrow_rate_bps last_pt
        then fail InvalidBorrowRateCurvePoint else validate_points pt pts
      else if utilization_rate_bps pt \<le> utilization_rate_bps last_pt
      then fail InvalidBorrowRateCurvePoint
      else if borrow_rate_bps pt < borrow_rate_bps last_pt
      then fail InvalidBorrowRateCurvePoint else validate_points pt pts)"

definition curve_validate :: "borrow_rate_curve \<Rightarrow> unit res" where
  "curve_validate c =
     (let pts = points c in
      if utilization_rate_bps (pts ! 0) \<noteq> 0 then fail InvalidBorrowRateCurvePoint
      else if utilization_rate_bps (pts ! 10) \<noteq> MAX_UTILIZATION_RATE_BPS
      then fail InvalidBorrowRateCurvePoint
      else validate_points (pts ! 0) (drop 1 pts))"

definition curve_from_points :: "curve_point list \<Rightarrow> borrow_rate_curve res" where
  "curve_from_points pts =
     (if length pts < 2 then fail InvalidBorrowRateCurvePoint
      else if length pts > 11 then fail InvalidBorrowRateCurvePoint
      else if utilization_rate_bps (last pts) \<noteq> MAX_UTILIZATION_RATE_BPS
      then fail InvalidBorrowRateCurvePoint
      else let curve = \<lparr> points = pts @ replicate (11 - length pts) (last pts) \<rparr>
           in rbind (curve_validate curve) (\<lambda>_. Inr curve))"

definition curve_new_flat :: "u32 \<Rightarrow> borrow_rate_curve res" where
  "curve_new_flat rate_bps =
     unwrap (curve_from_points
       [curve_point_new 0 rate_bps, curve_point_new MAX_UTILIZATION_RATE_BPS rate_bps])"

definition curve_from_legacy_parameters :: "u8 \<Rightarrow> u8 \<Rightarrow> u8 \<Rightarrow> u8 \<Rightarrow> borrow_rate_curve res" where
  "curve_from_legacy_parameters optimal_utilization_rate_pct base_rate_pct optimal_rate_pct
     max_rate_pct =
     rbind (mul_ov (ucast optimal_utilization_rate_pct) 100) (\<lambda>optimal_utilization_rate.
     rbind (mul_ov (ucast base_rate_pct) 100) (\<lambda>base_rate.
     rbind (mul_ov (ucast optimal_rate_pct) 100) (\<lambda>optimal_rate.
     rbind (mul_ov (ucast max_rate_pct) 100) (\<lambda>max_rate.
     let pts =
       (if optimal_utilization_rate = 0 then
          [curve_point_new 0 optimal_rate, curve_point_new MAX_UTILIZATION_RATE_BPS max_rate]
        else if optimal_utilization_rate = MAX_UTILIZATION_RATE_BPS then
          [curve_point_new 0 base_rate, curve_point_new MAX_UTILIZATION_RATE_BPS optimal_rate]
        else
          [curve_point_new 0 base_rate, curve_point_new optimal_utilization_rate optimal_rate,
           curve_point_new MAX_UTILIZATION_RATE_BPS max_rate])
     in unwrap (curve_from_points pts)))))"

definition curve_get_borrow_rate :: "numlib \<Rightarrow> borrow_rate_curve \<Rightarrow> frac \<Rightarrow> frac res" where
  "curve_get_borrow_rate L c utilization_rate0 =
     (let utilization_rate = (if utilization_rate0 > fx_one then fx_one else utilization_rate0) in
      rbind (to_bps L (fx_checked_to_u32 L) utilization_rate) (\<lambda>bps_opt.
      rbind (ok_or bps_opt Panic) (\<lambda>bps.
      rbind (ok_or (find (\<lambda>(first, second). utilization_rate_bps first \<le> bps \<and>
                            bps \<le> utilization_rate_bps second)
                     (zip (points c) (tl (points c)))) Panic) (\<lambda>(start_pt, end_pt).
      if bps = utilization_rate_bps start_pt then from_bps L (ucast (borrow_rate_bps start_pt))
      else if bps = utilization_rate_bps end_pt then from_bps L (ucast (borrow_rate_bps end_pt))
      else rbind (segment_from_points start_pt end_pt) (\<lambda>segment.
           segment_get_borrow_rate L segment utilization_rate)))))"

section \<open>The curve over naturals\<close>

text \<open>
  \<open>util_bps u\<close> rounds a utilization to the nearest basis point; \<open>rate_of\<close> is the rate of a
  point in bits; \<open>segment_rate\<close> and \<open>curve_rate\<close> are the interpolation on a segment and on a
  list of points.
\<close>

definition util_bps :: "nat \<Rightarrow> nat" where
  "util_bps u = (u * 10000 + fx_scale div 2) div fx_scale"

abbreviation ubps :: "curve_point \<Rightarrow> nat" where "ubps p \<equiv> unat (utilization_rate_bps p)"
abbreviation rbps :: "curve_point \<Rightarrow> nat" where "rbps p \<equiv> unat (borrow_rate_bps p)"

definition rate_of :: "curve_point \<Rightarrow> nat" where
  "rate_of p = rbps p * fx_scale div 10000"

definition segment_rate :: "curve_point \<Rightarrow> curve_point \<Rightarrow> nat \<Rightarrow> nat" where
  "segment_rate s e u =
     (if util_bps u = ubps s then rate_of s
      else if util_bps u = ubps e then rate_of e
      else (u - ubps s * fx_scale div 10000) * (rbps e - rbps s) div (ubps e - ubps s) + rate_of s)"

fun curve_rate :: "curve_point list \<Rightarrow> nat \<Rightarrow> nat" where
  "curve_rate (s # e # ps) u =
     (if util_bps u \<le> ubps e then segment_rate s e u else curve_rate (e # ps) u)"
| "curve_rate _ u = 0"

text \<open>Consecutive points of a validated curve.\<close>

fun chain :: "curve_point list \<Rightarrow> bool" where
  "chain (s # e # ps) \<longleftrightarrow>
     (if ubps s = 10000 then ubps e = 10000 else ubps s < ubps e) \<and> rbps s \<le> rbps e \<and> chain (e # ps)"
| "chain _ \<longleftrightarrow> True"

lemma validate_points_iff: "validate_points p ps = Inr () \<longleftrightarrow> chain (p # ps)"
proof (induction p ps rule: validate_points.induct)
  case (2 p q ps)
  have "utilization_rate_bps x = MAX_UTILIZATION_RATE_BPS \<longleftrightarrow> ubps x = 10000" for x
    by (auto simp: MAX_UTILIZATION_RATE_BPS_def intro: word_unat_eqI)
  with 2 show ?case
    by (auto simp: res_simps word_le_nat_alt word_less_nat_alt not_le not_less)
qed simp

lemma max_util_iff: "utilization_rate_bps x = MAX_UTILIZATION_RATE_BPS \<longleftrightarrow> ubps x = 10000"
  by (auto simp: MAX_UTILIZATION_RATE_BPS_def intro: word_unat_eqI)

definition valid_curve :: "borrow_rate_curve \<Rightarrow> bool" where
  "valid_curve c \<longleftrightarrow> length (points c) = 11 \<and> curve_validate c = Inr ()"

lemma valid_curve_chain:
  assumes "valid_curve c"
  obtains p ps where "points c = p # ps" "ubps p = 0" "ubps (last (p # ps)) = 10000"
    "chain (p # ps)" "length ps = 10"
proof -
  from assms obtain p ps where ps: "points c = p # ps" "length ps = 10"
    by (cases "points c") (auto simp: valid_curve_def)
  moreover from ps have "last (p # ps) = points c ! 10"
    by (cases ps) (auto simp: last_conv_nth)
  ultimately show ?thesis
    using assms that [of p ps]
    by (auto simp: valid_curve_def curve_validate_def Let_def res_simps validate_points_iff
        max_util_iff split: if_splits)
qed

lemma scale_split: "fx_scale = 2 * (fx_scale div 2)"
  by (simp add: fx_scale_def)

lemma util_bps_mono: "u \<le> v \<Longrightarrow> util_bps u \<le> util_bps v"
  by (simp add: util_bps_def div_le_mono)

lemma util_bps_le: "u \<le> fx_scale \<Longrightarrow> util_bps u \<le> 10000"
  using util_bps_mono [of u fx_scale] by (simp add: util_bps_def fx_scale_def)

lemma util_bps_bounds:
  "util_bps u * fx_scale \<le> u * 10000 + fx_scale div 2"
  "u * 10000 + fx_scale div 2 < (util_bps u + 1) * fx_scale"
  unfolding util_bps_def by (rule div_mult_le', rule less_div_mult) simp

lemma above_start:
  assumes "k < util_bps u"
  shows "k * fx_scale div 10000 \<le> u"
proof -
  have "(k + 1) * fx_scale \<le> util_bps u * fx_scale"
    using assms by (intro mult_le_mono1) simp
  then have "k * fx_scale \<le> u * 10000"
    using util_bps_bounds(1) [of u] scale_split by simp
  then show ?thesis
    by (metis div_le_mono nonzero_mult_div_cancel_right zero_neq_numeral)
qed

lemma interpolation_le:
  assumes "util_bps u < e" "s < e"
  shows "(u - s * fx_scale div 10000) * n div (e - s) * 10000 \<le> n * fx_scale"
proof -
  let ?U = "s * fx_scale div 10000"
  have "(util_bps u + 1) * fx_scale \<le> e * fx_scale"
    using assms by (intro mult_le_mono1) simp
  then have "u * 10000 + fx_scale div 2 < e * fx_scale"
    using util_bps_bounds(2) [of u] by (rule order.strict_trans2 [rotated])
  moreover have "s * fx_scale < (?U + 1) * 10000"
    by (rule less_div_mult) simp
  ultimately have "(u - ?U) * 10000 \<le> (e - s) * fx_scale"
    using \<open>s < e\<close> by (simp add: fx_scale_def diff_mult_distrib)
  then have "(u - ?U) * 10000 * n \<le> (e - s) * fx_scale * n"
    by (rule mult_le_mono1)
  moreover have "(u - ?U) * n div (e - s) * (e - s) \<le> (u - ?U) * n"
    by (rule div_mult_le')
  ultimately have "((u - ?U) * n div (e - s) * (e - s)) * 10000 \<le> (e - s) * fx_scale * n"
    by linarith
  then have "((u - ?U) * n div (e - s) * 10000) * (e - s) \<le> (n * fx_scale) * (e - s)"
    by (simp only: mult_ac)
  then show ?thesis using \<open>s < e\<close> by simp
qed

lemma rate_of_mono: "rbps s \<le> rbps e \<Longrightarrow> rate_of s \<le> rate_of e"
  by (simp add: rate_of_def div_le_mono)

lemma rate_of_le: "rbps s \<le> rbps e \<Longrightarrow> q * 10000 \<le> (rbps e - rbps s) * fx_scale \<Longrightarrow>
   q + rate_of s \<le> rate_of e"
proof -
  assume "rbps s \<le> rbps e" and q: "q * 10000 \<le> (rbps e - rbps s) * fx_scale"
  have "rate_of s * 10000 \<le> rbps s * fx_scale"
    by (simp add: rate_of_def div_mult_le')
  moreover have "(rbps e - rbps s) * fx_scale + rbps s * fx_scale = rbps e * fx_scale"
    using \<open>rbps s \<le> rbps e\<close> by (simp flip: add_mult_distrib)
  ultimately have "(q + rate_of s) * 10000 \<le> rbps e * fx_scale"
    using q by simp
  then show ?thesis
    by (simp add: rate_of_def less_eq_div_iff_mult_less_eq)
qed

lemma segment_rate_bounds:
  assumes "ubps s \<le> util_bps u" "util_bps u \<le> ubps e" "rbps s \<le> rbps e"
  shows "rate_of s \<le> segment_rate s e u" "segment_rate s e u \<le> rate_of e"
  using assms interpolation_le [of u "ubps e" "ubps s" "rbps e - rbps s"] rate_of_mono [of s e]
    rate_of_le [of s e]
  by (auto simp: segment_rate_def)

lemma segment_rate_mono:
  assumes "ubps s \<le> util_bps u" "u \<le> v" "util_bps v \<le> ubps e" "rbps s \<le> rbps e"
  shows "segment_rate s e u \<le> segment_rate s e v"
proof -
  have uv: "util_bps u \<le> util_bps v" using \<open>u \<le> v\<close> by (rule util_bps_mono)
  have bounds: "rate_of s \<le> segment_rate s e v" "segment_rate s e u \<le> rate_of e"
    using segment_rate_bounds uv assms by simp_all
  show ?thesis
  proof (cases "util_bps u = ubps s \<or> util_bps v = ubps e")
    case True
    with bounds uv assms show ?thesis
      by (auto simp: segment_rate_def split: if_splits)
  next
    case False
    with uv assms have "segment_rate s e u =
        (u - ubps s * fx_scale div 10000) * (rbps e - rbps s) div (ubps e - ubps s) + rate_of s"
      "segment_rate s e v =
        (v - ubps s * fx_scale div 10000) * (rbps e - rbps s) div (ubps e - ubps s) + rate_of s"
      by (auto simp: segment_rate_def)
    with \<open>u \<le> v\<close> show ?thesis by (simp add: div_le_mono mult_le_mono1 diff_le_mono)
  qed
qed

lemma curve_rate_bounds:
  assumes "chain (p # ps)" "ps \<noteq> []" "ubps p \<le> util_bps u" "util_bps u \<le> ubps (last ps)"
  shows "rate_of p \<le> curve_rate (p # ps) u \<and> curve_rate (p # ps) u \<le> rate_of (last ps)"
  using assms
proof (induction ps arbitrary: p)
  case (Cons e ps)
  have last_le: "rate_of e \<le> rate_of (last (e # ps))" if "chain (e # ps)" for e ps
    using that by (induction ps arbitrary: e) (auto intro: order_trans [OF rate_of_mono])
  show ?case
  proof (cases "util_bps u \<le> ubps e")
    case True
    with Cons.prems segment_rate_bounds [of p u e] last_le [of e ps] show ?thesis by simp
  next
    case False
    with Cons.prems have "ps \<noteq> []" by auto
    with Cons.IH [of e] Cons.prems False rate_of_mono [of p e] show ?thesis by simp
  qed
qed simp

lemma curve_rate_mono:
  assumes "chain (p # ps)" "ps \<noteq> []" "ubps p \<le> util_bps u" "u \<le> v"
    "util_bps v \<le> ubps (last ps)"
  shows "curve_rate (p # ps) u \<le> curve_rate (p # ps) v"
  using assms
proof (induction ps arbitrary: p)
  case (Cons e ps)
  have uv: "util_bps u \<le> util_bps v" using \<open>u \<le> v\<close> by (rule util_bps_mono)
  show ?case
  proof (cases "util_bps v \<le> ubps e")
    case True
    with uv Cons.prems segment_rate_mono [of p u v e] show ?thesis by simp
  next
    case False
    with Cons.prems have "ps \<noteq> []" by auto
    with Cons False segment_rate_bounds [of p u e] curve_rate_bounds [of e ps v] uv
    show ?thesis by (cases "util_bps u \<le> ubps e") auto
  qed
qed simp

section \<open>The code computes the interpolation\<close>

context num_lib begin

lemma from_bps_u32:
  "\<exists>f. from_bps L (ucast (x :: u32)) = Inr f \<and> unat f = unat x * fx_scale div 10000"
proof -
  have "unat x * fx_scale div 10000 < 2 ^ 128"
    using u32_scale_lt by (rule le_less_trans [OF div_le_dividend])
  then show ?thesis
    by (intro exI [of _ "of_nat (unat x * fx_scale div 10000)"])
       (use u32_scale_lt [of x] in \<open>simp add: from_bps_eq unat_of_nat_lt del: of_nat_mult\<close>)
qed

lemma to_bps_u32:
  assumes "unat u \<le> fx_scale"
  shows "\<exists>b. to_bps L (fx_checked_to_u32 L) u = Inr (Some b) \<and> unat b = util_bps (unat u)"
proof -
  have lit: "unat (fraction_lit 10000) = 10000 * fx_scale" by simp
  have fit: "unat u * 10000 < 2 ^ 128"
    using assms by (simp add: fx_scale_def)
  then obtain m where m: "fx_checked_mul L u (fraction_lit 10000) = Some m" "unat m = unat u * 10000"
    by (cases "fx_checked_mul L u (fraction_lit 10000)") (auto simp: arith_simps fx_scale_def)
  have "util_bps (unat u) * fx_scale < 2 ^ 128"
    using util_bps_le [OF assms] by (simp add: fx_scale_def)
  then obtain r where r: "fx_round L m = Inr r" "unat r = util_bps (unat u) * fx_scale"
    using m(2) by (auto simp: round to_word_def util_bps_def unat_of_nat_lt simp del: of_nat_mult)
  have "util_bps (unat u) < 2 ^ 32" using util_bps_le [OF assms] by simp
  then have "fx_checked_to_u32 L r = Some (of_nat (util_bps (unat u)))"
    using r(2) by (simp add: fx_opt_eq unat_of_nat_lt)
  with m r \<open>util_bps (unat u) < 2 ^ 32\<close> show ?thesis
    by (intro exI [of _ "of_nat (util_bps (unat u))"]) (simp add: to_bps_def unat_of_nat_lt)
qed

lemma segment_value:
  assumes "ubps s < util_bps (unat u)" "util_bps (unat u) < ubps e" "rbps s \<le> rbps e"
    and "unat u \<le> fx_scale"
  shows "\<exists>r. rbind (segment_from_points s e) (\<lambda>seg. segment_get_borrow_rate L seg u) = Inr r \<and>
           unat r = segment_rate s e (unat u)"
proof -
  obtain nom denom where seg: "segment_from_points s e =
      Inr \<lparr> slope_nom = nom, slope_denom = denom, start_point = s \<rparr>"
    and nom: "unat nom = rbps e - rbps s" and denom: "unat denom = ubps e - ubps s"
  proof -
    have "checked_sub (borrow_rate_bps e) (borrow_rate_bps s) =
        Some (borrow_rate_bps e - borrow_rate_bps s)"
      "sub_ov (utilization_rate_bps e) (utilization_rate_bps s) =
        Inr (utilization_rate_bps e - utilization_rate_bps s)"
      using assms by (simp_all add: checked_sub_def sub_ov_def word_le_nat_alt)
    moreover have "unat (borrow_rate_bps e - borrow_rate_bps s) = rbps e - rbps s"
      "unat (utilization_rate_bps e - utilization_rate_bps s) = ubps e - ubps s"
      using assms by (simp_all add: unat_sub word_le_nat_alt)
    ultimately show ?thesis
      using assms by (intro that) (simp_all add: segment_from_points_def word_le_nat_alt)
  qed
  obtain su where su: "from_bps L (ucast (utilization_rate_bps s)) = Inr su"
    "unat su = ubps s * fx_scale div 10000" using from_bps_u32 by blast
  obtain ofs where ofs: "from_bps L (ucast (borrow_rate_bps s)) = Inr ofs" "unat ofs = rate_of s"
    using from_bps_u32 by (auto simp: rate_of_def)
  have le: "unat su \<le> unat u" using above_start [OF assms(1)] su(2) by simp
  then obtain coef where coef: "fx_checked_sub L u su = Some coef" "unat coef = unat u - unat su"
    by (cases "fx_checked_sub L u su") (auto simp: arith_simps)
  have "unat coef \<le> fx_scale" using coef(2) assms(4) by simp
  then have "unat coef * unat nom \<le> fx_scale * 2 ^ 32"
    by (rule mult_mono) (use unat_lt [of nom] in \<open>simp_all add: less_imp_le\<close>)
  then have "unat coef * unat nom < 2 ^ 128"
    by (rule le_less_trans) (simp add: fx_scale_def)
  then obtain p where p: "fx_mul_int L coef (ucast nom) = Inr p" "unat p = unat coef * unat nom"
    by (cases "fx_mul_int L coef (ucast nom)") (auto simp: arith_simps)
  have "denom \<noteq> 0" using denom assms by auto
  then obtain q where q: "fx_div_int L p (ucast denom) = Inr q" "unat q = unat p div unat denom"
    by (cases "fx_div_int L p (ucast denom)") (auto simp: arith_simps)
  have val: "unat q + unat ofs = segment_rate s e (unat u)"
    using assms coef(2) su(2) nom denom p q ofs by (simp add: segment_rate_def)
  moreover have "segment_rate s e (unat u) \<le> rate_of e"
    using assms by (intro segment_rate_bounds) simp_all
  moreover have "rate_of e < 2 ^ 128"
    unfolding rate_of_def by (rule le_less_trans [OF div_le_dividend u32_scale_lt])
  ultimately obtain r where "fx_add L q ofs = Inr r" "unat r = segment_rate s e (unat u)"
    by (cases "fx_add L q ofs") (auto simp: arith_simps)
  with seg su ofs coef p q show ?thesis
    by (simp add: segment_get_borrow_rate_def)
qed

text \<open>The search over the windows of two points.\<close>

lemma find_window:
  assumes "chain (p # ps)" "ps \<noteq> []" "ubps p \<le> b" "b \<le> ubps (last ps)" "unat bps = b"
    and "\<And>s e. ubps s \<le> b \<Longrightarrow> b \<le> ubps e \<Longrightarrow> rbps s \<le> rbps e \<Longrightarrow> Q (s, e) (segment_rate s e u)"
    and "b = util_bps u"
  shows "\<exists>w. find (\<lambda>(first, second). utilization_rate_bps first \<le> bps \<and>
                    bps \<le> utilization_rate_bps second) (zip (p # ps) ps) = Some w \<and>
             Q w (curve_rate (p # ps) u)"
  using assms
proof (induction ps arbitrary: p)
  case (Cons e ps)
  show ?case
  proof (cases "b \<le> ubps e")
    case True
    with Cons.prems show ?thesis by (simp add: word_le_nat_alt)
  next
    case False
    with Cons.prems have "ps \<noteq> []" by auto
    with Cons.IH [of e] Cons.prems False show ?thesis by (simp add: word_le_nat_alt)
  qed
qed simp

lemma curve_get_borrow_rate_eq:
  assumes "valid_curve c"
  shows "\<exists>r. curve_get_borrow_rate L c u = Inr r \<and>
    unat r = curve_rate (points c) (min (unat u) fx_scale)"
proof -
  from assms obtain p ps where c: "points c = p # ps" "ubps p = 0" "ubps (last (p # ps)) = 10000"
    "chain (p # ps)" "length ps = 10" by (rule valid_curve_chain)
  define v where "v = (if u > fx_one then fx_one else u)"
  have v: "unat v = min (unat u) fx_scale" by (auto simp: v_def word_less_nat_alt)
  then obtain b where b: "to_bps L (fx_checked_to_u32 L) v = Inr (Some b)"
    "unat b = util_bps (unat v)" using to_bps_u32 [of v] by auto
  define R where "R = (\<lambda>(s, e) x. \<exists>r. (if b = utilization_rate_bps s then
       from_bps L (ucast (borrow_rate_bps s))
     else if b = utilization_rate_bps e then from_bps L (ucast (borrow_rate_bps e))
     else rbind (segment_from_points s e) (\<lambda>seg. segment_get_borrow_rate L seg v)) = Inr r \<and>
     unat r = x)"
  have "R (s, e) (segment_rate s e (unat v))"
    if "ubps s \<le> util_bps (unat v)" "util_bps (unat v) \<le> ubps e" "rbps s \<le> rbps e" for s e
  proof -
    have eq: "b = w \<longleftrightarrow> util_bps (unat v) = unat w" for w
      using b(2) by (auto intro: word_unat_eqI)
    show ?thesis
      using that segment_value [of s v e] from_bps_u32 v
      by (auto simp: R_def eq segment_rate_def rate_of_def)
  qed
  moreover have "ps \<noteq> []" using c(5) by auto
  moreover have "util_bps (unat v) \<le> 10000" using v by (intro util_bps_le) simp
  ultimately obtain w where w: "find (\<lambda>(first, second). utilization_rate_bps first \<le> b \<and>
      b \<le> utilization_rate_bps second) (zip (p # ps) ps) = Some w"
    "R w (curve_rate (p # ps) (unat v))"
    using find_window [of p ps "util_bps (unat v)" b R "unat v"] b c by auto
  then show ?thesis
    using b c v by (cases w) (auto simp: curve_get_borrow_rate_def Let_def R_def simp flip: v_def)
qed

lemma curve_get_borrow_rate_bounds:
  assumes "valid_curve c"
  shows "\<exists>r. curve_get_borrow_rate L c u = Inr r \<and>
    rate_of (hd (points c)) \<le> unat r \<and> unat r \<le> rate_of (last (points c))"
proof -
  from assms obtain p ps where c: "points c = p # ps" "ubps p = 0" "ubps (last (p # ps)) = 10000"
    "chain (p # ps)" "length ps = 10" by (rule valid_curve_chain)
  have ps: "ps \<noteq> []" using c(5) by auto
  with c(3) have "util_bps (min (unat u) fx_scale) \<le> ubps (last ps)"
    using util_bps_le [of "min (unat u) fx_scale"] by simp
  with curve_get_borrow_rate_eq [OF assms, of u] curve_rate_bounds [OF c(4) ps] c(1,2) ps
  show ?thesis by auto
qed

lemma curve_get_borrow_rate_mono:
  assumes "valid_curve c" "u \<le> v" "curve_get_borrow_rate L c u = Inr ru"
    and "curve_get_borrow_rate L c v = Inr rv"
  shows "ru \<le> rv"
proof -
  from assms(1) obtain p ps where c: "points c = p # ps" "ubps p = 0" "ubps (last (p # ps)) = 10000"
    "chain (p # ps)" "length ps = 10" by (rule valid_curve_chain)
  have ps: "ps \<noteq> []" using c(5) by auto
  with c(3) have "util_bps (min (unat v) fx_scale) \<le> ubps (last ps)"
    using util_bps_le [of "min (unat v) fx_scale"] by simp
  with curve_rate_mono [OF c(4) ps, of "min (unat u) fx_scale" "min (unat v) fx_scale"]
    curve_get_borrow_rate_eq [OF assms(1), of u] curve_get_borrow_rate_eq [OF assms(1), of v]
    assms c(1,2)
  show ?thesis by (auto simp: word_le_nat_alt)
qed

end

section \<open>Building curves\<close>

lemma chain_replicate: "ubps p = 10000 \<Longrightarrow> chain (p # replicate n p)"
  by (induction n) auto

lemma chain_pad:
  "pts \<noteq> [] \<Longrightarrow> ubps (last pts) = 10000 \<Longrightarrow>
   chain (pts @ replicate n (last pts)) \<longleftrightarrow> chain pts"
  by (induction pts rule: chain.induct) (auto simp: chain_replicate)

lemma last_pad: "pts \<noteq> [] \<Longrightarrow> last (pts @ replicate n (last pts)) = last pts"
  by (cases n) (simp_all add: last_append)

lemma curve_from_points_iff:
  "curve_from_points pts = Inr c \<longleftrightarrow>
     2 \<le> length pts \<and> length pts \<le> 11 \<and> ubps (hd pts) = 0 \<and> ubps (last pts) = 10000 \<and>
     chain pts \<and> points c = pts @ replicate (11 - length pts) (last pts)"
proof (cases "2 \<le> length pts \<and> length pts \<le> 11 \<and> ubps (last pts) = 10000")
  case True
  define qs where "qs = pts @ replicate (11 - length pts) (last pts)"
  from True have ne: "pts \<noteq> []" and len: "length qs = 11" by (auto simp: qs_def)
  then have "qs \<noteq> []" and hd: "qs ! 0 = hd pts" by (auto simp: qs_def hd_conv_nth nth_append)
  have "qs ! 10 = last qs" using len \<open>qs \<noteq> []\<close> by (simp add: last_conv_nth)
  then have last: "qs ! 10 = last pts" by (simp add: qs_def last_pad [OF ne])
  have cons: "qs ! 0 # drop 1 qs = qs" using \<open>qs \<noteq> []\<close> by (cases qs) simp_all
  have "chain qs \<longleftrightarrow> chain pts" using chain_pad [OF ne] True by (simp add: qs_def)
  then have val: "validate_points (qs ! 0) (drop 1 qs) = Inr () \<longleftrightarrow> chain pts"
    by (simp only: validate_points_iff cons)
  have "curve_validate \<lparr> points = qs \<rparr> = Inr () \<longleftrightarrow> ubps (hd pts) = 0 \<and> chain pts"
    using hd last True val by (simp add: curve_validate_def Let_def fail_def max_util_iff)
  moreover have "curve_from_points pts =
      rbind (curve_validate \<lparr> points = qs \<rparr>) (\<lambda>_. Inr \<lparr> points = qs \<rparr>)"
    using True by (simp add: curve_from_points_def Let_def max_util_iff not_less qs_def)
  ultimately show ?thesis
    using True by (cases c) (auto simp: rbind_eq_Inr simp flip: qs_def)
next
  case False
  then show ?thesis
    by (auto simp: curve_from_points_def res_simps max_util_iff not_le split: if_splits)
qed

lemma curve_from_points_valid: "curve_from_points pts = Inr c \<Longrightarrow> valid_curve c"
  by (auto simp: curve_from_points_def valid_curve_def Let_def res_simps split: if_splits)

lemma curve_new_flat_eq:
  "\<exists>c. curve_new_flat r = Inr c \<and> valid_curve c \<and>
     (\<forall>p \<in> set (points c). borrow_rate_bps p = r)"
proof -
  let ?pts = "[curve_point_new 0 r, curve_point_new MAX_UTILIZATION_RATE_BPS r]"
  let ?c = "\<lparr> points = ?pts @ replicate 9 (last ?pts) \<rparr>"
  have "curve_from_points ?pts = Inr ?c"
    by (subst curve_from_points_iff)
       (simp add: curve_point_new_def MAX_UTILIZATION_RATE_BPS_def)
  then show ?thesis
    using curve_from_points_valid [of ?pts ?c]
    by (intro exI [of _ ?c]) (auto simp: curve_new_flat_def curve_point_new_def)
qed

section \<open>Properties\<close>

text \<open>
  C38. On every curve that passes \<open>validate\<close> the borrow rate is defined for every
  utilization, also above 100\%: no conversion, search, subtraction or product of
  \<open>get_borrow_rate\<close> can fail, nothing wraps. The rate lies between the rates of the first and
  the last point, and it never decreases when the utilization grows.
\<close>

theorem valid_curve_total_bounded_monotone:
  assumes "num_lib L" "valid_curve c"
  shows "(\<exists>r. curve_get_borrow_rate L c u = Inr r \<and>
            rate_of (hd (points c)) \<le> unat r \<and> unat r \<le> rate_of (last (points c))) \<and>
         (\<forall>v ru rv. u \<le> v \<and> curve_get_borrow_rate L c u = Inr ru \<and>
            curve_get_borrow_rate L c v = Inr rv \<longrightarrow> ru \<le> rv)"
  using num_lib.curve_get_borrow_rate_bounds [OF assms, of u]
    num_lib.curve_get_borrow_rate_mono [OF assms, of u]
  by blast

theorem valid_curve_total_bounded_monotone_witness:
  "\<exists>c r. curve_from_points [curve_point_new 0 100, curve_point_new 8000 500,
            curve_point_new 10000 9000] = Inr c \<and>
         curve_get_borrow_rate std_lib c (fx_one div 2) = Inr r \<and>
         unat r \<le> 9000 * fx_scale div 10000"
proof -
  let ?pts = "[curve_point_new 0 100, curve_point_new 8000 500, curve_point_new 10000 9000]"
  let ?c = "\<lparr> points = ?pts @ replicate 8 (curve_point_new 10000 9000) \<rparr>"
  have c: "curve_from_points ?pts = Inr ?c"
    by (subst curve_from_points_iff) (simp add: curve_point_new_def)
  show ?thesis
    using valid_curve_total_bounded_monotone [OF std.num_lib_axioms curve_from_points_valid [OF c],
        of "fx_one div 2"] c
    by (auto simp: rate_of_def curve_point_new_def)
qed

text \<open>
  Which curves can be built: \<open>from_points\<close> accepts exactly the lists of 2 to 11 points whose
  utilizations start at zero, end at 100\% and increase (strictly, until 100\% is reached) and
  whose rates never decrease; it pads them with the last point, and the padded curve passes
  \<open>validate\<close>. \<open>new_flat\<close> never panics, and its rate is the same at every utilization.
\<close>

theorem curve_construction:
  assumes "num_lib L"
  shows "(curve_from_points pts = Inr c \<longleftrightarrow>
            2 \<le> length pts \<and> length pts \<le> 11 \<and> ubps (hd pts) = 0 \<and> ubps (last pts) = 10000 \<and>
            chain pts \<and> points c = pts @ replicate (11 - length pts) (last pts)) \<and>
         (curve_from_points pts = Inr c \<longrightarrow> valid_curve c) \<and>
         (\<exists>flat. curve_new_flat rate = Inr flat \<and> valid_curve flat \<and>
            curve_get_borrow_rate L flat u = from_bps L (ucast rate))"
proof -
  obtain flat where flat: "curve_new_flat rate = Inr flat" "valid_curve flat"
    "\<forall>p \<in> set (points flat). borrow_rate_bps p = rate"
    using curve_new_flat_eq by blast
  have "points flat \<noteq> []" using flat(2) by (auto simp: valid_curve_def)
  with flat(3) have "rate_of (hd (points flat)) = unat rate * fx_scale div 10000"
    "rate_of (last (points flat)) = unat rate * fx_scale div 10000"
    by (simp_all add: rate_of_def)
  with num_lib.curve_get_borrow_rate_bounds [OF assms flat(2), of u]
  obtain r where r: "curve_get_borrow_rate L flat u = Inr r" "unat r = unat rate * fx_scale div 10000"
    by auto
  obtain f where f: "from_bps L (ucast rate) = Inr f" "unat f = unat rate * fx_scale div 10000"
    using num_lib.from_bps_u32 [OF assms, of rate] by blast
  have "r = f" using r(2) f(2) by (intro word_unat_eqI) simp
  with r f have "curve_get_borrow_rate L flat u = from_bps L (ucast rate)" by simp
  with flat curve_from_points_iff [of pts c] curve_from_points_valid [of pts c] show ?thesis
    by blast
qed

theorem curve_construction_witness:
  "\<exists>flat. curve_new_flat 250 = Inr flat \<and>
     curve_get_borrow_rate std_lib flat fx_one = from_bps std_lib 250"
  using curve_construction [OF std.num_lib_axioms, of "[]" _ 250 fx_one] by auto

end
