(* ===== verification/Token_Info.thy ===== *)
theory Token_Info imports Prelude begin

text \<open>
  The oracle configuration of a reserve's token (\<open>state/token_info.rs\<close>): which price feeds are
  enabled, and the check that the accounts passed to a refresh are the configured ones. An
  account is represented by its key; the byte array of the token's name and the paddings are
  left out.
\<close>

definition key_of_bytes :: "nat list \<Rightarrow> pubkey" where
  "key_of_bytes bytes = foldl (\<lambda>k b. k * 256 + of_nat b) 0 bytes"

definition NULL_PUBKEY :: pubkey where
  "NULL_PUBKEY = key_of_bytes
     [11, 193, 238, 216, 208, 116, 241, 195, 55, 212, 76, 22, 75, 202, 40, 216, 76, 206, 27, 169,
      138, 64, 177, 28, 19, 90, 156, 0, 0, 0, 0, 0]"

record price_heuristic =
  ph_lower :: u64
  ph_upper :: u64
  ph_exp :: u64

record scope_configuration =
  scope_price_feed :: pubkey
  price_chain :: "u16 list"
  twap_chain :: "u16 list"

record switchboard_configuration =
  price_aggregator :: pubkey
  twap_aggregator :: pubkey

record pyth_configuration =
  pyth_price :: pubkey

record token_info =
  token_name :: "u8 list"
  heuristic :: price_heuristic
  max_twap_divergence_bps :: u64
  max_age_price_seconds :: u64
  max_age_twap_seconds :: u64
  scope_configuration :: scope_configuration
  switchboard_configuration :: switchboard_configuration
  pyth_configuration :: pyth_configuration
  block_price_usage :: u8

definition scope_configuration_default :: scope_configuration where
  "scope_configuration_default = \<lparr> scope_price_feed = NULL_PUBKEY,
     price_chain = replicate 4 (- 1), twap_chain = replicate 4 (- 1) \<rparr>"

definition token_info_default :: token_info where
  "token_info_default = \<lparr> token_name = replicate 32 0, heuristic = \<lparr> ph_lower = 0, ph_upper = 0, ph_exp = 0 \<rparr>,
     max_twap_divergence_bps = 0, max_age_price_seconds = 0, max_age_twap_seconds = 0,
     scope_configuration = scope_configuration_default,
     switchboard_configuration = \<lparr> price_aggregator = 0, twap_aggregator = 0 \<rparr>,
     pyth_configuration = \<lparr> pyth_price = 0 \<rparr>, block_price_usage = 0 \<rparr>"

definition key_enabled :: "pubkey \<Rightarrow> bool" where
  "key_enabled k \<longleftrightarrow> k \<noteq> 0 \<and> k \<noteq> NULL_PUBKEY"

definition scope_is_enabled :: "scope_configuration \<Rightarrow> bool" where
  "scope_is_enabled c \<longleftrightarrow> key_enabled (scope_price_feed c)"

definition scope_is_valid :: "scope_configuration \<Rightarrow> bool" where
  "scope_is_valid c \<longleftrightarrow> \<not> scope_is_enabled c \<or>
     price_chain c \<noteq> replicate 4 (- 1) \<and> price_chain c \<noteq> replicate 4 0"

definition scope_has_twap :: "scope_configuration \<Rightarrow> bool" where
  "scope_has_twap c \<longleftrightarrow> twap_chain c \<noteq> replicate 4 (- 1) \<and> twap_chain c \<noteq> replicate 4 0"

definition switchboard_is_enabled :: "switchboard_configuration \<Rightarrow> bool" where
  "switchboard_is_enabled c \<longleftrightarrow> key_enabled (price_aggregator c)"

definition switchboard_has_twap :: "switchboard_configuration \<Rightarrow> bool" where
  "switchboard_has_twap c \<longleftrightarrow> key_enabled (twap_aggregator c)"

definition pyth_is_enabled :: "pyth_configuration \<Rightarrow> bool" where
  "pyth_is_enabled c \<longleftrightarrow> key_enabled (pyth_price c)"

definition token_info_is_valid :: "token_info \<Rightarrow> bool" where
  "token_info_is_valid ti \<longleftrightarrow> scope_is_valid (scope_configuration ti) \<and>
     (scope_is_enabled (scope_configuration ti) \<or>
      switchboard_is_enabled (switchboard_configuration ti) \<or>
      pyth_is_enabled (pyth_configuration ti))"

definition is_twap_enabled :: "token_info \<Rightarrow> bool" where
  "is_twap_enabled ti \<longleftrightarrow> max_twap_divergence_bps ti > 0"

definition is_twap_config_valid :: "token_info \<Rightarrow> bool" where
  "is_twap_config_valid ti =
     (if \<not> is_twap_enabled ti then True
      else if max_age_twap_seconds ti = 0 then False
      else if scope_is_enabled (scope_configuration ti) \<and>
              \<not> scope_has_twap (scope_configuration ti) then False
      else if switchboard_is_enabled (switchboard_configuration ti) \<and>
              \<not> switchboard_has_twap (switchboard_configuration ti) then False
      else True)"

definition check_pyth_acc_matches :: "token_info \<Rightarrow> pubkey option \<Rightarrow> bool" where
  "check_pyth_acc_matches ti pyth_info =
     (if pyth_is_enabled (pyth_configuration ti)
      then pyth_info = Some (pyth_price (pyth_configuration ti))
      else pyth_info = None)"

definition check_switchboard_acc_matches ::
  "token_info \<Rightarrow> pubkey option \<Rightarrow> pubkey option \<Rightarrow> bool" where
  "check_switchboard_acc_matches ti price_info twap_info =
     (if switchboard_is_enabled (switchboard_configuration ti)
      then price_info = Some (price_aggregator (switchboard_configuration ti)) \<and>
           (\<not> is_twap_enabled ti \<or>
            twap_info = Some (twap_aggregator (switchboard_configuration ti)))
      else price_info = None \<and> twap_info = None)"

definition check_scope_acc_matches :: "token_info \<Rightarrow> pubkey option \<Rightarrow> bool" where
  "check_scope_acc_matches ti scope_info =
     (if scope_is_enabled (scope_configuration ti)
      then scope_info = Some (scope_price_feed (scope_configuration ti))
      else scope_info = None)"

definition validate_token_info_config ::
  "token_info \<Rightarrow> pubkey option \<Rightarrow> pubkey option \<Rightarrow> pubkey option \<Rightarrow> pubkey option \<Rightarrow> unit res" where
  "validate_token_info_config ti pyth_info switchboard_price_info switchboard_twap_info
     scope_prices_info =
     rbind (ensure (token_info_is_valid ti) InvalidOracleConfig) (\<lambda>_.
     rbind (ensure (is_twap_config_valid ti) InvalidTwapConfig) (\<lambda>_.
     rbind (ensure (check_pyth_acc_matches ti pyth_info) InvalidPythPriceAccount) (\<lambda>_.
     rbind (ensure (check_switchboard_acc_matches ti switchboard_price_info switchboard_twap_info)
              InvalidSwitchboardAccount) (\<lambda>_.
     ensure (check_scope_acc_matches ti scope_prices_info) InvalidScopePriceAccount))))"

text \<open>
  A configuration that passes is never without a price source, and each source's account is
  present exactly when the source is enabled.
\<close>

lemma validated_sources:
  assumes "validate_token_info_config ti p sp st sc = Inr ()"
  shows "p \<noteq> None \<or> sp \<noteq> None \<or> sc \<noteq> None"
    and "p = Some k \<Longrightarrow> pyth_is_enabled (pyth_configuration ti) \<and> k = pyth_price (pyth_configuration ti)"
  using assms
  by (auto simp: validate_token_info_config_def res_simps token_info_is_valid_def
      check_pyth_acc_matches_def check_switchboard_acc_matches_def check_scope_acc_matches_def
      split: if_splits)

end
