(* ===== verification/Reserve_Liquidity.thy ===== *)
theory Reserve_Liquidity imports Fraction begin

text \<open>
  The liquidity side of a reserve and its withdraw queue (\<open>ReserveLiquidity\<close>, \<open>WithdrawQueue\<close>
  and \<open>approximate_compounded_interest\<close> of \<open>state/reserve.rs\<close>, \<open>ten_pow\<close> and the clock
  constants of \<open>utils\<close>). Padding fields are left out. Amounts are lamports (\<open>u64\<close>), fields
  with the suffix \<open>sf\<close> are bits of a \<open>Fraction\<close>.
\<close>

section \<open>Constants\<close>

definition SLOTS_PER_SECOND :: nat where "SLOTS_PER_SECOND = 2"
definition SLOTS_PER_MINUTE :: nat where "SLOTS_PER_MINUTE = SLOTS_PER_SECOND * 60"
definition SLOTS_PER_HOUR :: nat where "SLOTS_PER_HOUR = SLOTS_PER_MINUTE * 60"
definition SLOTS_PER_DAY :: nat where "SLOTS_PER_DAY = SLOTS_PER_HOUR * 24"
definition SLOTS_PER_YEAR :: nat where "SLOTS_PER_YEAR = SLOTS_PER_DAY * 365"
definition FULL_BPS :: nat where "FULL_BPS = 10000"
definition PROGRAM_VERSION :: nat where "PROGRAM_VERSION = 1"

lemma SLOTS_PER_YEAR_eval [simp]: "SLOTS_PER_YEAR = 63072000"
  by (simp add: SLOTS_PER_YEAR_def SLOTS_PER_DAY_def SLOTS_PER_HOUR_def SLOTS_PER_MINUTE_def
      SLOTS_PER_SECOND_def)

lemma FULL_BPS_eval [simp]: "FULL_BPS = 10000"
  by (simp add: FULL_BPS_def)

definition POWERS_OF_TEN :: "u64 list" where
  "POWERS_OF_TEN = [1, 10, 100, 1000, 10000, 100000, 1000000, 10000000, 100000000, 1000000000,
     10000000000, 100000000000, 1000000000000, 10000000000000, 100000000000000,
     1000000000000000, 10000000000000000, 100000000000000000, 1000000000000000000,
     10000000000000000000]"

definition ten_pow :: "nat \<Rightarrow> u64 res" where
  "ten_pow x = (if x > 19 then Inl Panic else Inr (POWERS_OF_TEN ! x))"

section \<open>Interest\<close>

definition approximate_compounded_interest :: "numlib \<Rightarrow> frac \<Rightarrow> u64 \<Rightarrow> frac res" where
  "approximate_compounded_interest L rate elapsed_slots =
     rbind (fx_div_int L rate (of_nat SLOTS_PER_YEAR)) (\<lambda>base.
     if elapsed_slots = 0 then Inr fx_one
     else if elapsed_slots = 1 then fx_add L fx_one base
     else if elapsed_slots = 2 then
       rbind (fx_add L fx_one base) (\<lambda>b. fx_mul L b b)
     else if elapsed_slots = 3 then
       rbind (fx_add L fx_one base) (\<lambda>b. rbind (fx_mul L b b) (\<lambda>b2. fx_mul L b2 b))
     else if elapsed_slots = 4 then
       rbind (fx_add L fx_one base) (\<lambda>b.
       rbind (fx_mul L b b) (\<lambda>pow_two. fx_mul L pow_two pow_two))
     else
       let expo = (ucast elapsed_slots :: u128);
           exp_minus_one = expo - 1;
           exp_minus_two = expo - 2
       in rbind (fx_mul_int L base expo) (\<lambda>first_term.
          rbind (fx_mul L first_term base) (\<lambda>s1.
          rbind (fx_mul_int L s1 exp_minus_one) (\<lambda>s2.
          rbind (fx_div_int L s2 2) (\<lambda>second_term.
          rbind (fx_mul L second_term base) (\<lambda>t1.
          rbind (fx_mul_int L t1 exp_minus_two) (\<lambda>t2.
          rbind (fx_div_int L t2 3) (\<lambda>third_term.
          rbind (fx_add L fx_one first_term) (\<lambda>r1.
          rbind (fx_add L r1 second_term) (\<lambda>r2.
          fx_add L r2 third_term))))))))))"

section \<open>Liquidity\<close>

record reserve_liquidity =
  rl_mint_pubkey :: pubkey
  rl_supply_vault :: pubkey
  fee_vault :: pubkey
  total_available_amount :: u64
  borrowed_amount_sf :: u128
  market_price_sf :: u128
  market_price_last_updated_ts :: u64
  mint_decimals :: u64
  deposit_limit_crossed_timestamp :: u64
  borrow_limit_crossed_timestamp :: u64
  cumulative_borrow_rate_bsf :: big_fraction
  accumulated_protocol_fees_sf :: u128
  accumulated_referrer_fees_sf :: u128
  pending_referrer_fees_sf :: u128
  absolute_referral_rate_sf :: u128
  token_program :: pubkey
  rewards_amount_available :: u64

record new_reserve_liquidity_params =
  nrl_mint_pubkey :: pubkey
  nrl_mint_decimals :: u8
  nrl_mint_token_program :: pubkey
  nrl_supply_vault :: pubkey
  nrl_fee_vault :: pubkey
  nrl_market_price_sf :: u128
  initial_amount_deposited_in_reserve :: u64

definition reserve_liquidity_default :: "numlib \<Rightarrow> reserve_liquidity" where
  "reserve_liquidity_default L = \<lparr>
     rl_mint_pubkey = 0, rl_supply_vault = 0, fee_vault = 0,
     total_available_amount = 0, borrowed_amount_sf = 0, market_price_sf = 0,
     market_price_last_updated_ts = 0, mint_decimals = 0,
     deposit_limit_crossed_timestamp = 0, borrow_limit_crossed_timestamp = 0,
     cumulative_borrow_rate_bsf = bf_from L fx_one,
     accumulated_protocol_fees_sf = 0, accumulated_referrer_fees_sf = 0,
     pending_referrer_fees_sf = 0, absolute_referral_rate_sf = 0,
     token_program = 0, rewards_amount_available = 0 \<rparr>"

definition reserve_liquidity_new ::
  "numlib \<Rightarrow> new_reserve_liquidity_params \<Rightarrow> reserve_liquidity" where
  "reserve_liquidity_new L params = \<lparr>
     rl_mint_pubkey = nrl_mint_pubkey params,
     rl_supply_vault = nrl_supply_vault params, fee_vault = nrl_fee_vault params,
     total_available_amount = initial_amount_deposited_in_reserve params,
     borrowed_amount_sf = 0, market_price_sf = nrl_market_price_sf params,
     market_price_last_updated_ts = 0, mint_decimals = ucast (nrl_mint_decimals params),
     deposit_limit_crossed_timestamp = 0, borrow_limit_crossed_timestamp = 0,
     cumulative_borrow_rate_bsf = bf_from L fx_one,
     accumulated_protocol_fees_sf = 0, accumulated_referrer_fees_sf = 0,
     pending_referrer_fees_sf = 0, absolute_referral_rate_sf = 0,
     token_program = nrl_mint_token_program params, rewards_amount_available = 0 \<rparr>"

definition total_supply :: "numlib \<Rightarrow> reserve_liquidity \<Rightarrow> frac res" where
  "total_supply L rl =
     rbind (frac_of_u64 L (total_available_amount rl)) (\<lambda>available.
     rbind (fx_add L available (borrowed_amount_sf rl)) (\<lambda>a.
     rbind (fx_sub L a (accumulated_protocol_fees_sf rl)) (\<lambda>b.
     rbind (fx_sub L b (accumulated_referrer_fees_sf rl)) (\<lambda>c.
     fx_sub L c (pending_referrer_fees_sf rl)))))"

definition total_borrow :: "reserve_liquidity \<Rightarrow> frac" where
  "total_borrow rl = borrowed_amount_sf rl"

definition liquidity_deposit :: "reserve_liquidity \<Rightarrow> u64 \<Rightarrow> reserve_liquidity res" where
  "liquidity_deposit rl liquidity_amount =
     rbind (ok_or (checked_add (total_available_amount rl) liquidity_amount)
              (LendingErr MathOverflow)) (\<lambda>available.
     Inr (rl\<lparr> total_available_amount := available \<rparr>))"

definition liquidity_repay ::
  "numlib \<Rightarrow> reserve_liquidity \<Rightarrow> u64 \<Rightarrow> frac \<Rightarrow> reserve_liquidity res" where
  "liquidity_repay L rl repay_amount settle_amount =
     rbind (ok_or (checked_add (total_available_amount rl) repay_amount)
              (LendingErr MathOverflow)) (\<lambda>available.
     let borrowed_amount_f = borrowed_amount_sf rl;
         safe_settle_amount = min settle_amount borrowed_amount_f
     in rbind (ok_or (fx_checked_sub L borrowed_amount_f safe_settle_amount)
                 (LendingErr MathOverflow)) (\<lambda>borrowed.
        Inr (rl\<lparr> total_available_amount := available, borrowed_amount_sf := borrowed \<rparr>)))"

definition accumulate_early_repay_penalty ::
  "numlib \<Rightarrow> reserve_liquidity \<Rightarrow> u64 \<Rightarrow> reserve_liquidity res" where
  "accumulate_early_repay_penalty L rl penalty_lamports =
     rbind (frac_of_u64 L penalty_lamports) (\<lambda>penalty_f.
     rbind (fx_add L (accumulated_protocol_fees_sf rl) penalty_f) (\<lambda>fees.
     rbind (add_ov (total_available_amount rl) penalty_lamports) (\<lambda>available.
     Inr (rl\<lparr> accumulated_protocol_fees_sf := fees, total_available_amount := available \<rparr>))))"

definition utilization_rate :: "numlib \<Rightarrow> reserve_liquidity \<Rightarrow> frac res" where
  "utilization_rate L rl =
     rbind (total_supply L rl) (\<lambda>supply.
     if supply = 0 then Inr 0 else fx_div L (borrowed_amount_sf rl) supply)"

definition mint_factor :: "reserve_liquidity \<Rightarrow> u64 res" where
  "mint_factor rl = ten_pow (unat (mint_decimals rl))"

definition liquidity_amount_to_market_value ::
  "numlib \<Rightarrow> reserve_liquidity \<Rightarrow> frac \<Rightarrow> frac res" where
  "liquidity_amount_to_market_value L rl liquidity_amount =
     rbind (mint_factor rl) (\<lambda>factor.
     rbind (mul_ov (ucast factor) FRACTION_ONE_SCALED) (\<lambda>mint_factor_sf.
     full_mul_int_ratio L liquidity_amount (market_price_sf rl) mint_factor_sf))"

definition market_value_to_liquidity_amount ::
  "numlib \<Rightarrow> reserve_liquidity \<Rightarrow> frac \<Rightarrow> frac res" where
  "market_value_to_liquidity_amount L rl market_value =
     rbind (mint_factor rl) (\<lambda>factor.
     rbind (mul_ov (ucast factor) FRACTION_ONE_SCALED) (\<lambda>mint_factor_sf.
     full_mul_int_ratio L market_value mint_factor_sf (market_price_sf rl)))"

definition compound_interest ::
  "numlib \<Rightarrow> reserve_liquidity \<Rightarrow> frac \<Rightarrow> frac \<Rightarrow> u64 \<Rightarrow> frac \<Rightarrow> frac \<Rightarrow> reserve_liquidity res" where
  "compound_interest L rl current_borrow_rate host_fixed_interest_rate slots_elapsed
     protocol_take_rate referral_rate =
     (let previous_cumulative_borrow_rate = cumulative_borrow_rate_bsf rl;
          previous_debt_f = borrowed_amount_sf rl;
          acc_protocol_fees_f = accumulated_protocol_fees_sf rl
      in rbind (fx_add L current_borrow_rate host_fixed_interest_rate) (\<lambda>rate.
      rbind (approximate_compounded_interest L rate slots_elapsed) (\<lambda>compounded_interest_rate.
      rbind (approximate_compounded_interest L host_fixed_interest_rate slots_elapsed)
        (\<lambda>compounded_fixed_rate.
      rbind (bf_mul L previous_cumulative_borrow_rate (bf_from L compounded_interest_rate))
        (\<lambda>new_cumulative_borrow_rate.
      rbind (fx_mul L previous_debt_f compounded_interest_rate) (\<lambda>new_debt_f.
      rbind (fx_mul L previous_debt_f compounded_fixed_rate) (\<lambda>debt_with_fixed.
      rbind (fx_sub L debt_with_fixed previous_debt_f) (\<lambda>fixed_host_fee.
      rbind (fx_sub L new_debt_f previous_debt_f) (\<lambda>net_new_debt.
      rbind (fx_sub L net_new_debt fixed_host_fee) (\<lambda>net_new_variable_debt_f.
      rbind (fx_mul L net_new_variable_debt_f protocol_take_rate) (\<lambda>variable_protocol_fee_f.
      rbind (fx_mul L protocol_take_rate referral_rate) (\<lambda>absolute_referral_rate.
      rbind (fx_mul L net_new_variable_debt_f absolute_referral_rate) (\<lambda>max_referrers_fees_f.
      rbind (fx_add L acc_protocol_fees_f fixed_host_fee) (\<lambda>f1.
      rbind (fx_add L f1 variable_protocol_fee_f) (\<lambda>f2.
      rbind (fx_sub L f2 max_referrers_fees_f) (\<lambda>new_acc_protocol_fees_f.
      rbind (add_ov (pending_referrer_fees_sf rl) max_referrers_fees_f) (\<lambda>pending.
      Inr (rl\<lparr> cumulative_borrow_rate_bsf := new_cumulative_borrow_rate,
               pending_referrer_fees_sf := pending,
               accumulated_protocol_fees_sf := new_acc_protocol_fees_f,
               borrowed_amount_sf := new_debt_f,
               absolute_referral_rate_sf := absolute_referral_rate \<rparr>))))))))))))))))))"

definition forgive_debt ::
  "numlib \<Rightarrow> reserve_liquidity \<Rightarrow> frac \<Rightarrow> reserve_liquidity res" where
  "forgive_debt L rl liquidity_amount =
     rbind (fx_sub L (borrowed_amount_sf rl) liquidity_amount) (\<lambda>new_amt.
     Inr (rl\<lparr> borrowed_amount_sf := new_amt \<rparr>))"

definition get_market_price :: "reserve_liquidity \<Rightarrow> frac" where
  "get_market_price rl = market_price_sf rl"

section \<open>The withdraw queue\<close>

record withdraw_queue =
  queued_collateral_amount :: u64
  next_issued_ticket_sequence_number :: u64
  next_withdrawable_ticket_sequence_number :: u64

definition withdraw_queue_default :: withdraw_queue where
  "withdraw_queue_default = \<lparr> queued_collateral_amount = 0,
     next_issued_ticket_sequence_number = 0, next_withdrawable_ticket_sequence_number = 0 \<rparr>"

definition queue_enqueue :: "withdraw_queue \<Rightarrow> u64 \<Rightarrow> (withdraw_queue \<times> u64) res" where
  "queue_enqueue q collateral_amount =
     rbind (add_ov (queued_collateral_amount q) collateral_amount) (\<lambda>queued.
     let issued_sequence_number = next_issued_ticket_sequence_number q
     in rbind (add_ov issued_sequence_number 1) (\<lambda>next_number.
        Inr (q\<lparr> queued_collateral_amount := queued,
                next_issued_ticket_sequence_number := next_number \<rparr>, issued_sequence_number)))"

definition queue_dequeue :: "withdraw_queue \<Rightarrow> u64 \<Rightarrow> bool \<Rightarrow> withdraw_queue res" where
  "queue_dequeue q collateral_amount ticket_closed =
     rbind (sub_ov (queued_collateral_amount q) collateral_amount) (\<lambda>queued.
     let q = q\<lparr> queued_collateral_amount := queued \<rparr>
     in if ticket_closed
        then rbind (add_ov (next_withdrawable_ticket_sequence_number q) 1) (\<lambda>next_number.
             Inr (q\<lparr> next_withdrawable_ticket_sequence_number := next_number \<rparr>))
        else Inr q)"

section \<open>Interest over naturals\<close>

text \<open>
  \<open>compounded r n\<close> is the value of the code's approximation for a rate of \<open>r\<close> bits per year
  after \<open>n\<close> slots: exact powers of \<open>1 + base\<close> up to four slots, three terms of the binomial
  series after that, every product rounded down.
\<close>

definition compounded :: "nat \<Rightarrow> nat \<Rightarrow> nat" where
  "compounded r n =
     (let base = r div SLOTS_PER_YEAR; b = fx_scale + base; t1 = base * n;
          t2 = fmul t1 base * (n - 1) div 2
      in if n = 0 then fx_scale
         else if n = 1 then b
         else if n = 2 then fmul b b
         else if n = 3 then fmul (fmul b b) b
         else if n = 4 then fmul (fmul b b) (fmul b b)
         else fx_scale + t1 + t2 + fmul t2 base * (n - 2) div 3)"

lemma compounded_ge: "fx_scale \<le> compounded r n"
proof -
  let ?b = "fx_scale + r div SLOTS_PER_YEAR"
  have b: "fx_scale \<le> ?b" by simp
  have b2: "fx_scale \<le> fmul ?b ?b" using fmul_one_le [OF b, of ?b] b by (rule order_trans [rotated])
  then have "fx_scale \<le> fmul (fmul ?b ?b) ?b" "fx_scale \<le> fmul (fmul ?b ?b) (fmul ?b ?b)"
    using fmul_one_le [OF b, of "fmul ?b ?b"] fmul_one_le [OF b2, of "fmul ?b ?b"]
    by (meson order_trans)+
  with b b2 show ?thesis by (simp add: compounded_def Let_def)
qed

lemma compounded_mono: "r \<le> r' \<Longrightarrow> compounded r n \<le> compounded r' n"
  unfolding compounded_def Let_def
  by (auto intro!: fmul_mono add_mono div_le_mono mult_le_mono)

definition fees_bits :: "reserve_liquidity \<Rightarrow> nat" where
  "fees_bits rl = unat (accumulated_protocol_fees_sf rl) + unat (accumulated_referrer_fees_sf rl) +
     unat (pending_referrer_fees_sf rl)"

definition assets_bits :: "reserve_liquidity \<Rightarrow> nat" where
  "assets_bits rl = unat (total_available_amount rl) * fx_scale + unat (borrowed_amount_sf rl)"

definition supply_bits :: "reserve_liquidity \<Rightarrow> nat" where
  "supply_bits rl = assets_bits rl - fees_bits rl"

definition solvent :: "reserve_liquidity \<Rightarrow> bool" where
  "solvent rl \<longleftrightarrow> assets_bits rl < 2 ^ 128 \<and> fees_bits rl \<le> assets_bits rl"

text \<open>
  The split of the interest of a period: the new debt, the host's fixed fee, the remaining
  variable interest, the protocol's share of it and the referrers' share of that.
\<close>

definition new_debt :: "nat \<Rightarrow> nat \<Rightarrow> nat \<Rightarrow> nat" where
  "new_debt debt rate n = fmul debt (compounded rate n)"

definition fixed_fee :: "nat \<Rightarrow> nat \<Rightarrow> nat \<Rightarrow> nat" where
  "fixed_fee debt hf n = fmul debt (compounded hf n) - debt"

definition net_variable :: "nat \<Rightarrow> nat \<Rightarrow> nat \<Rightarrow> nat \<Rightarrow> nat" where
  "net_variable debt rate hf n = new_debt debt (rate + hf) n - debt - fixed_fee debt hf n"

lemma debt_grows: "debt \<le> new_debt debt rate n"
  unfolding new_debt_def by (intro fmul_one_le compounded_ge)

lemma interest_split:
  "new_debt debt (rate + hf) n = debt + fixed_fee debt hf n + net_variable debt rate hf n"
proof -
  have "fmul debt (compounded hf n) \<le> new_debt debt (rate + hf) n"
    unfolding new_debt_def by (intro fmul_mono compounded_mono) simp_all
  then show ?thesis
    using debt_grows [of debt hf n] by (simp add: net_variable_def fixed_fee_def new_debt_def)
qed

lemma powers_of_ten: "n \<le> 19 \<Longrightarrow> unat (POWERS_OF_TEN ! n) = 10 ^ n"
proof -
  assume "n \<le> 19"
  have "map unat POWERS_OF_TEN = map (\<lambda>n. 10 ^ n) [0..<20]"
    by (simp add: POWERS_OF_TEN_def upt_rec)
  then have "map unat POWERS_OF_TEN ! n = map (\<lambda>n. 10 ^ n) [0..<20] ! n" by (simp only:)
  moreover have "length POWERS_OF_TEN = 20" by (simp add: POWERS_OF_TEN_def)
  ultimately show ?thesis using \<open>n \<le> 19\<close> by (simp del: upt_rec_numeral)
qed

lemma ten_pow_eq [arith_simps]: "ten_pow n = Inr w \<longleftrightarrow> n \<le> 19 \<and> unat w = 10 ^ n"
  by (rule res_iffI) (auto simp: ten_pow_def powers_of_ten split: if_splits)

lemma ten_pow_err: "ten_pow n = Inl e \<longleftrightarrow> 19 < n \<and> e = Panic"
  by (auto simp: ten_pow_def)

definition mint_factor_bits :: "reserve_liquidity \<Rightarrow> nat" where
  "mint_factor_bits rl = 10 ^ unat (mint_decimals rl) * fx_scale"

lemma mint_factor_bits_pos: "0 < mint_factor_bits rl"
  by (simp add: mint_factor_bits_def)

lemma mint_factor_bits_ex:
  "unat (mint_decimals rl) \<le> 19 \<Longrightarrow> \<exists>m :: u128. unat m = mint_factor_bits rl"
proof -
  assume "unat (mint_decimals rl) \<le> 19"
  then have "(10 :: nat) ^ unat (mint_decimals rl) \<le> 10 ^ 19"
    by (rule power_increasing) simp
  then have "mint_factor_bits rl \<le> 10 ^ 19 * fx_scale"
    unfolding mint_factor_bits_def by (rule mult_le_mono1)
  then have "mint_factor_bits rl < 2 ^ 128"
    by (rule le_less_trans) (simp add: fx_scale_def)
  then show ?thesis by (intro exI [of _ "of_nat (mint_factor_bits rl)"]) (simp add: unat_of_nat_lt)
qed

context num_lib begin

lemma total_supply_eq [arith_simps]:
  "total_supply L rl = Inr f \<longleftrightarrow> solvent rl \<and> unat f = supply_bits rl"
  by (rule res_iffI)
     (auto simp: total_supply_def res_simps arith_simps solvent_def supply_bits_def assets_bits_def
       fees_bits_def dest: unat_eq_lt)

lemma total_supply_ex: "solvent rl \<Longrightarrow> \<exists>f. total_supply L rl = Inr f \<and> unat f = supply_bits rl"
proof -
  assume s: "solvent rl"
  then have "supply_bits rl < 2 ^ 128" unfolding solvent_def supply_bits_def by linarith
  with s show ?thesis
    by (intro exI [of _ "of_nat (supply_bits rl)"]) (simp add: total_supply_eq unat_of_nat_lt)
qed

lemma total_supply_cong:
  "total_available_amount rl = total_available_amount rl' \<Longrightarrow>
   borrowed_amount_sf rl = borrowed_amount_sf rl' \<Longrightarrow>
   accumulated_protocol_fees_sf rl = accumulated_protocol_fees_sf rl' \<Longrightarrow>
   accumulated_referrer_fees_sf rl = accumulated_referrer_fees_sf rl' \<Longrightarrow>
   pending_referrer_fees_sf rl = pending_referrer_fees_sf rl' \<Longrightarrow>
   total_supply L rl = total_supply L rl'"
  by (simp add: total_supply_def)

lemma slots_year_word: "unat (of_nat SLOTS_PER_YEAR :: u128) = SLOTS_PER_YEAR"
  by simp

lemma approximate_compounded_interest_value:
  assumes "approximate_compounded_interest L r n = Inr c"
  shows "unat c = compounded (unat r) (unat n)"
proof -
  consider "n = 0" | "n = 1" | "n = 2" | "n = 3" | "n = 4" | "5 \<le> unat n"
  proof -
    have "unat n = 0 \<or> unat n = 1 \<or> unat n = 2 \<or> unat n = 3 \<or> unat n = 4 \<or> 5 \<le> unat n"
      by linarith
    then show ?thesis
      using that word_unat_eqI [of n 0] word_unat_eqI [of n 1] word_unat_eqI [of n 2]
        word_unat_eqI [of n 3] word_unat_eqI [of n 4] by (elim disjE) simp_all
  qed
  then show ?thesis
  proof cases
    case 6
    define e where "e = (ucast n :: u128)"
    define e1 where "e1 = e - 1"
    define e2 where "e2 = e - 2"
    have e: "unat e = unat n" "unat e1 = unat n - 1" "unat e2 = unat n - 2"
      using 6 by (auto simp: e_def e1_def e2_def unat_sub word_le_nat_alt)
    have "n \<noteq> 0" "n \<noteq> 1" "n \<noteq> 2" "n \<noteq> 3" "n \<noteq> 4" using 6 by auto
    then have "approximate_compounded_interest L r n =
      rbind (fx_div_int L r (of_nat SLOTS_PER_YEAR)) (\<lambda>base.
      rbind (fx_mul_int L base e) (\<lambda>first_term.
      rbind (fx_mul L first_term base) (\<lambda>s1.
      rbind (fx_mul_int L s1 e1) (\<lambda>s2.
      rbind (fx_div_int L s2 2) (\<lambda>second_term.
      rbind (fx_mul L second_term base) (\<lambda>t1.
      rbind (fx_mul_int L t1 e2) (\<lambda>t2.
      rbind (fx_div_int L t2 3) (\<lambda>third_term.
      rbind (fx_add L fx_one first_term) (\<lambda>r1.
      rbind (fx_add L r1 second_term) (\<lambda>r2.
      fx_add L r2 third_term))))))))))"
      by (simp add: approximate_compounded_interest_def Let_def e_def e1_def e2_def)
    with assms obtain base t1 s1 s2 t2 u1 u2 t3 r1 r2 where steps:
      "fx_div_int L r (of_nat SLOTS_PER_YEAR) = Inr base" "fx_mul_int L base e = Inr t1"
      "fx_mul L t1 base = Inr s1" "fx_mul_int L s1 e1 = Inr s2" "fx_div_int L s2 2 = Inr t2"
      "fx_mul L t2 base = Inr u1" "fx_mul_int L u1 e2 = Inr u2" "fx_div_int L u2 3 = Inr t3"
      "fx_add L fx_one t1 = Inr r1" "fx_add L r1 t2 = Inr r2" "fx_add L r2 t3 = Inr c"
      by (auto simp only: rbind_eq_Inr)
    have three: "unat (2 :: u128) = 2" "unat (3 :: u128) = 3" by simp_all
    have "unat base = unat r div SLOTS_PER_YEAR" "unat t1 = unat base * unat n"
      "unat t2 = fmul (unat t1) (unat base) * (unat n - 1) div 2"
      "unat t3 = fmul (unat t2) (unat base) * (unat n - 2) div 3"
      "unat c = fx_scale + unat t1 + unat t2 + unat t3"
      using steps by (simp_all only: fx_eq e fmul_def unat_fx_one three slots_year_word)
    then show ?thesis
      using \<open>n \<noteq> 0\<close> 6 by (simp only: compounded_def Let_def) auto
  qed (use assms in \<open>auto simp: approximate_compounded_interest_def compounded_def Let_def fmul_def
        res_simps arith_simps\<close>)
qed

lemma compound_interest_result:
  assumes "compound_interest L rl cr hf n take_rate ref = Inr rl'"
  defines "debt \<equiv> unat (borrowed_amount_sf rl)"
  defines "net \<equiv> net_variable debt (unat cr) (unat hf) (unat n)"
  shows "\<exists>c' p' a' d' r'.
    rl' = rl\<lparr> cumulative_borrow_rate_bsf := c', pending_referrer_fees_sf := p',
             accumulated_protocol_fees_sf := a', borrowed_amount_sf := d',
             absolute_referral_rate_sf := r' \<rparr> \<and>
    bf_val c' = fmul (bf_val (cumulative_borrow_rate_bsf rl)) (compounded (unat cr + unat hf) (unat n)) \<and>
    unat d' = debt + fixed_fee debt (unat hf) (unat n) + net \<and>
    unat p' = unat (pending_referrer_fees_sf rl) + fmul net (fmul (unat take_rate) (unat ref)) \<and>
    unat a' + fmul net (fmul (unat take_rate) (unat ref)) =
      unat (accumulated_protocol_fees_sf rl) + fixed_fee debt (unat hf) (unat n) +
      fmul net (unat take_rate)"
proof -
  from assms(1) obtain rate C F c' d' dF fee nn nv vpf arr mrf f1 f2 a' p' where steps:
    "fx_add L cr hf = Inr rate" "approximate_compounded_interest L rate n = Inr C"
    "approximate_compounded_interest L hf n = Inr F"
    "bf_mul L (cumulative_borrow_rate_bsf rl) (bf_from L C) = Inr c'"
    "fx_mul L (borrowed_amount_sf rl) C = Inr d'" "fx_mul L (borrowed_amount_sf rl) F = Inr dF"
    "fx_sub L dF (borrowed_amount_sf rl) = Inr fee" "fx_sub L d' (borrowed_amount_sf rl) = Inr nn"
    "fx_sub L nn fee = Inr nv" "fx_mul L nv take_rate = Inr vpf" "fx_mul L take_rate ref = Inr arr"
    "fx_mul L nv arr = Inr mrf" "fx_add L (accumulated_protocol_fees_sf rl) fee = Inr f1"
    "fx_add L f1 vpf = Inr f2" "fx_sub L f2 mrf = Inr a'"
    "add_ov (pending_referrer_fees_sf rl) mrf = Inr p'"
    and rl': "rl' = rl\<lparr> cumulative_borrow_rate_bsf := c', pending_referrer_fees_sf := p',
             accumulated_protocol_fees_sf := a', borrowed_amount_sf := d',
             absolute_referral_rate_sf := arr \<rparr>"
    by (auto simp: compound_interest_def Let_def rbind_eq_Inr)
  have rates: "unat C = compounded (unat cr + unat hf) (unat n)" "unat F = compounded (unat hf) (unat n)"
    using steps by (auto simp: fx_eq dest!: approximate_compounded_interest_value)
  have d': "unat d' = new_debt debt (unat cr + unat hf) (unat n)"
    using steps rates by (simp add: fx_eq new_debt_def fmul_def debt_def)
  have fee: "unat fee = fixed_fee debt (unat hf) (unat n)"
    using steps rates by (simp add: fx_eq fixed_fee_def fmul_def debt_def)
  have nv: "unat nv = net"
    using steps d' fee by (simp add: fx_eq net_def net_variable_def debt_def)
  have c: "bf_val c' = fmul (bf_val (cumulative_borrow_rate_bsf rl))
      (compounded (unat cr + unat hf) (unat n))"
    using steps(4) rates(1) by (simp only: bf_mul_eq bf_from_val fmul_def)
  have m: "unat mrf = fmul net (fmul (unat take_rate) (unat ref))"
    using steps(11,12) nv by (simp only: fx_eq fmul_def)
  have p: "unat p' = unat (pending_referrer_fees_sf rl) + fmul net (fmul (unat take_rate) (unat ref))"
    using steps(16) m by (simp only: ov_eq)
  have "unat vpf = fmul net (unat take_rate)"
    using steps(10) nv by (simp only: fx_eq fmul_def)
  then have a: "unat a' + fmul net (fmul (unat take_rate) (unat ref)) =
      unat (accumulated_protocol_fees_sf rl) + fixed_fee debt (unat hf) (unat n) +
      fmul net (unat take_rate)"
    using steps(13-15) m fee by (simp only: fx_eq) linarith
  show ?thesis
    using c p a d' interest_split [of debt "unat cr" "unat hf" "unat n"]
    by (intro exI [of _ c'] exI [of _ p'] exI [of _ a'] exI [of _ d'] exI [of _ arr] conjI rl')
       (simp_all only: net_def)
qed

lemma mint_factor_sf_eq:
  "rbind (mint_factor rl) (\<lambda>factor. mul_ov (ucast factor) FRACTION_ONE_SCALED) = Inr (m :: u128) \<longleftrightarrow>
     unat (mint_decimals rl) \<le> 19 \<and> unat m = mint_factor_bits rl"
proof (rule res_iffI)
  fix m' assume "rbind (mint_factor rl) (\<lambda>factor. mul_ov (ucast factor) FRACTION_ONE_SCALED) = Inr (m' :: u128)"
  then show "unat (mint_decimals rl) \<le> 19 \<and> unat m' = mint_factor_bits rl"
    by (auto simp: mint_factor_def mint_factor_bits_def FRACTION_ONE_SCALED_def rbind_eq_Inr
        ten_pow_eq ov_eq)
next
  fix e assume le: "unat (mint_decimals rl) \<le> 19"
    and "rbind (mint_factor rl) (\<lambda>factor. mul_ov (ucast factor) FRACTION_ONE_SCALED) = Inl e"
  then obtain f :: u64 where "mint_factor rl = Inr f" "unat f = 10 ^ unat (mint_decimals rl)"
    "2 ^ 128 \<le> unat f * fx_scale"
    by (auto simp: mint_factor_def rbind_eq_Inl ten_pow_err ten_pow_eq ov_eq FRACTION_ONE_SCALED_def)
  then show False using u64_scale_lt [of f] by simp
qed

lemma liquidity_amount_to_market_value_eq [arith_simps]:
  "liquidity_amount_to_market_value L rl x = Inr v \<longleftrightarrow>
     unat (mint_decimals rl) \<le> 19 \<and>
     unat v = unat x * unat (market_price_sf rl) div mint_factor_bits rl"
proof -
  define M :: "u128 res" where
    "M = rbind (mint_factor rl) (\<lambda>factor. mul_ov (ucast factor) FRACTION_ONE_SCALED)"
  have "liquidity_amount_to_market_value L rl x = rbind M (full_mul_int_ratio L x (market_price_sf rl))"
    by (simp add: liquidity_amount_to_market_value_def rbind_assoc M_def)
  moreover have "M = Inr m \<longleftrightarrow> unat (mint_decimals rl) \<le> 19 \<and> unat m = mint_factor_bits rl" for m
    unfolding M_def by (rule mint_factor_sf_eq)
  moreover have "m \<noteq> 0" if "unat m = mint_factor_bits rl" for m :: u128
    using that mint_factor_bits_pos [of rl] by auto
  moreover note mint_factor_bits_ex [of rl]
  ultimately show ?thesis
    by (simp add: rbind_eq_Inr full_mul_int_ratio_eq) metis
qed

lemma market_value_to_liquidity_amount_eq [arith_simps]:
  "market_value_to_liquidity_amount L rl v = Inr x \<longleftrightarrow>
     (unat (mint_decimals rl) \<le> 19 \<and> market_price_sf rl \<noteq> 0) \<and>
     unat x = unat v * mint_factor_bits rl div unat (market_price_sf rl)"
proof -
  define M :: "u128 res" where
    "M = rbind (mint_factor rl) (\<lambda>factor. mul_ov (ucast factor) FRACTION_ONE_SCALED)"
  have "market_value_to_liquidity_amount L rl v =
      rbind M (\<lambda>m. full_mul_int_ratio L v m (market_price_sf rl))"
    by (simp add: market_value_to_liquidity_amount_def rbind_assoc M_def)
  moreover have "M = Inr m \<longleftrightarrow> unat (mint_decimals rl) \<le> 19 \<and> unat m = mint_factor_bits rl" for m
    unfolding M_def by (rule mint_factor_sf_eq)
  moreover note mint_factor_bits_ex [of rl]
  ultimately show ?thesis
    by (simp add: rbind_eq_Inr full_mul_int_ratio_eq) metis
qed

section \<open>Deposits, repayments\<close>

lemma liquidity_deposit_eq:
  "liquidity_deposit rl amount = Inr rl' \<longleftrightarrow>
     unat (total_available_amount rl) + unat amount < 2 ^ 64 \<and>
     rl' = rl\<lparr> total_available_amount := total_available_amount rl + amount \<rparr>"
  by (auto simp: liquidity_deposit_def res_simps checked_add_def to_word_opt_def)

lemma liquidity_repay_eq:
  "liquidity_repay L rl repay settle = Inr rl' \<longleftrightarrow>
     (\<exists>a b. unat a = unat (total_available_amount rl) + unat repay \<and>
        unat b = unat (borrowed_amount_sf rl) - unat settle \<and>
        rl' = rl\<lparr> total_available_amount := a, borrowed_amount_sf := b \<rparr>)"
proof -
  have sub: "fx_checked_sub L (borrowed_amount_sf rl) (min settle (borrowed_amount_sf rl)) = Some b \<longleftrightarrow>
      unat b = unat (borrowed_amount_sf rl) - unat settle" for b
    by (auto simp: fx_opt_eq)
  show ?thesis
    by (auto simp: liquidity_repay_def Let_def rbind_eq_Inr ok_or_eq checked_eq sub)
qed

section \<open>Interest accrual never underflows\<close>

lemma compound_interest_returns:
  assumes rates: "fx_add L cr hf = Inr rate"
    "approximate_compounded_interest L rate n = Inr C"
    "approximate_compounded_interest L hf n = Inr F"
    and cum: "bf_val (cumulative_borrow_rate_bsf rl) * unat C < 2 ^ 256"
    and debt: "fmul (unat (borrowed_amount_sf rl)) (unat C) + unat (accumulated_protocol_fees_sf rl) < 2 ^ 128"
      "fmul (unat (borrowed_amount_sf rl)) (unat C) + unat (pending_referrer_fees_sf rl) < 2 ^ 128"
    and shares: "take_rate \<le> fx_one" "ref \<le> fx_one"
  shows "is_ok (compound_interest L rl cr hf n take_rate ref)"
proof -
  let ?D = "unat (borrowed_amount_sf rl)"
  have vals: "unat C = compounded (unat cr + unat hf) (unat n)" "unat F = compounded (unat hf) (unat n)"
    using rates by (auto simp: fx_eq dest!: approximate_compounded_interest_value)
  then have FC: "unat F \<le> unat C" "fx_scale \<le> unat F"
    by (simp_all add: compounded_mono compounded_ge)
  have DF: "?D \<le> fmul ?D (unat F)" "fmul ?D (unat F) \<le> fmul ?D (unat C)"
    using FC by (auto intro: fmul_one_le fmul_mono)
  have one: "unat take_rate \<le> fx_scale" "unat ref \<le> fx_scale"
    using shares by (simp_all add: word_le_nat_alt)
  have "bf_mul L (cumulative_borrow_rate_bsf rl) (bf_from L C) =
      Inr (BigFraction (of_nat (fmul (bf_val (cumulative_borrow_rate_bsf rl)) (unat C))))"
    using cum unfolding bf_mul_eq
    by (simp add: fmul_def unat_of_nat_lt le_less_trans [OF div_le_dividend] del: of_nat_mult)
  then obtain c' where c': "bf_mul L (cumulative_borrow_rate_bsf rl) (bf_from L C) = Inr c'" ..
  obtain d' where d': "fx_mul L (borrowed_amount_sf rl) C = Inr d'" "unat d' = fmul ?D (unat C)"
    using fx_mul_fits [of "borrowed_amount_sf rl" C] debt by auto
  obtain dF where dF: "fx_mul L (borrowed_amount_sf rl) F = Inr dF" "unat dF = fmul ?D (unat F)"
    using fx_mul_fits [of "borrowed_amount_sf rl" F] debt DF by auto
  obtain fee where fee: "fx_sub L dF (borrowed_amount_sf rl) = Inr fee" "unat fee = unat dF - ?D"
    using fx_sub_fits [of "borrowed_amount_sf rl" dF] dF DF by auto
  obtain nn where nn: "fx_sub L d' (borrowed_amount_sf rl) = Inr nn" "unat nn = unat d' - ?D"
    using fx_sub_fits [of "borrowed_amount_sf rl" d'] d' DF by auto
  obtain nv where nv: "fx_sub L nn fee = Inr nv" "unat nv = unat nn - unat fee"
  proof -
    have "unat fee \<le> unat nn" using nn fee d' dF DF by linarith
    with fx_sub_fits [of fee nn] that show ?thesis by auto
  qed
  have take_le: "fmul (unat nv) (unat take_rate) \<le> unat nv" using one by (intro fmul_le_left)
  obtain vpf where vpf: "fx_mul L nv take_rate = Inr vpf" "unat vpf = fmul (unat nv) (unat take_rate)"
    using fx_mul_fits [of nv take_rate] take_le unat_lt [of nv] by auto
  have arr_le: "fmul (unat take_rate) (unat ref) \<le> unat take_rate" using one by (intro fmul_le_left)
  obtain arr where arr: "fx_mul L take_rate ref = Inr arr" "unat arr = fmul (unat take_rate) (unat ref)"
    using fx_mul_fits [of take_rate ref] arr_le unat_lt [of take_rate] by auto
  have mrf_le: "fmul (unat nv) (unat arr) \<le> unat vpf" using vpf arr arr_le by (simp add: fmul_mono)
  obtain mrf where mrf: "fx_mul L nv arr = Inr mrf" "unat mrf = fmul (unat nv) (unat arr)"
    using fx_mul_fits [of nv arr] mrf_le unat_lt [of vpf] by auto
  have total: "unat fee + unat vpf \<le> fmul ?D (unat C)"
    using vpf take_le nv nn fee d' dF DF by linarith
  obtain f1 where f1: "fx_add L (accumulated_protocol_fees_sf rl) fee = Inr f1"
    "unat f1 = unat (accumulated_protocol_fees_sf rl) + unat fee"
    using fx_add_fits [of "accumulated_protocol_fees_sf rl" fee] total debt by auto
  obtain f2 where f2: "fx_add L f1 vpf = Inr f2" "unat f2 = unat f1 + unat vpf"
    using fx_add_fits [of f1 vpf] f1 total debt by auto
  obtain a' where a': "fx_sub L f2 mrf = Inr a'"
    using fx_sub_fits [of mrf f2] f2 mrf mrf_le by auto
  have "\<exists>p'. add_ov (pending_referrer_fees_sf rl) mrf = Inr p'"
    using debt(2) total mrf mrf_le by (cases "add_ov (pending_referrer_fees_sf rl) mrf") (auto simp: ov_eq)
  then obtain p' where "add_ov (pending_referrer_fees_sf rl) mrf = Inr p'" ..
  with rates c' d' dF fee nn nv vpf arr mrf f1 f2 a' show ?thesis
    by (simp add: compound_interest_def Let_def)
qed

lemma compound_interest_conserves:
  assumes acc: "compound_interest L rl cr hf n take_rate ref = Inr rl'"
    and take: "take_rate \<le> fx_one" and ok: "fees_bits rl \<le> assets_bits rl"
  shows "cumulative_borrow_rate_bsf rl \<le> cumulative_borrow_rate_bsf rl'"
    and "borrowed_amount_sf rl \<le> borrowed_amount_sf rl'"
    and "fees_bits rl \<le> fees_bits rl'" "fees_bits rl' \<le> assets_bits rl'"
    and "supply_bits rl \<le> supply_bits rl'"
    and "(unat (borrowed_amount_sf rl') - unat (borrowed_amount_sf rl)) =
           (fees_bits rl' - fees_bits rl) + (supply_bits rl' - supply_bits rl)"
    and "total_available_amount rl' = total_available_amount rl"
proof -
  let ?D = "unat (borrowed_amount_sf rl)"
  let ?net = "net_variable ?D (unat cr) (unat hf) (unat n)"
  let ?mrf = "fmul ?net (fmul (unat take_rate) (unat ref))"
  obtain c' p' a' d' r' where rl': "rl' = rl\<lparr> cumulative_borrow_rate_bsf := c',
      pending_referrer_fees_sf := p', accumulated_protocol_fees_sf := a', borrowed_amount_sf := d',
      absolute_referral_rate_sf := r' \<rparr>"
    and c': "bf_val c' = fmul (bf_val (cumulative_borrow_rate_bsf rl))
               (compounded (unat cr + unat hf) (unat n))"
    and d': "unat d' = ?D + fixed_fee ?D (unat hf) (unat n) + ?net"
    and p': "unat p' = unat (pending_referrer_fees_sf rl) + ?mrf"
    and a': "unat a' + ?mrf = unat (accumulated_protocol_fees_sf rl) +
               fixed_fee ?D (unat hf) (unat n) + fmul ?net (unat take_rate)"
    using compound_interest_result [OF acc] by auto
  have le: "fmul ?net (unat take_rate) \<le> ?net"
    using take by (intro fmul_le_left) (simp add: word_le_nat_alt)
  have fees: "fees_bits rl' = fees_bits rl + fixed_fee ?D (unat hf) (unat n) + fmul ?net (unat take_rate)"
    using a' p' by (simp add: fees_bits_def rl')
  have assets: "assets_bits rl' = assets_bits rl + fixed_fee ?D (unat hf) (unat n) + ?net"
    using d' by (simp add: assets_bits_def rl')
  show "cumulative_borrow_rate_bsf rl \<le> cumulative_borrow_rate_bsf rl'"
    using fmul_one_le [OF compounded_ge] c'
    by (simp add: rl' less_eq_big_fraction_def word_le_nat_alt)
  show "borrowed_amount_sf rl \<le> borrowed_amount_sf rl'"
    using d' by (simp add: rl' word_le_nat_alt)
  show "fees_bits rl \<le> fees_bits rl'" "fees_bits rl' \<le> assets_bits rl'"
    "supply_bits rl \<le> supply_bits rl'"
    using ok le fees assets by (simp_all add: supply_bits_def)
  show "(unat (borrowed_amount_sf rl') - ?D) =
      (fees_bits rl' - fees_bits rl) + (supply_bits rl' - supply_bits rl)"
    using ok le fees assets d' by (simp add: supply_bits_def rl')
  show "total_available_amount rl' = total_available_amount rl" by (simp add: rl')
qed

end

section \<open>Properties\<close>

text \<open>
  C4. Where the interest of a period goes: whenever \<open>compound_interest\<close> returns (with a
  protocol take rate of at most 100\%), the cumulative rate and the debt never decrease, the
  lamports in the vault stay, and the growth of the debt is exactly the growth of the fees owed
  to the protocol, the host and the referrers plus the growth of the suppliers' claim, neither
  of which is negative. The fees stay covered by the assets, so that \<open>total_supply\<close> cannot
  underflow afterwards.
\<close>

theorem interest_accrual_conservation:
  assumes "num_lib L"
    and "compound_interest L rl borrow_rate host_rate n take_rate referral_rate = Inr rl'"
    and "take_rate \<le> fx_one" "fees_bits rl \<le> assets_bits rl"
  shows "cumulative_borrow_rate_bsf rl \<le> cumulative_borrow_rate_bsf rl' \<and>
    borrowed_amount_sf rl \<le> borrowed_amount_sf rl' \<and>
    total_available_amount rl' = total_available_amount rl \<and>
    fees_bits rl \<le> fees_bits rl' \<and> fees_bits rl' \<le> assets_bits rl' \<and>
    supply_bits rl \<le> supply_bits rl' \<and>
    unat (borrowed_amount_sf rl') - unat (borrowed_amount_sf rl) =
      (fees_bits rl' - fees_bits rl) + (supply_bits rl' - supply_bits rl)"
  using num_lib.compound_interest_conserves [OF assms] by blast

theorem interest_accrual_conservation_witness:
  "let rl = (reserve_liquidity_default std_lib)
              \<lparr> total_available_amount := 5, borrowed_amount_sf := fx_one \<rparr>;
       rl' = rl\<lparr> cumulative_borrow_rate_bsf := BigFraction (2 ^ 60 + 10),
                 borrowed_amount_sf := 2 ^ 60 + 10, accumulated_protocol_fees_sf := 5 \<rparr>
   in compound_interest std_lib rl 630720000 0 1 (2 ^ 59) 0 = Inr rl' \<and>
      supply_bits rl \<le> supply_bits rl'"
proof -
  define rl where "rl = (reserve_liquidity_default std_lib)
    \<lparr> total_available_amount := 5, borrowed_amount_sf := fx_one \<rparr>"
  define rl' where "rl' = rl\<lparr> cumulative_borrow_rate_bsf := BigFraction (2 ^ 60 + 10),
    borrowed_amount_sf := 2 ^ 60 + 10, accumulated_protocol_fees_sf := 5 \<rparr>"
  have "compound_interest std_lib rl 630720000 0 1 (2 ^ 59) 0 = Inr rl'"
    by (simp add: rl_def rl'_def reserve_liquidity_default_def compound_interest_def
        approximate_compounded_interest_def bf_mul_def bf_from_def FRAC_NBITS_def std_eval
        add_ov_def checked_add_def drop_bit_word_numeral)
  moreover have "supply_bits rl \<le> supply_bits rl'"
    using interest_accrual_conservation [OF std.num_lib_axioms calculation]
    by (simp add: rl_def reserve_liquidity_default_def fees_bits_def fx_one_def)
  ultimately show ?thesis by (simp add: rl_def rl'_def)
qed

text \<open>
  None of the subtractions of \<open>compound_interest\<close> can underflow: if the compounded rates
  can be computed, the new cumulative rate fits 256 bits and the new debt fits on top of the
  protocol fees and of the pending referrer fees, the accrual succeeds for every take rate and
  referral rate of at most 100\%.
\<close>

theorem interest_accrual_no_underflow:
  assumes "num_lib L"
    and "fx_add L borrow_rate host_rate = Inr rate"
    and "approximate_compounded_interest L rate n = Inr C"
    and "approximate_compounded_interest L host_rate n = Inr F"
    and "bf_val (cumulative_borrow_rate_bsf rl) * unat C < 2 ^ 256"
    and "fmul (unat (borrowed_amount_sf rl)) (unat C) + unat (accumulated_protocol_fees_sf rl) < 2 ^ 128"
    and "fmul (unat (borrowed_amount_sf rl)) (unat C) + unat (pending_referrer_fees_sf rl) < 2 ^ 128"
    and "take_rate \<le> fx_one" "referral_rate \<le> fx_one"
  shows "is_ok (compound_interest L rl borrow_rate host_rate n take_rate referral_rate)"
  using num_lib.compound_interest_returns [OF assms] .

theorem interest_accrual_no_underflow_witness:
  "is_ok (compound_interest std_lib ((reserve_liquidity_default std_lib)
     \<lparr> total_available_amount := 5, borrowed_amount_sf := fx_one \<rparr>) 630720000 63072000 1 (2 ^ 58) (2 ^ 59))"
  by (rule interest_accrual_no_underflow [OF std.num_lib_axioms, where rate = 693792000
        and C = "2 ^ 60 + 11" and F = "2 ^ 60 + 1"])
     (simp_all add: reserve_liquidity_default_def approximate_compounded_interest_def bf_from_def
       std_eval fmul_def)

text \<open>
  Converting a token amount to its market value and the value back never yields more
  tokens than at the start, and loses at most one unit of value in the conversion: the value
  of the tokens given back is within one unit of the value that was converted.
\<close>

theorem price_conversion_rounds_down:
  assumes "num_lib L"
    and "liquidity_amount_to_market_value L rl amount = Inr v"
    and "market_value_to_liquidity_amount L rl v = Inr amount'"
  shows "amount' \<le> amount \<and>
    unat v * mint_factor_bits rl < (unat amount' + 1) * unat (market_price_sf rl) \<and>
    unat amount * unat (market_price_sf rl) < (unat v + 1) * mint_factor_bits rl"
proof -
  let ?p = "unat (market_price_sf rl)" and ?m = "mint_factor_bits rl"
  have v: "unat v = unat amount * ?p div ?m" and p: "0 < ?p"
    and a: "unat amount' = unat v * ?m div ?p"
    using assms(2,3) num_lib.liquidity_amount_to_market_value_eq [OF assms(1)]
      num_lib.market_value_to_liquidity_amount_eq [OF assms(1)]
    by (auto simp: unat_gt_0)
  have "unat v * ?m \<le> unat amount * ?p" by (simp add: v div_mult_le')
  then have "unat v * ?m div ?p \<le> unat amount * ?p div ?p" by (rule div_le_mono)
  then have "unat amount' \<le> unat amount" using p a by simp
  then show ?thesis
    using less_div_mult [OF p, of "unat v * ?m"] less_div_mult [OF mint_factor_bits_pos, of "unat amount * ?p" rl]
    by (simp add: word_le_nat_alt a v)
qed

theorem price_conversion_rounds_down_witness:
  "\<exists>v a. liquidity_amount_to_market_value std_lib
           ((reserve_liquidity_default std_lib)\<lparr> market_price_sf := 7 * 2 ^ 58 \<rparr>) 5 = Inr v \<and>
         market_value_to_liquidity_amount std_lib
           ((reserve_liquidity_default std_lib)\<lparr> market_price_sf := 7 * 2 ^ 58 \<rparr>) v = Inr a \<and> a \<le> 5"
proof -
  let ?rl = "(reserve_liquidity_default std_lib)\<lparr> market_price_sf := 7 * 2 ^ 58 \<rparr>"
  have "liquidity_amount_to_market_value std_lib ?rl 5 = Inr 8"
    "market_value_to_liquidity_amount std_lib ?rl 8 = Inr 4"
    by (simp_all add: std.liquidity_amount_to_market_value_eq std.market_value_to_liquidity_amount_eq
        reserve_liquidity_default_def mint_factor_bits_def fx_scale_def)
  with price_conversion_rounds_down [OF std.num_lib_axioms this] show ?thesis by blast
qed

end
