(* ===== verification/Reserve_Collateral.thy ===== *)
theory Reserve_Collateral imports Fraction begin

text \<open>
  The collateral side of a reserve (\<open>ReserveCollateral\<close> and \<open>CollateralExchangeRate\<close> of
  \<open>state/reserve.rs\<close>): the collateral tokens are shares of the reserve's liquidity, and the
  exchange rate converts between the two, rounding up or down.
\<close>

section \<open>The exchange rate\<close>

record collateral_exchange_rate =
  cer_collateral_supply :: u128
  cer_liquidity :: frac

definition CER_ONE :: collateral_exchange_rate where
  "CER_ONE = \<lparr> cer_collateral_supply = 1, cer_liquidity = fx_one \<rparr>"

definition INITIAL_COLLATERAL_RATE :: collateral_exchange_rate where
  "INITIAL_COLLATERAL_RATE = CER_ONE"

definition from_supply_and_liquidity :: "u64 \<Rightarrow> frac \<Rightarrow> collateral_exchange_rate" where
  "from_supply_and_liquidity collateral_supply liquidity =
     \<lparr> cer_collateral_supply = ucast collateral_supply, cer_liquidity = liquidity \<rparr>"

definition fraction_collateral_to_liquidity ::
  "numlib \<Rightarrow> collateral_exchange_rate \<Rightarrow> frac \<Rightarrow> frac res" where
  "fraction_collateral_to_liquidity L r collateral_amount =
     rbind (bf_mul L (bf_from L collateral_amount) (bf_from L (cer_liquidity r))) (\<lambda>p.
     rbind (bf_div_int L p (cer_collateral_supply r)) (\<lambda>q.
     unwrap (bf_try_into L q)))"

definition fraction_collateral_to_liquidity_ceil ::
  "numlib \<Rightarrow> collateral_exchange_rate \<Rightarrow> frac \<Rightarrow> frac res" where
  "fraction_collateral_to_liquidity_ceil L r collateral_amount =
     rbind (fx_from_num L (cer_collateral_supply r)) (\<lambda>supply_f.
     full_mul_int_ratio_ceil L (cer_liquidity r) collateral_amount supply_f)"

definition collateral_to_liquidity ::
  "numlib \<Rightarrow> collateral_exchange_rate \<Rightarrow> u64 \<Rightarrow> u64 res" where
  "collateral_to_liquidity L r collateral_amount =
     rbind (fx_from_num L (ucast collateral_amount)) (\<lambda>f.
     rbind (fraction_collateral_to_liquidity L r f) (to_floor L))"

definition collateral_to_liquidity_ceil ::
  "numlib \<Rightarrow> collateral_exchange_rate \<Rightarrow> u64 \<Rightarrow> u64 res" where
  "collateral_to_liquidity_ceil L r collateral_amount =
     (let collateral_amount_u256 = u256_from L (ucast collateral_amount);
          liquidity_sbf = bf_bits (bf_from L (cer_liquidity r));
          collateral_supply_u256 = u256_from L (cer_collateral_supply r)
      in rbind (case u256_checked_mul L collateral_amount_u256 liquidity_sbf of
                  None \<Rightarrow> Inr None
                | Some p \<Rightarrow> rbind (u256_sub L collateral_supply_u256 (u256_from L 1)) (\<lambda>s1.
                    Inr (Option.bind (u256_checked_add L p s1) (\<lambda>res.
                           u256_checked_div L res collateral_supply_u256)))) (\<lambda>liquidity_ceil_opt.
         rbind (ok_or liquidity_ceil_opt Panic) (\<lambda>liquidity_ceil_sbf.
         rbind (unwrap (bf_try_into L (BigFraction liquidity_ceil_sbf))) (\<lambda>liquidity_ceil_f.
         to_ceil L liquidity_ceil_f))))"

definition fraction_liquidity_to_collateral ::
  "numlib \<Rightarrow> collateral_exchange_rate \<Rightarrow> frac \<Rightarrow> frac res" where
  "fraction_liquidity_to_collateral L r liquidity_amount =
     rbind (bf_mul_int L (bf_from L liquidity_amount) (cer_collateral_supply r)) (\<lambda>p.
     rbind (bf_div_fraction L p (cer_liquidity r)) (\<lambda>q.
     unwrap (bf_try_into L q)))"

definition fraction_liquidity_to_collateral_ceil ::
  "numlib \<Rightarrow> collateral_exchange_rate \<Rightarrow> frac \<Rightarrow> frac res" where
  "fraction_liquidity_to_collateral_ceil L r liquidity_amount =
     rbind (bf_mul_int L (bf_from L liquidity_amount) (cer_collateral_supply r)) (\<lambda>p.
     rbind (bf_div_ceil L p (bf_from L (cer_liquidity r))) (\<lambda>q.
     unwrap (bf_try_into L q)))"

definition liquidity_to_collateral_fraction ::
  "numlib \<Rightarrow> collateral_exchange_rate \<Rightarrow> u64 \<Rightarrow> frac res" where
  "liquidity_to_collateral_fraction L r liquidity_amount =
     rbind (mul_ov (cer_collateral_supply r) (ucast liquidity_amount)) (\<lambda>p.
     rbind (bf_from_num L p) (\<lambda>n.
     rbind (bf_div_fraction L n (cer_liquidity r)) (\<lambda>q.
     unwrap (bf_try_into L q))))"

definition liquidity_to_collateral ::
  "numlib \<Rightarrow> collateral_exchange_rate \<Rightarrow> u64 \<Rightarrow> u64 res" where
  "liquidity_to_collateral L r liquidity_amount =
     rbind (liquidity_to_collateral_fraction L r liquidity_amount) (\<lambda>collateral_f.
     ok_or (try_to_floor L collateral_f) Panic)"

definition liquidity_to_collateral_ceil ::
  "numlib \<Rightarrow> collateral_exchange_rate \<Rightarrow> u64 \<Rightarrow> u64 res" where
  "liquidity_to_collateral_ceil L r liquidity_amount =
     rbind (fx_from_num L (ucast liquidity_amount)) (\<lambda>f.
     rbind (fraction_liquidity_to_collateral_ceil L r f) (to_ceil L))"

section \<open>The collateral of a reserve\<close>

record reserve_collateral =
  rc_mint_pubkey :: pubkey
  mint_total_supply :: u64
  rc_supply_vault :: pubkey

record new_reserve_collateral_params =
  nrc_mint_pubkey :: pubkey
  nrc_supply_vault :: pubkey
  initial_collateral_supply :: u64

definition reserve_collateral_new :: "new_reserve_collateral_params \<Rightarrow> reserve_collateral" where
  "reserve_collateral_new params = \<lparr>
     rc_mint_pubkey = nrc_mint_pubkey params,
     mint_total_supply = initial_collateral_supply params,
     rc_supply_vault = nrc_supply_vault params \<rparr>"

definition reserve_collateral_default :: reserve_collateral where
  "reserve_collateral_default =
     \<lparr> rc_mint_pubkey = 0, mint_total_supply = 0, rc_supply_vault = 0 \<rparr>"

definition collateral_mint :: "reserve_collateral \<Rightarrow> u64 \<Rightarrow> reserve_collateral res" where
  "collateral_mint rc collateral_amount =
     rbind (ok_or (checked_add (mint_total_supply rc) collateral_amount) (LendingErr MathOverflow))
       (\<lambda>supply. Inr (rc\<lparr> mint_total_supply := supply \<rparr>))"

definition collateral_burn :: "reserve_collateral \<Rightarrow> u64 \<Rightarrow> reserve_collateral res" where
  "collateral_burn rc collateral_amount =
     rbind (ok_or (checked_sub (mint_total_supply rc) collateral_amount) (LendingErr MathOverflow))
       (\<lambda>supply. Inr (rc\<lparr> mint_total_supply := supply \<rparr>))"

definition collateral_rate_for ::
  "reserve_collateral \<Rightarrow> frac \<Rightarrow> collateral_exchange_rate" where
  "collateral_rate_for rc total_liquidity =
     (if mint_total_supply rc = 0 \<or> total_liquidity = 0 then INITIAL_COLLATERAL_RATE
      else from_supply_and_liquidity (mint_total_supply rc) total_liquidity)"

section \<open>The four conversions over naturals\<close>

text \<open>A rate is the pair of the collateral supply and the liquidity in bits.\<close>

type_synonym rate = "nat \<times> nat"

definition rate_of_cer :: "collateral_exchange_rate \<Rightarrow> rate" where
  "rate_of_cer r = (unat (cer_collateral_supply r), unat (cer_liquidity r))"

definition good_rate :: "rate \<Rightarrow> bool" where
  "good_rate r \<longleftrightarrow> 0 < fst r \<and> 0 < snd r"

definition to_liq :: "rate \<Rightarrow> nat \<Rightarrow> nat" where
  "to_liq r c = c * snd r div (fst r * fx_scale)"

definition to_liq_ceil :: "rate \<Rightarrow> nat \<Rightarrow> nat" where
  "to_liq_ceil r c = ceil_div (c * snd r) (fst r * fx_scale)"

definition to_col :: "rate \<Rightarrow> nat \<Rightarrow> nat" where
  "to_col r a = a * (fst r * fx_scale) div snd r"

definition to_col_ceil :: "rate \<Rightarrow> nat \<Rightarrow> nat" where
  "to_col_ceil r a = ceil_div (a * (fst r * fx_scale)) (snd r)"

lemma ceil_div_ceil_div: "0 < b \<Longrightarrow> 0 < c \<Longrightarrow> ceil_div (ceil_div a b) c = ceil_div a (b * c)"
proof (rule antisym)
  assume b: "0 < b" and c: "0 < c"
  show "ceil_div (ceil_div a b) c \<le> ceil_div a (b * c)"
    using b c le_ceil_div [of "b * c" a] by (simp add: ceil_div_le_iff mult_ac)
  show "ceil_div a (b * c) \<le> ceil_div (ceil_div a b) c"
  proof -
    have "a \<le> ceil_div a b * b" using b by (rule le_ceil_div)
    also have "\<dots> \<le> ceil_div (ceil_div a b) c * c * b"
      using c by (intro mult_le_mono1 le_ceil_div)
    finally show ?thesis using b c by (simp add: ceil_div_le_iff mult_ac)
  qed
qed

text \<open>
  What the reserve relies on: each ceiling is adjoint to the opposite floor, so that the
  conversions round in favour of the reserve.
\<close>

locale exchange =
  fixes good :: "'r \<Rightarrow> bool"
    and liq liq_ceil col col_ceil :: "'r \<Rightarrow> nat \<Rightarrow> nat"
  assumes liq_ceil_col: "good r \<Longrightarrow> liq_ceil r c \<le> a \<longleftrightarrow> c \<le> col r a"
    and col_ceil_liq: "good r \<Longrightarrow> col_ceil r a \<le> c \<longleftrightarrow> a \<le> liq r c"
    and liq_le_ceil: "liq r c \<le> liq_ceil r c"
    and col_le_ceil: "col r a \<le> col_ceil r a"
    and col_ceil_le: "good r \<Longrightarrow> col_ceil r a \<le> col r a + 1"
begin

lemma deposit_covers_mint: "good r \<Longrightarrow> liq_ceil r (col r a) \<le> a"
  by (simp add: liq_ceil_col)

lemma deposit_then_redeem: "good r \<Longrightarrow> liq r (col r a) \<le> a"
  using deposit_covers_mint liq_le_ceil by (rule order_trans [rotated])

lemma redeem_then_deposit: "good r \<Longrightarrow> col_ceil r (liq r c) \<le> c"
  by (simp add: col_ceil_liq)

lemma liq_mono: "good r \<Longrightarrow> c \<le> c' \<Longrightarrow> liq r c \<le> liq r c'"
  by (meson col_ceil_liq le_refl order_trans)

lemma col_mono: "good r \<Longrightarrow> a \<le> a' \<Longrightarrow> col r a \<le> col r a'"
  by (meson liq_ceil_col le_refl order_trans)

definition best :: "'r \<Rightarrow> nat \<Rightarrow> nat" where
  "best r a = (if liq r (col_ceil r a) \<le> a then col_ceil r a else col r a)"

text \<open>Redeeming \<open>best r a\<close> pays the most that any redemption can pay out of \<open>a\<close>.\<close>

lemma best_pays_most:
  assumes "good r"
  shows "liq r (best r a) \<le> a" and "liq r c \<le> a \<Longrightarrow> liq r c \<le> liq r (best r a)"
proof -
  show "liq r (best r a) \<le> a" using deposit_then_redeem [OF assms] by (simp add: best_def)
  show "liq r c \<le> liq r (best r a)" if "liq r c \<le> a"
  proof (cases "liq r (col_ceil r a) \<le> a")
    case True
    moreover have "a \<le> liq r (col_ceil r a)" using col_ceil_liq [OF assms, of a "col_ceil r a"] by simp
    ultimately show ?thesis using that by (simp add: best_def)
  next
    case False
    have "c \<le> col r a"
    proof (rule ccontr)
      assume "\<not> c \<le> col r a"
      then have "col_ceil r a \<le> c" using col_ceil_le [OF assms, of a] by simp
      then have "liq r (col_ceil r a) \<le> liq r c" by (rule liq_mono [OF assms])
      with False that show False by simp
    qed
    with False show ?thesis using liq_mono [OF assms] by (simp add: best_def)
  qed
qed

end

interpretation rate: exchange good_rate to_liq to_liq_ceil to_col to_col_ceil
proof
  fix r :: rate and a c :: nat
  show "to_liq r c \<le> to_liq_ceil r c" "to_col r a \<le> to_col_ceil r a"
    by (simp_all add: to_liq_def to_liq_ceil_def to_col_def to_col_ceil_def div_le_ceil_div)
  assume good: "good_rate r"
  then have pos: "0 < fst r * fx_scale" "0 < snd r" by (simp_all add: good_rate_def)
  show "to_liq_ceil r c \<le> a \<longleftrightarrow> c \<le> to_col r a"
    using pos by (simp add: to_liq_ceil_def to_col_def ceil_div_le_iff less_eq_div_iff_mult_less_eq)
  show "to_col_ceil r a \<le> c \<longleftrightarrow> a \<le> to_liq r c"
    using pos by (simp add: to_col_ceil_def to_liq_def ceil_div_le_iff less_eq_div_iff_mult_less_eq)
  show "to_col_ceil r a \<le> to_col r a + 1"
    using pos by (simp add: to_col_ceil_def to_col_def ceil_div_le_Suc_div)
qed

section \<open>The code computes the four conversions\<close>

context num_lib begin

lemma mul_252_lt: "unat (a :: u64) * fx_scale * unat (b :: u128) < 2 ^ 256"
proof -
  have "unat a * fx_scale * unat b \<le> 2 ^ 64 * fx_scale * 2 ^ 128"
    using unat_lt [of a] unat_lt [of b] by (intro mult_le_mono) simp_all
  then show ?thesis by (rule le_less_trans) (simp add: fx_scale_def)
qed

lemma fraction_collateral_to_liquidity_eq [arith_simps]:
  "fraction_collateral_to_liquidity L r f = Inr q \<longleftrightarrow>
     cer_collateral_supply r \<noteq> 0 \<and>
     unat q = unat f * unat (cer_liquidity r) div fx_scale div unat (cer_collateral_supply r)"
  using mul_u128_lt [of f "cer_liquidity r"]
  by (intro res_iffI)
     (auto simp: fraction_collateral_to_liquidity_def res_simps arith_simps dest: unat_eq_lt)

lemma div_scale_cancel [simp]: "a * fx_scale * b div fx_scale = a * b"
  by (metis fx_scale_pos less_numeral_extra(3) mult.assoc mult.commute nonzero_mult_div_cancel_left)

lemma collateral_to_liquidity_eq [arith_simps]:
  "collateral_to_liquidity L r c = Inr w \<longleftrightarrow>
     cer_collateral_supply r \<noteq> 0 \<and> unat w = to_liq (rate_of_cer r) (unat c)"
proof (rule res_iffI)
  fix w' assume "collateral_to_liquidity L r c = Inr w'"
  then show "cer_collateral_supply r \<noteq> 0 \<and> unat w' = to_liq (rate_of_cer r) (unat c)"
    by (auto simp: collateral_to_liquidity_def to_liq_def rate_of_cer_def res_simps arith_simps
        div_mult2_eq)
next
  fix e assume s: "cer_collateral_supply r \<noteq> 0" and w: "unat w = to_liq (rate_of_cer r) (unat c)"
    and err: "collateral_to_liquidity L r c = Inl e"
  let ?q = "unat c * unat (cer_liquidity r) div unat (cer_collateral_supply r)"
  have w': "unat w = ?q div fx_scale" using w by (simp add: to_liq_def rate_of_cer_def div_mult2_eq)
  then have "?q < 2 ^ 128"
    using less_div_mult [of fx_scale ?q] u64_lt [of w] by (simp add: fx_scale_def)
  with s w' err show False
    using mul_252_lt [of c "cer_liquidity r"] u64_scale_lt [of c] u64_lt [of w]
    by (auto simp: collateral_to_liquidity_def fraction_collateral_to_liquidity_def res_simps
        arith_simps)
qed

lemma collateral_to_liquidity_ceil_eq [arith_simps]:
  "collateral_to_liquidity_ceil L r c = Inr w \<longleftrightarrow>
     cer_collateral_supply r \<noteq> 0 \<and> unat w = to_liq_ceil (rate_of_cer r) (unat c)"
proof (rule res_iffI)
  let ?s = "unat (cer_collateral_supply r)" and ?l = "unat (cer_liquidity r)"
  have ceil: "ceil_div (ceil_div (unat c * ?l) ?s) fx_scale = to_liq_ceil (rate_of_cer r) (unat c)"
    if "cer_collateral_supply r \<noteq> 0"
    using that by (simp add: ceil_div_ceil_div to_liq_ceil_def rate_of_cer_def unat_gt_0)
  have sum: "(unat c * ?l + (?s - Suc 0)) div ?s = ceil_div (unat c * ?l) ?s"
    if "cer_collateral_supply r \<noteq> 0"
  proof -
    have "0 < ?s" using that by (simp add: unat_gt_0)
    then have "unat c * ?l + (?s - Suc 0) = unat c * ?l + ?s - 1" by linarith
    then show ?thesis by (simp add: ceil_div_def)
  qed
  show "cer_collateral_supply r \<noteq> 0 \<and> unat w' = to_liq_ceil (rate_of_cer r) (unat c)"
    if "collateral_to_liquidity_ceil L r c = Inr w'" for w'
    using that ceil sum
    by (auto simp: collateral_to_liquidity_ceil_def Let_def res_simps arith_simps
        Option.bind_eq_Some_conv split: option.splits)
  assume s: "cer_collateral_supply r \<noteq> 0" and w: "unat w = to_liq_ceil (rate_of_cer r) (unat c)"
  have "unat c * ?l < 2 ^ 64 * 2 ^ 128"
    using unat_lt [of c] unat_lt [of "cer_liquidity r"] by (intro mult_strict_mono) simp_all
  then have fit: "unat c * ?l + ?s < 2 ^ 256"
    using unat_lt [of "cer_collateral_supply r"] by simp
  have "ceil_div (unat c * ?l) ?s \<le> unat w * fx_scale"
    using ceil [OF s] w by (simp flip: ceil_div_le_iff)
  then have "ceil_div (unat c * ?l) ?s < 2 ^ 128"
    using u64_scale_lt [of w] by (rule le_less_trans)
  then have q: "unat (of_nat (ceil_div (unat c * ?l) ?s) :: u256) = ceil_div (unat c * ?l) ?s"
    by (intro unat_of_nat_lt) simp
  obtain p where p: "u256_checked_mul L (u256_from L (ucast c)) (bf_bits (bf_from L (cer_liquidity r))) = Some p"
    "unat p = unat c * ?l"
    using fit by (cases "u256_checked_mul L (u256_from L (ucast c)) (bf_bits (bf_from L (cer_liquidity r)))")
      (auto simp: arith_simps)
  obtain s1 where s1: "u256_sub L (u256_from L (cer_collateral_supply r)) (u256_from L 1) = Inr s1"
    "unat s1 = ?s - 1"
    using s by (cases "u256_sub L (u256_from L (cer_collateral_supply r)) (u256_from L 1)")
      (auto simp: arith_simps)
  obtain t where t: "u256_checked_add L p s1 = Some t" "unat t = unat c * ?l + (?s - 1)"
    using fit p s1 by (cases "u256_checked_add L p s1") (auto simp: arith_simps)
  have d: "u256_checked_div L t (u256_from L (cer_collateral_supply r)) =
      Some (of_nat (ceil_div (unat c * ?l) ?s))"
    using s t q sum [OF s] by (simp add: arith_simps)
  show False if "collateral_to_liquidity_ceil L r c = Inl e" for e
    using that p s1 t d q \<open>ceil_div (unat c * ?l) ?s < 2 ^ 128\<close> ceil [OF s] w u64_lt [of w]
    by (auto simp: collateral_to_liquidity_ceil_def Let_def res_simps arith_simps)
qed

lemma liquidity_to_collateral_fraction_eq [arith_simps]:
  "liquidity_to_collateral_fraction L r a = Inr q \<longleftrightarrow>
     (cer_liquidity r \<noteq> 0 \<and> unat (cer_collateral_supply r) * unat a < 2 ^ 128) \<and>
     unat q = unat a * (unat (cer_collateral_supply r) * fx_scale) * fx_scale div unat (cer_liquidity r)"
proof (rule res_iffI)
  fix q' assume "liquidity_to_collateral_fraction L r a = Inr q'"
  then show "(cer_liquidity r \<noteq> 0 \<and> unat (cer_collateral_supply r) * unat a < 2 ^ 128) \<and>
     unat q' = unat a * (unat (cer_collateral_supply r) * fx_scale) * fx_scale div unat (cer_liquidity r)"
    by (auto simp: liquidity_to_collateral_fraction_def res_simps arith_simps mult_ac dest: unat_eq_lt)
next
  fix e assume C: "cer_liquidity r \<noteq> 0 \<and> unat (cer_collateral_supply r) * unat a < 2 ^ 128"
    and q: "unat q = unat a * (unat (cer_collateral_supply r) * fx_scale) * fx_scale div unat (cer_liquidity r)"
    and err: "liquidity_to_collateral_fraction L r a = Inl e"
  have "unat (cer_collateral_supply r) * unat a * fx_scale * fx_scale < 2 ^ 256"
    using C by (simp add: fx_scale_def mult.commute)
  with C q err u128_lt [of q] show False
    by (auto simp: liquidity_to_collateral_fraction_def res_simps arith_simps mult_ac)
qed

lemma liquidity_to_collateral_eq [arith_simps]:
  "liquidity_to_collateral L r a = Inr w \<longleftrightarrow>
     (cer_liquidity r \<noteq> 0 \<and> unat (cer_collateral_supply r) * unat a < 2 ^ 128) \<and>
     unat w = to_col (rate_of_cer r) (unat a)"
proof (rule res_iffI)
  let ?s = "unat (cer_collateral_supply r)" and ?l = "unat (cer_liquidity r)"
  have floor: "unat a * (?s * fx_scale) * fx_scale div ?l div fx_scale = to_col (rate_of_cer r) (unat a)"
    by (simp add: to_col_def rate_of_cer_def mult.commute [of ?l] flip: div_mult2_eq)
  show "(cer_liquidity r \<noteq> 0 \<and> ?s * unat a < 2 ^ 128) \<and> unat w' = to_col (rate_of_cer r) (unat a)"
    if "liquidity_to_collateral L r a = Inr w'" for w'
    using that floor by (auto simp: liquidity_to_collateral_def res_simps arith_simps)
  assume C: "cer_liquidity r \<noteq> 0 \<and> ?s * unat a < 2 ^ 128"
    and w: "unat w = to_col (rate_of_cer r) (unat a)"
  let ?q = "unat a * (?s * fx_scale) * fx_scale div ?l"
  have "?q < (unat w + 1) * fx_scale"
    unfolding w floor [symmetric] by (rule less_div_mult) simp
  then have "?q < 2 ^ 128"
    using u64_lt [of w] by (simp add: fx_scale_def)
  then obtain q where "liquidity_to_collateral_fraction L r a = Inr q" "unat q = ?q"
    using C liquidity_to_collateral_fraction_eq [of r a "of_nat ?q"]
    by (auto simp: unat_of_nat_lt simp del: of_nat_mult)
  with w floor have "liquidity_to_collateral L r a = Inr w"
    by (auto simp: liquidity_to_collateral_def res_simps arith_simps)
  then show False if "liquidity_to_collateral L r a = Inl e" for e
    using that by simp
qed

lemma ceil_div_scale:
  assumes "0 < l"
  shows "ceil_div (x * fx_scale) (l * fx_scale) = ceil_div x l"
proof -
  have "ceil_div (x * fx_scale) (l * fx_scale) \<le> n \<longleftrightarrow> ceil_div x l \<le> n" for n
    using assms by (simp add: ceil_div_le_iff mult.assoc [symmetric])
  then show ?thesis by (meson antisym le_refl)
qed

lemma liquidity_to_collateral_ceil_eq [arith_simps]:
  "liquidity_to_collateral_ceil L r a = Inr w \<longleftrightarrow>
     (cer_liquidity r \<noteq> 0 \<and>
      unat a * fx_scale * unat (cer_collateral_supply r) * fx_scale + unat (cer_liquidity r) < 2 ^ 256) \<and>
     unat w = to_col_ceil (rate_of_cer r) (unat a)"
proof (rule res_iffI)
  let ?s = "unat (cer_collateral_supply r)" and ?l = "unat (cer_liquidity r)"
  let ?q = "ceil_div (unat a * fx_scale * ?s * fx_scale) ?l"
  have ceil: "ceil_div ?q fx_scale = to_col_ceil (rate_of_cer r) (unat a)" if "cer_liquidity r \<noteq> 0"
  proof -
    have l: "0 < ?l" using that by (simp add: unat_gt_0)
    have "unat a * fx_scale * ?s = unat a * (?s * fx_scale)" by (simp only: mult_ac)
    then show ?thesis
      using l ceil_div_scale [OF l, of "unat a * (?s * fx_scale)"]
      by (simp only: ceil_div_ceil_div fx_scale_pos to_col_ceil_def rate_of_cer_def fst_conv snd_conv)
  qed
  show "(cer_liquidity r \<noteq> 0 \<and> unat a * fx_scale * ?s * fx_scale + ?l < 2 ^ 256) \<and>
      unat w' = to_col_ceil (rate_of_cer r) (unat a)"
    if "liquidity_to_collateral_ceil L r a = Inr w'" for w'
    using that ceil
    by (auto simp: liquidity_to_collateral_ceil_def fraction_liquidity_to_collateral_ceil_def
        res_simps arith_simps)
  assume C: "cer_liquidity r \<noteq> 0 \<and> unat a * fx_scale * ?s * fx_scale + ?l < 2 ^ 256"
    and w: "unat w = to_col_ceil (rate_of_cer r) (unat a)"
  have "?q \<le> unat w * fx_scale"
    using ceil C w by (simp flip: ceil_div_le_iff)
  then have "?q < 2 ^ 128"
    using u64_scale_lt [of w] by (rule le_less_trans)
  moreover have "unat a * fx_scale * ?s < 2 ^ 256"
    using C mult_le_mono2 [of 1 fx_scale "unat a * fx_scale * ?s"] by (auto simp: fx_scale_def)
  ultimately show False if "liquidity_to_collateral_ceil L r a = Inl e" for e
    using that C w ceil u64_scale_lt [of a] u64_lt [of w]
    by (auto simp: liquidity_to_collateral_ceil_def fraction_liquidity_to_collateral_ceil_def
        res_simps arith_simps)
qed

end

lemma to_liq_ceil_le_Suc: "good_rate r \<Longrightarrow> to_liq_ceil r c \<le> to_liq r c + 1"
  by (simp add: to_liq_ceil_def to_liq_def good_rate_def ceil_div_le_Suc_div)

lemma word_with_value: "n \<le> unat (a :: 'a::len word) \<Longrightarrow> \<exists>w :: 'a word. unat w = n"
  by (metis le_less_trans unat_lt unat_of_nat_lt)

text \<open>
  C36. Depositing and redeeming at one exchange rate never creates value: if an amount of
  liquidity is worth \<open>c\<close> collateral tokens, then both conversions back return, the amount charged
  for minting \<open>c\<close> (rounded up) is at most the amount offered, redeeming \<open>c\<close> (rounded down) pays at
  most what was charged, and the two differ by at most one lamport.
\<close>

theorem collateral_round_trip:
  assumes "num_lib L" "cer_collateral_supply r \<noteq> 0" "liquidity_to_collateral L r a = Inr c"
  shows "\<exists>charged redeemed. collateral_to_liquidity_ceil L r c = Inr charged \<and>
           collateral_to_liquidity L r c = Inr redeemed \<and>
           redeemed \<le> charged \<and> charged \<le> a \<and> unat charged \<le> unat redeemed + 1"
proof -
  let ?r = "rate_of_cer r"
  have c: "cer_liquidity r \<noteq> 0" "unat c = to_col ?r (unat a)"
    using assms(3) by (simp_all add: num_lib.liquidity_to_collateral_eq [OF assms(1)])
  then have good: "good_rate ?r"
    using assms(2) by (simp add: good_rate_def rate_of_cer_def unat_gt_0)
  have le: "to_liq ?r (unat c) \<le> to_liq_ceil ?r (unat c)" "to_liq_ceil ?r (unat c) \<le> unat a"
    using rate.liq_le_ceil rate.deposit_covers_mint [OF good] c(2) by auto
  obtain charged :: u64 where charged: "unat charged = to_liq_ceil ?r (unat c)"
    using word_with_value [OF le(2)] ..
  obtain redeemed :: u64 where "unat redeemed = to_liq ?r (unat c)"
    using word_with_value [OF order_trans [OF le]] ..
  with charged assms(2) le to_liq_ceil_le_Suc [OF good, of "unat c"] show ?thesis
    by (intro exI [of _ charged] exI [of _ redeemed])
       (simp add: num_lib.collateral_to_liquidity_ceil_eq [OF assms(1)]
        num_lib.collateral_to_liquidity_eq [OF assms(1)] word_le_nat_alt)
qed

theorem collateral_round_trip_witness:
  "\<exists>d. collateral_to_liquidity std_lib
         \<lparr> cer_collateral_supply = 3, cer_liquidity = 5 * 2 ^ 60 \<rparr> 4 = Inr d \<and> d \<le> 7"
proof -
  let ?r = "\<lparr> cer_collateral_supply = 3, cer_liquidity = 5 * 2 ^ 60 \<rparr>"
  have "liquidity_to_collateral std_lib ?r 7 = Inr 4"
    by (simp add: std.liquidity_to_collateral_eq to_col_def rate_of_cer_def fx_scale_def)
  from collateral_round_trip [OF std.num_lib_axioms _ this] show ?thesis by force
qed

end
