(* ===== verification/Reserve_Config.thy ===== *)
theory Reserve_Config imports Borrow_Rate_Curve Withdrawal_Caps Token_Info begin

text \<open>
  The configuration of a reserve and its fee schedule (\<open>ReserveConfig\<close>, \<open>ReserveFees\<close>,
  \<open>ReserveStatus\<close> of \<open>state/reserve.rs\<close>). Flags stay the bytes of the account; paddings and
  reserved bytes are left out.
\<close>

section \<open>Fees\<close>

record reserve_fees =
  origination_fee_sf :: u64
  flash_loan_fee_sf :: u64

datatype fee_calculation = Exclusive | Inclusive

definition calculate_fees ::
  "numlib \<Rightarrow> frac \<Rightarrow> u64 \<Rightarrow> fee_calculation \<Rightarrow> u16 \<Rightarrow> bool \<Rightarrow> (u64 \<times> u64) res" where
  "calculate_fees L amount fee_sf fee_calc referral_fee_bps has_referrer =
     (let origination_fee_rate = (ucast fee_sf :: frac) in
      rbind (from_bps L (ucast referral_fee_bps)) (\<lambda>referral_fee_rate.
      if origination_fee_rate > 0 \<and> amount > 0 then
        let need_to_assess_referral_fee = (referral_fee_rate > 0 \<and> has_referrer) in
        rbind (case fee_calc of
                 Exclusive \<Rightarrow> fx_mul L amount origination_fee_rate
               | Inclusive \<Rightarrow>
                   rbind (fx_add L origination_fee_rate fx_one) (\<lambda>denom.
                   rbind (fx_div L origination_fee_rate denom) (\<lambda>rate.
                   fx_mul L amount rate))) (\<lambda>origination_fee_amount.
        rbind (frac_of_u64 L 1) (\<lambda>minimum_fee.
        let origination_fee_f = max origination_fee_amount minimum_fee in
        if origination_fee_f \<ge> amount then fail BorrowTooSmall
        else rbind (to_round L origination_fee_f) (\<lambda>origination_fee.
          rbind (if need_to_assess_referral_fee then
                   if referral_fee_bps = 10000 then Inr origination_fee
                   else rbind (fx_mul L origination_fee_f referral_fee_rate) (to_floor L)
                 else Inr 0) (\<lambda>referral_fee.
          rbind (sub_ov origination_fee referral_fee) (\<lambda>protocol_fee.
          Inr (protocol_fee, referral_fee))))))
      else Inr (0, 0)))"

definition calculate_borrow_fees ::
  "numlib \<Rightarrow> reserve_fees \<Rightarrow> frac \<Rightarrow> fee_calculation \<Rightarrow> u16 \<Rightarrow> bool \<Rightarrow> (u64 \<times> u64) res" where
  "calculate_borrow_fees L fees borrow_amount fee_calc referral_fee_bps has_referrer =
     calculate_fees L borrow_amount (origination_fee_sf fees) fee_calc referral_fee_bps has_referrer"

definition calculate_flash_loan_fees ::
  "numlib \<Rightarrow> reserve_fees \<Rightarrow> frac \<Rightarrow> u16 \<Rightarrow> bool \<Rightarrow> (u64 \<times> u64) res" where
  "calculate_flash_loan_fees L fees flash_loan_amount_f referral_fee_bps has_referrer =
     calculate_fees L flash_loan_amount_f (flash_loan_fee_sf fees) Exclusive referral_fee_bps
       has_referrer"

section \<open>Configuration\<close>

datatype reserve_status = Active | Obsolete | Hidden

definition reserve_status_of_u8 :: "u8 \<Rightarrow> reserve_status option" where
  "reserve_status_of_u8 b =
     (if b = 0 then Some Active else if b = 1 then Some Obsolete
      else if b = 2 then Some Hidden else None)"

primrec reserve_status_to_u8 :: "reserve_status \<Rightarrow> u8" where
  "reserve_status_to_u8 Active = 0"
| "reserve_status_to_u8 Obsolete = 1"
| "reserve_status_to_u8 Hidden = 2"

lemma reserve_status_round_trip [simp]:
  "reserve_status_of_u8 (reserve_status_to_u8 s) = Some s"
  by (cases s) (simp_all add: reserve_status_of_u8_def)

record reserve_config =
  cfg_status :: u8
  host_fixed_interest_rate_bps :: u16
  min_deleveraging_bonus_bps :: u16
  block_ctoken_usage :: u8
  early_repay_remaining_interest_pct :: u8
  emergency_mode :: u8
  protocol_order_execution_fee_pct :: u8
  protocol_take_rate_pct :: u8
  protocol_liquidation_fee_pct :: u8
  loan_to_value_pct :: u8
  liquidation_threshold_pct :: u8
  min_liquidation_bonus_bps :: u16
  max_liquidation_bonus_bps :: u16
  bad_debt_liquidation_bonus_bps :: u16
  deleveraging_margin_call_period_secs :: u64
  deleveraging_threshold_decrease_bps_per_day :: u64
  cfg_fees :: reserve_fees
  borrow_rate_curve :: borrow_rate_curve
  borrow_factor_pct :: u64
  deposit_limit :: u64
  borrow_limit :: u64
  token_info :: token_info
  deposit_withdrawal_cap :: withdrawal_caps
  debt_withdrawal_cap :: withdrawal_caps
  cfg_elevation_groups :: "u8 list"
  disable_usage_as_coll_outside_emode :: u8
  utilization_limit_block_borrowing_above_pct :: u8
  autodeleverage_enabled :: u8
  proposer_authority_locked :: u8
  borrow_limit_outside_elevation_group :: u64
  borrow_limit_against_this_collateral_in_elevation_group :: "u64 list"
  deleveraging_bonus_increase_bps_per_day :: u64
  debt_maturity_timestamp :: u64
  debt_term_seconds :: u64
  rewards_amount_per_slot :: u64
  permissioned_ops :: u64

record reserve_config_customizations =
  overridden_fixed_rate_bps :: "u32 option"
  overridden_debt_term_seconds :: "u64 option"
  overridden_elevation_groups :: "u8 list option"

text \<open>The derived \<open>Default\<close>: zeros, no oracle, and the flat curve at a rate of zero.\<close>

definition zero_withdrawal_caps :: withdrawal_caps where
  "zero_withdrawal_caps = \<lparr> config_capacity = 0, wc_current_total = 0,
     last_interval_start_timestamp = 0, config_interval_length_seconds = 0 \<rparr>"

definition zero_config :: "borrow_rate_curve \<Rightarrow> reserve_config" where
  "zero_config curve = \<lparr>
     cfg_status = 0, host_fixed_interest_rate_bps = 0, min_deleveraging_bonus_bps = 0,
     block_ctoken_usage = 0, early_repay_remaining_interest_pct = 0, emergency_mode = 0,
     protocol_order_execution_fee_pct = 0, protocol_take_rate_pct = 0,
     protocol_liquidation_fee_pct = 0, loan_to_value_pct = 0, liquidation_threshold_pct = 0,
     min_liquidation_bonus_bps = 0, max_liquidation_bonus_bps = 0,
     bad_debt_liquidation_bonus_bps = 0, deleveraging_margin_call_period_secs = 0,
     deleveraging_threshold_decrease_bps_per_day = 0,
     cfg_fees = \<lparr> origination_fee_sf = 0, flash_loan_fee_sf = 0 \<rparr>,
     borrow_rate_curve = curve, borrow_factor_pct = 0, deposit_limit = 0, borrow_limit = 0,
     token_info = token_info_default, deposit_withdrawal_cap = zero_withdrawal_caps,
     debt_withdrawal_cap = zero_withdrawal_caps, cfg_elevation_groups = replicate 20 0,
     disable_usage_as_coll_outside_emode = 0, utilization_limit_block_borrowing_above_pct = 0,
     autodeleverage_enabled = 0, proposer_authority_locked = 0,
     borrow_limit_outside_elevation_group = 0,
     borrow_limit_against_this_collateral_in_elevation_group = replicate 32 0,
     deleveraging_bonus_increase_bps_per_day = 0, debt_maturity_timestamp = 0,
     debt_term_seconds = 0, rewards_amount_per_slot = 0, permissioned_ops = 0 \<rparr>"

definition reserve_config_default :: "reserve_config res" where
  "reserve_config_default = rbind (curve_new_flat 0) (\<lambda>curve. Inr (zero_config curve))"

definition get_borrow_factor :: "numlib \<Rightarrow> reserve_config \<Rightarrow> frac res" where
  "get_borrow_factor L c =
     rbind (from_percent L (ucast (borrow_factor_pct c))) (\<lambda>f. Inr (max fx_one f))"

definition config_status :: "reserve_config \<Rightarrow> reserve_status res" where
  "config_status c = ok_or (reserve_status_of_u8 (cfg_status c)) Panic"

definition is_autodeleverage_enabled :: "reserve_config \<Rightarrow> bool" where
  "is_autodeleverage_enabled c \<longleftrightarrow> autodeleverage_enabled c \<noteq> 0"

definition is_ctoken_usage_blocked :: "reserve_config \<Rightarrow> bool" where
  "is_ctoken_usage_blocked c \<longleftrightarrow> block_ctoken_usage c \<noteq> 0"

definition reserve_is_emergency_mode :: "reserve_config \<Rightarrow> bool" where
  "reserve_is_emergency_mode c \<longleftrightarrow> emergency_mode c \<noteq> 0"

definition get_debt_term_seconds :: "reserve_config \<Rightarrow> u64 option" where
  "get_debt_term_seconds c =
     (if debt_term_seconds c = 0 then None else Some (debt_term_seconds c))"

definition get_early_repay_penalty_remaining_interest_pct ::
  "numlib \<Rightarrow> reserve_config \<Rightarrow> frac res" where
  "get_early_repay_penalty_remaining_interest_pct L c =
     from_percent L (ucast (early_repay_remaining_interest_pct c))"

definition get_debt_maturity_timestamp :: "reserve_config \<Rightarrow> u64 option" where
  "get_debt_maturity_timestamp c =
     (if debt_maturity_timestamp c = 0 then None else Some (debt_maturity_timestamp c))"

definition get_secs_since_debt_maturity_reached :: "reserve_config \<Rightarrow> u64 \<Rightarrow> u64 option" where
  "get_secs_since_debt_maturity_reached c current_timestamp =
     Option.bind (get_debt_maturity_timestamp c) (\<lambda>maturity. checked_sub current_timestamp maturity)"

definition max_borrow_rate_bps :: "reserve_config \<Rightarrow> u32 res" where
  "max_borrow_rate_bps c =
     (case map borrow_rate_bps (points (borrow_rate_curve c)) of
        [] \<Rightarrow> Inl Panic
      | r # rs \<Rightarrow> Inr (fold max rs r))"

definition max_borrowing_utilization_rate :: "numlib \<Rightarrow> reserve_config \<Rightarrow> frac option res" where
  "max_borrowing_utilization_rate L c =
     (if utilization_limit_block_borrowing_above_pct c = 0 then Inr None
      else rbind (from_percent L (ucast (utilization_limit_block_borrowing_above_pct c)))
             (\<lambda>f. Inr (Some f)))"

definition config_from_customized ::
  "reserve_config \<Rightarrow> reserve_config_customizations \<Rightarrow> reserve_config res" where
  "config_from_customized source customizations =
     rbind (case overridden_fixed_rate_bps customizations of
              None \<Rightarrow> Inr (borrow_rate_curve source)
            | Some r \<Rightarrow> curve_new_flat r) (\<lambda>curve.
     Inr (source\<lparr>
       cfg_status := reserve_status_to_u8 Hidden,
       borrow_rate_curve := curve,
       deposit_limit := 0,
       borrow_limit := 0,
       cfg_elevation_groups := (case overridden_elevation_groups customizations of
          None \<Rightarrow> cfg_elevation_groups source | Some g \<Rightarrow> g),
       proposer_authority_locked := 0,
       debt_term_seconds := (case overridden_debt_term_seconds customizations of
          None \<Rightarrow> debt_term_seconds source | Some t \<Rightarrow> t),
       rewards_amount_per_slot := 0,
       permissioned_ops := 0 \<rparr>))"

section \<open>The fee schedule over naturals\<close>

definition fee_bits :: "fee_calculation \<Rightarrow> nat \<Rightarrow> nat \<Rightarrow> nat" where
  "fee_bits fee_calc amount fee =
     max fx_scale (case fee_calc of
       Exclusive \<Rightarrow> fmul amount fee
     | Inclusive \<Rightarrow> fmul amount (fee * fx_scale div (fee + fx_scale)))"

definition round_bits :: "nat \<Rightarrow> nat" where
  "round_bits n = (n + fx_scale div 2) div fx_scale"

definition referral_share :: "nat \<Rightarrow> nat \<Rightarrow> bool \<Rightarrow> nat" where
  "referral_share fee bps has_referrer =
     (if bps \<noteq> 0 \<and> has_referrer
      then if bps = 10000 then round_bits fee else fmul fee (bps * fx_scale div 10000) div fx_scale
      else 0)"

lemma round_bits_pos: "fx_scale \<le> n \<Longrightarrow> 1 \<le> round_bits n"
  unfolding round_bits_def using div_le_mono [of fx_scale "n + fx_scale div 2" fx_scale] by simp

lemma round_bits_lt: "n < m * fx_scale \<Longrightarrow> round_bits n \<le> m"
proof -
  assume "n < m * fx_scale"
  then have "n + fx_scale div 2 < (m + 1) * fx_scale" by (simp add: fx_scale_def)
  then have "round_bits n < m + 1" unfolding round_bits_def by (simp add: div_less_iff_less_mult)
  then show ?thesis by simp
qed

lemma bps_rate_le: "bps \<le> 10000 \<Longrightarrow> bps * fx_scale div 10000 \<le> fx_scale"
  using div_le_mono [of "bps * fx_scale" "10000 * fx_scale" 10000] by simp

lemma bps_rate_pos: "0 < bps \<Longrightarrow> 0 < bps * fx_scale div 10000"
proof -
  assume "0 < bps"
  then have "fx_scale \<le> bps * fx_scale" by simp
  then have "fx_scale div 10000 \<le> bps * fx_scale div 10000" by (rule div_le_mono)
  then show ?thesis by (simp add: fx_scale_def)
qed

lemma referral_share_le: "bps \<le> 10000 \<Longrightarrow> referral_share fee bps has \<le> round_bits fee"
proof -
  assume "bps \<le> 10000"
  then have "fmul fee (bps * fx_scale div 10000) \<le> fee"
    by (intro fmul_le_left bps_rate_le)
  then have "fmul fee (bps * fx_scale div 10000) \<le> fee + fx_scale div 2" by simp
  then have "fmul fee (bps * fx_scale div 10000) div fx_scale \<le> round_bits fee"
    unfolding round_bits_def by (rule div_le_mono)
  then show ?thesis by (simp add: referral_share_def)
qed

context num_lib begin

lemma from_bps_u16:
  "\<exists>f. from_bps L (ucast (x :: u16)) = Inr f \<and> unat f = unat x * fx_scale div 10000"
proof -
  have "unat x * fx_scale < 2 ^ 16 * fx_scale" using unat_lt [of x] by simp
  then have lt: "unat x * fx_scale < 2 ^ 128" by (simp add: fx_scale_def)
  then have "unat x * fx_scale div 10000 < 2 ^ 128"
    by (rule le_less_trans [OF div_le_dividend])
  then show ?thesis
    by (intro exI [of _ "of_nat (unat x * fx_scale div 10000)"])
       (use lt in \<open>simp add: from_bps_eq unat_of_nat_lt del: of_nat_mult\<close>)
qed

lemma fee_amount_returns:
  assumes "unat amount < 2 ^ 124" "fee_sf \<noteq> 0"
  shows "\<exists>f. (case fee_calc of
                 Exclusive \<Rightarrow> fx_mul L amount (ucast (fee_sf :: u64))
               | Inclusive \<Rightarrow>
                   rbind (fx_add L (ucast fee_sf) fx_one) (\<lambda>denom.
                   rbind (fx_div L (ucast fee_sf) denom) (\<lambda>rate.
                   fx_mul L amount rate))) = Inr f \<and>
             max (unat f) fx_scale = fee_bits fee_calc (unat amount) (unat fee_sf)"
proof -
  have fits: "\<exists>f. fx_mul L amount r = Inr f \<and> unat f = fmul (unat amount) (unat r)"
    if "unat r < 2 ^ 64" for r
  proof (rule fx_mul_fits)
    have "unat amount * unat r < 2 ^ 124 * 2 ^ 64"
      using that assms(1) by (intro mult_strict_mono) simp_all
    then show "fmul (unat amount) (unat r) < 2 ^ 128"
      by (simp add: fmul_def fx_scale_def div_less_iff_less_mult)
  qed
  show ?thesis
  proof (cases fee_calc)
    case Exclusive
    then show ?thesis
      using fits [of "ucast fee_sf"] u64_lt [of fee_sf] by (auto simp: fee_bits_def max.commute)
  next
    case Inclusive
    obtain denom where denom: "fx_add L (ucast fee_sf) fx_one = Inr denom"
      "unat denom = unat fee_sf + fx_scale"
      using fx_add_fits [of "ucast fee_sf" fx_one] u64_lt [of fee_sf] by (auto simp: fx_scale_def)
    have le: "unat fee_sf * fx_scale div (unat fee_sf + fx_scale) \<le> fx_scale"
    proof -
      have "unat fee_sf * fx_scale \<le> fx_scale * (unat fee_sf + fx_scale)" by (simp add: algebra_simps)
      then have "unat fee_sf * fx_scale div (unat fee_sf + fx_scale) \<le>
          fx_scale * (unat fee_sf + fx_scale) div (unat fee_sf + fx_scale)" by (rule div_le_mono)
      then show ?thesis by simp
    qed
    then obtain rate where rate: "fx_div L (ucast fee_sf) denom = Inr rate"
      "unat rate = unat fee_sf * fx_scale div (unat fee_sf + fx_scale)"
      using denom(2) by (cases "fx_div L (ucast fee_sf) denom") (auto simp: fx_eq fx_err fx_scale_def)
    with le have "unat rate < 2 ^ 64" by (simp add: fx_scale_def)
    from fits [OF this] denom rate Inclusive show ?thesis
      by (auto simp: fee_bits_def max.commute)
  qed
qed

lemma round_returns: "n = round_bits (unat f) \<Longrightarrow> n < 2 ^ 64 \<Longrightarrow>
   \<exists>w. to_round L f = Inr w \<and> unat w = n"
  by (intro exI [of _ "of_nat n"]) (simp add: to_round_eq round_bits_def unat_of_nat_lt)

lemma calculate_fees_split:
  assumes bps: "unat bps \<le> 10000" and amount: "unat amount \<le> (2 ^ 64 - 1) * fx_scale"
    and nz: "fee_sf \<noteq> 0" "amount \<noteq> 0"
    and fee_def: "fee = fee_bits fee_calc (unat amount) (unat fee_sf)"
  shows "unat amount \<le> fee \<Longrightarrow>
           calculate_fees L amount fee_sf fee_calc bps has = Inl (LendingErr BorrowTooSmall)"
    and "fee < unat amount \<Longrightarrow>
           \<exists>p r. calculate_fees L amount fee_sf fee_calc bps has = Inr (p, r) \<and>
             unat p + unat r = round_bits fee \<and> unat r = referral_share fee (unat bps) has"
proof -
  obtain rr where rr: "from_bps L (ucast bps) = Inr rr" "unat rr = unat bps * fx_scale div 10000"
    using from_bps_u16 by blast
  have lt: "unat amount < 2 ^ 124" using amount by (simp add: fx_scale_def)
  obtain f where f: "(case fee_calc of
                 Exclusive \<Rightarrow> fx_mul L amount (ucast fee_sf)
               | Inclusive \<Rightarrow>
                   rbind (fx_add L (ucast fee_sf) fx_one) (\<lambda>denom.
                   rbind (fx_div L (ucast fee_sf) denom) (\<lambda>rate.
                   fx_mul L amount rate))) = Inr f" "max (unat f) fx_scale = fee"
    using fee_amount_returns [OF lt nz(1), of fee_calc] by (auto simp: fee_def)
  obtain m where m: "frac_of_u64 L 1 = Inr m" "unat m = fx_scale"
    using frac_of_u64_ex [of 1] by auto
  define g where "g = max f m"
  have g: "unat g = fee" using f m by (simp add: g_def)
  have pos: "0 < (ucast fee_sf :: frac)" "0 < amount" using nz by (simp_all add: word_gt_0)
  have rr_pos: "0 < rr \<longleftrightarrow> bps \<noteq> 0"
    using rr(2) bps_rate_pos [of "unat bps"] by (cases "bps = 0") (auto simp: word_less_nat_alt unat_gt_0)
  have le_iff: "amount \<le> g \<longleftrightarrow> unat amount \<le> fee" by (simp add: word_le_nat_alt g)
  show "calculate_fees L amount fee_sf fee_calc bps has = Inl (LendingErr BorrowTooSmall)"
    if "unat amount \<le> fee"
    using that pos rr f(1) m(1) le_iff by (simp add: calculate_fees_def Let_def fail_def g_def)
  show "\<exists>p r. calculate_fees L amount fee_sf fee_calc bps has = Inr (p, r) \<and>
      unat p + unat r = round_bits fee \<and> unat r = referral_share fee (unat bps) has"
    if "fee < unat amount"
  proof -
    have "round_bits fee < 2 ^ 64"
      using round_bits_lt [of fee "2 ^ 64 - 1"] that amount by simp
    then obtain w where w: "to_round L g = Inr w" "unat w = round_bits fee"
      using round_returns [of "round_bits fee" g] g by auto
    have share: "referral_share fee (unat bps) has \<le> round_bits fee"
      using bps by (rule referral_share_le)
    have "\<exists>r. (if 0 < rr \<and> has then if bps = 10000 then Inr w
          else rbind (fx_mul L g rr) (to_floor L) else Inr 0) = Inr r \<and>
        unat r = referral_share fee (unat bps) has"
    proof (cases "bps \<noteq> 0 \<and> has \<and> bps \<noteq> 10000")
      case True
      then have ne: "unat bps \<noteq> 10000" using word_unat_eqI [of bps 10000] by auto
      have "fmul fee (unat rr) \<le> fee"
        using bps rr(2) by (intro fmul_le_left) (simp add: bps_rate_le)
      then obtain x where x: "fx_mul L g rr = Inr x" "unat x = fmul fee (unat rr)"
        using fx_mul_fits [of g rr] g u128_lt [of g] by auto
      have "unat x div fx_scale = referral_share fee (unat bps) has"
        using True ne x rr(2) by (simp add: referral_share_def)
      with share \<open>round_bits fee < 2 ^ 64\<close>
      have "to_floor L x = Inr (of_nat (referral_share fee (unat bps) has))"
        "referral_share fee (unat bps) has < 2 ^ 64"
        by (simp_all add: to_floor_eq unat_of_nat_lt)
      with True x rr_pos show ?thesis by (simp add: unat_of_nat_lt)
    next
      case False
      then show ?thesis using w(2) rr_pos by (auto simp: referral_share_def)
    qed
    then obtain r where r: "(if 0 < rr \<and> has then if bps = 10000 then Inr w
          else rbind (fx_mul L g rr) (to_floor L) else Inr 0) = Inr r"
      "unat r = referral_share fee (unat bps) has" by blast
    obtain p where p: "sub_ov w r = Inr p" "unat p = unat w - unat r"
      using share r w by (cases "sub_ov w r") (auto simp: ov_eq)
    have "calculate_fees L amount fee_sf fee_calc bps has =
        rbind (to_round L g) (\<lambda>w.
        rbind (if 0 < rr \<and> has then if bps = 10000 then Inr w
               else rbind (fx_mul L g rr) (to_floor L) else Inr 0) (\<lambda>r.
        rbind (sub_ov w r) (\<lambda>p. Inr (p, r))))"
      using that pos rr f(1) m(1) le_iff unfolding g_def by (simp add: calculate_fees_def Let_def)
    also have "\<dots> = Inr (p, r)" using w(1) p(1) by (simp only: rbind_simps r(1))
    finally show ?thesis using w p r share by auto
  qed
qed

end

section \<open>Properties\<close>

text \<open>
  C39. The fee schedule: for a referral share of at most 100\% and an amount of at most
  \<open>u64::MAX\<close> tokens the computation of fees fails in one way only, with \<open>BorrowTooSmall\<close>, exactly
  when the fee (at least one lamport) is not below the amount. Otherwise the protocol's and the
  referrer's part add up to the rounded fee, which is at least one lamport, and the referrer
  gets its share rounded down and only if there is a referrer. In particular the subtraction of
  the two parts never underflows. Without a fee rate nothing is charged.
\<close>

theorem fee_schedule:
  assumes "num_lib L" "unat bps \<le> 10000" "unat amount \<le> (2 ^ 64 - 1) * fx_scale"
  shows "(fee_sf = 0 \<or> amount = 0 \<longrightarrow>
            calculate_fees L amount fee_sf mode bps has = Inr (0, 0)) \<and>
         (fee_sf \<noteq> 0 \<and> amount \<noteq> 0 \<and> unat amount \<le> fee_bits mode (unat amount) (unat fee_sf) \<longrightarrow>
            calculate_fees L amount fee_sf mode bps has = Inl (LendingErr BorrowTooSmall)) \<and>
         (fee_sf \<noteq> 0 \<and> fee_bits mode (unat amount) (unat fee_sf) < unat amount \<longrightarrow>
            (\<exists>p r. calculate_fees L amount fee_sf mode bps has = Inr (p, r) \<and>
               unat p + unat r = round_bits (fee_bits mode (unat amount) (unat fee_sf)) \<and>
               1 \<le> unat p + unat r \<and>
               unat r = referral_share (fee_bits mode (unat amount) (unat fee_sf)) (unat bps) has))"
proof -
  note split = num_lib.calculate_fees_split [OF assms, of fee_sf _ mode]
  have "1 \<le> round_bits (fee_bits mode (unat amount) (unat fee_sf))"
    by (rule round_bits_pos) (simp add: fee_bits_def)
  moreover have "calculate_fees L amount fee_sf mode bps has = Inr (0, 0)" if "fee_sf = 0 \<or> amount = 0"
  proof -
    obtain rr where "from_bps L (ucast bps) = Inr rr"
      using num_lib.from_bps_u16 [OF assms(1), of bps] by blast
    with that show ?thesis by (auto simp: calculate_fees_def Let_def)
  qed
  moreover have "amount \<noteq> 0" if "fee_bits mode (unat amount) (unat fee_sf) < unat amount"
    using that by auto
  ultimately show ?thesis using split by (metis (no_types, lifting))
qed

theorem fee_schedule_witness:
  "\<exists>p r. calculate_fees std_lib (fraction_lit 1000) (2 ^ 58) Exclusive 2000 True = Inr (p, r) \<and>
     unat p + unat r = 250 \<and> unat r = 49"
  using fee_schedule [OF std.num_lib_axioms, of 2000 "fraction_lit 1000" "2 ^ 58" Exclusive True]
  by (simp add: fee_bits_def fmul_def fx_scale_def round_bits_def referral_share_def) auto

end
