(* ===== verification/Reserve.thy ===== *)
theory Reserve imports Last_Update Reserve_Liquidity Reserve_Collateral Reserve_Config begin

text \<open>
  A reserve: the liquidity, the collateral, the configuration and the withdraw queue of one
  token, and the operations on them (\<open>impl Reserve\<close> of \<open>state/reserve.rs\<close>). An operation that
  takes \<open>&mut self\<close> returns the new reserve; when it errs the transaction aborts, and no state is
  returned.
\<close>

section \<open>State\<close>

datatype reserve_farm_kind = FarmCollateral | FarmDebt

record reserve =
  rsv_version :: u64
  rsv_last_update :: last_update
  rsv_lending_market :: pubkey
  farm_collateral :: pubkey
  farm_debt :: pubkey
  rsv_liquidity :: reserve_liquidity
  rsv_collateral :: reserve_collateral
  rsv_config :: reserve_config
  borrowed_amount_outside_elevation_group :: u64
  borrowed_amounts_against_this_reserve_in_elevation_groups :: "u64 list"
  rsv_withdraw_queue :: withdraw_queue

record init_reserve_params =
  irp_current_slot :: u64
  irp_lending_market :: pubkey
  irp_liquidity :: reserve_liquidity
  irp_collateral :: reserve_collateral
  irp_config :: reserve_config

record referrer_token_state =
  rts_referrer :: pubkey
  rts_mint :: pubkey
  amount_unclaimed_sf :: u128
  amount_cumulative_sf :: u128

record deposit_liquidity_result =
  dlr_liquidity_amount :: u64
  dlr_collateral_amount :: u64

datatype borrow_size = Exact u64 | AllAvailable | AtMost u64

definition exact_or_all_available :: "u64 \<Rightarrow> borrow_size" where
  "exact_or_all_available liquidity_amount =
     (if liquidity_amount = - 1 then AllAvailable else Exact liquidity_amount)"

fun borrow_size_is_zero :: "borrow_size \<Rightarrow> bool" where
  "borrow_size_is_zero (Exact amount) = (amount = 0)"
| "borrow_size_is_zero (AtMost amount) = (amount = 0)"
| "borrow_size_is_zero AllAvailable = False"

record calculate_borrow_result =
  cbr_borrow_amount_f :: frac
  cbr_receive_amount :: u64
  cbr_origination_fee :: u64
  cbr_referrer_fee :: u64

record calculate_repay_result =
  crr_settle_amount :: frac
  crr_repay_amount :: u64

definition reserve_init :: "init_reserve_params \<Rightarrow> reserve" where
  "reserve_init params = \<lparr>
     rsv_version = of_nat PROGRAM_VERSION,
     rsv_last_update = last_update_new (irp_current_slot params),
     rsv_lending_market = irp_lending_market params,
     farm_collateral = 0,
     farm_debt = 0,
     rsv_liquidity = irp_liquidity params,
     rsv_collateral = irp_collateral params,
     rsv_config = irp_config params,
     borrowed_amount_outside_elevation_group = 0,
     borrowed_amounts_against_this_reserve_in_elevation_groups = replicate 32 0,
     rsv_withdraw_queue = withdraw_queue_default \<rparr>"

definition get_farm :: "reserve \<Rightarrow> reserve_farm_kind \<Rightarrow> pubkey" where
  "get_farm r mode = (case mode of FarmCollateral \<Rightarrow> farm_collateral r | FarmDebt \<Rightarrow> farm_debt r)"

definition add_farm :: "reserve \<Rightarrow> pubkey \<Rightarrow> reserve_farm_kind \<Rightarrow> reserve" where
  "add_farm r farm_state mode =
     (case mode of FarmCollateral \<Rightarrow> r\<lparr> farm_collateral := farm_state \<rparr>
                 | FarmDebt \<Rightarrow> r\<lparr> farm_debt := farm_state \<rparr>)"

section \<open>Rates and available amounts\<close>

definition current_borrow_rate :: "numlib \<Rightarrow> reserve \<Rightarrow> frac res" where
  "current_borrow_rate L r =
     rbind (utilization_rate L (rsv_liquidity r)) (\<lambda>utilization.
     curve_get_borrow_rate L (borrow_rate_curve (rsv_config r)) utilization)"

definition borrow_factor_f :: "numlib \<Rightarrow> reserve \<Rightarrow> bool \<Rightarrow> frac res" where
  "borrow_factor_f L r is_in_elevation_group =
     (if is_in_elevation_group then Inr fx_one else get_borrow_factor L (rsv_config r))"

definition rsv_exchange_rate :: "numlib \<Rightarrow> reserve \<Rightarrow> collateral_exchange_rate res" where
  "rsv_exchange_rate L r =
     rbind (total_supply L (rsv_liquidity r)) (\<lambda>total_liquidity.
     Inr (collateral_rate_for (rsv_collateral r) total_liquidity))"

definition total_available_liquidity_amount :: "reserve \<Rightarrow> u64" where
  "total_available_liquidity_amount r = total_available_amount (rsv_liquidity r)"

definition queued_liquidity_amount :: "numlib \<Rightarrow> reserve \<Rightarrow> u64 res" where
  "queued_liquidity_amount L r =
     rbind (rsv_exchange_rate L r) (\<lambda>rate.
     collateral_to_liquidity L rate (queued_collateral_amount (rsv_withdraw_queue r)))"

definition freely_available_liquidity_amount :: "numlib \<Rightarrow> reserve \<Rightarrow> u64 res" where
  "freely_available_liquidity_amount L r =
     rbind (queued_liquidity_amount L r) (\<lambda>queued.
     Inr (saturating_sub (total_available_amount (rsv_liquidity r)) queued))"

definition total_withdrawable_liquidity_amount :: "numlib \<Rightarrow> reserve \<Rightarrow> u64 res" where
  "total_withdrawable_liquidity_amount L r =
     (let available_liquidity = total_available_liquidity_amount r in
      rbind (rsv_exchange_rate L r) (\<lambda>exchange_rate.
      rbind (liquidity_to_collateral_ceil L exchange_rate available_liquidity) (\<lambda>ceiled.
      rbind (collateral_to_liquidity L exchange_rate ceiled) (\<lambda>liquidity_for_ceiled.
      if liquidity_for_ceiled \<le> available_liquidity then Inr liquidity_for_ceiled
      else rbind (liquidity_to_collateral L exchange_rate available_liquidity) (\<lambda>floored.
           collateral_to_liquidity L exchange_rate floored)))))"

definition total_redeemable_collateral_amount :: "numlib \<Rightarrow> reserve \<Rightarrow> u64 res" where
  "total_redeemable_collateral_amount L r =
     (let available_liquidity = total_available_liquidity_amount r in
      rbind (rsv_exchange_rate L r) (\<lambda>exchange_rate.
      rbind (liquidity_to_collateral_ceil L exchange_rate available_liquidity) (\<lambda>ceiled.
      rbind (collateral_to_liquidity L exchange_rate ceiled) (\<lambda>liquidity_for_ceiled.
      if liquidity_for_ceiled \<le> available_liquidity then Inr ceiled
      else liquidity_to_collateral L exchange_rate available_liquidity))))"

definition freely_redeemable_collateral_amount :: "numlib \<Rightarrow> reserve \<Rightarrow> u64 res" where
  "freely_redeemable_collateral_amount L r =
     rbind (total_redeemable_collateral_amount L r) (\<lambda>total.
     Inr (saturating_sub total (queued_collateral_amount (rsv_withdraw_queue r))))"

definition remaining_borrow_capacity :: "numlib \<Rightarrow> reserve \<Rightarrow> frac res" where
  "remaining_borrow_capacity L r =
     rbind (frac_of_u64 L (borrow_limit (rsv_config r))) (\<lambda>limit.
     Inr (fx_saturating_sub L limit (total_borrow (rsv_liquidity r))))"

definition borrowable_liquidity_amount_outside_elevation_group ::
  "numlib \<Rightarrow> reserve \<Rightarrow> u64 \<Rightarrow> u64 res" where
  "borrowable_liquidity_amount_outside_elevation_group L r timestamp =
     rbind (freely_available_liquidity_amount L r) (\<lambda>sufficient_liquidity_limit.
     if sufficient_liquidity_limit = 0 then fail InsufficientLiquidity
     else
     rbind (rbind (remaining_borrow_capacity L r) (to_floor L)) (\<lambda>borrow_capacity_limit.
     if borrow_capacity_limit = 0 then fail BorrowLimitExceeded
     else
     let remaining_borrow_limit =
       saturating_sub (borrow_limit_outside_elevation_group (rsv_config r))
         (borrowed_amount_outside_elevation_group r)
     in if remaining_borrow_limit = 0 then fail ElevationGroupBorrowLimitExceeded
     else
     rbind (rbind (max_borrowing_utilization_rate L (rsv_config r)) (\<lambda>max_utilization.
            case max_utilization of
              Some max_rate \<Rightarrow>
                rbind (total_supply L (rsv_liquidity r)) (\<lambda>supply.
                rbind (fx_mul L supply max_rate) (\<lambda>limit.
                to_floor L (fx_saturating_sub L
                  (fx_saturating_sub L limit (total_borrow (rsv_liquidity r))) 1)))
            | None \<Rightarrow> rbind (total_supply L (rsv_liquidity r)) (to_floor L)))
       (\<lambda>utilization_rate_limit.
     if utilization_rate_limit = 0 then fail BorrowingAboveUtilizationRateDisabled
     else
     rbind (remaining_withdrawal_caps_amount (debt_withdrawal_cap (rsv_config r)) timestamp)
       (\<lambda>withdrawal_caps_limit.
     if withdrawal_caps_limit = 0 then fail WithdrawalCapReached
     else Inr (fold min [borrow_capacity_limit, remaining_borrow_limit, utilization_rate_limit,
                         withdrawal_caps_limit] sufficient_liquidity_limit)))))"

section \<open>Deposits, redemptions, borrows\<close>

definition compute_depositable_amount_and_minted_collateral ::
  "numlib \<Rightarrow> reserve \<Rightarrow> u64 \<Rightarrow> deposit_liquidity_result res" where
  "compute_depositable_amount_and_minted_collateral L r liquidity_amount =
     rbind (rsv_exchange_rate L r) (\<lambda>rate.
     rbind (liquidity_to_collateral L rate liquidity_amount) (\<lambda>collateral_amount.
     rbind (collateral_to_liquidity_ceil L rate collateral_amount) (\<lambda>liquidity_amount_to_deposit.
     rbind (ensure (liquidity_amount \<ge> liquidity_amount_to_deposit) MathOverflow) (\<lambda>_.
     Inr \<lparr> dlr_liquidity_amount = liquidity_amount_to_deposit,
           dlr_collateral_amount = collateral_amount \<rparr>))))"

definition reserve_deposit_liquidity :: "reserve \<Rightarrow> u64 \<Rightarrow> u64 \<Rightarrow> reserve res" where
  "reserve_deposit_liquidity r liquidity_amount collateral_amount =
     rbind (liquidity_deposit (rsv_liquidity r) liquidity_amount) (\<lambda>liquidity.
     rbind (collateral_mint (rsv_collateral r) collateral_amount) (\<lambda>collateral.
     Inr (r\<lparr> rsv_liquidity := liquidity, rsv_collateral := collateral \<rparr>)))"

definition take_available :: "reserve \<Rightarrow> u64 \<Rightarrow> reserve res" where
  "take_available r liquidity_amount =
     rbind (sub_ov (total_available_amount (rsv_liquidity r)) liquidity_amount) (\<lambda>available.
     Inr (r\<lparr> rsv_liquidity := (rsv_liquidity r)\<lparr> total_available_amount := available \<rparr> \<rparr>))"

definition withdraw_including_queued :: "reserve \<Rightarrow> u64 \<Rightarrow> reserve res" where
  "withdraw_including_queued r liquidity_amount =
     (if liquidity_amount > total_available_amount (rsv_liquidity r) then fail InsufficientLiquidity
      else take_available r liquidity_amount)"

definition withdraw_freely_available :: "numlib \<Rightarrow> reserve \<Rightarrow> u64 \<Rightarrow> reserve res" where
  "withdraw_freely_available L r liquidity_amount =
     rbind (freely_available_liquidity_amount L r) (\<lambda>freely_available_amount.
     if liquidity_amount > freely_available_amount then fail InsufficientLiquidity
     else take_available r liquidity_amount)"

definition reserve_redeem_collateral :: "numlib \<Rightarrow> reserve \<Rightarrow> u64 \<Rightarrow> bool \<Rightarrow> (reserve \<times> u64) res" where
  "reserve_redeem_collateral L r collateral_amount use_withdraw_queue =
     rbind (rsv_exchange_rate L r) (\<lambda>rate.
     rbind (collateral_to_liquidity L rate collateral_amount) (\<lambda>liquidity_amount.
     rbind (if use_withdraw_queue then withdraw_including_queued r liquidity_amount
            else withdraw_freely_available L r liquidity_amount) (\<lambda>r.
     rbind (collateral_burn (rsv_collateral r) collateral_amount) (\<lambda>collateral.
     Inr (r\<lparr> rsv_collateral := collateral \<rparr>, liquidity_amount)))))"

definition reserve_borrow :: "numlib \<Rightarrow> reserve \<Rightarrow> frac \<Rightarrow> bool \<Rightarrow> reserve res" where
  "reserve_borrow L r borrow_f use_withdraw_queue =
     rbind (to_floor L borrow_f) (\<lambda>amount.
     rbind (if use_withdraw_queue then withdraw_including_queued r amount
            else withdraw_freely_available L r amount) (\<lambda>r.
     rbind (fx_add L (total_borrow (rsv_liquidity r)) borrow_f) (\<lambda>borrowed.
     Inr (r\<lparr> rsv_liquidity := (rsv_liquidity r)\<lparr> borrowed_amount_sf := borrowed \<rparr> \<rparr>))))"

definition redeem_fees :: "numlib \<Rightarrow> reserve \<Rightarrow> u64 \<Rightarrow> reserve res" where
  "redeem_fees L r withdraw_amount =
     rbind (withdraw_freely_available L r withdraw_amount) (\<lambda>r.
     rbind (frac_of_u64 L withdraw_amount) (\<lambda>withdraw_amount_f.
     rbind (ok_or (fx_checked_sub L (accumulated_protocol_fees_sf (rsv_liquidity r)) withdraw_amount_f)
              (LendingErr MathOverflow)) (\<lambda>fees.
     Inr (r\<lparr> rsv_liquidity := (rsv_liquidity r)\<lparr> accumulated_protocol_fees_sf := fees \<rparr> \<rparr>))))"

definition reserve_withdraw_referrer_fees ::
  "numlib \<Rightarrow> reserve \<Rightarrow> u64 \<Rightarrow> referrer_token_state \<Rightarrow> (reserve \<times> referrer_token_state) res" where
  "reserve_withdraw_referrer_fees L r withdraw_amount rts =
     rbind (withdraw_freely_available L r withdraw_amount) (\<lambda>r.
     rbind (frac_of_u64 L withdraw_amount) (\<lambda>withdraw_amount_f.
     rbind (ok_or (fx_checked_sub L (accumulated_referrer_fees_sf (rsv_liquidity r)) withdraw_amount_f)
              (LendingErr MathOverflow)) (\<lambda>fees.
     rbind (ok_or (fx_checked_sub L (amount_unclaimed_sf rts) withdraw_amount_f)
              (LendingErr MathOverflow)) (\<lambda>unclaimed.
     Inr (r\<lparr> rsv_liquidity := (rsv_liquidity r)\<lparr> accumulated_referrer_fees_sf := fees \<rparr> \<rparr>,
          rts\<lparr> amount_unclaimed_sf := unclaimed \<rparr>)))))"

section \<open>Time\<close>

definition reserve_accrue_interest :: "numlib \<Rightarrow> reserve \<Rightarrow> u64 \<Rightarrow> u16 \<Rightarrow> reserve res" where
  "reserve_accrue_interest L r current_slot referral_fee_bps =
     rbind (slots_elapsed (rsv_last_update r) current_slot) (\<lambda>elapsed.
     if elapsed > 0 then
       rbind (current_borrow_rate L r) (\<lambda>borrow_rate.
       rbind (from_percent L (ucast (protocol_take_rate_pct (rsv_config r)))) (\<lambda>take_rate.
       rbind (from_bps L (ucast referral_fee_bps)) (\<lambda>referral_rate.
       rbind (from_bps L (ucast (host_fixed_interest_rate_bps (rsv_config r)))) (\<lambda>host_rate.
       rbind (compound_interest L (rsv_liquidity r) borrow_rate host_rate elapsed take_rate
                referral_rate) (\<lambda>liquidity.
       Inr (r\<lparr> rsv_liquidity := liquidity \<rparr>))))))
     else Inr r)"

definition distribute_rewards :: "numlib \<Rightarrow> reserve \<Rightarrow> u64 \<Rightarrow> u16 \<Rightarrow> (reserve \<times> u64) res" where
  "distribute_rewards L r current_slot max_apr_bps =
     rbind (slots_elapsed (rsv_last_update r) current_slot) (\<lambda>elapsed.
     if elapsed = 0 \<or> max_apr_bps = 0 \<or> rewards_amount_per_slot (rsv_config r) = 0 \<or>
        rewards_amount_available (rsv_liquidity r) = 0 \<or> mint_total_supply (rsv_collateral r) = 0
     then Inr (r, 0)
     else
     let raw_distribution =
       saturating_mul (ucast (rewards_amount_per_slot (rsv_config r)) :: u128) (ucast elapsed)
     in rbind (total_supply L (rsv_liquidity r)) (\<lambda>supply.
     let total_supply_u128 = fx_to_u128 L (fx_floor L supply);
         apr_cap_numerator =
           saturating_mul (saturating_mul total_supply_u128 (ucast max_apr_bps)) (ucast elapsed);
         apr_cap_denominator = (of_nat FULL_BPS * of_nat SLOTS_PER_YEAR :: u128);
         apr_cap_u128 = apr_cap_numerator div apr_cap_denominator;
         to_distribute_u128 = min (min raw_distribution apr_cap_u128)
           (ucast (rewards_amount_available (rsv_liquidity r)))
     in rbind (ok_or (to_word_opt (unat to_distribute_u128)) (LendingErr MathOverflow))
       (\<lambda>to_distribute :: u64.
     if to_distribute = 0 then Inr (r, 0)
     else
     rbind (ok_or (checked_sub (rewards_amount_available (rsv_liquidity r)) to_distribute)
              (LendingErr MathOverflow)) (\<lambda>remaining.
     rbind (ok_or (checked_add (total_available_amount (rsv_liquidity r)) to_distribute)
              (LendingErr MathOverflow)) (\<lambda>available.
     Inr (r\<lparr> rsv_liquidity := (rsv_liquidity r)
              \<lparr> rewards_amount_available := remaining, total_available_amount := available \<rparr> \<rparr>,
          to_distribute))))))"

definition deposit_limit_crossed :: "numlib \<Rightarrow> reserve \<Rightarrow> bool res" where
  "deposit_limit_crossed L r =
     rbind (total_supply L (rsv_liquidity r)) (\<lambda>supply.
     rbind (frac_of_u64 L (deposit_limit (rsv_config r))) (\<lambda>limit. Inr (supply > limit)))"

definition borrow_limit_crossed :: "numlib \<Rightarrow> reserve \<Rightarrow> bool res" where
  "borrow_limit_crossed L r =
     rbind (frac_of_u64 L (borrow_limit (rsv_config r))) (\<lambda>limit.
     Inr (total_borrow (rsv_liquidity r) > limit))"

definition update_deposit_limit_crossed_timestamp :: "numlib \<Rightarrow> reserve \<Rightarrow> u64 \<Rightarrow> reserve res" where
  "update_deposit_limit_crossed_timestamp L r timestamp =
     rbind (deposit_limit_crossed L r) (\<lambda>crossed.
     if crossed then
       if deposit_limit_crossed_timestamp (rsv_liquidity r) = 0
       then Inr (r\<lparr> rsv_liquidity := (rsv_liquidity r)\<lparr> deposit_limit_crossed_timestamp := timestamp \<rparr> \<rparr>)
       else Inr r
     else Inr (r\<lparr> rsv_liquidity := (rsv_liquidity r)\<lparr> deposit_limit_crossed_timestamp := 0 \<rparr> \<rparr>))"

definition update_borrow_limit_crossed_timestamp :: "numlib \<Rightarrow> reserve \<Rightarrow> u64 \<Rightarrow> reserve res" where
  "update_borrow_limit_crossed_timestamp L r timestamp =
     rbind (borrow_limit_crossed L r) (\<lambda>crossed.
     if crossed then
       if borrow_limit_crossed_timestamp (rsv_liquidity r) = 0
       then Inr (r\<lparr> rsv_liquidity := (rsv_liquidity r)\<lparr> borrow_limit_crossed_timestamp := timestamp \<rparr> \<rparr>)
       else Inr r
     else Inr (r\<lparr> rsv_liquidity := (rsv_liquidity r)\<lparr> borrow_limit_crossed_timestamp := 0 \<rparr> \<rparr>))"

definition calculate_future_cumulative_borrow_rate ::
  "numlib \<Rightarrow> reserve \<Rightarrow> u64 \<Rightarrow> big_fraction res" where
  "calculate_future_cumulative_borrow_rate L r future_slot =
     rbind (slots_elapsed (rsv_last_update r) future_slot) (\<lambda>elapsed.
     rbind (current_borrow_rate L r) (\<lambda>borrow_rate.
     rbind (from_bps L (ucast (host_fixed_interest_rate_bps (rsv_config r)))) (\<lambda>host_rate.
     rbind (fx_add L borrow_rate host_rate) (\<lambda>rate.
     rbind (approximate_compounded_interest L rate elapsed) (\<lambda>compounded_interest_rate.
     bf_mul L (cumulative_borrow_rate_bsf (rsv_liquidity r))
       (bf_from L compounded_interest_rate))))))"

section \<open>Sizing borrows and repayments\<close>

definition calculate_borrow_all_available ::
  "numlib \<Rightarrow> reserve \<Rightarrow> frac \<Rightarrow> u16 \<Rightarrow> bool \<Rightarrow> frac \<Rightarrow> calculate_borrow_result res" where
  "calculate_borrow_all_available L r max_debt_value referral_fee_bps has_referrer factor =
     rbind (market_value_to_liquidity_amount L (rsv_liquidity r) max_debt_value) (\<lambda>max_liquidity.
     rbind (fx_div L max_liquidity factor) (\<lambda>max_obligation_borrow_amount.
     rbind (remaining_borrow_capacity L r) (\<lambda>capacity.
     rbind (freely_available_liquidity_amount L r) (\<lambda>available.
     rbind (frac_of_u64 L available) (\<lambda>available_f.
     let max_reserve_borrow_amount = min capacity available_f;
         borrow_amount_f = min max_obligation_borrow_amount max_reserve_borrow_amount
     in rbind (calculate_borrow_fees L (cfg_fees (rsv_config r)) borrow_amount_f Inclusive
                 referral_fee_bps has_referrer) (\<lambda>(origination_fee, referrer_fee).
     rbind (to_floor L borrow_amount_f) (\<lambda>borrow_amount.
     rbind (sub_ov borrow_amount origination_fee) (\<lambda>d.
     rbind (sub_ov d referrer_fee) (\<lambda>receive_amount.
     Inr \<lparr> cbr_borrow_amount_f = borrow_amount_f, cbr_receive_amount = receive_amount,
           cbr_origination_fee = origination_fee, cbr_referrer_fee = referrer_fee \<rparr>)))))))))"

definition calculate_borrow_exact ::
  "numlib \<Rightarrow> reserve \<Rightarrow> u64 \<Rightarrow> frac \<Rightarrow> u16 \<Rightarrow> bool \<Rightarrow> frac \<Rightarrow> calculate_borrow_result res" where
  "calculate_borrow_exact L r receive_amount max_debt_value referral_fee_bps has_referrer factor =
     rbind (frac_of_u64 L receive_amount) (\<lambda>receive_amount_f.
     rbind (calculate_borrow_fees L (cfg_fees (rsv_config r)) receive_amount_f Exclusive
              referral_fee_bps has_referrer) (\<lambda>(origination_fee, referrer_fee).
     rbind (add_ov origination_fee referrer_fee) (\<lambda>fees.
     rbind (frac_of_u64 L fees) (\<lambda>fees_f.
     rbind (fx_add L receive_amount_f fees_f) (\<lambda>borrow_amount_f.
     rbind (liquidity_amount_to_market_value L (rsv_liquidity r) borrow_amount_f) (\<lambda>debt_value.
     rbind (fx_mul L debt_value factor) (\<lambda>adjusted_debt_value.
     if adjusted_debt_value > max_debt_value then fail BorrowTooLarge
     else
     rbind (remaining_borrow_capacity L r) (\<lambda>remaining_borrow_capacity_f.
     if borrow_amount_f > remaining_borrow_capacity_f then fail BorrowLimitExceeded
     else
     rbind (freely_available_liquidity_amount L r) (\<lambda>available.
     rbind (frac_of_u64 L available) (\<lambda>reserve_available_liquidity_f.
     if borrow_amount_f > reserve_available_liquidity_f then fail InsufficientLiquidity
     else Inr \<lparr> cbr_borrow_amount_f = borrow_amount_f, cbr_receive_amount = receive_amount,
                cbr_origination_fee = origination_fee, cbr_referrer_fee = referrer_fee \<rparr>))))))))))"

text \<open>
  \<open>AtMost\<close> falls back to everything available when the exact borrow errs with one of three
  codes.
\<close>

definition calculate_borrow ::
  "numlib \<Rightarrow> reserve \<Rightarrow> borrow_size \<Rightarrow> frac \<Rightarrow> u16 \<Rightarrow> bool \<Rightarrow> bool \<Rightarrow> calculate_borrow_result res" where
  "calculate_borrow L r borrow_size max_debt_value referral_fee_bps is_in_elevation_group
     has_referrer =
     rbind (borrow_factor_f L r is_in_elevation_group) (\<lambda>factor.
     case borrow_size of
       AllAvailable \<Rightarrow>
         calculate_borrow_all_available L r max_debt_value referral_fee_bps has_referrer factor
     | Exact receive_amount \<Rightarrow>
         calculate_borrow_exact L r receive_amount max_debt_value referral_fee_bps has_referrer factor
     | AtMost requested_receive_amount \<Rightarrow>
         let borrow_exact_result = calculate_borrow_exact L r requested_receive_amount
               max_debt_value referral_fee_bps has_referrer factor
         in if borrow_exact_result = fail BorrowTooLarge \<or>
               borrow_exact_result = fail BorrowLimitExceeded \<or>
               borrow_exact_result = fail InsufficientLiquidity
            then calculate_borrow_all_available L r max_debt_value referral_fee_bps has_referrer
                   factor
            else borrow_exact_result)"

definition calculate_repay :: "numlib \<Rightarrow> u64 \<Rightarrow> frac \<Rightarrow> calculate_repay_result res" where
  "calculate_repay L amount_to_repay borrowed_amount =
     rbind (if amount_to_repay = - 1 then Inr borrowed_amount
            else rbind (frac_of_u64 L amount_to_repay) (\<lambda>a. Inr (min a borrowed_amount)))
       (\<lambda>settle_amount.
     rbind (to_ceil L settle_amount) (\<lambda>repay_amount.
     Inr \<lparr> crr_settle_amount = settle_amount, crr_repay_amount = repay_amount \<rparr>))"

definition calculate_redeem_fees :: "numlib \<Rightarrow> reserve \<Rightarrow> u64 res" where
  "calculate_redeem_fees L r =
     rbind (freely_available_liquidity_amount L r) (\<lambda>available.
     rbind (to_floor L (accumulated_protocol_fees_sf (rsv_liquidity r))) (\<lambda>fees.
     Inr (min available fees)))"

definition get_withdraw_referrer_fees :: "numlib \<Rightarrow> reserve \<Rightarrow> referrer_token_state \<Rightarrow> u64 res" where
  "get_withdraw_referrer_fees L r rts =
     (let available_unclaimed_sf =
        min (amount_unclaimed_sf rts) (accumulated_referrer_fees_sf (rsv_liquidity r))
      in rbind (to_floor L available_unclaimed_sf) (\<lambda>available_unclaimed.
         rbind (freely_available_liquidity_amount L r) (\<lambda>available.
         Inr (min available_unclaimed available))))"

section \<open>Usage\<close>

definition is_used :: "reserve \<Rightarrow> u64 \<Rightarrow> bool" where
  "is_used r min_initial_deposit_amount \<longleftrightarrow>
     total_available_liquidity_amount r > min_initial_deposit_amount \<or>
     total_borrow (rsv_liquidity r) > 0 \<or>
     mint_total_supply (rsv_collateral r) > min_initial_deposit_amount"

definition is_usage_blocked :: "reserve \<Rightarrow> bool" where
  "is_usage_blocked r \<longleftrightarrow> deposit_limit (rsv_config r) = 0 \<and> borrow_limit (rsv_config r) = 0"

definition is_predeposit :: "reserve \<Rightarrow> u64 \<Rightarrow> bool" where
  "is_predeposit r min_initial_deposit_amount \<longleftrightarrow>
     \<not> is_used r min_initial_deposit_amount \<and> is_usage_blocked r"

definition has_initial_deposit :: "reserve \<Rightarrow> bool" where
  "has_initial_deposit r \<longleftrightarrow>
     total_available_liquidity_amount r > 0 \<or> mint_total_supply (rsv_collateral r) > 0"

section \<open>The exchange rate of a reserve\<close>

text \<open>
  \<open>rsv_supply\<close> is the suppliers' claim in bits, \<open>rsv_mint\<close> the number of collateral tokens; a
  live reserve has both, covers its fees and takes at most all of the interest for the protocol.
  \<open>share_value_le r r'\<close> says that one collateral token is worth at least as much in \<open>r'\<close> as in \<open>r\<close>.
\<close>

definition rsv_supply :: "reserve \<Rightarrow> nat" where
  "rsv_supply r = supply_bits (rsv_liquidity r)"

definition rsv_mint :: "reserve \<Rightarrow> nat" where
  "rsv_mint r = unat (mint_total_supply (rsv_collateral r))"

definition covered :: "reserve \<Rightarrow> bool" where
  "covered r \<longleftrightarrow> fees_bits (rsv_liquidity r) \<le> assets_bits (rsv_liquidity r)"

definition live :: "reserve \<Rightarrow> bool" where
  "live r \<longleftrightarrow> 0 < rsv_supply r \<and> 0 < rsv_mint r \<and> covered r \<and>
     unat (protocol_take_rate_pct (rsv_config r)) \<le> 100"

definition share_value_le :: "reserve \<Rightarrow> reserve \<Rightarrow> bool" where
  "share_value_le r r' \<longleftrightarrow> rsv_supply r * rsv_mint r' \<le> rsv_supply r' * rsv_mint r"

lemma share_value_le_refl [simp]: "share_value_le r r"
  by (simp add: share_value_le_def)

lemma share_value_le_trans:
  assumes "share_value_le a b" "share_value_le b c" "0 < rsv_mint b"
  shows "share_value_le a c"
proof -
  have "rsv_supply a * rsv_mint c * rsv_mint b = rsv_supply a * rsv_mint b * rsv_mint c"
    by (simp only: mult_ac)
  also have "\<dots> \<le> rsv_supply b * rsv_mint a * rsv_mint c"
    using assms(1) unfolding share_value_le_def by (rule mult_le_mono1)
  also have "\<dots> = rsv_supply b * rsv_mint c * rsv_mint a"
    by (simp only: mult_ac)
  also have "\<dots> \<le> rsv_supply c * rsv_mint b * rsv_mint a"
    using assms(2) unfolding share_value_le_def by (rule mult_le_mono1)
  also have "\<dots> = rsv_supply c * rsv_mint a * rsv_mint b"
    by (simp only: mult_ac)
  finally show ?thesis using assms(3) unfolding share_value_le_def by simp
qed

lemma share_value_le_supply:
  "rsv_mint r' = rsv_mint r \<Longrightarrow> rsv_supply r \<le> rsv_supply r' \<Longrightarrow> share_value_le r r'"
  by (simp add: share_value_le_def)

section \<open>Histories of a reserve\<close>

text \<open>
  The operations that move a reserve's amounts, each composed the way its caller composes it:
  a deposit computes the amounts and books them, a repayment computes the settled and the paid
  amount and books both.
\<close>

datatype reserve_action =
    Deposit u64
  | Redeem u64 bool
  | Borrow frac bool
  | Repay u64 frac
  | Penalty u64
  | Accrue u64 u16
  | RedeemFees u64
  | ReferrerFees u64 referrer_token_state
  | Rewards u64 u16

fun reserve_execute :: "numlib \<Rightarrow> reserve_action \<Rightarrow> reserve \<Rightarrow> reserve res" where
  "reserve_execute L (Deposit amount) r =
     rbind (compute_depositable_amount_and_minted_collateral L r amount) (\<lambda>d.
     reserve_deposit_liquidity r (dlr_liquidity_amount d) (dlr_collateral_amount d))"
| "reserve_execute L (Redeem amount queued) r =
     rbind (reserve_redeem_collateral L r amount queued) (\<lambda>(r', _). Inr r')"
| "reserve_execute L (Borrow amount queued) r = reserve_borrow L r amount queued"
| "reserve_execute L (Repay amount borrowed) r =
     rbind (calculate_repay L amount borrowed) (\<lambda>x.
     rbind (liquidity_repay L (rsv_liquidity r) (crr_repay_amount x) (crr_settle_amount x)) (\<lambda>l.
     Inr (r\<lparr> rsv_liquidity := l \<rparr>)))"
| "reserve_execute L (Penalty amount) r =
     rbind (accumulate_early_repay_penalty L (rsv_liquidity r) amount) (\<lambda>l.
     Inr (r\<lparr> rsv_liquidity := l \<rparr>))"
| "reserve_execute L (Accrue slot bps) r = reserve_accrue_interest L r slot bps"
| "reserve_execute L (RedeemFees amount) r = redeem_fees L r amount"
| "reserve_execute L (ReferrerFees amount rts) r =
     rbind (reserve_withdraw_referrer_fees L r amount rts) (\<lambda>(r', _). Inr r')"
| "reserve_execute L (Rewards slot bps) r =
     rbind (distribute_rewards L r slot bps) (\<lambda>(r', _). Inr r')"

text \<open>Live states reached by accepted operations.\<close>

inductive reserve_reaches :: "numlib \<Rightarrow> reserve \<Rightarrow> reserve \<Rightarrow> bool" for L where
  start: "live r \<Longrightarrow> reserve_reaches L r r"
| step: "reserve_reaches L r r' \<Longrightarrow> reserve_execute L a r' = Inr r'' \<Longrightarrow>
         0 < rsv_mint r'' \<Longrightarrow> reserve_reaches L r r''"

context num_lib begin

lemma rsv_exchange_rate_live:
  assumes "rsv_exchange_rate L r = Inr rate" "live r"
  shows "rate_of_cer rate = (rsv_mint r, rsv_supply r)" "good_rate (rate_of_cer rate)"
    "cer_collateral_supply rate \<noteq> 0" "cer_liquidity rate \<noteq> 0"
proof -
  from assms(1) obtain f where f: "total_supply L (rsv_liquidity r) = Inr f"
    "rate = collateral_rate_for (rsv_collateral r) f"
    by (auto simp: rsv_exchange_rate_def rbind_eq_Inr)
  then have "unat f = rsv_supply r" by (simp add: total_supply_eq rsv_supply_def)
  moreover have "mint_total_supply (rsv_collateral r) \<noteq> 0" "f \<noteq> 0"
    using assms(2) calculation by (auto simp: live_def rsv_mint_def)
  ultimately show "rate_of_cer rate = (rsv_mint r, rsv_supply r)" "good_rate (rate_of_cer rate)"
    "cer_collateral_supply rate \<noteq> 0" "cer_liquidity rate \<noteq> 0"
    using f(2) assms(2)
    by (auto simp: collateral_rate_for_def from_supply_and_liquidity_def rate_of_cer_def
        good_rate_def rsv_mint_def live_def)
qed

lemma rsv_exchange_rate_returns:
  "assets_bits (rsv_liquidity r) < 2 ^ 128 \<Longrightarrow> covered r \<Longrightarrow> \<exists>rate. rsv_exchange_rate L r = Inr rate"
  using total_supply_ex [of "rsv_liquidity r"]
  by (auto simp: rsv_exchange_rate_def solvent_def covered_def)

text \<open>Withdrawing from the vault.\<close>

lemma take_available_eq:
  "take_available r amount = Inr r' \<longleftrightarrow>
     (\<exists>a. unat amount \<le> unat (total_available_amount (rsv_liquidity r)) \<and>
        unat a = unat (total_available_amount (rsv_liquidity r)) - unat amount \<and>
        r' = r\<lparr> rsv_liquidity := (rsv_liquidity r)\<lparr> total_available_amount := a \<rparr> \<rparr>)"
  by (auto simp: take_available_def rbind_eq_Inr ov_eq)

lemma withdraw_takes_available:
  assumes "(if q then withdraw_including_queued r amount else withdraw_freely_available L r amount) = Inr r'"
  shows "take_available r amount = Inr r'"
  using assms
  by (auto simp: withdraw_including_queued_def withdraw_freely_available_def res_simps
      split: if_splits)

lemma withdrawn_assets:
  assumes "take_available r amount = Inr r'"
  shows "assets_bits (rsv_liquidity r') + unat amount * fx_scale = assets_bits (rsv_liquidity r)"
    and "fees_bits (rsv_liquidity r') = fees_bits (rsv_liquidity r)"
    and "rsv_collateral r' = rsv_collateral r" "rsv_config r' = rsv_config r"
    and "borrowed_amount_sf (rsv_liquidity r') = borrowed_amount_sf (rsv_liquidity r)"
proof -
  obtain a where "unat amount \<le> unat (total_available_amount (rsv_liquidity r))"
    "unat a = unat (total_available_amount (rsv_liquidity r)) - unat amount"
    and r': "r' = r\<lparr> rsv_liquidity := (rsv_liquidity r)\<lparr> total_available_amount := a \<rparr> \<rparr>"
    using assms by (auto simp: take_available_eq)
  then have a: "unat (total_available_amount (rsv_liquidity r)) = unat a + unat amount"
    "r' = r\<lparr> rsv_liquidity := (rsv_liquidity r)\<lparr> total_available_amount := a \<rparr> \<rparr>"
    by simp_all
  then show "assets_bits (rsv_liquidity r') + unat amount * fx_scale = assets_bits (rsv_liquidity r)"
    by (simp add: assets_bits_def add_mult_distrib)
  show "fees_bits (rsv_liquidity r') = fees_bits (rsv_liquidity r)"
    "rsv_collateral r' = rsv_collateral r" "rsv_config r' = rsv_config r"
    "borrowed_amount_sf (rsv_liquidity r') = borrowed_amount_sf (rsv_liquidity r)"
    using a(2) by (simp_all add: fees_bits_def)
qed

section \<open>No operation dilutes the suppliers\<close>

lemma covered_supply: "covered r \<Longrightarrow> assets_bits (rsv_liquidity r) = rsv_supply r + fees_bits (rsv_liquidity r)"
  by (simp add: covered_def rsv_supply_def supply_bits_def)

lemma rsv_supply_eqI:
  "assets_bits (rsv_liquidity r) = n + fees_bits (rsv_liquidity r) \<Longrightarrow> rsv_supply r = n \<and> covered r"
  by (simp add: rsv_supply_def supply_bits_def covered_def)

lemma compute_depositable_result:
  assumes "compute_depositable_amount_and_minted_collateral L r a = Inr d" "live r"
  shows "unat (dlr_collateral_amount d) = to_col (rsv_mint r, rsv_supply r) (unat a)"
    and "unat (dlr_liquidity_amount d) =
           to_liq_ceil (rsv_mint r, rsv_supply r) (unat (dlr_collateral_amount d))"
    and "dlr_liquidity_amount d \<le> a"
proof -
  from assms(1) obtain rate c l where rate: "rsv_exchange_rate L r = Inr rate"
    and c: "liquidity_to_collateral L rate a = Inr c" "collateral_to_liquidity_ceil L rate c = Inr l"
    and d: "l \<le> a" "d = \<lparr> dlr_liquidity_amount = l, dlr_collateral_amount = c \<rparr>"
    by (auto simp: compute_depositable_amount_and_minted_collateral_def res_simps)
  note live = rsv_exchange_rate_live [OF rate assms(2)]
  show "unat (dlr_collateral_amount d) = to_col (rsv_mint r, rsv_supply r) (unat a)"
    "unat (dlr_liquidity_amount d) =
       to_liq_ceil (rsv_mint r, rsv_supply r) (unat (dlr_collateral_amount d))"
    "dlr_liquidity_amount d \<le> a"
    using c d live(1) by (auto simp: liquidity_to_collateral_eq collateral_to_liquidity_ceil_eq)
qed

lemma deposit_keeps_share_value:
  assumes "compute_depositable_amount_and_minted_collateral L r a = Inr d"
    and "reserve_deposit_liquidity r (dlr_liquidity_amount d) (dlr_collateral_amount d) = Inr r'"
    and "live r"
  shows "share_value_le r r' \<and> covered r' \<and> rsv_config r' = rsv_config r"
proof -
  let ?l = "unat (dlr_liquidity_amount d)" and ?c = "unat (dlr_collateral_amount d)"
  from assms(2) have r': "assets_bits (rsv_liquidity r') = assets_bits (rsv_liquidity r) + ?l * fx_scale"
    "fees_bits (rsv_liquidity r') = fees_bits (rsv_liquidity r)"
    "rsv_mint r' = rsv_mint r + ?c" "rsv_config r' = rsv_config r"
    by (auto simp: reserve_deposit_liquidity_def liquidity_deposit_def collateral_mint_def res_simps
        checked_eq assets_bits_def fees_bits_def rsv_mint_def add_mult_distrib)
  with covered_supply [of r] assms(3) have sup: "rsv_supply r' = rsv_supply r + ?l * fx_scale \<and> covered r'"
    by (intro rsv_supply_eqI) (simp add: live_def)
  have "?c * rsv_supply r \<le> ?l * (rsv_mint r * fx_scale)"
    using compute_depositable_result(2) [OF assms(1,3)] assms(3) le_ceil_div
    by (simp add: to_liq_ceil_def live_def)
  then have "share_value_le r r'"
    using sup r'(3) by (simp add: share_value_le_def algebra_simps)
  with sup r'(4) show ?thesis by simp
qed

lemma redeem_keeps_share_value:
  assumes "reserve_redeem_collateral L r c q = Inr (r', paid)" "live r"
  shows "share_value_le r r' \<and> covered r' \<and> rsv_config r' = rsv_config r"
    and "unat paid = to_liq (rsv_mint r, rsv_supply r) (unat c)"
proof -
  from assms(1) obtain rate r1 rc where rate: "rsv_exchange_rate L r = Inr rate"
    and paid: "collateral_to_liquidity L rate c = Inr paid"
    and taken: "take_available r paid = Inr r1"
    and burn: "collateral_burn (rsv_collateral r1) c = Inr rc" "r' = r1\<lparr> rsv_collateral := rc \<rparr>"
    using withdraw_takes_available [of q r]
    by (auto simp: reserve_redeem_collateral_def rbind_eq_Inr)
  note live = rsv_exchange_rate_live [OF rate assms(2)]
  note w = withdrawn_assets [OF taken]
  show p: "unat paid = to_liq (rsv_mint r, rsv_supply r) (unat c)"
    using paid live(1) by (simp add: collateral_to_liquidity_eq)
  have mint: "rsv_mint r = rsv_mint r' + unat c"
    using burn w(3) by (auto simp: collateral_burn_def res_simps checked_eq rsv_mint_def)
  have le: "unat paid * (rsv_mint r * fx_scale) \<le> unat c * rsv_supply r"
    using p div_mult_le' by (simp add: to_liq_def)
  also have "\<dots> \<le> rsv_mint r * rsv_supply r" using mint by simp
  finally have "rsv_mint r * (unat paid * fx_scale) \<le> rsv_mint r * rsv_supply r" by (simp add: mult_ac)
  then have fits: "unat paid * fx_scale \<le> rsv_supply r"
    using assms(2) by (simp add: live_def)
  then have "assets_bits (rsv_liquidity r') =
      (rsv_supply r - unat paid * fx_scale) + fees_bits (rsv_liquidity r')"
    using covered_supply [of r] w(1,2) burn(2) assms(2) by (simp add: live_def)
  from rsv_supply_eqI [OF this]
  have sup: "rsv_supply r' + unat paid * fx_scale = rsv_supply r" "covered r'"
    using fits by auto
  have "rsv_supply r * rsv_mint r' + unat c * rsv_supply r = rsv_supply r * rsv_mint r"
    by (simp add: mint algebra_simps)
  also have "\<dots> = rsv_supply r' * rsv_mint r + unat paid * (rsv_mint r * fx_scale)"
    by (simp add: sup(1) [symmetric] algebra_simps)
  finally have "share_value_le r r'" using le by (simp add: share_value_le_def)
  with sup(2) w(4) burn(2) show "share_value_le r r' \<and> covered r' \<and> rsv_config r' = rsv_config r"
    by simp
qed

lemma same_tokens_share_value:
  assumes "covered r" "rsv_collateral r' = rsv_collateral r"
    and "assets_bits (rsv_liquidity r') + fees_bits (rsv_liquidity r) =
         assets_bits (rsv_liquidity r) + fees_bits (rsv_liquidity r') + gain"
  shows "share_value_le r r' \<and> covered r'"
proof -
  have "assets_bits (rsv_liquidity r') = (rsv_supply r + gain) + fees_bits (rsv_liquidity r')"
    using assms(3) covered_supply [OF assms(1)] by simp
  from rsv_supply_eqI [OF this] assms(2) show ?thesis
    by (simp add: share_value_le_supply rsv_mint_def)
qed

lemma borrow_keeps_share_value:
  assumes "reserve_borrow L r f q = Inr r'" "covered r"
  shows "share_value_le r r' \<and> covered r' \<and> rsv_config r' = rsv_config r"
proof -
  from assms(1) obtain amount r1 b where amount: "to_floor L f = Inr amount"
    and taken: "take_available r amount = Inr r1"
    and b: "fx_add L (borrowed_amount_sf (rsv_liquidity r1)) f = Inr b"
    and r': "r' = r1\<lparr> rsv_liquidity := (rsv_liquidity r1)\<lparr> borrowed_amount_sf := b \<rparr> \<rparr>"
    using withdraw_takes_available [of q r]
    by (auto simp: reserve_borrow_def rbind_eq_Inr total_borrow_def)
  note w = withdrawn_assets [OF taken]
  have "unat f = unat amount * fx_scale + unat f mod fx_scale"
    using amount by (simp add: to_floor_eq)
  moreover have "assets_bits (rsv_liquidity r') = assets_bits (rsv_liquidity r1) + unat f"
    "fees_bits (rsv_liquidity r') = fees_bits (rsv_liquidity r1)"
    using b by (simp_all add: r' assets_bits_def fees_bits_def fx_eq)
  ultimately have "assets_bits (rsv_liquidity r') + fees_bits (rsv_liquidity r) =
      assets_bits (rsv_liquidity r) + fees_bits (rsv_liquidity r') + unat f mod fx_scale"
    using w(1,2) by linarith
  with same_tokens_share_value [OF assms(2), of r'] w(3,4) r' show ?thesis by simp
qed

lemma repay_keeps_share_value:
  assumes "reserve_execute L (Repay amount debt) r = Inr r'" "covered r"
  shows "share_value_le r r' \<and> covered r' \<and> rsv_config r' = rsv_config r"
proof -
  from assms(1) obtain x l where x: "calculate_repay L amount debt = Inr x"
    and l: "liquidity_repay L (rsv_liquidity r) (crr_repay_amount x) (crr_settle_amount x) = Inr l"
    and r': "r' = r\<lparr> rsv_liquidity := l \<rparr>"
    by (auto simp: rbind_eq_Inr)
  let ?s = "unat (crr_settle_amount x)" and ?p = "unat (crr_repay_amount x)"
  have "?p = ceil_div ?s fx_scale"
    using x by (auto simp: calculate_repay_def rbind_eq_Inr to_ceil_eq)
  then have le: "?s \<le> ?p * fx_scale" using le_ceil_div [of fx_scale ?s] by simp
  have avail: "unat (total_available_amount l) = unat (total_available_amount (rsv_liquidity r)) + ?p"
    and debt: "unat (borrowed_amount_sf l) = unat (borrowed_amount_sf (rsv_liquidity r)) - ?s"
    and fees: "fees_bits l = fees_bits (rsv_liquidity r)"
    using l by (auto simp: liquidity_repay_eq fees_bits_def)
  have "assets_bits (rsv_liquidity r) \<le> assets_bits l"
    using le by (simp add: assets_bits_def avail debt add_mult_distrib)
  then have "assets_bits l + fees_bits (rsv_liquidity r) = assets_bits (rsv_liquidity r) +
      fees_bits l + (assets_bits l - assets_bits (rsv_liquidity r))"
    using fees by simp
  then show ?thesis
    using same_tokens_share_value [OF assms(2), of r'] by (simp add: r')
qed

lemma penalty_keeps_share_value:
  assumes "reserve_execute L (Penalty amount) r = Inr r'" "covered r"
  shows "share_value_le r r' \<and> covered r' \<and> rsv_config r' = rsv_config r"
proof -
  from assms(1) obtain p f a where p: "frac_of_u64 L amount = Inr p"
    "fx_add L (accumulated_protocol_fees_sf (rsv_liquidity r)) p = Inr f"
    "add_ov (total_available_amount (rsv_liquidity r)) amount = Inr a"
    and r': "r' = r\<lparr> rsv_liquidity :=
      (rsv_liquidity r)\<lparr> accumulated_protocol_fees_sf := f, total_available_amount := a \<rparr> \<rparr>"
    by (auto simp: accumulate_early_repay_penalty_def rbind_eq_Inr)
  then show ?thesis
    using same_tokens_share_value [OF assms(2), of r' 0]
    by (simp add: assets_bits_def fees_bits_def add_mult_distrib frac_of_u64_eq fx_eq ov_eq)
qed

lemma percent_le_one:
  "from_percent L (ucast (p :: u8)) = Inr f \<Longrightarrow> unat p \<le> 100 \<Longrightarrow> f \<le> fx_one"
  using div_le_mono [of "unat p * fx_scale" "100 * fx_scale" 100]
  by (simp add: from_percent_eq word_le_nat_alt)

lemma accrue_keeps_share_value:
  assumes "reserve_accrue_interest L r slot bps = Inr r'" "covered r"
    and "unat (protocol_take_rate_pct (rsv_config r)) \<le> 100"
  shows "share_value_le r r' \<and> covered r' \<and> rsv_config r' = rsv_config r"
proof (cases "r' = r")
  case False
  with assms(1) obtain br hr n tr rr l where
    acc: "compound_interest L (rsv_liquidity r) br hr n tr rr = Inr l"
    and tr: "from_percent L (ucast (protocol_take_rate_pct (rsv_config r))) = Inr tr"
    and r': "r' = r\<lparr> rsv_liquidity := l \<rparr>"
    by (auto simp: reserve_accrue_interest_def rbind_eq_Inr split: if_splits)
  note c = compound_interest_conserves [OF acc percent_le_one [OF tr assms(3)] assms(2) [unfolded covered_def]]
  show ?thesis
    using c(4,5) by (simp add: r' share_value_le_supply rsv_mint_def rsv_supply_def covered_def)
qed (use assms in simp)

lemma fees_keep_share_value:
  assumes taken: "take_available r amount = Inr r1" and r1: "covered r"
    and col: "rsv_collateral r' = rsv_collateral r1" "rsv_config r' = rsv_config r1"
    and bits: "assets_bits (rsv_liquidity r') = assets_bits (rsv_liquidity r1)"
      "fees_bits (rsv_liquidity r') + unat amount * fx_scale = fees_bits (rsv_liquidity r1)"
  shows "share_value_le r r' \<and> covered r' \<and> rsv_config r' = rsv_config r"
  using same_tokens_share_value [OF r1, of r' 0] withdrawn_assets [OF taken] col bits by simp

lemma redeem_fees_keeps_share_value:
  assumes "redeem_fees L r amount = Inr r'" "covered r"
  shows "share_value_le r r' \<and> covered r' \<and> rsv_config r' = rsv_config r"
proof -
  from assms(1) obtain r1 f x where taken: "take_available r amount = Inr r1"
    and f: "frac_of_u64 L amount = Inr f"
    and x: "fx_checked_sub L (accumulated_protocol_fees_sf (rsv_liquidity r1)) f = Some x"
    and r': "r' = r1\<lparr> rsv_liquidity := (rsv_liquidity r1)\<lparr> accumulated_protocol_fees_sf := x \<rparr> \<rparr>"
    using withdraw_takes_available [of False r amount]
    by (auto simp: redeem_fees_def rbind_eq_Inr ok_or_eq)
  show ?thesis
    using f x by (intro fees_keep_share_value [OF taken assms(2)])
      (auto simp: r' assets_bits_def fees_bits_def frac_of_u64_eq fx_opt_eq)
qed

lemma referrer_fees_keep_share_value:
  assumes "reserve_withdraw_referrer_fees L r amount rts = Inr (r', rts')" "covered r"
  shows "share_value_le r r' \<and> covered r' \<and> rsv_config r' = rsv_config r"
proof -
  from assms(1) obtain r1 f x where taken: "take_available r amount = Inr r1"
    and f: "frac_of_u64 L amount = Inr f"
    and x: "fx_checked_sub L (accumulated_referrer_fees_sf (rsv_liquidity r1)) f = Some x"
    and r': "r' = r1\<lparr> rsv_liquidity := (rsv_liquidity r1)\<lparr> accumulated_referrer_fees_sf := x \<rparr> \<rparr>"
    using withdraw_takes_available [of False r amount]
    by (auto simp: reserve_withdraw_referrer_fees_def rbind_eq_Inr ok_or_eq)
  show ?thesis
    using f x by (intro fees_keep_share_value [OF taken assms(2)])
      (auto simp: r' assets_bits_def fees_bits_def frac_of_u64_eq fx_opt_eq)
qed

lemma distribute_rewards_cases:
  assumes "distribute_rewards L r slot bps = Inr (r', x)"
  shows "(r' = r \<and> x = 0) \<or>
    (\<exists>a b. unat b = unat (rewards_amount_available (rsv_liquidity r)) - unat x \<and>
       x \<le> rewards_amount_available (rsv_liquidity r) \<and>
       unat a = unat (total_available_amount (rsv_liquidity r)) + unat x \<and>
       r' = r\<lparr> rsv_liquidity := (rsv_liquidity r)
              \<lparr> rewards_amount_available := b, total_available_amount := a \<rparr> \<rparr>)"
  using assms
  by (auto simp: distribute_rewards_def Let_def rbind_eq_Inr ok_or_eq checked_eq word_le_nat_alt
      split: if_splits)

lemma rewards_keep_share_value:
  assumes "distribute_rewards L r slot bps = Inr (r', x)" "covered r"
  shows "share_value_le r r' \<and> covered r' \<and> rsv_config r' = rsv_config r"
  using distribute_rewards_cases [OF assms(1)]
proof
  assume "r' = r \<and> x = 0" then show ?thesis using assms(2) by simp
next
  assume "\<exists>a b. unat b = unat (rewards_amount_available (rsv_liquidity r)) - unat x \<and>
       x \<le> rewards_amount_available (rsv_liquidity r) \<and>
       unat a = unat (total_available_amount (rsv_liquidity r)) + unat x \<and>
       r' = r\<lparr> rsv_liquidity := (rsv_liquidity r)
              \<lparr> rewards_amount_available := b, total_available_amount := a \<rparr> \<rparr>"
  then show ?thesis
    using same_tokens_share_value [OF assms(2), of r' "unat x * fx_scale"]
    by (auto simp: assets_bits_def fees_bits_def add_mult_distrib)
qed

lemma execute_keeps_share_value:
  assumes "reserve_execute L a r = Inr r'" "live r"
  shows "share_value_le r r' \<and> covered r' \<and> rsv_config r' = rsv_config r"
proof -
  have cov: "covered r" and take: "unat (protocol_take_rate_pct (rsv_config r)) \<le> 100"
    using assms(2) by (simp_all add: live_def)
  show ?thesis
  proof (cases a)
    case (Deposit x)
    with assms deposit_keeps_share_value show ?thesis by (auto simp: rbind_eq_Inr)
  next
    case (Redeem x q)
    with assms redeem_keeps_share_value show ?thesis by (auto simp: rbind_eq_Inr)
  next
    case (Borrow x q)
    with assms(1) borrow_keeps_share_value cov show ?thesis by auto
  next
    case (Repay x d)
    with assms(1) repay_keeps_share_value cov show ?thesis by blast
  next
    case (Penalty x)
    with assms(1) penalty_keeps_share_value cov show ?thesis by blast
  next
    case (Accrue x b)
    with assms(1) accrue_keeps_share_value cov take show ?thesis by auto
  next
    case (RedeemFees x)
    with assms(1) redeem_fees_keeps_share_value cov show ?thesis by auto
  next
    case (ReferrerFees x t)
    with assms(1) referrer_fees_keep_share_value cov show ?thesis by (auto simp: rbind_eq_Inr)
  next
    case (Rewards x b)
    with assms(1) rewards_keep_share_value cov show ?thesis by (auto simp: rbind_eq_Inr)
  qed
qed

lemma reaches_share_value:
  "reserve_reaches L r r' \<Longrightarrow> live r' \<and> share_value_le r r'"
proof (induction rule: reserve_reaches.induct)
  case (start r)
  then show ?case by simp
next
  case (step r r' a r'')
  then have e: "share_value_le r' r''" "covered r''" "rsv_config r'' = rsv_config r'"
    using execute_keeps_share_value by blast+
  have "0 < rsv_supply r' * rsv_mint r''" using step by (simp add: live_def)
  then have "0 < rsv_supply r''"
    using e(1) by (auto simp: share_value_le_def intro: Nat.gr0I)
  with e step show ?case
    by (auto simp: live_def intro: share_value_le_trans)
qed

section \<open>Sized borrows\<close>

lemma capacity_bits:
  "remaining_borrow_capacity L r = Inr c \<Longrightarrow>
   unat c = unat (borrow_limit (rsv_config r)) * fx_scale - unat (borrowed_amount_sf (rsv_liquidity r))"
  by (auto simp: remaining_borrow_capacity_def rbind_eq_Inr frac_of_u64_eq total_borrow_def)

lemma sized_borrow_limits:
  assumes "calculate_borrow L r request max_value bps in_group has_ref = Inr b"
  shows "\<exists>cap free. remaining_borrow_capacity L r = Inr cap \<and>
    freely_available_liquidity_amount L r = Inr free \<and>
    cbr_borrow_amount_f b \<le> cap \<and> unat (cbr_borrow_amount_f b) \<le> unat free * fx_scale"
proof -
  have all: "\<exists>cap free. remaining_borrow_capacity L r = Inr cap \<and>
    freely_available_liquidity_amount L r = Inr free \<and>
    cbr_borrow_amount_f b \<le> cap \<and> unat (cbr_borrow_amount_f b) \<le> unat free * fx_scale"
    if "calculate_borrow_all_available L r max_value bps has_ref factor = Inr b" for factor
    using that
    by (auto simp: calculate_borrow_all_available_def Let_def rbind_eq_Inr frac_of_u64_eq word_le_nat_alt
        split: prod.splits)
  have exact: "\<exists>cap free. remaining_borrow_capacity L r = Inr cap \<and>
    freely_available_liquidity_amount L r = Inr free \<and>
    cbr_borrow_amount_f b \<le> cap \<and> unat (cbr_borrow_amount_f b) \<le> unat free * fx_scale"
    if "calculate_borrow_exact L r x max_value bps has_ref factor = Inr b" for factor x
    using that
    by (auto simp: calculate_borrow_exact_def Let_def rbind_eq_Inr frac_of_u64_eq word_le_nat_alt
        fail_eq not_less split: prod.splits if_splits)
  have "(\<exists>factor. calculate_borrow_all_available L r max_value bps has_ref factor = Inr b) \<or>
      (\<exists>x factor. calculate_borrow_exact L r x max_value bps has_ref factor = Inr b)"
    using assms by (cases request) (auto simp: calculate_borrow_def rbind_eq_Inr Let_def split: if_splits)
  with all exact show ?thesis by blast
qed

lemma withdraw_free_returns:
  assumes "freely_available_liquidity_amount L r = Inr free" "amount \<le> free"
  shows "\<exists>r1. withdraw_freely_available L r amount = Inr r1 \<and>
     borrowed_amount_sf (rsv_liquidity r1) = borrowed_amount_sf (rsv_liquidity r)"
proof -
  have "free \<le> total_available_amount (rsv_liquidity r)"
    using assms(1) by (auto simp: freely_available_liquidity_amount_def rbind_eq_Inr word_le_nat_alt)
  with assms(2) have "amount \<le> total_available_amount (rsv_liquidity r)" by (rule order_trans)
  moreover have "\<not> free < amount" using assms(2) by (rule leD)
  ultimately show ?thesis
    using assms(1) by (simp add: withdraw_freely_available_def take_available_def sub_ov_def checked_sub_def)
qed

lemma sized_borrow_succeeds:
  assumes "calculate_borrow L r request max_value bps in_group has_ref = Inr b"
  shows "is_ok (reserve_borrow L r (cbr_borrow_amount_f b) False)"
proof -
  let ?f = "cbr_borrow_amount_f b"
  obtain cap free where cap: "remaining_borrow_capacity L r = Inr cap" "?f \<le> cap"
    and free: "freely_available_liquidity_amount L r = Inr free" "unat ?f \<le> unat free * fx_scale"
    using sized_borrow_limits [OF assms] by blast
  have "unat ?f div fx_scale \<le> unat free" using free(2) by (metis div_le_mono fx_scale_pos less_numeral_extra(3) nonzero_mult_div_cancel_right)
  then obtain amount where amount: "to_floor L ?f = Inr amount" "amount \<le> free"
    using word_with_value [of "unat ?f div fx_scale" free] by (auto simp: to_floor_eq word_le_nat_alt)
  obtain r1 where r1: "withdraw_freely_available L r amount = Inr r1"
    "borrowed_amount_sf (rsv_liquidity r1) = borrowed_amount_sf (rsv_liquidity r)"
    using withdraw_free_returns [OF free(1) amount(2)] by blast
  have "unat (borrowed_amount_sf (rsv_liquidity r)) + unat ?f < 2 ^ 128"
    using capacity_bits [OF cap(1)] cap(2) u64_scale_lt [of "borrow_limit (rsv_config r)"]
      u128_lt [of "borrowed_amount_sf (rsv_liquidity r)"]
    by (auto simp: word_le_nat_alt)
  then obtain c where "fx_add L (borrowed_amount_sf (rsv_liquidity r)) ?f = Inr c"
    using fx_add_fits by blast
  with amount(1) r1 show ?thesis by (simp add: reserve_borrow_def total_borrow_def)
qed

lemma rewards_bounds:
  assumes "distribute_rewards L r slot bps = Inr (r', x)"
  shows "unat x \<le> unat (rewards_amount_per_slot (rsv_config r)) * (unat slot - unat (lu_slot (rsv_last_update r)))"
    and "unat x * 10000 * SLOTS_PER_YEAR \<le>
      rsv_supply r div fx_scale * unat bps * (unat slot - unat (lu_slot (rsv_last_update r)))"
proof -
  let ?n = "unat slot - unat (lu_slot (rsv_last_update r))"
  have "unat x \<le> unat (rewards_amount_per_slot (rsv_config r)) * ?n \<and>
    unat x * 10000 * SLOTS_PER_YEAR \<le> rsv_supply r div fx_scale * unat bps * ?n" (is "?P \<and> ?Q")
  proof (cases "x = 0")
    case False
    with assms obtain elapsed supply_f where e: "slots_elapsed (rsv_last_update r) slot = Inr elapsed"
      and s: "total_supply L (rsv_liquidity r) = Inr supply_f"
      and x: "unat x = unat (min (min (saturating_mul (ucast (rewards_amount_per_slot (rsv_config r)) :: u128)
          (ucast elapsed)) (saturating_mul (saturating_mul (fx_to_u128 L (fx_floor L supply_f))
            (ucast bps)) (ucast elapsed) div (of_nat FULL_BPS * of_nat SLOTS_PER_YEAR)))
          (ucast (rewards_amount_available (rsv_liquidity r))))"
      by (auto simp: distribute_rewards_def Let_def rbind_eq_Inr ok_or_eq to_word_opt_eq
          simp del: unat_min FULL_BPS_eval SLOTS_PER_YEAR_eval split: if_splits)
    define A where "A = saturating_mul (ucast (rewards_amount_per_slot (rsv_config r)) :: u128) (ucast elapsed)"
    define B where "B = saturating_mul (saturating_mul (fx_to_u128 L (fx_floor L supply_f)) (ucast bps)) (ucast elapsed)"
    have n: "unat elapsed = ?n" using e by (simp add: slots_elapsed_eq)
    have "unat A \<le> unat (rewards_amount_per_slot (rsv_config r)) * ?n"
      unfolding A_def by (rule order_trans [OF unat_saturating_mul_le]) (simp add: n)
    moreover have "unat x \<le> unat A"
      unfolding x A_def [symmetric] B_def [symmetric] unat_min by (rule min.coboundedI1) (rule min.cobounded1)
    ultimately have P: ?P by simp
    have supply_f: "unat supply_f = rsv_supply r" using s by (simp add: total_supply_eq rsv_supply_def)
    have "unat B \<le> unat (fx_to_u128 L (fx_floor L supply_f)) * unat bps * ?n"
      unfolding B_def
      by (rule order_trans [OF unat_saturating_mul_le])
         (simp add: n order_trans [OF unat_saturating_mul_le])
    then have B: "unat B \<le> rsv_supply r div fx_scale * unat bps * ?n" by (simp add: supply_f)
    define D where "D = (of_nat FULL_BPS * of_nat SLOTS_PER_YEAR :: u128)"
    have D: "unat D = 10000 * SLOTS_PER_YEAR" by (simp add: D_def)
    have "unat x \<le> unat (B div D)"
      unfolding x A_def [symmetric] B_def [symmetric] D_def [symmetric] unat_min
      by (rule min.coboundedI1) (rule min.cobounded2)
    then have "unat x \<le> unat B div (10000 * SLOTS_PER_YEAR)"
      by (simp only: unat_div D)
    then have "unat x * (10000 * SLOTS_PER_YEAR) \<le> unat B"
      by (simp add: less_eq_div_iff_mult_less_eq)
    with B have ?Q by simp
    with P show ?thesis ..
  qed simp
  then show ?P ?Q by blast+
qed

section \<open>The largest withdrawal\<close>

lemma withdrawable_best:
  assumes "total_withdrawable_liquidity_amount L r = Inr w" "live r"
  shows "\<exists>rate c. rsv_exchange_rate L r = Inr rate \<and> total_redeemable_collateral_amount L r = Inr c \<and>
    collateral_to_liquidity L rate c = Inr w \<and>
    unat c = rate.best (rsv_mint r, rsv_supply r) (unat (total_available_liquidity_amount r))"
proof -
  let ?a = "total_available_liquidity_amount r"
  from assms(1) obtain rate ceiled l where rate: "rsv_exchange_rate L r = Inr rate"
    and ceiled: "liquidity_to_collateral_ceil L rate ?a = Inr ceiled"
    and l: "collateral_to_liquidity L rate ceiled = Inr l"
    and rest: "(if l \<le> ?a then Inr l else rbind (liquidity_to_collateral L rate ?a)
       (collateral_to_liquidity L rate)) = Inr w"
    by (auto simp: total_withdrawable_liquidity_amount_def Let_def rbind_eq_Inr)
  note live = rsv_exchange_rate_live [OF rate assms(2)]
  have vals: "unat ceiled = to_col_ceil (rsv_mint r, rsv_supply r) (unat ?a)"
    "unat l = to_liq (rsv_mint r, rsv_supply r) (unat ceiled)"
    using ceiled l live(1) by (simp_all add: liquidity_to_collateral_ceil_eq collateral_to_liquidity_eq)
  show ?thesis
  proof (cases "l \<le> ?a")
    case True
    then show ?thesis
      using rate ceiled l rest vals
      by (intro exI [of _ rate] exI [of _ ceiled])
         (simp add: total_redeemable_collateral_amount_def Let_def rate.best_def word_le_nat_alt)
  next
    case False
    with rest obtain c where c: "liquidity_to_collateral L rate ?a = Inr c"
      "collateral_to_liquidity L rate c = Inr w" by (auto simp: rbind_eq_Inr)
    then have "unat c = to_col (rsv_mint r, rsv_supply r) (unat ?a)"
      using live(1) by (simp add: liquidity_to_collateral_eq)
    with False c rate ceiled l vals show ?thesis
      by (intro exI [of _ rate] exI [of _ c])
         (simp add: total_redeemable_collateral_amount_def Let_def rate.best_def word_le_nat_alt)
  qed
qed

end

section \<open>Properties\<close>

text \<open>
  C3. The value of a collateral token never decreases: along every history of accepted
  deposits, redemptions (from the queue or not), borrows, repayments, penalties, interest
  accruals, fee withdrawals and reward distributions on a live reserve, the suppliers' claim
  per collateral token at the end is at least the claim at the start, and the claim stays
  covered by the assets.
\<close>

theorem share_value_never_decreases:
  assumes "num_lib L" "reserve_reaches L r r'"
  shows "live r' \<and> share_value_le r r'"
  using num_lib.reaches_share_value [OF assms] .

definition sample_reserve :: reserve where
  "sample_reserve = reserve_init \<lparr> irp_current_slot = 0, irp_lending_market = 0,
     irp_liquidity = (reserve_liquidity_default std_lib)
       \<lparr> rl_supply_vault := 20, fee_vault := 21, total_available_amount := 1000, borrowed_amount_sf := 500 * 2 ^ 60,
         rewards_amount_available := 50 \<rparr>,
     irp_collateral = reserve_collateral_default\<lparr> mint_total_supply := 1000 \<rparr>,
     irp_config = (zero_config \<lparr> points = [] \<rparr>)
       \<lparr> rewards_amount_per_slot := 3, borrow_limit := 2000, borrow_factor_pct := 100 \<rparr> \<rparr>"

lemma sample_live: "live sample_reserve"
  by (simp add: live_def rsv_supply_def rsv_mint_def covered_def supply_bits_def assets_bits_def
      fees_bits_def sample_reserve_def reserve_init_def reserve_liquidity_default_def
      reserve_collateral_default_def zero_config_def fx_scale_def)

lemma sample_supply: "total_supply std_lib (rsv_liquidity sample_reserve) = Inr (1500 * 2 ^ 60)"
  by (simp add: std.total_supply_eq solvent_def supply_bits_def assets_bits_def fees_bits_def
      sample_reserve_def reserve_init_def reserve_liquidity_default_def fx_scale_def)

lemma sample_fields:
  "total_available_amount (rsv_liquidity sample_reserve) = 1000"
  "mint_total_supply (rsv_collateral sample_reserve) = 1000"
  "rewards_amount_available (rsv_liquidity sample_reserve) = 50"
  "borrowed_amount_sf (rsv_liquidity sample_reserve) = 500 * 2 ^ 60"
  by (simp_all add: sample_reserve_def reserve_init_def reserve_liquidity_default_def
      reserve_collateral_default_def)

lemma sample_rate: "rsv_exchange_rate std_lib sample_reserve =
    Inr \<lparr> cer_collateral_supply = 1000, cer_liquidity = 1500 * 2 ^ 60 \<rparr>"
  by (simp add: rsv_exchange_rate_def sample_supply collateral_rate_for_def
      from_supply_and_liquidity_def sample_fields)

lemma sample_deposit:
  "\<exists>r'. reserve_execute std_lib (Deposit 700) sample_reserve = Inr r' \<and>
        unat (total_available_amount (rsv_liquidity r')) = 1699 \<and> rsv_mint r' = 1466"
proof -
  let ?rate = "\<lparr> cer_collateral_supply = 1000, cer_liquidity = 1500 * 2 ^ 60 \<rparr>"
  have "liquidity_to_collateral std_lib ?rate 700 = Inr 466"
    "collateral_to_liquidity_ceil std_lib ?rate 466 = Inr 699"
    by (simp_all add: std.liquidity_to_collateral_eq std.collateral_to_liquidity_ceil_eq to_col_def
        to_liq_ceil_def ceil_div_def rate_of_cer_def fx_scale_def)
  then show ?thesis
    by (simp add: compute_depositable_amount_and_minted_collateral_def sample_rate
        reserve_deposit_liquidity_def liquidity_deposit_def collateral_mint_def checked_add_def
        to_word_opt_def sample_fields rsv_mint_def)
qed

theorem share_value_never_decreases_witness:
  "\<exists>r'. reserve_execute std_lib (Deposit 700) sample_reserve = Inr r' \<and> rsv_mint r' = 1466 \<and>
        share_value_le sample_reserve r'"
proof -
  obtain r' where r': "reserve_execute std_lib (Deposit 700) sample_reserve = Inr r'"
    "rsv_mint r' = 1466" using sample_deposit by blast
  have "reserve_reaches std_lib sample_reserve r'"
    by (rule reserve_reaches.step [OF reserve_reaches.start [OF sample_live] r'(1)]) (simp add: r')
  from share_value_never_decreases [OF std.num_lib_axioms this] r' show ?thesis by blast
qed

text \<open>
  C35. \<open>total_withdrawable_liquidity_amount\<close> is the best possible redemption: it is at most the
  vault's balance, redeeming \<open>total_redeemable_collateral_amount\<close> pays exactly it, and no
  redemption that the vault can pay pays more.
\<close>

theorem withdrawable_liquidity_is_maximal:
  assumes "num_lib L" "live r" "total_withdrawable_liquidity_amount L r = Inr w"
  shows "w \<le> total_available_liquidity_amount r \<and>
    (\<exists>rate c. rsv_exchange_rate L r = Inr rate \<and> total_redeemable_collateral_amount L r = Inr c \<and>
       collateral_to_liquidity L rate c = Inr w \<and>
       (\<forall>c' paid. collateral_to_liquidity L rate c' = Inr paid \<and>
          paid \<le> total_available_liquidity_amount r \<longrightarrow> paid \<le> w))"
proof -
  obtain rate c where rate: "rsv_exchange_rate L r = Inr rate"
    and c: "total_redeemable_collateral_amount L r = Inr c" "collateral_to_liquidity L rate c = Inr w"
      "unat c = rate.best (rsv_mint r, rsv_supply r) (unat (total_available_liquidity_amount r))"
    using num_lib.withdrawable_best [OF assms(1,3,2)] by blast
  note live = num_lib.rsv_exchange_rate_live [OF assms(1) rate assms(2)]
  have pays: "collateral_to_liquidity L rate c' = Inr p \<longleftrightarrow> unat p = to_liq (rsv_mint r, rsv_supply r) (unat c')"
    for c' p using live by (simp add: num_lib.collateral_to_liquidity_eq [OF assms(1)])
  note best = rate.best_pays_most [OF live(2) [unfolded live(1)]]
  have "w \<le> total_available_liquidity_amount r"
    using best(1) c(2,3) by (simp add: pays word_le_nat_alt)
  moreover have "paid \<le> w" if "collateral_to_liquidity L rate c' = Inr paid"
    "paid \<le> total_available_liquidity_amount r" for c' paid
    using best(2) [of "unat c'" "unat (total_available_liquidity_amount r)"] that c(2,3)
    by (simp add: pays word_le_nat_alt)
  ultimately show ?thesis using rate c by blast
qed

lemma sample_withdrawable: "total_withdrawable_liquidity_amount std_lib sample_reserve = Inr 1000"
proof -
  let ?rate = "\<lparr> cer_collateral_supply = 1000, cer_liquidity = 1500 * 2 ^ 60 \<rparr>"
  have "liquidity_to_collateral_ceil std_lib ?rate 1000 = Inr 667"
    "collateral_to_liquidity std_lib ?rate 667 = Inr 1000"
    by (simp_all add: std.liquidity_to_collateral_ceil_eq std.collateral_to_liquidity_eq to_col_ceil_def
        to_liq_def ceil_div_def rate_of_cer_def fx_scale_def)
  then show ?thesis
    by (simp add: total_withdrawable_liquidity_amount_def total_available_liquidity_amount_def
        sample_fields sample_rate Let_def)
qed

theorem withdrawable_liquidity_is_maximal_witness:
  "\<exists>c. total_redeemable_collateral_amount std_lib sample_reserve = Inr c \<and>
       collateral_to_liquidity std_lib
         \<lparr> cer_collateral_supply = 1000, cer_liquidity = 1500 * 2 ^ 60 \<rparr> c = Inr 1000"
  using withdrawable_liquidity_is_maximal [OF std.num_lib_axioms sample_live sample_withdrawable]
  by (auto simp: sample_rate)

text \<open>
  A distribution of rewards moves lamports from the rewards balance to the vault and
  creates none; it never exceeds the configured rate per elapsed slot nor the cap on the yearly
  yield of the suppliers, and it dilutes nobody.
\<close>

theorem reward_distribution:
  assumes "num_lib L" "distribute_rewards L r slot apr = Inr (r', x)"
  shows "unat (total_available_amount (rsv_liquidity r')) + unat (rewards_amount_available (rsv_liquidity r')) =
           unat (total_available_amount (rsv_liquidity r)) + unat (rewards_amount_available (rsv_liquidity r)) \<and>
         unat (total_available_amount (rsv_liquidity r')) =
           unat (total_available_amount (rsv_liquidity r)) + unat x \<and>
         unat x \<le> unat (rewards_amount_per_slot (rsv_config r)) *
           (unat slot - unat (lu_slot (rsv_last_update r))) \<and>
         unat x * 10000 * SLOTS_PER_YEAR \<le>
           rsv_supply r div fx_scale * unat apr * (unat slot - unat (lu_slot (rsv_last_update r)))"
  using num_lib.rewards_bounds [OF assms] num_lib.distribute_rewards_cases [OF assms]
  by (auto simp: word_le_nat_alt)

theorem reward_distribution_witness:
  "\<exists>r' x. distribute_rewards std_lib sample_reserve 10000000 100 = Inr (r', x) \<and> x = 2 \<and>
     unat (total_available_amount (rsv_liquidity r')) = 1002"
proof -
  have e: "slots_elapsed (rsv_last_update sample_reserve) 10000000 = Inr 10000000"
    by (simp add: slots_elapsed_eq sample_reserve_def reserve_init_def last_update_new_def)
  have c: "rewards_amount_per_slot (rsv_config sample_reserve) = 3"
    by (simp add: sample_reserve_def reserve_init_def)
  have "saturating_mul (3 :: u128) 10000000 = 30000000" "saturating_mul (1500 :: u128) 100 = 150000"
    "saturating_mul (150000 :: u128) 10000000 = 1500000000000"
    by (simp_all add: saturating_mul_def checked_mul_def to_word_opt_def)
  moreover have "fx_to_u128 std_lib (fx_floor std_lib (1500 * 2 ^ 60)) = 1500"
    by (simp add: std.floor std.to_u128 fx_scale_def)
  moreover have "(1500000000000 :: u128) div (of_nat FULL_BPS * of_nat SLOTS_PER_YEAR) = 2" by simp
  moreover have "to_word_opt 2 = Some (2 :: u64)" "checked_sub 50 2 = Some (48 :: u64)"
    "checked_add 1000 2 = Some (1002 :: u64)"
    by (simp_all add: to_word_opt_def checked_sub_def checked_add_def)
  ultimately obtain r' where r': "distribute_rewards std_lib sample_reserve 10000000 100 = Inr (r', 2)"
    by (simp add: distribute_rewards_def e c sample_supply sample_fields Let_def
        del: FULL_BPS_eval SLOTS_PER_YEAR_eval)
  have "unat (total_available_amount (rsv_liquidity r')) = 1002"
    using reward_distribution [OF std.num_lib_axioms r', THEN conjunct2, THEN conjunct1]
    by (simp add: sample_fields)
  with r' show ?thesis by blast
qed

text \<open>
  C34. A borrow sized by \<open>calculate_borrow\<close> (exactly, at most, or all that is available) is one
  the reserve can pay: it is within the remaining borrow capacity and the liquidity that is not
  queued for withdrawals, and \<open>Reserve::borrow\<close> accepts it without touching the queue. A request
  for an exact amount pays out exactly that amount.
\<close>

theorem sized_borrow_is_payable:
  assumes "num_lib L" "calculate_borrow L r request max_value bps in_group has_ref = Inr b"
  shows "is_ok (reserve_borrow L r (cbr_borrow_amount_f b) False) \<and>
    (\<exists>cap free. remaining_borrow_capacity L r = Inr cap \<and>
       freely_available_liquidity_amount L r = Inr free \<and>
       cbr_borrow_amount_f b \<le> cap \<and> unat (cbr_borrow_amount_f b) \<le> unat free * fx_scale) \<and>
    (\<forall>amount. request = Exact amount \<longrightarrow> cbr_receive_amount b = amount)"
proof -
  have "cbr_receive_amount b = amount" if "request = Exact amount" for amount
    using assms(2) that
    by (auto simp: calculate_borrow_def calculate_borrow_exact_def rbind_eq_Inr fail_eq
        split: prod.splits if_splits)
  then show ?thesis
    using num_lib.sized_borrow_succeeds [OF assms] num_lib.sized_borrow_limits [OF assms] by blast
qed

theorem sized_borrow_is_payable_witness:
  "\<exists>b. calculate_borrow std_lib sample_reserve (Exact 100) 0 0 True False = Inr b \<and>
       cbr_receive_amount b = 100 \<and>
       is_ok (reserve_borrow std_lib sample_reserve (cbr_borrow_amount_f b) False)"
proof -
  have free: "freely_available_liquidity_amount std_lib sample_reserve = Inr 1000"
  proof -
    have "collateral_to_liquidity std_lib
        \<lparr> cer_collateral_supply = 1000, cer_liquidity = 1500 * 2 ^ 60 \<rparr> 0 = Inr 0"
      by (simp add: std.collateral_to_liquidity_eq to_liq_def)
    then show ?thesis
      by (simp add: freely_available_liquidity_amount_def queued_liquidity_amount_def sample_rate
          sample_fields saturating_sub_def)
         (simp add: sample_reserve_def reserve_init_def withdraw_queue_default_def sample_rate)
  qed
  have fees: "calculate_borrow_fees std_lib (cfg_fees (rsv_config sample_reserve)) (100 * 2 ^ 60)
      Exclusive 0 False = Inr (0, 0)"
    by (simp add: calculate_borrow_fees_def calculate_fees_def Let_def from_bps_def std.from_num
        std.div_int to_word_def sample_reserve_def reserve_init_def zero_config_def)
  have "liquidity_amount_to_market_value std_lib (rsv_liquidity sample_reserve) (100 * 2 ^ 60) = Inr 0"
    by (simp add: std.liquidity_amount_to_market_value_eq sample_reserve_def reserve_init_def
        reserve_liquidity_default_def)
  moreover have "remaining_borrow_capacity std_lib sample_reserve = Inr (1500 * 2 ^ 60)"
    by (simp add: remaining_borrow_capacity_def frac_of_u64_def std.from_num std.saturating_sub
        total_borrow_def sample_fields to_word_def fx_scale_def)
       (simp add: sample_reserve_def reserve_init_def)
  ultimately have "\<exists>b. calculate_borrow std_lib sample_reserve (Exact 100) 0 0 True False = Inr b \<and>
      cbr_receive_amount b = 100"
    using free fees
    by (simp add: calculate_borrow_def calculate_borrow_exact_def borrow_factor_f_def
        frac_of_u64_def std.from_num std.add std.mul to_word_def fx_scale_def add_ov_def
        checked_add_def to_word_opt_def)
  then show ?thesis using sized_borrow_is_payable [OF std.num_lib_axioms] by blast
qed

end
