(* ===== verification/Obligation_Loan.thy ===== *)
theory Obligation_Loan imports Reserve begin

text \<open>
  One loan of an obligation: \<open>ObligationLiquidity\<close> and \<open>FixedTermBorrowRolloverConfig\<close> of
  \<open>state/obligation.rs\<close>, with the conversions of time of \<open>utils/secs.rs\<close> that the early
  repayment penalty uses. A loan follows the cumulative borrow rate of its reserve.
\<close>

section \<open>Units of time\<close>

definition SECONDS_PER_HOUR :: nat where "SECONDS_PER_HOUR = 3600"
definition SECONDS_PER_DAY :: nat where "SECONDS_PER_DAY = 86400"

definition to_days_fractional :: "numlib \<Rightarrow> u64 \<Rightarrow> frac res" where
  "to_days_fractional L secs =
     rbind (frac_of_u64 L secs) (\<lambda>s. fx_div_int L s (of_nat SECONDS_PER_DAY))"

definition from_days :: "u64 \<Rightarrow> u64 res" where
  "from_days days = ok_or (checked_mul days (of_nat SECONDS_PER_DAY)) Panic"

definition from_hours :: "u64 \<Rightarrow> u64 res" where
  "from_hours hours = ok_or (checked_mul hours (of_nat SECONDS_PER_HOUR)) Panic"

definition checked_secs_to_slots :: "numlib \<Rightarrow> frac \<Rightarrow> u64 res" where
  "checked_secs_to_slots L secs =
     rbind (full_mul_int_ratio_ceil L secs (of_nat SLOTS_PER_SECOND) 1) (\<lambda>slots.
     rbind (try_to_ceil L slots) (\<lambda>n. ok_or n (LendingErr MathOverflow)))"

definition estimate_slot_after_period :: "numlib \<Rightarrow> u64 \<Rightarrow> frac \<Rightarrow> u64 res" where
  "estimate_slot_after_period L current_slot secs =
     rbind (checked_secs_to_slots L secs) (\<lambda>elapsed_slot_estimate.
     ok_or (checked_add current_slot elapsed_slot_estimate) (LendingErr MathOverflow))"

section \<open>Rollover configuration\<close>

record rollover_config =
  auto_rollover_enabled :: u8
  open_term_allowed :: u8
  migration_to_fixed_enabled :: u8
  ro_max_borrow_rate_bps :: u32
  ro_min_debt_term_seconds :: u64

definition rollover_config_default :: rollover_config where
  "rollover_config_default = \<lparr> auto_rollover_enabled = 0, open_term_allowed = 0,
     migration_to_fixed_enabled = 0, ro_max_borrow_rate_bps = 0, ro_min_debt_term_seconds = 0 \<rparr>"

datatype rollover_mode = FromFixedToFixedTerm | FromFixedToOpenTerm | FromOpenToFixedTerm

definition is_auto_rollover_enabled :: "rollover_config \<Rightarrow> bool" where
  "is_auto_rollover_enabled ro \<longleftrightarrow> auto_rollover_enabled ro \<noteq> 0"

definition is_migration_to_fixed_enabled :: "rollover_config \<Rightarrow> bool" where
  "is_migration_to_fixed_enabled ro \<longleftrightarrow> migration_to_fixed_enabled ro \<noteq> 0"

definition resolve_rollover_from_fixed_term_mode ::
  "rollover_config \<Rightarrow> reserve_config \<Rightarrow> rollover_mode res" where
  "resolve_rollover_from_fixed_term_mode ro target =
     (if \<not> is_auto_rollover_enabled ro then fail ObligationBorrowRolloverNotEnabledByOwner
      else case get_debt_term_seconds target of
        None \<Rightarrow>
          if open_term_allowed ro = 0 then fail ObligationBorrowRolloverTargetReserveMismatch
          else Inr FromFixedToOpenTerm
      | Some target_debt_term_seconds \<Rightarrow>
          rbind (max_borrow_rate_bps target) (\<lambda>target_borrow_rate_bps.
          if target_borrow_rate_bps > ro_max_borrow_rate_bps ro
          then fail ObligationBorrowRolloverTargetReserveMismatch
          else if ro_min_debt_term_seconds ro = 0
          then fail ObligationBorrowRolloverTargetReserveMismatch
          else if target_debt_term_seconds < ro_min_debt_term_seconds ro
          then fail ObligationBorrowRolloverTargetReserveMismatch
          else Inr FromFixedToFixedTerm))"

definition check_migration_to_fixed_term_possible ::
  "rollover_config \<Rightarrow> reserve_config \<Rightarrow> unit res" where
  "check_migration_to_fixed_term_possible ro target =
     (if \<not> is_migration_to_fixed_enabled ro then fail ObligationBorrowRolloverNotEnabledByOwner
      else case get_debt_term_seconds target of
        None \<Rightarrow> fail ObligationBorrowRolloverTargetReserveMismatch
      | Some target_debt_term_seconds \<Rightarrow>
          rbind (max_borrow_rate_bps target) (\<lambda>target_borrow_rate_bps.
          if target_borrow_rate_bps > ro_max_borrow_rate_bps ro
          then fail ObligationBorrowRolloverTargetReserveMismatch
          else if ro_min_debt_term_seconds ro = 0
          then fail ObligationBorrowRolloverTargetReserveMismatch
          else if target_debt_term_seconds < ro_min_debt_term_seconds ro
          then fail ObligationBorrowRolloverTargetReserveMismatch
          else Inr ()))"

definition resolve_rollover_mode ::
  "rollover_config \<Rightarrow> reserve_config \<Rightarrow> reserve_config \<Rightarrow> rollover_mode res" where
  "resolve_rollover_mode ro source target =
     (if get_debt_term_seconds source \<noteq> None
      then resolve_rollover_from_fixed_term_mode ro target
      else rbind (check_migration_to_fixed_term_possible ro target) (\<lambda>_. Inr FromOpenToFixedTerm))"

section \<open>The loan\<close>

record obligation_liquidity =
  ol_borrow_reserve :: pubkey
  ol_cumulative_borrow_rate_bsf :: big_fraction
  ol_last_borrowed_at_timestamp :: u64
  ol_borrowed_amount_sf :: u128
  ol_market_value_sf :: u128
  ol_borrow_factor_adjusted_market_value_sf :: u128
  ol_borrowed_amount_outside_elevation_groups :: u64
  ol_fixed_term_borrow_rollover_config :: rollover_config
  ol_borrowed_amount_at_expiration :: u64

definition obligation_liquidity_new :: "pubkey \<Rightarrow> big_fraction \<Rightarrow> obligation_liquidity" where
  "obligation_liquidity_new borrow_reserve cumulative_borrow_rate_bf = \<lparr>
     ol_borrow_reserve = borrow_reserve,
     ol_cumulative_borrow_rate_bsf = cumulative_borrow_rate_bf,
     ol_last_borrowed_at_timestamp = 0,
     ol_borrowed_amount_sf = 0,
     ol_market_value_sf = 0,
     ol_borrow_factor_adjusted_market_value_sf = 0,
     ol_borrowed_amount_outside_elevation_groups = 0,
     ol_fixed_term_borrow_rollover_config = rollover_config_default,
     ol_borrowed_amount_at_expiration = 0 \<rparr>"

definition obligation_liquidity_default :: obligation_liquidity where
  "obligation_liquidity_default = obligation_liquidity_new 0 (BigFraction 0)"

definition loan_is_active :: "obligation_liquidity \<Rightarrow> bool" where
  "loan_is_active l \<longleftrightarrow> ol_borrow_reserve l \<noteq> 0"

definition loan_repay :: "numlib \<Rightarrow> obligation_liquidity \<Rightarrow> frac \<Rightarrow> obligation_liquidity res" where
  "loan_repay L l settle_amount =
     rbind (fx_sub L (ol_borrowed_amount_sf l) settle_amount) (\<lambda>a.
     Inr (l\<lparr> ol_borrowed_amount_sf := a \<rparr>))"

definition loan_borrow ::
  "numlib \<Rightarrow> obligation_liquidity \<Rightarrow> frac \<Rightarrow> u64 \<Rightarrow> obligation_liquidity res" where
  "loan_borrow L l borrow_amount current_timestamp =
     rbind (fx_add L (ol_borrowed_amount_sf l) borrow_amount) (\<lambda>a.
     Inr (l\<lparr> ol_borrowed_amount_sf := a, ol_last_borrowed_at_timestamp := current_timestamp \<rparr>))"

definition calculate_amount_with_accrued_interest ::
  "numlib \<Rightarrow> u128 \<Rightarrow> u256 \<Rightarrow> u256 \<Rightarrow> u128 res" where
  "calculate_amount_with_accrued_interest L amount_sf former new =
     rbind (u256_mul L (u256_from L amount_sf) new) (\<lambda>p.
     rbind (u256_div L p former) (\<lambda>q.
     ok_or (u256_to_u128 L q) (LendingErr MathOverflow)))"

definition loan_accrue_interest ::
  "numlib \<Rightarrow> obligation_liquidity \<Rightarrow> big_fraction \<Rightarrow> obligation_liquidity res" where
  "loan_accrue_interest L l new_cumulative_borrow_rate =
     (let former = bf_bits (ol_cumulative_borrow_rate_bsf l);
          new = bf_bits new_cumulative_borrow_rate
      in if new < former then fail NegativeInterestRate
         else if new = former then Inr l
         else rbind (calculate_amount_with_accrued_interest L (ol_borrowed_amount_sf l) former new)
                (\<lambda>a. Inr (l\<lparr> ol_borrowed_amount_sf := a,
                           ol_cumulative_borrow_rate_bsf := new_cumulative_borrow_rate \<rparr>)))"

definition get_debt_term_end_timestamp :: "obligation_liquidity \<Rightarrow> reserve_config \<Rightarrow> u64 option res" where
  "get_debt_term_end_timestamp l c =
     (case get_debt_term_seconds c of
        None \<Rightarrow> Inr None
      | Some debt_term \<Rightarrow>
          if ol_last_borrowed_at_timestamp l = 0 then Inr None
          else rbind (add_ov (ol_last_borrowed_at_timestamp l) debt_term) (\<lambda>t. Inr (Some t)))"

definition get_secs_since_reserve_debt_term_end ::
  "obligation_liquidity \<Rightarrow> reserve_config \<Rightarrow> u64 \<Rightarrow> u64 option res" where
  "get_secs_since_reserve_debt_term_end l c timestamp =
     rbind (get_debt_term_end_timestamp l c) (\<lambda>e.
     Inr (Option.bind e (\<lambda>term_end. checked_sub timestamp term_end)))"

definition capture_borrowed_amount_at_expiration ::
  "numlib \<Rightarrow> obligation_liquidity \<Rightarrow> reserve_config \<Rightarrow> u64 \<Rightarrow> obligation_liquidity res" where
  "capture_borrowed_amount_at_expiration L l c timestamp =
     (if ol_borrowed_amount_at_expiration l \<noteq> 0 then Inr l
      else rbind (get_secs_since_reserve_debt_term_end l c timestamp) (\<lambda>since.
        if since = None then Inr l
        else rbind (to_ceil L (ol_borrowed_amount_sf l)) (\<lambda>a.
          Inr (l\<lparr> ol_borrowed_amount_at_expiration := a \<rparr>))))"

definition borrowed_amount_at_expiration :: "numlib \<Rightarrow> obligation_liquidity \<Rightarrow> frac res" where
  "borrowed_amount_at_expiration L l = frac_of_u64 L (ol_borrowed_amount_at_expiration l)"

definition calculate_interest_for_period ::
  "numlib \<Rightarrow> obligation_liquidity \<Rightarrow> frac \<Rightarrow> frac \<Rightarrow> reserve \<Rightarrow> frac res" where
  "calculate_interest_for_period L l amount time_period r =
     rbind (estimate_slot_after_period L (lu_slot (rsv_last_update r)) time_period) (\<lambda>future_slot.
     rbind (calculate_future_cumulative_borrow_rate L r future_slot) (\<lambda>future_rate.
     rbind (calculate_amount_with_accrued_interest L amount
              (bf_bits (ol_cumulative_borrow_rate_bsf l)) (bf_bits future_rate)) (\<lambda>with_interest.
     fx_sub L with_interest amount)))"

definition calculate_early_repay_penalty ::
  "numlib \<Rightarrow> obligation_liquidity \<Rightarrow> reserve \<Rightarrow> frac \<Rightarrow> u64 \<Rightarrow> u64 res" where
  "calculate_early_repay_penalty L l r repay_amount current_timestamp =
     (case get_debt_term_seconds (rsv_config r) of
        None \<Rightarrow> Inr 0
      | Some debt_term \<Rightarrow>
          if ol_last_borrowed_at_timestamp l = 0 then Inr 0
          else if ol_borrowed_amount_sf l = 0 then Inr 0
          else if repay_amount > ol_borrowed_amount_sf l then Inl Panic
          else let since = saturating_sub current_timestamp (ol_last_borrowed_at_timestamp l) in
            if since \<ge> debt_term then Inr 0
            else rbind (sub_ov debt_term since) (\<lambda>remaining_secs.
              rbind (frac_of_u64 L remaining_secs) (\<lambda>remaining.
              rbind (calculate_interest_for_period L l repay_amount remaining r) (\<lambda>interest.
              rbind (get_early_repay_penalty_remaining_interest_pct L (rsv_config r)) (\<lambda>penalty_pct.
              rbind (fx_mul L interest penalty_pct) (to_ceil L))))))"


section \<open>Accrual of interest\<close>

text \<open>
  The accruals of a loan over the life of an obligation: it meets the cumulative rates of its
  reserve one after the other.
\<close>

fun loan_accrue_all ::
  "numlib \<Rightarrow> obligation_liquidity \<Rightarrow> big_fraction list \<Rightarrow> obligation_liquidity res" where
  "loan_accrue_all L l [] = Inr l"
| "loan_accrue_all L l (r # rs) =
     rbind (loan_accrue_interest L l r) (\<lambda>l'. loan_accrue_all L l' rs)"

abbreviation debt_bits :: "obligation_liquidity \<Rightarrow> nat" where
  "debt_bits l \<equiv> unat (ol_borrowed_amount_sf l)"

abbreviation rate_bits :: "obligation_liquidity \<Rightarrow> nat" where
  "rate_bits l \<equiv> bf_val (ol_cumulative_borrow_rate_bsf l)"

text \<open>The arithmetic of a run: one more step in front of a proportional run is proportional.\<close>

lemma proportional_step:
  fixes a0 a1 a' r0 r1 rn n :: nat
  assumes "a1 = a0 * r1 div r0" "0 < r0" "r0 \<le> r1" "a' * r1 \<le> a1 * rn" "a1 * rn \<le> a' * r1 + n * rn"
  shows "a' * r0 \<le> a0 * rn" "a0 * rn \<le> a' * r0 + Suc n * rn"
proof -
  have up: "a1 * r0 \<le> a0 * r1" and low: "a0 * r1 \<le> (a1 + 1) * r0"
    using assms(1) div_mult_le' [of "a0 * r1" r0] less_div_mult [OF assms(2), of "a0 * r1"] by auto
  have r1: "0 < r1" using assms(2,3) by simp
  have "a' * r1 * r0 \<le> a1 * rn * r0" using assms(4) by (rule mult_le_mono1)
  also have "\<dots> = a1 * r0 * rn" by (simp add: ac_simps)
  also have "\<dots> \<le> a0 * r1 * rn" using up by (rule mult_le_mono1)
  finally have "a' * r0 * r1 \<le> a0 * rn * r1" by (simp add: ac_simps)
  then show "a' * r0 \<le> a0 * rn" using r1 by simp
  have "a0 * r1 * rn \<le> (a1 + 1) * r0 * rn" using low by (rule mult_le_mono1)
  also have "\<dots> = a1 * rn * r0 + rn * r0" by (simp add: algebra_simps)
  also have "\<dots> \<le> (a' * r1 + n * rn) * r0 + rn * r0" using assms(5) by (simp add: mult_le_mono1)
  also have "\<dots> = a' * r0 * r1 + Suc n * rn * r0" by (simp add: algebra_simps)
  also have "\<dots> \<le> a' * r0 * r1 + Suc n * rn * r1" using assms(3) by simp
  finally have "a0 * rn * r1 \<le> (a' * r0 + Suc n * rn) * r1" by (simp add: algebra_simps)
  then show "a0 * rn \<le> a' * r0 + Suc n * rn" using r1 by simp
qed

context num_lib begin

lemma accrued_amount_eq [arith_simps]:
  "calculate_amount_with_accrued_interest L a former new = Inr b \<longleftrightarrow>
     former \<noteq> 0 \<and> unat a * unat new < 2 ^ 256 \<and> unat b = unat a * unat new div unat former"
proof -
  have "calculate_amount_with_accrued_interest L a former new = Inr b \<longleftrightarrow>
     (former \<noteq> 0 \<and> unat a * unat new < 2 ^ 256) \<and> unat b = unat a * unat new div unat former"
    using u128_lt [of b]
    by (intro res_iffI) (auto simp: calculate_amount_with_accrued_interest_def res_simps arith_simps
        dest: unat_eq_lt)
  then show ?thesis by simp
qed

lemma accrued_amount_err:
  "calculate_amount_with_accrued_interest L a former new = Inl e \<longleftrightarrow>
     (if former = 0 \<or> 2 ^ 256 \<le> unat a * unat new then e = Panic
      else 2 ^ 128 \<le> unat a * unat new div unat former \<and> e = LendingErr MathOverflow)"
  by (auto simp: calculate_amount_with_accrued_interest_def mul256 to_word_def div256 to_u128_256
      res_simps arith_simps unat_div unat_word_ariths(2))

text \<open>What one accrual does. A stale loan grows in proportion to the rate, rounded down.\<close>

lemma loan_accrue_interest_cases:
  assumes "loan_accrue_interest L l r = Inr l'"
  shows "ol_cumulative_borrow_rate_bsf l \<le> r"
    "l' = l\<lparr> ol_borrowed_amount_sf := ol_borrowed_amount_sf l', ol_cumulative_borrow_rate_bsf := r \<rparr>"
    "0 < rate_bits l \<Longrightarrow> debt_bits l' = debt_bits l * bf_val r div rate_bits l"
  using assms
  by (cases l; cases r; force simp: loan_accrue_interest_def Let_def less_eq_big_fraction_def
      fail_eq rbind_eq_Inr arith_simps split: if_splits)+

lemma loan_accrue_interest_error:
  "loan_accrue_interest L l r = Inl e \<longleftrightarrow>
     (if bf_val r < rate_bits l then e = LendingErr NegativeInterestRate
      else rate_bits l < bf_val r \<and>
        calculate_amount_with_accrued_interest L (ol_borrowed_amount_sf l)
          (bf_bits (ol_cumulative_borrow_rate_bsf l)) (bf_bits r) = Inl e)"
  by (auto simp: loan_accrue_interest_def Let_def res_simps word_less_nat_alt
      intro: word_unat_eqI)

lemma loan_accrue_interest_debt:
  assumes "loan_accrue_interest L l r = Inr l'" "0 < rate_bits l"
  shows "debt_bits l \<le> debt_bits l'" "rate_bits l \<le> rate_bits l'" "0 < rate_bits l'"
proof -
  have le: "rate_bits l \<le> bf_val r"
    using loan_accrue_interest_cases(1) [OF assms(1)]
    by (simp add: less_eq_big_fraction_def word_le_nat_alt)
  have l': "rate_bits l' = bf_val r" by (subst loan_accrue_interest_cases(2) [OF assms(1)]) simp
  have "debt_bits l * rate_bits l div rate_bits l \<le> debt_bits l * bf_val r div rate_bits l"
    using le by (intro div_le_mono mult_le_mono2)
  then show "debt_bits l \<le> debt_bits l'"
    using assms(2) loan_accrue_interest_cases(3) [OF assms] by simp
  show "rate_bits l \<le> rate_bits l'" "0 < rate_bits l'" using le l' assms(2) by simp_all
qed

lemma loan_accrue_all_Cons:
  assumes "loan_accrue_all L l (r # rs) = Inr l'" "0 < rate_bits l"
  obtains l1 where "loan_accrue_all L l1 rs = Inr l'" "ol_cumulative_borrow_rate_bsf l \<le> r"
    "l1 = l\<lparr> ol_borrowed_amount_sf := ol_borrowed_amount_sf l1, ol_cumulative_borrow_rate_bsf := r \<rparr>"
    "debt_bits l1 = debt_bits l * rate_bits l1 div rate_bits l"
    "debt_bits l \<le> debt_bits l1" "rate_bits l \<le> rate_bits l1" "0 < rate_bits l1"
proof -
  obtain l1 where l1: "loan_accrue_interest L l r = Inr l1" "loan_accrue_all L l1 rs = Inr l'"
    using assms(1) by (auto simp: rbind_eq_Inr)
  have "rate_bits l1 = bf_val r"
    by (subst loan_accrue_interest_cases(2) [OF l1(1)]) simp
  with that [OF l1(2) loan_accrue_interest_cases(1,2) [OF l1(1)]]
    loan_accrue_interest_cases(3) [OF l1(1) assms(2)] loan_accrue_interest_debt [OF l1(1) assms(2)]
  show thesis by simp
qed

lemma loan_accrue_all_follows:
  assumes "loan_accrue_all L l rs = Inr l'" "0 < rate_bits l"
  shows "sorted (ol_cumulative_borrow_rate_bsf l # rs) \<and>
    l' = l\<lparr> ol_borrowed_amount_sf := ol_borrowed_amount_sf l',
           ol_cumulative_borrow_rate_bsf := last (ol_cumulative_borrow_rate_bsf l # rs) \<rparr> \<and>
    debt_bits l \<le> debt_bits l' \<and>
    debt_bits l' * rate_bits l \<le> debt_bits l * rate_bits l' \<and>
    debt_bits l * rate_bits l' \<le> debt_bits l' * rate_bits l + length rs * rate_bits l'"
  using assms
proof (induction rs arbitrary: l)
  case (Cons r rs)
  from Cons.prems obtain l1 where l1: "loan_accrue_all L l1 rs = Inr l'"
    "ol_cumulative_borrow_rate_bsf l \<le> r"
    "l1 = l\<lparr> ol_borrowed_amount_sf := ol_borrowed_amount_sf l1, ol_cumulative_borrow_rate_bsf := r \<rparr>"
    "debt_bits l1 = debt_bits l * rate_bits l1 div rate_bits l"
    "debt_bits l \<le> debt_bits l1" "rate_bits l \<le> rate_bits l1" "0 < rate_bits l1"
    by (rule loan_accrue_all_Cons)
  have r: "ol_cumulative_borrow_rate_bsf l1 = r" by (subst l1(3)) simp
  note IH = Cons.IH [OF l1(1,7)]
  have "sorted (ol_cumulative_borrow_rate_bsf l # r # rs)" using IH l1(2) r by auto
  moreover have "l' = l\<lparr> ol_borrowed_amount_sf := ol_borrowed_amount_sf l',
      ol_cumulative_borrow_rate_bsf := last (ol_cumulative_borrow_rate_bsf l # r # rs) \<rparr>"
  proof -
    have "l' = l1\<lparr> ol_borrowed_amount_sf := ol_borrowed_amount_sf l',
        ol_cumulative_borrow_rate_bsf := last (r # rs) \<rparr>"
      using IH r by simp
    also have "\<dots> = l\<lparr> ol_borrowed_amount_sf := ol_borrowed_amount_sf l',
        ol_cumulative_borrow_rate_bsf := last (r # rs) \<rparr>"
      by (subst l1(3)) simp
    finally show ?thesis by simp
  qed
  moreover have "debt_bits l' * rate_bits l \<le> debt_bits l * rate_bits l'"
    "debt_bits l * rate_bits l' \<le> debt_bits l' * rate_bits l + Suc (length rs) * rate_bits l'"
    using proportional_step [OF l1(4) Cons.prems(2) l1(6), of "debt_bits l'" "rate_bits l'" "length rs"]
      IH by blast+
  ultimately show ?case using IH l1(5) by simp
qed simp

end

section \<open>Rates of a curve\<close>

lemma fold_max_ge: "x \<in> set (y # ys) \<Longrightarrow> x \<le> fold max ys (y :: 'a::linorder)"
  unfolding Max.set_eq_fold [symmetric] by (rule Max_ge) simp_all

lemma max_borrow_rate_bps_ge:
  assumes "max_borrow_rate_bps c = Inr m" "p \<in> set (points (borrow_rate_curve c))"
  shows "borrow_rate_bps p \<le> m"
  using assms fold_max_ge [of "borrow_rate_bps p"]
  by (auto simp: max_borrow_rate_bps_def split: list.splits)

section \<open>Term and penalty\<close>

context num_lib begin

lemma curve_rate_le_max:
  assumes "valid_curve (borrow_rate_curve c)" "max_borrow_rate_bps c = Inr m" "m \<le> limit"
  shows "\<exists>r. curve_get_borrow_rate L (borrow_rate_curve c) u = Inr r \<and>
    unat r \<le> unat limit * fx_scale div 10000"
proof -
  have "points (borrow_rate_curve c) \<noteq> []" using assms(1) by (auto simp: valid_curve_def)
  then have "borrow_rate_bps (last (points (borrow_rate_curve c))) \<le> m"
    by (intro max_borrow_rate_bps_ge [OF assms(2)]) simp
  with assms(3) have "unat (borrow_rate_bps (last (points (borrow_rate_curve c)))) \<le> unat limit"
    by (simp add: word_le_nat_alt)
  then have "rate_of (last (points (borrow_rate_curve c))) \<le> unat limit * fx_scale div 10000"
    by (simp add: rate_of_def div_le_mono)
  then show ?thesis using curve_get_borrow_rate_bounds [OF assms(1), of u] by (meson order_trans)
qed

lemma early_repay_penalty_free:
  assumes "get_debt_term_seconds (rsv_config r) = None \<or> ol_last_borrowed_at_timestamp l = 0 \<or>
      ol_borrowed_amount_sf l = 0 \<or>
      repay \<le> ol_borrowed_amount_sf l \<and>
      (\<exists>debt_term. get_debt_term_seconds (rsv_config r) = Some debt_term \<and>
         unat debt_term + unat (ol_last_borrowed_at_timestamp l) \<le> unat now)"
  shows "calculate_early_repay_penalty L l r repay now = Inr 0"
proof -
  have "debt_term \<le> saturating_sub now (ol_last_borrowed_at_timestamp l)"
    if "unat debt_term + unat (ol_last_borrowed_at_timestamp l) \<le> unat now" for debt_term
    using that by (simp add: word_le_nat_alt)
  with assms show ?thesis
    by (auto simp: calculate_early_repay_penalty_def Let_def not_less split: option.split)
qed

lemma early_repay_penalty_due:
  assumes "calculate_early_repay_penalty L l r repay now = Inr p"
    and "get_debt_term_seconds (rsv_config r) = Some debt_term"
    and "ol_last_borrowed_at_timestamp l \<noteq> 0" "ol_borrowed_amount_sf l \<noteq> 0"
    and "unat now < unat debt_term + unat (ol_last_borrowed_at_timestamp l)"
  shows "\<exists>remaining interest (pct :: frac).
    unat remaining = (unat debt_term - (unat now - unat (ol_last_borrowed_at_timestamp l))) * fx_scale \<and>
    calculate_interest_for_period L l repay remaining r = Inr interest \<and>
    unat pct = unat (early_repay_remaining_interest_pct (rsv_config r)) * fx_scale div 100 \<and>
    unat p = ceil_div (fmul (unat interest) (unat pct)) fx_scale"
proof -
  let ?s = "saturating_sub now (ol_last_borrowed_at_timestamp l)"
  have "0 < unat debt_term"
    using assms(2) by (auto simp: get_debt_term_seconds_def unat_gt_0 split: if_splits)
  then have lt: "\<not> debt_term \<le> ?s" using assms(5) by (simp add: word_le_nat_alt)
  with assms(1-4) obtain rs rem i pc m where
    "sub_ov debt_term ?s = Inr rs" "frac_of_u64 L rs = Inr rem"
    "calculate_interest_for_period L l repay rem r = Inr i"
    "get_early_repay_penalty_remaining_interest_pct L (rsv_config r) = Inr pc"
    "fx_mul L i pc = Inr m" "to_ceil L m = Inr p"
    by (auto simp: calculate_early_repay_penalty_def Let_def rbind_eq_Inr split: if_splits)
  then have "unat rem = (unat debt_term - (unat now - unat (ol_last_borrowed_at_timestamp l))) * fx_scale"
    "calculate_interest_for_period L l repay rem r = Inr i"
    "unat pc = unat (early_repay_remaining_interest_pct (rsv_config r)) * fx_scale div 100"
    "unat p = ceil_div (fmul (unat i) (unat pc)) fx_scale"
    by (auto simp: arith_simps fmul_def get_early_repay_penalty_remaining_interest_pct_def)
  then show ?thesis by (intro exI conjI)
qed

lemma early_repay_penalty_le_interest:
  assumes "calculate_early_repay_penalty L l r repay now = Inr p" "p \<noteq> 0"
    and "unat (early_repay_remaining_interest_pct (rsv_config r)) \<le> 100"
  shows "\<exists>debt_term remaining interest. get_debt_term_seconds (rsv_config r) = Some debt_term \<and>
    unat remaining = (unat debt_term - (unat now - unat (ol_last_borrowed_at_timestamp l))) * fx_scale \<and>
    0 < unat remaining \<and>
    calculate_interest_for_period L l repay remaining r = Inr interest \<and>
    unat p \<le> ceil_div (unat interest) fx_scale"
proof -
  have repay: "repay \<le> ol_borrowed_amount_sf l"
    if "get_debt_term_seconds (rsv_config r) \<noteq> None" "ol_last_borrowed_at_timestamp l \<noteq> 0"
      "ol_borrowed_amount_sf l \<noteq> 0"
    using assms(1) that by (auto simp: calculate_early_repay_penalty_def split: if_splits)
  have nz: "calculate_early_repay_penalty L l r repay now \<noteq> Inr 0" using assms(1,2) by simp
  have given: "get_debt_term_seconds (rsv_config r) \<noteq> None" "ol_last_borrowed_at_timestamp l \<noteq> 0"
      "ol_borrowed_amount_sf l \<noteq> 0"
    using early_repay_penalty_free [of r l repay now] nz by meson+
  then obtain debt_term where t: "get_debt_term_seconds (rsv_config r) = Some debt_term" by blast
  moreover have "unat now < unat debt_term + unat (ol_last_borrowed_at_timestamp l)"
    using early_repay_penalty_free [of r l repay now] nz t repay [OF given]
    by (meson linorder_not_less)
  moreover note given(2,3)
  ultimately have given': "get_debt_term_seconds (rsv_config r) = Some debt_term"
    "ol_last_borrowed_at_timestamp l \<noteq> 0" "ol_borrowed_amount_sf l \<noteq> 0"
    "unat now < unat debt_term + unat (ol_last_borrowed_at_timestamp l)" by simp_all
  from early_repay_penalty_due [OF assms(1) given'] obtain remaining interest and pct :: frac where
    *: "unat remaining = (unat debt_term - (unat now - unat (ol_last_borrowed_at_timestamp l))) * fx_scale"
    "calculate_interest_for_period L l repay remaining r = Inr interest"
    "unat pct = unat (early_repay_remaining_interest_pct (rsv_config r)) * fx_scale div 100"
    "unat p = ceil_div (fmul (unat interest) (unat pct)) fx_scale" by blast
  have "unat pct \<le> 100 * fx_scale div 100"
    unfolding *(3) using mult_le_mono1 [OF assms(3), of fx_scale] by (rule div_le_mono)
  then have "unat pct \<le> fx_scale" by simp
  then have "unat p \<le> ceil_div (unat interest) fx_scale"
    unfolding *(4) by (intro ceil_div_mono fmul_le_left fx_scale_pos)
  moreover have "0 < unat debt_term"
    using t by (auto simp: get_debt_term_seconds_def unat_gt_0 split: if_splits)
  then have "0 < unat remaining" unfolding *(1) using given'(4) by auto
  ultimately show ?thesis using * t by blast
qed

end

section \<open>Properties\<close>

text \<open>
  C31. A loan follows the rate of its reserve: after any number of accruals, each at a cumulative rate
  the reserve has at its time, the rates never went down and the loan's rate is the last of them; the
  debt never shrinks, and it is multiplied by the ratio of the last rate to the first rounded down: it
  never exceeds its proportional share of the rate's growth, and falls short of it by at most one bit
  of the fixed-point number per accrual (scaled to the last rate). Nothing else of the loan changes.
\<close>

theorem loan_follows_reserve_rate:
  assumes "num_lib L" "loan_accrue_all L l rs = Inr l'" "0 < rate_bits l"
  shows "sorted (ol_cumulative_borrow_rate_bsf l # rs) \<and>
    l' = l\<lparr> ol_borrowed_amount_sf := ol_borrowed_amount_sf l',
           ol_cumulative_borrow_rate_bsf := last (ol_cumulative_borrow_rate_bsf l # rs) \<rparr> \<and>
    debt_bits l \<le> debt_bits l' \<and>
    debt_bits l' * rate_bits l \<le> debt_bits l * rate_bits l' \<and>
    debt_bits l * rate_bits l' \<le> debt_bits l' * rate_bits l + length rs * rate_bits l'"
  using num_lib.loan_accrue_all_follows [OF assms] .

theorem loan_follows_reserve_rate_witness:
  "let l = (obligation_liquidity_new 7 (BigFraction 10)) \<lparr> ol_borrowed_amount_sf := 100 \<rparr>
   in \<exists>l'. loan_accrue_all std_lib l [BigFraction 13, BigFraction 13, BigFraction 17] = Inr l' \<and>
        debt_bits l' = 170 \<and> debt_bits l' * rate_bits l \<le> debt_bits l * rate_bits l'"
proof -
  let ?l = "(obligation_liquidity_new 7 (BigFraction 10)) \<lparr> ol_borrowed_amount_sf := 100 \<rparr>"
  let ?l' = "?l \<lparr> ol_borrowed_amount_sf := 170, ol_cumulative_borrow_rate_bsf := BigFraction 17 \<rparr>"
  have run: "loan_accrue_all std_lib ?l [BigFraction 13, BigFraction 13, BigFraction 17] = Inr ?l'"
    by (simp add: loan_accrue_interest_def Let_def obligation_liquidity_new_def
        calculate_amount_with_accrued_interest_def std_eval)
  have "0 < rate_bits ?l" by (simp add: obligation_liquidity_new_def)
  from loan_follows_reserve_rate [OF std.num_lib_axioms run this]
  have "debt_bits ?l' * rate_bits ?l \<le> debt_bits ?l * rate_bits ?l'" by blast
  moreover have "debt_bits ?l' = 170" by simp
  ultimately show ?thesis unfolding Let_def using run by blast
qed

text \<open>
  The penalty for repaying early: it is zero once the term has passed (and without a term, a
  known start or a debt), and otherwise never more than the interest that the repaid amount would
  still bear until the end of the term, rounded up to a lamport (for a configured share of at most
  100\%).
\<close>

theorem early_repay_penalty_bounded:
  assumes "num_lib L" "calculate_early_repay_penalty L l r repay now = Inr p"
    and "unat (early_repay_remaining_interest_pct (rsv_config r)) \<le> 100"
  shows "p = 0 \<or> (\<exists>debt_term remaining interest.
      get_debt_term_seconds (rsv_config r) = Some debt_term \<and>
      unat remaining = (unat debt_term - (unat now - unat (ol_last_borrowed_at_timestamp l))) * fx_scale \<and>
      0 < unat remaining \<and>
      calculate_interest_for_period L l repay remaining r = Inr interest \<and>
      unat p \<le> ceil_div (unat interest) fx_scale)"
  using num_lib.early_repay_penalty_le_interest [OF assms(1,2) _ assms(3)] by blast

text \<open>A reserve with a term of a thousand seconds at a yearly rate of 100\%, and a loan from it.\<close>

definition term_reserve :: reserve where
  "term_reserve = sample_reserve \<lparr>
     rsv_liquidity := reserve_liquidity_default std_lib,
     rsv_config := (zero_config \<lparr> points = [curve_point_new 0 10000, curve_point_new 10000 10000] \<rparr>)
       \<lparr> debt_term_seconds := 1000, early_repay_remaining_interest_pct := 50 \<rparr> \<rparr>"

definition term_loan :: obligation_liquidity where
  "term_loan = (obligation_liquidity_new 7 (BigFraction (2 ^ 60)))
     \<lparr> ol_borrowed_amount_sf := fraction_lit 2000000, ol_last_borrowed_at_timestamp := 100 \<rparr>"

lemma term_reserve_simps:
  "rsv_last_update term_reserve = last_update_new 0"
  "get_debt_term_seconds (rsv_config term_reserve) = Some 1000"
  "early_repay_remaining_interest_pct (rsv_config term_reserve) = 50"
  "current_borrow_rate std_lib term_reserve = Inr (2 ^ 60)"
  by (simp_all add: term_reserve_def sample_reserve_def reserve_init_def get_debt_term_seconds_def
      zero_config_def current_borrow_rate_def utilization_rate_def total_supply_def
      reserve_liquidity_default_def frac_of_u64_def curve_get_borrow_rate_def to_bps_def
      from_bps_def curve_point_new_def fraction_lit_def std_eval)

lemma term_reserve_future:
  "calculate_future_cumulative_borrow_rate std_lib term_reserve 1000 = Inr (BigFraction 1152939784202153732)"
  by (simp add: calculate_future_cumulative_borrow_rate_def term_reserve_simps slots_elapsed_def
      last_update_new_def checked_sub_def approximate_compounded_interest_def)
     (simp add: term_reserve_def sample_reserve_def reserve_init_def zero_config_def from_bps_def
      reserve_liquidity_default_def bf_mul_def bf_from_def FRAC_NBITS_def SLOTS_PER_YEAR_eval std_eval)

lemma term_loan_simps:
  "ol_last_borrowed_at_timestamp term_loan = 100"
  "ol_borrowed_amount_sf term_loan = fraction_lit 2000000"
  "ol_cumulative_borrow_rate_bsf term_loan = BigFraction (2 ^ 60)"
  by (simp_all add: term_loan_def obligation_liquidity_new_def)

lemma term_loan_interest:
  "calculate_interest_for_period std_lib term_loan (fraction_lit 1000000) (fraction_lit 500) term_reserve =
     Inr 18279595306756000000"
proof -
  have "estimate_slot_after_period std_lib (lu_slot (rsv_last_update term_reserve)) (fraction_lit 500) =
      Inr 1000"
    by (simp add: estimate_slot_after_period_def checked_secs_to_slots_def term_reserve_simps
        last_update_new_def full_mul_int_ratio_ceil_def try_to_ceil_def SLOTS_PER_SECOND_def
        checked_add_def fraction_lit_def std_eval)
  then show ?thesis
    by (simp add: calculate_interest_for_period_def term_reserve_future term_loan_simps
        calculate_amount_with_accrued_interest_def fraction_lit_def std_eval)
qed

theorem early_repay_penalty_bounded_witness:
  "calculate_early_repay_penalty std_lib term_loan term_reserve (fraction_lit 1000000) 600 = Inr 8 \<and>
   (\<exists>remaining interest.
      calculate_interest_for_period std_lib term_loan (fraction_lit 1000000) remaining term_reserve =
        Inr interest \<and> 8 \<le> ceil_div (unat interest) fx_scale)"
proof -
  have "frac_of_u64 std_lib 500 = Inr (fraction_lit 500)"
    by (simp add: frac_of_u64_def fraction_lit_def std_eval)
  then have "calculate_early_repay_penalty std_lib term_loan term_reserve (fraction_lit 1000000) 600 = Inr 8"
    by (simp add: calculate_early_repay_penalty_def term_reserve_simps term_loan_simps saturating_sub_def
        sub_ov_def checked_sub_def term_loan_interest get_early_repay_penalty_remaining_interest_pct_def
        from_percent_def to_ceil_def word_less_nat_alt std_eval)
       (simp add: fraction_lit_def fx_scale_def)
  with early_repay_penalty_bounded [OF std.num_lib_axioms this] show ?thesis
    by (auto simp: term_reserve_simps)
qed

text \<open>
  C32. Rollovers stay within the limits their owner configured: a loan without a term is only
  ever migrated and one with a term only ever rolled over, each if the owner enabled it; only an
  owner who allowed it is moved to a reserve without a term; and a target with a term has at
  least the owner's minimum and a borrow rate that is at most the owner's maximum at every
  utilization of the target's curve.
\<close>

theorem rollover_respects_owner_limits:
  assumes "num_lib L" "valid_curve (borrow_rate_curve target)"
    and "resolve_rollover_mode ro source target = Inr mode"
  shows "(mode = FromOpenToFixedTerm \<longleftrightarrow> get_debt_term_seconds source = None) \<and>
    (mode = FromFixedToOpenTerm \<longleftrightarrow> get_debt_term_seconds target = None) \<and>
    (if mode = FromOpenToFixedTerm then is_migration_to_fixed_enabled ro
     else is_auto_rollover_enabled ro) \<and>
    (if mode = FromFixedToOpenTerm then open_term_allowed ro \<noteq> 0
     else (\<exists>t. get_debt_term_seconds target = Some t \<and> 0 < ro_min_debt_term_seconds ro \<and>
             ro_min_debt_term_seconds ro \<le> t) \<and>
          (\<forall>u. \<exists>r. curve_get_borrow_rate L (borrow_rate_curve target) u = Inr r \<and>
             unat r \<le> unat (ro_max_borrow_rate_bps ro) * fx_scale div 10000))"
proof -
  have rates: "\<exists>r. curve_get_borrow_rate L (borrow_rate_curve target) u = Inr r \<and>
      unat r \<le> unat (ro_max_borrow_rate_bps ro) * fx_scale div 10000"
    if fixed: "mode \<noteq> FromFixedToOpenTerm" for u
  proof -
    obtain m where "max_borrow_rate_bps target = Inr m" "m \<le> ro_max_borrow_rate_bps ro"
      using assms(3) fixed
      by (auto simp: resolve_rollover_mode_def resolve_rollover_from_fixed_term_mode_def
          check_migration_to_fixed_term_possible_def fail_eq rbind_eq_Inr
          split: option.splits if_splits)
    then show ?thesis using num_lib.curve_rate_le_max [OF assms(1,2)] by blast
  qed
  have "mode = FromOpenToFixedTerm \<longleftrightarrow> get_debt_term_seconds source = None"
    "mode = FromFixedToOpenTerm \<longleftrightarrow> get_debt_term_seconds target = None"
    "if mode = FromOpenToFixedTerm then is_migration_to_fixed_enabled ro
     else is_auto_rollover_enabled ro"
    "if mode = FromFixedToOpenTerm then open_term_allowed ro \<noteq> 0
     else \<exists>t. get_debt_term_seconds target = Some t \<and> 0 < ro_min_debt_term_seconds ro \<and>
             ro_min_debt_term_seconds ro \<le> t"
    using assms(3)
    by (auto simp: resolve_rollover_mode_def resolve_rollover_from_fixed_term_mode_def
        check_migration_to_fixed_term_possible_def fail_eq rbind_eq_Inr word_gt_0
        split: option.splits if_splits)
  with rates show ?thesis by (cases "mode = FromFixedToOpenTerm") simp_all
qed

theorem rollover_respects_owner_limits_witness:
  "\<exists>c. valid_curve c \<and>
     (let target = (zero_config c) \<lparr> debt_term_seconds := 600 \<rparr>;
          ro = \<lparr> auto_rollover_enabled = 1, open_term_allowed = 0, migration_to_fixed_enabled = 0,
                 ro_max_borrow_rate_bps = 500, ro_min_debt_term_seconds = 600 \<rparr>
      in resolve_rollover_mode ro target target = Inr FromFixedToFixedTerm \<and>
         (\<exists>r. curve_get_borrow_rate std_lib c (fx_one div 2) = Inr r \<and>
            unat r \<le> 500 * fx_scale div 10000))"
proof -
  let ?c = "\<lparr> points = [curve_point_new 0 500, curve_point_new 10000 500] @
      replicate 9 (curve_point_new 10000 500) \<rparr>"
  let ?target = "(zero_config ?c) \<lparr> debt_term_seconds := 600 \<rparr>"
  let ?ro = "\<lparr> auto_rollover_enabled = 1, open_term_allowed = 0, migration_to_fixed_enabled = 0,
      ro_max_borrow_rate_bps = 500, ro_min_debt_term_seconds = 600 \<rparr>"
  have "curve_from_points [curve_point_new 0 500, curve_point_new 10000 500] = Inr ?c"
    by (subst curve_from_points_iff) (simp add: curve_point_new_def)
  then have valid: "valid_curve ?c" by (rule curve_from_points_valid)
  have "max_borrow_rate_bps ?target = Inr 500"
    by (simp add: max_borrow_rate_bps_def zero_config_def curve_point_new_def eval_nat_numeral)
  moreover have "get_debt_term_seconds ?target = Some 600"
    by (simp add: get_debt_term_seconds_def zero_config_def)
  ultimately have mode: "resolve_rollover_mode ?ro ?target ?target = Inr FromFixedToFixedTerm"
    by (simp add: resolve_rollover_mode_def resolve_rollover_from_fixed_term_mode_def
        is_auto_rollover_enabled_def)
  have "valid_curve (borrow_rate_curve ?target)" using valid by (simp add: zero_config_def)
  from rollover_respects_owner_limits [OF std.num_lib_axioms this mode] mode valid
  show ?thesis by (intro exI [of _ ?c]) (auto simp: Let_def zero_config_def)
qed

end
