(* ===== verification/Slots.thy ===== *)
theory Slots imports Prelude begin

text \<open>
  Arrays of slots. The program keeps the positions of an account in arrays of fixed length whose
  entries carry the address of a reserve; the default address marks a free slot. This theory holds
  Rust's \<open>Iterator::position\<close> and \<open>only_element\<close> (\<open>utils/validation.rs\<close>), the invariant of
  such an array (no reserve has two slots), and its meaning, a finite map from reserves to values.
  The locale \<open>slots\<close> states it for any record with a key and an empty value.
\<close>

section \<open>Searching\<close>

fun position :: "('a \<Rightarrow> bool) \<Rightarrow> 'a list \<Rightarrow> nat option" where
  "position P [] = None"
| "position P (x # xs) = (if P x then Some 0 else map_option Suc (position P xs))"

lemma position_eq_Some:
  "position P xs = Some i \<longleftrightarrow> i < length xs \<and> P (xs ! i) \<and> (\<forall>j < i. \<not> P (xs ! j))"
  by (induction xs arbitrary: i) (auto simp: nth_Cons less_Suc_eq_0_disj split: nat.splits)

lemma position_eq_None: "position P xs = None \<longleftrightarrow> (\<forall>x \<in> set xs. \<not> P x)"
  by (induction xs) auto

lemma find_position: "find P xs = map_option ((!) xs) (position P xs)"
  by (induction xs) (auto simp: option.map_comp o_def)

text \<open>The loop of \<open>only_element\<close>, with \<open>the_only\<close> as its state.\<close>

fun only_element_loop :: "'a option \<Rightarrow> 'a list \<Rightarrow> 'a option" where
  "only_element_loop the_only [] = the_only"
| "only_element_loop the_only (x # xs) =
     (if the_only \<noteq> None then None else only_element_loop (Some x) xs)"

definition only_element :: "'a list \<Rightarrow> 'a option" where
  "only_element xs = only_element_loop None xs"

lemma only_element_eq: "only_element xs = Some x \<longleftrightarrow> xs = [x]"
  by (cases xs; cases "tl xs") (auto simp: only_element_def)

section \<open>Slots\<close>

definition slots_ok :: "('a \<Rightarrow> pubkey) \<Rightarrow> 'a list \<Rightarrow> bool" where
  "slots_ok key xs \<longleftrightarrow> distinct (filter (\<lambda>k. k \<noteq> 0) (map key xs))"

definition slot_book :: "('a \<Rightarrow> pubkey) \<Rightarrow> ('a \<Rightarrow> 'v) \<Rightarrow> 'a list \<Rightarrow> pubkey \<rightharpoonup> 'v" where
  "slot_book key value_of xs k =
     (if k = 0 then None else map_option value_of (find (\<lambda>x. key x = k) xs))"

lemma slots_ok_iff:
  "slots_ok key xs \<longleftrightarrow>
     (\<forall>i < length xs. \<forall>j < length xs. key (xs ! i) = key (xs ! j) \<and> key (xs ! i) \<noteq> 0 \<longrightarrow> i = j)"
proof (induction xs)
  case Nil
  then show ?case by (simp add: slots_ok_def)
next
  case (Cons x xs)
  have "slots_ok key (x # xs) \<longleftrightarrow> slots_ok key xs \<and> (key x \<noteq> 0 \<longrightarrow> (\<forall>j < length xs. key (xs ! j) \<noteq> key x))"
    by (auto simp: slots_ok_def in_set_conv_nth image_iff) (metis nth_mem)
  with Cons.IH show ?case
    by (simp add: All_less_Suc2) metis
qed

lemma slot_book_eq_Some:
  assumes "slots_ok key xs"
  shows "slot_book key f xs k = Some v \<longleftrightarrow>
    k \<noteq> 0 \<and> (\<exists>i < length xs. key (xs ! i) = k \<and> f (xs ! i) = v)"
proof -
  have "i = j" if "position (\<lambda>x. key x = k) xs = Some i" "j < length xs" "key (xs ! j) = k" "k \<noteq> 0" for i j
    using assms that unfolding slots_ok_iff position_eq_Some by metis
  moreover have "\<exists>i. position (\<lambda>x. key x = k) xs = Some i" if "j < length xs" "key (xs ! j) = k" for j
    using that position_eq_None [of "\<lambda>x. key x = k" xs] nth_mem by (metis option.exhaust)
  ultimately show ?thesis
    by (auto simp: slot_book_def find_position position_eq_Some) (metis position_eq_Some)+
qed

lemma slot_book_eq_None:
  "slot_book key f xs k = None \<longleftrightarrow> k = 0 \<or> (\<forall>x \<in> set xs. key x \<noteq> k)"
  by (auto simp: slot_book_def find_None_iff)

lemma map_eqI: "(\<And>k v. m k = Some v \<longleftrightarrow> m' k = Some v) \<Longrightarrow> m = m'"
  by (rule ext) (metis option.exhaust)

text \<open>Writing a slot keeps the invariant if no other slot has the key, and updates the book.\<close>

lemma slots_ok_update:
  assumes "slots_ok key xs" "i < length xs"
    and "key y = 0 \<or> (\<forall>j < length xs. j \<noteq> i \<longrightarrow> key (xs ! j) \<noteq> key y)"
  shows "slots_ok key (xs[i := y])"
  unfolding slots_ok_iff
proof (intro allI impI)
  fix j k
  assume *: "j < length (xs[i := y])" "k < length (xs[i := y])"
    "key (xs[i := y] ! j) = key (xs[i := y] ! k) \<and> key (xs[i := y] ! j) \<noteq> 0"
  then show "j = k"
    using assms unfolding slots_ok_iff by (cases "j = i"; cases "k = i") (auto simp: nth_list_update)
qed

lemma slot_book_update:
  assumes "slots_ok key xs" "i < length xs"
    and "key y = 0 \<or> (\<forall>j < length xs. j \<noteq> i \<longrightarrow> key (xs ! j) \<noteq> key y)"
  shows "slot_book key f (xs[i := y]) =
    (let b = (slot_book key f xs)(key (xs ! i) := None) in if key y = 0 then b else b(key y \<mapsto> f y))"
proof (rule map_eqI)
  fix k v
  note ok' = slots_ok_update [OF assms]
  have "slot_book key f (xs[i := y]) k = Some v \<longleftrightarrow>
      k \<noteq> 0 \<and> (key y = k \<and> f y = v \<or> (\<exists>j < length xs. j \<noteq> i \<and> key (xs ! j) = k \<and> f (xs ! j) = v))"
    unfolding slot_book_eq_Some [OF ok'] using assms(2) by (auto simp: nth_list_update)
  moreover have "((slot_book key f xs)(key (xs ! i) := None)) k = Some v \<longleftrightarrow>
      k \<noteq> 0 \<and> (\<exists>j < length xs. j \<noteq> i \<and> key (xs ! j) = k \<and> f (xs ! j) = v)"
    using assms(1,2) slot_book_eq_Some [OF assms(1), of f k v] unfolding slots_ok_iff
    by (auto simp: slot_book_def)
  ultimately show "slot_book key f (xs[i := y]) k = Some v \<longleftrightarrow>
      (let b = (slot_book key f xs)(key (xs ! i) := None) in
       if key y = 0 then b else b(key y \<mapsto> f y)) k = Some v"
    using assms(3) by (auto simp: Let_def)
qed

section \<open>The interface\<close>

text \<open>
  A record type with a key and an empty value. What a client does to a slot is one of three
  things: it changes the value of a slot in use, it takes a free slot for a key that has none,
  or it clears a slot.
\<close>

locale slots =
  fixes key :: "'a \<Rightarrow> pubkey" and empty :: 'a
  assumes key_empty: "key empty = 0"
begin

lemma slots_ok_empty [simp]: "slots_ok key (replicate n empty)"
  by (simp add: slots_ok_def key_empty)

lemma slot_book_empty [simp]: "slot_book key f (replicate n empty) = Map.empty"
  by (rule ext) (auto simp: slot_book_eq_None key_empty)

lemma slot_book_at:
  "slots_ok key xs \<Longrightarrow> i < length xs \<Longrightarrow> key (xs ! i) \<noteq> 0 \<Longrightarrow>
   slot_book key f xs (key (xs ! i)) = Some (f (xs ! i))"
  by (auto simp: slot_book_eq_Some)

lemma change:
  assumes "slots_ok key xs" "i < length xs" "key (xs ! i) \<noteq> 0" "key y = key (xs ! i)"
  shows "slots_ok key (xs[i := y])"
    "slot_book key f (xs[i := y]) = (slot_book key f xs)(key (xs ! i) \<mapsto> f y)"
proof -
  have free: "key y = 0 \<or> (\<forall>j < length xs. j \<noteq> i \<longrightarrow> key (xs ! j) \<noteq> key y)"
    using assms unfolding slots_ok_iff by metis
  show "slots_ok key (xs[i := y])" using slots_ok_update [OF assms(1,2) free] .
  show "slot_book key f (xs[i := y]) = (slot_book key f xs)(key (xs ! i) \<mapsto> f y)"
    using slot_book_update [OF assms(1,2) free, of f] assms(3,4) by (simp add: Let_def)
qed

lemma take_free:
  assumes "slots_ok key xs" "i < length xs" "key (xs ! i) = 0" "key y = k" "k \<noteq> 0"
    and "\<forall>x \<in> set xs. key x \<noteq> k"
  shows "slots_ok key (xs[i := y])"
    "slot_book key f (xs[i := y]) = (slot_book key f xs)(k \<mapsto> f y)"
proof -
  have free: "key y = 0 \<or> (\<forall>j < length xs. j \<noteq> i \<longrightarrow> key (xs ! j) \<noteq> key y)"
    using assms(4,6) by auto
  have "(slot_book key f xs)(0 := None) = slot_book key f xs"
    by (auto simp: slot_book_def)
  then show "slots_ok key (xs[i := y])"
    "slot_book key f (xs[i := y]) = (slot_book key f xs)(k \<mapsto> f y)"
    using slots_ok_update [OF assms(1,2) free] slot_book_update [OF assms(1,2) free, of f] assms(3-5)
    by (simp_all add: Let_def)
qed

lemma clear:
  assumes "slots_ok key xs" "i < length xs"
  shows "slots_ok key (xs[i := empty])"
    "slot_book key f (xs[i := empty]) = (slot_book key f xs)(key (xs ! i) := None)"
  using slots_ok_update [OF assms, of empty] slot_book_update [OF assms, of empty f]
  by (simp_all add: key_empty)

lemma position_of_key:
  assumes "position (\<lambda>x. key x = k) xs = Some i" "k \<noteq> 0" "slots_ok key xs"
  shows "i < length xs" "key (xs ! i) = k" "slot_book key f xs k = Some (f (xs ! i))"
  using assms slot_book_at [of xs i f] by (auto simp: position_eq_Some)

lemma dom_book: "dom (slot_book key f xs) = set (filter (\<lambda>k. k \<noteq> 0) (map key xs))"
  by (auto simp: dom_def slot_book_def find_None_iff not_None_eq [symmetric] simp del: not_None_eq)

lemma card_book:
  "slots_ok key xs \<Longrightarrow> card (dom (slot_book key f xs)) = length (filter (\<lambda>x. key x \<noteq> 0) xs)"
  unfolding dom_book slots_ok_def by (simp only: distinct_card) (simp add: filter_map o_def)

lemma room_in_book:
  assumes "slots_ok key xs"
  shows "position (\<lambda>x. key x = 0) xs \<noteq> None \<longleftrightarrow> card (dom (slot_book key f xs)) < length xs"
proof
  assume "position (\<lambda>x. key x = 0) xs \<noteq> None"
  then obtain x where "x \<in> set xs" "key x = 0" by (auto simp: position_eq_None)
  then show "card (dom (slot_book key f xs)) < length xs"
    unfolding card_book [OF assms] by (intro length_filter_less [of x]) simp_all
next
  assume less: "card (dom (slot_book key f xs)) < length xs"
  show "position (\<lambda>x. key x = 0) xs \<noteq> None"
  proof
    assume "position (\<lambda>x. key x = 0) xs = None"
    then have "filter (\<lambda>x. key x \<noteq> 0) xs = xs" by (simp add: position_eq_None filter_id_conv)
    with less show False unfolding card_book [OF assms] by simp
  qed
qed

lemma empty_book: "list_all (\<lambda>x. key x = 0) xs \<longleftrightarrow> slot_book key f xs = Map.empty"
proof -
  have "slot_book key f xs = Map.empty \<longleftrightarrow> dom (slot_book key f xs) = {}" by simp
  also have "\<dots> \<longleftrightarrow> list_all (\<lambda>x. key x = 0) xs" unfolding dom_book by (auto simp: list_all_iff)
  finally show ?thesis by simp
qed

end

end
