(* ===== verification/Obligation.thy ===== *)
theory Obligation imports Slots Obligation_Loan begin

text \<open>
  The account of a borrower, \<open>Obligation\<close> of \<open>state/obligation.rs\<close>: up to eight collateral
  positions and five loans in arrays of slots, the values the last refresh computed, the mark for
  deleveraging, two conditional orders, one borrow order, and the ownership transfer. Padding is
  kept only where the code reads it (the orders).
\<close>

section \<open>Orders\<close>

record obligation_order =
  oo_condition_threshold_sf :: u128
  oo_opportunity_parameter_sf :: u128
  oo_min_execution_bonus_bps :: u16
  oo_max_execution_bonus_bps :: u16
  oo_condition_type :: u8
  oo_opportunity_type :: u8
  oo_padding1 :: "u8 list"
  oo_padding2 :: "u128 list"

definition obligation_order_default :: obligation_order where
  "obligation_order_default = \<lparr> oo_condition_threshold_sf = 0, oo_opportunity_parameter_sf = 0,
     oo_min_execution_bonus_bps = 0, oo_max_execution_bonus_bps = 0, oo_condition_type = 0,
     oo_opportunity_type = 0, oo_padding1 = replicate 10 0, oo_padding2 = replicate 5 0 \<rparr>"

definition order_is_active :: "obligation_order \<Rightarrow> bool" where
  "order_is_active ord \<longleftrightarrow> oo_condition_type ord \<noteq> 0"

record borrow_order =
  bo_debt_liquidity_mint :: pubkey
  bo_remaining_debt_amount :: u64
  bo_filled_debt_destination :: pubkey
  bo_min_debt_term_seconds :: u64
  bo_fillable_until_timestamp :: u64
  bo_placed_at_timestamp :: u64
  bo_last_updated_at_timestamp :: u64
  bo_requested_debt_amount :: u64
  bo_max_borrow_rate_bps :: u32
  bo_active :: u8
  bo_enable_auto_rollover_on_filled_borrows :: u8
  bo_padding1 :: "u8 list"
  bo_end_padding :: "u64 list"

definition borrow_order_default :: borrow_order where
  "borrow_order_default = \<lparr> bo_debt_liquidity_mint = 0, bo_remaining_debt_amount = 0,
     bo_filled_debt_destination = 0, bo_min_debt_term_seconds = 0, bo_fillable_until_timestamp = 0,
     bo_placed_at_timestamp = 0, bo_last_updated_at_timestamp = 0, bo_requested_debt_amount = 0,
     bo_max_borrow_rate_bps = 0, bo_active = 0, bo_enable_auto_rollover_on_filled_borrows = 0,
     bo_padding1 = replicate 2 0, bo_end_padding = replicate 5 0 \<rparr>"

definition get_min_debt_term_seconds :: "borrow_order \<Rightarrow> u64 option" where
  "get_min_debt_term_seconds bo =
     (if bo_min_debt_term_seconds bo = 0 then None else Some (bo_min_debt_term_seconds bo))"

definition clear_if_past_fillable_timestamp :: "borrow_order \<Rightarrow> u64 \<Rightarrow> borrow_order" where
  "clear_if_past_fillable_timestamp bo timestamp =
     (if bo \<noteq> borrow_order_default \<and> bo_fillable_until_timestamp bo < timestamp
      then borrow_order_default else bo)"

definition get_rollover_config_for_filled_borrow :: "borrow_order \<Rightarrow> rollover_config option" where
  "get_rollover_config_for_filled_borrow bo =
     (if bo_enable_auto_rollover_on_filled_borrows bo = 0 then None
      else Some \<lparr> auto_rollover_enabled = 1, open_term_allowed = 1,
             migration_to_fixed_enabled = (if bo_min_debt_term_seconds bo \<noteq> 0 then 1 else 0),
             ro_max_borrow_rate_bps = bo_max_borrow_rate_bps bo,
             ro_min_debt_term_seconds = bo_min_debt_term_seconds bo \<rparr>)"

section \<open>Collateral positions\<close>

record obligation_collateral =
  oc_deposit_reserve :: pubkey
  oc_deposited_amount :: u64
  oc_market_value_sf :: u128
  oc_borrowed_amount_against_this_collateral_in_elevation_group :: u64

definition obligation_collateral_new :: "pubkey \<Rightarrow> obligation_collateral" where
  "obligation_collateral_new deposit_reserve = \<lparr> oc_deposit_reserve = deposit_reserve,
     oc_deposited_amount = 0, oc_market_value_sf = 0,
     oc_borrowed_amount_against_this_collateral_in_elevation_group = 0 \<rparr>"

definition obligation_collateral_default :: obligation_collateral where
  "obligation_collateral_default = obligation_collateral_new 0"

definition collateral_deposit :: "obligation_collateral \<Rightarrow> u64 \<Rightarrow> obligation_collateral res" where
  "collateral_deposit c collateral_amount =
     rbind (ok_or (checked_add (oc_deposited_amount c) collateral_amount) (LendingErr MathOverflow))
       (\<lambda>a. Inr (c\<lparr> oc_deposited_amount := a \<rparr>))"

definition collateral_withdraw :: "obligation_collateral \<Rightarrow> u64 \<Rightarrow> obligation_collateral res" where
  "collateral_withdraw c collateral_amount =
     rbind (ok_or (checked_sub (oc_deposited_amount c) collateral_amount) (LendingErr MathOverflow))
       (\<lambda>a. Inr (c\<lparr> oc_deposited_amount := a \<rparr>))"

definition collateral_is_active :: "obligation_collateral \<Rightarrow> bool" where
  "collateral_is_active c \<longleftrightarrow> oc_deposit_reserve c \<noteq> 0"

section \<open>The obligation\<close>

text \<open>\<open>NotTransferring\<close> is the variant \<open>None\<close> of the code.\<close>

datatype transfer_stage = NotTransferring | Initiated | Approved

definition transfer_stage_of_u8 :: "u8 \<Rightarrow> transfer_stage option" where
  "transfer_stage_of_u8 b =
     (if b = 0 then Some NotTransferring else if b = 1 then Some Initiated
      else if b = 2 then Some Approved else None)"

fun transfer_stage_to_u8 :: "transfer_stage \<Rightarrow> u8" where
  "transfer_stage_to_u8 NotTransferring = 0"
| "transfer_stage_to_u8 Initiated = 1"
| "transfer_stage_to_u8 Approved = 2"

record obligation =
  ob_tag :: u64
  ob_last_update :: last_update
  ob_lending_market :: pubkey
  ob_owner :: pubkey
  ob_deposits :: "obligation_collateral list"
  ob_lowest_reserve_deposit_liquidation_ltv :: u64
  ob_deposited_value_sf :: u128
  ob_borrows :: "obligation_liquidity list"
  ob_borrow_factor_adjusted_debt_value_sf :: u128
  ob_borrowed_assets_market_value_sf :: u128
  ob_allowed_borrow_value_sf :: u128
  ob_unhealthy_borrow_value_sf :: u128
  ob_elevation_group :: u8
  ob_num_of_obsolete_deposit_reserves :: u8
  ob_has_debt :: u8
  ob_referrer :: pubkey
  ob_borrowing_disabled :: u8
  ob_autodeleverage_target_ltv_pct :: u8
  ob_lowest_reserve_deposit_max_ltv_pct :: u8
  ob_num_of_obsolete_borrow_reserves :: u8
  ob_ownership_transfer_state :: u8
  ob_highest_borrow_factor_pct :: u64
  ob_autodeleverage_margin_call_started_timestamp :: u64
  ob_obligation_orders :: "obligation_order list"
  ob_borrow_order :: borrow_order
  ob_pending_owner :: pubkey

definition ELEVATION_GROUP_NONE :: u8 where "ELEVATION_GROUP_NONE = 0"

definition obligation_default :: obligation where
  "obligation_default = \<lparr>
     ob_tag = 0, ob_last_update = last_update_default, ob_lending_market = 0, ob_owner = 0,
     ob_deposits = replicate 8 obligation_collateral_default,
     ob_lowest_reserve_deposit_liquidation_ltv = 0, ob_deposited_value_sf = 0,
     ob_borrows = replicate 5 obligation_liquidity_default,
     ob_borrow_factor_adjusted_debt_value_sf = 0, ob_borrowed_assets_market_value_sf = 0,
     ob_allowed_borrow_value_sf = 0, ob_unhealthy_borrow_value_sf = 0,
     ob_elevation_group = ELEVATION_GROUP_NONE, ob_num_of_obsolete_deposit_reserves = 0,
     ob_has_debt = 0, ob_referrer = 0, ob_borrowing_disabled = 0,
     ob_autodeleverage_target_ltv_pct = 0, ob_lowest_reserve_deposit_max_ltv_pct = 0,
     ob_num_of_obsolete_borrow_reserves = 0,
     ob_ownership_transfer_state = transfer_stage_to_u8 NotTransferring,
     ob_highest_borrow_factor_pct = 0, ob_autodeleverage_margin_call_started_timestamp = 0,
     ob_obligation_orders = replicate 2 obligation_order_default,
     ob_borrow_order = borrow_order_default, ob_pending_owner = 0 \<rparr>"

record init_obligation_params =
  iop_current_slot :: u64
  iop_lending_market :: pubkey
  iop_owner :: pubkey
  iop_deposits :: "obligation_collateral list"
  iop_borrows :: "obligation_liquidity list"
  iop_tag :: u64
  iop_referrer :: pubkey

definition obligation_init :: "init_obligation_params \<Rightarrow> obligation" where
  "obligation_init params = obligation_default \<lparr>
     ob_tag := iop_tag params,
     ob_last_update := last_update_new (iop_current_slot params),
     ob_lending_market := iop_lending_market params,
     ob_owner := iop_owner params,
     ob_deposits := iop_deposits params,
     ob_borrows := iop_borrows params,
     ob_referrer := iop_referrer params \<rparr>"

section \<open>Values\<close>

definition loan_to_value :: "numlib \<Rightarrow> obligation \<Rightarrow> frac res" where
  "loan_to_value L ob =
     fx_div L (ob_borrow_factor_adjusted_debt_value_sf ob) (ob_deposited_value_sf ob)"

definition no_bf_loan_to_value :: "numlib \<Rightarrow> obligation \<Rightarrow> frac res" where
  "no_bf_loan_to_value L ob =
     fx_div L (ob_borrowed_assets_market_value_sf ob) (ob_deposited_value_sf ob)"

definition unhealthy_loan_to_value :: "numlib \<Rightarrow> obligation \<Rightarrow> frac res" where
  "unhealthy_loan_to_value L ob =
     fx_div L (ob_unhealthy_borrow_value_sf ob) (ob_deposited_value_sf ob)"

datatype ltv_max_withdrawal_check = MaxLtv | LiquidationThreshold

definition max_withdraw_value ::
  "numlib \<Rightarrow> obligation \<Rightarrow> obligation_collateral \<Rightarrow> u8 \<Rightarrow> u8 \<Rightarrow> ltv_max_withdrawal_check \<Rightarrow> frac res" where
  "max_withdraw_value L ob c reserve_max_ltv_pct reserve_liq_threshold_pct check =
     (let (highest_allowed_borrow_value, withdraw_collateral_ltv_pct) =
        (if check = LiquidationThreshold
         then (saturating_sub (ob_unhealthy_borrow_value_sf ob) 1, reserve_liq_threshold_pct)
         else (ob_allowed_borrow_value_sf ob, reserve_max_ltv_pct));
        debt = ob_borrow_factor_adjusted_debt_value_sf ob
      in if highest_allowed_borrow_value \<le> debt then Inr 0
         else if withdraw_collateral_ltv_pct = 0 then Inr (oc_market_value_sf c)
         else rbind (fx_mul_int L (fx_saturating_sub L highest_allowed_borrow_value debt) 100) (\<lambda>p.
              fx_div_int L p (ucast withdraw_collateral_ltv_pct)))"

definition remaining_borrow_value :: "obligation \<Rightarrow> frac" where
  "remaining_borrow_value ob =
     saturating_sub (ob_allowed_borrow_value_sf ob) (ob_borrow_factor_adjusted_debt_value_sf ob)"

section \<open>Slots in use\<close>

definition active_deposits :: "obligation \<Rightarrow> obligation_collateral list" where
  "active_deposits ob = filter collateral_is_active (ob_deposits ob)"

definition active_borrows :: "obligation \<Rightarrow> obligation_liquidity list" where
  "active_borrows ob = filter loan_is_active (ob_borrows ob)"

definition active_deposits_count :: "obligation \<Rightarrow> nat" where
  "active_deposits_count ob = length (active_deposits ob)"

definition active_borrows_count :: "obligation \<Rightarrow> nat" where
  "active_borrows_count ob = length (active_borrows ob)"

definition is_active_deposits_empty :: "obligation \<Rightarrow> bool" where
  "is_active_deposits_empty ob = list_all (\<lambda>c. \<not> collateral_is_active c) (ob_deposits ob)"

definition is_active_borrows_empty :: "obligation \<Rightarrow> bool" where
  "is_active_borrows_empty ob = list_all (\<lambda>l. \<not> loan_is_active l) (ob_borrows ob)"

definition find_collateral_in_deposits :: "obligation \<Rightarrow> pubkey \<Rightarrow> obligation_collateral res" where
  "find_collateral_in_deposits ob deposit_reserve =
     (if is_active_deposits_empty ob then fail ObligationDepositsEmpty
      else ok_or (find (\<lambda>c. oc_deposit_reserve c = deposit_reserve) (ob_deposits ob))
             (LendingErr InvalidObligationCollateral))"

text \<open>
  The code returns a reference to the slot; the model returns the obligation with the index of
  that slot.
\<close>

definition find_or_add_collateral_to_deposits ::
  "obligation \<Rightarrow> pubkey \<Rightarrow> (obligation \<times> nat \<times> bool) res" where
  "find_or_add_collateral_to_deposits ob deposit_reserve =
     (case position (\<lambda>c. oc_deposit_reserve c = deposit_reserve) (ob_deposits ob) of
        Some i \<Rightarrow> Inr (ob, i, False)
      | None \<Rightarrow>
          (case position (\<lambda>c. \<not> collateral_is_active c) (ob_deposits ob) of
             Some i \<Rightarrow>
               Inr (ob\<lparr> ob_deposits := (ob_deposits ob)[i := obligation_collateral_new deposit_reserve] \<rparr>,
                    i, True)
           | None \<Rightarrow> fail ObligationReserveLimit))"

definition position_of_collateral_in_deposits :: "obligation \<Rightarrow> pubkey \<Rightarrow> nat res" where
  "position_of_collateral_in_deposits ob deposit_reserve =
     (if is_active_deposits_empty ob then fail ObligationDepositsEmpty
      else ok_or (position (\<lambda>c. oc_deposit_reserve c = deposit_reserve) (ob_deposits ob))
             (LendingErr InvalidObligationCollateral))"

definition find_liquidity_index_in_borrows :: "obligation \<Rightarrow> pubkey \<Rightarrow> nat option" where
  "find_liquidity_index_in_borrows ob borrow_reserve =
     position (\<lambda>l. ol_borrow_reserve l = borrow_reserve) (ob_borrows ob)"

definition find_liquidity_in_borrows ::
  "obligation \<Rightarrow> pubkey \<Rightarrow> (obligation_liquidity \<times> nat) res" where
  "find_liquidity_in_borrows ob borrow_reserve =
     (if is_active_borrows_empty ob then fail ObligationBorrowsEmpty
      else rbind (ok_or (find_liquidity_index_in_borrows ob borrow_reserve)
                    (LendingErr InvalidObligationLiquidity)) (\<lambda>i.
           Inr (ob_borrows ob ! i, i)))"

definition find_or_add_liquidity_to_borrows ::
  "obligation \<Rightarrow> pubkey \<Rightarrow> big_fraction \<Rightarrow> (obligation \<times> nat) res" where
  "find_or_add_liquidity_to_borrows ob borrow_reserve cumulative_borrow_rate =
     (case find_liquidity_index_in_borrows ob borrow_reserve of
        Some i \<Rightarrow> Inr (ob, i)
      | None \<Rightarrow>
          (case position (\<lambda>l. \<not> loan_is_active l) (ob_borrows ob) of
             Some i \<Rightarrow>
               Inr (ob\<lparr> ob_borrows := (ob_borrows ob)
                      [i := obligation_liquidity_new borrow_reserve cumulative_borrow_rate] \<rparr>, i)
           | None \<Rightarrow> fail ObligationReserveLimit))"

definition get_active_borrow :: "obligation \<Rightarrow> nat \<Rightarrow> obligation_liquidity res" where
  "get_active_borrow ob i =
     (if i < length (ob_borrows ob)
      then if loan_is_active (ob_borrows ob ! i) then Inr (ob_borrows ob ! i)
           else fail InvalidObligationLiquidity
      else fail InvalidObligationLiquidity)"

definition get_borrowed_amount_if_single_token :: "numlib \<Rightarrow> obligation \<Rightarrow> u64 option res" where
  "get_borrowed_amount_if_single_token L ob =
     (if active_borrows_count ob > 1 then Inr None
      else rbind (fold (\<lambda>l s. rbind s (\<lambda>n. add_ov n (ol_borrowed_amount_sf l))) (ob_borrows ob) (Inr 0))
             (\<lambda>total_sf. rbind (to_ceil L total_sf) (\<lambda>n. Inr (Some n))))"

definition single_debt :: "obligation \<Rightarrow> obligation_liquidity option" where
  "single_debt ob = only_element (active_borrows ob)"

definition single_collateral :: "obligation \<Rightarrow> obligation_collateral option" where
  "single_collateral ob = only_element (active_deposits ob)"

definition is_single_debt_single_coll :: "obligation \<Rightarrow> bool" where
  "is_single_debt_single_coll ob \<longleftrightarrow> active_deposits_count ob = 1 \<and> active_borrows_count ob = 1"

definition has_referrer :: "obligation \<Rightarrow> bool" where
  "has_referrer ob \<longleftrightarrow> ob_referrer ob \<noteq> 0"

definition update_has_debt :: "obligation \<Rightarrow> obligation" where
  "update_has_debt ob = ob\<lparr> ob_has_debt := (if \<not> is_active_borrows_empty ob then 1 else 0) \<rparr>"

definition has_debt :: "obligation \<Rightarrow> bool" where
  "has_debt ob \<longleftrightarrow> ob_has_debt ob = 1"

definition has_obsolete_reserves :: "obligation \<Rightarrow> bool" where
  "has_obsolete_reserves ob \<longleftrightarrow>
     ob_num_of_obsolete_borrow_reserves ob > 0 \<or> ob_num_of_obsolete_deposit_reserves ob > 0"

section \<open>Repaying and withdrawing\<close>

definition obligation_repay :: "numlib \<Rightarrow> obligation \<Rightarrow> frac \<Rightarrow> nat \<Rightarrow> obligation res" where
  "obligation_repay L ob settle_amount i =
     (if i < length (ob_borrows ob)
      then if settle_amount = ol_borrowed_amount_sf (ob_borrows ob ! i)
           then Inr (ob\<lparr> ob_borrows := (ob_borrows ob)[i := obligation_liquidity_default] \<rparr>)
           else rbind (loan_repay L (ob_borrows ob ! i) settle_amount) (\<lambda>l.
                Inr (ob\<lparr> ob_borrows := (ob_borrows ob)[i := l] \<rparr>))
      else Inl Panic)"

datatype withdraw_result = Full | Partial

definition obligation_withdraw :: "obligation \<Rightarrow> u64 \<Rightarrow> nat \<Rightarrow> (obligation \<times> withdraw_result) res" where
  "obligation_withdraw ob withdraw_amount i =
     (if i < length (ob_deposits ob)
      then if withdraw_amount = oc_deposited_amount (ob_deposits ob ! i)
           then Inr (ob\<lparr> ob_deposits := (ob_deposits ob)[i := obligation_collateral_default] \<rparr>, Full)
           else rbind (collateral_withdraw (ob_deposits ob ! i) withdraw_amount) (\<lambda>c.
                Inr (ob\<lparr> ob_deposits := (ob_deposits ob)[i := c] \<rparr>, Partial))
      else Inl Panic)"

section \<open>Deleveraging marks and ownership\<close>

definition is_marked_for_deleveraging :: "obligation \<Rightarrow> bool" where
  "is_marked_for_deleveraging ob \<longleftrightarrow> ob_autodeleverage_margin_call_started_timestamp ob \<noteq> 0"

definition mark_for_deleveraging :: "obligation \<Rightarrow> u64 \<Rightarrow> u8 \<Rightarrow> obligation res" where
  "mark_for_deleveraging ob current_timestamp target_ltv_pct =
     (if current_timestamp = 0 then Inl Panic
      else Inr (ob\<lparr> ob_autodeleverage_margin_call_started_timestamp := current_timestamp,
                  ob_autodeleverage_target_ltv_pct := target_ltv_pct \<rparr>))"

definition unmark_for_deleveraging :: "obligation \<Rightarrow> obligation" where
  "unmark_for_deleveraging ob = ob\<lparr> ob_autodeleverage_margin_call_started_timestamp := 0,
     ob_autodeleverage_target_ltv_pct := 0 \<rparr>"

definition check_not_marked_for_deleveraging :: "obligation \<Rightarrow> unit res" where
  "check_not_marked_for_deleveraging ob =
     (if is_marked_for_deleveraging ob then fail ObligationCurrentlyMarkedForDeleveraging else Inr ())"

definition ownership_transfer_state :: "obligation \<Rightarrow> transfer_stage res" where
  "ownership_transfer_state ob =
     ok_or (transfer_stage_of_u8 (ob_ownership_transfer_state ob)) Panic"

definition check_ownership_transfer_not_in_progress :: "obligation \<Rightarrow> unit res" where
  "check_ownership_transfer_not_in_progress ob =
     rbind (ownership_transfer_state ob) (\<lambda>s.
     if s \<noteq> NotTransferring then fail ObligationOwnershipTransferInProgress else Inr ())"

definition check_ownership_transfer_in_initiated_state :: "obligation \<Rightarrow> unit res" where
  "check_ownership_transfer_in_initiated_state ob =
     rbind (ownership_transfer_state ob) (\<lambda>s.
     if s \<noteq> Initiated then fail ObligationOwnershipTransferNotInInitiatedState else Inr ())"

definition check_ownership_transfer_approved :: "obligation \<Rightarrow> unit res" where
  "check_ownership_transfer_approved ob =
     rbind (ownership_transfer_state ob) (\<lambda>s.
     if s \<noteq> Approved then fail ObligationOwnershipTransferNotApproved else Inr ())"

definition initiate_ownership_transfer :: "obligation \<Rightarrow> pubkey \<Rightarrow> obligation res" where
  "initiate_ownership_transfer ob pending_owner =
     (if pending_owner = 0 then fail ObligationInvalidPendingOwner
      else if pending_owner = ob_owner ob then fail ObligationInvalidPendingOwner
      else Inr (ob\<lparr> ob_ownership_transfer_state := transfer_stage_to_u8 Initiated,
                  ob_pending_owner := pending_owner \<rparr>))"

definition approve_ownership_transfer :: "obligation \<Rightarrow> obligation" where
  "approve_ownership_transfer ob =
     ob\<lparr> ob_ownership_transfer_state := transfer_stage_to_u8 Approved \<rparr>"

definition accept_ownership :: "obligation \<Rightarrow> obligation" where
  "accept_ownership ob = ob\<lparr> ob_owner := ob_pending_owner ob, ob_pending_owner := 0,
     ob_ownership_transfer_state := transfer_stage_to_u8 NotTransferring \<rparr>"

definition abort_ownership_transfer :: "obligation \<Rightarrow> obligation" where
  "abort_ownership_transfer ob = ob\<lparr> ob_pending_owner := 0,
     ob_ownership_transfer_state := transfer_stage_to_u8 NotTransferring \<rparr>"

end
