(* ===== verification/Obligation_Books.thy ===== *)
theory Obligation_Books imports Obligation begin

text \<open>
  What the slot arrays of an obligation mean: a book of deposits and a book of debts, finite maps
  from reserves to amounts. The abstract operations on a book are stated without slots, and the
  operations of \<open>state/obligation.rs\<close>, composed as the lending operations compose them (look the
  slot up or take a free one, then change it), are shown to implement them, errors included.
\<close>

section \<open>Books\<close>

definition deposit_book :: "obligation \<Rightarrow> pubkey \<rightharpoonup> nat" where
  "deposit_book ob = slot_book oc_deposit_reserve (\<lambda>c. unat (oc_deposited_amount c)) (ob_deposits ob)"

definition debt_book :: "obligation \<Rightarrow> pubkey \<rightharpoonup> nat" where
  "debt_book ob = slot_book ol_borrow_reserve debt_bits (ob_borrows ob)"

definition obligation_ok :: "obligation \<Rightarrow> bool" where
  "obligation_ok ob \<longleftrightarrow> slots_ok oc_deposit_reserve (ob_deposits ob) \<and>
     slots_ok ol_borrow_reserve (ob_borrows ob) \<and>
     length (ob_deposits ob) = 8 \<and> length (ob_borrows ob) = 5"

interpretation deposits: slots oc_deposit_reserve obligation_collateral_default
  by unfold_locales (simp add: obligation_collateral_default_def obligation_collateral_new_def)

interpretation borrows: slots ol_borrow_reserve obligation_liquidity_default
  by unfold_locales (simp add: obligation_liquidity_default_def obligation_liquidity_new_def)

text \<open>The abstract operations.\<close>

definition book_open :: "nat \<Rightarrow> (pubkey \<rightharpoonup> nat) \<Rightarrow> pubkey \<Rightarrow> nat res" where
  "book_open capacity b r = (case b r of
     Some n \<Rightarrow> Inr n
   | None \<Rightarrow> if card (dom b) < capacity then Inr 0 else fail ObligationReserveLimit)"

definition book_deposit :: "(pubkey \<rightharpoonup> nat) \<Rightarrow> pubkey \<Rightarrow> nat \<Rightarrow> (pubkey \<rightharpoonup> nat) res" where
  "book_deposit b r a = rbind (book_open 8 b r) (\<lambda>n.
     if n + a < 2 ^ 64 then Inr (b(r \<mapsto> n + a)) else fail MathOverflow)"

definition book_withdraw :: "(pubkey \<rightharpoonup> nat) \<Rightarrow> pubkey \<Rightarrow> nat \<Rightarrow> (pubkey \<rightharpoonup> nat) res" where
  "book_withdraw b r a =
     (if b = Map.empty then fail ObligationDepositsEmpty
      else case b r of
        None \<Rightarrow> fail InvalidObligationCollateral
      | Some n \<Rightarrow> if a = n then Inr (b(r := None))
                else if a < n then Inr (b(r \<mapsto> n - a)) else fail MathOverflow)"

definition book_borrow :: "(pubkey \<rightharpoonup> nat) \<Rightarrow> pubkey \<Rightarrow> nat \<Rightarrow> (pubkey \<rightharpoonup> nat) res" where
  "book_borrow b r a = rbind (book_open 5 b r) (\<lambda>n.
     if n + a < 2 ^ 128 then Inr (b(r \<mapsto> n + a)) else Inl Panic)"

definition book_repay :: "(pubkey \<rightharpoonup> nat) \<Rightarrow> pubkey \<Rightarrow> nat \<Rightarrow> (pubkey \<rightharpoonup> nat) res" where
  "book_repay b r a =
     (if b = Map.empty then fail ObligationBorrowsEmpty
      else case b r of
        None \<Rightarrow> fail InvalidObligationLiquidity
      | Some n \<Rightarrow> if a = n then Inr (b(r := None))
                else if a < n then Inr (b(r \<mapsto> n - a)) else Inl Panic)"

text \<open>The operations of the code, composed.\<close>

definition deposit_into :: "obligation \<Rightarrow> pubkey \<Rightarrow> u64 \<Rightarrow> obligation res" where
  "deposit_into ob r a =
     rbind (find_or_add_collateral_to_deposits ob r) (\<lambda>(ob', i, _).
     rbind (collateral_deposit (ob_deposits ob' ! i) a) (\<lambda>c.
     Inr (ob'\<lparr> ob_deposits := (ob_deposits ob')[i := c] \<rparr>)))"

definition withdraw_from :: "obligation \<Rightarrow> pubkey \<Rightarrow> u64 \<Rightarrow> obligation res" where
  "withdraw_from ob r a =
     rbind (position_of_collateral_in_deposits ob r) (\<lambda>i.
     rbind (obligation_withdraw ob a i) (\<lambda>(ob', _). Inr ob'))"

definition borrow_from ::
  "numlib \<Rightarrow> obligation \<Rightarrow> pubkey \<Rightarrow> big_fraction \<Rightarrow> frac \<Rightarrow> u64 \<Rightarrow> obligation res" where
  "borrow_from L ob r rate a timestamp =
     rbind (find_or_add_liquidity_to_borrows ob r rate) (\<lambda>(ob', i).
     rbind (loan_borrow L (ob_borrows ob' ! i) a timestamp) (\<lambda>l.
     Inr (ob'\<lparr> ob_borrows := (ob_borrows ob')[i := l] \<rparr>)))"

definition repay_to :: "numlib \<Rightarrow> obligation \<Rightarrow> pubkey \<Rightarrow> frac \<Rightarrow> obligation res" where
  "repay_to L ob r a =
     rbind (find_liquidity_in_borrows ob r) (\<lambda>(_, i). obligation_repay L ob a i)"

lemmas obligation_steps = deposit_into_def withdraw_from_def borrow_from_def repay_to_def
  find_or_add_collateral_to_deposits_def position_of_collateral_in_deposits_def
  find_or_add_liquidity_to_borrows_def find_liquidity_in_borrows_def
  find_liquidity_index_in_borrows_def obligation_withdraw_def obligation_repay_def
  collateral_deposit_def collateral_withdraw_def loan_borrow_def loan_repay_def

section \<open>Slots hold books\<close>

lemma collateral_is_active_iff: "\<not> collateral_is_active c \<longleftrightarrow> oc_deposit_reserve c = 0"
  by (simp add: collateral_is_active_def)

lemma loan_is_active_iff: "\<not> loan_is_active l \<longleftrightarrow> ol_borrow_reserve l = 0"
  by (simp add: loan_is_active_def)

text \<open>The slot that a lookup finds, for any kind of slot.\<close>

context slots begin

lemma lookup_Some:
  assumes "slots_ok key xs" "slot_book key f xs k = Some v"
  obtains i where "position (\<lambda>x. key x = k) xs = Some i" "i < length xs" "key (xs ! i) = k"
    "f (xs ! i) = v" "k \<noteq> 0"
proof -
  have k: "k \<noteq> 0" and "position (\<lambda>x. key x = k) xs \<noteq> None"
    using assms(2) by (auto simp: slot_book_def find_position split: if_splits)
  then obtain i where i: "position (\<lambda>x. key x = k) xs = Some i" by blast
  note at = position_of_key [OF i k assms(1)]
  with that [OF i at(1,2) _ k] at(3) [of f] assms(2) show thesis by simp
qed

lemma lookup_None:
  assumes "slot_book key f xs k = None" "k \<noteq> 0"
  shows "position (\<lambda>x. key x = k) xs = None" "\<forall>x \<in> set xs. key x \<noteq> k"
  using assms by (auto simp: slot_book_eq_None position_eq_None)

end

text \<open>A refinement of results: equal errors, and the abstraction of the value.\<close>

definition refines :: "('a \<Rightarrow> 'b) \<Rightarrow> ('a \<Rightarrow> bool) \<Rightarrow> 'a res \<Rightarrow> 'b res \<Rightarrow> bool" where
  "refines view invar m m' = (case m of
     Inl e \<Rightarrow> m' = Inl e
   | Inr x \<Rightarrow> m' = Inr (view x) \<and> invar x)"

lemma refines_simps [simp]:
  "refines view invar (Inl e) m' \<longleftrightarrow> m' = Inl e"
  "refines view invar (Inr x) m' \<longleftrightarrow> m' = Inr (view x) \<and> invar x"
  by (simp_all add: refines_def)

lemma checked_add_cases:
  "checked_add a b = (if unat a + unat b < 2 ^ LENGTH('a) then Some (a + b) else None)"
  "unat a + unat b < 2 ^ LENGTH('a) \<Longrightarrow> unat (a + b) = unat a + unat b"
  for a b :: "'a::len word"
  by (auto simp: checked_add_def to_word_opt_def unat_word_ariths)

lemmas u64_add_fits = checked_add_cases(2) [where ?'a = 64, simplified]

lemma deposit_refines:
  assumes "obligation_ok ob" "r \<noteq> 0"
  shows "refines deposit_book (\<lambda>ob'. obligation_ok ob' \<and> debt_book ob' = debt_book ob)
    (deposit_into ob r a) (book_deposit (deposit_book ob) r (unat a))"
proof -
  let ?xs = "ob_deposits ob" and ?f = "\<lambda>c. unat (oc_deposited_amount c)"
  have ok: "slots_ok oc_deposit_reserve ?xs" using assms(1) by (simp add: obligation_ok_def)
  show ?thesis
  proof (cases "deposit_book ob r")
    case (Some n)
    then obtain i where i: "position (\<lambda>x. oc_deposit_reserve x = r) ?xs = Some i" "i < length ?xs"
      "oc_deposit_reserve (?xs ! i) = r" "?f (?xs ! i) = n" "r \<noteq> 0"
      unfolding deposit_book_def by (rule deposits.lookup_Some [OF ok])
    let ?c = "(?xs ! i)\<lparr> oc_deposited_amount := oc_deposited_amount (?xs ! i) + a \<rparr>"
    have "oc_deposit_reserve ?c = oc_deposit_reserve (?xs ! i)" by simp
    note change = deposits.change [OF ok i(2) _ this]
    have "deposit_into ob r a = (if n + unat a < 2 ^ 64
        then Inr (ob\<lparr> ob_deposits := ?xs[i := ?c] \<rparr>) else fail MathOverflow)"
      using i by (simp add: deposit_into_def find_or_add_collateral_to_deposits_def
          collateral_deposit_def checked_add_cases(1) fail_def)
    moreover have "n + unat a < 2 ^ 64 \<Longrightarrow> ?f ?c = n + unat a"
      using i(4) by (simp add: u64_add_fits)
    ultimately show ?thesis
      using assms i(3) Some change(1) change(2) [of ?f] i(5)
      by (simp add: book_deposit_def book_open_def deposit_book_def debt_book_def obligation_ok_def
          fail_def)
  next
    case None
    note none = deposits.lookup_None [OF None [unfolded deposit_book_def] assms(2)]
    have room: "position (\<lambda>c. \<not> collateral_is_active c) ?xs \<noteq> None \<longleftrightarrow> card (dom (deposit_book ob)) < 8"
      using deposits.room_in_book [OF ok, of ?f] assms(1)
      by (simp only: collateral_is_active_iff deposit_book_def obligation_ok_def)
    show ?thesis
    proof (cases "position (\<lambda>c. \<not> collateral_is_active c) ?xs")
      case full: None
      with none(1) None room show ?thesis
        by (simp add: deposit_into_def find_or_add_collateral_to_deposits_def book_deposit_def
            book_open_def fail_def)
    next
      case (Some i)
      then have i: "i < length ?xs" "oc_deposit_reserve (?xs ! i) = 0"
        by (auto simp: position_eq_Some collateral_is_active_def)
      let ?c = "(obligation_collateral_new r) \<lparr> oc_deposited_amount := a \<rparr>"
      have "oc_deposit_reserve ?c = r" by (simp add: obligation_collateral_new_def)
      note take = deposits.take_free [OF ok i this assms(2) none(2)]
      have "deposit_into ob r a = Inr (ob\<lparr> ob_deposits := ?xs[i := ?c] \<rparr>)"
        using none(1) Some i(1)
        by (simp add: deposit_into_def find_or_add_collateral_to_deposits_def collateral_deposit_def
            checked_add_cases(1) u64_lt [simplified] obligation_collateral_new_def)
      moreover have "card (dom (deposit_book ob)) < 8" using Some room by simp
      ultimately show ?thesis
        using take take(2) [of ?f] None u64_lt [of a] assms(1)
        by (simp add: book_deposit_def book_open_def deposit_book_def debt_book_def obligation_ok_def)
    qed
  qed
qed

lemma no_deposits: "is_active_deposits_empty ob \<longleftrightarrow> deposit_book ob = Map.empty"
  by (simp add: is_active_deposits_empty_def collateral_is_active_iff deposit_book_def
      deposits.empty_book)

lemma no_debts: "is_active_borrows_empty ob \<longleftrightarrow> debt_book ob = Map.empty"
  by (simp add: is_active_borrows_empty_def loan_is_active_iff debt_book_def borrows.empty_book)

lemma withdraw_refines:
  assumes "obligation_ok ob" "r \<noteq> 0"
  shows "refines deposit_book (\<lambda>ob'. obligation_ok ob' \<and> debt_book ob' = debt_book ob)
    (withdraw_from ob r a) (book_withdraw (deposit_book ob) r (unat a))"
proof (cases "deposit_book ob = Map.empty")
  case True
  then have "withdraw_from ob r a = fail ObligationDepositsEmpty"
    by (simp add: withdraw_from_def position_of_collateral_in_deposits_def no_deposits fail_def)
  with True show ?thesis by (simp add: book_withdraw_def fail_def)
next
  case some: False
  let ?xs = "ob_deposits ob" and ?f = "\<lambda>c. unat (oc_deposited_amount c)"
  have ok: "slots_ok oc_deposit_reserve ?xs" using assms(1) by (simp add: obligation_ok_def)
  show ?thesis
  proof (cases "deposit_book ob r")
    case None
    with deposits.lookup_None(1) [OF None [unfolded deposit_book_def] assms(2)] some show ?thesis
      by (simp add: withdraw_from_def position_of_collateral_in_deposits_def no_deposits
          book_withdraw_def fail_def)
  next
    case (Some n)
    then obtain i where i: "position (\<lambda>x. oc_deposit_reserve x = r) ?xs = Some i" "i < length ?xs"
      "oc_deposit_reserve (?xs ! i) = r" "?f (?xs ! i) = n" "r \<noteq> 0"
      unfolding deposit_book_def by (rule deposits.lookup_Some [OF ok])
    let ?c = "(?xs ! i)\<lparr> oc_deposited_amount := oc_deposited_amount (?xs ! i) - a \<rparr>"
    have "oc_deposit_reserve ?c = oc_deposit_reserve (?xs ! i)" by simp
    note change = deposits.change [OF ok i(2) _ this] and clear = deposits.clear [OF ok i(2)]
    have "a = oc_deposited_amount (?xs ! i) \<longleftrightarrow> unat a = n" using i(4) word_unat_eqI by metis
    then have "withdraw_from ob r a =
        (if unat a = n then Inr (ob\<lparr> ob_deposits := ?xs[i := obligation_collateral_default] \<rparr>)
         else if unat a < n then Inr (ob\<lparr> ob_deposits := ?xs[i := ?c] \<rparr>) else fail MathOverflow)"
      using i some by (auto simp: withdraw_from_def position_of_collateral_in_deposits_def no_deposits
          obligation_withdraw_def collateral_withdraw_def checked_sub_def fail_def word_le_nat_alt)
    moreover have "unat a < n \<Longrightarrow> ?f ?c = n - unat a"
      using i(4) by (simp add: unat_sub word_le_nat_alt)
    ultimately show ?thesis
      using assms i(3) Some change(1) change(2) [of ?f] clear(1) clear(2) [of ?f] i(5) some
      by (simp add: book_withdraw_def deposit_book_def debt_book_def obligation_ok_def fail_def)
  qed
qed

lemma borrow_refines:
  assumes "num_lib L" "obligation_ok ob" "r \<noteq> 0"
  shows "refines debt_book (\<lambda>ob'. obligation_ok ob' \<and> deposit_book ob' = deposit_book ob)
    (borrow_from L ob r rate a timestamp) (book_borrow (debt_book ob) r (unat a))"
proof -
  let ?xs = "ob_borrows ob"
  have ok: "slots_ok ol_borrow_reserve ?xs" using assms(2) by (simp add: obligation_ok_def)
  have sum: "fx_add L d a = (if unat d + unat a < 2 ^ 128 then Inr (d + a) else Inl Panic)" for d
    using num_lib.add [OF assms(1), of d a] by (simp add: to_word_def)
  show ?thesis
  proof (cases "debt_book ob r")
    case (Some n)
    then obtain i where i: "position (\<lambda>x. ol_borrow_reserve x = r) ?xs = Some i" "i < length ?xs"
      "ol_borrow_reserve (?xs ! i) = r" "debt_bits (?xs ! i) = n" "r \<noteq> 0"
      unfolding debt_book_def by (rule borrows.lookup_Some [OF ok])
    let ?l = "(?xs ! i)\<lparr> ol_borrowed_amount_sf := ol_borrowed_amount_sf (?xs ! i) + a,
        ol_last_borrowed_at_timestamp := timestamp \<rparr>"
    have "ol_borrow_reserve ?l = ol_borrow_reserve (?xs ! i)" by simp
    note change = borrows.change [OF ok i(2) _ this]
    have "borrow_from L ob r rate a timestamp = (if n + unat a < 2 ^ 128
        then Inr (ob\<lparr> ob_borrows := ?xs[i := ?l] \<rparr>) else Inl Panic)"
      using i by (simp add: borrow_from_def find_or_add_liquidity_to_borrows_def
          find_liquidity_index_in_borrows_def loan_borrow_def sum)
    moreover have "n + unat a < 2 ^ 128 \<Longrightarrow> debt_bits ?l = n + unat a"
      using i(4) by (simp add: unat_word_ariths)
    ultimately show ?thesis
      using assms i(3) Some change(1) change(2) [of debt_bits] i(5)
      by (simp add: book_borrow_def book_open_def deposit_book_def debt_book_def obligation_ok_def)
  next
    case None
    note none = borrows.lookup_None [OF None [unfolded debt_book_def] assms(3)]
    have room: "position (\<lambda>l. \<not> loan_is_active l) ?xs \<noteq> None \<longleftrightarrow> card (dom (debt_book ob)) < 5"
      using borrows.room_in_book [OF ok, of debt_bits] assms(2)
      by (simp only: loan_is_active_iff debt_book_def obligation_ok_def)
    show ?thesis
    proof (cases "position (\<lambda>l. \<not> loan_is_active l) ?xs")
      case full: None
      with none(1) None room show ?thesis
        by (simp add: borrow_from_def find_or_add_liquidity_to_borrows_def
            find_liquidity_index_in_borrows_def book_borrow_def book_open_def fail_def)
    next
      case (Some i)
      then have i: "i < length ?xs" "ol_borrow_reserve (?xs ! i) = 0"
        by (auto simp: position_eq_Some loan_is_active_def)
      let ?l = "(obligation_liquidity_new r rate) \<lparr> ol_borrowed_amount_sf := a,
          ol_last_borrowed_at_timestamp := timestamp \<rparr>"
      have "ol_borrow_reserve ?l = r" by (simp add: obligation_liquidity_new_def)
      note take = borrows.take_free [OF ok i this assms(3) none(2)]
      have "borrow_from L ob r rate a timestamp = Inr (ob\<lparr> ob_borrows := ?xs[i := ?l] \<rparr>)"
        using none(1) Some i(1) u128_lt [of a]
        by (simp add: borrow_from_def find_or_add_liquidity_to_borrows_def
            find_liquidity_index_in_borrows_def loan_borrow_def sum obligation_liquidity_new_def)
      moreover have "card (dom (debt_book ob)) < 5" using Some room by simp
      ultimately show ?thesis
        using take take(2) [of debt_bits] None u128_lt [of a] assms(2)
        by (simp add: book_borrow_def book_open_def deposit_book_def debt_book_def obligation_ok_def)
    qed
  qed
qed

lemma repay_refines:
  assumes "num_lib L" "obligation_ok ob" "r \<noteq> 0"
  shows "refines debt_book (\<lambda>ob'. obligation_ok ob' \<and> deposit_book ob' = deposit_book ob)
    (repay_to L ob r a) (book_repay (debt_book ob) r (unat a))"
proof (cases "debt_book ob = Map.empty")
  case True
  then have "repay_to L ob r a = fail ObligationBorrowsEmpty"
    by (simp add: repay_to_def find_liquidity_in_borrows_def no_debts fail_def)
  with True show ?thesis by (simp add: book_repay_def fail_def)
next
  case some: False
  let ?xs = "ob_borrows ob"
  have ok: "slots_ok ol_borrow_reserve ?xs" using assms(2) by (simp add: obligation_ok_def)
  show ?thesis
  proof (cases "debt_book ob r")
    case None
    with borrows.lookup_None(1) [OF None [unfolded debt_book_def] assms(3)] some show ?thesis
      by (simp add: repay_to_def find_liquidity_in_borrows_def find_liquidity_index_in_borrows_def
          no_debts book_repay_def fail_def)
  next
    case (Some n)
    then obtain i where i: "position (\<lambda>x. ol_borrow_reserve x = r) ?xs = Some i" "i < length ?xs"
      "ol_borrow_reserve (?xs ! i) = r" "debt_bits (?xs ! i) = n" "r \<noteq> 0"
      unfolding debt_book_def by (rule borrows.lookup_Some [OF ok])
    let ?l = "(?xs ! i)\<lparr> ol_borrowed_amount_sf := ol_borrowed_amount_sf (?xs ! i) - a \<rparr>"
    have "ol_borrow_reserve ?l = ol_borrow_reserve (?xs ! i)" by simp
    note change = borrows.change [OF ok i(2) _ this] and clear = borrows.clear [OF ok i(2)]
    have "a = ol_borrowed_amount_sf (?xs ! i) \<longleftrightarrow> unat a = n" using i(4) word_unat_eqI by metis
    then have "repay_to L ob r a =
        (if unat a = n then Inr (ob\<lparr> ob_borrows := ?xs[i := obligation_liquidity_default] \<rparr>)
         else if unat a < n then Inr (ob\<lparr> ob_borrows := ?xs[i := ?l] \<rparr>) else Inl Panic)"
      using i some by (auto simp: repay_to_def find_liquidity_in_borrows_def no_debts
          find_liquidity_index_in_borrows_def obligation_repay_def loan_repay_def
          num_lib.sub [OF assms(1)] word_le_nat_alt)
    moreover have "unat a < n \<Longrightarrow> debt_bits ?l = n - unat a"
      using i(4) by (simp add: unat_sub word_le_nat_alt)
    ultimately show ?thesis
      using assms i(3) Some change(1) change(2) [of debt_bits] clear(1) clear(2) [of debt_bits] i(5) some
      by (simp add: book_repay_def deposit_book_def debt_book_def obligation_ok_def)
  qed
qed

section \<open>Histories\<close>

text \<open>
  A request is a transaction: it changes the positions, or it fails and leaves them as they were.
  \<open>borrow_obligation_liquidity\<close> and \<open>repay_obligation_liquidity\<close> keep the flag \<open>has_debt\<close> around the
  change of the slot.
\<close>

datatype position_request =
    DepositInto pubkey u64
  | WithdrawFrom pubkey u64
  | BorrowFrom pubkey big_fraction frac u64
  | RepayTo pubkey frac

fun request_reserve :: "position_request \<Rightarrow> pubkey" where
  "request_reserve (DepositInto r a) = r"
| "request_reserve (WithdrawFrom r a) = r"
| "request_reserve (BorrowFrom r rate a t) = r"
| "request_reserve (RepayTo r a) = r"

fun position_step :: "numlib \<Rightarrow> position_request \<Rightarrow> obligation \<Rightarrow> obligation res" where
  "position_step L (DepositInto r a) ob = deposit_into ob r a"
| "position_step L (WithdrawFrom r a) ob = withdraw_from ob r a"
| "position_step L (BorrowFrom r rate a t) ob =
     rbind (borrow_from L ob r rate a t) (\<lambda>ob. Inr (ob\<lparr> ob_has_debt := 1 \<rparr>))"
| "position_step L (RepayTo r a) ob = rbind (repay_to L ob r a) (\<lambda>ob. Inr (update_has_debt ob))"

type_synonym books = "(pubkey \<rightharpoonup> nat) \<times> (pubkey \<rightharpoonup> nat)"

definition books_of :: "obligation \<Rightarrow> books" where
  "books_of ob = (deposit_book ob, debt_book ob)"

fun book_step :: "position_request \<Rightarrow> books \<Rightarrow> books res" where
  "book_step (DepositInto r a) (c, d) = rbind (book_deposit c r (unat a)) (\<lambda>c'. Inr (c', d))"
| "book_step (WithdrawFrom r a) (c, d) = rbind (book_withdraw c r (unat a)) (\<lambda>c'. Inr (c', d))"
| "book_step (BorrowFrom r rate a t) (c, d) = rbind (book_borrow d r (unat a)) (\<lambda>d'. Inr (c, d'))"
| "book_step (RepayTo r a) (c, d) = rbind (book_repay d r (unat a)) (\<lambda>d'. Inr (c, d'))"

definition or_keep :: "'a \<Rightarrow> 'a res \<Rightarrow> 'a" where
  "or_keep x m = (case m of Inl e \<Rightarrow> x | Inr y \<Rightarrow> y)"

definition positions_run :: "numlib \<Rightarrow> position_request list \<Rightarrow> obligation \<Rightarrow> obligation" where
  "positions_run L reqs ob = fold (\<lambda>q ob. or_keep ob (position_step L q ob)) reqs ob"

definition books_run :: "position_request list \<Rightarrow> books \<Rightarrow> books" where
  "books_run reqs b = fold (\<lambda>q b. or_keep b (book_step q b)) reqs b"

lemma refines_mono:
  "refines f I m m' \<Longrightarrow> (\<And>x. I x \<Longrightarrow> J x \<and> h (f x) = g x) \<Longrightarrow>
   refines g J m (rbind m' (\<lambda>y. Inr (h y)))"
  by (cases m) auto

lemma refines_then:
  "refines f I m m' \<Longrightarrow> (\<And>x. I x \<Longrightarrow> J (k x) \<and> h (f x) = g (k x)) \<Longrightarrow>
   refines g J (rbind m (\<lambda>x. Inr (k x))) (rbind m' (\<lambda>y. Inr (h y)))"
  by (cases m) auto

lemma has_debt_books [simp]:
  "obligation_ok (ob\<lparr> ob_has_debt := x \<rparr>) = obligation_ok ob" "deposit_book (ob\<lparr> ob_has_debt := x \<rparr>) = deposit_book ob"
  "debt_book (ob\<lparr> ob_has_debt := x \<rparr>) = debt_book ob"
  "obligation_ok (update_has_debt ob) = obligation_ok ob" "deposit_book (update_has_debt ob) = deposit_book ob"
  "debt_book (update_has_debt ob) = debt_book ob"
  by (simp_all add: obligation_ok_def deposit_book_def debt_book_def update_has_debt_def)

lemma position_step_refines:
  assumes "num_lib L" "obligation_ok ob" "request_reserve q \<noteq> 0"
  shows "refines books_of obligation_ok (position_step L q ob) (book_step q (books_of ob))"
  using assms
  by (cases q) (auto simp: books_of_def
      intro!: refines_mono [OF deposit_refines] refines_mono [OF withdraw_refines]
        refines_then [OF borrow_refines] refines_then [OF repay_refines])

text \<open>The flag says whether a borrow is open.\<close>

definition flag_right :: "obligation \<Rightarrow> bool" where
  "flag_right ob \<longleftrightarrow> (has_debt ob \<longleftrightarrow> debt_book ob \<noteq> Map.empty)"

lemma book_borrow_open: "book_borrow d r a = Inr d' \<Longrightarrow> d' \<noteq> Map.empty"
  by (auto simp: book_borrow_def rbind_eq_Inr split: if_splits dest: fun_cong [where x = r])

lemma other_fields_kept:
  "deposit_into ob r a = Inr ob' \<Longrightarrow> ob_has_debt ob' = ob_has_debt ob"
  "withdraw_from ob r a = Inr ob' \<Longrightarrow> ob_has_debt ob' = ob_has_debt ob"
  by (auto simp: obligation_steps rbind_eq_Inr fail_eq split: if_splits option.splits)

lemma position_step_flag:
  assumes "num_lib L" "obligation_ok ob" "request_reserve q \<noteq> 0" "flag_right ob" "position_step L q ob = Inr ob'"
  shows "flag_right ob'"
proof (cases q)
  case (DepositInto r a)
  with assms have d: "deposit_into ob r a = Inr ob'" by simp
  with deposit_refines [OF assms(2), of r a] assms(3,4) DepositInto other_fields_kept(1) [OF d]
  show ?thesis by (simp add: flag_right_def has_debt_def)
next
  case (WithdrawFrom r a)
  with assms have d: "withdraw_from ob r a = Inr ob'" by simp
  with withdraw_refines [OF assms(2), of r a] assms(3,4) WithdrawFrom other_fields_kept(2) [OF d]
  show ?thesis by (simp add: flag_right_def has_debt_def)
next
  case (BorrowFrom r rate a t)
  with assms(5) obtain ob1 where b: "borrow_from L ob r rate a t = Inr ob1" "ob' = ob1\<lparr> ob_has_debt := 1 \<rparr>"
    by (auto simp: rbind_eq_Inr)
  with borrow_refines [OF assms(1,2), of r rate a t] BorrowFrom assms(3)
  have "debt_book ob1 \<noteq> Map.empty" using book_borrow_open by (auto simp del: not_None_eq)
  with b(2) show ?thesis by (simp add: flag_right_def has_debt_def)
next
  case (RepayTo r a)
  with assms(5) show ?thesis
    by (auto simp: rbind_eq_Inr flag_right_def) (auto simp: update_has_debt_def has_debt_def no_debts)
qed

lemma positions_run_refines:
  assumes "num_lib L" "obligation_ok ob" "flag_right ob" "\<forall>q \<in> set reqs. request_reserve q \<noteq> 0"
  shows "obligation_ok (positions_run L reqs ob) \<and> flag_right (positions_run L reqs ob) \<and>
    books_of (positions_run L reqs ob) = books_run reqs (books_of ob)"
  using assms(2-4)
proof (induction reqs arbitrary: ob)
  case (Cons q reqs)
  have "flag_right (or_keep ob (position_step L q ob))"
    using position_step_flag [OF assms(1) Cons.prems(1), of q] Cons.prems(2,3)
    by (cases "position_step L q ob") (auto simp: or_keep_def)
  moreover
  have "obligation_ok (or_keep ob (position_step L q ob)) \<and>
      books_of (or_keep ob (position_step L q ob)) = or_keep (books_of ob) (book_step q (books_of ob))"
    using position_step_refines [OF assms(1) Cons.prems(1), of q] Cons.prems
    by (cases "position_step L q ob") (auto simp: or_keep_def)
  ultimately show ?case using Cons.IH [of "or_keep ob (position_step L q ob)"] Cons.prems
    by (simp add: positions_run_def books_run_def)
qed (simp add: positions_run_def books_run_def)

lemma obligation_ok_default: "obligation_ok obligation_default"
  "books_of obligation_default = (Map.empty, Map.empty)" "flag_right obligation_default"
  by (simp_all add: obligation_ok_def obligation_default_def books_of_def deposit_book_def
      debt_book_def flag_right_def has_debt_def)

section \<open>The withdrawal limit\<close>

context num_lib begin

lemma max_withdraw_value_tight:
  assumes "max_withdraw_value L ob c max_ltv liq_ltv check = Inr v"
    and "(pct, limit) = (if check = LiquidationThreshold
           then (liq_ltv, unat (ob_unhealthy_borrow_value_sf ob) - 1)
           else (max_ltv, unat (ob_allowed_borrow_value_sf ob)))"
  shows "if limit \<le> unat (ob_borrow_factor_adjusted_debt_value_sf ob) then v = 0
    else if pct = 0 then v = oc_market_value_sf c
    else unat (ob_borrow_factor_adjusted_debt_value_sf ob) * 100 + unat v * unat pct \<le> limit * 100 \<and>
         limit * 100 < unat (ob_borrow_factor_adjusted_debt_value_sf ob) * 100 + (unat v + 1) * unat pct"
proof -
  let ?d = "unat (ob_borrow_factor_adjusted_debt_value_sf ob)"
  have *: "if limit \<le> ?d then v = 0 else if pct = 0 then v = oc_market_value_sf c
      else unat v = (limit - ?d) * 100 div unat pct"
    using assms
    by (auto simp: max_withdraw_value_def Let_def rbind_eq_Inr arith_simps word_le_nat_alt
        split: if_splits)
  moreover have "?d * 100 + unat v * unat pct \<le> limit * 100 \<and>
      limit * 100 < ?d * 100 + (unat v + 1) * unat pct"
    if v: "unat v = (limit - ?d) * 100 div unat pct" and "?d < limit" "pct \<noteq> 0"
  proof -
    have "unat v * unat pct \<le> (limit - ?d) * 100" unfolding v by (rule div_mult_le')
    moreover have "(limit - ?d) * 100 < (unat v + 1) * unat pct"
      unfolding v by (rule less_div_mult) (use that(3) in \<open>simp add: unat_gt_0\<close>)
    moreover have "(limit - ?d) * 100 = limit * 100 - ?d * 100" by (rule diff_mult_distrib)
    ultimately show ?thesis using that(2) by linarith
  qed
  ultimately show ?thesis by (auto simp: not_le split: if_splits)
qed

end

section \<open>Properties\<close>

text \<open>
  C5. The positions of an obligation are two books: after any history of deposits, withdrawals,
  borrows and repayments (failed ones change nothing), no reserve has two slots, the slot arrays
  hold exactly the amounts that the abstract books hold, and the next request does to the slots
  what it does to the books, failing with the same error exactly when the abstract operation
  fails: a ninth collateral or sixth debt, an unknown reserve, an overflow, or too large an amount.
  The obligation is flagged as having debt exactly while the book of debts is not empty.
\<close>

theorem positions_implement_books:
  assumes "num_lib L" "\<forall>q \<in> set reqs. request_reserve q \<noteq> 0" "request_reserve q \<noteq> 0"
  shows "obligation_ok (positions_run L reqs obligation_default) \<and>
    books_of (positions_run L reqs obligation_default) = books_run reqs (Map.empty, Map.empty) \<and>
    refines books_of obligation_ok
      (position_step L q (positions_run L reqs obligation_default))
      (book_step q (books_run reqs (Map.empty, Map.empty))) \<and>
    (has_debt (positions_run L reqs obligation_default) \<longleftrightarrow> snd (books_run reqs (Map.empty, Map.empty)) \<noteq> Map.empty)"
proof -
  let ?ob = "positions_run L reqs obligation_default"
  have run: "obligation_ok ?ob" "flag_right ?ob" "books_of ?ob = books_run reqs (Map.empty, Map.empty)"
    using positions_run_refines [OF assms(1) obligation_ok_default(1,3) assms(2)] obligation_ok_default(2) by simp_all
  moreover have "has_debt ?ob \<longleftrightarrow> snd (books_of ?ob) \<noteq> Map.empty"
    using run(2) by (simp add: flag_right_def books_of_def)
  ultimately show ?thesis using position_step_refines [OF assms(1) run(1) assms(3)] by simp
qed

theorem positions_implement_books_witness:
  "let ob = positions_run std_lib [DepositInto 7 100, BorrowFrom 3 (BigFraction 1) 40 9, DepositInto 9 5,
         WithdrawFrom 7 100, RepayTo 3 15] obligation_default
   in obligation_ok ob \<and> deposit_book ob = [9 \<mapsto> 5] \<and> debt_book ob = [3 \<mapsto> 25] \<and> has_debt ob \<and>
      position_step std_lib (WithdrawFrom 9 6) ob = Inl (LendingErr MathOverflow)"
proof -
  let ?reqs = "[DepositInto 7 100, BorrowFrom 3 (BigFraction 1) 40 9, DepositInto 9 5, WithdrawFrom 7 100, RepayTo 3 15]"
  have run: "books_run ?reqs (Map.empty, Map.empty) = ([9 \<mapsto> 5], [3 \<mapsto> 25])"
    by (auto simp: books_run_def or_keep_def book_deposit_def book_withdraw_def book_open_def
        book_borrow_def book_repay_def fun_upd_twist)
  moreover have "book_step (WithdrawFrom 9 6) ([9 \<mapsto> 5], d) = Inl (LendingErr MathOverflow)" for d
    by (simp add: book_withdraw_def fail_def)
  ultimately show ?thesis
    using positions_implement_books [OF std.num_lib_axioms, of ?reqs "WithdrawFrom 9 6"]
    by (simp add: books_of_def Let_def refines_def split: sum.splits)
qed

text \<open>
  C33. \<open>max_withdraw_value\<close> is the exact limit of a withdrawal: as long as the borrow limit exceeds
  the debt, taking out collateral of the returned value (at the reserve's loan-to-value ratio)
  leaves the debt within the remaining limit, and one more unit of value would not; without
  headroom nothing can be withdrawn, and collateral that does not count towards the limit can be
  withdrawn whole. The limit is the one of the chosen check, one bit below the liquidation
  threshold in the second case.
\<close>

theorem max_withdraw_value_is_exact:
  assumes "num_lib L" "max_withdraw_value L ob c max_ltv liq_ltv check = Inr v"
    and "(pct, limit) = (if check = LiquidationThreshold
           then (liq_ltv, unat (ob_unhealthy_borrow_value_sf ob) - 1)
           else (max_ltv, unat (ob_allowed_borrow_value_sf ob)))"
  shows "if limit \<le> unat (ob_borrow_factor_adjusted_debt_value_sf ob) then v = 0
    else if pct = 0 then v = oc_market_value_sf c
    else unat (ob_borrow_factor_adjusted_debt_value_sf ob) * 100 + unat v * unat pct \<le> limit * 100 \<and>
         limit * 100 < unat (ob_borrow_factor_adjusted_debt_value_sf ob) * 100 + (unat v + 1) * unat pct"
  using num_lib.max_withdraw_value_tight [OF assms] .

theorem max_withdraw_value_is_exact_witness:
  "max_withdraw_value std_lib (obligation_default \<lparr> ob_allowed_borrow_value_sf := 1000,
       ob_borrow_factor_adjusted_debt_value_sf := 400 \<rparr>) obligation_collateral_default 70 80 MaxLtv = Inr 857 \<and>
   400 * 100 + 857 * 70 \<le> (1000 :: nat) * 100 \<and> (1000 :: nat) * 100 < 400 * 100 + 858 * 70"
proof -
  let ?ob = "obligation_default \<lparr> ob_allowed_borrow_value_sf := 1000,
      ob_borrow_factor_adjusted_debt_value_sf := 400 \<rparr>"
  have v: "max_withdraw_value std_lib ?ob obligation_collateral_default 70 80 MaxLtv = Inr 857"
    by (simp add: max_withdraw_value_def std_eval)
  from max_withdraw_value_is_exact [OF std.num_lib_axioms v, of 70 1000] v show ?thesis by simp
qed

end
