(* ===== verification/Transaction.thy ===== *)
theory Transaction imports Reserve begin

text \<open>
  What an instruction sees of its transaction: the introspection of
  \<open>lending_market/ix_utils.rs\<close>, the checks that pair flash loans (\<open>lending_market/flash_ixs.rs\<close>),
  the check that an instruction is surrounded by its refreshes (\<open>utils/refresh_ix_utils.rs\<close>) and
  the checks on companions of \<open>lending_market/lending_checks.rs\<close>. The instructions sysvar and the
  call depth belong to the runtime; the model gives them as a view of the transaction: the list of
  its top-level instructions, the index of the current one and the stack height.
\<close>

section \<open>The view\<close>

record ix =
  ix_program :: pubkey
  ix_data :: "u8 list"
  ix_accounts :: "pubkey list"

record tx_view =
  tx_ixs :: "ix list"
  tx_current :: nat
  tx_stack_height :: nat

text \<open>
  Addresses and discriminators, which the build generates from names and keys, and the decoding of
  instruction arguments, which the framework generates: parameters.
\<close>

record program_ids =
  klend_id :: pubkey
  compute_budget_id :: pubkey
  restricted_programs :: "pubkey list"
  cpi_whitelist :: "(pubkey \<times> nat) list"
  flash_borrow_disc :: "u8 list"
  flash_repay_disc :: "u8 list"
  refresh_reserve_disc :: "u8 list"
  refresh_farms_disc :: "u8 list"
  refresh_obligation_disc :: "u8 list"
  borrow_args :: "u8 list \<Rightarrow> u64 res"
  repay_args :: "u8 list \<Rightarrow> (u64 \<times> u8) res"

definition TRANSACTION_LEVEL_STACK_HEIGHT :: nat where
  "TRANSACTION_LEVEL_STACK_HEIGHT = 1"

text \<open>\<open>load_instruction_at\<close> errs past the end, which is how \<open>IxIterator\<close> stops.\<close>

definition load_instruction_at :: "tx_view \<Rightarrow> nat \<Rightarrow> ix res" where
  "load_instruction_at t i = (if i < length (tx_ixs t) then Inr (tx_ixs t ! i) else Inl ProgramErr)"

definition ix_iterator :: "tx_view \<Rightarrow> nat \<Rightarrow> ix list" where
  "ix_iterator t start = drop start (tx_ixs t)"

definition is_flash_forbidden_cpi_call :: "program_ids \<Rightarrow> tx_view \<Rightarrow> bool res" where
  "is_flash_forbidden_cpi_call ids t =
     rbind (load_instruction_at t (tx_current t)) (\<lambda>current_ixn.
     if klend_id ids \<noteq> ix_program current_ixn then Inr True
     else if tx_stack_height t > TRANSACTION_LEVEL_STACK_HEIGHT then Inr True
     else Inr False)"

definition is_forbidden_cpi_call :: "program_ids \<Rightarrow> tx_view \<Rightarrow> bool res" where
  "is_forbidden_cpi_call ids t =
     rbind (load_instruction_at t (tx_current t)) (\<lambda>current_ixn.
     if klend_id ids \<noteq> ix_program current_ixn then
       (case find (\<lambda>(program, _). program = ix_program current_ixn) (cpi_whitelist ids) of
          Some (_, whitelist_level) \<Rightarrow>
            Inr (tx_stack_height t > TRANSACTION_LEVEL_STACK_HEIGHT + whitelist_level)
        | None \<Rightarrow> Inr True)
     else if tx_stack_height t > TRANSACTION_LEVEL_STACK_HEIGHT then Inr True
     else Inr False)"

definition tx_includes_restricted_programs :: "program_ids \<Rightarrow> tx_view \<Rightarrow> bool" where
  "tx_includes_restricted_programs ids t =
     list_ex (\<lambda>ixn. ix_program ixn \<in> set (restricted_programs ids)) (ix_iterator t 0)"

definition no_restricted_programs_within_tx :: "program_ids \<Rightarrow> tx_view \<Rightarrow> bool" where
  "no_restricted_programs_within_tx ids t \<longleftrightarrow> \<not> tx_includes_restricted_programs ids t"

definition check_cpi_call :: "program_ids \<Rightarrow> tx_view \<Rightarrow> unit res" where
  "check_cpi_call ids t =
     rbind (is_forbidden_cpi_call ids t) (\<lambda>forbidden.
     if forbidden then fail CpiDisabled else Inr ())"

fun only_compute_budget :: "program_ids \<Rightarrow> nat \<Rightarrow> nat \<Rightarrow> ix list \<Rightarrow> unit res" where
  "only_compute_budget ids current_index ix_index [] = Inr ()"
| "only_compute_budget ids current_index ix_index (ixn # ixns) =
     (if ix_index \<noteq> current_index \<and> ix_program ixn \<noteq> compute_budget_id ids
      then fail OnlyComputeBudgetCompanionIxsAllowed
      else only_compute_budget ids current_index (Suc ix_index) ixns)"

definition is_only_with_compute_budget_ixs_check :: "program_ids \<Rightarrow> tx_view \<Rightarrow> unit res" where
  "is_only_with_compute_budget_ixs_check ids t =
     only_compute_budget ids (tx_current t) 0 (ix_iterator t 0)"

definition ownership_transfer_cpi_check :: "program_ids \<Rightarrow> tx_view \<Rightarrow> unit res" where
  "ownership_transfer_cpi_check ids t = check_cpi_call ids t"

definition obligation_ownership_transfer_execution_context_checks ::
  "program_ids \<Rightarrow> tx_view \<Rightarrow> unit res" where
  "obligation_ownership_transfer_execution_context_checks ids t =
     rbind (is_only_with_compute_budget_ixs_check ids t) (\<lambda>_. ownership_transfer_cpi_check ids t)"

section \<open>Instruction data\<close>

text \<open>Slices panic on data that is too short.\<close>

definition data_prefix :: "ix \<Rightarrow> u8 list res" where
  "data_prefix ixn = (if 8 \<le> length (ix_data ixn) then Inr (take 8 (ix_data ixn)) else Inl Panic)"

definition u64_from_le_bytes :: "u8 list \<Rightarrow> u64" where
  "u64_from_le_bytes bs = of_nat (foldr (\<lambda>b n. unat b + 256 * n) bs 0)"

definition data_amount :: "ix \<Rightarrow> u64 res" where
  "data_amount ixn =
     (if 16 \<le> length (ix_data ixn) then Inr (u64_from_le_bytes (take 8 (drop 8 (ix_data ixn))))
      else Inl Panic)"

definition flash_repay_args :: "program_ids \<Rightarrow> ix \<Rightarrow> (u64 \<times> u8) res" where
  "flash_repay_args ids ixn =
     (if 8 \<le> length (ix_data ixn) then repay_args ids (drop 8 (ix_data ixn)) else Inl Panic)"

section \<open>Flash loans\<close>

definition flash_repay_checks :: "program_ids \<Rightarrow> tx_view \<Rightarrow> pubkey \<Rightarrow> u8 \<Rightarrow> u64 \<Rightarrow> unit res" where
  "flash_repay_checks ids t reserve_key borrow_instruction_index liquidity_amount =
     rbind (is_flash_forbidden_cpi_call ids t) (\<lambda>forbidden.
     if forbidden then fail FlashRepayCpi
     else if unat borrow_instruction_index > tx_current t then fail InvalidFlashRepay
     else rbind (load_instruction_at t (unat borrow_instruction_index)) (\<lambda>ixn.
       if ix_program ixn \<noteq> klend_id ids then fail InvalidFlashRepay
       else rbind (data_prefix ixn) (\<lambda>disc.
         if disc \<noteq> flash_borrow_disc ids then fail InvalidFlashRepay
         else rbind (data_amount ixn) (\<lambda>borrow_liquidity_amount.
           if length (ix_accounts ixn) \<le> 3 then Inl Panic
           else if ix_accounts ixn ! 3 \<noteq> reserve_key then fail InvalidFlashRepay
           else if liquidity_amount \<noteq> borrow_liquidity_amount then fail InvalidFlashRepay
           else Inr ()))))"

definition flash_borrow_check_matching_repay :: "program_ids \<Rightarrow> u64 \<Rightarrow> ix \<Rightarrow> ix \<Rightarrow> nat \<Rightarrow> unit res" where
  "flash_borrow_check_matching_repay ids liquidity_amount borrow_ix repay_ix borrow_index =
     rbind (flash_repay_args ids repay_ix) (\<lambda>(repay_liquidity_amount, borrow_instruction_index).
     if repay_liquidity_amount \<noteq> liquidity_amount then fail InvalidFlashRepay
     else if unat borrow_instruction_index \<noteq> borrow_index then fail InvalidFlashRepay
     else if length (ix_accounts repay_ix) \<noteq> length (ix_accounts borrow_ix) then fail InvalidFlashRepay
     else if list_ex (\<lambda>(b, r). b \<noteq> r) (zip (ix_accounts borrow_ix) (ix_accounts repay_ix))
     then fail InvalidFlashRepay
     else Inr ())"

text \<open>The loop over the instructions after the borrow, with \<open>found_repay_ix\<close> as its state.\<close>

fun flash_borrow_scan :: "program_ids \<Rightarrow> u64 \<Rightarrow> ix \<Rightarrow> nat \<Rightarrow> bool \<Rightarrow> ix list \<Rightarrow> bool res" where
  "flash_borrow_scan ids amount borrow_ix index found [] = Inr found"
| "flash_borrow_scan ids amount borrow_ix index found (ixn # ixns) =
     (if ix_program ixn \<noteq> klend_id ids then flash_borrow_scan ids amount borrow_ix index found ixns
      else rbind (data_prefix ixn) (\<lambda>disc.
        if disc = flash_borrow_disc ids then fail MultipleFlashBorrows
        else if disc = flash_repay_disc ids then
          if found then fail MultipleFlashBorrows
          else rbind (flash_borrow_check_matching_repay ids amount borrow_ix ixn index) (\<lambda>_.
            flash_borrow_scan ids amount borrow_ix index True ixns)
        else flash_borrow_scan ids amount borrow_ix index found ixns))"

definition flash_borrow_checks :: "program_ids \<Rightarrow> tx_view \<Rightarrow> u64 \<Rightarrow> unit res" where
  "flash_borrow_checks ids t liquidity_amount =
     rbind (is_flash_forbidden_cpi_call ids t) (\<lambda>forbidden.
     if forbidden then fail FlashBorrowCpi
     else rbind (load_instruction_at t (tx_current t)) (\<lambda>borrow_ix.
       rbind (flash_borrow_scan ids liquidity_amount borrow_ix (tx_current t) False
                (ix_iterator t (Suc (tx_current t)))) (\<lambda>found_repay_ix.
       if \<not> found_repay_ix then fail NoFlashRepayFound else Inr ())))"

section \<open>Refreshes around an instruction\<close>

datatype required_ix_type = RefreshReserve | RefreshFarmsForObligationForReserve | RefreshObligation

record required_ix =
  ri_kind :: required_ix_type
  ri_accounts :: "(pubkey \<times> nat) list"

fun required_discriminator :: "program_ids \<Rightarrow> required_ix_type \<Rightarrow> u8 list" where
  "required_discriminator ids RefreshReserve = refresh_reserve_disc ids"
| "required_discriminator ids RefreshFarmsForObligationForReserve = refresh_farms_disc ids"
| "required_discriminator ids RefreshObligation = refresh_obligation_disc ids"

fun check_ix_accounts :: "ix \<Rightarrow> (pubkey \<times> nat) list \<Rightarrow> unit res" where
  "check_ix_accounts ixn [] = Inr ()"
| "check_ix_accounts ixn ((key, index) # accounts) =
     (if index < length (ix_accounts ixn)
      then if ix_accounts ixn ! index \<noteq> key then Inl ProgramErr else check_ix_accounts ixn accounts
      else fail IncorrectInstructionInPosition)"

definition check_required_ix :: "program_ids \<Rightarrow> ix \<Rightarrow> required_ix \<Rightarrow> unit res" where
  "check_required_ix ids ixn required =
     rbind (data_prefix ixn) (\<lambda>ix_discriminator.
     if ix_program ixn \<noteq> klend_id ids then Inl ProgramErr
     else if ix_discriminator \<noteq> required_discriminator ids (ri_kind required)
     then fail IncorrectInstructionInPosition
     else check_ix_accounts ixn (ri_accounts required))"

datatype appended_ix_type = PreIxs | PostIxs

definition appended_offset :: "appended_ix_type \<Rightarrow> nat \<Rightarrow> nat \<Rightarrow> nat res" where
  "appended_offset ix_type current_idx i = (case ix_type of
     PreIxs \<Rightarrow> if i + 1 \<le> current_idx then Inr (current_idx - (i + 1))
               else fail IncorrectInstructionInPosition
   | PostIxs \<Rightarrow> Inr (current_idx + (i + 1)))"

fun check_ixns :: "program_ids \<Rightarrow> tx_view \<Rightarrow> appended_ix_type \<Rightarrow> nat \<Rightarrow> required_ix list \<Rightarrow> unit res" where
  "check_ixns ids t ix_type i [] = Inr ()"
| "check_ixns ids t ix_type i (required # rest) =
     rbind (appended_offset ix_type (tx_current t) i) (\<lambda>offset.
     if offset < length (tx_ixs t)
     then rbind (check_required_ix ids (tx_ixs t ! offset) required) (\<lambda>_.
          check_ixns ids t ix_type (Suc i) rest)
     else fail IncorrectInstructionInPosition)"

definition refresh_reserve_count :: "(pubkey \<times> reserve) list \<Rightarrow> nat" where
  "refresh_reserve_count reserves =
     (if length reserves = 2 \<and> fst (reserves ! 0) = fst (reserves ! 1) then length reserves - 1
      else length reserves)"

definition required_farm_ixs ::
  "(pubkey \<times> reserve) list \<Rightarrow> pubkey \<Rightarrow> reserve_farm_kind list \<Rightarrow> required_ix list" where
  "required_farm_ixs reserves obligation_address modes =
     map (\<lambda>((reserve_address, r), farm_type).
            \<lparr> ri_kind = RefreshFarmsForObligationForReserve,
              ri_accounts = [(reserve_address, 3), (obligation_address, 1), (get_farm r farm_type, 4)] \<rparr>)
       (filter (\<lambda>((_, r), farm_type). get_farm r farm_type \<noteq> 0) (zip reserves modes))"

definition required_pre_ixs ::
  "(pubkey \<times> reserve) list \<Rightarrow> pubkey \<Rightarrow> reserve_farm_kind list \<Rightarrow> required_ix list" where
  "required_pre_ixs reserves obligation_address modes =
     map (\<lambda>(key, _). \<lparr> ri_kind = RefreshReserve, ri_accounts = [(key, 0)] \<rparr>)
       (take (refresh_reserve_count reserves) reserves) @
     [\<lparr> ri_kind = RefreshObligation, ri_accounts = [(obligation_address, 1)] \<rparr>] @
     required_farm_ixs reserves obligation_address modes"

definition check_refresh ::
  "program_ids \<Rightarrow> tx_view \<Rightarrow> (pubkey \<times> reserve) list \<Rightarrow> pubkey \<Rightarrow> reserve_farm_kind list \<Rightarrow> unit res" where
  "check_refresh ids t reserves obligation_address modes =
     rbind (is_forbidden_cpi_call ids t) (\<lambda>forbidden.
     if forbidden then fail CpiDisabled
     else rbind (check_ixns ids t PreIxs 0 (rev (required_pre_ixs reserves obligation_address modes)))
       (\<lambda>_. check_ixns ids t PostIxs 0 (required_farm_ixs reserves obligation_address modes)))"

section \<open>What the scans find\<close>

definition is_flash_borrow :: "program_ids \<Rightarrow> ix \<Rightarrow> bool" where
  "is_flash_borrow ids ixn \<longleftrightarrow> ix_program ixn = klend_id ids \<and> data_prefix ixn = Inr (flash_borrow_disc ids)"

definition is_flash_repay :: "program_ids \<Rightarrow> ix \<Rightarrow> bool" where
  "is_flash_repay ids ixn \<longleftrightarrow> ix_program ixn = klend_id ids \<and> data_prefix ixn = Inr (flash_repay_disc ids)"

lemma is_flash_forbidden_eq:
  "is_flash_forbidden_cpi_call ids t = Inr False \<longleftrightarrow>
     tx_current t < length (tx_ixs t) \<and> ix_program (tx_ixs t ! tx_current t) = klend_id ids \<and>
     tx_stack_height t \<le> TRANSACTION_LEVEL_STACK_HEIGHT"
  by (auto simp: is_flash_forbidden_cpi_call_def load_instruction_at_def)

lemma flash_borrow_scan_ok:
  assumes "flash_borrow_scan ids amount borrow_ix index found ixns = Inr f"
    and "flash_borrow_disc ids \<noteq> flash_repay_disc ids"
  shows "(\<forall>x \<in> set ixns. \<not> is_flash_borrow ids x) \<and>
    (found \<longrightarrow> filter (is_flash_repay ids) ixns = []) \<and>
    length (filter (is_flash_repay ids) ixns) \<le> 1 \<and>
    (f \<longleftrightarrow> found \<or> filter (is_flash_repay ids) ixns \<noteq> []) \<and>
    (\<forall>x \<in> set (filter (is_flash_repay ids) ixns).
       flash_borrow_check_matching_repay ids amount borrow_ix x index = Inr ())"
  using assms(1)
proof (induction ixns arbitrary: found)
  case (Cons ixn ixns)
  show ?case
  proof (cases "ix_program ixn = klend_id ids")
    case False
    with Cons.prems Cons.IH [of found] show ?thesis by (simp add: is_flash_borrow_def is_flash_repay_def)
  next
    case True
    with Cons.prems obtain disc where disc: "data_prefix ixn = Inr disc" by (auto simp: rbind_eq_Inr)
    with Cons.prems True have "disc \<noteq> flash_borrow_disc ids" by (auto simp: fail_eq)
    moreover have "flash_borrow_check_matching_repay ids amount borrow_ix ixn index = Inr () \<and>
        \<not> found \<and> flash_borrow_scan ids amount borrow_ix index True ixns = Inr f"
      if "disc = flash_repay_disc ids"
      using Cons.prems True disc that assms(2) by (auto simp: fail_eq rbind_eq_Inr split: if_splits)
    moreover have "flash_borrow_scan ids amount borrow_ix index found ixns = Inr f"
      if "disc \<noteq> flash_repay_disc ids"
      using Cons.prems True disc that \<open>disc \<noteq> flash_borrow_disc ids\<close> by simp
    ultimately show ?thesis
      using True disc Cons.IH [of True] Cons.IH [of found]
      by (cases "disc = flash_repay_disc ids") (simp_all add: is_flash_borrow_def is_flash_repay_def)
  qed
qed simp

lemma matching_repay_ok:
  "flash_borrow_check_matching_repay ids amount b r k = Inr () \<longleftrightarrow>
     (\<exists>i. flash_repay_args ids r = Inr (amount, i) \<and> unat i = k \<and> ix_accounts r = ix_accounts b)"
proof -
  have "(\<not> list_ex (\<lambda>(b, r). b \<noteq> r) (zip xs ys) \<and> length ys = length xs) \<longleftrightarrow> ys = xs" for xs ys :: "pubkey list"
    by (auto simp: list_ex_iff list_eq_iff_nth_eq set_zip) metis
  then show ?thesis
    by (auto simp: flash_borrow_check_matching_repay_def rbind_eq_Inr fail_eq split: if_splits)
qed

text \<open>The transaction runs: every flash instruction passes the checks on the arguments it carries.\<close>

definition top_level :: "ix list \<Rightarrow> nat \<Rightarrow> tx_view" where
  "top_level ixs k = \<lparr> tx_ixs = ixs, tx_current = k, tx_stack_height = TRANSACTION_LEVEL_STACK_HEIGHT \<rparr>"

definition flash_borrow_amount :: "program_ids \<Rightarrow> ix \<Rightarrow> u64 res" where
  "flash_borrow_amount ids ixn = borrow_args ids (drop 8 (ix_data ixn))"

definition flash_ix_passes :: "program_ids \<Rightarrow> ix list \<Rightarrow> nat \<Rightarrow> bool" where
  "flash_ix_passes ids ixs k \<longleftrightarrow>
     (is_flash_borrow ids (ixs ! k) \<longrightarrow>
        is_ok (rbind (flash_borrow_amount ids (ixs ! k)) (\<lambda>a.
          flash_borrow_checks ids (top_level ixs k) a))) \<and>
     (is_flash_repay ids (ixs ! k) \<longrightarrow>
        3 < length (ix_accounts (ixs ! k)) \<and>
        is_ok (rbind (flash_repay_args ids (ixs ! k)) (\<lambda>(a, index).
          flash_repay_checks ids (top_level ixs k) (ix_accounts (ixs ! k) ! 3) index a)))"

lemma passing_borrow:
  assumes "flash_ix_passes ids ixs i" "is_flash_borrow ids (ixs ! i)" "i < length ixs"
    and "flash_borrow_disc ids \<noteq> flash_repay_disc ids"
  obtains a j index where "flash_borrow_amount ids (ixs ! i) = Inr a" "i < j" "j < length ixs"
    "is_flash_repay ids (ixs ! j)" "flash_repay_args ids (ixs ! j) = Inr (a, index)"
    "unat index = i" "ix_accounts (ixs ! j) = ix_accounts (ixs ! i)"
    "\<forall>k. i < k \<and> k < length ixs \<and> is_flash_repay ids (ixs ! k) \<longrightarrow> k = j"
    "\<forall>k. i < k \<and> k < length ixs \<longrightarrow> \<not> is_flash_borrow ids (ixs ! k)"
proof -
  let ?tail = "drop (Suc i) ixs"
  obtain a where a: "flash_borrow_amount ids (ixs ! i) = Inr a" "flash_borrow_checks ids (top_level ixs i) a = Inr ()"
    using assms(1,2) by (auto simp: flash_ix_passes_def is_ok_def rbind_eq_Inr)
  then have "flash_borrow_scan ids a (ixs ! i) i False ?tail = Inr True"
    using assms(3) by (auto simp: flash_borrow_checks_def rbind_eq_Inr fail_eq top_level_def
        ix_iterator_def load_instruction_at_def split: if_splits)
  note scan = flash_borrow_scan_ok [OF this assms(4)]
  then obtain r where r: "filter (is_flash_repay ids) ?tail = [r]"
    by (cases "filter (is_flash_repay ids) ?tail") auto
  with scan have match: "flash_borrow_check_matching_repay ids a (ixs ! i) r i = Inr ()" by simp
  have "r \<in> set ?tail" "is_flash_repay ids r" using r by (auto simp: filter_eq_Cons_iff)
  then obtain m where m: "m < length ?tail" "?tail ! m = r" by (auto simp: in_set_conv_nth)
  have only: "k = m" if "k < length ?tail" "is_flash_repay ids (?tail ! k)" for k
  proof (rule ccontr)
    assume "k \<noteq> m"
    with that m \<open>is_flash_repay ids r\<close>
    have "card {k, m} \<le> card {k. k < length ?tail \<and> is_flash_repay ids (?tail ! k)}"
      by (intro card_mono) auto
    moreover have "card {k. k < length ?tail \<and> is_flash_repay ids (?tail ! k)} = 1"
      unfolding length_filter_conv_card [symmetric] r by simp
    ultimately show False using \<open>k \<noteq> m\<close> by simp
  qed
  let ?j = "Suc i + m"
  have j: "?j < length ixs" "ixs ! ?j = r" using m by auto
  have tail: "ixs ! k = ?tail ! (k - Suc i)" "k - Suc i < length ?tail" if "i < k" "k < length ixs" for k
    using that by auto
  obtain index where index: "flash_repay_args ids r = Inr (a, index)" "unat index = i"
    "ix_accounts r = ix_accounts (ixs ! i)"
    using match unfolding matching_repay_ok by blast
  show thesis
  proof (rule that [OF a(1)])
    show "i < ?j" "?j < length ixs" "is_flash_repay ids (ixs ! ?j)"
      using j \<open>is_flash_repay ids r\<close> by simp_all
    show "flash_repay_args ids (ixs ! ?j) = Inr (a, index)" "unat index = i"
      "ix_accounts (ixs ! ?j) = ix_accounts (ixs ! i)"
      using index j(2) by simp_all
    show "\<forall>k. i < k \<and> k < length ixs \<and> is_flash_repay ids (ixs ! k) \<longrightarrow> k = ?j"
      using only tail by (metis add.commute le_add_diff_inverse2 Suc_leI)
    show "\<forall>k. i < k \<and> k < length ixs \<longrightarrow> \<not> is_flash_borrow ids (ixs ! k)"
      using scan tail nth_mem by metis
  qed
qed

lemma passing_repay:
  assumes "flash_ix_passes ids ixs j" "is_flash_repay ids (ixs ! j)" "j < length ixs"
    and "flash_borrow_disc ids \<noteq> flash_repay_disc ids"
  shows "\<exists>i < j. is_flash_borrow ids (ixs ! i)"
proof -
  obtain a index where "flash_repay_args ids (ixs ! j) = Inr (a, index)"
    "flash_repay_checks ids (top_level ixs j) (ix_accounts (ixs ! j) ! 3) index a = Inr ()"
    using assms(1,2) by (auto simp: flash_ix_passes_def is_ok_def rbind_eq_Inr)
  then have i: "unat index \<le> j" "is_flash_borrow ids (ixs ! unat index)"
    using assms(3)
    by (auto simp: flash_ix_passes_def is_ok_def rbind_eq_Inr flash_repay_checks_def top_level_def
        load_instruction_at_def is_flash_borrow_def fail_eq split: if_splits)
  moreover have "unat index \<noteq> j" using i(2) assms(2,4) by (auto simp: is_flash_borrow_def is_flash_repay_def)
  ultimately show ?thesis by (intro exI [of _ "unat index"]) simp
qed

section \<open>Required neighbours\<close>

definition ix_is :: "program_ids \<Rightarrow> required_ix_type \<Rightarrow> (pubkey \<times> nat) list \<Rightarrow> ix \<Rightarrow> bool" where
  "ix_is ids kind accounts ixn \<longleftrightarrow> ix_program ixn = klend_id ids \<and>
     data_prefix ixn = Inr (required_discriminator ids kind) \<and>
     (\<forall>(key, index) \<in> set accounts. index < length (ix_accounts ixn) \<and> ix_accounts ixn ! index = key)"

lemma check_ix_accounts_ok:
  "check_ix_accounts ixn accounts = Inr () \<longleftrightarrow>
     (\<forall>(key, index) \<in> set accounts. index < length (ix_accounts ixn) \<and> ix_accounts ixn ! index = key)"
  by (induction ixn accounts rule: check_ix_accounts.induct) (auto simp: fail_eq)

lemma check_required_ix_ok:
  "check_required_ix ids ixn req = Inr () \<longleftrightarrow> ix_is ids (ri_kind req) (ri_accounts req) ixn"
  by (auto simp: check_required_ix_def ix_is_def rbind_eq_Inr fail_eq check_ix_accounts_ok
      split: if_splits)

lemma check_ixns_pre:
  assumes "check_ixns ids t PreIxs i reqs = Inr ()" "k < length reqs"
  shows "i + k < tx_current t" "tx_current t - Suc (i + k) < length (tx_ixs t)"
    "ix_is ids (ri_kind (reqs ! k)) (ri_accounts (reqs ! k)) (tx_ixs t ! (tx_current t - Suc (i + k)))"
proof -
  have "i + k < tx_current t \<and> tx_current t - Suc (i + k) < length (tx_ixs t) \<and>
    ix_is ids (ri_kind (reqs ! k)) (ri_accounts (reqs ! k)) (tx_ixs t ! (tx_current t - Suc (i + k)))"
    using assms
  proof (induction reqs arbitrary: i k)
    case (Cons req reqs)
    then have first: "i < tx_current t" "tx_current t - Suc i < length (tx_ixs t)"
      "ix_is ids (ri_kind req) (ri_accounts req) (tx_ixs t ! (tx_current t - Suc i))"
      and rest: "check_ixns ids t PreIxs (Suc i) reqs = Inr ()"
      by (auto simp: rbind_eq_Inr fail_eq appended_offset_def check_required_ix_ok split: if_splits)
    show ?case
    proof (cases k)
      case (Suc k')
      with Cons.IH [OF rest, of k'] Cons.prems(2) show ?thesis by simp
    qed (use first in simp)
  qed simp
  then show "i + k < tx_current t" "tx_current t - Suc (i + k) < length (tx_ixs t)"
    "ix_is ids (ri_kind (reqs ! k)) (ri_accounts (reqs ! k)) (tx_ixs t ! (tx_current t - Suc (i + k)))"
    by blast+
qed

lemma check_ixns_post:
  assumes "check_ixns ids t PostIxs i reqs = Inr ()" "k < length reqs"
  shows "tx_current t + Suc (i + k) < length (tx_ixs t) \<and>
    ix_is ids (ri_kind (reqs ! k)) (ri_accounts (reqs ! k)) (tx_ixs t ! (tx_current t + Suc (i + k)))"
  using assms
proof (induction reqs arbitrary: i k)
  case (Cons req reqs)
  then have first: "tx_current t + Suc i < length (tx_ixs t)"
    "ix_is ids (ri_kind req) (ri_accounts req) (tx_ixs t ! (tx_current t + Suc i))"
    and rest: "check_ixns ids t PostIxs (Suc i) reqs = Inr ()"
    by (auto simp: rbind_eq_Inr fail_eq appended_offset_def check_required_ix_ok split: if_splits)
  show ?case
  proof (cases k)
    case (Suc k')
    with Cons.IH [OF rest, of k'] Cons.prems(2) show ?thesis by simp
  qed (use first in simp)
qed simp

text \<open>The required instructions before the current one, read in the order of the transaction.\<close>

lemma check_refresh_before:
  assumes "check_refresh ids t reserves obl modes = Inr ()"
    and "k < length (required_pre_ixs reserves obl modes)"
  defines "n \<equiv> length (required_pre_ixs reserves obl modes)"
  shows "n \<le> tx_current t" "tx_current t - n + k < length (tx_ixs t)"
    "ix_is ids (ri_kind (required_pre_ixs reserves obl modes ! k))
       (ri_accounts (required_pre_ixs reserves obl modes ! k)) (tx_ixs t ! (tx_current t - n + k))"
proof -
  let ?pre = "required_pre_ixs reserves obl modes"
  have pre: "check_ixns ids t PreIxs 0 (rev ?pre) = Inr ()"
    using assms(1) by (auto simp: check_refresh_def rbind_eq_Inr fail_eq split: if_splits)
  have "n - 1 < length (rev ?pre)" "n - Suc k < length (rev ?pre)" using assms(2) by (auto simp: n_def)
  note at = check_ixns_pre [OF pre this(1)] and kth = check_ixns_pre [OF pre this(2)]
  show n: "n \<le> tx_current t" using at(1) by simp
  have "tx_current t - Suc (n - Suc k) = tx_current t - n + k" "rev ?pre ! (n - Suc k) = ?pre ! k"
    using n assms(2) by (auto simp: n_def rev_nth)
  with kth show "tx_current t - n + k < length (tx_ixs t)"
    "ix_is ids (ri_kind (?pre ! k)) (ri_accounts (?pre ! k)) (tx_ixs t ! (tx_current t - n + k))"
    by simp_all
qed

lemma reserves_covered:
  assumes "(key, r) \<in> set reserves"
  shows "\<exists>k < refresh_reserve_count reserves. fst (reserves ! k) = key"
proof (cases "length reserves = 2 \<and> fst (reserves ! 0) = fst (reserves ! 1)")
  case True
  then obtain a b where "reserves = [a, b]" "fst a = fst b"
    by (cases reserves; cases "tl reserves") auto
  with assms show ?thesis by (auto simp: refresh_reserve_count_def)
next
  case False
  with assms show ?thesis unfolding refresh_reserve_count_def if_not_P [OF False]
    by (metis fst_conv in_set_conv_nth)
qed

section \<open>Properties\<close>

text \<open>
  C25. Flash loans come in pairs: in a transaction whose flash instructions all pass their checks,
  either there is none, or there is exactly one flash borrow and exactly one flash repay, the
  repay comes after the borrow and names it, and both have the same amount and the same accounts.
  A flash instruction that passes was not called by another program.
\<close>

theorem flash_loans_pair_up:
  assumes "flash_borrow_disc ids \<noteq> flash_repay_disc ids"
    and "\<forall>k < length ixs. flash_ix_passes ids ixs k"
  shows "((\<forall>k < length ixs. \<not> is_flash_borrow ids (ixs ! k) \<and> \<not> is_flash_repay ids (ixs ! k)) \<or>
    (\<exists>i j a at. i < j \<and> j < length ixs \<and>
       (\<forall>k < length ixs. is_flash_borrow ids (ixs ! k) \<longleftrightarrow> k = i) \<and>
       (\<forall>k < length ixs. is_flash_repay ids (ixs ! k) \<longleftrightarrow> k = j) \<and>
       flash_borrow_amount ids (ixs ! i) = Inr a \<and> flash_repay_args ids (ixs ! j) = Inr (a, at) \<and>
       unat at = i \<and> ix_accounts (ixs ! j) = ix_accounts (ixs ! i))) \<and>
    (flash_borrow_checks ids t amount = Inr () \<or> flash_repay_checks ids t reserve_key index amount = Inr () \<longrightarrow>
       tx_stack_height t \<le> 1 \<and> ix_program (tx_ixs t ! tx_current t) = klend_id ids)"
proof (intro conjI)
  show "flash_borrow_checks ids t amount = Inr () \<or> flash_repay_checks ids t reserve_key index amount = Inr () \<longrightarrow>
      tx_stack_height t \<le> 1 \<and> ix_program (tx_ixs t ! tx_current t) = klend_id ids"
  proof
    assume "flash_borrow_checks ids t amount = Inr () \<or> flash_repay_checks ids t reserve_key index amount = Inr ()"
    then have "is_flash_forbidden_cpi_call ids t = Inr False"
      by (auto simp: flash_borrow_checks_def flash_repay_checks_def rbind_eq_Inr fail_eq split: if_splits)
    then show "tx_stack_height t \<le> 1 \<and> ix_program (tx_ixs t ! tx_current t) = klend_id ids"
      by (simp add: is_flash_forbidden_eq TRANSACTION_LEVEL_STACK_HEIGHT_def)
  qed
  let ?pair = "\<exists>i j a at. i < j \<and> j < length ixs \<and>
       (\<forall>k < length ixs. is_flash_borrow ids (ixs ! k) \<longleftrightarrow> k = i) \<and>
       (\<forall>k < length ixs. is_flash_repay ids (ixs ! k) \<longleftrightarrow> k = j) \<and>
       flash_borrow_amount ids (ixs ! i) = Inr a \<and> flash_repay_args ids (ixs ! j) = Inr (a, at) \<and>
       unat at = i \<and> ix_accounts (ixs ! j) = ix_accounts (ixs ! i)"
  have pair: ?pair if "is_flash_borrow ids (ixs ! i)" "i < length ixs" for i
  proof -
    from that assms(2) have "flash_ix_passes ids ixs i" by blast
    from passing_borrow [OF this that assms(1)] obtain a j at where
      aj: "flash_borrow_amount ids (ixs ! i) = Inr a" "i < j" "j < length ixs"
      "is_flash_repay ids (ixs ! j)" "flash_repay_args ids (ixs ! j) = Inr (a, at)"
      "unat at = i" "ix_accounts (ixs ! j) = ix_accounts (ixs ! i)"
      "\<forall>k. i < k \<and> k < length ixs \<and> is_flash_repay ids (ixs ! k) \<longrightarrow> k = j"
      "\<forall>k. i < k \<and> k < length ixs \<longrightarrow> \<not> is_flash_borrow ids (ixs ! k)" .
    have first: "k = i" if k: "is_flash_borrow ids (ixs ! k)" "k < length ixs" for k
    proof (rule ccontr)
      assume "k \<noteq> i"
      with aj(9) k have "k < i" by (meson nat_neq_iff)
      from k assms(2) have "flash_ix_passes ids ixs k" by blast
      from passing_borrow [OF this k assms(1)] \<open>k < i\<close> \<open>is_flash_borrow ids (ixs ! i)\<close> \<open>i < length ixs\<close>
      show False by metis
    qed
    have "k = j" if k: "is_flash_repay ids (ixs ! k)" "k < length ixs" for k
    proof -
      from k assms(2) have "flash_ix_passes ids ixs k" by blast
      from passing_repay [OF this k assms(1)] first k(2) have "i < k"
        by (metis order.strict_trans)
      with aj(8) k show ?thesis by blast
    qed
    with first aj that show ?thesis by blast
  qed
  have "\<exists>i < length ixs. is_flash_borrow ids (ixs ! i)" if "is_flash_repay ids (ixs ! j)" "j < length ixs" for j
    using passing_repay [OF _ that assms(1)] assms(2) that(2) by (metis order.strict_trans)
  with pair show "(\<forall>k < length ixs. \<not> is_flash_borrow ids (ixs ! k) \<and> \<not> is_flash_repay ids (ixs ! k)) \<or> ?pair"
    by blast
qed

definition sample_ids :: program_ids where
  "sample_ids = \<lparr> klend_id = 7, compute_budget_id = 8, restricted_programs = [], cpi_whitelist = [],
     flash_borrow_disc = [1, 1, 1, 1, 1, 1, 1, 1], flash_repay_disc = [2, 2, 2, 2, 2, 2, 2, 2],
     refresh_reserve_disc = [3, 3, 3, 3, 3, 3, 3, 3], refresh_farms_disc = [4, 4, 4, 4, 4, 4, 4, 4],
     refresh_obligation_disc = [5, 5, 5, 5, 5, 5, 5, 5],
     borrow_args = (\<lambda>bs. if 8 \<le> length bs then Inr (u64_from_le_bytes (take 8 bs)) else Inl ProgramErr),
     repay_args = (\<lambda>bs. if length bs = 9 then Inr (u64_from_le_bytes (take 8 bs), bs ! 8)
                        else Inl ProgramErr) \<rparr>"

definition sample_flash_tx :: "ix list" where
  "sample_flash_tx =
     [\<lparr> ix_program = 8, ix_data = [], ix_accounts = [] \<rparr>,
      \<lparr> ix_program = 7, ix_data = [1, 1, 1, 1, 1, 1, 1, 1, 100, 0, 0, 0, 0, 0, 0, 0], ix_accounts = [11, 12, 13, 14] \<rparr>,
      \<lparr> ix_program = 7, ix_data = [2, 2, 2, 2, 2, 2, 2, 2, 100, 0, 0, 0, 0, 0, 0, 0, 1], ix_accounts = [11, 12, 13, 14] \<rparr>]"

theorem flash_loans_pair_up_witness:
  "(\<exists>i j. i < j \<and> (\<forall>k < 3. is_flash_borrow sample_ids (sample_flash_tx ! k) \<longleftrightarrow> k = i) \<and>
      (\<forall>k < 3. is_flash_repay sample_ids (sample_flash_tx ! k) \<longleftrightarrow> k = j)) \<and>
   is_flash_borrow sample_ids (sample_flash_tx ! 1)"
proof -
  have n: "length sample_flash_tx = 3" by (simp add: sample_flash_tx_def)
  have borrow: "is_flash_borrow sample_ids (sample_flash_tx ! 1)"
    by (simp add: is_flash_borrow_def sample_flash_tx_def sample_ids_def data_prefix_def)
  have disc: "flash_borrow_disc sample_ids \<noteq> flash_repay_disc sample_ids"
    by (simp add: sample_ids_def)
  have "flash_ix_passes sample_ids sample_flash_tx 0" "flash_ix_passes sample_ids sample_flash_tx 1"
    "flash_ix_passes sample_ids sample_flash_tx 2"
    by (simp_all add: flash_ix_passes_def is_flash_borrow_def is_flash_repay_def sample_flash_tx_def
        sample_ids_def data_prefix_def data_amount_def flash_borrow_amount_def flash_borrow_checks_def
        flash_repay_checks_def top_level_def is_flash_forbidden_cpi_call_def load_instruction_at_def ix_iterator_def
        flash_borrow_check_matching_repay_def flash_repay_args_def u64_from_le_bytes_def
        TRANSACTION_LEVEL_STACK_HEIGHT_def fail_def)
  then have "\<forall>k < length sample_flash_tx. flash_ix_passes sample_ids sample_flash_tx k"
    by (simp add: n numeral_3_eq_3 numeral_2_eq_2 less_Suc_eq)
  from flash_loans_pair_up [OF disc this] borrow n show ?thesis
    by (metis One_nat_def Suc_lessD numeral_3_eq_3 lessI)
qed

text \<open>The farms of the reserves that must be refreshed, with the key of their reserve.\<close>

definition due_farms :: "(pubkey \<times> reserve) list \<Rightarrow> reserve_farm_kind list \<Rightarrow> (pubkey \<times> pubkey) list" where
  "due_farms reserves modes = map (\<lambda>((key, r), mode). (key, get_farm r mode))
     (filter (\<lambda>((key, r), mode). get_farm r mode \<noteq> 0) (zip reserves modes))"

lemma required_farms_due:
  "required_farm_ixs reserves obl modes = map (\<lambda>(key, farm). \<lparr> ri_kind = RefreshFarmsForObligationForReserve,
     ri_accounts = [(key, 3), (obl, 1), (farm, 4)] \<rparr>) (due_farms reserves modes)"
proof -
  have "(\<lambda>((key :: pubkey, r), mode). get_farm r mode \<noteq> 0) = (\<lambda>((_, r), mode). get_farm r mode \<noteq> 0)" by simp
  then show ?thesis by (simp add: required_farm_ixs_def due_farms_def case_prod_beta comp_def)
qed

text \<open>
  C26. An instruction that passes \<open>check_refresh\<close> stands directly between its refreshes, with nothing in
  between: the instructions immediately before it are, in this order, a refresh of each of its reserves,
  the refresh of its obligation, and a refresh of every farm of those reserves; the instructions
  immediately after it are refreshes of the same farms in the same order. All are instructions of the
  program on these accounts, and the instruction was not called by a program outside the whitelist.
\<close>

theorem refreshes_surround_instruction:
  assumes "check_refresh ids t reserves obl modes = Inr ()"
    and "n = (if length reserves = 2 \<and> fst (reserves ! 0) = fst (reserves ! 1) then 1 else length reserves)"
    and "farms = due_farms reserves modes"
    and "start = tx_current t - (n + 1 + length farms)"
  shows "n + 1 + length farms \<le> tx_current t \<and>
    (\<forall>j < n. ix_is ids RefreshReserve [(fst (reserves ! j), 0)] (tx_ixs t ! (start + j))) \<and>
    ix_is ids RefreshObligation [(obl, 1)] (tx_ixs t ! (start + n)) \<and>
    (\<forall>j < length farms. ix_is ids RefreshFarmsForObligationForReserve
        [(fst (farms ! j), 3), (obl, 1), (snd (farms ! j), 4)] (tx_ixs t ! (start + n + 1 + j)) \<and>
      tx_current t + 1 + j < length (tx_ixs t) \<and>
      ix_is ids RefreshFarmsForObligationForReserve
        [(fst (farms ! j), 3), (obl, 1), (snd (farms ! j), 4)] (tx_ixs t ! (tx_current t + 1 + j))) \<and>
    is_forbidden_cpi_call ids t = Inr False"
proof -
  let ?pre = "required_pre_ixs reserves obl modes" and ?farms = "required_farm_ixs reserves obl modes"
  have n: "n = refresh_reserve_count reserves" using assms(2) by (simp add: refresh_reserve_count_def)
  then have le: "n \<le> length reserves" by (simp add: refresh_reserve_count_def)
  have lf: "length ?farms = length farms" by (simp add: required_farms_due assms(3))
  then have len: "length ?pre = n + 1 + length farms" using le by (simp add: required_pre_ixs_def n)
  have room: "n + 1 + length farms \<le> tx_current t" using check_refresh_before(1) [OF assms(1), of 0] len by simp
  have at: "k < length ?pre \<Longrightarrow> ix_is ids (ri_kind (?pre ! k)) (ri_accounts (?pre ! k)) (tx_ixs t ! (start + k))" for k
    using check_refresh_before(3) [OF assms(1)] by (simp add: assms(4) len)
  have "ix_is ids RefreshReserve [(fst (reserves ! j), 0)] (tx_ixs t ! (start + j))" if "j < n" for j
    using at [of j] that le len by (simp add: required_pre_ixs_def nth_append case_prod_beta flip: n)
  moreover have "ix_is ids RefreshObligation [(obl, 1)] (tx_ixs t ! (start + n))"
    using at [of n] le len by (simp add: required_pre_ixs_def nth_append flip: n)
  moreover have "ix_is ids RefreshFarmsForObligationForReserve
      [(fst (farms ! j), 3), (obl, 1), (snd (farms ! j), 4)] (tx_ixs t ! (start + n + 1 + j))"
    and "tx_current t + 1 + j < length (tx_ixs t) \<and> ix_is ids RefreshFarmsForObligationForReserve
      [(fst (farms ! j), 3), (obl, 1), (snd (farms ! j), 4)] (tx_ixs t ! (tx_current t + 1 + j))"
    if "j < length farms" for j
  proof -
    have fj: "?farms ! j = \<lparr> ri_kind = RefreshFarmsForObligationForReserve,
        ri_accounts = [(fst (farms ! j), 3), (obl, 1), (snd (farms ! j), 4)] \<rparr>"
      using that by (simp add: required_farms_due assms(3) case_prod_beta)
    have "?pre ! (n + 1 + j) = ?farms ! j" using le by (simp add: required_pre_ixs_def nth_append flip: n)
    with at [of "n + 1 + j"] that len fj show "ix_is ids RefreshFarmsForObligationForReserve
        [(fst (farms ! j), 3), (obl, 1), (snd (farms ! j), 4)] (tx_ixs t ! (start + n + 1 + j))"
      by (simp add: add.assoc)
    have "check_ixns ids t PostIxs 0 ?farms = Inr ()"
      using assms(1) by (auto simp: check_refresh_def rbind_eq_Inr fail_eq split: if_splits)
    from check_ixns_post [OF this, of j] that lf fj
    show "tx_current t + 1 + j < length (tx_ixs t) \<and> ix_is ids RefreshFarmsForObligationForReserve
        [(fst (farms ! j), 3), (obl, 1), (snd (farms ! j), 4)] (tx_ixs t ! (tx_current t + 1 + j))" by simp
  qed
  moreover have "is_forbidden_cpi_call ids t = Inr False"
    using assms(1) by (auto simp: check_refresh_def rbind_eq_Inr fail_eq split: if_splits)
  ultimately show ?thesis using room by blast
qed

text \<open>A reserve with a farm for its debt, whose instruction stands at index 3 of the transaction.\<close>

definition farmed_reserve :: reserve where
  "farmed_reserve = sample_reserve\<lparr> farm_debt := 44 \<rparr>"

definition sample_refresh_view :: tx_view where
  "sample_refresh_view = \<lparr> tx_ixs =
     [\<lparr> ix_program = 7, ix_data = [3, 3, 3, 3, 3, 3, 3, 3], ix_accounts = [21] \<rparr>,
      \<lparr> ix_program = 7, ix_data = [5, 5, 5, 5, 5, 5, 5, 5], ix_accounts = [30, 31] \<rparr>,
      \<lparr> ix_program = 7, ix_data = refresh_farms_disc sample_ids, ix_accounts = [1, 31, 2, 21, 44] \<rparr>,
      \<lparr> ix_program = 7, ix_data = [9, 9, 9, 9, 9, 9, 9, 9], ix_accounts = [] \<rparr>,
      \<lparr> ix_program = 7, ix_data = refresh_farms_disc sample_ids, ix_accounts = [1, 31, 2, 21, 44] \<rparr>],
     tx_current = 3, tx_stack_height = 1 \<rparr>"

theorem refreshes_surround_instruction_witness:
  "check_refresh sample_ids sample_refresh_view [(21, farmed_reserve)] 31 [FarmDebt] = Inr () \<and>
   ix_is sample_ids RefreshReserve [(21, 0)] (tx_ixs sample_refresh_view ! 0) \<and>
   ix_is sample_ids RefreshObligation [(31, 1)] (tx_ixs sample_refresh_view ! 1) \<and>
   ix_is sample_ids RefreshFarmsForObligationForReserve [(21, 3), (31, 1), (44, 4)] (tx_ixs sample_refresh_view ! 2) \<and>
   ix_is sample_ids RefreshFarmsForObligationForReserve [(21, 3), (31, 1), (44, 4)] (tx_ixs sample_refresh_view ! 4)"
proof -
  have farm: "get_farm farmed_reserve FarmDebt = 44" by (simp add: get_farm_def farmed_reserve_def)
  have c: "check_refresh sample_ids sample_refresh_view [(21, farmed_reserve)] 31 [FarmDebt] = Inr ()"
    by (simp add: check_refresh_def is_forbidden_cpi_call_def load_instruction_at_def
        sample_refresh_view_def sample_ids_def TRANSACTION_LEVEL_STACK_HEIGHT_def required_pre_ixs_def
        required_farm_ixs_def refresh_reserve_count_def farm appended_offset_def check_required_ix_def
        data_prefix_def fail_def)
  have "due_farms [(21, farmed_reserve)] [FarmDebt] = [(21, 44)]" by (simp add: due_farms_def farm)
  with refreshes_surround_instruction [OF c refl refl refl] c show ?thesis
    by (simp add: sample_refresh_view_def)
qed

end
