(* ===== verification/Config_Items.thy ===== *)
theory Config_Items imports Prelude Reserve_Liquidity begin

text \<open>
  Configuration items (\<open>lending_market/config_items.rs\<close>): every change of a configuration field
  reads a value from the bytes of the instruction, validates it and stores it. Decoding belongs to
  the serialization package and is a parameter; renderings only produce log messages. The global
  configuration (\<open>state/global_config.rs\<close>) with its handlers is the smallest client.
\<close>

section \<open>Decoding\<close>

record decoders =
  de_u8 :: "u8 list \<Rightarrow> u8 res"
  de_u16 :: "u8 list \<Rightarrow> u16 res"
  de_u32 :: "u8 list \<Rightarrow> u32 res"
  de_u64 :: "u8 list \<Rightarrow> u64 res"
  de_u128 :: "u8 list \<Rightarrow> u128 res"
  de_pubkey :: "u8 list \<Rightarrow> pubkey res"

section \<open>Setting an item\<close>

text \<open>
  \<open>set\<close>: the new value, decoded and validated. The setters of the code store it in a field of the
  target, which the callers write as a record update.
\<close>

definition set_item :: "(u8 list \<Rightarrow> 'a res) \<Rightarrow> ('a \<Rightarrow> unit res) \<Rightarrow> u8 list \<Rightarrow> 'a res" where
  "set_item deserialize validator source =
     rbind (deserialize source) (\<lambda>new_value. rbind (validator new_value) (\<lambda>_. Inr new_value))"

text \<open>\<open>for_field\<close>: the field is overwritten with the new value.\<close>

definition set_field :: "(u8 list \<Rightarrow> 'a res) \<Rightarrow> ('a \<Rightarrow> unit res) \<Rightarrow> u8 list \<Rightarrow> ('a \<Rightarrow> 't) \<Rightarrow> 't res" where
  "set_field deserialize validator source write_to_target =
     rbind (set_item deserialize validator source) (\<lambda>new_value. Inr (write_to_target new_value))"

lemma set_item_eq [res_simps]:
  "set_item de check bs = Inr v \<longleftrightarrow> de bs = Inr v \<and> check v = Inr ()"
  by (auto simp: set_item_def rbind_eq_Inr)

lemma set_field_eq [res_simps]:
  "set_field de check bs f = Inr t \<longleftrightarrow> (\<exists>v. de bs = Inr v \<and> check v = Inr () \<and> t = f v)"
  by (auto simp: set_field_def set_item_def rbind_eq_Inr)

section \<open>Permissioned operations\<close>

text \<open>A set of operations is a bit mask (\<open>utils/permissioning.rs\<close>).\<close>

type_synonym permissioned_op = u64

definition DEPOSIT :: permissioned_op where "DEPOSIT = push_bit 0 1"
definition BORROW :: permissioned_op where "BORROW = push_bit 1 1"
definition LIQUIDATE :: permissioned_op where "LIQUIDATE = push_bit 2 1"
definition NONE :: permissioned_op where "NONE = 0"

unbundle bit_operations_syntax

definition PERMISSION_ALL :: permissioned_op where
  "PERMISSION_ALL = DEPOSIT OR BORROW OR LIQUIDATE OR NONE"

definition from_bits_truncate :: "u64 \<Rightarrow> permissioned_op" where
  "from_bits_truncate bits = bits AND PERMISSION_ALL"

definition from_bits_opt :: "u64 \<Rightarrow> permissioned_op option" where
  "from_bits_opt bits = (if bits AND PERMISSION_ALL = bits then Some bits else None)"

definition intersects :: "permissioned_op \<Rightarrow> permissioned_op \<Rightarrow> bool" where
  "intersects op ops \<longleftrightarrow> op AND ops \<noteq> NONE"

section \<open>Validations\<close>

definition accept_anything :: "'a \<Rightarrow> unit res" where
  "accept_anything v = Inr ()"

definition check_bool :: "'a::len word \<Rightarrow> unit res" where
  "check_bool v = (if unat v > 1 then fail InvalidFlag else Inr ())"

definition check_not_zero :: "'a::len word \<Rightarrow> unit res" where
  "check_not_zero v = (if v = 0 then fail InvalidConfig else Inr ())"

definition check_not_negative :: "'a::len word \<Rightarrow> unit res" where
  "check_not_negative v = (if sint v < 0 then fail InvalidConfig else Inr ())"

definition check_in_range :: "nat \<Rightarrow> nat \<Rightarrow> 'a::len word \<Rightarrow> unit res" where
  "check_in_range lo hi v = (if \<not> (lo \<le> unat v \<and> unat v \<le> hi) then fail InvalidConfig else Inr ())"

definition check_valid_pct :: "'a::len word \<Rightarrow> unit res" where
  "check_valid_pct v = check_in_range 0 100 v"

definition check_valid_bps :: "'a::len word \<Rightarrow> unit res" where
  "check_valid_bps v = check_in_range 0 FULL_BPS v"

definition check_gte :: "nat \<Rightarrow> 'a::len word \<Rightarrow> unit res" where
  "check_gte lo v = (if unat v < lo then fail InvalidConfig else Inr ())"

definition check_lte :: "nat \<Rightarrow> 'a::len word \<Rightarrow> unit res" where
  "check_lte hi v = (if unat v > hi then fail InvalidConfig else Inr ())"

definition check_valid_u8_enum :: "(u8 \<Rightarrow> 'e option) \<Rightarrow> u8 \<Rightarrow> unit res" where
  "check_valid_u8_enum try_from repr =
     (case try_from repr of Some _ \<Rightarrow> Inr () | None \<Rightarrow> fail InvalidConfig)"

definition check_valid_permissioned_ops :: "u64 \<Rightarrow> unit res" where
  "check_valid_permissioned_ops bits =
     (case from_bits_opt bits of Some _ \<Rightarrow> Inr () | None \<Rightarrow> fail InvalidConfig)"

lemma validation_eq [res_simps]:
  "accept_anything v = Inr ()"
  "check_bool v = Inr () \<longleftrightarrow> unat v \<le> 1"
  "check_not_zero v = Inr () \<longleftrightarrow> v \<noteq> 0"
  "check_not_negative v = Inr () \<longleftrightarrow> 0 \<le> sint v"
  "check_in_range lo hi v = Inr () \<longleftrightarrow> lo \<le> unat v \<and> unat v \<le> hi"
  "check_valid_pct v = Inr () \<longleftrightarrow> unat v \<le> 100"
  "check_valid_bps v = Inr () \<longleftrightarrow> unat v \<le> 10000"
  "check_gte lo v = Inr () \<longleftrightarrow> lo \<le> unat v"
  "check_lte hi v = Inr () \<longleftrightarrow> unat v \<le> hi"
  "check_valid_u8_enum f b = Inr () \<longleftrightarrow> f b \<noteq> None"
  "check_valid_permissioned_ops bits = Inr () \<longleftrightarrow> from_bits_truncate bits = bits"
  by (auto simp: accept_anything_def check_bool_def check_not_zero_def check_not_negative_def
      check_in_range_def check_valid_pct_def check_valid_bps_def check_gte_def check_lte_def
      check_valid_u8_enum_def check_valid_permissioned_ops_def
      from_bits_opt_def from_bits_truncate_def fail_def FULL_BPS_def split: option.splits)

section \<open>The global configuration\<close>

record global_config =
  gc_global_admin :: pubkey
  gc_pending_admin :: pubkey
  gc_fee_collector :: pubkey

datatype update_global_config_mode = PendingAdmin | FeeCollector

definition global_config_init :: "global_config \<Rightarrow> pubkey \<Rightarrow> global_config" where
  "global_config_init gc initial_admin = gc\<lparr> gc_global_admin := initial_admin,
     gc_pending_admin := initial_admin, gc_fee_collector := initial_admin \<rparr>"

definition update_global_config_value ::
  "decoders \<Rightarrow> global_config \<Rightarrow> update_global_config_mode \<Rightarrow> u8 list \<Rightarrow> global_config res" where
  "update_global_config_value D gc mode bytes = (case mode of
     PendingAdmin \<Rightarrow> rbind (set_item (de_pubkey D) accept_anything bytes) (\<lambda>v.
       Inr (gc\<lparr> gc_pending_admin := v \<rparr>))
   | FeeCollector \<Rightarrow> rbind (set_item (de_pubkey D) accept_anything bytes) (\<lambda>v.
       Inr (gc\<lparr> gc_fee_collector := v \<rparr>)))"

definition apply_pending_admin :: "global_config \<Rightarrow> global_config" where
  "apply_pending_admin gc = gc\<lparr> gc_global_admin := gc_pending_admin gc \<rparr>"

text \<open>The handlers with the account constraint \<open>has_one\<close> on their signer.\<close>

definition process_update_global_config ::
  "decoders \<Rightarrow> pubkey \<Rightarrow> global_config \<Rightarrow> update_global_config_mode \<Rightarrow> u8 list \<Rightarrow> global_config res" where
  "process_update_global_config D signer gc mode bytes =
     (if gc_global_admin gc \<noteq> signer then Inl ProgramErr
      else update_global_config_value D gc mode bytes)"

definition process_update_global_config_admin :: "pubkey \<Rightarrow> global_config \<Rightarrow> global_config res" where
  "process_update_global_config_admin signer gc =
     (if gc_pending_admin gc \<noteq> signer then Inl ProgramErr else Inr (apply_pending_admin gc))"

end
