(* ===== verification/Ownership_Transfer.thy ===== *)
theory Ownership_Transfer imports Obligation Transaction Config_Items begin

text \<open>
  The transfer of an obligation to a new owner: the four handlers
  \<open>handler_(initiate|approve|accept|abort)_obligation_ownership_transfer.rs\<close>, with their account
  constraints, guards and effects, as a labelled transition system together with the changes of
  the global admin and with everything else the program does to an obligation.
\<close>

section \<open>Guards\<close>

definition clock_timestamp :: "i64 \<Rightarrow> u64 res" where
  "clock_timestamp unix_timestamp = (if sint unix_timestamp < 0 then Inl Panic else Inr unix_timestamp)"

definition clear_expired_borrow_order_on_initiating_obligation_ownership_transfer ::
  "obligation \<Rightarrow> i64 \<Rightarrow> obligation res" where
  "clear_expired_borrow_order_on_initiating_obligation_ownership_transfer ob clock =
     rbind (clock_timestamp clock) (\<lambda>timestamp.
     Inr (ob\<lparr> ob_borrow_order := clear_if_past_fillable_timestamp (ob_borrow_order ob) timestamp \<rparr>))"

definition obligation_has_no_active_borrow_orders_check :: "obligation \<Rightarrow> unit res" where
  "obligation_has_no_active_borrow_orders_check ob =
     (if ob_borrow_order ob \<noteq> borrow_order_default then fail ObligationHasActiveBorrowOrders else Inr ())"

definition obligation_ownership_transfer_precondition_checks ::
  "program_ids \<Rightarrow> tx_view \<Rightarrow> obligation \<Rightarrow> unit res" where
  "obligation_ownership_transfer_precondition_checks ids t ob =
     rbind (obligation_ownership_transfer_execution_context_checks ids t) (\<lambda>_.
     obligation_has_no_active_borrow_orders_check ob)"

section \<open>Handlers\<close>

text \<open>
  The signer is checked before the body runs: \<open>has_one = owner\<close>, \<open>has_one = global_admin\<close> and
  \<open>has_one = pending_owner\<close>.
\<close>

definition process_initiate_transfer ::
  "program_ids \<Rightarrow> tx_view \<Rightarrow> i64 \<Rightarrow> pubkey \<Rightarrow> pubkey \<Rightarrow> obligation \<Rightarrow> obligation res" where
  "process_initiate_transfer ids t clock owner new_owner ob =
     (if ob_owner ob \<noteq> owner then Inl ProgramErr
      else rbind (check_ownership_transfer_not_in_progress ob) (\<lambda>_.
        rbind (clear_expired_borrow_order_on_initiating_obligation_ownership_transfer ob clock) (\<lambda>ob1.
        rbind (obligation_ownership_transfer_precondition_checks ids t ob1) (\<lambda>_.
        initiate_ownership_transfer ob1 new_owner))))"

definition process_approve_transfer ::
  "i64 \<Rightarrow> pubkey \<Rightarrow> global_config \<Rightarrow> pubkey \<Rightarrow> obligation \<Rightarrow> obligation res" where
  "process_approve_transfer clock global_admin gc pending_owner ob =
     (if gc_global_admin gc \<noteq> global_admin then Inl ProgramErr
      else if ob_pending_owner ob \<noteq> pending_owner then fail ObligationInvalidPendingOwner
      else rbind (clear_expired_borrow_order_on_initiating_obligation_ownership_transfer ob clock) (\<lambda>ob1.
        rbind (check_ownership_transfer_in_initiated_state ob1) (\<lambda>_.
        rbind (obligation_has_no_active_borrow_orders_check ob1) (\<lambda>_.
        Inr (approve_ownership_transfer ob1)))))"

definition process_accept_ownership ::
  "program_ids \<Rightarrow> tx_view \<Rightarrow> i64 \<Rightarrow> pubkey \<Rightarrow> obligation \<Rightarrow> obligation res" where
  "process_accept_ownership ids t clock pending_owner ob =
     (if ob_pending_owner ob \<noteq> pending_owner then fail ObligationInvalidPendingOwner
      else rbind (clear_expired_borrow_order_on_initiating_obligation_ownership_transfer ob clock) (\<lambda>ob1.
        rbind (obligation_ownership_transfer_precondition_checks ids t ob1) (\<lambda>_.
        rbind (check_ownership_transfer_approved ob1) (\<lambda>_.
        Inr (accept_ownership ob1)))))"

definition process_abort_transfer :: "program_ids \<Rightarrow> tx_view \<Rightarrow> pubkey \<Rightarrow> obligation \<Rightarrow> obligation res" where
  "process_abort_transfer ids t owner ob =
     (if ob_owner ob \<noteq> owner then Inl ProgramErr
      else rbind (obligation_ownership_transfer_execution_context_checks ids t) (\<lambda>_.
        rbind (check_ownership_transfer_in_initiated_state ob) (\<lambda>_.
        Inr (abort_ownership_transfer ob))))"

section \<open>The transition system\<close>

text \<open>
  Labels name the signer and what it asked for. \<open>Other\<close> is any other instruction on the
  obligation: none of them writes the owner, the pending owner or the state of the transfer.
\<close>

datatype transfer_label =
    Initiate pubkey pubkey
  | Approve pubkey pubkey
  | Accept pubkey
  | Abort pubkey
  | Other
  | AdminChange pubkey

record transfer_world =
  tw_obligation :: obligation
  tw_config :: global_config

definition same_ownership :: "obligation \<Rightarrow> obligation \<Rightarrow> bool" where
  "same_ownership ob ob' \<longleftrightarrow> ob_owner ob' = ob_owner ob \<and> ob_pending_owner ob' = ob_pending_owner ob \<and>
     ob_ownership_transfer_state ob' = ob_ownership_transfer_state ob"

inductive transfer_step ::
  "program_ids \<Rightarrow> decoders \<Rightarrow> transfer_world \<Rightarrow> transfer_label \<Rightarrow> transfer_world \<Rightarrow> bool"
  for ids D where
  initiate: "process_initiate_transfer ids t clock signer new_owner (tw_obligation w) = Inr ob' \<Longrightarrow>
     transfer_step ids D w (Initiate signer new_owner) (w\<lparr> tw_obligation := ob' \<rparr>)"
| approve: "process_approve_transfer clock signer (tw_config w) pending (tw_obligation w) = Inr ob' \<Longrightarrow>
     transfer_step ids D w (Approve signer pending) (w\<lparr> tw_obligation := ob' \<rparr>)"
| accept: "process_accept_ownership ids t clock signer (tw_obligation w) = Inr ob' \<Longrightarrow>
     transfer_step ids D w (Accept signer) (w\<lparr> tw_obligation := ob' \<rparr>)"
| abort: "process_abort_transfer ids t signer (tw_obligation w) = Inr ob' \<Longrightarrow>
     transfer_step ids D w (Abort signer) (w\<lparr> tw_obligation := ob' \<rparr>)"
| other: "same_ownership (tw_obligation w) ob' \<Longrightarrow>
     transfer_step ids D w Other (w\<lparr> tw_obligation := ob' \<rparr>)"
| update_config: "process_update_global_config D signer (tw_config w) mode bytes = Inr gc' \<Longrightarrow>
     transfer_step ids D w (AdminChange signer) (w\<lparr> tw_config := gc' \<rparr>)"
| apply_admin: "process_update_global_config_admin signer (tw_config w) = Inr gc' \<Longrightarrow>
     transfer_step ids D w (AdminChange signer) (w\<lparr> tw_config := gc' \<rparr>)"

text \<open>Histories, the most recent label first.\<close>

inductive transfer_reaches ::
  "program_ids \<Rightarrow> decoders \<Rightarrow> transfer_world \<Rightarrow> transfer_label list \<Rightarrow> transfer_world \<Rightarrow> bool"
  for ids D w0 where
  start: "transfer_reaches ids D w0 [] w0"
| step: "transfer_reaches ids D w0 h w \<Longrightarrow> transfer_step ids D w l w' \<Longrightarrow>
     transfer_reaches ids D w0 (l # h) w'"

inductive_cases transfer_stepE: "transfer_step ids D w l w'"

text \<open>The labels that concern the transfer.\<close>

fun transfers :: "transfer_label list \<Rightarrow> transfer_label list" where
  "transfers [] = []"
| "transfers (Other # h) = transfers h"
| "transfers (AdminChange a # h) = transfers h"
| "transfers (l # h) = l # transfers h"

text \<open>What the stage of an obligation says about its history.\<close>

definition stage_explained :: "obligation \<Rightarrow> transfer_label list \<Rightarrow> bool" where
  "stage_explained ob h \<longleftrightarrow> (case transfer_stage_of_u8 (ob_ownership_transfer_state ob) of
     Some NotTransferring \<Rightarrow> ob_pending_owner ob = 0
   | Some Initiated \<Rightarrow> ob_pending_owner ob \<noteq> 0 \<and> ob_pending_owner ob \<noteq> ob_owner ob \<and>
       (\<exists>h'. transfers h = Initiate (ob_owner ob) (ob_pending_owner ob) # h')
   | Some Approved \<Rightarrow> ob_pending_owner ob \<noteq> 0 \<and> ob_pending_owner ob \<noteq> ob_owner ob \<and>
       (\<exists>admin h'. transfers h =
          Approve admin (ob_pending_owner ob) # Initiate (ob_owner ob) (ob_pending_owner ob) # h')
   | None \<Rightarrow> False)"

section \<open>What the handlers do\<close>

lemma stage_of_to [simp]: "transfer_stage_of_u8 (transfer_stage_to_u8 s) = Some s"
  by (cases s) (simp_all add: transfer_stage_of_u8_def)

lemma stage_to_inject [simp]: "transfer_stage_to_u8 s = transfer_stage_to_u8 s' \<longleftrightarrow> s = s'"
  by (cases s; cases s') simp_all

lemma stage_read [res_simps]:
  "ownership_transfer_state ob = Inr s \<longleftrightarrow> ob_ownership_transfer_state ob = transfer_stage_to_u8 s"
  by (cases s) (auto simp: ownership_transfer_state_def transfer_stage_of_u8_def ok_or_def)

declare transfer_stage_to_u8.simps [simp del]

lemma clear_expired_eq [res_simps]:
  "clear_expired_borrow_order_on_initiating_obligation_ownership_transfer ob clock = Inr ob' \<longleftrightarrow>
     0 \<le> sint clock \<and> ob' = ob\<lparr> ob_borrow_order := clear_if_past_fillable_timestamp (ob_borrow_order ob) clock \<rparr>"
  by (auto simp: clear_expired_borrow_order_on_initiating_obligation_ownership_transfer_def
      clock_timestamp_def rbind_eq_Inr)

lemmas handler_defs = process_initiate_transfer_def process_approve_transfer_def
  process_accept_ownership_def process_abort_transfer_def check_ownership_transfer_not_in_progress_def
  check_ownership_transfer_in_initiated_state_def check_ownership_transfer_approved_def
  initiate_ownership_transfer_def approve_ownership_transfer_def accept_ownership_def
  abort_ownership_transfer_def

lemma initiate_effect:
  assumes "process_initiate_transfer ids t clock signer new_owner ob = Inr ob'"
  shows "signer = ob_owner ob" "ob_ownership_transfer_state ob = transfer_stage_to_u8 NotTransferring"
    "ob_owner ob' = ob_owner ob" "ob_pending_owner ob' = new_owner" "new_owner \<noteq> 0"
    "new_owner \<noteq> ob_owner ob" "ob_ownership_transfer_state ob' = transfer_stage_to_u8 Initiated"
  using assms by (auto simp: handler_defs res_simps split: if_splits)

lemma approve_effect:
  assumes "process_approve_transfer clock signer gc pending ob = Inr ob'"
  shows "signer = gc_global_admin gc" "pending = ob_pending_owner ob"
    "ob_ownership_transfer_state ob = transfer_stage_to_u8 Initiated"
    "ob_owner ob' = ob_owner ob" "ob_pending_owner ob' = ob_pending_owner ob"
    "ob_ownership_transfer_state ob' = transfer_stage_to_u8 Approved"
  using assms by (auto simp: handler_defs res_simps split: if_splits)

lemma accept_effect:
  assumes "process_accept_ownership ids t clock signer ob = Inr ob'"
  shows "signer = ob_pending_owner ob" "ob_ownership_transfer_state ob = transfer_stage_to_u8 Approved"
    "ob_owner ob' = ob_pending_owner ob" "ob_pending_owner ob' = 0"
    "ob_ownership_transfer_state ob' = transfer_stage_to_u8 NotTransferring"
    "ob_borrow_order ob' = borrow_order_default"
  using assms by (auto simp: handler_defs res_simps obligation_ownership_transfer_precondition_checks_def
      obligation_has_no_active_borrow_orders_check_def split: if_splits)

lemma abort_effect:
  assumes "process_abort_transfer ids t signer ob = Inr ob'"
  shows "signer = ob_owner ob" "ob_ownership_transfer_state ob = transfer_stage_to_u8 Initiated"
    "ob_owner ob' = ob_owner ob" "ob_pending_owner ob' = 0"
    "ob_ownership_transfer_state ob' = transfer_stage_to_u8 NotTransferring"
  using assms by (auto simp: handler_defs res_simps split: if_splits)

lemma step_explained:
  assumes "transfer_step ids D w l w'" "stage_explained (tw_obligation w) h"
  shows "stage_explained (tw_obligation w') (l # h)"
  using assms
proof (cases rule: transfer_step.cases)
  case (initiate t clock signer new_owner ob')
  with initiate_effect [OF initiate(3)] show ?thesis by (simp add: stage_explained_def)
next
  case (approve clock signer pending ob')
  with approve_effect [OF approve(3)] assms(2) show ?thesis by (auto simp: stage_explained_def)
next
  case (accept t clock signer ob')
  with accept_effect [OF accept(3)] show ?thesis by (simp add: stage_explained_def)
next
  case (abort t signer ob')
  with abort_effect [OF abort(3)] show ?thesis by (simp add: stage_explained_def)
qed (use assms(2) in \<open>auto simp: stage_explained_def same_ownership_def split: option.splits transfer_stage.splits\<close>)

lemma reaches_explained:
  assumes "transfer_reaches ids D w0 h w" "stage_explained (tw_obligation w0) []"
  shows "stage_explained (tw_obligation w) h"
  using assms(1) by induction (use assms(2) step_explained in blast)+

lemma step_changes_owner:
  assumes "transfer_step ids D w l w'" "ob_owner (tw_obligation w') \<noteq> ob_owner (tw_obligation w)"
  shows "l = Accept (ob_owner (tw_obligation w')) \<and>
    ob_ownership_transfer_state (tw_obligation w) = transfer_stage_to_u8 Approved \<and>
    ob_pending_owner (tw_obligation w) = ob_owner (tw_obligation w') \<and>
    ob_borrow_order (tw_obligation w') = borrow_order_default"
  using assms(1)
proof (cases rule: transfer_step.cases)
  case (accept t clock signer ob')
  with accept_effect [OF accept(3)] show ?thesis by simp
qed (use assms(2) initiate_effect approve_effect abort_effect in \<open>auto simp: same_ownership_def\<close>)

lemma changes_owner_explained:
  assumes "transfer_reaches ids D w0 h w" "stage_explained (tw_obligation w0) []"
    "transfer_step ids D w l w'" "ob_owner (tw_obligation w') \<noteq> ob_owner (tw_obligation w)"
  obtains admin h' where "l = Accept (ob_owner (tw_obligation w'))"
    "ob_owner (tw_obligation w') \<noteq> 0"
    "ob_borrow_order (tw_obligation w') = borrow_order_default"
    "transfers h = Approve admin (ob_owner (tw_obligation w')) #
       Initiate (ob_owner (tw_obligation w)) (ob_owner (tw_obligation w')) # h'"
proof -
  note s = step_changes_owner [OF assms(3,4)] reaches_explained [OF assms(1,2)]
  from s have "\<exists>admin h'. transfers h = Approve admin (ob_pending_owner (tw_obligation w)) #
      Initiate (ob_owner (tw_obligation w)) (ob_pending_owner (tw_obligation w)) # h'"
    "ob_pending_owner (tw_obligation w) \<noteq> 0"
    by (auto simp: stage_explained_def)
  with s that show thesis by auto
qed


section \<open>Property\<close>

text \<open>
  C24. In any history of an obligation that starts outside a transfer, with no pending owner, a
  step that changes the owner is an \<open>accept\<close> signed by the new owner; the two latest steps of the
  transfer before it are an approval by a global admin that names this very account and, before
  it, a request by the current owner for this account. The new owner is a real key, and the
  obligation changes hands with no borrow order open. Every other instruction leaves the owner
  alone.
\<close>

theorem owner_change_is_agreed:
  assumes "transfer_reaches ids D w0 h w"
    and "ob_ownership_transfer_state (tw_obligation w0) = transfer_stage_to_u8 NotTransferring"
    and "ob_pending_owner (tw_obligation w0) = 0"
    and "transfer_step ids D w l w'"
    and "ob_owner (tw_obligation w') \<noteq> ob_owner (tw_obligation w)"
  shows "l = Accept (ob_owner (tw_obligation w')) \<and> ob_owner (tw_obligation w') \<noteq> 0 \<and>
    ob_borrow_order (tw_obligation w') = borrow_order_default \<and>
    (\<exists>admin h'. transfers h = Approve admin (ob_owner (tw_obligation w')) #
       Initiate (ob_owner (tw_obligation w)) (ob_owner (tw_obligation w')) # h')"
proof -
  have "stage_explained (tw_obligation w0) []" using assms(2,3) by (simp add: stage_explained_def)
  from changes_owner_explained [OF assms(1) this assms(4,5)] show ?thesis by metis
qed

definition sample_owned :: obligation where
  "sample_owned = obligation_default\<lparr> ob_owner := 5 \<rparr>"

definition sample_transfer_view :: tx_view where
  "sample_transfer_view = \<lparr> tx_ixs = [\<lparr> ix_program = klend_id sample_ids, ix_data = [], ix_accounts = [] \<rparr>],
     tx_current = 0, tx_stack_height = 1 \<rparr>"

definition sample_world :: "obligation \<Rightarrow> transfer_world" where
  "sample_world ob = \<lparr> tw_obligation = ob,
     tw_config = \<lparr> gc_global_admin = 9, gc_pending_admin = 9, gc_fee_collector = 9 \<rparr> \<rparr>"

definition transfer_decoders :: decoders where
  "transfer_decoders = \<lparr> de_u8 = (\<lambda>_. Inl ProgramErr), de_u16 = (\<lambda>_. Inl ProgramErr),
     de_u32 = (\<lambda>_. Inl ProgramErr), de_u64 = (\<lambda>_. Inl ProgramErr),
     de_u128 = (\<lambda>_. Inl ProgramErr), de_pubkey = (\<lambda>_. Inl ProgramErr) \<rparr>"

text \<open>Owner 5 asks for account 7 to take over, the admin 9 approves, 7 accepts.\<close>

theorem owner_change_is_agreed_witness:
  "\<exists>w w'. transfer_reaches sample_ids transfer_decoders (sample_world sample_owned) [Approve 9 7, Initiate 5 7] w \<and>
     transfer_step sample_ids transfer_decoders w (Accept 7) w' \<and>
     ob_owner (tw_obligation w) = 5 \<and> ob_owner (tw_obligation w') = 7 \<and>
     ob_borrow_order (tw_obligation w') = borrow_order_default"
proof -
  define ob1 where "ob1 = sample_owned\<lparr> ob_pending_owner := 7, ob_ownership_transfer_state := 1 \<rparr>"
  define ob2 where "ob2 = sample_owned\<lparr> ob_pending_owner := 7, ob_ownership_transfer_state := 2 \<rparr>"
  define ob3 where "ob3 = sample_owned\<lparr> ob_owner := 7, ob_pending_owner := 0, ob_ownership_transfer_state := 0 \<rparr>"
  note d = handler_defs ob1_def ob2_def ob3_def sample_owned_def obligation_default_def sample_world_def
    clear_expired_borrow_order_on_initiating_obligation_ownership_transfer_def clock_timestamp_def
    obligation_ownership_transfer_precondition_checks_def obligation_has_no_active_borrow_orders_check_def
    obligation_ownership_transfer_execution_context_checks_def is_only_with_compute_budget_ixs_check_def
    ownership_transfer_cpi_check_def check_cpi_call_def is_forbidden_cpi_call_def
    tx_includes_restricted_programs_def no_restricted_programs_within_tx_def load_instruction_at_def
    sample_transfer_view_def sample_ids_def TRANSACTION_LEVEL_STACK_HEIGHT_def
    clear_if_past_fillable_timestamp_def borrow_order_default_def ownership_transfer_state_def
    transfer_stage_of_u8_def transfer_stage_to_u8.simps ok_or_def
  have "process_initiate_transfer sample_ids sample_transfer_view 0 5 7 sample_owned = Inr ob1"
    "process_approve_transfer 0 9 (tw_config (sample_world ob1)) 7 ob1 = Inr ob2"
    "process_accept_ownership sample_ids sample_transfer_view 0 7 ob2 = Inr ob3"
    by (simp_all add: d ix_iterator_def)
  then have steps: "transfer_step sample_ids transfer_decoders (sample_world sample_owned) (Initiate 5 7) (sample_world ob1)"
    "transfer_step sample_ids transfer_decoders (sample_world ob1) (Approve 9 7) (sample_world ob2)"
    "transfer_step sample_ids transfer_decoders (sample_world ob2) (Accept 7) (sample_world ob3)"
    using transfer_step.intros(1) [of sample_ids sample_transfer_view 0 5 7 "sample_world sample_owned" ob1 transfer_decoders]
      transfer_step.intros(2) [of 0 9 "sample_world ob1" 7 ob2 sample_ids transfer_decoders]
      transfer_step.intros(3) [of sample_ids sample_transfer_view 0 7 "sample_world ob2" ob3 transfer_decoders]
    by (simp_all add: sample_world_def)
  have run: "transfer_reaches sample_ids transfer_decoders (sample_world sample_owned) [Approve 9 7, Initiate 5 7] (sample_world ob2)"
    using transfer_reaches.step [OF transfer_reaches.step [OF transfer_reaches.start steps(1)] steps(2)] .
  have owners: "ob_owner ob2 = 5" "ob_owner ob3 = 7" by (simp_all add: ob2_def ob3_def sample_owned_def)
  from owner_change_is_agreed [OF run _ _ steps(3)] owners
  have "ob_borrow_order (tw_obligation (sample_world ob3)) = borrow_order_default"
    by (simp add: sample_world_def sample_owned_def obligation_default_def transfer_stage_to_u8.simps)
  with run steps(3) owners show ?thesis
    by (intro exI [of _ "sample_world ob2"] exI [of _ "sample_world ob3"]) (simp add: sample_world_def)
qed

end
