(* ===== verification/Lending_Market.thy ===== *)
theory Lending_Market imports Config_Items Obligation begin

text \<open>
  The market that reserves and obligations belong to: \<open>state/lending_market.rs\<close> with elevation
  groups, switches and limits, and the handlers that change it
  (\<open>handler_(init|update)_lending_market.rs\<close>, \<open>handler_update_lending_market_owner.rs\<close>).
  The paddings of the account and the text forms used off chain are left out.
\<close>

section \<open>Text\<close>

text \<open>
  Names are logged through \<open>std::str::from_utf8(..).unwrap()\<close>, which panics on bytes that are not
  UTF-8: the byte sequences of the standard, from the shortest to the longest.
\<close>

definition utf8_cont :: "u8 \<Rightarrow> bool" where
  "utf8_cont b \<longleftrightarrow> 128 \<le> b \<and> b \<le> 191"

definition utf8_three :: "u8 \<Rightarrow> u8 \<Rightarrow> u8 \<Rightarrow> bool" where
  "utf8_three a b c \<longleftrightarrow> utf8_cont c \<and>
     (a = 224 \<and> 160 \<le> b \<and> b \<le> 191 \<or> 225 \<le> a \<and> a \<le> 236 \<and> utf8_cont b \<or>
      a = 237 \<and> 128 \<le> b \<and> b \<le> 159 \<or> 238 \<le> a \<and> a \<le> 239 \<and> utf8_cont b)"

definition utf8_four :: "u8 \<Rightarrow> u8 \<Rightarrow> u8 \<Rightarrow> u8 \<Rightarrow> bool" where
  "utf8_four a b c d \<longleftrightarrow> utf8_cont c \<and> utf8_cont d \<and>
     (a = 240 \<and> 144 \<le> b \<and> b \<le> 191 \<or> 241 \<le> a \<and> a \<le> 243 \<and> utf8_cont b \<or>
      a = 244 \<and> 128 \<le> b \<and> b \<le> 143)"

fun utf8_valid :: "u8 list \<Rightarrow> bool" where
  "utf8_valid [] \<longleftrightarrow> True"
| "utf8_valid (a # bs) \<longleftrightarrow>
     (if a < 128 then utf8_valid bs else (case bs of
        [] \<Rightarrow> False
      | b # cs \<Rightarrow> if 194 \<le> a \<and> a \<le> 223 \<and> utf8_cont b then utf8_valid cs else (case cs of
          [] \<Rightarrow> False
        | c # ds \<Rightarrow> if utf8_three a b c then utf8_valid ds else (case ds of
            [] \<Rightarrow> False
          | d # es \<Rightarrow> utf8_four a b c d \<and> utf8_valid es))))"

section \<open>Elevation groups\<close>

record elevation_group =
  eg_max_liquidation_bonus_bps :: u16
  eg_id :: u8
  eg_ltv_pct :: u8
  eg_liquidation_threshold_pct :: u8
  eg_allow_new_loans :: u8
  eg_max_reserves_as_collateral :: u8
  eg_debt_reserve :: pubkey

definition elevation_group_default :: elevation_group where
  "elevation_group_default = \<lparr> eg_max_liquidation_bonus_bps = 0, eg_id = 0, eg_ltv_pct = 0,
     eg_liquidation_threshold_pct = 0, eg_allow_new_loans = 0,
     eg_max_reserves_as_collateral = - 1, eg_debt_reserve = 0 \<rparr>"

definition new_loans_disabled :: "elevation_group \<Rightarrow> bool" where
  "new_loans_disabled g \<longleftrightarrow> eg_allow_new_loans g = 0"

definition eg_get_index :: "elevation_group \<Rightarrow> nat res" where
  "eg_get_index g = (if eg_id g = 0 then Inl Panic else Inr (unat (eg_id g) - 1))"

section \<open>The market\<close>

definition LIQUIDATION_CLOSE_FACTOR :: u8 where "LIQUIDATION_CLOSE_FACTOR = 20"
definition LIQUIDATION_CLOSE_VALUE :: u64 where "LIQUIDATION_CLOSE_VALUE = 2"
definition MAX_LIQUIDATABLE_VALUE_AT_ONCE :: u64 where "MAX_LIQUIDATABLE_VALUE_AT_ONCE = 500000"
definition MIN_WITHDRAW_QUEUED_LIQUIDITY_VALUE :: u64 where "MIN_WITHDRAW_QUEUED_LIQUIDITY_VALUE = 2"
definition MIN_BORROW_ORDER_FILL_VALUE :: u64 where "MIN_BORROW_ORDER_FILL_VALUE = 2"
definition CLOSE_TO_INSOLVENCY_RISKY_LTV :: u8 where "CLOSE_TO_INSOLVENCY_RISKY_LTV = 95"
definition MIN_INITIAL_DEPOSIT_AMOUNT :: nat where "MIN_INITIAL_DEPOSIT_AMOUNT = 1000"
definition DEFAULT_MIN_DEPOSIT_AMOUNT :: u64 where "DEFAULT_MIN_DEPOSIT_AMOUNT = 100000"
definition GLOBAL_ALLOWED_BORROW_VALUE :: u64 where "GLOBAL_ALLOWED_BORROW_VALUE = 45000000"
definition MAX_NUM_ELEVATION_GROUPS :: nat where "MAX_NUM_ELEVATION_GROUPS = 32"

text \<open>The literal \<open>fraction!(0.000001)\<close>: the nearest multiple of \<open>2 ^ - 60\<close>.\<close>

definition MIN_NET_VALUE_IN_OBLIGATION :: u128 where "MIN_NET_VALUE_IN_OBLIGATION = 1152921504607"

record lending_market =
  lm_version :: u64
  lm_bump_seed :: u64
  lm_lending_market_owner :: pubkey
  lm_lending_market_owner_cached :: pubkey
  lm_quote_currency :: "u8 list"
  lm_referral_fee_bps :: u16
  lm_emergency_mode :: u8
  lm_autodeleverage_enabled :: u8
  lm_borrow_disabled :: u8
  lm_price_refresh_trigger_to_max_age_pct :: u8
  lm_liquidation_max_debt_close_factor_pct :: u8
  lm_insolvency_risk_unhealthy_ltv_pct :: u8
  lm_min_full_liquidation_value_threshold :: u64
  lm_max_liquidatable_debt_market_value_at_once :: u64
  lm_reserved0 :: "u8 list"
  lm_global_allowed_borrow_value :: u64
  lm_emergency_council :: pubkey
  lm_reserved1 :: "u8 list"
  lm_elevation_groups :: "elevation_group list"
  lm_min_net_value_in_obligation_sf :: u128
  lm_min_value_skip_liquidation_ltv_checks :: u64
  lm_name :: "u8 list"
  lm_min_value_skip_liquidation_bf_checks :: u64
  lm_individual_autodeleverage_margin_call_period_secs :: u64
  lm_min_initial_deposit_amount :: u64
  lm_obligation_order_execution_enabled :: u8
  lm_immutable :: u8
  lm_obligation_order_creation_enabled :: u8
  lm_price_triggered_liquidation_disabled :: u8
  lm_mature_reserve_debt_liquidation_enabled :: u8
  lm_obligation_borrow_debt_term_liquidation_enabled :: u8
  lm_borrow_order_creation_enabled :: u8
  lm_borrow_order_execution_enabled :: u8
  lm_proposer_authority :: pubkey
  lm_min_borrow_order_fill_value :: u64
  lm_withdraw_ticket_issuance_enabled :: u8
  lm_withdraw_ticket_redemption_enabled :: u8
  lm_obligation_borrow_rollover_configuration_enabled :: u8
  lm_obligation_borrow_migration_to_fixed_execution_enabled :: u8
  lm_withdraw_ticket_cancellation_enabled :: u8
  lm_reserve_rewards_max_apr_bps :: u16
  lm_min_withdraw_queued_liquidity_value :: u64
  lm_fixed_term_rollover_window_duration_seconds :: u64
  lm_open_term_rollover_window_duration_seconds :: u64
  lm_min_partial_rollover_value :: u64
  lm_term_based_full_liquidation_duration_secs :: u64
  lm_permissioning_authority :: pubkey
  lm_permissioned_ops :: u64

definition lending_market_default :: lending_market where
  "lending_market_default = \<lparr>
     lm_version = 0,
     lm_bump_seed = 0,
     lm_lending_market_owner = 0,
     lm_lending_market_owner_cached = 0,
     lm_quote_currency = replicate 32 0,
     lm_referral_fee_bps = 0,
     lm_emergency_mode = 0,
     lm_autodeleverage_enabled = 0,
     lm_borrow_disabled = 0,
     lm_price_refresh_trigger_to_max_age_pct = 0,
     lm_liquidation_max_debt_close_factor_pct = LIQUIDATION_CLOSE_FACTOR,
     lm_insolvency_risk_unhealthy_ltv_pct = CLOSE_TO_INSOLVENCY_RISKY_LTV,
     lm_min_full_liquidation_value_threshold = LIQUIDATION_CLOSE_VALUE,
     lm_max_liquidatable_debt_market_value_at_once = MAX_LIQUIDATABLE_VALUE_AT_ONCE,
     lm_reserved0 = replicate 8 0,
     lm_global_allowed_borrow_value = GLOBAL_ALLOWED_BORROW_VALUE,
     lm_emergency_council = 0,
     lm_reserved1 = replicate 8 0,
     lm_elevation_groups = replicate 32 elevation_group_default,
     lm_min_net_value_in_obligation_sf = MIN_NET_VALUE_IN_OBLIGATION,
     lm_min_value_skip_liquidation_ltv_checks = 0,
     lm_name = replicate 32 0,
     lm_min_value_skip_liquidation_bf_checks = 0,
     lm_individual_autodeleverage_margin_call_period_secs = 0,
     lm_min_initial_deposit_amount = DEFAULT_MIN_DEPOSIT_AMOUNT,
     lm_obligation_order_execution_enabled = 0,
     lm_immutable = 0,
     lm_obligation_order_creation_enabled = 0,
     lm_price_triggered_liquidation_disabled = 0,
     lm_mature_reserve_debt_liquidation_enabled = 0,
     lm_obligation_borrow_debt_term_liquidation_enabled = 0,
     lm_borrow_order_creation_enabled = 0,
     lm_borrow_order_execution_enabled = 0,
     lm_proposer_authority = 0,
     lm_min_borrow_order_fill_value = MIN_BORROW_ORDER_FILL_VALUE,
     lm_withdraw_ticket_issuance_enabled = 0,
     lm_withdraw_ticket_redemption_enabled = 0,
     lm_obligation_borrow_rollover_configuration_enabled = 0,
     lm_obligation_borrow_migration_to_fixed_execution_enabled = 0,
     lm_withdraw_ticket_cancellation_enabled = 0,
     lm_reserve_rewards_max_apr_bps = 0,
     lm_min_withdraw_queued_liquidity_value = MIN_WITHDRAW_QUEUED_LIQUIDITY_VALUE,
     lm_fixed_term_rollover_window_duration_seconds = 0,
     lm_open_term_rollover_window_duration_seconds = 0,
     lm_min_partial_rollover_value = 0,
     lm_term_based_full_liquidation_duration_secs = 0,
     lm_permissioning_authority = 0,
     lm_permissioned_ops = 0 \<rparr>"

record init_lending_market_params =
  ilm_bump_seed :: u8
  ilm_lending_market_owner :: pubkey
  ilm_quote_currency :: "u8 list"

definition lending_market_init :: "init_lending_market_params \<Rightarrow> lending_market" where
  "lending_market_init params = lending_market_default\<lparr>
     lm_version := of_nat PROGRAM_VERSION, lm_bump_seed := ucast (ilm_bump_seed params),
     lm_lending_market_owner := ilm_lending_market_owner params,
     lm_quote_currency := ilm_quote_currency params \<rparr>"

definition get_elevation_group :: "lending_market \<Rightarrow> u8 \<Rightarrow> elevation_group option res" where
  "get_elevation_group m i =
     (if i = ELEVATION_GROUP_NONE then Inr None
      else if unat i - 1 < length (lm_elevation_groups m)
           then Inr (Some (lm_elevation_groups m ! (unat i - 1)))
           else fail InvalidElevationGroup)"

definition set_elevation_group :: "lending_market \<Rightarrow> elevation_group \<Rightarrow> lending_market res" where
  "set_elevation_group m g =
     (if eg_id g = ELEVATION_GROUP_NONE then fail InvalidElevationGroupConfig
      else rbind (eg_get_index g) (\<lambda>i.
        if i < length (lm_elevation_groups m)
        then Inr (m\<lparr> lm_elevation_groups := (lm_elevation_groups m)[i := g] \<rparr>)
        else Inl Panic))"

definition is_borrowing_disabled :: "lending_market \<Rightarrow> bool" where
  "is_borrowing_disabled m \<longleftrightarrow> lm_borrow_disabled m \<noteq> 0"

definition is_price_triggered_liquidation_disabled :: "lending_market \<Rightarrow> bool" where
  "is_price_triggered_liquidation_disabled m \<longleftrightarrow>
     lm_price_triggered_liquidation_disabled m \<noteq> 0"

definition is_autodeleverage_enabled :: "lending_market \<Rightarrow> bool" where
  "is_autodeleverage_enabled m \<longleftrightarrow> lm_autodeleverage_enabled m \<noteq> 0"

definition is_obligation_order_execution_enabled :: "lending_market \<Rightarrow> bool" where
  "is_obligation_order_execution_enabled m \<longleftrightarrow>
     lm_obligation_order_execution_enabled m \<noteq> 0"

definition is_obligation_order_creation_enabled :: "lending_market \<Rightarrow> bool" where
  "is_obligation_order_creation_enabled m \<longleftrightarrow>
     lm_obligation_order_creation_enabled m \<noteq> 0"

definition is_mature_reserve_debt_liquidation_enabled :: "lending_market \<Rightarrow> bool" where
  "is_mature_reserve_debt_liquidation_enabled m \<longleftrightarrow>
     lm_mature_reserve_debt_liquidation_enabled m \<noteq> 0"

definition is_obligation_borrow_debt_term_liquidation_enabled :: "lending_market \<Rightarrow> bool" where
  "is_obligation_borrow_debt_term_liquidation_enabled m \<longleftrightarrow>
     lm_obligation_borrow_debt_term_liquidation_enabled m \<noteq> 0"

definition is_borrow_order_creation_enabled :: "lending_market \<Rightarrow> bool" where
  "is_borrow_order_creation_enabled m \<longleftrightarrow>
     lm_borrow_order_creation_enabled m \<noteq> 0"

definition is_borrow_order_execution_enabled :: "lending_market \<Rightarrow> bool" where
  "is_borrow_order_execution_enabled m \<longleftrightarrow>
     lm_borrow_order_execution_enabled m \<noteq> 0"

definition is_withdraw_ticket_issuance_enabled :: "lending_market \<Rightarrow> bool" where
  "is_withdraw_ticket_issuance_enabled m \<longleftrightarrow>
     lm_withdraw_ticket_issuance_enabled m \<noteq> 0"

definition is_withdraw_ticket_redemption_enabled :: "lending_market \<Rightarrow> bool" where
  "is_withdraw_ticket_redemption_enabled m \<longleftrightarrow>
     lm_withdraw_ticket_redemption_enabled m \<noteq> 0"

definition is_obligation_borrow_rollover_configuration_enabled :: "lending_market \<Rightarrow> bool" where
  "is_obligation_borrow_rollover_configuration_enabled m \<longleftrightarrow>
     lm_obligation_borrow_rollover_configuration_enabled m \<noteq> 0"

definition is_withdraw_ticket_cancellation_enabled :: "lending_market \<Rightarrow> bool" where
  "is_withdraw_ticket_cancellation_enabled m \<longleftrightarrow>
     lm_withdraw_ticket_cancellation_enabled m \<noteq> 0"

text \<open>When a loan may be rolled over: at any time, or this many seconds before its debt expires.\<close>

datatype allowed_rollover_time = Always | BeforeDebtExpiration u64

definition resolve_allowed_rollover_time ::
  "lending_market \<Rightarrow> rollover_mode \<Rightarrow> allowed_rollover_time res" where
  "resolve_allowed_rollover_time m mode = (case mode of
     FromFixedToFixedTerm \<Rightarrow>
       if lm_fixed_term_rollover_window_duration_seconds m = 0
       then fail BorrowRolloverExecutionDisabled
       else Inr (BeforeDebtExpiration (lm_fixed_term_rollover_window_duration_seconds m))
   | FromFixedToOpenTerm \<Rightarrow>
       if lm_open_term_rollover_window_duration_seconds m = 0
       then fail BorrowRolloverExecutionDisabled
       else Inr (BeforeDebtExpiration (lm_open_term_rollover_window_duration_seconds m))
   | FromOpenToFixedTerm \<Rightarrow>
       if lm_obligation_borrow_migration_to_fixed_execution_enabled m = 0
       then fail BorrowRolloverExecutionDisabled
       else Inr Always)"

definition is_immutable :: "lending_market \<Rightarrow> bool" where
  "is_immutable m \<longleftrightarrow> lm_immutable m \<noteq> 0"

definition get_insolvency_risk_unhealthy_ltv :: "numlib \<Rightarrow> lending_market \<Rightarrow> frac res" where
  "get_insolvency_risk_unhealthy_ltv L m =
     from_percent L (ucast (lm_insolvency_risk_unhealthy_ltv_pct m))"

definition get_liquidation_max_debt_close_factor :: "numlib \<Rightarrow> lending_market \<Rightarrow> frac res" where
  "get_liquidation_max_debt_close_factor L m =
     from_percent L (ucast (lm_liquidation_max_debt_close_factor_pct m))"

definition get_max_liquidatable_debt_market_value_at_once ::
  "numlib \<Rightarrow> lending_market \<Rightarrow> frac res" where
  "get_max_liquidatable_debt_market_value_at_once L m =
     fx_from_num L (ucast (lm_max_liquidatable_debt_market_value_at_once m))"

definition get_term_based_full_liquidation_duration_secs :: "lending_market \<Rightarrow> u64 option" where
  "get_term_based_full_liquidation_duration_secs m =
     (if lm_term_based_full_liquidation_duration_secs m = 0 then None
      else Some (lm_term_based_full_liquidation_duration_secs m))"

definition lm_get_permissioned_ops :: "lending_market \<Rightarrow> permissioned_op" where
  "lm_get_permissioned_ops m = from_bits_truncate (lm_permissioned_ops m)"

definition is_permissioned_op :: "lending_market \<Rightarrow> permissioned_op \<Rightarrow> bool" where
  "is_permissioned_op m op \<longleftrightarrow> intersects op (lm_get_permissioned_ops m)"

definition is_permissioned_market :: "lending_market \<Rightarrow> bool" where
  "is_permissioned_market m \<longleftrightarrow> lm_permissioning_authority m \<noteq> 0"

definition is_reserve_rewards_enabled :: "lending_market \<Rightarrow> bool" where
  "is_reserve_rewards_enabled m \<longleftrightarrow> lm_reserve_rewards_max_apr_bps m > 0"

end
