(* ===== verification/Market_Updates.thy ===== *)
theory Market_Updates imports Lending_Market begin

text \<open>
  Changes of a market: the modes of \<open>handler_update_lending_market.rs\<close> with their validations,
  the change of owner (\<open>handler_update_lending_market_owner.rs\<close>), and what every market that these
  handlers produce satisfies.
\<close>

section \<open>Modes and validations\<close>

datatype update_lending_market_mode =
    UpdateOwner | UpdateEmergencyMode | UpdateLiquidationCloseFactor |
    UpdateLiquidationMaxValue | DeprecatedUpdateGlobalUnhealthyBorrow |
    UpdateGlobalAllowedBorrow | UpdateEmergencyCouncil | UpdateMinFullLiquidationThreshold |
    UpdateInsolvencyRiskLtv | UpdateElevationGroup | UpdateReferralFeeBps |
    DeprecatedUpdateMultiplierPoints | UpdatePriceRefreshTriggerToMaxAgePct |
    UpdateAutodeleverageEnabled | UpdateBorrowingDisabled |
    UpdateMinNetValueObligationPostAction | UpdateMinValueLtvSkipPriorityLiqCheck |
    UpdateMinValueBfSkipPriorityLiqCheck | UpdatePaddingFields | UpdateName |
    UpdateIndividualAutodeleverageMarginCallPeriodSecs | UpdateInitialDepositAmount |
    UpdateObligationOrderExecutionEnabled | UpdateImmutableFlag |
    UpdateObligationOrderCreationEnabled | UpdateProposerAuthority |
    UpdatePriceTriggeredLiquidationDisabled | UpdateMatureReserveDebtLiquidationEnabled |
    UpdateObligationBorrowDebtTermLiquidationEnabled | UpdateBorrowOrderCreationEnabled |
    UpdateBorrowOrderExecutionEnabled | UpdateMinBorrowOrderFillValue |
    UpdateWithdrawTicketIssuanceEnabled | UpdateWithdrawTicketRedemptionEnabled |
    UpdateMinWithdrawQueuedLiquidityValue | UpdateFixedTermRolloverWindowDurationSeconds |
    UpdateOpenTermRolloverWindowDurationSeconds |
    UpdateObligationBorrowRolloverConfigurationEnabled |
    UpdateTermBasedFullLiquidationDurationSecs |
    UpdateObligationBorrowMigrationToFixedExecutionEnabled | UpdateMinPartialRolloverValue |
    UpdateWithdrawTicketCancellationEnabled | UpdatePermissioningAuthority |
    UpdatePermissionedOps | DeprecatedUpdateReserveRewardsMaxAprPct |
    UpdateReserveRewardsMaxAprBps

definition update_lending_market_modes :: "update_lending_market_mode list" where
  "update_lending_market_modes =
    [UpdateOwner, UpdateEmergencyMode, UpdateLiquidationCloseFactor, UpdateLiquidationMaxValue,
     DeprecatedUpdateGlobalUnhealthyBorrow, UpdateGlobalAllowedBorrow, UpdateEmergencyCouncil,
     UpdateMinFullLiquidationThreshold, UpdateInsolvencyRiskLtv, UpdateElevationGroup,
     UpdateReferralFeeBps, DeprecatedUpdateMultiplierPoints,
     UpdatePriceRefreshTriggerToMaxAgePct, UpdateAutodeleverageEnabled, UpdateBorrowingDisabled,
     UpdateMinNetValueObligationPostAction, UpdateMinValueLtvSkipPriorityLiqCheck,
     UpdateMinValueBfSkipPriorityLiqCheck, UpdatePaddingFields, UpdateName,
     UpdateIndividualAutodeleverageMarginCallPeriodSecs, UpdateInitialDepositAmount,
     UpdateObligationOrderExecutionEnabled, UpdateImmutableFlag,
     UpdateObligationOrderCreationEnabled, UpdateProposerAuthority,
     UpdatePriceTriggeredLiquidationDisabled, UpdateMatureReserveDebtLiquidationEnabled,
     UpdateObligationBorrowDebtTermLiquidationEnabled, UpdateBorrowOrderCreationEnabled,
     UpdateBorrowOrderExecutionEnabled, UpdateMinBorrowOrderFillValue,
     UpdateWithdrawTicketIssuanceEnabled, UpdateWithdrawTicketRedemptionEnabled,
     UpdateMinWithdrawQueuedLiquidityValue, UpdateFixedTermRolloverWindowDurationSeconds,
     UpdateOpenTermRolloverWindowDurationSeconds,
     UpdateObligationBorrowRolloverConfigurationEnabled,
     UpdateTermBasedFullLiquidationDurationSecs,
     UpdateObligationBorrowMigrationToFixedExecutionEnabled, UpdateMinPartialRolloverValue,
     UpdateWithdrawTicketCancellationEnabled, UpdatePermissioningAuthority,
     UpdatePermissionedOps, DeprecatedUpdateReserveRewardsMaxAprPct, UpdateReserveRewardsMaxAprBps]"

definition lending_market_mode_try_from :: "u64 \<Rightarrow> update_lending_market_mode option" where
  "lending_market_mode_try_from mode =
     (if unat mode < length update_lending_market_modes
      then Some (update_lending_market_modes ! unat mode) else None)"

definition validate_new_elevation_group :: "numlib \<Rightarrow> elevation_group \<Rightarrow> unit res" where
  "validate_new_elevation_group L g =
     (if unat (eg_id g) > MAX_NUM_ELEVATION_GROUPS then fail InvalidElevationGroupConfig
      else if eg_id g \<noteq> ELEVATION_GROUP_NONE \<and> eg_liquidation_threshold_pct g = 0
        then fail InvalidElevationGroupConfig
      else if eg_liquidation_threshold_pct g \<ge> 100 \<or> eg_ltv_pct g \<ge> 100 \<or>
          eg_ltv_pct g > eg_liquidation_threshold_pct g \<or>
          unat (eg_max_liquidation_bonus_bps g) > FULL_BPS
        then fail InvalidElevationGroupConfig
      else if eg_id g \<noteq> ELEVATION_GROUP_NONE \<and>
          (eg_debt_reserve g = 0 \<or> eg_max_reserves_as_collateral g = 0)
        then fail InvalidElevationGroupConfig
      else rbind (from_percent L (ucast (eg_liquidation_threshold_pct g))) (\<lambda>t.
        rbind (from_bps L (ucast (eg_max_liquidation_bonus_bps g))) (\<lambda>b.
        rbind (fx_mul L t b) (\<lambda>tb.
        rbind (fx_add L t tb) (\<lambda>s.
        if s > fx_one then fail InvalidElevationGroupConfig else Inr ())))))"

text \<open>Decoders of the values that only a market has.\<close>

record market_decoders =
  de_elevation_group :: "u8 list \<Rightarrow> elevation_group res"
  de_bytes32 :: "u8 list \<Rightarrow> u8 list res"

primrec update_lending_market ::
  "numlib \<Rightarrow> decoders \<Rightarrow> market_decoders \<Rightarrow> lending_market \<Rightarrow> update_lending_market_mode \<Rightarrow>
   u8 list \<Rightarrow> lending_market res" where
  "update_lending_market L D MD m UpdateOwner bytes =
       set_field (de_pubkey D) accept_anything bytes 
         (\<lambda>v. m\<lparr> lm_lending_market_owner_cached := v \<rparr>)"
| "update_lending_market L D MD m UpdateEmergencyMode bytes =
       set_field (de_u8 D) check_bool bytes (\<lambda>v. m\<lparr> lm_emergency_mode := v \<rparr>)"
| "update_lending_market L D MD m UpdateLiquidationCloseFactor bytes =
       set_field (de_u8 D) (check_in_range 5 100) bytes 
         (\<lambda>v. m\<lparr> lm_liquidation_max_debt_close_factor_pct := v \<rparr>)"
| "update_lending_market L D MD m UpdateLiquidationMaxValue bytes =
       set_field (de_u64 D) check_not_zero bytes 
         (\<lambda>v. m\<lparr> lm_max_liquidatable_debt_market_value_at_once := v \<rparr>)"
| "update_lending_market L D MD m UpdateGlobalAllowedBorrow bytes =
       set_field (de_u64 D) accept_anything bytes 
         (\<lambda>v. m\<lparr> lm_global_allowed_borrow_value := v \<rparr>)"
| "update_lending_market L D MD m DeprecatedUpdateGlobalUnhealthyBorrow bytes =
       Inl Panic"
| "update_lending_market L D MD m UpdateMinFullLiquidationThreshold bytes =
       set_field (de_u64 D) check_not_zero bytes 
         (\<lambda>v. m\<lparr> lm_min_full_liquidation_value_threshold := v \<rparr>)"
| "update_lending_market L D MD m UpdateEmergencyCouncil bytes =
       set_field (de_pubkey D) accept_anything bytes 
         (\<lambda>v. m\<lparr> lm_emergency_council := v \<rparr>)"
| "update_lending_market L D MD m UpdateInsolvencyRiskLtv bytes =
       set_field (de_u8 D) (check_in_range 5 100) bytes 
         (\<lambda>v. m\<lparr> lm_insolvency_risk_unhealthy_ltv_pct := v \<rparr>)"
| "update_lending_market L D MD m UpdateElevationGroup bytes =
       rbind (set_item (de_elevation_group MD) (validate_new_elevation_group L) bytes) (\<lambda>g.
       set_elevation_group m g)"
| "update_lending_market L D MD m UpdateReferralFeeBps bytes =
       set_field (de_u16 D) check_valid_bps bytes 
         (\<lambda>v. m\<lparr> lm_referral_fee_bps := v \<rparr>)"
| "update_lending_market L D MD m UpdatePriceRefreshTriggerToMaxAgePct bytes =
       set_field (de_u8 D) check_valid_pct bytes 
         (\<lambda>v. m\<lparr> lm_price_refresh_trigger_to_max_age_pct := v \<rparr>)"
| "update_lending_market L D MD m UpdateAutodeleverageEnabled bytes =
       set_field (de_u8 D) check_bool bytes 
         (\<lambda>v. m\<lparr> lm_autodeleverage_enabled := v \<rparr>)"
| "update_lending_market L D MD m UpdateBorrowingDisabled bytes =
       set_field (de_u8 D) check_bool bytes (\<lambda>v. m\<lparr> lm_borrow_disabled := v \<rparr>)"
| "update_lending_market L D MD m UpdateMinNetValueObligationPostAction bytes =
       set_field (de_u128 D) accept_anything bytes 
         (\<lambda>v. m\<lparr> lm_min_net_value_in_obligation_sf := v \<rparr>)"
| "update_lending_market L D MD m UpdateMinValueLtvSkipPriorityLiqCheck bytes =
       set_field (de_u64 D) accept_anything bytes 
         (\<lambda>v. m\<lparr> lm_min_value_skip_liquidation_ltv_checks := v \<rparr>)"
| "update_lending_market L D MD m UpdateMinValueBfSkipPriorityLiqCheck bytes =
       set_field (de_u64 D) accept_anything bytes 
         (\<lambda>v. m\<lparr> lm_min_value_skip_liquidation_bf_checks := v \<rparr>)"
| "update_lending_market L D MD m UpdatePaddingFields bytes =
       Inr (m\<lparr> lm_reserved0 := replicate 8 0, lm_reserved1 := replicate 8 0 \<rparr>)"
| "update_lending_market L D MD m DeprecatedUpdateMultiplierPoints bytes =
       Inl Panic"
| "update_lending_market L D MD m UpdateName bytes =
       rbind (set_item (de_bytes32 MD) accept_anything bytes) (\<lambda>v.
       if \<not> utf8_valid (lm_name m) \<or> \<not> utf8_valid v then Inl Panic else Inr (m\<lparr> lm_name := v \<rparr>))"
| "update_lending_market L D MD m UpdateIndividualAutodeleverageMarginCallPeriodSecs bytes =
       set_field (de_u64 D) check_not_zero bytes 
         (\<lambda>v. m\<lparr> lm_individual_autodeleverage_margin_call_period_secs := v \<rparr>)"
| "update_lending_market L D MD m UpdateInitialDepositAmount bytes =
       set_field (de_u64 D) (check_gte MIN_INITIAL_DEPOSIT_AMOUNT) bytes 
         (\<lambda>v. m\<lparr> lm_min_initial_deposit_amount := v \<rparr>)"
| "update_lending_market L D MD m UpdateObligationOrderExecutionEnabled bytes =
       set_field (de_u8 D) check_bool bytes 
         (\<lambda>v. m\<lparr> lm_obligation_order_execution_enabled := v \<rparr>)"
| "update_lending_market L D MD m UpdateImmutableFlag bytes =
       set_field (de_u8 D) check_bool bytes (\<lambda>v. m\<lparr> lm_immutable := v \<rparr>)"
| "update_lending_market L D MD m UpdateObligationOrderCreationEnabled bytes =
       set_field (de_u8 D) check_bool bytes 
         (\<lambda>v. m\<lparr> lm_obligation_order_creation_enabled := v \<rparr>)"
| "update_lending_market L D MD m UpdateMatureReserveDebtLiquidationEnabled bytes =
       set_field (de_u8 D) check_bool bytes 
         (\<lambda>v. m\<lparr> lm_mature_reserve_debt_liquidation_enabled := v \<rparr>)"
| "update_lending_market L D MD m UpdateObligationBorrowDebtTermLiquidationEnabled bytes =
       set_field (de_u8 D) check_bool bytes 
         (\<lambda>v. m\<lparr> lm_obligation_borrow_debt_term_liquidation_enabled := v \<rparr>)"
| "update_lending_market L D MD m UpdateProposerAuthority bytes =
       set_field (de_pubkey D) accept_anything bytes 
         (\<lambda>v. m\<lparr> lm_proposer_authority := v \<rparr>)"
| "update_lending_market L D MD m UpdateBorrowOrderCreationEnabled bytes =
       set_field (de_u8 D) check_bool bytes 
         (\<lambda>v. m\<lparr> lm_borrow_order_creation_enabled := v \<rparr>)"
| "update_lending_market L D MD m UpdateBorrowOrderExecutionEnabled bytes =
       rbind (set_field (de_u8 D) check_bool bytes 
         (\<lambda>v. m\<lparr> lm_borrow_order_execution_enabled := v \<rparr>)) (\<lambda>m.
       if is_borrow_order_execution_enabled m \<and> lm_min_borrow_order_fill_value m = 0 then fail InvalidConfig else Inr m)"
| "update_lending_market L D MD m UpdateMinBorrowOrderFillValue bytes =
       set_field (de_u64 D) check_not_zero bytes 
         (\<lambda>v. m\<lparr> lm_min_borrow_order_fill_value := v \<rparr>)"
| "update_lending_market L D MD m UpdatePriceTriggeredLiquidationDisabled bytes =
       set_field (de_u8 D) check_bool bytes 
         (\<lambda>v. m\<lparr> lm_price_triggered_liquidation_disabled := v \<rparr>)"
| "update_lending_market L D MD m UpdateWithdrawTicketIssuanceEnabled bytes =
       set_field (de_u8 D) check_bool bytes 
         (\<lambda>v. m\<lparr> lm_withdraw_ticket_issuance_enabled := v \<rparr>)"
| "update_lending_market L D MD m UpdateWithdrawTicketRedemptionEnabled bytes =
       rbind (set_field (de_u8 D) check_bool bytes 
         (\<lambda>v. m\<lparr> lm_withdraw_ticket_redemption_enabled := v \<rparr>)) (\<lambda>m.
       if is_withdraw_ticket_redemption_enabled m \<and> lm_min_withdraw_queued_liquidity_value m = 0 then fail InvalidConfig else Inr m)"
| "update_lending_market L D MD m UpdateMinWithdrawQueuedLiquidityValue bytes =
       set_field (de_u64 D) check_not_zero bytes 
         (\<lambda>v. m\<lparr> lm_min_withdraw_queued_liquidity_value := v \<rparr>)"
| "update_lending_market L D MD m UpdateFixedTermRolloverWindowDurationSeconds bytes =
       rbind (set_field (de_u64 D) accept_anything bytes 
         (\<lambda>v. m\<lparr> lm_fixed_term_rollover_window_duration_seconds := v \<rparr>)) (\<lambda>m.
       if lm_fixed_term_rollover_window_duration_seconds m > 0 \<and> lm_min_partial_rollover_value m = 0 then fail InvalidConfig else Inr m)"
| "update_lending_market L D MD m UpdateOpenTermRolloverWindowDurationSeconds bytes =
       rbind (set_field (de_u64 D) accept_anything bytes 
         (\<lambda>v. m\<lparr> lm_open_term_rollover_window_duration_seconds := v \<rparr>)) (\<lambda>m.
       if lm_open_term_rollover_window_duration_seconds m > 0 \<and> lm_min_partial_rollover_value m = 0 then fail InvalidConfig else Inr m)"
| "update_lending_market L D MD m UpdateObligationBorrowRolloverConfigurationEnabled bytes =
       set_field (de_u8 D) check_bool bytes 
         (\<lambda>v. m\<lparr> lm_obligation_borrow_rollover_configuration_enabled := v \<rparr>)"
| "update_lending_market L D MD m UpdateTermBasedFullLiquidationDurationSecs bytes =
       set_field (de_u64 D) accept_anything bytes 
         (\<lambda>v. m\<lparr> lm_term_based_full_liquidation_duration_secs := v \<rparr>)"
| "update_lending_market L D MD m UpdateObligationBorrowMigrationToFixedExecutionEnabled bytes =
       rbind (set_field (de_u8 D) check_bool bytes 
         (\<lambda>v. m\<lparr> lm_obligation_borrow_migration_to_fixed_execution_enabled := v \<rparr>)) (\<lambda>m.
       if lm_obligation_borrow_migration_to_fixed_execution_enabled m = 1 \<and> lm_min_partial_rollover_value m = 0 then fail InvalidConfig else Inr m)"
| "update_lending_market L D MD m UpdateMinPartialRolloverValue bytes =
       set_field (de_u64 D) check_not_zero bytes 
         (\<lambda>v. m\<lparr> lm_min_partial_rollover_value := v \<rparr>)"
| "update_lending_market L D MD m UpdateWithdrawTicketCancellationEnabled bytes =
       set_field (de_u8 D) check_bool bytes 
         (\<lambda>v. m\<lparr> lm_withdraw_ticket_cancellation_enabled := v \<rparr>)"
| "update_lending_market L D MD m UpdatePermissioningAuthority bytes =
       set_field (de_pubkey D) accept_anything bytes 
         (\<lambda>v. m\<lparr> lm_permissioning_authority := v \<rparr>)"
| "update_lending_market L D MD m UpdatePermissionedOps bytes =
       set_field (de_u64 D) check_valid_permissioned_ops bytes 
         (\<lambda>v. m\<lparr> lm_permissioned_ops := v \<rparr>)"
| "update_lending_market L D MD m UpdateReserveRewardsMaxAprBps bytes =
       set_field (de_u16 D) check_valid_bps bytes 
         (\<lambda>v. m\<lparr> lm_reserve_rewards_max_apr_bps := v \<rparr>)"
| "update_lending_market L D MD m DeprecatedUpdateReserveRewardsMaxAprPct bytes =
       Inl Panic"

definition is_allowed_to_update_lending_market ::
  "pubkey \<Rightarrow> lending_market \<Rightarrow> u64 \<Rightarrow> u8 list \<Rightarrow> bool res" where
  "is_allowed_to_update_lending_market signer m mode bytes =
     rbind (ok_or (lending_market_mode_try_from mode) ProgramErr) (\<lambda>mode.
     if lm_lending_market_owner m = signer then Inr True
     else if lm_emergency_council m = signer then
       (case mode of
          UpdateEmergencyMode \<Rightarrow> Inr (hd bytes = 1)
        | UpdateBorrowingDisabled \<Rightarrow> Inr (hd bytes = 1)
        | UpdatePriceTriggeredLiquidationDisabled \<Rightarrow> Inr (hd bytes = 1)
        | _ \<Rightarrow> Inr False)
     else Inr False)"

text \<open>The handlers; the instruction carries \<open>VALUE_BYTE_MAX_ARRAY_LEN_MARKET_UPDATE\<close> bytes.\<close>

definition process_update_lending_market ::
  "numlib \<Rightarrow> decoders \<Rightarrow> market_decoders \<Rightarrow> pubkey \<Rightarrow> lending_market \<Rightarrow> u64 \<Rightarrow> u8 list \<Rightarrow>
   lending_market res" where
  "process_update_lending_market L D MD signer m mode bytes =
     rbind (is_allowed_to_update_lending_market signer m mode bytes) (\<lambda>allowed.
     if \<not> allowed then fail InvalidSigner
     else rbind (ok_or (lending_market_mode_try_from mode) ProgramErr) (\<lambda>mode.
       if is_immutable m then fail OperationNotPermittedMarketImmutable
       else update_lending_market L D MD m mode bytes))"

definition process_update_lending_market_owner :: "pubkey \<Rightarrow> lending_market \<Rightarrow> lending_market res" where
  "process_update_lending_market_owner signer m =
     (if lm_lending_market_owner_cached m \<noteq> signer then Inl ProgramErr
      else if is_immutable m then fail OperationNotPermittedMarketImmutable
      else Inr (m\<lparr> lm_lending_market_owner := lm_lending_market_owner_cached m \<rparr>))"

end
