(* ===== verification/Market_Invariants.thy ===== *)
theory Market_Invariants imports Market_Updates begin

text \<open>What every market satisfies, whatever its owners and its emergency council do to it.\<close>

section \<open>Well-formed markets\<close>

text \<open>
  What the types of the fields leave open: switches are booleans, percentages and basis points are
  in range, and every elevation group sits in the slot of its id with sensible limits. The last
  clause on a group is exact: with the largest bonus, liquidating a group's obligation at its
  threshold does not cost more than the collateral.
\<close>

definition group_ok :: "elevation_group \<Rightarrow> nat \<Rightarrow> bool" where
  "group_ok g i \<longleftrightarrow> g = elevation_group_default \<or>
     unat (eg_id g) = Suc i \<and> 0 < eg_liquidation_threshold_pct g \<and>
     eg_ltv_pct g \<le> eg_liquidation_threshold_pct g \<and> unat (eg_liquidation_threshold_pct g) < 100 \<and>
     eg_debt_reserve g \<noteq> 0 \<and> eg_max_reserves_as_collateral g \<noteq> 0 \<and>
     unat (eg_liquidation_threshold_pct g) * (10000 + unat (eg_max_liquidation_bonus_bps g)) \<le> 100 * 10000"

definition groups_ok :: "elevation_group list \<Rightarrow> bool" where
  "groups_ok gs \<longleftrightarrow> length gs = MAX_NUM_ELEVATION_GROUPS \<and> (\<forall>i < length gs. group_ok (gs ! i) i)"

definition market_switches :: "lending_market \<Rightarrow> u8 list" where
  "market_switches m = [lm_emergency_mode m, lm_autodeleverage_enabled m, lm_borrow_disabled m,
     lm_obligation_order_execution_enabled m, lm_immutable m, lm_obligation_order_creation_enabled m,
     lm_price_triggered_liquidation_disabled m, lm_mature_reserve_debt_liquidation_enabled m,
     lm_obligation_borrow_debt_term_liquidation_enabled m, lm_borrow_order_creation_enabled m,
     lm_borrow_order_execution_enabled m, lm_withdraw_ticket_issuance_enabled m,
     lm_withdraw_ticket_redemption_enabled m, lm_obligation_borrow_rollover_configuration_enabled m,
     lm_obligation_borrow_migration_to_fixed_execution_enabled m,
     lm_withdraw_ticket_cancellation_enabled m]"

definition market_limits_ok :: "lending_market \<Rightarrow> bool" where
  "market_limits_ok m \<longleftrightarrow>
     unat (lm_referral_fee_bps m) \<le> 10000 \<and> unat (lm_reserve_rewards_max_apr_bps m) \<le> 10000 \<and>
     unat (lm_price_refresh_trigger_to_max_age_pct m) \<le> 100 \<and>
     unat (lm_liquidation_max_debt_close_factor_pct m) \<in> {5..100} \<and>
     unat (lm_insolvency_risk_unhealthy_ltv_pct m) \<in> {5..100} \<and>
     lm_max_liquidatable_debt_market_value_at_once m \<noteq> 0 \<and>
     lm_min_full_liquidation_value_threshold m \<noteq> 0 \<and>
     1000 \<le> unat (lm_min_initial_deposit_amount m) \<and>
     lm_min_borrow_order_fill_value m \<noteq> 0 \<and> lm_min_withdraw_queued_liquidity_value m \<noteq> 0 \<and>
     lm_get_permissioned_ops m = lm_permissioned_ops m \<and> utf8_valid (lm_name m)"

text \<open>A way of rolling loans over is only open once the smallest partial rollover is configured.\<close>

definition market_rollover_ok :: "lending_market \<Rightarrow> bool" where
  "market_rollover_ok m \<longleftrightarrow>
     (\<forall>mode t. resolve_allowed_rollover_time m mode = Inr t \<longrightarrow> lm_min_partial_rollover_value m \<noteq> 0)"

definition market_ok :: "lending_market \<Rightarrow> bool" where
  "market_ok m \<longleftrightarrow> list_all (\<lambda>b. unat b \<le> 1) (market_switches m) \<and> market_limits_ok m \<and>
     market_rollover_ok m \<and> groups_ok (lm_elevation_groups m)"

lemma rollover_ok_eq:
  "market_rollover_ok m \<longleftrightarrow> lm_min_partial_rollover_value m \<noteq> 0 \<or>
     lm_fixed_term_rollover_window_duration_seconds m = 0 \<and>
     lm_open_term_rollover_window_duration_seconds m = 0 \<and>
     lm_obligation_borrow_migration_to_fixed_execution_enabled m = 0"
proof -
  have "market_rollover_ok m \<longleftrightarrow> (\<forall>mode. lm_min_partial_rollover_value m \<noteq> 0 \<or>
      \<not> is_ok (resolve_allowed_rollover_time m mode))"
    by (auto simp: market_rollover_ok_def is_ok_def)
  also have "\<dots> \<longleftrightarrow> lm_min_partial_rollover_value m \<noteq> 0 \<or>
      (\<forall>mode. \<not> is_ok (resolve_allowed_rollover_time m mode))" by blast
  also have "(\<forall>mode. \<not> is_ok (resolve_allowed_rollover_time m mode)) \<longleftrightarrow>
      \<not> is_ok (resolve_allowed_rollover_time m FromFixedToFixedTerm) \<and>
      \<not> is_ok (resolve_allowed_rollover_time m FromFixedToOpenTerm) \<and>
      \<not> is_ok (resolve_allowed_rollover_time m FromOpenToFixedTerm)"
    by (metis rollover_mode.exhaust)
  finally show ?thesis by (simp add: resolve_allowed_rollover_time_def fail_def)
qed

text \<open>The bound that the validation checks in fixed point holds exactly.\<close>

lemma bonus_bound:
  fixes p b S :: nat
  assumes "p < 100" "b \<le> 10000" "5000000 \<le> S"
    and le: "p * S div 100 + (p * S div 100) * (b * S div 10000) div S \<le> S"
  shows "p * (10000 + b) \<le> 1000000"
proof (rule ccontr)
  define x y where "x = int (p * S div 100)" and "y = int (b * S div 10000)"
  define T where "T = int S"
  assume "\<not> ?thesis"
  then have "int 1000001 \<le> int (p * (10000 + b))" by (simp only: of_nat_le_iff)
  then have big: "1000001 \<le> int p * (10000 + int b)" by simp
  then have p: "1 \<le> int p" by (cases p) auto
  have x: "int p * T - 99 \<le> 100 * x" and y: "int b * T - 9999 \<le> 10000 * y"
    unfolding x_def y_def T_def by (simp_all only: of_nat_mult [symmetric])
  have "(x * y) div T + x \<le> T"
    using le by (simp add: x_def y_def T_def flip: of_nat_mult zdiv_int of_nat_add)
  moreover have "x * y - T < T * ((x * y) div T)"
    using assms(3) by (simp add: T_def minus_mod_eq_mult_div [symmetric])
  ultimately have up: "x * (T + y) < T * T + T"
    using mult_left_mono [of "(x * y) div T" "T - x" T] assms(3) by (simp add: T_def algebra_simps)
  have "0 \<le> int p * T - 99" using p assms(3) mult_mono [of 1 "int p" 99 T] by (simp add: T_def)
  moreover have "10000 * 1 \<le> (10000 + int b) * T" using assms(3) by (intro mult_mono) (auto simp: T_def)
  moreover have "0 \<le> y" "0 \<le> x" by (simp_all add: y_def x_def)
  ultimately have "(int p * T - 99) * ((10000 + int b) * T - 9999) \<le> (100 * x) * (10000 * (T + y))"
    using x y by (intro mult_mono) (auto simp: algebra_simps)
  also have "\<dots> < 1000000 * (T * T + T)" using up by (simp add: algebra_simps)
  finally have "(int p * (10000 + int b)) * (T * T) - 9999 * (int p * T) - 99 * ((10000 + int b) * T)
      < 1000000 * (T * T) + 1000000 * T" by (simp add: algebra_simps)
  moreover have "1000001 * (T * T) \<le> (int p * (10000 + int b)) * (T * T)"
    using big by (intro mult_right_mono) auto
  moreover have "int p * T \<le> 100 * T" "(10000 + int b) * T \<le> 20000 * T"
    using assms(1,2) by (intro mult_right_mono; simp add: T_def)+
  moreover have "0 < T" using assms(3) by (simp add: T_def)
  ultimately have "T * T < 4000000 * T" by linarith
  then show False using assms(3) by (simp add: T_def mult_less_cancel_right)
qed

lemma set_elevation_group_eq [res_simps]:
  "set_elevation_group m g = Inr m' \<longleftrightarrow> eg_id g \<noteq> 0 \<and> unat (eg_id g) - 1 < length (lm_elevation_groups m) \<and>
     m' = m\<lparr> lm_elevation_groups := (lm_elevation_groups m)[unat (eg_id g) - 1 := g] \<rparr>"
  by (auto simp: set_elevation_group_def eg_get_index_def ELEVATION_GROUP_NONE_def fail_def)

lemma guarded_eq [res_simps]:
  "(if c then fail e else Inr m) = Inr m' \<longleftrightarrow> \<not> c \<and> m = m'"
  "(if c then Inl Panic else Inr m) = Inr m' \<longleftrightarrow> \<not> c \<and> m = m'"
  by (auto simp: fail_def)

context num_lib begin

lemma validated_group_ok:
  assumes v: "validate_new_elevation_group L g = Inr ()" and i: "eg_id g \<noteq> 0"
  shows "group_ok g (unat (eg_id g) - 1)"
proof -
  let ?p = "unat (eg_liquidation_threshold_pct g)" and ?b = "unat (eg_max_liquidation_bonus_bps g)"
  have v': "?p < 100" "?b \<le> 10000" "eg_ltv_pct g \<le> eg_liquidation_threshold_pct g"
    "0 < eg_liquidation_threshold_pct g" "eg_debt_reserve g \<noteq> 0" "eg_max_reserves_as_collateral g \<noteq> 0"
    using v i by (auto simp: validate_new_elevation_group_def res_simps FULL_BPS_def not_le not_less
        word_less_nat_alt word_le_nat_alt unat_gt_0 ELEVATION_GROUP_NONE_def split: if_splits)
  have "?p * fx_scale div 100 + (?p * fx_scale div 100) * (?b * fx_scale div 10000) div fx_scale \<le> fx_scale"
    using v by (auto simp: validate_new_elevation_group_def res_simps arith_simps not_less word_le_nat_alt
        split: if_splits)
  from bonus_bound [OF v'(1,2) _ this] v' i show ?thesis
    by (simp add: group_ok_def fx_scale_def unat_gt_0)
qed

lemma set_group_ok:
  assumes "groups_ok gs" "validate_new_elevation_group L g = Inr ()" "eg_id g \<noteq> 0"
  shows "groups_ok (gs[unat (eg_id g) - 1 := g])"
  unfolding groups_ok_def
proof (intro conjI allI impI)
  fix i assume "i < length (gs[unat (eg_id g) - 1 := g])"
  with assms(1) validated_group_ok [OF assms(2,3)] show "group_ok (gs[unat (eg_id g) - 1 := g] ! i) i"
    by (cases "i = unat (eg_id g) - 1") (auto simp: groups_ok_def)
qed (use assms(1) in \<open>simp add: groups_ok_def\<close>)

lemma update_keeps_switches:
  assumes "update_lending_market L D MD m mode bytes = Inr m'"
    "list_all (\<lambda>b. unat b \<le> 1) (market_switches m)"
  shows "list_all (\<lambda>b. unat b \<le> 1) (market_switches m')"
  using assms by (cases mode; clarsimp simp: market_switches_def res_simps)

lemma update_keeps_limits:
  assumes "update_lending_market L D MD m mode bytes = Inr m'" "market_limits_ok m"
  shows "market_limits_ok m'"
  using assms by (cases mode; clarsimp simp: market_limits_ok_def res_simps
    lm_get_permissioned_ops_def MIN_INITIAL_DEPOSIT_AMOUNT_def)

lemma bool_u8: "unat (v :: u8) \<le> Suc 0 \<longleftrightarrow> v = 0 \<or> v = 1"
  by (auto simp: le_Suc_eq intro: word_unat_eqI)

lemma update_keeps_rollover:
  assumes "update_lending_market L D MD m mode bytes = Inr m'" "market_rollover_ok m"
    "unat (lm_obligation_borrow_migration_to_fixed_execution_enabled m') \<le> 1"
  shows "market_rollover_ok m'"
  using assms by (cases mode; clarsimp simp: rollover_ok_eq res_simps bool_u8 word_gt_0)

lemma update_keeps_groups:
  assumes "update_lending_market L D MD m mode bytes = Inr m'" "groups_ok (lm_elevation_groups m)"
  shows "groups_ok (lm_elevation_groups m')"
  using assms by (cases mode; clarsimp simp: res_simps set_group_ok [simplified])

lemma update_keeps_ok:
  assumes "market_ok m" "update_lending_market L D MD m mode bytes = Inr m'"
  shows "market_ok m'"
proof -
  have sw: "list_all (\<lambda>b. unat b \<le> 1) (market_switches m')"
    using update_keeps_switches [OF assms(2)] assms(1) by (simp add: market_ok_def)
  then have "unat (lm_obligation_borrow_migration_to_fixed_execution_enabled m') \<le> 1"
    by (simp add: market_switches_def)
  with sw update_keeps_limits [OF assms(2)] update_keeps_rollover [OF assms(2)]
    update_keeps_groups [OF assms(2)] assms(1) show ?thesis by (simp add: market_ok_def)
qed

end

lemma utf8_zeros: "utf8_valid (replicate n 0)"
  by (induction n) auto

lemma init_ok: "market_ok (lending_market_init params)"
  by (simp add: market_ok_def market_switches_def market_limits_ok_def rollover_ok_eq lending_market_init_def
      lending_market_default_def groups_ok_def group_ok_def MAX_NUM_ELEVATION_GROUPS_def
      LIQUIDATION_CLOSE_FACTOR_def CLOSE_TO_INSOLVENCY_RISKY_LTV_def MAX_LIQUIDATABLE_VALUE_AT_ONCE_def
      LIQUIDATION_CLOSE_VALUE_def DEFAULT_MIN_DEPOSIT_AMOUNT_def MIN_BORROW_ORDER_FILL_VALUE_def
      MIN_WITHDRAW_QUEUED_LIQUIDITY_VALUE_def lm_get_permissioned_ops_def from_bits_truncate_def
      utf8_zeros)

section \<open>Reachable markets\<close>

inductive market_reaches :: "numlib \<Rightarrow> decoders \<Rightarrow> market_decoders \<Rightarrow> lending_market \<Rightarrow> bool"
  for L D MD where
  created: "market_reaches L D MD (lending_market_init params)"
| updated: "market_reaches L D MD m \<Longrightarrow>
     process_update_lending_market L D MD signer m mode bytes = Inr m' \<Longrightarrow> market_reaches L D MD m'"
| handed_over: "market_reaches L D MD m \<Longrightarrow>
     process_update_lending_market_owner signer m = Inr m' \<Longrightarrow> market_reaches L D MD m'"

lemma process_update_eq [res_simps]:
  "process_update_lending_market L D MD signer m mode bytes = Inr m' \<longleftrightarrow>
     (\<exists>md. lending_market_mode_try_from mode = Some md \<and>
        is_allowed_to_update_lending_market signer m mode bytes = Inr True \<and>
        \<not> is_immutable m \<and> update_lending_market L D MD m md bytes = Inr m')"
  by (auto simp: process_update_lending_market_def res_simps split: if_splits)

lemma update_owner_eq [res_simps]:
  "process_update_lending_market_owner signer m = Inr m' \<longleftrightarrow>
     signer = lm_lending_market_owner_cached m \<and> \<not> is_immutable m \<and>
     m' = m\<lparr> lm_lending_market_owner := lm_lending_market_owner_cached m \<rparr>"
  by (auto simp: process_update_lending_market_owner_def fail_def)

lemma owner_keeps_ok [simp]: "market_ok (m\<lparr> lm_lending_market_owner := p \<rparr>) \<longleftrightarrow> market_ok m"
  by (simp add: market_ok_def market_switches_def market_limits_ok_def rollover_ok_eq
      lm_get_permissioned_ops_def)

context num_lib begin

lemma reaches_ok: "market_reaches L D MD m \<Longrightarrow> market_ok m"
  by (induction rule: market_reaches.induct) (auto simp: init_ok res_simps intro: update_keeps_ok)

end

lemma group_found:
  assumes "market_ok m" "get_elevation_group m i = Inr (Some g)"
  shows "group_ok g (unat i - 1)"
  using assms by (auto simp: market_ok_def groups_ok_def get_elevation_group_def fail_def split: if_splits)

section \<open>Properties\<close>

text \<open>
  C22. Every market that the program can produce, from its creation through any sequence of
  accepted updates and changes of owner, is well formed: its switches are booleans, its
  percentages and basis points in range, its amounts that must not be zero are not, its name is
  text, no way of rolling loans over is open without a smallest amount. The elevation group that
  an id up to 32 names can always be looked up, and is either unset or the group of that id with
  limits under which a liquidation with the largest bonus costs no more than the collateral.
\<close>

theorem market_stays_well_formed:
  assumes "num_lib L" and "market_reaches L D MD m"
  shows "market_ok m \<and>
    (\<forall>i. 0 < unat i \<and> unat i \<le> 32 \<longrightarrow> (\<exists>g. get_elevation_group m i = Inr (Some g) \<and>
       (g = elevation_group_default \<or> eg_id g = i \<and> eg_ltv_pct g \<le> eg_liquidation_threshold_pct g \<and>
          unat (eg_liquidation_threshold_pct g) * (10000 + unat (eg_max_liquidation_bonus_bps g)) \<le> 1000000)))"
proof (intro conjI allI impI)
  show ok: "market_ok m" by (rule num_lib.reaches_ok [OF assms])
  fix i :: u8 assume i: "0 < unat i \<and> unat i \<le> 32"
  then have "i \<noteq> 0" "unat i - 1 < 32" by auto
  with ok obtain g where g: "get_elevation_group m i = Inr (Some g)"
    by (simp add: get_elevation_group_def market_ok_def groups_ok_def MAX_NUM_ELEVATION_GROUPS_def
        ELEVATION_GROUP_NONE_def)
  from group_found [OF ok g] i have "g = elevation_group_default \<or> eg_id g = i \<and>
      eg_ltv_pct g \<le> eg_liquidation_threshold_pct g \<and>
      unat (eg_liquidation_threshold_pct g) * (10000 + unat (eg_max_liquidation_bonus_bps g)) \<le> 1000000"
    by (auto simp: group_ok_def intro: word_unat_eqI)
  with g show "\<exists>g. get_elevation_group m i = Inr (Some g) \<and> (g = elevation_group_default \<or> eg_id g = i \<and>
      eg_ltv_pct g \<le> eg_liquidation_threshold_pct g \<and>
      unat (eg_liquidation_threshold_pct g) * (10000 + unat (eg_max_liquidation_bonus_bps g)) \<le> 1000000)"
    by blast
qed

text \<open>Decoders that read the first bytes, as the serialization format lays them out.\<close>

definition sample_decoders :: decoders where
  "sample_decoders = \<lparr>
     de_u8 = (\<lambda>bs. case bs of [] \<Rightarrow> Inl ProgramErr | b # _ \<Rightarrow> Inr b),
     de_u16 = (\<lambda>bs. if length bs < 2 then Inl ProgramErr else Inr (of_nat (unat (bs ! 0) + 256 * unat (bs ! 1)))),
     de_u32 = (\<lambda>_. Inl ProgramErr), de_u64 = (\<lambda>_. Inl ProgramErr), de_u128 = (\<lambda>_. Inl ProgramErr),
     de_pubkey = (\<lambda>_. Inl ProgramErr) \<rparr>"

definition sample_market_decoders :: market_decoders where
  "sample_market_decoders = \<lparr>
     de_elevation_group = (\<lambda>bs. Inr \<lparr> eg_max_liquidation_bonus_bps = 500, eg_id = hd bs, eg_ltv_pct = 90,
        eg_liquidation_threshold_pct = 92, eg_allow_new_loans = 1, eg_max_reserves_as_collateral = 2,
        eg_debt_reserve = 77 \<rparr>),
     de_bytes32 = (\<lambda>bs. Inr (take 32 bs)) \<rparr>"

definition sample_market :: lending_market where
  "sample_market = lending_market_init \<lparr> ilm_bump_seed = 1, ilm_lending_market_owner = 5, ilm_quote_currency = [] \<rparr>"

theorem market_stays_well_formed_witness:
  "\<exists>m g. get_elevation_group m 2 = Inr (Some g) \<and> eg_liquidation_threshold_pct g = 92 \<and> market_ok m"
proof -
  obtain m where m: "process_update_lending_market std_lib sample_decoders sample_market_decoders 5
      sample_market 9 [2] = Inr m" "get_elevation_group m 2 = Inr (Some \<lparr> eg_max_liquidation_bonus_bps = 500,
        eg_id = 2, eg_ltv_pct = 90, eg_liquidation_threshold_pct = 92, eg_allow_new_loans = 1,
        eg_max_reserves_as_collateral = 2, eg_debt_reserve = 77 \<rparr>)"
    by (simp add: res_simps lending_market_mode_try_from_def update_lending_market_modes_def
        is_allowed_to_update_lending_market_def sample_market_def lending_market_init_def
        lending_market_default_def is_immutable_def sample_market_decoders_def
        validate_new_elevation_group_def MAX_NUM_ELEVATION_GROUPS_def ELEVATION_GROUP_NONE_def FULL_BPS_def
        from_percent_def from_bps_def std_eval get_elevation_group_def)
  have "market_reaches std_lib sample_decoders sample_market_decoders m"
    using market_reaches.updated [OF market_reaches.created m(1) [unfolded sample_market_def]] .
  from market_stays_well_formed [OF std.num_lib_axioms this] have "market_ok m" ..
  with m(2) show ?thesis by (metis elevation_group.select_convs(4))
qed

text \<open>
  C23. The emergency council can only stop the market. An accepted update that the owner did not
  sign comes from the council, and its whole effect is to set one of three switches to true: the
  emergency mode, the ban on borrowing, or the ban on liquidations triggered by prices. A market
  that its owner made immutable accepts nothing. The decoder of a byte is assumed to read the first
  byte.
\<close>

theorem council_can_only_stop:
  assumes decode: "\<And>b bs. de_u8 D (b # bs) = Inr b"
    and "process_update_lending_market L D MD signer m mode (b # bs) = Inr m'"
    and "signer \<noteq> lm_lending_market_owner m"
  shows "signer = lm_emergency_council m \<and> \<not> is_immutable m \<and>
    (m' = m\<lparr> lm_emergency_mode := 1 \<rparr> \<or> m' = m\<lparr> lm_borrow_disabled := 1 \<rparr> \<or>
     m' = m\<lparr> lm_price_triggered_liquidation_disabled := 1 \<rparr>)"
proof -
  from assms(2) obtain md where md: "lending_market_mode_try_from mode = Some md"
    "is_allowed_to_update_lending_market signer m mode (b # bs) = Inr True" "\<not> is_immutable m"
    "update_lending_market L D MD m md (b # bs) = Inr m'"
    by (auto simp: res_simps)
  from md(1,2) assms(3) have "signer = lm_emergency_council m" "b = 1"
    "md \<in> {UpdateEmergencyMode, UpdateBorrowingDisabled, UpdatePriceTriggeredLiquidationDisabled}"
    by (auto simp: is_allowed_to_update_lending_market_def split: if_splits update_lending_market_mode.splits)
  with md(3,4) show ?thesis by (auto simp: res_simps decode)
qed

theorem council_can_only_stop_witness:
  "let m = sample_market\<lparr> lm_emergency_council := 6 \<rparr>
   in process_update_lending_market std_lib sample_decoders sample_market_decoders 6 m 14 [1] =
        Inr (m\<lparr> lm_borrow_disabled := 1 \<rparr>) \<and> \<not> is_immutable m"
proof -
  let ?m = "sample_market\<lparr> lm_emergency_council := 6 \<rparr>"
  have ok: "process_update_lending_market std_lib sample_decoders sample_market_decoders 6 ?m 14 [1] =
      Inr (?m\<lparr> lm_borrow_disabled := 1 \<rparr>)"
    by (simp add: res_simps lending_market_mode_try_from_def update_lending_market_modes_def
        is_allowed_to_update_lending_market_def sample_market_def lending_market_init_def
        lending_market_default_def is_immutable_def sample_decoders_def)
  have "de_u8 sample_decoders (b # bs) = Inr b" for b bs by (simp add: sample_decoders_def)
  from council_can_only_stop [OF this ok] have "\<not> is_immutable ?m"
    by (simp add: sample_market_def lending_market_init_def)
  with ok show ?thesis by (simp add: Let_def)
qed

end
