(* ===== verification/Permissioning.thy ===== *)
theory Permissioning imports Lending_Market Reserve begin

text \<open>
  Permissioned operations (\<open>utils/permissioning.rs\<close>): a market with a permissioning authority can
  demand, for the whole market or for single reserves, that an operation carries the authority's
  signature in the last of its remaining accounts.
\<close>

record account_info =
  ai_key :: pubkey
  ai_is_signer :: bool

definition reserve_get_permissioned_ops :: "reserve \<Rightarrow> permissioned_op" where
  "reserve_get_permissioned_ops r = from_bits_truncate (permissioned_ops (rsv_config r))"

definition reserve_requires_permission :: "reserve \<Rightarrow> permissioned_op \<Rightarrow> bool" where
  "reserve_requires_permission r op \<longleftrightarrow> intersects op (reserve_get_permissioned_ops r)"

definition requires_permission :: "lending_market \<Rightarrow> reserve list \<Rightarrow> permissioned_op \<Rightarrow> bool" where
  "requires_permission m op_reserves op \<longleftrightarrow> is_permissioned_market m \<and>
     (is_permissioned_op m op \<or> list_ex (\<lambda>r. reserve_requires_permission r op) op_reserves)"

definition check_permissions ::
  "lending_market \<Rightarrow> reserve list \<Rightarrow> permissioned_op \<Rightarrow> account_info option \<Rightarrow> bool res" where
  "check_permissions m op_reserves op permissioning_acct =
     (if \<not> requires_permission m op_reserves op then Inr False
      else rbind (ok_or permissioning_acct (LendingErr MissingPermissioner)) (\<lambda>acct.
        if ai_key acct \<noteq> lm_permissioning_authority m then fail MissingPermissioner
        else if \<not> ai_is_signer acct then Inl ProgramErr
        else Inr True))"

definition last_opt :: "'a list \<Rightarrow> 'a option" where
  "last_opt xs = (if xs = [] then None else Some (last xs))"

definition check_permissions_and_strip ::
  "lending_market \<Rightarrow> reserve list \<Rightarrow> permissioned_op \<Rightarrow> account_info list \<Rightarrow> account_info list res" where
  "check_permissions_and_strip m op_reserves op remaining_accounts =
     rbind (check_permissions m op_reserves op (last_opt remaining_accounts)) (\<lambda>permissioned.
     Inr (if permissioned then take (length remaining_accounts - 1) remaining_accounts
          else remaining_accounts))"

definition requires_permission_and_strip ::
  "lending_market \<Rightarrow> reserve list \<Rightarrow> permissioned_op \<Rightarrow> account_info list \<Rightarrow> account_info list res" where
  "requires_permission_and_strip m op_reserves op remaining_accounts =
     (if requires_permission m op_reserves op
      then if remaining_accounts = [] then Inl Panic
           else Inr (take (length remaining_accounts - 1) remaining_accounts)
      else Inr remaining_accounts)"

text \<open>The changes of a set of operations, \<open>add\<close> and \<open>revoke\<close>, and its members.\<close>

definition permission_add :: "permissioned_op \<Rightarrow> permissioned_op \<Rightarrow> permissioned_op" where
  "permission_add ops op = ops OR op"

definition permission_revoke :: "permissioned_op \<Rightarrow> permissioned_op \<Rightarrow> permissioned_op" where
  "permission_revoke ops op = ops AND NOT op"

lemma last_opt_Some: "last_opt xs = Some x \<longleftrightarrow> (\<exists>ys. xs = ys @ [x])"
  by (cases xs rule: rev_cases) (auto simp: last_opt_def)

lemma check_permissions_eq [res_simps]:
  "check_permissions m rs op a = Inr b \<longleftrightarrow> b = requires_permission m rs op \<and>
     (b \<longrightarrow> (\<exists>acct. a = Some acct \<and> ai_key acct = lm_permissioning_authority m \<and> ai_is_signer acct))"
  by (auto simp: check_permissions_def res_simps)

text \<open>
  An operation passes the permission check exactly when it needs no permission, and then all
  its remaining accounts are its own, or when the last of them is the market's permissioning
  authority and signed, and then the others are its own. Where the check passed, stripping the
  accounts again without checking gives the same list and does not panic.
\<close>

theorem permission_check_and_strip:
  "(check_permissions_and_strip m rs op accts = Inr own \<longleftrightarrow>
     (if requires_permission m rs op
      then \<exists>acct. accts = own @ [acct] \<and> ai_key acct = lm_permissioning_authority m \<and> ai_is_signer acct
      else own = accts)) \<and>
   (check_permissions_and_strip m rs op accts = Inr own \<longrightarrow>
     requires_permission_and_strip m rs op accts = Inr own)"
proof -
  have eq: "check_permissions_and_strip m rs op accts = Inr own \<longleftrightarrow>
     (if requires_permission m rs op
      then \<exists>acct. accts = own @ [acct] \<and> ai_key acct = lm_permissioning_authority m \<and> ai_is_signer acct
      else own = accts)"
    by (auto simp: check_permissions_and_strip_def res_simps last_opt_Some)
  moreover have "requires_permission_and_strip m rs op accts = Inr own"
    if "check_permissions_and_strip m rs op accts = Inr own"
    using that unfolding eq by (auto simp: requires_permission_and_strip_def split: if_splits)
  ultimately show ?thesis by blast
qed

text \<open>A liquidation on a market that permissions it, with its authority as the last account.\<close>

theorem permission_check_and_strip_witness:
  "let m = lending_market_default\<lparr> lm_permissioning_authority := 3, lm_permissioned_ops := 4 \<rparr>;
       a = \<lparr> ai_key = 9, ai_is_signer = False \<rparr>; p = \<lparr> ai_key = 3, ai_is_signer = True \<rparr>
   in check_permissions_and_strip m [] LIQUIDATE [a, p] = Inr [a] \<and>
      requires_permission_and_strip m [] LIQUIDATE [a, p] = Inr [a]"
proof -
  let ?m = "lending_market_default\<lparr> lm_permissioning_authority := 3, lm_permissioned_ops := 4 \<rparr>"
  have "requires_permission ?m [] LIQUIDATE"
    by (simp add: requires_permission_def is_permissioned_market_def is_permissioned_op_def
        lm_get_permissioned_ops_def intersects_def from_bits_truncate_def PERMISSION_ALL_def LIQUIDATE_def
        DEPOSIT_def BORROW_def NONE_def)
  with permission_check_and_strip [of ?m "[]" LIQUIDATE
      "[\<lparr> ai_key = 9, ai_is_signer = False \<rparr>, \<lparr> ai_key = 3, ai_is_signer = True \<rparr>]"
      "[\<lparr> ai_key = 9, ai_is_signer = False \<rparr>]"]
  show ?thesis by simp
qed

end
