(* ===== verification/Obligation_Orders.thy ===== *)
theory Obligation_Orders imports Obligation Lending_Market begin

text \<open>
  Conditional orders of an obligation (\<open>state/obligation_order_operations.rs\<close> and the methods of
  \<open>ObligationOrder\<close> in \<open>state/obligation.rs\<close>): an owner lets anyone deleverage the obligation,
  for a bonus, while a condition on its loan-to-value ratio or on a price ratio holds.
\<close>

section \<open>Conditions and opportunities\<close>

datatype condition_type = Never | UserLtvAbove | UserLtvBelow | DebtCollPriceRatioAbove
  | DebtCollPriceRatioBelow | Always | LiquidationLtvCloserThan

datatype opportunity_type = DeleverageSingleDebtAmount | DeleverageAllDebt

fun condition_type_of_u8 :: "u8 \<Rightarrow> condition_type option" where
  "condition_type_of_u8 b =
     (if b = 0 then Some Never else if b = 1 then Some UserLtvAbove
      else if b = 2 then Some UserLtvBelow else if b = 3 then Some DebtCollPriceRatioAbove
      else if b = 4 then Some DebtCollPriceRatioBelow else if b = 5 then Some Always
      else if b = 6 then Some LiquidationLtvCloserThan else None)"

fun opportunity_type_of_u8 :: "u8 \<Rightarrow> opportunity_type option" where
  "opportunity_type_of_u8 b =
     (if b = 0 then Some DeleverageSingleDebtAmount
      else if b = 1 then Some DeleverageAllDebt else None)"

definition order_condition_type :: "obligation_order \<Rightarrow> condition_type res" where
  "order_condition_type ord = ok_or (condition_type_of_u8 (oo_condition_type ord)) Panic"

definition order_opportunity_type :: "obligation_order \<Rightarrow> opportunity_type res" where
  "order_opportunity_type ord = ok_or (opportunity_type_of_u8 (oo_opportunity_type ord)) Panic"

definition execution_bonus_rate_range :: "numlib \<Rightarrow> obligation_order \<Rightarrow> (frac \<times> frac) res" where
  "execution_bonus_rate_range L ord =
     rbind (from_bps L (ucast (oo_min_execution_bonus_bps ord))) (\<lambda>lo.
     rbind (from_bps L (ucast (oo_max_execution_bonus_bps ord))) (\<lambda>hi. Inr (lo, hi)))"

fun condition_is_supported_by :: "condition_type \<Rightarrow> obligation \<Rightarrow> bool" where
  "condition_is_supported_by DebtCollPriceRatioAbove ob = is_single_debt_single_coll ob"
| "condition_is_supported_by DebtCollPriceRatioBelow ob = is_single_debt_single_coll ob"
| "condition_is_supported_by _ ob = True"

fun is_price_triggered :: "condition_type \<Rightarrow> bool" where
  "is_price_triggered Never = False"
| "is_price_triggered Always = False"
| "is_price_triggered _ = True"

fun opportunity_is_supported_by :: "opportunity_type \<Rightarrow> obligation \<Rightarrow> bool" where
  "opportunity_is_supported_by DeleverageSingleDebtAmount ob = (single_debt ob \<noteq> None)"
| "opportunity_is_supported_by DeleverageAllDebt ob = True"

definition order_is_supported_by :: "obligation_order \<Rightarrow> obligation \<Rightarrow> bool res" where
  "order_is_supported_by ord ob =
     (if ord = obligation_order_default then Inr True
      else rbind (order_condition_type ord) (\<lambda>c.
        if \<not> condition_is_supported_by c ob then Inr False
        else rbind (order_opportunity_type ord) (\<lambda>opp. Inr (opportunity_is_supported_by opp ob))))"

section \<open>Using an order up\<close>

definition use_deleverage_single_debt_amount_opportunity ::
  "numlib \<Rightarrow> obligation_order \<Rightarrow> u64 \<Rightarrow> obligation_order res" where
  "use_deleverage_single_debt_amount_opportunity L ord debt_repay_amount =
     rbind (fx_from_num L (ucast debt_repay_amount)) (\<lambda>repaid.
     let updated = fx_saturating_sub L (oo_opportunity_parameter_sf ord) repaid
     in if updated = 0 then Inr obligation_order_default
        else Inr (ord\<lparr> oo_opportunity_parameter_sf := updated \<rparr>))"

definition order_consume :: "numlib \<Rightarrow> obligation_order \<Rightarrow> u64 \<Rightarrow> obligation_order res" where
  "order_consume L ord debt_repay_amount =
     rbind (order_opportunity_type ord) (\<lambda>opp. case opp of
       DeleverageSingleDebtAmount \<Rightarrow> use_deleverage_single_debt_amount_opportunity L ord debt_repay_amount
     | DeleverageAllDebt \<Rightarrow> Inr ord)"

section \<open>Evaluating conditions\<close>

datatype condition_hit = ConditionHit (normalized_distance_from_threshold: "frac option")

definition with_distance :: "frac \<Rightarrow> condition_hit" where
  "with_distance d = ConditionHit (Some d)"

definition without_distance :: condition_hit where
  "without_distance = ConditionHit None"

definition evaluate_stop_loss :: "numlib \<Rightarrow> frac \<Rightarrow> frac \<Rightarrow> frac \<Rightarrow> condition_hit option res" where
  "evaluate_stop_loss L current_value condition_threshold liquidation_threshold =
     (if current_value \<le> condition_threshold then Inr None
      else rbind (if condition_threshold \<ge> liquidation_threshold then Inr fx_one
        else rbind (fx_sub L current_value condition_threshold) (\<lambda>current_distance.
             rbind (fx_sub L liquidation_threshold condition_threshold) (\<lambda>maximum_distance.
             fx_div L current_distance maximum_distance)))
        (\<lambda>d. Inr (Some (with_distance d))))"

definition evaluate_take_profit :: "numlib \<Rightarrow> frac \<Rightarrow> frac \<Rightarrow> condition_hit option res" where
  "evaluate_take_profit L current_value condition_threshold =
     (if current_value \<ge> condition_threshold then Inr None
      else rbind (fx_sub L condition_threshold current_value) (\<lambda>distance_towards_0.
        rbind (fx_div L distance_towards_0 condition_threshold) (\<lambda>d.
        Inr (Some (with_distance d)))))"

definition calculate_price_ratio :: "numlib \<Rightarrow> reserve \<Rightarrow> reserve \<Rightarrow> frac res" where
  "calculate_price_ratio L numerator_reserve denominator_reserve =
     fx_div L (get_market_price (rsv_liquidity numerator_reserve))
       (get_market_price (rsv_liquidity denominator_reserve))"

definition evaluate_order_condition ::
  "numlib \<Rightarrow> reserve \<Rightarrow> reserve \<Rightarrow> obligation \<Rightarrow> obligation_order \<Rightarrow> condition_hit option res" where
  "evaluate_order_condition L collateral_reserve debt_reserve ob ord =
     rbind (order_condition_type ord) (\<lambda>c. case c of
       Always \<Rightarrow> Inr (Some without_distance)
     | Never \<Rightarrow> Inr None
     | UserLtvAbove \<Rightarrow>
         rbind (loan_to_value L ob) (\<lambda>ltv.
         rbind (unhealthy_loan_to_value L ob) (\<lambda>unhealthy.
         evaluate_stop_loss L ltv (oo_condition_threshold_sf ord) unhealthy))
     | UserLtvBelow \<Rightarrow>
         rbind (loan_to_value L ob) (\<lambda>ltv.
         evaluate_take_profit L ltv (oo_condition_threshold_sf ord))
     | DebtCollPriceRatioAbove \<Rightarrow>
         rbind (calculate_price_ratio L debt_reserve collateral_reserve) (\<lambda>price_ratio.
         rbind (unhealthy_loan_to_value L ob) (\<lambda>unhealthy.
         rbind (fx_mul L price_ratio unhealthy) (\<lambda>scaled.
         rbind (loan_to_value L ob) (\<lambda>ltv.
         rbind (fx_div L scaled ltv) (\<lambda>liquidation_ratio.
         evaluate_stop_loss L price_ratio (oo_condition_threshold_sf ord) liquidation_ratio)))))
     | DebtCollPriceRatioBelow \<Rightarrow>
         rbind (calculate_price_ratio L debt_reserve collateral_reserve) (\<lambda>price_ratio.
         evaluate_take_profit L price_ratio (oo_condition_threshold_sf ord))
     | LiquidationLtvCloserThan \<Rightarrow>
         rbind (unhealthy_loan_to_value L ob) (\<lambda>unhealthy_ltv.
         rbind (loan_to_value L ob) (\<lambda>ltv.
         evaluate_stop_loss L ltv
           (fx_saturating_sub L unhealthy_ltv (oo_condition_threshold_sf ord)) unhealthy_ltv)))"

text \<open>The loop of \<open>find_applicable_obligation_order\<close>, with the index of the head order.\<close>

fun find_applicable_order_from ::
  "numlib \<Rightarrow> reserve \<Rightarrow> reserve \<Rightarrow> obligation \<Rightarrow> bool \<Rightarrow> nat \<Rightarrow> obligation_order list \<Rightarrow>
   (nat \<times> condition_hit) option res" where
  "find_applicable_order_from L cr dr ob disabled i [] = Inr None"
| "find_applicable_order_from L cr dr ob disabled i (ord # ords) =
     rbind (evaluate_order_condition L cr dr ob ord) (\<lambda>h. case h of
       None \<Rightarrow> find_applicable_order_from L cr dr ob disabled (Suc i) ords
     | Some condition_hit \<Rightarrow> rbind (order_condition_type ord) (\<lambda>c.
         if is_price_triggered c \<and> disabled
         then find_applicable_order_from L cr dr ob disabled (Suc i) ords
         else Inr (Some (i, condition_hit))))"

definition find_applicable_obligation_order ::
  "numlib \<Rightarrow> reserve \<Rightarrow> reserve \<Rightarrow> obligation \<Rightarrow> bool \<Rightarrow> (nat \<times> condition_hit) option res" where
  "find_applicable_obligation_order L collateral_reserve debt_reserve ob price_triggered_liquidation_disabled =
     find_applicable_order_from L collateral_reserve debt_reserve ob
       price_triggered_liquidation_disabled 0 (ob_obligation_orders ob)"

section \<open>Setting and removing orders\<close>

text \<open>The literals \<open>fraction!(..)\<close>, each the nearest multiple of \<open>2 ^ - 60\<close>.\<close>

definition MIN_DEBT_COLL_PRICE_RATIO :: frac where "MIN_DEBT_COLL_PRICE_RATIO = 1153"
definition MAX_DEBT_COLL_PRICE_RATIO :: frac where
  "MAX_DEBT_COLL_PRICE_RATIO = of_nat (1000000000000000 * 2 ^ 60)"
definition MIN_VALID_USER_LTV :: frac where "MIN_VALID_USER_LTV = 11529215046068470"
definition EXECUTION_BONUS_SANITY_LIMIT :: frac where
  "EXECUTION_BONUS_SANITY_LIMIT = 115292150460684698"

definition valid_user_ltv :: "frac \<Rightarrow> bool" where
  "valid_user_ltv x \<longleftrightarrow> MIN_VALID_USER_LTV \<le> x \<and> x < fx_one"

definition validate_condition :: "numlib \<Rightarrow> obligation_order \<Rightarrow> condition_type \<Rightarrow> unit res" where
  "validate_condition L ord c = (case c of
     Never \<Rightarrow> ensure (ord = obligation_order_default) InvalidOrderConfiguration
   | Always \<Rightarrow>
       if oo_condition_threshold_sf ord \<noteq> 0 then fail InvalidOrderConfiguration
       else rbind (execution_bonus_rate_range L ord) (\<lambda>(lo, hi). ensure (lo = hi) InvalidOrderConfiguration)
   | DebtCollPriceRatioAbove \<Rightarrow> ensure (MIN_DEBT_COLL_PRICE_RATIO \<le> oo_condition_threshold_sf ord \<and>
       oo_condition_threshold_sf ord \<le> MAX_DEBT_COLL_PRICE_RATIO) InvalidOrderConfiguration
   | DebtCollPriceRatioBelow \<Rightarrow> ensure (MIN_DEBT_COLL_PRICE_RATIO \<le> oo_condition_threshold_sf ord \<and>
       oo_condition_threshold_sf ord \<le> MAX_DEBT_COLL_PRICE_RATIO) InvalidOrderConfiguration
   | UserLtvAbove \<Rightarrow> ensure (valid_user_ltv (oo_condition_threshold_sf ord)) InvalidOrderConfiguration
   | UserLtvBelow \<Rightarrow> ensure (valid_user_ltv (oo_condition_threshold_sf ord)) InvalidOrderConfiguration
   | LiquidationLtvCloserThan \<Rightarrow>
       ensure (valid_user_ltv (oo_condition_threshold_sf ord)) InvalidOrderConfiguration)"

definition validate_opportunity :: "obligation_order \<Rightarrow> opportunity_type \<Rightarrow> unit res" where
  "validate_opportunity ord opp = (case opp of
     DeleverageSingleDebtAmount \<Rightarrow>
       if oo_opportunity_parameter_sf ord = 0 then fail InvalidOrderConfiguration
       else ensure (oo_opportunity_parameter_sf ord \<noteq> - 1) InvalidOrderConfiguration
   | DeleverageAllDebt \<Rightarrow> ensure (oo_opportunity_parameter_sf ord = - 1) InvalidOrderConfiguration)"

definition validate_order :: "numlib \<Rightarrow> obligation_order \<Rightarrow> unit res" where
  "validate_order L ord =
     rbind (ok_or (condition_type_of_u8 (oo_condition_type ord)) (LendingErr InvalidOrderConfiguration)) (\<lambda>c.
     rbind (validate_condition L ord c) (\<lambda>_.
     if c = Never then Inr ()
     else rbind (ok_or (opportunity_type_of_u8 (oo_opportunity_type ord))
         (LendingErr InvalidOrderConfiguration)) (\<lambda>opp.
       rbind (validate_opportunity ord opp) (\<lambda>_.
       rbind (execution_bonus_rate_range L ord) (\<lambda>(lo, hi).
       if lo > hi then fail InvalidOrderConfiguration
       else if hi > EXECUTION_BONUS_SANITY_LIMIT then fail InvalidOrderConfiguration
       else if list_ex (\<lambda>b. b \<noteq> 0) (oo_padding1 ord) \<or> list_ex (\<lambda>b. b \<noteq> 0) (oo_padding2 ord)
         then fail InvalidOrderConfiguration
       else Inr ())))))"

definition set_order_on_obligation ::
  "numlib \<Rightarrow> lending_market \<Rightarrow> obligation \<Rightarrow> u8 \<Rightarrow> obligation_order \<Rightarrow> obligation res" where
  "set_order_on_obligation L m ob index ord =
     rbind (validate_order L ord) (\<lambda>_.
     rbind (order_is_supported_by ord ob) (\<lambda>supported.
     if \<not> supported then fail OrderConfigurationNotSupportedByObligation
     else if unat index \<ge> length (ob_obligation_orders ob) then fail OrderIndexOutOfBounds
     else if \<not> order_is_active (ob_obligation_orders ob ! unat index) \<and> order_is_active ord \<and>
         \<not> is_obligation_order_creation_enabled m then fail OrderCreationDisabled
     else Inr (ob\<lparr> ob_obligation_orders := (ob_obligation_orders ob)[unat index := ord] \<rparr>)))"

fun any_unsupported :: "obligation \<Rightarrow> obligation_order list \<Rightarrow> bool res" where
  "any_unsupported ob [] = Inr False"
| "any_unsupported ob (ord # ords) =
     rbind (order_is_supported_by ord ob) (\<lambda>s. if \<not> s then Inr True else any_unsupported ob ords)"

fun unsupported_orders :: "obligation \<Rightarrow> obligation_order list \<Rightarrow> obligation_order list res" where
  "unsupported_orders ob [] = Inr []"
| "unsupported_orders ob (ord # ords) =
     rbind (order_is_supported_by ord ob) (\<lambda>s.
     rbind (unsupported_orders ob ords) (\<lambda>us. Inr (if s then us else ord # us)))"

definition check_orders_supported_after_user_operation :: "obligation \<Rightarrow> unit res" where
  "check_orders_supported_after_user_operation ob =
     rbind (any_unsupported ob (ob_obligation_orders ob)) (\<lambda>has_unsupported.
     if has_unsupported
     then rbind (unsupported_orders ob (ob_obligation_orders ob)) (\<lambda>_.
       fail OperationNotPermittedWithCurrentObligationOrders)
     else Inr ())"

definition remove_all_orders :: "obligation \<Rightarrow> obligation \<times> bool" where
  "remove_all_orders ob =
     (ob\<lparr> ob_obligation_orders := map (\<lambda>_. obligation_order_default) (ob_obligation_orders ob) \<rparr>,
      list_ex (\<lambda>ord. ord \<noteq> obligation_order_default) (ob_obligation_orders ob))"

section \<open>Orders that can be stored\<close>

declare condition_type_of_u8.simps [simp del] opportunity_type_of_u8.simps [simp del]

lemma default_order_types [simp]:
  "condition_type_of_u8 (oo_condition_type obligation_order_default) = Some Never"
  "opportunity_type_of_u8 (oo_opportunity_type obligation_order_default) = Some DeleverageSingleDebtAmount"
  by (simp_all add: obligation_order_default_def condition_type_of_u8.simps opportunity_type_of_u8.simps)

context num_lib begin

lemma validate_order_eq [res_simps]:
  "validate_order L ord = Inr () \<longleftrightarrow> ord = obligation_order_default \<or>
     (\<exists>c opp lo hi. condition_type_of_u8 (oo_condition_type ord) = Some c \<and> c \<noteq> Never \<and>
        validate_condition L ord c = Inr () \<and>
        opportunity_type_of_u8 (oo_opportunity_type ord) = Some opp \<and> validate_opportunity ord opp = Inr () \<and>
        execution_bonus_rate_range L ord = Inr (lo, hi) \<and> lo \<le> hi \<and> hi \<le> EXECUTION_BONUS_SANITY_LIMIT \<and>
        list_all (\<lambda>b. b = 0) (oo_padding1 ord) \<and> list_all (\<lambda>b. b = 0) (oo_padding2 ord))"
  (is "_ \<longleftrightarrow> _ \<or> ?ok")
proof (cases "ord = obligation_order_default")
  case True
  then show ?thesis by (simp add: validate_order_def validate_condition_def)
next
  case False
  have "validate_order L ord = Inr () \<longleftrightarrow> ?ok"
  proof (cases "condition_type_of_u8 (oo_condition_type ord) = Some Never")
    case True
    with False show ?thesis by (simp add: validate_order_def validate_condition_def fail_def)
  next
    case nv: False
    then show ?thesis
      by (auto simp: validate_order_def res_simps not_less list_ex_iff list_all_iff split: prod.splits if_splits)
  qed
  with False show ?thesis by simp
qed

lemma single_amount_param:
  assumes "validate_order L ord = Inr ()" "opportunity_type_of_u8 (oo_opportunity_type ord) = Some DeleverageSingleDebtAmount"
  shows "ord = obligation_order_default \<or> oo_opportunity_parameter_sf ord \<noteq> 0 \<and> oo_opportunity_parameter_sf ord \<noteq> - 1"
  using assms by (auto simp: res_simps validate_opportunity_def fail_def split: if_splits)

lemma repaid_eq: "fx_from_num L (ucast (a :: u64)) = Inr r \<longleftrightarrow> unat r = unat a * fx_scale"
  by (simp add: arith_simps)

lemma use_single_eq:
  "use_deleverage_single_debt_amount_opportunity L ord a =
     (if unat (oo_opportunity_parameter_sf ord) \<le> unat a * fx_scale then Inr obligation_order_default
      else Inr (ord\<lparr> oo_opportunity_parameter_sf :=
        of_nat (unat (oo_opportunity_parameter_sf ord) - unat a * fx_scale) \<rparr>))"
proof -
  obtain r where r: "fx_from_num L (ucast a) = Inr r" "unat r = unat a * fx_scale"
    using u64_scale_lt [of a] by (cases "fx_from_num L (ucast a)") (auto simp: arith_simps)
  let ?u = "fx_saturating_sub L (oo_opportunity_parameter_sf ord) r"
  have "?u = of_nat (unat (oo_opportunity_parameter_sf ord) - unat r)"
    by (metis unat_fx_saturating_sub of_nat_unat ucast_id)
  moreover have "?u = 0 \<longleftrightarrow> unat (oo_opportunity_parameter_sf ord) \<le> unat r"
    by (metis diff_is_0_eq unat_eq_0 unat_fx_saturating_sub)
  ultimately show ?thesis using r
    by (simp add: use_deleverage_single_debt_amount_opportunity_def)
qed

lemma consume_keeps_valid:
  assumes v: "validate_order L ord = Inr ()" and c: "order_consume L ord a = Inr ord'"
  shows "validate_order L ord' = Inr ()"
proof (cases "opportunity_type_of_u8 (oo_opportunity_type ord) = Some DeleverageSingleDebtAmount \<and> ord' \<noteq> ord")
  case True
  with c have o': "ord' = obligation_order_default \<or> ord' = ord\<lparr> oo_opportunity_parameter_sf :=
      of_nat (unat (oo_opportunity_parameter_sf ord) - unat a * fx_scale) \<rparr> \<and>
      \<not> unat (oo_opportunity_parameter_sf ord) \<le> unat a * fx_scale"
    by (auto simp: order_consume_def order_opportunity_type_def use_single_eq split: if_splits)
  show ?thesis
  proof (cases "ord' = obligation_order_default")
    case False
    define p where "p = oo_opportunity_parameter_sf ord"
    define q :: u128 where "q = of_nat (unat p - unat a * fx_scale)"
    have o': "ord' = ord\<lparr> oo_opportunity_parameter_sf := q \<rparr>" "unat a * fx_scale < unat p"
      using o' False by (auto simp: p_def q_def)
    have q: "unat q = unat p - unat a * fx_scale" unfolding q_def
      by (rule unat_of_nat_lt) (rule le_less_trans [OF diff_le_self unat_lt])
    have "ord \<noteq> obligation_order_default"
      using o'(2) by (auto simp: p_def obligation_order_default_def)
    with single_amount_param [OF v] True have p: "p \<noteq> - 1" by (auto simp: p_def)
    have "q \<noteq> 0" using q o'(2) by (metis diff_is_0_eq not_le unat_eq_0)
    moreover have "q \<noteq> - 1"
    proof
      assume "q = - 1"
      then have "unat (- 1 :: u128) \<le> unat p" using q by simp
      then have "- 1 \<le> p" by (simp only: word_le_nat_alt)
      with p show False by (metis antisym word_n1_ge)
    qed
    moreover from v \<open>ord \<noteq> _\<close> True obtain c lo hi where
      "condition_type_of_u8 (oo_condition_type ord) = Some c" "c \<noteq> Never" "validate_condition L ord c = Inr ()"
      "execution_bonus_rate_range L ord = Inr (lo, hi)" "lo \<le> hi" "hi \<le> EXECUTION_BONUS_SANITY_LIMIT"
      "list_all (\<lambda>b. b = 0) (oo_padding1 ord)" "list_all (\<lambda>b. b = 0) (oo_padding2 ord)"
      by (auto simp: res_simps)
    ultimately show ?thesis using True o'(1)
      by (cases c) (auto simp: res_simps validate_condition_def validate_opportunity_def
          execution_bonus_rate_range_def split: if_splits)
  qed (simp add: res_simps)
next
  case False
  with c have "ord' = ord"
    by (auto simp: order_consume_def res_simps order_opportunity_type_def split: opportunity_type.splits)
       (metis opportunity_type.exhaust)
  with v show ?thesis by simp
qed

end

section \<open>Histories of orders\<close>

text \<open>
  What happens to the orders of an obligation: the owner sets one, a liquidator who repaid uses one
  up, or a liquidation removes them all. The rest of the obligation changes in between.
\<close>

definition consume_order_at :: "numlib \<Rightarrow> obligation \<Rightarrow> nat \<Rightarrow> u64 \<Rightarrow> obligation res" where
  "consume_order_at L ob i debt_repay_amount =
     (if i < length (ob_obligation_orders ob)
      then rbind (order_consume L (ob_obligation_orders ob ! i) debt_repay_amount) (\<lambda>ord.
        Inr (ob\<lparr> ob_obligation_orders := (ob_obligation_orders ob)[i := ord] \<rparr>))
      else Inl Panic)"

inductive orders_reach :: "numlib \<Rightarrow> obligation \<Rightarrow> bool" for L where
  opened: "orders_reach L (obligation_init params)"
| set: "orders_reach L ob \<Longrightarrow> set_order_on_obligation L m ob index ord = Inr ob' \<Longrightarrow> orders_reach L ob'"
| used: "orders_reach L ob \<Longrightarrow> consume_order_at L ob i amount = Inr ob' \<Longrightarrow> orders_reach L ob'"
| removed: "orders_reach L ob \<Longrightarrow> orders_reach L (fst (remove_all_orders ob))"
| other: "orders_reach L ob \<Longrightarrow> ob_obligation_orders ob' = ob_obligation_orders ob \<Longrightarrow> orders_reach L ob'"

lemma orders_of_init: "ob_obligation_orders (obligation_init params) = replicate 2 obligation_order_default"
  by (simp add: obligation_init_def obligation_default_def)

context num_lib begin

lemma default_valid [simp]: "validate_order L obligation_order_default = Inr ()"
  by (simp add: res_simps)

lemma reached_orders_valid:
  "orders_reach L ob \<Longrightarrow> ord \<in> set (ob_obligation_orders ob) \<Longrightarrow> validate_order L ord = Inr ()"
proof (induction arbitrary: ord rule: orders_reach.induct)
  case (opened params)
  then show ?case by (auto simp: orders_of_init)
next
  case (set ob m index new ob')
  from set.hyps(2) have "validate_order L new = Inr ()"
    "ob_obligation_orders ob' = (ob_obligation_orders ob)[unat index := new]"
    by (auto simp: set_order_on_obligation_def rbind_eq_Inr fail_def split: if_splits)
  with set show ?case by (auto dest!: set_update_subset_insert [THEN subsetD])
next
  case (used ob i amount ob')
  then obtain o' where o': "i < length (ob_obligation_orders ob)"
    "order_consume L (ob_obligation_orders ob ! i) amount = Inr o'"
    "ob_obligation_orders ob' = (ob_obligation_orders ob)[i := o']"
    by (auto simp: consume_order_at_def rbind_eq_Inr split: if_splits)
  with used.IH [OF nth_mem] have "validate_order L o' = Inr ()" by (auto intro: consume_keeps_valid)
  with used o'(3) show ?case by (auto dest!: set_update_subset_insert [THEN subsetD])
qed (auto simp: remove_all_orders_def)

lemma bonus_range_of_order:
  obtains lo hi where "execution_bonus_rate_range L ord = Inr (lo, hi)"
    "unat lo = unat (oo_min_execution_bonus_bps ord) * fx_scale div 10000"
    "unat hi = unat (oo_max_execution_bonus_bps ord) * fx_scale div 10000"
proof -
  have "\<exists>f. from_bps L (ucast (b :: u16)) = Inr f \<and> unat f = unat b * fx_scale div 10000" for b
  proof -
    have "unat b * fx_scale < 2 ^ 16 * fx_scale" using unat_lt [of b] by simp
    then show ?thesis
      using from_bps_eq [of "ucast b" "of_nat (unat b * fx_scale div 10000)"]
      by (simp add: fx_scale_def unat_of_nat_lt less_mult_imp_div_less)
  qed
  from this [of "oo_min_execution_bonus_bps ord"] this [of "oo_max_execution_bonus_bps ord"]
  show thesis using that by (auto simp: execution_bonus_rate_range_def)
qed

lemma small_bonus:
  assumes "n * fx_scale div 10000 \<le> 115292150460684698"
  shows "n * fx_scale div 10000 * 10 \<le> fx_scale"
proof -
  have "n \<le> 1000"
  proof (rule ccontr)
    assume "\<not> n \<le> 1000"
    then have "1001 * fx_scale div 10000 \<le> n * fx_scale div 10000" by (intro div_le_mono mult_le_mono) auto
    with assms show False by (simp add: fx_scale_def)
  qed
  then have "n * fx_scale div 10000 \<le> 1000 * fx_scale div 10000" by (intro div_le_mono mult_le_mono) auto
  then show ?thesis by (simp add: fx_scale_def)
qed

lemma valid_order_shape:
  assumes "validate_order L ord = Inr ()"
  shows "\<exists>c opp lo hi. order_condition_type ord = Inr c \<and> order_opportunity_type ord = Inr opp \<and>
       execution_bonus_rate_range L ord = Inr (lo, hi) \<and> lo \<le> hi \<and> unat hi * 10 \<le> fx_scale \<and>
       (c = Always \<longrightarrow> lo = hi)"
proof (cases "ord = obligation_order_default")
  case True
  obtain lo hi where r: "execution_bonus_rate_range L ord = Inr (lo, hi)"
    "unat lo = unat (oo_min_execution_bonus_bps ord) * fx_scale div 10000"
    "unat hi = unat (oo_max_execution_bonus_bps ord) * fx_scale div 10000"
    by (rule bonus_range_of_order)
  have "oo_min_execution_bonus_bps ord = 0" "oo_max_execution_bonus_bps ord = 0"
    by (simp_all add: True obligation_order_default_def)
  with r show ?thesis
    by (simp add: True order_condition_type_def order_opportunity_type_def)
next
  case False
  with assms obtain c opp lo hi where o: "condition_type_of_u8 (oo_condition_type ord) = Some c"
    "validate_condition L ord c = Inr ()" "opportunity_type_of_u8 (oo_opportunity_type ord) = Some opp"
    "execution_bonus_rate_range L ord = Inr (lo, hi)" "lo \<le> hi" "hi \<le> EXECUTION_BONUS_SANITY_LIMIT"
    by (auto simp: res_simps)
  obtain hi' where "execution_bonus_rate_range L ord = Inr (lo, hi')"
    "unat hi' = unat (oo_max_execution_bonus_bps ord) * fx_scale div 10000"
    using o(4) by (auto intro: bonus_range_of_order [of ord])
  with o(4,6) have "unat hi * 10 \<le> fx_scale"
    using small_bonus by (simp add: EXECUTION_BONUS_SANITY_LIMIT_def word_le_nat_alt)
  moreover have "c = Always \<longrightarrow> lo = hi"
    using o(2,4) by (auto simp: validate_condition_def fail_def res_simps split: if_splits)
  ultimately show ?thesis using o by (auto simp: order_condition_type_def order_opportunity_type_def)
qed

end

section \<open>Properties\<close>

text \<open>
  C28. Whatever orders an owner sets, however they are used up and removed, the stored orders stay
  readable: their condition and opportunity decode, so that no later instruction panics on them,
  their bonus is at most the sanity limit of 10 percent, its minimum at most its maximum, and an
  unconditional order has a constant bonus. What is stored passes the validation again.
\<close>

theorem stored_orders_stay_valid:
  assumes "num_lib L" and "orders_reach L ob" and "ord \<in> set (ob_obligation_orders ob)"
  shows "validate_order L ord = Inr () \<and>
    (\<exists>c opp lo hi. order_condition_type ord = Inr c \<and> order_opportunity_type ord = Inr opp \<and>
       execution_bonus_rate_range L ord = Inr (lo, hi) \<and> lo \<le> hi \<and> unat hi * 10 \<le> fx_scale \<and>
       (c = Always \<longrightarrow> lo = hi))"
proof -
  have v: "validate_order L ord = Inr ()"
    by (rule num_lib.reached_orders_valid [OF assms])
  with num_lib.valid_order_shape [OF assms(1) v] show ?thesis by blast
qed

definition sample_order :: obligation_order where
  "sample_order = obligation_order_default\<lparr> oo_condition_type := 1, oo_opportunity_type := 0,
     oo_condition_threshold_sf := 2 ^ 59, oo_opportunity_parameter_sf := 100 * 2 ^ 60,
     oo_min_execution_bonus_bps := 10, oo_max_execution_bonus_bps := 500 \<rparr>"

definition sample_borrower :: obligation where
  "sample_borrower = obligation_default\<lparr> ob_borrows :=
     [obligation_liquidity_default\<lparr> ol_borrow_reserve := 3, ol_borrowed_amount_sf := 200 * 2 ^ 60 \<rparr>,
      obligation_liquidity_default, obligation_liquidity_default, obligation_liquidity_default,
      obligation_liquidity_default] \<rparr>"

theorem stored_orders_stay_valid_witness:
  "\<exists>ob :: obligation. sample_order \<in> set (ob_obligation_orders ob) \<and> validate_order std_lib sample_order = Inr ()"
proof -
  let ?params = "\<lparr> iop_current_slot = 1, iop_lending_market = 1, iop_owner = 5, iop_deposits = [],
     iop_borrows = ob_borrows sample_borrower, iop_tag = 0, iop_referrer = 0 \<rparr>"
  let ?m = "lending_market_default\<lparr> lm_obligation_order_creation_enabled := 1 \<rparr>"
  have "single_debt (obligation_init ?params) \<noteq> None"
    by (simp add: single_debt_def active_borrows_def obligation_init_def sample_borrower_def loan_is_active_def
        obligation_liquidity_default_def obligation_liquidity_new_def only_element_def)
  then have supported: "order_is_supported_by sample_order (obligation_init ?params) = Inr True"
    by (simp add: order_is_supported_by_def order_condition_type_def order_opportunity_type_def sample_order_def
        condition_type_of_u8.simps opportunity_type_of_u8.simps)
  have range: "execution_bonus_rate_range std_lib sample_order =
      Inr (of_nat (10 * 2 ^ 60 div 10000), of_nat (500 * 2 ^ 60 div 10000))"
    by (simp add: sample_order_def execution_bonus_rate_range_def from_bps_def std_eval)
  have types: "condition_type_of_u8 (oo_condition_type sample_order) = Some UserLtvAbove"
    "opportunity_type_of_u8 (oo_opportunity_type sample_order) = Some DeleverageSingleDebtAmount"
    by (simp_all add: sample_order_def condition_type_of_u8.simps opportunity_type_of_u8.simps)
  have "validate_condition std_lib sample_order UserLtvAbove = Inr ()"
    "validate_opportunity sample_order DeleverageSingleDebtAmount = Inr ()"
    "list_all (\<lambda>b. b = 0) (oo_padding1 sample_order)" "list_all (\<lambda>b. b = 0) (oo_padding2 sample_order)"
    by (simp_all add: validate_condition_def validate_opportunity_def sample_order_def valid_user_ltv_def
        MIN_VALID_USER_LTV_def fx_one_def obligation_order_default_def list_all_iff)
  with types range have "validate_order std_lib sample_order = Inr ()"
    by (simp add: std.validate_order_eq EXECUTION_BONUS_SANITY_LIMIT_def)
  with supported obtain ob where ob: "set_order_on_obligation std_lib ?m (obligation_init ?params) 1 sample_order = Inr ob"
    "ob_obligation_orders ob = [obligation_order_default, sample_order]"
    by (simp add: set_order_on_obligation_def orders_of_init is_obligation_order_creation_enabled_def numeral_2_eq_2)
  then have "orders_reach std_lib ob" "sample_order \<in> set (ob_obligation_orders ob)"
    by (auto intro: orders_reach.set [OF orders_reach.opened])
  from stored_orders_stay_valid [OF std.num_lib_axioms this] have "validate_order std_lib sample_order = Inr ()" ..
  with ob(2) show ?thesis by (intro exI [of _ ob]) simp
qed

fun consume_all :: "numlib \<Rightarrow> obligation_order \<Rightarrow> u64 list \<Rightarrow> obligation_order res" where
  "consume_all L ord [] = Inr ord"
| "consume_all L ord (a # amounts) = rbind (order_consume L ord a) (\<lambda>ord. consume_all L ord amounts)"

context num_lib begin

lemma consume_single:
  assumes "opportunity_type_of_u8 (oo_opportunity_type ord) = Some DeleverageSingleDebtAmount"
  shows "order_consume L ord a =
     (if unat (oo_opportunity_parameter_sf ord) \<le> unat a * fx_scale then Inr obligation_order_default
      else Inr (ord\<lparr> oo_opportunity_parameter_sf :=
        of_nat (unat (oo_opportunity_parameter_sf ord) - unat a * fx_scale) \<rparr>))"
  using assms by (simp add: order_consume_def order_opportunity_type_def use_single_eq)

lemma consume_default: "consume_all L obligation_order_default amounts = Inr obligation_order_default"
  by (induction amounts) (simp_all add: consume_single, simp add: obligation_order_default_def)

lemma consume_all_single:
  assumes "opportunity_type_of_u8 (oo_opportunity_type ord) = Some DeleverageSingleDebtAmount"
    "oo_opportunity_parameter_sf ord \<noteq> 0"
  shows "consume_all L ord amounts =
     (let repaid = sum_list (map unat amounts) * fx_scale; size = unat (oo_opportunity_parameter_sf ord)
      in if size \<le> repaid then Inr obligation_order_default
         else Inr (ord\<lparr> oo_opportunity_parameter_sf := of_nat (size - repaid) \<rparr>))"
  using assms
proof (induction amounts arbitrary: ord)
  case Nil
  then show ?case by simp
next
  case (Cons a amounts)
  let ?p = "unat (oo_opportunity_parameter_sf ord)"
  show ?case
  proof (cases "?p \<le> unat a * fx_scale")
    case True
    then have "?p \<le> (unat a + sum_list (map unat amounts)) * fx_scale" by (simp add: add_mult_distrib)
    with True Cons.prems show ?thesis by (simp add: consume_single consume_default Let_def)
  next
    case False
    define q :: u128 where "q = of_nat (?p - unat a * fx_scale)"
    have q: "unat q = ?p - unat a * fx_scale" unfolding q_def
      by (rule unat_of_nat_lt) (rule le_less_trans [OF diff_le_self unat_lt])
    with False have "q \<noteq> 0" by (metis diff_is_0_eq unat_eq_0)
    then have "consume_all L (ord\<lparr> oo_opportunity_parameter_sf := q \<rparr>) amounts =
       (let repaid = sum_list (map unat amounts) * fx_scale
        in if unat q \<le> repaid then Inr obligation_order_default
           else Inr (ord\<lparr> oo_opportunity_parameter_sf := of_nat (unat q - repaid) \<rparr>))"
      using Cons.IH [of "ord\<lparr> oo_opportunity_parameter_sf := q \<rparr>"] Cons.prems(1) by (simp add: Let_def)
    with False Cons.prems(1) show ?thesis
      by (simp add: consume_single Let_def q flip: q_def)
         (auto simp: add_mult_distrib distrib_right le_diff_conv add.commute diff_diff_eq)
  qed
qed

end

text \<open>
  C30. An order to repay an amount of the single debt is used up exactly: after liquidators repaid
  any amounts, it allows what is left of its amount, and it is cleared once they repaid all of it.
  Using an order up never fails.
\<close>

theorem order_amount_used_up_exactly:
  assumes "num_lib L"
    and "order_opportunity_type ord = Inr DeleverageSingleDebtAmount"
    and "oo_opportunity_parameter_sf ord \<noteq> 0"
  shows "consume_all L ord amounts =
     (let repaid = sum_list (map unat amounts) * fx_scale; size = unat (oo_opportunity_parameter_sf ord)
      in if size \<le> repaid then Inr obligation_order_default
         else Inr (ord\<lparr> oo_opportunity_parameter_sf := of_nat (size - repaid) \<rparr>))"
  using num_lib.consume_all_single [OF assms(1) _ assms(3)] assms(2)
  by (simp add: order_opportunity_type_def res_simps)

theorem order_amount_used_up_exactly_witness:
  "consume_all std_lib sample_order [30, 50] =
     Inr (sample_order\<lparr> oo_opportunity_parameter_sf := 20 * 2 ^ 60 \<rparr>) \<and>
   consume_all std_lib sample_order [30, 50, 20] = Inr obligation_order_default"
proof -
  have o: "order_opportunity_type sample_order = Inr DeleverageSingleDebtAmount"
    "oo_opportunity_parameter_sf sample_order \<noteq> 0"
    by (simp_all add: sample_order_def order_opportunity_type_def opportunity_type_of_u8.simps)
  from order_amount_used_up_exactly [OF std.num_lib_axioms o, of "[30, 50]"]
    order_amount_used_up_exactly [OF std.num_lib_axioms o, of "[30, 50, 20]"]
  show ?thesis by (simp add: sample_order_def fx_scale_def)
qed

end
