(* ===== verification/Liquidation.thy ===== *)
theory Liquidation imports Obligation_Orders Reserve begin

text \<open>
  Liquidations (\<open>state/liquidation_operations.rs\<close>, with the types of \<open>state/types.rs\<close>): when an
  obligation may be liquidated and why, the bonus the liquidator gets, how much debt is repaid and
  how much collateral is withdrawn for it, and the protocol's share. Log lines are left out.
\<close>

section \<open>Types\<close>

datatype liquidation_reason =
    LtvExceeded
  | IndividualDeleveraging
  | MarketWideDeleveraging
  | ObligationOrder nat
  | ReserveDebtMaturityReached
  | ObligationBorrowDebtTermReached u64

record liquidation_params =
  lp_liquidation_bonus_rate :: frac
  lp_liquidation_reason :: liquidation_reason

record liquidation_check_inputs =
  ci_lending_market :: lending_market
  ci_collateral_reserve :: reserve
  ci_liquidity :: obligation_liquidity
  ci_debt_reserve :: reserve
  ci_obligation :: obligation
  ci_timestamp :: u64
  ci_max_allowed_ltv_override_pct_opt :: "u64 option"

record calculate_liquidation_result =
  lr_settle_amount :: frac
  lr_repay_amount :: u64
  lr_withdraw_amount :: u64
  lr_liquidation_bonus_rate :: frac
  lr_liquidation_reason :: liquidation_reason

definition DUST_LAMPORT_THRESHOLD :: u64 where "DUST_LAMPORT_THRESHOLD = 1"

text \<open>The order between a fraction and an integer, as the crate compares them.\<close>

definition frac_less_int :: "frac \<Rightarrow> u64 \<Rightarrow> bool" where
  "frac_less_int f n \<longleftrightarrow> unat f < unat n * fx_scale"

text \<open>\<open>or_else\<close> on options: the second check only runs when the first found nothing.\<close>

definition or_else :: "'a option res \<Rightarrow> 'a option res \<Rightarrow> 'a option res" where
  "or_else first_check second_check =
     rbind first_check (\<lambda>x. case x of None \<Rightarrow> second_check | Some a \<Rightarrow> Inr (Some a))"

section \<open>Bonuses\<close>

definition get_emode_max_liquidation_bonus ::
  "lending_market \<Rightarrow> reserve_config \<Rightarrow> reserve_config \<Rightarrow> obligation \<Rightarrow> u16 res" where
  "get_emode_max_liquidation_bonus m collateral_config debt_config ob =
     (if ob_elevation_group ob \<noteq> ELEVATION_GROUP_NONE \<and>
         ob_elevation_group ob \<in> set (cfg_elevation_groups collateral_config) \<and>
         ob_elevation_group ob \<in> set (cfg_elevation_groups debt_config)
      then rbind (unwrap (get_elevation_group m (ob_elevation_group ob))) (\<lambda>g.
        rbind (ok_or g Panic) (\<lambda>group.
        let b = eg_max_liquidation_bonus_bps group
        in Inr (if b > max_liquidation_bonus_bps collateral_config \<or>
             b > max_liquidation_bonus_bps debt_config \<or> b = 0 then - 1 else b)))
      else Inr (- 1))"

definition FRACTION_0_99 :: frac where "FRACTION_0_99 = 1141392289560778506"

definition calculate_liquidation_bonus ::
  "numlib \<Rightarrow> reserve_config \<Rightarrow> reserve_config \<Rightarrow> frac \<Rightarrow> frac \<Rightarrow> frac \<Rightarrow> u16 \<Rightarrow> frac res" where
  "calculate_liquidation_bonus L cc dc max_allowed_ltv user_ltv user_no_bf_ltv emode_max_bonus_bps =
     (let bad_debt_ltv = fx_one
      in if user_no_bf_ltv \<ge> FRACTION_0_99
         then rbind (from_bps L (ucast (min (bad_debt_liquidation_bonus_bps cc)
                                            (bad_debt_liquidation_bonus_bps dc)))) (\<lambda>bonus_bad_debt.
           if user_no_bf_ltv < bad_debt_ltv
           then rbind (fx_sub L bad_debt_ltv user_no_bf_ltv) (\<lambda>diff_to_bad_debt.
             Inr (max bonus_bad_debt diff_to_bad_debt))
           else Inr bonus_bad_debt)
         else rbind (fx_sub L user_ltv max_allowed_ltv) (\<lambda>unhealthy_factor.
           rbind (from_bps L (ucast (min (max (max_liquidation_bonus_bps cc) (max_liquidation_bonus_bps dc))
                                         emode_max_bonus_bps))) (\<lambda>max_bonus.
           rbind (from_bps L (ucast (max (min_liquidation_bonus_bps cc)
                                         (min_liquidation_bonus_bps dc)))) (\<lambda>min_reserve_bonus.
           let min_bonus = max min_reserve_bonus unhealthy_factor;
               collared_bonus = min min_bonus max_bonus
           in rbind (fx_sub L bad_debt_ltv user_no_bf_ltv) (\<lambda>diff_to_bad_debt.
              Inr (min collared_bonus diff_to_bad_debt))))))"

definition calculate_autodeleverage_bonus_rate ::
  "numlib \<Rightarrow> u16 \<Rightarrow> u64 \<Rightarrow> u16 \<Rightarrow> u16 \<Rightarrow> frac \<Rightarrow> frac \<Rightarrow> frac res" where
  "calculate_autodeleverage_bonus_rate L min_bonus_bps increase_bps_per_day max_bonus_bps
     emode_max_bonus_bps days_since_deleveraging_started user_no_bf_ltv =
     rbind (from_bps L (ucast min_bonus_bps)) (\<lambda>configured_min_bonus_rate.
     rbind (from_bps L (ucast increase_bps_per_day)) (\<lambda>daily_bonus_increase.
     rbind (fx_mul L daily_bonus_increase days_since_deleveraging_started) (\<lambda>increase.
     rbind (fx_add L configured_min_bonus_rate increase) (\<lambda>liquidation_bonus_rate.
     rbind (from_bps L (ucast (min max_bonus_bps emode_max_bonus_bps))) (\<lambda>configured_max_bonus_rate.
     let effective_max = min configured_max_bonus_rate (fx_saturating_sub L fx_one user_no_bf_ltv)
     in Inr (if liquidation_bonus_rate > effective_max then effective_max
             else liquidation_bonus_rate))))))"

text \<open>\<open>max_by_key\<close> keeps the last of equal maxima, here the debt reserve.\<close>

definition bonus_key_le :: "reserve_config \<Rightarrow> reserve_config \<Rightarrow> bool" where
  "bonus_key_le a b \<longleftrightarrow>
     max_liquidation_bonus_bps a < max_liquidation_bonus_bps b \<or>
     max_liquidation_bonus_bps a = max_liquidation_bonus_bps b \<and>
      (deleveraging_bonus_increase_bps_per_day a < deleveraging_bonus_increase_bps_per_day b \<or>
       deleveraging_bonus_increase_bps_per_day a = deleveraging_bonus_increase_bps_per_day b \<and>
       min_deleveraging_bonus_bps a \<le> min_deleveraging_bonus_bps b)"

definition calculate_autodeleverage_bonus_rate_from_coll_and_debt_reserves ::
  "numlib \<Rightarrow> lending_market \<Rightarrow> reserve \<Rightarrow> reserve \<Rightarrow> obligation \<Rightarrow> frac \<Rightarrow> frac res" where
  "calculate_autodeleverage_bonus_rate_from_coll_and_debt_reserves L m cr dr ob days =
     (let cc = rsv_config cr; dc = rsv_config dr; sel = (if bonus_key_le cc dc then dc else cc)
      in rbind (get_emode_max_liquidation_bonus m cc dc ob) (\<lambda>emode_max.
         rbind (no_bf_loan_to_value L ob) (\<lambda>no_bf_ltv.
         calculate_autodeleverage_bonus_rate L (min_deleveraging_bonus_bps sel)
           (deleveraging_bonus_increase_bps_per_day sel) (max_liquidation_bonus_bps sel)
           emode_max days no_bf_ltv)))"

definition calculate_autodeleverage_threshold :: "numlib \<Rightarrow> reserve \<Rightarrow> frac \<Rightarrow> frac res" where
  "calculate_autodeleverage_threshold L r days =
     rbind (from_bps L (ucast (deleveraging_threshold_decrease_bps_per_day (rsv_config r)))) (\<lambda>daily.
     rbind (fx_mul L daily days) (\<lambda>reduction. Inr (fx_saturating_sub L fx_one reduction)))"

definition interpolate_bonus_rate :: "numlib \<Rightarrow> frac \<Rightarrow> frac \<times> frac \<Rightarrow> frac res" where
  "interpolate_bonus_rate L normalized_distance bonus_range =
     rbind (fx_sub L (snd bonus_range) (fst bonus_range)) (\<lambda>width.
     rbind (fx_mul L normalized_distance width) (\<lambda>part.
     fx_add L (fst bonus_range) part))"

definition get_constant_bonus_rate :: "numlib \<Rightarrow> obligation_order \<Rightarrow> frac res" where
  "get_constant_bonus_rate L ord =
     rbind (execution_bonus_rate_range L ord) (\<lambda>(lo, hi). if hi \<noteq> lo then Inl Panic else Inr lo)"

definition calculate_order_execution_bonus_rate ::
  "numlib \<Rightarrow> obligation_order \<Rightarrow> condition_hit \<Rightarrow> frac \<Rightarrow> frac res" where
  "calculate_order_execution_bonus_rate L ord hit user_no_bf_ltv =
     rbind (case normalized_distance_from_threshold hit of
         Some d \<Rightarrow> rbind (execution_bonus_rate_range L ord) (interpolate_bonus_rate L d)
       | None \<Rightarrow> get_constant_bonus_rate L ord) (\<lambda>theoretic_bonus_rate.
     let diff_to_bad_debt = fx_saturating_sub L fx_one user_no_bf_ltv
     in Inr (if theoretic_bonus_rate > diff_to_bad_debt then diff_to_bad_debt else theoretic_bonus_rate))"

definition calculate_protocol_liquidation_fee :: "numlib \<Rightarrow> u64 \<Rightarrow> frac \<Rightarrow> u8 \<Rightarrow> u64 res" where
  "calculate_protocol_liquidation_fee L amount_liquidated liquidation_bonus_rate fee_pct =
     rbind (from_percent L (ucast fee_pct)) (\<lambda>protocol_fee_rate.
     rbind (frac_of_u64 L amount_liquidated) (\<lambda>amount.
     rbind (fx_add L liquidation_bonus_rate fx_one) (\<lambda>bonus_multiplier.
     rbind (fx_div L amount bonus_multiplier) (\<lambda>without_bonus.
     rbind (fx_sub L amount without_bonus) (\<lambda>bonus.
     rbind (fx_mul L bonus protocol_fee_rate) (\<lambda>protocol_fee.
     rbind (to_ceil L protocol_fee) (\<lambda>fee. Inr (max fee 1))))))))"

section \<open>Reasons\<close>

definition get_secs_since_deleveraging_started :: "u64 \<Rightarrow> u64 \<Rightarrow> u64 option" where
  "get_secs_since_deleveraging_started margin_call_period_secs secs_since_margin_call_started =
     checked_sub secs_since_margin_call_started margin_call_period_secs"

definition get_secs_since_collateral_deposit_limit_crossed ::
  "numlib \<Rightarrow> reserve \<Rightarrow> u64 \<Rightarrow> u64 option res" where
  "get_secs_since_collateral_deposit_limit_crossed L r timestamp =
     rbind (deposit_limit_crossed L r) (\<lambda>crossed.
     Inr (if crossed then
       (if deposit_limit_crossed_timestamp (rsv_liquidity r) = 0 then None
        else get_secs_since_deleveraging_started (deleveraging_margin_call_period_secs (rsv_config r))
          (saturating_sub timestamp (deposit_limit_crossed_timestamp (rsv_liquidity r))))
      else None))"

definition get_secs_since_debt_borrow_limit_crossed ::
  "numlib \<Rightarrow> reserve \<Rightarrow> u64 \<Rightarrow> u64 option res" where
  "get_secs_since_debt_borrow_limit_crossed L r timestamp =
     rbind (borrow_limit_crossed L r) (\<lambda>crossed.
     Inr (if crossed then
       (if borrow_limit_crossed_timestamp (rsv_liquidity r) = 0 then None
        else get_secs_since_deleveraging_started (deleveraging_margin_call_period_secs (rsv_config r))
          (saturating_sub timestamp (borrow_limit_crossed_timestamp (rsv_liquidity r))))
      else None))"

definition params_for :: "liquidation_reason \<Rightarrow> frac res \<Rightarrow> liquidation_params option res" where
  "params_for reason bonus = rbind bonus (\<lambda>b.
     Inr (Some \<lparr> lp_liquidation_bonus_rate = b, lp_liquidation_reason = reason \<rparr>))"

definition check_liquidate_obligation ::
  "numlib \<Rightarrow> liquidation_check_inputs \<Rightarrow> liquidation_params option res" where
  "check_liquidate_obligation L ci =
     (let ob = ci_obligation ci; m = ci_lending_market ci;
          cc = rsv_config (ci_collateral_reserve ci); dc = rsv_config (ci_debt_reserve ci)
      in rbind (loan_to_value L ob) (\<lambda>user_ltv.
         rbind (no_bf_loan_to_value L ob) (\<lambda>user_no_bf_ltv.
         rbind (unhealthy_loan_to_value L ob) (\<lambda>max_allowed_ltv_user.
         rbind (case ci_max_allowed_ltv_override_pct_opt ci of
             None \<Rightarrow> Inr max_allowed_ltv_user
           | Some pct \<Rightarrow> from_percent L (ucast pct)) (\<lambda>max_allowed_ltv.
         if user_ltv < max_allowed_ltv then Inr None
         else if is_price_triggered_liquidation_disabled m then Inr None
         else rbind (get_emode_max_liquidation_bonus m cc dc ob) (\<lambda>emode_max_bps.
           params_for LtvExceeded (calculate_liquidation_bonus L cc dc max_allowed_ltv user_ltv
             user_no_bf_ltv emode_max_bps)))))))"

definition check_individual_autodeleverage_obligation ::
  "numlib \<Rightarrow> liquidation_check_inputs \<Rightarrow> liquidation_params option res" where
  "check_individual_autodeleverage_obligation L ci =
     (let ob = ci_obligation ci; m = ci_lending_market ci
      in if \<not> is_marked_for_deleveraging ob then Inr None
         else if \<not> Lending_Market.is_autodeleverage_enabled m then Inr None
         else if lm_individual_autodeleverage_margin_call_period_secs m = 0 then Inr None
         else rbind (loan_to_value L ob) (\<lambda>user_ltv.
           rbind (from_percent L (ucast (ob_autodeleverage_target_ltv_pct ob))) (\<lambda>target_ltv.
           if user_ltv \<le> target_ltv then Inr None
           else case get_secs_since_deleveraging_started
               (lm_individual_autodeleverage_margin_call_period_secs m)
               (saturating_sub (ci_timestamp ci) (ob_autodeleverage_margin_call_started_timestamp ob)) of
             None \<Rightarrow> Inr None
           | Some secs \<Rightarrow> rbind (to_days_fractional L secs) (\<lambda>days.
               params_for IndividualDeleveraging
                 (calculate_autodeleverage_bonus_rate_from_coll_and_debt_reserves L m
                   (ci_collateral_reserve ci) (ci_debt_reserve ci) ob days)))))"

definition get_autodeleverage_liquidation_params ::
  "numlib \<Rightarrow> reserve \<Rightarrow> obligation \<Rightarrow> u64 \<Rightarrow> liquidation_params option res" where
  "get_autodeleverage_liquidation_params L r ob secs =
     rbind (to_days_fractional L secs) (\<lambda>days.
     rbind (calculate_autodeleverage_threshold L r days) (\<lambda>threshold.
     rbind (loan_to_value L ob) (\<lambda>user_ltv.
     if user_ltv \<ge> threshold
     then rbind (no_bf_loan_to_value L ob) (\<lambda>no_bf_ltv.
       params_for MarketWideDeleveraging (calculate_autodeleverage_bonus_rate L
         (min_deleveraging_bonus_bps (rsv_config r)) (deleveraging_bonus_increase_bps_per_day (rsv_config r))
         (max_liquidation_bonus_bps (rsv_config r)) (- 1) days no_bf_ltv))
     else Inr None)))"

definition deleverage_if_crossed ::
  "numlib \<Rightarrow> reserve \<Rightarrow> obligation \<Rightarrow> u64 option res \<Rightarrow> liquidation_params option res" where
  "deleverage_if_crossed L r ob crossed =
     (if Reserve_Config.is_autodeleverage_enabled (rsv_config r)
      then rbind crossed (\<lambda>s. case s of None \<Rightarrow> Inr None
        | Some secs \<Rightarrow> get_autodeleverage_liquidation_params L r ob secs)
      else Inr None)"

definition check_market_wide_autodeleverage_obligation ::
  "numlib \<Rightarrow> liquidation_check_inputs \<Rightarrow> liquidation_params option res" where
  "check_market_wide_autodeleverage_obligation L ci =
     (let ob = ci_obligation ci; cr = ci_collateral_reserve ci; dr = ci_debt_reserve ci
      in if \<not> Lending_Market.is_autodeleverage_enabled (ci_lending_market ci) then Inr None
         else or_else
           (deleverage_if_crossed L cr ob
              (get_secs_since_collateral_deposit_limit_crossed L cr (ci_timestamp ci)))
           (deleverage_if_crossed L dr ob
              (get_secs_since_debt_borrow_limit_crossed L dr (ci_timestamp ci))))"

definition check_reserve_debt_maturity_reached ::
  "numlib \<Rightarrow> liquidation_check_inputs \<Rightarrow> liquidation_params option res" where
  "check_reserve_debt_maturity_reached L ci =
     (let dc = rsv_config (ci_debt_reserve ci)
      in case get_secs_since_debt_maturity_reached dc (ci_timestamp ci) of
           None \<Rightarrow> Inr None
         | Some secs \<Rightarrow>
             if \<not> is_mature_reserve_debt_liquidation_enabled (ci_lending_market ci) then Inr None
             else rbind (to_days_fractional L secs) (\<lambda>days.
               rbind (no_bf_loan_to_value L (ci_obligation ci)) (\<lambda>no_bf_ltv.
               params_for ReserveDebtMaturityReached (calculate_autodeleverage_bonus_rate L
                 (min_deleveraging_bonus_bps dc) (deleveraging_bonus_increase_bps_per_day dc)
                 (max_liquidation_bonus_bps dc) (- 1) days no_bf_ltv))))"

definition check_borrow_reserve_debt_term_reached ::
  "numlib \<Rightarrow> liquidation_check_inputs \<Rightarrow> liquidation_params option res" where
  "check_borrow_reserve_debt_term_reached L ci =
     rbind (get_secs_since_reserve_debt_term_end (ci_liquidity ci) (rsv_config (ci_debt_reserve ci))
         (ci_timestamp ci)) (\<lambda>s. case s of
       None \<Rightarrow> Inr None
     | Some secs \<Rightarrow>
         if \<not> is_obligation_borrow_debt_term_liquidation_enabled (ci_lending_market ci) then Inr None
         else rbind (to_days_fractional L secs) (\<lambda>days.
           params_for (ObligationBorrowDebtTermReached secs)
             (calculate_autodeleverage_bonus_rate_from_coll_and_debt_reserves L (ci_lending_market ci)
               (ci_collateral_reserve ci) (ci_debt_reserve ci) (ci_obligation ci) days)))"

definition check_obligation_order_execution ::
  "numlib \<Rightarrow> liquidation_check_inputs \<Rightarrow> liquidation_params option res" where
  "check_obligation_order_execution L ci =
     (let ob = ci_obligation ci; m = ci_lending_market ci
      in rbind (find_applicable_obligation_order L (ci_collateral_reserve ci) (ci_debt_reserve ci) ob
           (is_price_triggered_liquidation_disabled m)) (\<lambda>found. case found of
         None \<Rightarrow> Inr None
       | Some (order_index, hit) \<Rightarrow>
           if \<not> is_obligation_order_execution_enabled m then Inr None
           else rbind (no_bf_loan_to_value L ob) (\<lambda>no_bf_ltv.
             params_for (ObligationOrder order_index)
               (calculate_order_execution_bonus_rate L (ob_obligation_orders ob ! order_index) hit no_bf_ltv))))"

fun needs_lowest_ltv_collateral :: "liquidation_reason \<Rightarrow> bool" where
  "needs_lowest_ltv_collateral IndividualDeleveraging = False"
| "needs_lowest_ltv_collateral MarketWideDeleveraging = False"
| "needs_lowest_ltv_collateral _ = True"

definition get_liquidation_params ::
  "numlib \<Rightarrow> liquidation_check_inputs \<Rightarrow> bool \<Rightarrow> bool \<Rightarrow> liquidation_params res" where
  "get_liquidation_params L ci is_debt_reserve_highest_borrow_factor
     is_collateral_reserve_lowest_liquidation_ltv =
     rbind (or_else (check_liquidate_obligation L ci)
           (or_else (check_individual_autodeleverage_obligation L ci)
           (or_else (check_market_wide_autodeleverage_obligation L ci)
           (or_else (check_reserve_debt_maturity_reached L ci)
           (or_else (check_borrow_reserve_debt_term_reached L ci)
           (check_obligation_order_execution L ci)))))) (\<lambda>found.
     rbind (ok_or found (LendingErr ObligationHealthy)) (\<lambda>params.
     if lp_liquidation_reason params = LtvExceeded \<and> \<not> is_debt_reserve_highest_borrow_factor
     then fail LiquidationBorrowFactorPriority
     else if needs_lowest_ltv_collateral (lp_liquidation_reason params) \<and>
         \<not> is_collateral_reserve_lowest_liquidation_ltv
     then fail LiquidationLowestLiquidationLtvPriority
     else Inr params))"

section \<open>Amounts\<close>

definition max_liquidatable_borrowed_amount ::
  "numlib \<Rightarrow> lending_market \<Rightarrow> obligation \<Rightarrow> obligation_liquidity \<Rightarrow> liquidation_reason \<Rightarrow> frac res" where
  "max_liquidatable_borrowed_amount L m ob l reason = (case reason of
     ObligationOrder i \<Rightarrow>
       if i \<ge> length (ob_obligation_orders ob) then Inl Panic
       else let ord = ob_obligation_orders ob ! i
         in rbind (order_opportunity_type ord) (\<lambda>opp.
            let size = (case opp of DeleverageSingleDebtAmount \<Rightarrow> oo_opportunity_parameter_sf ord
                                  | DeleverageAllDebt \<Rightarrow> - 1)
            in Inr (min size (ol_borrowed_amount_sf l)))
   | ReserveDebtMaturityReached \<Rightarrow> Inr (ol_borrowed_amount_sf l)
   | ObligationBorrowDebtTermReached secs_since_debt_term_end \<Rightarrow>
       rbind (case get_term_based_full_liquidation_duration_secs m of
           None \<Rightarrow> Inr 0
         | Some full_liquidation_duration_secs \<Rightarrow>
             rbind (borrowed_amount_at_expiration L l) (\<lambda>at_expiration.
             full_mul_int_ratio L at_expiration
               (ucast (saturating_sub full_liquidation_duration_secs secs_since_debt_term_end))
               (ucast full_liquidation_duration_secs))) (\<lambda>throttle_protected_amount.
       Inr (fx_saturating_sub L (ol_borrowed_amount_sf l) throttle_protected_amount))
   | _ \<Rightarrow>
       rbind (loan_to_value L ob) (\<lambda>ltv.
       rbind (get_insolvency_risk_unhealthy_ltv L m) (\<lambda>risky_ltv.
       rbind (if ltv > risky_ltv then Inr fx_one
              else get_liquidation_max_debt_close_factor L m) (\<lambda>close_factor.
       rbind (fx_mul L (ob_borrowed_assets_market_value_sf ob) close_factor) (\<lambda>calculated_mv.
       rbind (get_max_liquidatable_debt_market_value_at_once L m) (\<lambda>max_at_once.
       let max_liquidatable_mv = min (min calculated_mv (ol_market_value_sf l)) max_at_once
       in rbind (fx_div L max_liquidatable_mv (ol_market_value_sf l)) (\<lambda>max_liquidation_ratio.
          fx_mul L (ol_borrowed_amount_sf l) max_liquidation_ratio)))))))"

definition calculate_liquidation_amounts ::
  "numlib \<Rightarrow> frac \<Rightarrow> obligation_collateral \<Rightarrow> frac \<Rightarrow> bool \<Rightarrow> (frac \<times> u64 \<times> u64) res" where
  "calculate_liquidation_amounts L total_value_including_bonus c debt_liquidation_amount below_min =
     (let collateral_value = oc_market_value_sf c
      in if total_value_including_bonus > collateral_value then
           rbind (fx_div L collateral_value total_value_including_bonus) (\<lambda>repay_ratio.
           rbind (fx_mul L debt_liquidation_amount repay_ratio) (\<lambda>repay_amount_f.
           let settle_amount = (if below_min then debt_liquidation_amount else repay_amount_f)
           in rbind (to_ceil L settle_amount) (\<lambda>repay_amount.
              Inr (settle_amount, repay_amount, oc_deposited_amount c))))
         else if total_value_including_bonus = collateral_value then
           rbind (to_ceil L debt_liquidation_amount) (\<lambda>repay_amount.
           Inr (debt_liquidation_amount, repay_amount, oc_deposited_amount c))
         else
           rbind (to_ceil L debt_liquidation_amount) (\<lambda>repay_amount.
           rbind (fx_div L total_value_including_bonus collateral_value) (\<lambda>withdraw_pct.
           rbind (fx_from_num L (ucast (oc_deposited_amount c))) (\<lambda>deposited.
           rbind (fx_mul L deposited withdraw_pct) (\<lambda>withdraw_amount_f.
           rbind (if below_min \<and> frac_less_int withdraw_amount_f DUST_LAMPORT_THRESHOLD
                  then Inr DUST_LAMPORT_THRESHOLD
                  else to_floor L withdraw_amount_f) (\<lambda>withdraw_amount.
           Inr (debt_liquidation_amount, repay_amount, withdraw_amount)))))))"

fun is_order_reason :: "liquidation_reason \<Rightarrow> bool" where
  "is_order_reason (ObligationOrder i) = True"
| "is_order_reason _ = False"

definition calculate_liquidation ::
  "numlib \<Rightarrow> liquidation_check_inputs \<Rightarrow> u64 \<Rightarrow> obligation_collateral \<Rightarrow> bool \<Rightarrow> bool \<Rightarrow>
   calculate_liquidation_result res" where
  "calculate_liquidation L ci debt_amount_to_liquidate collateral is_highest_bf is_lowest_ltv =
     (let m = ci_lending_market ci; l = ci_liquidity ci; borrowed_amount = ol_borrowed_amount_sf l
      in rbind (get_liquidation_params L ci is_highest_bf is_lowest_ltv) (\<lambda>params.
         rbind (fx_add L (lp_liquidation_bonus_rate params) fx_one) (\<lambda>bonus_multiplier.
         rbind (fx_from_num L (ucast debt_amount_to_liquidate)) (\<lambda>requested.
         let debt_amount = min requested borrowed_amount;
             below_min = (\<not> is_order_reason (lp_liquidation_reason params) \<and>
               frac_less_int (ol_market_value_sf l) (lm_min_full_liquidation_value_threshold m))
         in rbind (if below_min
               then if debt_amount < borrowed_amount then fail RepayTooSmallForFullLiquidation
                    else Inr borrowed_amount
               else rbind (max_liquidatable_borrowed_amount L m (ci_obligation ci) l
                   (lp_liquidation_reason params)) (\<lambda>max_amount. Inr (min max_amount debt_amount)))
              (\<lambda>debt_liquidation_amount.
            rbind (fx_div L debt_liquidation_amount borrowed_amount) (\<lambda>liquidation_ratio.
            rbind (fx_mul L (ol_market_value_sf l) liquidation_ratio) (\<lambda>value_part.
            rbind (fx_mul L value_part bonus_multiplier) (\<lambda>total_value_including_bonus.
            rbind (calculate_liquidation_amounts L total_value_including_bonus collateral
                debt_liquidation_amount below_min) (\<lambda>(settle_amount, repay_amount, withdraw_amount).
            Inr \<lparr> lr_settle_amount = settle_amount, lr_repay_amount = repay_amount,
                  lr_withdraw_amount = withdraw_amount,
                  lr_liquidation_bonus_rate = lp_liquidation_bonus_rate params,
                  lr_liquidation_reason = lp_liquidation_reason params \<rparr>)))))))))"

end
