(* ===== verification/Liquidation_Safety.thy ===== *)
theory Liquidation_Safety imports Liquidation begin

text \<open>
  What a liquidation needs and what it may do: its reason really holds, its bonus leaves no bad
  debt behind, and its amounts stay within the debt, the collateral and the market's limits.
\<close>

section \<open>Reasons\<close>

definition margin_call_over :: "u64 \<Rightarrow> u64 \<Rightarrow> u64 \<Rightarrow> bool" where
  "margin_call_over started period now \<longleftrightarrow> unat period \<le> unat now - unat started"

text \<open>What must be true for a reserve to force deleveraging: its limit stays crossed for long enough.\<close>

definition reserve_deleverages :: "numlib \<Rightarrow> reserve \<Rightarrow> bool res \<Rightarrow> u64 \<Rightarrow> u64 \<Rightarrow> bool" where
  "reserve_deleverages L r crossed crossed_at now \<longleftrightarrow>
     Reserve_Config.is_autodeleverage_enabled (rsv_config r) \<and> crossed = Inr True \<and> crossed_at \<noteq> 0 \<and>
     margin_call_over crossed_at (deleveraging_margin_call_period_secs (rsv_config r)) now"

definition max_allowed_ltv :: "numlib \<Rightarrow> liquidation_check_inputs \<Rightarrow> frac res" where
  "max_allowed_ltv L ci = (case ci_max_allowed_ltv_override_pct_opt ci of
     None \<Rightarrow> unhealthy_loan_to_value L (ci_obligation ci)
   | Some pct \<Rightarrow> from_percent L (ucast pct))"

definition reason_holds :: "numlib \<Rightarrow> liquidation_check_inputs \<Rightarrow> liquidation_reason \<Rightarrow> bool" where
  "reason_holds L ci reason = (let ob = ci_obligation ci; m = ci_lending_market ci; now = ci_timestamp ci in
    case reason of
      LtvExceeded \<Rightarrow> \<not> is_price_triggered_liquidation_disabled m \<and>
        (\<exists>ltv limit. loan_to_value L ob = Inr ltv \<and> max_allowed_ltv L ci = Inr limit \<and> limit \<le> ltv)
    | IndividualDeleveraging \<Rightarrow> is_marked_for_deleveraging ob \<and> Lending_Market.is_autodeleverage_enabled m \<and>
        margin_call_over (ob_autodeleverage_margin_call_started_timestamp ob)
          (lm_individual_autodeleverage_margin_call_period_secs m) now \<and>
        (\<exists>ltv target. loan_to_value L ob = Inr ltv \<and> target < ltv \<and>
           from_percent L (ucast (ob_autodeleverage_target_ltv_pct ob)) = Inr target)
    | MarketWideDeleveraging \<Rightarrow> Lending_Market.is_autodeleverage_enabled m \<and>
        (reserve_deleverages L (ci_collateral_reserve ci) (deposit_limit_crossed L (ci_collateral_reserve ci))
           (deposit_limit_crossed_timestamp (rsv_liquidity (ci_collateral_reserve ci))) now \<or>
         reserve_deleverages L (ci_debt_reserve ci) (borrow_limit_crossed L (ci_debt_reserve ci))
           (borrow_limit_crossed_timestamp (rsv_liquidity (ci_debt_reserve ci))) now)
    | ObligationOrder i \<Rightarrow> is_obligation_order_execution_enabled m \<and> i < length (ob_obligation_orders ob) \<and>
        (\<exists>hit c. evaluate_order_condition L (ci_collateral_reserve ci) (ci_debt_reserve ci) ob
              (ob_obligation_orders ob ! i) = Inr (Some hit) \<and>
           order_condition_type (ob_obligation_orders ob ! i) = Inr c \<and>
           (is_price_triggered c \<longrightarrow> \<not> is_price_triggered_liquidation_disabled m))
    | ReserveDebtMaturityReached \<Rightarrow> is_mature_reserve_debt_liquidation_enabled m \<and>
        (\<exists>t. get_debt_maturity_timestamp (rsv_config (ci_debt_reserve ci)) = Some t \<and> t \<le> now)
    | ObligationBorrowDebtTermReached secs \<Rightarrow> is_obligation_borrow_debt_term_liquidation_enabled m \<and>
        (\<exists>t. get_debt_term_end_timestamp (ci_liquidity ci) (rsv_config (ci_debt_reserve ci)) = Inr (Some t) \<and>
           t \<le> now \<and> unat secs = unat now - unat t))"

lemma or_else_Some [res_simps]:
  "or_else a b = Inr (Some x) \<longleftrightarrow> a = Inr (Some x) \<or> a = Inr None \<and> b = Inr (Some x)"
  by (auto simp: or_else_def rbind_eq_Inr split: option.splits)

lemma params_for_eq [res_simps]:
  "params_for reason bonus = Inr p \<longleftrightarrow> (\<exists>b. bonus = Inr b \<and>
     p = Some \<lparr> lp_liquidation_bonus_rate = b, lp_liquidation_reason = reason \<rparr>)"
  by (auto simp: params_for_def rbind_eq_Inr)

lemma checked_sub_Some: "checked_sub a b = Some c \<longleftrightarrow> b \<le> a \<and> c = a - b"
  by (auto simp: checked_sub_def)

lemma deleveraging_started_iff:
  "get_secs_since_deleveraging_started period (saturating_sub now started) = Some secs \<Longrightarrow>
     margin_call_over started period now"
  by (simp add: get_secs_since_deleveraging_started_def margin_call_over_def arith_simps)

lemma found_order:
  assumes "find_applicable_order_from L cr dr ob disabled k ords = Inr (Some (i, hit))"
  shows "k \<le> i \<and> i < k + length ords \<and> evaluate_order_condition L cr dr ob (ords ! (i - k)) = Inr (Some hit) \<and>
    (\<exists>c. order_condition_type (ords ! (i - k)) = Inr c \<and> (is_price_triggered c \<longrightarrow> \<not> disabled))"
  using assms
proof (induction ords arbitrary: k)
  case Nil
  then show ?case by simp
next
  case (Cons ord ords)
  show ?case
  proof (cases "find_applicable_order_from L cr dr ob disabled (Suc k) ords = Inr (Some (i, hit))")
    case True
    from Cons.IH [OF this] show ?thesis by (auto simp: nth_Cons')
  next
    case False
    with Cons.prems show ?thesis by (auto simp: rbind_eq_Inr split: option.splits if_splits)
  qed
qed

lemma ltv_check_sound:
  "check_liquidate_obligation L ci = Inr (Some p) \<Longrightarrow>
     lp_liquidation_reason p = LtvExceeded \<and> reason_holds L ci LtvExceeded"
  by (auto simp: check_liquidate_obligation_def reason_holds_def Let_def res_simps rbind_eq_Inr max_allowed_ltv_def
      not_less split: if_splits option.splits)

lemma individual_check_sound:
  "check_individual_autodeleverage_obligation L ci = Inr (Some p) \<Longrightarrow>
     lp_liquidation_reason p = IndividualDeleveraging \<and> reason_holds L ci IndividualDeleveraging"
  by (auto simp: check_individual_autodeleverage_obligation_def reason_holds_def Let_def res_simps rbind_eq_Inr
      not_le split: if_splits option.splits dest: deleveraging_started_iff)

lemma deleverage_params_reason:
  "get_autodeleverage_liquidation_params L r ob secs = Inr (Some p) \<Longrightarrow>
     lp_liquidation_reason p = MarketWideDeleveraging"
  by (auto simp: get_autodeleverage_liquidation_params_def res_simps rbind_eq_Inr split: if_splits)

lemma market_wide_check_sound:
  "check_market_wide_autodeleverage_obligation L ci = Inr (Some p) \<Longrightarrow>
     lp_liquidation_reason p = MarketWideDeleveraging \<and> reason_holds L ci MarketWideDeleveraging"
  by (auto simp: check_market_wide_autodeleverage_obligation_def reason_holds_def Let_def res_simps rbind_eq_Inr
      deleverage_if_crossed_def get_secs_since_collateral_deposit_limit_crossed_def
      get_secs_since_debt_borrow_limit_crossed_def reserve_deleverages_def
      split: if_splits option.splits dest: deleveraging_started_iff deleverage_params_reason)

lemma maturity_check_sound:
  "check_reserve_debt_maturity_reached L ci = Inr (Some p) \<Longrightarrow>
     lp_liquidation_reason p = ReserveDebtMaturityReached \<and> reason_holds L ci ReserveDebtMaturityReached"
  by (auto simp: check_reserve_debt_maturity_reached_def reason_holds_def Let_def res_simps rbind_eq_Inr
      get_secs_since_debt_maturity_reached_def bind_eq_Some_conv checked_sub_Some
      split: if_splits option.splits)

lemma term_check_sound:
  "check_borrow_reserve_debt_term_reached L ci = Inr (Some p) \<Longrightarrow>
     \<exists>secs. lp_liquidation_reason p = ObligationBorrowDebtTermReached secs \<and>
       reason_holds L ci (ObligationBorrowDebtTermReached secs)"
  by (auto simp: check_borrow_reserve_debt_term_reached_def reason_holds_def Let_def res_simps rbind_eq_Inr
      get_secs_since_reserve_debt_term_end_def bind_eq_Some_conv checked_sub_Some word_le_nat_alt unat_sub
      split: if_splits option.splits)

lemma order_check_sound:
  "check_obligation_order_execution L ci = Inr (Some p) \<Longrightarrow>
     \<exists>i. lp_liquidation_reason p = ObligationOrder i \<and> reason_holds L ci (ObligationOrder i)"
proof -
  assume a: "check_obligation_order_execution L ci = Inr (Some p)"
  let ?m = "ci_lending_market ci" and ?ob = "ci_obligation ci"
  from a obtain found where fo: "find_applicable_order_from L (ci_collateral_reserve ci) (ci_debt_reserve ci) ?ob
        (is_price_triggered_liquidation_disabled ?m) 0 (ob_obligation_orders ?ob) = Inr found"
    by (auto simp: check_obligation_order_execution_def Let_def rbind_eq_Inr find_applicable_obligation_order_def)
  with a obtain i hit where f: "found = Some (i, hit)"
    by (cases found) (auto simp: check_obligation_order_execution_def Let_def find_applicable_obligation_order_def)
  from a fo f have "is_obligation_order_execution_enabled ?m" "lp_liquidation_reason p = ObligationOrder i"
    by (auto simp: check_obligation_order_execution_def Let_def find_applicable_obligation_order_def res_simps
        rbind_eq_Inr split: if_splits)
  with fo f have f: "find_applicable_order_from L (ci_collateral_reserve ci) (ci_debt_reserve ci) ?ob
        (is_price_triggered_liquidation_disabled ?m) 0 (ob_obligation_orders ?ob) = Inr (Some (i, hit))"
      "is_obligation_order_execution_enabled ?m" "lp_liquidation_reason p = ObligationOrder i" by simp_all
  from found_order [OF f(1)] f(2,3) show ?thesis by (auto simp: reason_holds_def Let_def)
qed

lemma params_sound:
  assumes "get_liquidation_params L ci hb ll = Inr p"
  shows "reason_holds L ci (lp_liquidation_reason p)"
    and "lp_liquidation_reason p = LtvExceeded \<longrightarrow> hb"
    and "needs_lowest_ltv_collateral (lp_liquidation_reason p) \<longrightarrow> ll"
proof -
  from assms have found: "check_liquidate_obligation L ci = Inr (Some p) \<or>
      check_individual_autodeleverage_obligation L ci = Inr (Some p) \<or>
      check_market_wide_autodeleverage_obligation L ci = Inr (Some p) \<or>
      check_reserve_debt_maturity_reached L ci = Inr (Some p) \<or>
      check_borrow_reserve_debt_term_reached L ci = Inr (Some p) \<or>
      check_obligation_order_execution L ci = Inr (Some p)"
    and rest: "lp_liquidation_reason p = LtvExceeded \<longrightarrow> hb"
      "needs_lowest_ltv_collateral (lp_liquidation_reason p) \<longrightarrow> ll"
    unfolding get_liquidation_params_def
    by (auto simp: res_simps rbind_eq_Inr fail_def simp del: not_None_eq split: if_splits)
  from found show "reason_holds L ci (lp_liquidation_reason p)"
    by (elim disjE) (drule ltv_check_sound individual_check_sound market_wide_check_sound
        maturity_check_sound term_check_sound order_check_sound; erule exE conjE; simp)+
  show "lp_liquidation_reason p = LtvExceeded \<longrightarrow> hb"
    "needs_lowest_ltv_collateral (lp_liquidation_reason p) \<longrightarrow> ll" by (fact rest)+
qed

section \<open>Bonuses\<close>

text \<open>
  The bonus for bad debt, the smaller one of the two reserves in basis points, is paid for an exceeded
  ratio from 99 percent on, unless the collateral exceeds the debt by more.
\<close>

definition bad_debt_bonus :: "liquidation_check_inputs \<Rightarrow> nat" where
  "bad_debt_bonus ci =
     unat (min (bad_debt_liquidation_bonus_bps (rsv_config (ci_collateral_reserve ci)))
               (bad_debt_liquidation_bonus_bps (rsv_config (ci_debt_reserve ci)))) * fx_scale div 10000"

definition bonus_covered :: "numlib \<Rightarrow> liquidation_check_inputs \<Rightarrow> liquidation_params \<Rightarrow> bool" where
  "bonus_covered L ci p \<longleftrightarrow> (\<exists>ltv. no_bf_loan_to_value L (ci_obligation ci) = Inr ltv \<and>
     (if lp_liquidation_reason p = LtvExceeded \<and> FRACTION_0_99 \<le> ltv
      then unat (lp_liquidation_bonus_rate p) = max (bad_debt_bonus ci) (fx_scale - unat ltv)
      else unat (lp_liquidation_bonus_rate p) \<le> fx_scale - unat ltv))"

lemma word_min_le: "unat (min a b) \<le> unat b" for a b :: "'a::len word"
  by simp

context num_lib begin

lemma liquidation_bonus_covered:
  assumes "calculate_liquidation_bonus L cc dc limit ltv no_bf emode = Inr b" "no_bf < FRACTION_0_99"
  shows "unat b \<le> fx_scale - unat no_bf"
proof -
  from assms(2) have "\<not> FRACTION_0_99 \<le> no_bf" by simp
  with assms(1) obtain x d where "fx_sub L fx_one no_bf = Inr d" "b = min x d"
    by (auto simp: calculate_liquidation_bonus_def Let_def rbind_eq_Inr)
  then show ?thesis by (simp add: arith_simps)
qed

lemma bad_debt_bonus_paid:
  assumes "calculate_liquidation_bonus L (rsv_config (ci_collateral_reserve ci)) (rsv_config (ci_debt_reserve ci))
      limit ltv no_bf emode = Inr b" "FRACTION_0_99 \<le> no_bf"
  shows "unat b = max (bad_debt_bonus ci) (fx_scale - unat no_bf)"
proof -
  from assms obtain bad where bad: "from_bps L (ucast (min
        (bad_debt_liquidation_bonus_bps (rsv_config (ci_collateral_reserve ci)))
        (bad_debt_liquidation_bonus_bps (rsv_config (ci_debt_reserve ci))))) = Inr bad"
    and b: "(if no_bf < fx_one then rbind (fx_sub L fx_one no_bf) (\<lambda>d. Inr (max bad d)) else Inr bad) = Inr b"
    by (auto simp: calculate_liquidation_bonus_def Let_def rbind_eq_Inr)
  have "unat bad = bad_debt_bonus ci" using bad by (simp add: arith_simps bad_debt_bonus_def del: unat_min)
  with b show ?thesis
    by (auto simp: rbind_eq_Inr arith_simps max_def word_le_nat_alt word_less_nat_alt not_less split: if_splits)
qed

lemma autodeleverage_bonus_covered:
  assumes "calculate_autodeleverage_bonus_rate L lo inc hi emode days no_bf = Inr b"
  shows "unat b \<le> fx_scale - unat no_bf"
  using assms
  by (auto simp: calculate_autodeleverage_bonus_rate_def Let_def rbind_eq_Inr not_less word_le_nat_alt
      min_le_iff_disj split: if_splits)

lemma order_bonus_covered:
  assumes "calculate_order_execution_bonus_rate L ord hit no_bf = Inr b"
  shows "unat b \<le> fx_scale - unat no_bf"
  using assms by (auto simp: calculate_order_execution_bonus_rate_def Let_def rbind_eq_Inr not_less
      word_le_nat_alt split: if_splits)

lemma coll_and_debt_bonus_covered:
  assumes "calculate_autodeleverage_bonus_rate_from_coll_and_debt_reserves L m cr dr ob days = Inr b"
  shows "\<exists>ltv. no_bf_loan_to_value L ob = Inr ltv \<and> unat b \<le> fx_scale - unat ltv"
  using assms by (auto simp: calculate_autodeleverage_bonus_rate_from_coll_and_debt_reserves_def Let_def
      rbind_eq_Inr dest: autodeleverage_bonus_covered)

lemma ltv_check_covered:
  assumes "check_liquidate_obligation L ci = Inr (Some p)"
  shows "bonus_covered L ci p"
proof -
  from assms obtain ltv limit user emode b where b: "no_bf_loan_to_value L (ci_obligation ci) = Inr ltv"
    "calculate_liquidation_bonus L (rsv_config (ci_collateral_reserve ci)) (rsv_config (ci_debt_reserve ci))
       limit user ltv emode = Inr b"
    "p = \<lparr> lp_liquidation_bonus_rate = b, lp_liquidation_reason = LtvExceeded \<rparr>"
    by (auto simp: check_liquidate_obligation_def Let_def res_simps rbind_eq_Inr split: if_splits option.splits)
  show ?thesis
  proof (cases "FRACTION_0_99 \<le> ltv")
    case True
    with b bad_debt_bonus_paid [OF b(2)] show ?thesis by (simp add: bonus_covered_def)
  next
    case False
    with b liquidation_bonus_covered [OF b(2)] show ?thesis by (simp add: bonus_covered_def)
  qed
qed

lemma individual_check_covered:
  "check_individual_autodeleverage_obligation L ci = Inr (Some p) \<Longrightarrow> bonus_covered L ci p"
  by (auto simp: check_individual_autodeleverage_obligation_def bonus_covered_def Let_def res_simps rbind_eq_Inr
      split: if_splits option.splits dest!: coll_and_debt_bonus_covered)

lemma deleverage_params_covered:
  "get_autodeleverage_liquidation_params L r ob secs = Inr (Some p) \<Longrightarrow>
     \<exists>ltv. no_bf_loan_to_value L ob = Inr ltv \<and> unat (lp_liquidation_bonus_rate p) \<le> fx_scale - unat ltv"
  by (auto simp: get_autodeleverage_liquidation_params_def res_simps rbind_eq_Inr split: if_splits
      dest: autodeleverage_bonus_covered)

lemma market_wide_check_covered:
  assumes "check_market_wide_autodeleverage_obligation L ci = Inr (Some p)"
  shows "bonus_covered L ci p"
proof -
  have "\<exists>ltv. no_bf_loan_to_value L (ci_obligation ci) = Inr ltv \<and>
      unat (lp_liquidation_bonus_rate p) \<le> fx_scale - unat ltv"
    using assms by (auto simp: check_market_wide_autodeleverage_obligation_def Let_def res_simps rbind_eq_Inr
      deleverage_if_crossed_def split: if_splits option.splits dest!: deleverage_params_covered)
  with market_wide_check_sound [OF assms] show ?thesis by (auto simp: bonus_covered_def)
qed

lemma maturity_check_covered:
  "check_reserve_debt_maturity_reached L ci = Inr (Some p) \<Longrightarrow> bonus_covered L ci p"
  by (auto simp: check_reserve_debt_maturity_reached_def bonus_covered_def Let_def res_simps rbind_eq_Inr
      split: if_splits option.splits dest: autodeleverage_bonus_covered)

lemma term_check_covered:
  "check_borrow_reserve_debt_term_reached L ci = Inr (Some p) \<Longrightarrow> bonus_covered L ci p"
  by (auto simp: check_borrow_reserve_debt_term_reached_def bonus_covered_def Let_def res_simps rbind_eq_Inr
      split: if_splits option.splits dest!: coll_and_debt_bonus_covered)

lemma order_check_covered:
  assumes a: "check_obligation_order_execution L ci = Inr (Some p)"
  shows "bonus_covered L ci p"
proof -
  from a obtain found where fo: "find_applicable_obligation_order L (ci_collateral_reserve ci) (ci_debt_reserve ci)
        (ci_obligation ci) (is_price_triggered_liquidation_disabled (ci_lending_market ci)) = Inr found"
    by (auto simp: check_obligation_order_execution_def Let_def rbind_eq_Inr)
  with a obtain i hit where f: "found = Some (i, hit)"
    by (cases found) (auto simp: check_obligation_order_execution_def Let_def)
  from a fo f show ?thesis
    by (auto simp: check_obligation_order_execution_def Let_def res_simps rbind_eq_Inr bonus_covered_def
        split: if_splits dest: order_bonus_covered)
qed

lemmas checks_covered = ltv_check_covered individual_check_covered market_wide_check_covered
  maturity_check_covered term_check_covered order_check_covered

lemma params_covered:
  assumes "get_liquidation_params L ci hb ll = Inr p"
  shows "bonus_covered L ci p"
proof -
  from assms have found: "check_liquidate_obligation L ci = Inr (Some p) \<or>
      check_individual_autodeleverage_obligation L ci = Inr (Some p) \<or>
      check_market_wide_autodeleverage_obligation L ci = Inr (Some p) \<or>
      check_reserve_debt_maturity_reached L ci = Inr (Some p) \<or>
      check_borrow_reserve_debt_term_reached L ci = Inr (Some p) \<or>
      check_obligation_order_execution L ci = Inr (Some p)"
    unfolding get_liquidation_params_def
    by (auto simp: res_simps rbind_eq_Inr fail_def simp del: not_None_eq split: if_splits)
  then show ?thesis using checks_covered by blast
qed

end

lemma covered_debt:
  fixes S b v :: nat
  assumes "b \<le> S - v" "v \<le> S"
  shows "(S + b) * v \<le> S * S"
proof -
  have "(S + b) * v \<le> (S + (S - v)) * v" using assms(1) by simp
  also have "\<dots> = S * v + (S - v) * v" by (simp add: add_mult_distrib)
  also have "\<dots> \<le> S * v + (S - v) * S" using assms(2) by (simp add: mult_le_mono)
  also have "\<dots> = S * S" using assms(2) by (metis add_mult_distrib2 le_add_diff_inverse mult.commute)
  finally show ?thesis .
qed

section \<open>Amounts\<close>

context num_lib begin

text \<open>The value that a liquidation of \<open>d\<close> out of the debt \<open>b\<close> pays for, rounded down twice.\<close>

lemma liquidation_value_le:
  assumes "fx_div L d b = Inr ratio" "fx_mul L mv ratio = Inr part" "fx_add L bonus fx_one = Inr mult"
    "fx_mul L part mult = Inr tot"
  shows "unat tot * unat b * fx_scale \<le> unat mv * unat d * (fx_scale + unat bonus)"
proof -
  from assms have r: "b \<noteq> 0" "unat ratio = unat d * fx_scale div unat b" "unat part = unat mv * unat ratio div fx_scale"
    "unat tot = unat part * unat mult div fx_scale" "unat mult = fx_scale + unat bonus"
    by (auto simp: arith_simps)
  have "unat tot * unat b * fx_scale = (unat tot * fx_scale) * unat b" by simp
  also have "\<dots> \<le> (unat part * unat mult) * unat b"
    unfolding r(4) by (simp only: mult_le_mono1 div_times_less_eq_dividend)
  also have "\<dots> = (unat part * unat b) * unat mult" by simp
  also have "\<dots> \<le> (unat mv * unat d) * unat mult"
  proof (rule mult_le_mono1)
    have "unat part * unat b * fx_scale = (unat part * fx_scale) * unat b" by simp
    also have "\<dots> \<le> (unat mv * unat ratio) * unat b"
      unfolding r(3) by (simp only: mult_le_mono1 div_times_less_eq_dividend)
    also have "\<dots> = unat mv * (unat ratio * unat b)" by simp
    also have "\<dots> \<le> unat mv * (unat d * fx_scale)"
      unfolding r(2) by (simp only: mult_le_mono2 div_times_less_eq_dividend)
    finally have "unat part * unat b * fx_scale \<le> (unat mv * unat d) * fx_scale" by (simp add: mult_ac)
    then show "unat part * unat b \<le> unat mv * unat d" by simp
  qed
  finally show ?thesis using r(5) by simp
qed

text \<open>
  When the debt with its bonus is worth more than the collateral, the debt settled is the collateral's
  share of it, rounded down twice: by less than one bit and \<open>2\<^sup>-\<^sup>6\<^sup>0\<close> of the debt liquidated.
\<close>

lemma full_seizure_settles:
  assumes "calculate_liquidation_amounts L tot c d below = Inr (settle, repay, withdraw)"
    and "oc_market_value_sf c < tot"
  shows "unat d * unat (oc_market_value_sf c) * fx_scale
    \<le> unat tot * ((unat settle + 1) * fx_scale + unat d)"
proof -
  from assms obtain ratio f where r: "fx_div L (oc_market_value_sf c) tot = Inr ratio" "fx_mul L d ratio = Inr f"
    "settle = (if below then d else f)"
    by (auto simp: calculate_liquidation_amounts_def Let_def rbind_eq_Inr split: if_splits)
  from assms(2) have tot: "0 < unat tot" by (simp add: word_less_nat_alt)
  have q: "unat ratio = unat (oc_market_value_sf c) * fx_scale div unat tot" "unat f = unat d * unat ratio div fx_scale"
    using r by (simp_all add: arith_simps)
  have "unat ratio \<le> fx_scale" unfolding q(1)
    using assms(2) by (intro less_imp_le_nat less_mult_imp_div_less) (simp add: word_less_nat_alt)
  then have "unat f \<le> unat d" unfolding q(2) by (rule fmul_le_left [unfolded fmul_def])
  with r(3) have f: "unat f \<le> unat settle" by simp
  have "unat (oc_market_value_sf c) * fx_scale \<le> unat tot * (unat ratio + 1)"
    unfolding q(1) using tot dividend_less_times_div [of "unat tot" "unat (oc_market_value_sf c) * fx_scale"]
    by (simp add: mult.commute)
  then have "unat d * (unat (oc_market_value_sf c) * fx_scale) \<le> unat d * (unat tot * (unat ratio + 1))"
    by (rule mult_le_mono2)
  also have "\<dots> = unat tot * (unat d * unat ratio + unat d)" by (simp add: algebra_simps)
  also have "\<dots> \<le> unat tot * ((unat settle + 1) * fx_scale + unat d)"
  proof (intro mult_le_mono2 add_le_mono1)
    have "unat d * unat ratio \<le> fx_scale + fx_scale * unat f"
      unfolding q(2) using dividend_less_times_div [of fx_scale "unat d * unat ratio"] by (simp add: fx_scale_def)
    also have "\<dots> \<le> fx_scale + fx_scale * unat settle" using f by simp
    finally show "unat d * unat ratio \<le> (unat settle + 1) * fx_scale" by (simp add: algebra_simps)
  qed
  finally show ?thesis by (simp add: mult.assoc)
qed

lemma liquidation_amounts_bounds:
  assumes "calculate_liquidation_amounts L tot c d below = Inr (settle, repay, withdraw)"
  shows "unat settle \<le> unat d \<and> unat repay = ceil_div (unat settle) fx_scale \<and>
    (withdraw = oc_deposited_amount c \<and> (oc_market_value_sf c < tot \<or> oc_market_value_sf c = tot \<and> settle = d) \<or>
     tot < oc_market_value_sf c \<and> settle = d \<and>
      (unat withdraw * unat (oc_market_value_sf c) \<le> unat (oc_deposited_amount c) * unat tot \<and>
         unat withdraw \<le> unat (oc_deposited_amount c) \<or>
       below \<and> withdraw = 1))"
proof (cases "tot > oc_market_value_sf c")
  case True
  with assms obtain ratio f where r: "fx_div L (oc_market_value_sf c) tot = Inr ratio" "fx_mul L d ratio = Inr f"
    "settle = (if below then d else f)" "to_ceil L settle = Inr repay" "withdraw = oc_deposited_amount c"
    by (auto simp: calculate_liquidation_amounts_def Let_def rbind_eq_Inr split: if_splits)
  then have "unat ratio = unat (oc_market_value_sf c) * fx_scale div unat tot" by (simp add: arith_simps)
  also have "\<dots> \<le> fx_scale"
    using True by (intro less_imp_le_nat less_mult_imp_div_less) (simp add: word_less_nat_alt)
  finally have "unat f \<le> unat d" using r(2) fmul_le_left [of "unat ratio" "unat d"]
    by (simp add: arith_simps fmul_def)
  with r True show ?thesis by (auto simp: arith_simps)
next
  case False
  show ?thesis
  proof (cases "tot = oc_market_value_sf c")
    case True
    with assms False show ?thesis
      by (auto simp: calculate_liquidation_amounts_def Let_def rbind_eq_Inr arith_simps)
  next
    case lt: False
    with False have less: "tot < oc_market_value_sf c" by simp
    from assms lt False obtain pct dep wf where w: "settle = d" "to_ceil L d = Inr repay"
      "fx_div L tot (oc_market_value_sf c) = Inr pct" "fx_from_num L (ucast (oc_deposited_amount c)) = Inr dep"
      "fx_mul L dep pct = Inr wf"
      "(if below \<and> frac_less_int wf DUST_LAMPORT_THRESHOLD then Inr DUST_LAMPORT_THRESHOLD else to_floor L wf) = Inr withdraw"
      by (auto simp: calculate_liquidation_amounts_def Let_def rbind_eq_Inr)
    have eq: "unat pct = unat tot * fx_scale div unat (oc_market_value_sf c)"
      "unat dep = unat (oc_deposited_amount c) * fx_scale" "unat wf = unat dep * unat pct div fx_scale"
      using w by (auto simp: arith_simps)
    have wf: "unat wf = unat (oc_deposited_amount c) * unat pct"
      using eq by (simp add: mult.assoc mult.left_commute)
    have "withdraw = 1 \<and> below \<or> unat withdraw = unat (oc_deposited_amount c) * unat pct div fx_scale"
      using w(6) wf by (auto simp: DUST_LAMPORT_THRESHOLD_def arith_simps split: if_splits)
    moreover have "unat withdraw * unat (oc_market_value_sf c) \<le> unat (oc_deposited_amount c) * unat tot"
      "unat withdraw \<le> unat (oc_deposited_amount c)"
      if u: "unat withdraw = unat (oc_deposited_amount c) * unat pct div fx_scale"
    proof -
      have "unat withdraw * fx_scale \<le> unat (oc_deposited_amount c) * unat pct"
        unfolding u by (rule div_times_less_eq_dividend)
      then have "unat withdraw * fx_scale * unat (oc_market_value_sf c)
          \<le> unat (oc_deposited_amount c) * (unat pct * unat (oc_market_value_sf c))"
        by (metis mult.assoc mult_le_mono1)
      also have "\<dots> \<le> unat (oc_deposited_amount c) * (unat tot * fx_scale)"
        unfolding eq(1) by (simp only: mult_le_mono2 div_times_less_eq_dividend)
      finally show "unat withdraw * unat (oc_market_value_sf c) \<le> unat (oc_deposited_amount c) * unat tot"
        by (simp add: mult_ac)
      have "unat pct \<le> fx_scale" unfolding eq(1)
        using less by (intro less_imp_le_nat less_mult_imp_div_less) (simp add: word_less_nat_alt)
      then show "unat withdraw \<le> unat (oc_deposited_amount c)"
        unfolding u by (rule fmul_le_left [unfolded fmul_def])
    qed
    ultimately show ?thesis using less w(1,2) by (auto simp: arith_simps)
  qed
qed

end

section \<open>A whole liquidation\<close>

definition below_min_value :: "liquidation_check_inputs \<Rightarrow> liquidation_reason \<Rightarrow> bool" where
  "below_min_value ci reason \<longleftrightarrow> \<not> is_order_reason reason \<and>
     frac_less_int (ol_market_value_sf (ci_liquidity ci))
       (lm_min_full_liquidation_value_threshold (ci_lending_market ci))"

text \<open>
  The collateral withdrawn, at its share of the value of the deposit, is worth at most the debt settled,
  at its share of the value of the debt, with the bonus.
\<close>

definition worth_settled :: "liquidation_check_inputs \<Rightarrow> obligation_collateral \<Rightarrow> calculate_liquidation_result \<Rightarrow> bool" where
  "worth_settled ci coll r \<longleftrightarrow> lr_withdraw_amount r \<le> oc_deposited_amount coll \<and>
     unat (lr_withdraw_amount r) * unat (oc_market_value_sf coll) *
       (unat (ol_borrowed_amount_sf (ci_liquidity ci)) * fx_scale)
       \<le> unat (oc_deposited_amount coll) * (unat (ol_market_value_sf (ci_liquidity ci)) *
           unat (lr_settle_amount r) * (fx_scale + unat (lr_liquidation_bonus_rate r)))"

text \<open>
  All the collateral is withdrawn, and it is worth at most the debt settled with the bonus, where the
  debt settled has been rounded down by at most one bit and \<open>2\<^sup>-\<^sup>6\<^sup>0\<close> of the debt.
\<close>

definition worth_seized :: "liquidation_check_inputs \<Rightarrow> obligation_collateral \<Rightarrow> calculate_liquidation_result \<Rightarrow> bool" where
  "worth_seized ci coll r \<longleftrightarrow> lr_withdraw_amount r = oc_deposited_amount coll \<and>
     unat (oc_market_value_sf coll) * unat (ol_borrowed_amount_sf (ci_liquidity ci)) * fx_scale * fx_scale
       \<le> unat (ol_market_value_sf (ci_liquidity ci)) * (fx_scale + unat (lr_liquidation_bonus_rate r)) *
          ((unat (lr_settle_amount r) + 1) * fx_scale + unat (ol_borrowed_amount_sf (ci_liquidity ci)))"

context num_lib begin

lemma liquidation_parts:
  assumes "calculate_liquidation L ci n coll hb ll = Inr r"
  obtains p d ratio part mult tot where
    "get_liquidation_params L ci hb ll = Inr p"
    "lr_liquidation_bonus_rate r = lp_liquidation_bonus_rate p"
    "lr_liquidation_reason r = lp_liquidation_reason p"
    "unat d \<le> unat n * fx_scale" "d \<le> ol_borrowed_amount_sf (ci_liquidity ci)"
    "\<not> below_min_value ci (lp_liquidation_reason p) \<Longrightarrow>
       \<exists>limit. max_liquidatable_borrowed_amount L (ci_lending_market ci) (ci_obligation ci) (ci_liquidity ci)
         (lp_liquidation_reason p) = Inr limit \<and> d \<le> limit"
    "fx_div L d (ol_borrowed_amount_sf (ci_liquidity ci)) = Inr ratio"
    "fx_mul L (ol_market_value_sf (ci_liquidity ci)) ratio = Inr part"
    "fx_add L (lp_liquidation_bonus_rate p) fx_one = Inr mult" "fx_mul L part mult = Inr tot"
    "calculate_liquidation_amounts L tot coll d (below_min_value ci (lp_liquidation_reason p)) =
       Inr (lr_settle_amount r, lr_repay_amount r, lr_withdraw_amount r)"
proof -
  let ?l = "ci_liquidity ci"
  from assms obtain p mult req d ratio part tot where l:
    "get_liquidation_params L ci hb ll = Inr p" "fx_add L (lp_liquidation_bonus_rate p) fx_one = Inr mult"
    "fx_from_num L (ucast n) = Inr req"
    "(if below_min_value ci (lp_liquidation_reason p)
      then if min req (ol_borrowed_amount_sf ?l) < ol_borrowed_amount_sf ?l
           then fail RepayTooSmallForFullLiquidation else Inr (ol_borrowed_amount_sf ?l)
      else rbind (max_liquidatable_borrowed_amount L (ci_lending_market ci) (ci_obligation ci) ?l
             (lp_liquidation_reason p)) (\<lambda>limit. Inr (min limit (min req (ol_borrowed_amount_sf ?l))))) = Inr d"
    "fx_div L d (ol_borrowed_amount_sf ?l) = Inr ratio" "fx_mul L (ol_market_value_sf ?l) ratio = Inr part"
    "fx_mul L part mult = Inr tot"
    "calculate_liquidation_amounts L tot coll d (below_min_value ci (lp_liquidation_reason p)) =
       Inr (lr_settle_amount r, lr_repay_amount r, lr_withdraw_amount r)"
    "lr_liquidation_bonus_rate r = lp_liquidation_bonus_rate p"
    "lr_liquidation_reason r = lp_liquidation_reason p"
    by (auto simp: calculate_liquidation_def below_min_value_def Let_def rbind_eq_Inr simp del: min_less_iff_disj)
  from l(3) have req: "unat req = unat n * fx_scale" by (simp add: arith_simps)
  have d: "d \<le> req" "d \<le> ol_borrowed_amount_sf ?l"
    using l(4) by (auto simp: rbind_eq_Inr fail_def min_def split: if_splits)
  have lim: "\<exists>limit. max_liquidatable_borrowed_amount L (ci_lending_market ci) (ci_obligation ci) ?l
         (lp_liquidation_reason p) = Inr limit \<and> d \<le> limit" if "\<not> below_min_value ci (lp_liquidation_reason p)"
    using l(4) that by (auto simp: rbind_eq_Inr)
  from d(1) req have "unat d \<le> unat n * fx_scale" by (simp add: word_le_nat_alt)
  from that [OF l(1) l(9,10) this d(2) lim l(5,6,2,7,8)] show thesis by blast
qed

lemma seizure_bound:
  fixes S :: nat
  assumes v: "tot * B * S \<le> mv * d * (S + bonus)" and d: "d * coll * S \<le> tot * ((settle + 1) * S + d)"
    and le: "d \<le> B" and pos: "0 < tot" "0 < B" "0 < S"
  shows "coll * B * S * S \<le> mv * (S + bonus) * ((settle + 1) * S + B)"
proof -
  have "0 < tot * B * S" using pos by simp
  with v have d0: "0 < d" by (cases d) auto
  have "d * (coll * B * S * S) = (d * coll * S) * (B * S)" by simp
  also have "\<dots> \<le> (tot * ((settle + 1) * S + d)) * (B * S)" using d by (rule mult_le_mono1)
  also have "\<dots> = (tot * B * S) * ((settle + 1) * S + d)" by simp
  also have "\<dots> \<le> (mv * d * (S + bonus)) * ((settle + 1) * S + d)" using v by (rule mult_le_mono1)
  also have "\<dots> \<le> (mv * d * (S + bonus)) * ((settle + 1) * S + B)" using le by simp
  also have "\<dots> = d * (mv * (S + bonus) * ((settle + 1) * S + B))" by simp
  finally show ?thesis using d0 by (simp only: mult_le_cancel1 simp_thms)
qed

lemma liquidation_bounds:
  assumes "calculate_liquidation L ci n coll hb ll = Inr r"
  shows "lr_settle_amount r \<le> ol_borrowed_amount_sf (ci_liquidity ci) \<and>
    unat (lr_repay_amount r) = ceil_div (unat (lr_settle_amount r)) fx_scale \<and> lr_repay_amount r \<le> n \<and>
    (worth_settled ci coll r \<or> worth_seized ci coll r \<or>
     below_min_value ci (lr_liquidation_reason r) \<and> lr_withdraw_amount r = 1)"
  using assms
proof (rule liquidation_parts)
  fix p d ratio part mult tot
  let ?l = "ci_liquidity ci"
  assume h: "lr_liquidation_bonus_rate r = lp_liquidation_bonus_rate p"
    "lr_liquidation_reason r = lp_liquidation_reason p"
    "unat d \<le> unat n * fx_scale" "d \<le> ol_borrowed_amount_sf ?l"
    "fx_div L d (ol_borrowed_amount_sf ?l) = Inr ratio" "fx_mul L (ol_market_value_sf ?l) ratio = Inr part"
    "fx_add L (lp_liquidation_bonus_rate p) fx_one = Inr mult" "fx_mul L part mult = Inr tot"
    "calculate_liquidation_amounts L tot coll d (below_min_value ci (lp_liquidation_reason p)) =
       Inr (lr_settle_amount r, lr_repay_amount r, lr_withdraw_amount r)"
  note v = liquidation_value_le [OF h(5,6,7,8)] and a = liquidation_amounts_bounds [OF h(9)]
  from a have "unat (lr_settle_amount r) \<le> unat n * fx_scale" using h(3) by auto
  then have "ceil_div (unat (lr_settle_amount r)) fx_scale \<le> unat n" by (simp add: ceil_div_le_iff)
  with a have repay: "lr_repay_amount r \<le> n" by (simp add: word_le_nat_alt)
  have settle: "lr_settle_amount r \<le> ol_borrowed_amount_sf ?l" using a h(4) by (auto simp: word_le_nat_alt)
  have exact: "worth_settled ci coll r"
    if "unat (lr_withdraw_amount r) * unat (oc_market_value_sf coll) \<le> unat (oc_deposited_amount coll) * unat tot"
      "unat (lr_withdraw_amount r) \<le> unat (oc_deposited_amount coll)" "lr_settle_amount r = d"
  proof -
    have "unat (lr_withdraw_amount r) * unat (oc_market_value_sf coll) * (unat (ol_borrowed_amount_sf ?l) * fx_scale)
        \<le> unat (oc_deposited_amount coll) * unat tot * (unat (ol_borrowed_amount_sf ?l) * fx_scale)"
      using that(1) by (rule mult_le_mono1)
    also have "\<dots> = unat (oc_deposited_amount coll) * (unat tot * unat (ol_borrowed_amount_sf ?l) * fx_scale)"
      by simp
    also note mult_le_mono2 [OF v, of "unat (oc_deposited_amount coll)"]
    finally show ?thesis using that by (simp add: worth_settled_def h(1) word_le_nat_alt)
  qed
  have seized: "worth_seized ci coll r"
    if "lr_withdraw_amount r = oc_deposited_amount coll" "oc_market_value_sf coll < tot"
  proof -
    have "ol_borrowed_amount_sf ?l \<noteq> 0" using h(5) by (simp add: arith_simps)
    then have "0 < unat (ol_borrowed_amount_sf ?l)" by (simp add: unat_gt_0)
    from seizure_bound [OF v full_seizure_settles [OF h(9) that(2)] _ _ this] h(4) that
    show ?thesis by (simp add: worth_seized_def h(1) word_le_nat_alt word_less_nat_alt)
  qed
  from a settle repay show ?thesis using exact seized h(2) by auto
qed

lemma close_factor_limit:
  assumes "max_liquidatable_borrowed_amount L m ob l reason = Inr limit"
    "reason \<in> {LtvExceeded, IndividualDeleveraging, MarketWideDeleveraging}"
  shows "unat limit * unat (ol_market_value_sf l)
      \<le> unat (ol_borrowed_amount_sf l) * (unat (lm_max_liquidatable_debt_market_value_at_once m) * fx_scale) \<and>
    (\<exists>ltv. loan_to_value L ob = Inr ltv \<and>
      (unat ltv * 100 \<le> unat (lm_insolvency_risk_unhealthy_ltv_pct m) * fx_scale \<longrightarrow>
       unat limit * unat (ol_market_value_sf l) * 100
        \<le> unat (ol_borrowed_amount_sf l) * (unat (ob_borrowed_assets_market_value_sf ob) *
            unat (lm_liquidation_max_debt_close_factor_pct m))))"
proof -
  from assms obtain ltv risky cf cmv mao ratio where m: "loan_to_value L ob = Inr ltv"
    "get_insolvency_risk_unhealthy_ltv L m = Inr risky"
    "(if ltv > risky then Inr fx_one else get_liquidation_max_debt_close_factor L m) = Inr cf"
    "fx_mul L (ob_borrowed_assets_market_value_sf ob) cf = Inr cmv"
    "get_max_liquidatable_debt_market_value_at_once L m = Inr mao"
    "fx_div L (min (min cmv (ol_market_value_sf l)) mao) (ol_market_value_sf l) = Inr ratio"
    "fx_mul L (ol_borrowed_amount_sf l) ratio = Inr limit"
    by (auto simp: max_liquidatable_borrowed_amount_def Let_def rbind_eq_Inr)
  have mao: "unat mao = unat (lm_max_liquidatable_debt_market_value_at_once m) * fx_scale"
    using m(5) by (simp add: get_max_liquidatable_debt_market_value_at_once_def arith_simps)
  have "unat limit * unat (ol_market_value_sf l) * fx_scale
      \<le> unat (ol_borrowed_amount_sf l) * (unat ratio * unat (ol_market_value_sf l))"
    using m(7) by (simp add: arith_simps)
  also have "\<dots> \<le> unat (ol_borrowed_amount_sf l) * (unat (min (min cmv (ol_market_value_sf l)) mao) * fx_scale)"
    using m(6) by (intro mult_le_mono2) (simp add: arith_simps del: unat_min)
  finally have lim: "unat limit * unat (ol_market_value_sf l)
      \<le> unat (ol_borrowed_amount_sf l) * unat (min (min cmv (ol_market_value_sf l)) mao)"
    by (simp flip: mult.assoc)
  have "unat limit * unat (ol_market_value_sf l) \<le> unat (ol_borrowed_amount_sf l) * unat mao"
    using lim by (rule order_trans) simp
  moreover have "unat limit * unat (ol_market_value_sf l) * 100
      \<le> unat (ol_borrowed_amount_sf l) * (unat (ob_borrowed_assets_market_value_sf ob) *
            unat (lm_liquidation_max_debt_close_factor_pct m))"
    if "unat ltv * 100 \<le> unat (lm_insolvency_risk_unhealthy_ltv_pct m) * fx_scale"
  proof -
    have "unat risky = unat (lm_insolvency_risk_unhealthy_ltv_pct m) * fx_scale div 100"
      using m(2) by (simp add: get_insolvency_risk_unhealthy_ltv_def arith_simps)
    with that have "\<not> ltv > risky" by (simp add: word_less_nat_alt less_eq_div_iff_mult_less_eq not_less)
    with m(3) have cf: "unat cf = unat (lm_liquidation_max_debt_close_factor_pct m) * fx_scale div 100"
      by (simp add: get_liquidation_max_debt_close_factor_def arith_simps)
    have "unat cmv * fx_scale \<le> unat (ob_borrowed_assets_market_value_sf ob) * unat cf"
      using m(4) by (simp add: arith_simps)
    then have "unat cmv * fx_scale * 100 \<le> unat (ob_borrowed_assets_market_value_sf ob) * (unat cf * 100)" by simp
    also have "\<dots> \<le> unat (ob_borrowed_assets_market_value_sf ob) *
        (unat (lm_liquidation_max_debt_close_factor_pct m) * fx_scale)"
      unfolding cf by (simp only: mult_le_mono2 div_times_less_eq_dividend)
    finally have "(unat cmv * 100) * fx_scale \<le> (unat (ob_borrowed_assets_market_value_sf ob) *
        unat (lm_liquidation_max_debt_close_factor_pct m)) * fx_scale" by (simp add: mult_ac)
    then have cmv: "unat cmv * 100 \<le> unat (ob_borrowed_assets_market_value_sf ob) *
        unat (lm_liquidation_max_debt_close_factor_pct m)" by simp
    have "unat limit * unat (ol_market_value_sf l) \<le> unat (ol_borrowed_amount_sf l) * unat cmv"
      using lim by (rule order_trans) (simp add: min_le_iff_disj)
    then have "unat limit * unat (ol_market_value_sf l) * 100 \<le> unat (ol_borrowed_amount_sf l) * (unat cmv * 100)"
      by simp
    also note mult_le_mono2 [OF cmv, of "unat (ol_borrowed_amount_sf l)"]
    finally show ?thesis .
  qed
  ultimately show ?thesis using m(1) mao by auto
qed

lemma share_within_debt:
  assumes "max_liquidatable_borrowed_amount L m ob l reason = Inr limit"
    "reason \<in> {LtvExceeded, IndividualDeleveraging, MarketWideDeleveraging}"
  shows "limit \<le> ol_borrowed_amount_sf l"
proof -
  from assms obtain x mao ratio where m:
    "fx_div L (min (min x (ol_market_value_sf l)) mao) (ol_market_value_sf l) = Inr ratio"
    "fx_mul L (ol_borrowed_amount_sf l) ratio = Inr limit"
    by (auto simp: max_liquidatable_borrowed_amount_def Let_def rbind_eq_Inr)
  have "unat (min (min x (ol_market_value_sf l)) mao) \<le> unat (ol_market_value_sf l)"
    by (simp add: min_le_iff_disj)
  then have "unat (min (min x (ol_market_value_sf l)) mao) * fx_scale \<le> unat (ol_market_value_sf l) * fx_scale"
    by (rule mult_le_mono1)
  then have "unat (min (min x (ol_market_value_sf l)) mao) * fx_scale div unat (ol_market_value_sf l) \<le> fx_scale"
    using m(1) by (metis (no_types, lifting) div_le_mono nonzero_mult_div_cancel_left div_by_0 le0 bot_nat_0.not_eq_extremum)
  then have "unat ratio \<le> fx_scale" using m(1) by (simp add: arith_simps del: unat_min)
  with m(2) fmul_le_left [of "unat ratio" "unat (ol_borrowed_amount_sf l)"] show ?thesis
    by (simp add: arith_simps fmul_def word_le_nat_alt)
qed

lemma term_limit:
  assumes "max_liquidatable_borrowed_amount L m ob l (ObligationBorrowDebtTermReached secs) = Inr limit"
  shows "case get_term_based_full_liquidation_duration_secs m of
      None \<Rightarrow> limit = ol_borrowed_amount_sf l
    | Some duration \<Rightarrow> \<exists>protected. borrowed_amount_at_expiration L l = Inr protected \<and>
        unat limit = unat (ol_borrowed_amount_sf l) -
          unat protected * (unat duration - unat secs) div unat duration"
  using assms
  by (auto simp: max_liquidatable_borrowed_amount_def rbind_eq_Inr arith_simps intro: word_unat_eqI
      split: option.splits)

end

section \<open>Properties\<close>

text \<open>
  C13. A liquidation only happens for a reason that holds: the loan-to-value ratio reached its limit
  and price-triggered liquidations are allowed, or the obligation is marked for deleveraging, above
  its target and past its margin call, or a limit of one of its reserves has been crossed for longer
  than the margin call, or the debt matured, or its term ended, or an order of the owner is hit; and
  each only where the market enables it. For an exceeded ratio the debt repaid is the one with the
  highest borrow factor; unless it deleverages, the collateral taken is the one with the lowest
  liquidation threshold.
\<close>

theorem liquidation_has_its_reason:
  assumes "get_liquidation_params L ci highest_bf lowest_ltv = Inr p"
  shows "reason_holds L ci (lp_liquidation_reason p) \<and>
    (lp_liquidation_reason p = LtvExceeded \<longrightarrow> highest_bf) \<and>
    (needs_lowest_ltv_collateral (lp_liquidation_reason p) \<longrightarrow> lowest_ltv)"
  using params_sound [OF assms] by blast

text \<open>
  An obligation with collateral worth 100 and a debt worth 80, liquidatable from 75: the bonus is the
  5 percent by which the limit is exceeded. A liquidator repays 10 and takes 10 of the collateral.
\<close>

definition sample_side :: reserve where
  "sample_side = sample_reserve\<lparr> rsv_config := (rsv_config sample_reserve)
     \<lparr> max_liquidation_bonus_bps := 500, min_liquidation_bonus_bps := 200 \<rparr> \<rparr>"

definition sample_debt :: obligation_liquidity where
  "sample_debt = obligation_liquidity_default\<lparr> ol_borrow_reserve := 3, ol_borrowed_amount_sf := 80 * 2 ^ 60,
     ol_market_value_sf := 80 * 2 ^ 60 \<rparr>"

definition sample_coll :: obligation_collateral where
  "sample_coll = obligation_collateral_default\<lparr> oc_deposit_reserve := 4, oc_deposited_amount := 100,
     oc_market_value_sf := 100 * 2 ^ 60 \<rparr>"

definition sample_unhealthy :: obligation where
  "sample_unhealthy = obligation_default\<lparr> ob_deposited_value_sf := 100 * 2 ^ 60,
     ob_borrow_factor_adjusted_debt_value_sf := 80 * 2 ^ 60, ob_borrowed_assets_market_value_sf := 80 * 2 ^ 60,
     ob_unhealthy_borrow_value_sf := 75 * 2 ^ 60 \<rparr>"

definition sample_ci :: liquidation_check_inputs where
  "sample_ci = \<lparr> ci_lending_market = lending_market_default, ci_collateral_reserve = sample_side,
     ci_liquidity = sample_debt, ci_debt_reserve = sample_side, ci_obligation = sample_unhealthy,
     ci_timestamp = 1000, ci_max_allowed_ltv_override_pct_opt = None \<rparr>"

definition sample_params :: liquidation_params where
  "sample_params = \<lparr> lp_liquidation_bonus_rate = 57646075230342348, lp_liquidation_reason = LtvExceeded \<rparr>"

lemma sample_ltvs:
  "loan_to_value std_lib sample_unhealthy = Inr 922337203685477580"
  "no_bf_loan_to_value std_lib sample_unhealthy = Inr 922337203685477580"
  "unhealthy_loan_to_value std_lib sample_unhealthy = Inr 864691128455135232"
  by (simp_all add: loan_to_value_def no_bf_loan_to_value_def unhealthy_loan_to_value_def sample_unhealthy_def std_eval)

lemma sample_params_eq: "get_liquidation_params std_lib sample_ci True True = Inr sample_params"
proof -
  have c: "ci_obligation sample_ci = sample_unhealthy" "ci_lending_market sample_ci = lending_market_default"
    "ci_max_allowed_ltv_override_pct_opt sample_ci = None" "ci_collateral_reserve sample_ci = sample_side"
    "ci_debt_reserve sample_ci = sample_side"
    "ob_elevation_group sample_unhealthy = ELEVATION_GROUP_NONE"
    "max_liquidation_bonus_bps (rsv_config sample_side) = 500"
    "min_liquidation_bonus_bps (rsv_config sample_side) = 200"
    by (simp_all add: sample_ci_def sample_unhealthy_def obligation_default_def sample_side_def)
  have b: "calculate_liquidation_bonus std_lib (rsv_config sample_side) (rsv_config sample_side)
      864691128455135232 922337203685477580 922337203685477580 (- 1) = Inr 57646075230342348"
    by (simp add: calculate_liquidation_bonus_def FRACTION_0_99_def c from_bps_def std_eval)
  have "check_liquidate_obligation std_lib sample_ci = Inr (Some sample_params)"
    by (simp add: check_liquidate_obligation_def c sample_ltvs b params_for_def sample_params_def
        get_emode_max_liquidation_bonus_def is_price_triggered_liquidation_disabled_def
        lending_market_default_def)
  then show ?thesis by (simp add: get_liquidation_params_def or_else_def sample_params_def)
qed

theorem liquidation_has_its_reason_witness:
  "get_liquidation_params std_lib sample_ci True True = Inr sample_params \<and>
   reason_holds std_lib sample_ci LtvExceeded"
  using liquidation_has_its_reason [OF sample_params_eq] sample_params_eq by (simp add: sample_params_def)

text \<open>
  C12. The bonus and bad debt. For every reason but an exceeded ratio, and for an exceeded ratio as long
  as the debt is worth less than 99 percent of the collateral, the bonus is at most what the collateral
  exceeds the debt by: while the debt is not worth more than the collateral, repaying all of it with the
  bonus costs no more than the collateral, and afterwards there is no bonus at all. The exception
  is an exceeded ratio from 99 percent on: the bonus is then exactly the bonus for bad debt (the
  smaller one of the two reserves), or what the collateral exceeds the debt by where that is more.
\<close>

theorem liquidation_bonus_leaves_no_bad_debt:
  assumes "num_lib L" and "get_liquidation_params L ci highest_bf lowest_ltv = Inr p"
  shows "\<exists>ltv. no_bf_loan_to_value L (ci_obligation ci) = Inr ltv \<and>
    (if lp_liquidation_reason p = LtvExceeded \<and> FRACTION_0_99 \<le> ltv
     then unat (lp_liquidation_bonus_rate p) = max (bad_debt_bonus ci) (fx_scale - unat ltv)
     else unat (lp_liquidation_bonus_rate p) \<le> fx_scale - unat ltv \<and>
       (unat ltv \<le> fx_scale \<longrightarrow> unat (lp_liquidation_bonus_rate p) + unat ltv \<le> fx_scale \<and>
         (fx_scale + unat (lp_liquidation_bonus_rate p)) * unat ltv \<le> fx_scale * fx_scale))"
proof -
  from num_lib.params_covered [OF assms] obtain ltv where
    "no_bf_loan_to_value L (ci_obligation ci) = Inr ltv" and
    b: "if lp_liquidation_reason p = LtvExceeded \<and> FRACTION_0_99 \<le> ltv
      then unat (lp_liquidation_bonus_rate p) = max (bad_debt_bonus ci) (fx_scale - unat ltv)
      else unat (lp_liquidation_bonus_rate p) \<le> fx_scale - unat ltv" by (auto simp: bonus_covered_def)
  then show ?thesis
    by (intro exI [of _ ltv]) (auto split: if_splits intro: covered_debt)
qed

theorem liquidation_bonus_leaves_no_bad_debt_witness:
  "get_liquidation_params std_lib sample_ci True True = Inr sample_params \<and>
   no_bf_loan_to_value std_lib (ci_obligation sample_ci) = Inr 922337203685477580 \<and>
   unat (lp_liquidation_bonus_rate sample_params) + 922337203685477580 \<le> fx_scale"
proof -
  have "no_bf_loan_to_value std_lib (ci_obligation sample_ci) = Inr 922337203685477580"
    by (simp add: sample_ci_def sample_ltvs)
  with liquidation_bonus_leaves_no_bad_debt [OF std.num_lib_axioms sample_params_eq] sample_params_eq
  show ?thesis by (auto simp: sample_params_def FRACTION_0_99_def fx_scale_def)
qed

text \<open>
  C11. The amounts of a liquidation: it settles at most the debt, and takes from the liquidator the
  settled amount rounded up, never more than the liquidator offered. The collateral it gives is within
  the deposit and worth at most the debt it settles with the bonus. When the debt is worth more than the
  collateral, so that all the collateral is given, the debt settled is rounded down, by at
  most one bit of a fraction and \<open>2\<^sup>-\<^sup>6\<^sup>0\<close> of the debt, before the comparison. The only exception is
  a debt below the market's minimum value, which may be closed for one unit of collateral.
\<close>

theorem liquidation_amounts_are_bounded:
  assumes "num_lib L" and "calculate_liquidation L ci n coll highest_bf lowest_ltv = Inr r"
  shows "lr_settle_amount r \<le> ol_borrowed_amount_sf (ci_liquidity ci) \<and>
    unat (lr_repay_amount r) = ceil_div (unat (lr_settle_amount r)) fx_scale \<and> lr_repay_amount r \<le> n \<and>
    (worth_settled ci coll r \<or> worth_seized ci coll r \<or>
     below_min_value ci (lr_liquidation_reason r) \<and> lr_withdraw_amount r = 1)"
  by (rule num_lib.liquidation_bounds [OF assms])

definition sample_liquidation :: calculate_liquidation_result where
  "sample_liquidation = \<lparr> lr_settle_amount = 10 * 2 ^ 60, lr_repay_amount = 10, lr_withdraw_amount = 10,
     lr_liquidation_bonus_rate = 57646075230342348, lr_liquidation_reason = LtvExceeded \<rparr>"

lemma sample_max_amount:
  "max_liquidatable_borrowed_amount std_lib lending_market_default sample_unhealthy sample_debt LtvExceeded =
     Inr 18446744073709551600"
proof -
  have m: "get_insolvency_risk_unhealthy_ltv std_lib lending_market_default = Inr 1095275429376504627"
    "get_liquidation_max_debt_close_factor std_lib lending_market_default = Inr 230584300921369395"
    "get_max_liquidatable_debt_market_value_at_once std_lib lending_market_default = Inr (500000 * 2 ^ 60)"
    by (simp_all add: get_insolvency_risk_unhealthy_ltv_def get_liquidation_max_debt_close_factor_def
        get_max_liquidatable_debt_market_value_at_once_def lending_market_default_def from_percent_def std_eval
        CLOSE_TO_INSOLVENCY_RISKY_LTV_def LIQUIDATION_CLOSE_FACTOR_def MAX_LIQUIDATABLE_VALUE_AT_ONCE_def)
  have f: "ob_borrowed_assets_market_value_sf sample_unhealthy = 80 * 2 ^ 60"
    "ol_market_value_sf sample_debt = 80 * 2 ^ 60" "ol_borrowed_amount_sf sample_debt = 80 * 2 ^ 60"
    by (simp_all add: sample_unhealthy_def sample_debt_def)
  show ?thesis
    by (simp add: max_liquidatable_borrowed_amount_def sample_ltvs m f std_eval)
qed

lemma sample_liquidation_eq:
  "calculate_liquidation std_lib sample_ci 10 sample_coll True True = Inr sample_liquidation"
proof -
  have c: "ci_obligation sample_ci = sample_unhealthy" "ci_lending_market sample_ci = lending_market_default"
    "ci_liquidity sample_ci = sample_debt" by (simp_all add: sample_ci_def)
  have f: "ol_borrowed_amount_sf sample_debt = 80 * 2 ^ 60" "ol_market_value_sf sample_debt = 80 * 2 ^ 60"
    "oc_market_value_sf sample_coll = 100 * 2 ^ 60" "oc_deposited_amount sample_coll = 100"
    "lm_min_full_liquidation_value_threshold lending_market_default = 2"
    "lp_liquidation_bonus_rate sample_params = 57646075230342348"
    "lp_liquidation_reason sample_params = LtvExceeded"
    by (simp_all add: sample_debt_def sample_coll_def lending_market_default_def LIQUIDATION_CLOSE_VALUE_def
        sample_params_def)
  show ?thesis
    by (simp add: calculate_liquidation_def sample_params_eq c f std_eval sample_max_amount
        frac_less_int_def calculate_liquidation_amounts_def to_ceil_def to_floor_def sample_liquidation_def)
qed

theorem liquidation_amounts_are_bounded_witness:
  "calculate_liquidation std_lib sample_ci 10 sample_coll True True = Inr sample_liquidation \<and>
   lr_repay_amount sample_liquidation \<le> 10 \<and>
   (worth_settled sample_ci sample_coll sample_liquidation \<or> worth_seized sample_ci sample_coll sample_liquidation)"
  using liquidation_amounts_are_bounded [OF std.num_lib_axioms sample_liquidation_eq] sample_liquidation_eq
  by (auto simp: sample_liquidation_def sample_ci_def sample_debt_def below_min_value_def frac_less_int_def
      lending_market_default_def LIQUIDATION_CLOSE_VALUE_def)

text \<open>
  C14. How much of a debt a liquidation may repay at once, reason by reason; it is never more than the
  debt. For an exceeded ratio and to deleverage, its value is at most the market's limit and, while the
  ratio is at most the one that counts as close to insolvency, at most the close factor of the whole
  debt; above that ratio the close factor no longer counts. An execution of an owner's order repays at
  most the order's amount. A debt whose reserve matured is repaid in full. A debt whose term ended is
  repaid in full if the market has no duration for it; otherwise the part of the debt at the end of
  the term that corresponds to the time left is protected, until the duration is over.
\<close>

theorem liquidation_is_partial:
  assumes "num_lib L" and "max_liquidatable_borrowed_amount L m ob l reason = Inr limit"
  shows "limit \<le> ol_borrowed_amount_sf l \<and>
    (case reason of
       ObligationOrder i \<Rightarrow> i < length (ob_obligation_orders ob) \<and>
         (order_opportunity_type (ob_obligation_orders ob ! i) = Inr DeleverageSingleDebtAmount \<longrightarrow>
          limit \<le> oo_opportunity_parameter_sf (ob_obligation_orders ob ! i))
     | ReserveDebtMaturityReached \<Rightarrow> limit = ol_borrowed_amount_sf l
     | ObligationBorrowDebtTermReached secs \<Rightarrow>
        (case get_term_based_full_liquidation_duration_secs m of
           None \<Rightarrow> limit = ol_borrowed_amount_sf l
         | Some duration \<Rightarrow> \<exists>protected. borrowed_amount_at_expiration L l = Inr protected \<and>
             unat limit = unat (ol_borrowed_amount_sf l) -
               unat protected * (unat duration - unat secs) div unat duration)
     | _ \<Rightarrow> unat limit * unat (ol_market_value_sf l)
          \<le> unat (ol_borrowed_amount_sf l) * (unat (lm_max_liquidatable_debt_market_value_at_once m) * fx_scale) \<and>
        (\<exists>ltv. loan_to_value L ob = Inr ltv \<and>
          (unat ltv * 100 \<le> unat (lm_insolvency_risk_unhealthy_ltv_pct m) * fx_scale \<longrightarrow>
           unat limit * unat (ol_market_value_sf l) * 100
            \<le> unat (ol_borrowed_amount_sf l) * (unat (ob_borrowed_assets_market_value_sf ob) *
                unat (lm_liquidation_max_debt_close_factor_pct m)))))"
proof (cases reason)
  case (ObligationOrder i)
  with assms(2) show ?thesis
    by (auto simp: max_liquidatable_borrowed_amount_def Let_def rbind_eq_Inr split: if_splits)
next
  case ReserveDebtMaturityReached
  with assms(2) show ?thesis by (simp add: max_liquidatable_borrowed_amount_def)
next
  case (ObligationBorrowDebtTermReached secs)
  with assms num_lib.term_limit [OF assms(1), of m ob l secs limit] show ?thesis
    by (auto simp: word_le_nat_alt split: option.splits)
qed (use num_lib.close_factor_limit [OF assms] num_lib.share_within_debt [OF assms] in simp_all)

theorem liquidation_is_partial_witness:
  "max_liquidatable_borrowed_amount std_lib lending_market_default sample_unhealthy sample_debt LtvExceeded =
     Inr 18446744073709551600 \<and>
   18446744073709551600 \<le> ol_borrowed_amount_sf sample_debt \<and>
   unat (18446744073709551600 :: frac) * unat (ol_market_value_sf sample_debt)
     \<le> unat (ol_borrowed_amount_sf sample_debt) * (500000 * fx_scale)"
  using liquidation_is_partial [OF std.num_lib_axioms sample_max_amount] sample_max_amount
  by (simp add: lending_market_default_def MAX_LIQUIDATABLE_VALUE_AT_ONCE_def)

end
