(* ===== verification/Reserve_Flows.thy ===== *)
theory Reserve_Flows imports Liquidation Ownership_Transfer begin

text \<open>
  The operations of \<open>lending_market/lending_operations.rs\<close> that work on one reserve: the refresh at
  the start of an instruction, deposits and redemptions with their limits and withdrawal caps, the
  withdraw queue, protocol and referrer fees, flash loans, and the guards the operations on
  obligations share. The clock is passed as a record; log lines are left out.
\<close>

section \<open>Types\<close>

record clock =
  clk_slot :: u64
  clk_unix_timestamp :: i64

record price_result =
  pr_price :: frac
  pr_status :: price_status_flags
  pr_timestamp :: u64

record redeem_options =
  add_amount_to_withdrawal_caps :: bool
  use_withdraw_queue :: bool

definition REGULAR :: redeem_options where
  "REGULAR = \<lparr> add_amount_to_withdrawal_caps = True, use_withdraw_queue = False \<rparr>"

definition FOR_WITHDRAW_QUEUED_LIQUIDITY :: redeem_options where
  "FOR_WITHDRAW_QUEUED_LIQUIDITY =
     \<lparr> add_amount_to_withdrawal_caps = True, use_withdraw_queue = True \<rparr>"

definition FOR_PROTOCOL_ENFORCED_LIQUIDATION :: redeem_options where
  "FOR_PROTOCOL_ENFORCED_LIQUIDATION =
     \<lparr> add_amount_to_withdrawal_caps = False, use_withdraw_queue = True \<rparr>"

definition FOR_USER_REQUESTED_LIQUIDATION :: redeem_options where
  "FOR_USER_REQUESTED_LIQUIDATION =
     \<lparr> add_amount_to_withdrawal_caps = True, use_withdraw_queue = False \<rparr>"

fun redeem_options_resolve :: "liquidation_reason \<Rightarrow> redeem_options" where
  "redeem_options_resolve LtvExceeded = FOR_PROTOCOL_ENFORCED_LIQUIDATION"
| "redeem_options_resolve IndividualDeleveraging = FOR_PROTOCOL_ENFORCED_LIQUIDATION"
| "redeem_options_resolve MarketWideDeleveraging = FOR_PROTOCOL_ENFORCED_LIQUIDATION"
| "redeem_options_resolve ReserveDebtMaturityReached = FOR_PROTOCOL_ENFORCED_LIQUIDATION"
| "redeem_options_resolve (ObligationBorrowDebtTermReached secs) = FOR_PROTOCOL_ENFORCED_LIQUIDATION"
| "redeem_options_resolve (ObligationOrder i) = FOR_USER_REQUESTED_LIQUIDATION"

record withdraw_ticket =
  wt_sequence_number :: u64
  wt_owner :: pubkey
  wt_reserve :: pubkey
  wt_user_destination_liquidity_ta :: pubkey
  wt_queued_collateral_amount :: u64
  wt_created_at_timestamp :: u64
  wt_invalid :: u8
  wt_progress_callback_type :: u8
  wt_progress_callback_custom_accounts :: "pubkey list"

definition ticket_is_valid :: "withdraw_ticket \<Rightarrow> bool" where
  "ticket_is_valid t \<longleftrightarrow> wt_invalid t = 0"

definition is_fully_cancelled :: "withdraw_ticket \<Rightarrow> bool" where
  "is_fully_cancelled t \<longleftrightarrow> wt_queued_collateral_amount t = 0"

record ticketed_withdraw_result =
  twr_collateral_amount_to_burn :: u64
  twr_liquidity_amount_to_withdraw :: u64

section \<open>Refreshing\<close>

definition is_saved_price_age_valid :: "reserve \<Rightarrow> i64 \<Rightarrow> bool res" where
  "is_saved_price_age_valid r current_ts =
     rbind (clock_timestamp current_ts) (\<lambda>current_ts.
     let price_last_updated_ts = market_price_last_updated_ts (rsv_liquidity r);
         price_max_age = max_age_price_seconds (token_info (rsv_config r))
     in Inr (saturating_sub current_ts price_last_updated_ts < price_max_age))"

definition is_price_refresh_needed :: "reserve \<Rightarrow> lending_market \<Rightarrow> i64 \<Rightarrow> bool res" where
  "is_price_refresh_needed r m current_ts =
     (let price_last_updated_ts = market_price_last_updated_ts (rsv_liquidity r);
          price_max_age = max_age_price_seconds (token_info (rsv_config r))
      in rbind (mul_ov price_max_age (ucast (lm_price_refresh_trigger_to_max_age_pct m))) (\<lambda>scaled.
         Inr (saturating_sub current_ts price_last_updated_ts \<ge> scaled div 100)))"

definition refresh_price :: "reserve \<Rightarrow> clock \<Rightarrow> price_result option \<Rightarrow>
  (reserve \<times> price_status_flags option) res" where
  "refresh_price r clk price =
     (if reserve_is_emergency_mode (rsv_config r)
      then Inr (r\<lparr> rsv_liquidity := (rsv_liquidity r)\<lparr> market_price_last_updated_ts := 0 \<rparr> \<rparr>,
                Some NO_CHECKS)
      else case price of
        Some p \<Rightarrow> Inr (r\<lparr> rsv_liquidity := (rsv_liquidity r)
                          \<lparr> market_price_sf := pr_price p,
                            market_price_last_updated_ts := pr_timestamp p \<rparr> \<rparr>, Some (pr_status p))
      | None \<Rightarrow> rbind (is_saved_price_age_valid r (clk_unix_timestamp clk)) (\<lambda>valid.
          Inr (r, if valid then None else Some NO_CHECKS)))"

definition refresh_reserve ::
  "numlib \<Rightarrow> reserve \<Rightarrow> clock \<Rightarrow> price_result option \<Rightarrow> u16 \<Rightarrow> u16 \<Rightarrow> reserve res" where
  "refresh_reserve L r clk price referral_fee_bps reserve_rewards_max_apr_bps =
     (let slot = clk_slot clk
      in rbind (reserve_accrue_interest L r slot referral_fee_bps) (\<lambda>r.
         rbind (distribute_rewards L r slot reserve_rewards_max_apr_bps) (\<lambda>(r, distributed).
         rbind (refresh_price r clk price) (\<lambda>(r, price_status).
         Inr (r\<lparr> rsv_last_update := update_slot (rsv_last_update r) slot price_status \<rparr>)))))"

definition refresh_reserve_limit_timestamps :: "numlib \<Rightarrow> reserve \<Rightarrow> u64 \<Rightarrow> reserve res" where
  "refresh_reserve_limit_timestamps L r timestamp =
     rbind (update_deposit_limit_crossed_timestamp L r timestamp) (\<lambda>r.
     update_borrow_limit_crossed_timestamp L r timestamp)"

definition mark_reserve_stale :: "reserve \<Rightarrow> reserve" where
  "mark_reserve_stale r = r\<lparr> rsv_last_update := mark_stale (rsv_last_update r) \<rparr>"

definition ensure_reserve_fresh :: "reserve \<Rightarrow> u64 \<Rightarrow> price_status_flags \<Rightarrow> unit res" where
  "ensure_reserve_fresh r slot min_price_status =
     rbind (is_stale (rsv_last_update r) slot min_price_status) (\<lambda>stale.
     if stale then fail ReserveStale else Inr ())"

section \<open>Deposits and redemptions\<close>

definition deposit_reserve_liquidity ::
  "numlib \<Rightarrow> reserve \<Rightarrow> clock \<Rightarrow> u64 \<Rightarrow> (reserve \<times> deposit_liquidity_result) res" where
  "deposit_reserve_liquidity L r clk liquidity_amount =
     (if liquidity_amount = 0 then fail InvalidAmount
      else rbind (ensure_reserve_fresh r (clk_slot clk) NO_CHECKS) (\<lambda>_.
        rbind (compute_depositable_amount_and_minted_collateral L r liquidity_amount) (\<lambda>result.
        rbind (frac_of_u64 L (dlr_liquidity_amount result)) (\<lambda>liquidity_amount_f.
        rbind (frac_of_u64 L (deposit_limit (rsv_config r))) (\<lambda>deposit_limit_f.
        rbind (total_supply L (rsv_liquidity r)) (\<lambda>supply_f.
        rbind (fx_add L liquidity_amount_f supply_f) (\<lambda>new_supply_f.
        if new_supply_f > deposit_limit_f then fail DepositLimitExceeded
        else rbind (clock_timestamp (clk_unix_timestamp clk)) (\<lambda>timestamp.
          rbind (sub_from_withdrawal_accum (deposit_withdrawal_cap (rsv_config r))
                   (dlr_liquidity_amount result) timestamp) (\<lambda>caps.
          rbind (reserve_deposit_liquidity
                   (r\<lparr> rsv_config := (rsv_config r)\<lparr> deposit_withdrawal_cap := caps \<rparr> \<rparr>)
                   (dlr_liquidity_amount result) (dlr_collateral_amount result)) (\<lambda>r.
          Inr (mark_reserve_stale r, result)))))))))))"

definition redeem_reserve_collateral ::
  "numlib \<Rightarrow> reserve \<Rightarrow> u64 \<Rightarrow> clock \<Rightarrow> redeem_options \<Rightarrow> (reserve \<times> u64) res" where
  "redeem_reserve_collateral L r collateral_amount clk options =
     (if collateral_amount = 0 then fail InvalidAmount
      else rbind (ensure_reserve_fresh r (clk_slot clk) NO_CHECKS) (\<lambda>_.
        rbind (reserve_redeem_collateral L r collateral_amount (use_withdraw_queue options))
          (\<lambda>(r, liquidity_amount).
        rbind (clock_timestamp (clk_unix_timestamp clk)) (\<lambda>timestamp.
        rbind (refresh_reserve_limit_timestamps L r timestamp) (\<lambda>r.
        let r = mark_reserve_stale r
        in if add_amount_to_withdrawal_caps options
           then rbind (add_to_withdrawal_accum (deposit_withdrawal_cap (rsv_config r))
                         liquidity_amount timestamp) (\<lambda>caps.
             Inr (r\<lparr> rsv_config := (rsv_config r)\<lparr> deposit_withdrawal_cap := caps \<rparr> \<rparr>,
                  liquidity_amount))
           else Inr (r, liquidity_amount))))))"

section \<open>The withdraw queue\<close>

definition check_min_withdraw_ticket_value ::
  "numlib \<Rightarrow> lending_market \<Rightarrow> reserve \<Rightarrow> u64 \<Rightarrow> unit res" where
  "check_min_withdraw_ticket_value L m r collateral_amount =
     rbind (rsv_exchange_rate L r) (\<lambda>rate.
     rbind (collateral_to_liquidity L rate collateral_amount) (\<lambda>liquidity_amount.
     rbind (frac_of_u64 L liquidity_amount) (\<lambda>liquidity_amount_f.
     rbind (liquidity_amount_to_market_value L (rsv_liquidity r) liquidity_amount_f) (\<lambda>ticket_value.
     if frac_less_int ticket_value (lm_min_withdraw_queued_liquidity_value m)
     then fail WithdrawTicketValueTooSmall else Inr ()))))"

definition check_min_withdrawn_queued_liquidity_value ::
  "numlib \<Rightarrow> lending_market \<Rightarrow> reserve \<Rightarrow> u64 \<Rightarrow> bool \<Rightarrow> unit res" where
  "check_min_withdrawn_queued_liquidity_value L m r liquidity_amount_to_withdraw ticket_emptied =
     (if ticket_emptied then Inr ()
      else rbind (frac_of_u64 L liquidity_amount_to_withdraw) (\<lambda>liquidity_amount_f.
        rbind (liquidity_amount_to_market_value L (rsv_liquidity r) liquidity_amount_f) (\<lambda>v.
        if frac_less_int v (lm_min_withdraw_queued_liquidity_value m)
        then fail WithdrawQueuedLiquidityValueTooSmall else Inr ())))"

definition enqueue_to_withdraw ::
  "numlib \<Rightarrow> lending_market \<Rightarrow> reserve \<Rightarrow> u64 \<Rightarrow> (reserve \<times> u64) res" where
  "enqueue_to_withdraw L m r collateral_amount =
     (if collateral_amount = 0 then fail InvalidAmount
      else rbind (check_min_withdraw_ticket_value L m r collateral_amount) (\<lambda>_.
        rbind (queue_enqueue (rsv_withdraw_queue r) collateral_amount) (\<lambda>(q, sequence_number).
        Inr (r\<lparr> rsv_withdraw_queue := q \<rparr>, sequence_number))))"

definition withdraw_queued_liquidity ::
  "numlib \<Rightarrow> lending_market \<Rightarrow> reserve \<Rightarrow> withdraw_ticket \<Rightarrow> clock \<Rightarrow>
   (reserve \<times> withdraw_ticket \<times> ticketed_withdraw_result) res" where
  "withdraw_queued_liquidity L m r ticket clk =
     rbind (total_redeemable_collateral_amount L r) (\<lambda>max_redeemable_collateral_amount.
     if max_redeemable_collateral_amount = 0 then fail InsufficientLiquidity
     else
     let collateral_amount_to_burn =
           min (wt_queued_collateral_amount ticket) max_redeemable_collateral_amount
     in rbind (sub_ov (wt_queued_collateral_amount ticket) collateral_amount_to_burn)
       (\<lambda>remaining_collateral.
     let ticket_emptied = (remaining_collateral = 0)
     in rbind (if \<not> ticket_emptied then check_min_withdraw_ticket_value L m r remaining_collateral
               else Inr ()) (\<lambda>_.
     let ticket = ticket\<lparr> wt_queued_collateral_amount := remaining_collateral \<rparr>
     in rbind (redeem_reserve_collateral L r collateral_amount_to_burn clk
                 FOR_WITHDRAW_QUEUED_LIQUIDITY) (\<lambda>(r, liquidity_amount_to_withdraw).
     rbind (check_min_withdrawn_queued_liquidity_value L m r liquidity_amount_to_withdraw
              ticket_emptied) (\<lambda>_.
     rbind (queue_dequeue (rsv_withdraw_queue r) collateral_amount_to_burn ticket_emptied) (\<lambda>q.
     Inr (r\<lparr> rsv_withdraw_queue := q \<rparr>, ticket,
          \<lparr> twr_collateral_amount_to_burn = collateral_amount_to_burn,
            twr_liquidity_amount_to_withdraw = liquidity_amount_to_withdraw \<rparr>)))))))"

definition cancel_withdraw_ticket ::
  "numlib \<Rightarrow> lending_market \<Rightarrow> reserve \<Rightarrow> withdraw_ticket \<Rightarrow> u64 \<Rightarrow>
   (reserve \<times> withdraw_ticket \<times> u64) res" where
  "cancel_withdraw_ticket L m r ticket collateral_amount_to_cancel =
     (if collateral_amount_to_cancel = 0 then fail InvalidAmount
      else
      let amount_to_cancel = min collateral_amount_to_cancel (wt_queued_collateral_amount ticket)
      in rbind (sub_ov (wt_queued_collateral_amount ticket) amount_to_cancel) (\<lambda>remaining_collateral.
         rbind (if remaining_collateral \<noteq> 0
                then check_min_withdraw_ticket_value L m r remaining_collateral else Inr ()) (\<lambda>_.
         rbind (queue_dequeue (rsv_withdraw_queue r) amount_to_cancel False) (\<lambda>q.
         Inr (r\<lparr> rsv_withdraw_queue := q \<rparr>,
              ticket\<lparr> wt_queued_collateral_amount := remaining_collateral \<rparr>, amount_to_cancel)))))"

section \<open>Fees\<close>

definition lo_redeem_fees :: "numlib \<Rightarrow> reserve \<Rightarrow> u64 \<Rightarrow> (reserve \<times> u64) res" where
  "lo_redeem_fees L r slot =
     rbind (ensure_reserve_fresh r slot NO_CHECKS) (\<lambda>_.
     rbind (calculate_redeem_fees L r) (\<lambda>withdraw_amount.
     if withdraw_amount = 0 then fail InsufficientProtocolFeesToRedeem
     else rbind (redeem_fees L r withdraw_amount) (\<lambda>r.
       Inr (mark_reserve_stale r, withdraw_amount))))"

definition add_referrer_fee ::
  "reserve \<Rightarrow> referrer_token_state \<Rightarrow> frac \<Rightarrow> (reserve \<times> referrer_token_state) res" where
  "add_referrer_fee r rts referrer_fee =
     rbind (add_ov (amount_cumulative_sf rts) referrer_fee) (\<lambda>cumulative.
     rbind (add_ov (amount_unclaimed_sf rts) referrer_fee) (\<lambda>unclaimed.
     rbind (add_ov (accumulated_referrer_fees_sf (rsv_liquidity r)) referrer_fee) (\<lambda>fees.
     Inr (r\<lparr> rsv_liquidity := (rsv_liquidity r)\<lparr> accumulated_referrer_fees_sf := fees \<rparr> \<rparr>,
          rts\<lparr> amount_cumulative_sf := cumulative, amount_unclaimed_sf := unclaimed \<rparr>))))"

definition lo_withdraw_referrer_fees ::
  "numlib \<Rightarrow> reserve \<Rightarrow> u64 \<Rightarrow> referrer_token_state \<Rightarrow> (reserve \<times> referrer_token_state \<times> u64) res" where
  "lo_withdraw_referrer_fees L r slot rts =
     rbind (ensure_reserve_fresh r slot ALL_CHECKS) (\<lambda>_.
     rbind (get_withdraw_referrer_fees L r rts) (\<lambda>withdraw_amount.
     if withdraw_amount = 0 then fail InsufficientReferralFeesToRedeem
     else rbind (reserve_withdraw_referrer_fees L r withdraw_amount rts) (\<lambda>(r, rts).
       Inr (mark_reserve_stale r, rts, withdraw_amount))))"

section \<open>Flash loans\<close>

definition flash_borrow_reserve_liquidity :: "numlib \<Rightarrow> reserve \<Rightarrow> u64 \<Rightarrow> reserve res" where
  "flash_borrow_reserve_liquidity L r liquidity_amount =
     (if flash_loan_fee_sf (cfg_fees (rsv_config r)) = - 1 then fail FlashLoansDisabled
      else rbind (frac_of_u64 L liquidity_amount) (\<lambda>liquidity_amount_f.
        rbind (reserve_borrow L r liquidity_amount_f True) (\<lambda>r.
        Inr (mark_reserve_stale r))))"

definition flash_repay_reserve_liquidity ::
  "numlib \<Rightarrow> lending_market \<Rightarrow> reserve \<Rightarrow> u64 \<Rightarrow> u64 \<Rightarrow> referrer_token_state option \<Rightarrow>
   (reserve \<times> referrer_token_state option \<times> u64 \<times> u64) res" where
  "flash_repay_reserve_liquidity L m r liquidity_amount timestamp rts_opt =
     rbind (frac_of_u64 L liquidity_amount) (\<lambda>flash_loan_amount_f.
     rbind (calculate_flash_loan_fees L (cfg_fees (rsv_config r)) flash_loan_amount_f
              (lm_referral_fee_bps m) (rts_opt \<noteq> None)) (\<lambda>(protocol_fee, referrer_fee).
     rbind (liquidity_repay L (rsv_liquidity r) liquidity_amount flash_loan_amount_f) (\<lambda>liquidity.
     rbind (refresh_reserve_limit_timestamps L (r\<lparr> rsv_liquidity := liquidity \<rparr>) timestamp) (\<lambda>r.
     let r = mark_reserve_stale r
     in rbind (case rts_opt of
          Some rts \<Rightarrow>
            if lm_referral_fee_bps m > 0 then
              rbind (frac_of_u64 L referrer_fee) (\<lambda>referrer_fee_f.
              rbind (add_referrer_fee r rts referrer_fee_f) (\<lambda>(r, rts).
              rbind (add_ov (total_available_amount (rsv_liquidity r)) referrer_fee) (\<lambda>available.
              Inr (r\<lparr> rsv_liquidity := (rsv_liquidity r)\<lparr> total_available_amount := available \<rparr> \<rparr>,
                   Some rts))))
            else Inr (r, Some rts)
        | None \<Rightarrow> Inr (r, None)) (\<lambda>(r, rts_opt).
     rbind (add_ov liquidity_amount referrer_fee) (\<lambda>flash_loan_amount_with_referral_fee.
     Inr (r, rts_opt, flash_loan_amount_with_referral_fee, protocol_fee)))))))"

section \<open>Guards\<close>

definition check_ltv_not_worse_if_marked_for_deleveraging ::
  "numlib \<Rightarrow> obligation \<Rightarrow> frac \<Rightarrow> frac \<Rightarrow> frac \<Rightarrow> unit res" where
  "check_ltv_not_worse_if_marked_for_deleveraging L ob initial_ltv debt_value deposited_value =
     (if is_marked_for_deleveraging ob
      then rbind (fx_div L debt_value deposited_value) (\<lambda>resulting_ltv.
        if resulting_ltv > initial_ltv then fail WorseLtvBlocked else Inr ())
      else Inr ())"

definition check_below_reserve_utilization_limit :: "numlib \<Rightarrow> reserve \<Rightarrow> frac \<Rightarrow> unit res" where
  "check_below_reserve_utilization_limit L r borrow_amount =
     rbind (fx_add L (total_borrow (rsv_liquidity r)) borrow_amount) (\<lambda>borrowed.
     rbind (total_supply L (rsv_liquidity r)) (\<lambda>supply.
     rbind (fx_div L borrowed supply) (\<lambda>new_utilization_rate.
     let utilization_limit = utilization_limit_block_borrowing_above_pct (rsv_config r)
     in rbind (from_percent L (ucast utilization_limit)) (\<lambda>limit.
        if new_utilization_rate \<ge> limit \<and> utilization_limit \<noteq> 0
        then fail BorrowingAboveUtilizationRateDisabled else Inr ()))))"

definition check_below_reserve_borrow_limit :: "numlib \<Rightarrow> reserve \<Rightarrow> frac \<Rightarrow> unit res" where
  "check_below_reserve_borrow_limit L r borrow_amount =
     rbind (fx_add L (total_borrow (rsv_liquidity r)) borrow_amount) (\<lambda>new_total_borrow.
     rbind (frac_of_u64 L (borrow_limit (rsv_config r))) (\<lambda>limit.
     if new_total_borrow > limit then fail BorrowLimitExceeded else Inr ()))"

definition check_borrow_limit_outside_elevation_group_not_exceeded :: "reserve \<Rightarrow> unit res" where
  "check_borrow_limit_outside_elevation_group_not_exceeded r =
     (if borrowed_amount_outside_elevation_group r >
           borrow_limit_outside_elevation_group (rsv_config r)
      then fail ElevationGroupBorrowLimitExceeded else Inr ())"

definition check_below_obligation_allowed_borrow_value ::
  "numlib \<Rightarrow> obligation \<Rightarrow> reserve \<Rightarrow> frac \<Rightarrow> unit res" where
  "check_below_obligation_allowed_borrow_value L ob r borrowed_amount_increase =
     rbind (liquidity_amount_to_market_value L (rsv_liquidity r) borrowed_amount_increase)
       (\<lambda>borrowed_value_increase.
     rbind (borrow_factor_f L r (ob_elevation_group ob \<noteq> ELEVATION_GROUP_NONE)) (\<lambda>factor.
     rbind (fx_mul L borrowed_value_increase factor) (\<lambda>bf_adjusted_borrowed_value_increase.
     ensure (remaining_borrow_value ob \<ge> bf_adjusted_borrowed_value_increase) BorrowTooLarge)))"

definition NO_DELEVERAGING_MARKER :: u8 where "NO_DELEVERAGING_MARKER = - 1"

definition mark_obligation_for_deleveraging ::
  "lending_market \<Rightarrow> obligation \<Rightarrow> u8 \<Rightarrow> u64 \<Rightarrow> obligation res" where
  "mark_obligation_for_deleveraging m ob autodeleverage_target_ltv_pct timestamp =
     (if autodeleverage_target_ltv_pct = NO_DELEVERAGING_MARKER
      then if is_marked_for_deleveraging ob then Inr (unmark_for_deleveraging ob) else Inr ob
      else if autodeleverage_target_ltv_pct > 100 then fail InvalidConfig
      else rbind (check_not_marked_for_deleveraging ob) (\<lambda>_.
        if lm_individual_autodeleverage_margin_call_period_secs m = 0 then fail InvalidConfig
        else mark_for_deleveraging ob timestamp autodeleverage_target_ltv_pct))"

end
