(* ===== verification/Reserve_Histories.thy ===== *)
theory Reserve_Histories imports Reserve_Flows begin

text \<open>
  What the operations of \<open>Reserve_Flows\<close> do to the suppliers of a reserve, over whole histories of
  accepted instructions: no instruction dilutes a collateral token, and every instruction that
  prices tokens runs in the slot of a refresh that nothing has invalidated since.
\<close>

section \<open>Histories\<close>

datatype reserve_flow =
    RefreshFlow clock "price_result option" u16 u16
  | DepositFlow clock u64
  | RedeemFlow clock u64 redeem_options
  | EnqueueFlow u64
  | WithdrawQueuedFlow clock withdraw_ticket
  | CancelFlow withdraw_ticket u64
  | RedeemFeesFlow u64
  | ReferrerFeesFlow u64 referrer_token_state
  | FlashBorrowFlow u64
  | FlashRepayFlow u64 u64 "referrer_token_state option"

fun flow_execute :: "numlib \<Rightarrow> lending_market \<Rightarrow> reserve_flow \<Rightarrow> reserve \<Rightarrow> reserve res" where
  "flow_execute L m (RefreshFlow clk price bps apr) r = refresh_reserve L r clk price bps apr"
| "flow_execute L m (DepositFlow clk amount) r =
     rbind (deposit_reserve_liquidity L r clk amount) (\<lambda>(r', _). Inr r')"
| "flow_execute L m (RedeemFlow clk amount opts) r =
     rbind (redeem_reserve_collateral L r amount clk opts) (\<lambda>(r', _). Inr r')"
| "flow_execute L m (EnqueueFlow amount) r = rbind (enqueue_to_withdraw L m r amount) (\<lambda>(r', _). Inr r')"
| "flow_execute L m (WithdrawQueuedFlow clk t) r =
     rbind (withdraw_queued_liquidity L m r t clk) (\<lambda>(r', _, _). Inr r')"
| "flow_execute L m (CancelFlow t amount) r =
     rbind (cancel_withdraw_ticket L m r t amount) (\<lambda>(r', _, _). Inr r')"
| "flow_execute L m (RedeemFeesFlow slot) r = rbind (lo_redeem_fees L r slot) (\<lambda>(r', _). Inr r')"
| "flow_execute L m (ReferrerFeesFlow slot rts) r =
     rbind (lo_withdraw_referrer_fees L r slot rts) (\<lambda>(r', _, _). Inr r')"
| "flow_execute L m (FlashBorrowFlow amount) r = flash_borrow_reserve_liquidity L r amount"
| "flow_execute L m (FlashRepayFlow amount timestamp rts) r =
     rbind (flash_repay_reserve_liquidity L m r amount timestamp rts) (\<lambda>(r', _, _, _). Inr r')"

text \<open>
  The slot in which an instruction prices tokens, and the slot of the last refresh that is still
  in force after it.
\<close>

fun pricing_slot :: "reserve_flow \<Rightarrow> u64 option" where
  "pricing_slot (DepositFlow clk _) = Some (clk_slot clk)"
| "pricing_slot (RedeemFlow clk _ _) = Some (clk_slot clk)"
| "pricing_slot (WithdrawQueuedFlow clk _) = Some (clk_slot clk)"
| "pricing_slot (RedeemFeesFlow slot) = Some slot"
| "pricing_slot (ReferrerFeesFlow slot _) = Some slot"
| "pricing_slot _ = None"

fun refresh_in_force :: "reserve_flow \<Rightarrow> u64 option \<Rightarrow> u64 option" where
  "refresh_in_force (RefreshFlow clk _ _ _) before = Some (clk_slot clk)"
| "refresh_in_force (EnqueueFlow _) before = before"
| "refresh_in_force (CancelFlow _ _) before = before"
| "refresh_in_force _ before = None"

definition in_force :: "reserve_flow list \<Rightarrow> u64 option" where
  "in_force fs = fold refresh_in_force fs None"

inductive flow_reaches :: "numlib \<Rightarrow> lending_market \<Rightarrow> reserve \<Rightarrow> reserve_flow list \<Rightarrow> reserve \<Rightarrow> bool"
  for L m where
  flow_start: "live r \<Longrightarrow> lu_stale (rsv_last_update r) \<noteq> 0 \<Longrightarrow> flow_reaches L m r [] r"
| flow_step: "flow_reaches L m r fs r' \<Longrightarrow> flow_execute L m f r' = Inr r'' \<Longrightarrow>
     0 < rsv_mint r'' \<Longrightarrow> flow_reaches L m r (fs @ [f]) r''"

section \<open>One instruction\<close>

text \<open>The terms of a reserve are its configuration without the counters of the withdrawal caps.\<close>

definition terms_of :: "reserve \<Rightarrow> reserve_config" where
  "terms_of r = (rsv_config r)\<lparr> deposit_withdrawal_cap := zero_withdrawal_caps,
     debt_withdrawal_cap := zero_withdrawal_caps \<rparr>"

lemma terms_of_simps [simp]:
  "terms_of (r\<lparr> rsv_liquidity := l \<rparr>) = terms_of r"
  "terms_of (r\<lparr> rsv_collateral := rc \<rparr>) = terms_of r"
  "terms_of (r\<lparr> rsv_last_update := lu \<rparr>) = terms_of r"
  "terms_of (r\<lparr> rsv_withdraw_queue := q \<rparr>) = terms_of r"
  "terms_of (r\<lparr> rsv_config := (rsv_config r)\<lparr> deposit_withdrawal_cap := caps \<rparr> \<rparr>) = terms_of r"
  "terms_of (r\<lparr> rsv_config := (rsv_config r)\<lparr> debt_withdrawal_cap := caps \<rparr> \<rparr>) = terms_of r"
  by (simp_all add: terms_of_def)

lemma terms_keep_take_rate:
  "terms_of r' = terms_of r \<Longrightarrow> protocol_take_rate_pct (rsv_config r') = protocol_take_rate_pct (rsv_config r)"
  by (drule arg_cong [of _ _ protocol_take_rate_pct]) (simp add: terms_of_def)

definition same_tokens :: "reserve \<Rightarrow> reserve \<Rightarrow> bool" where
  "same_tokens r r' \<longleftrightarrow> rsv_collateral r' = rsv_collateral r \<and>
     assets_bits (rsv_liquidity r') = assets_bits (rsv_liquidity r) \<and>
     fees_bits (rsv_liquidity r') = fees_bits (rsv_liquidity r) \<and>
     terms_of r' = terms_of r"

lemma same_tokens_refl [simp, intro]: "same_tokens r r"
  by (simp add: same_tokens_def)

lemma same_tokens_trans: "same_tokens a b \<Longrightarrow> same_tokens b c \<Longrightarrow> same_tokens a c"
  by (simp add: same_tokens_def)

lemma same_tokens_bookkeeping [simp, intro]:
  "same_tokens r (r\<lparr> rsv_last_update := lu \<rparr>)"
  "same_tokens r (r\<lparr> rsv_withdraw_queue := q \<rparr>)"
  "same_tokens r (r\<lparr> rsv_config := (rsv_config r)\<lparr> deposit_withdrawal_cap := caps \<rparr> \<rparr>)"
  "same_tokens r (r\<lparr> rsv_liquidity := (rsv_liquidity r)\<lparr> deposit_limit_crossed_timestamp := t \<rparr> \<rparr>)"
  "same_tokens r (r\<lparr> rsv_liquidity := (rsv_liquidity r)\<lparr> borrow_limit_crossed_timestamp := t \<rparr> \<rparr>)"
  "same_tokens r (r\<lparr> rsv_liquidity := (rsv_liquidity r)\<lparr> market_price_last_updated_ts := t \<rparr> \<rparr>)"
  "same_tokens r (r\<lparr> rsv_liquidity := (rsv_liquidity r)
     \<lparr> market_price_sf := p, market_price_last_updated_ts := t \<rparr> \<rparr>)"
  by (simp_all add: same_tokens_def terms_of_def assets_bits_def fees_bits_def)

lemma mark_reserve_stale_simps [simp]:
  "same_tokens r (mark_reserve_stale r)"
  "rsv_config (mark_reserve_stale r) = rsv_config r"
  "rsv_liquidity (mark_reserve_stale r) = rsv_liquidity r"
  "rsv_collateral (mark_reserve_stale r) = rsv_collateral r"
  "rsv_withdraw_queue (mark_reserve_stale r) = rsv_withdraw_queue r"
  "lu_stale (rsv_last_update (mark_reserve_stale r)) = 1"
  by (simp_all add: mark_reserve_stale_def mark_stale_def same_tokens_def terms_of_def)

text \<open>\<open>healthy_step r r'\<close> is what every instruction guarantees to the suppliers.\<close>

definition healthy_step :: "reserve \<Rightarrow> reserve \<Rightarrow> bool" where
  "healthy_step r r' \<longleftrightarrow> share_value_le r r' \<and> covered r' \<and>
     terms_of r' = terms_of r"

lemma same_tokens_healthy:
  assumes "healthy_step r r'" "same_tokens r' r''"
  shows "healthy_step r r''"
  using assms by (simp add: healthy_step_def same_tokens_def share_value_le_def covered_def
      rsv_supply_def rsv_mint_def supply_bits_def)

lemma healthy_stepI: "share_value_le r r' \<and> covered r' \<and> rsv_config r' = rsv_config r \<Longrightarrow> healthy_step r r'"
  by (simp add: healthy_step_def terms_of_def)

lemma same_tokens_healthy': "same_tokens r r' \<Longrightarrow> covered r \<Longrightarrow> healthy_step r r'"
  by (rule same_tokens_healthy [of r r]) (simp_all add: healthy_step_def)

lemma healthy_before: "same_tokens r r1 \<Longrightarrow> healthy_step r1 r' \<Longrightarrow> healthy_step r r'"
  by (simp add: healthy_step_def same_tokens_def share_value_le_def
      rsv_supply_def rsv_mint_def supply_bits_def)

lemma healthy_trans: "healthy_step a b \<Longrightarrow> healthy_step b c \<Longrightarrow> 0 < rsv_mint b \<Longrightarrow> healthy_step a c"
  by (auto simp: healthy_step_def intro: share_value_le_trans)

lemma healthy_live:
  "healthy_step r r' \<Longrightarrow> live r \<Longrightarrow> 0 < rsv_mint r' \<Longrightarrow> live r'"
  by (auto simp: healthy_step_def live_def share_value_le_def dest!: terms_keep_take_rate intro: Nat.gr0I)

lemma ensure_reserve_fresh_eq [res_simps]:
  "ensure_reserve_fresh r slot flags = Inr u \<longleftrightarrow>
     lu_stale (rsv_last_update r) = 0 \<and> lu_slot (rsv_last_update r) = slot \<and>
     flags_contain (get_price_status (rsv_last_update r)) flags"
  by (auto simp: ensure_reserve_fresh_def res_simps split: if_splits)

definition same_flow :: "reserve \<Rightarrow> reserve \<Rightarrow> bool" where
  "same_flow r r' \<longleftrightarrow> same_tokens r r' \<and> rsv_config r' = rsv_config r \<and>
     rsv_last_update r' = rsv_last_update r \<and> rsv_withdraw_queue r' = rsv_withdraw_queue r \<and>
     total_available_amount (rsv_liquidity r') = total_available_amount (rsv_liquidity r)"

context num_lib begin

lemma deposit_limit_timestamp:
  assumes "update_deposit_limit_crossed_timestamp L r t = Inr r'"
  shows "same_flow r r'"
proof -
  from assms obtain c where c: "deposit_limit_crossed L r = Inr c"
    by (auto simp: update_deposit_limit_crossed_timestamp_def rbind_eq_Inr)
  show ?thesis
    using assms by (cases c) (auto simp: update_deposit_limit_crossed_timestamp_def c same_flow_def
        split: if_splits)
qed

lemma borrow_limit_timestamp:
  assumes "update_borrow_limit_crossed_timestamp L r t = Inr r'"
  shows "same_flow r r'"
proof -
  from assms obtain c where c: "borrow_limit_crossed L r = Inr c"
    by (auto simp: update_borrow_limit_crossed_timestamp_def rbind_eq_Inr)
  show ?thesis
    using assms by (cases c) (auto simp: update_borrow_limit_crossed_timestamp_def c same_flow_def
        split: if_splits)
qed

lemma limit_timestamps:
  assumes "refresh_reserve_limit_timestamps L r t = Inr r'"
  shows "same_tokens r r'" "rsv_config r' = rsv_config r" "rsv_last_update r' = rsv_last_update r"
    "rsv_withdraw_queue r' = rsv_withdraw_queue r"
    "total_available_amount (rsv_liquidity r') = total_available_amount (rsv_liquidity r)"
proof -
  obtain r1 where "update_deposit_limit_crossed_timestamp L r t = Inr r1"
    "update_borrow_limit_crossed_timestamp L r1 t = Inr r'"
    using assms by (auto simp: refresh_reserve_limit_timestamps_def rbind_eq_Inr)
  from deposit_limit_timestamp [OF this(1)] borrow_limit_timestamp [OF this(2)]
  have "same_flow r r1" "same_flow r1 r'" .
  then show "same_tokens r r'" "rsv_config r' = rsv_config r" "rsv_last_update r' = rsv_last_update r"
    "rsv_withdraw_queue r' = rsv_withdraw_queue r"
    "total_available_amount (rsv_liquidity r') = total_available_amount (rsv_liquidity r)"
    by (auto simp: same_flow_def intro: same_tokens_trans)
qed

lemma refresh_price_same:
  "refresh_price r clk price = Inr (r', st) \<Longrightarrow>
     same_tokens r r' \<and> rsv_withdraw_queue r' = rsv_withdraw_queue r"
  by (auto simp: refresh_price_def res_simps split: if_splits option.splits)

lemma refresh_healthy:
  assumes "refresh_reserve L r clk price bps apr = Inr r'" "live r"
  shows "healthy_step r r' \<and> lu_stale (rsv_last_update r') = 0 \<and>
    lu_slot (rsv_last_update r') = clk_slot clk"
proof -
  from assms(1) obtain r1 r2 x r3 st where r1: "reserve_accrue_interest L r (clk_slot clk) bps = Inr r1"
    and r2: "distribute_rewards L r1 (clk_slot clk) apr = Inr (r2, x)"
    and r3: "refresh_price r2 clk price = Inr (r3, st)"
    and r': "r' = r3\<lparr> rsv_last_update := update_slot (rsv_last_update r3) (clk_slot clk) st \<rparr>"
    by (auto simp: refresh_reserve_def Let_def rbind_eq_Inr)
  have h1: "healthy_step r r1"
    using accrue_keeps_share_value [OF r1] assms(2) by (auto simp: live_def intro: healthy_stepI)
  have m1: "rsv_mint r1 = rsv_mint r"
    using r1 by (auto simp: reserve_accrue_interest_def rbind_eq_Inr rsv_mint_def split: if_splits)
  have h2: "healthy_step r1 r2"
    using rewards_keep_share_value [OF r2] h1 by (auto simp: healthy_step_def terms_of_def)
  have "healthy_step r r2"
    using healthy_trans [OF h1 h2] m1 assms(2) by (simp add: live_def)
  from same_tokens_healthy [OF this] refresh_price_same [OF r3] have "healthy_step r r3" by blast
  from same_tokens_healthy [OF this] show ?thesis
    by (auto simp: r' update_slot_def Let_def split: option.splits)
qed

lemma deposit_flow:
  assumes "deposit_reserve_liquidity L r clk amount = Inr (r', d)" "live r"
  shows "healthy_step r r' \<and> lu_stale (rsv_last_update r') \<noteq> 0 \<and>
    lu_stale (rsv_last_update r) = 0 \<and> lu_slot (rsv_last_update r) = clk_slot clk"
proof -
  from assms(1) obtain caps r1 where fresh: "ensure_reserve_fresh r (clk_slot clk) NO_CHECKS = Inr ()"
    and d: "compute_depositable_amount_and_minted_collateral L r amount = Inr d"
    and r1: "reserve_deposit_liquidity
        (r\<lparr> rsv_config := (rsv_config r)\<lparr> deposit_withdrawal_cap := caps \<rparr> \<rparr>)
        (dlr_liquidity_amount d) (dlr_collateral_amount d) = Inr r1"
    and r': "r' = mark_reserve_stale r1"
    by (auto simp: deposit_reserve_liquidity_def res_simps split: if_splits)
  then obtain r2 where r2: "reserve_deposit_liquidity r (dlr_liquidity_amount d) (dlr_collateral_amount d) = Inr r2"
    and r12: "r1 = r2\<lparr> rsv_config := (rsv_config r2)\<lparr> deposit_withdrawal_cap := caps \<rparr> \<rparr>"
    by (auto simp: reserve_deposit_liquidity_def rbind_eq_Inr)
  have "healthy_step r r2" using deposit_keeps_share_value [OF d r2 assms(2)] by (rule healthy_stepI)
  from same_tokens_healthy [OF same_tokens_healthy [OF this same_tokens_bookkeeping(3)]
      mark_reserve_stale_simps(1)]
  have "healthy_step r r'" by (simp add: r' r12)
  then show ?thesis using fresh by (simp add: r' res_simps)
qed

lemma redeem_flow:
  assumes "redeem_reserve_collateral L r amount clk opts = Inr (r', paid)" "live r"
  shows "healthy_step r r' \<and> lu_stale (rsv_last_update r') \<noteq> 0 \<and>
    lu_stale (rsv_last_update r) = 0 \<and> lu_slot (rsv_last_update r) = clk_slot clk"
proof -
  from assms(1) obtain r1 r2 t where fresh: "ensure_reserve_fresh r (clk_slot clk) NO_CHECKS = Inr ()"
    and r1: "reserve_redeem_collateral L r amount (use_withdraw_queue opts) = Inr (r1, paid)"
    and r2: "refresh_reserve_limit_timestamps L r1 t = Inr r2"
    and r': "r' = mark_reserve_stale r2 \<or>
      (\<exists>caps. r' = (mark_reserve_stale r2)\<lparr> rsv_config := (rsv_config r2)\<lparr> deposit_withdrawal_cap := caps \<rparr> \<rparr>)"
    by (auto simp: redeem_reserve_collateral_def Let_def res_simps split: if_splits)
  have "healthy_step r r1" using redeem_keeps_share_value(1) [OF r1 assms(2)] by (rule healthy_stepI)
  then have h: "healthy_step r (mark_reserve_stale r2)"
    using limit_timestamps [OF r2] by (meson same_tokens_healthy mark_reserve_stale_simps(1))
  have "healthy_step r r'"
    using r' h same_tokens_healthy [OF h same_tokens_bookkeeping(3)] by auto
  moreover have "lu_stale (rsv_last_update r') \<noteq> 0"
    using r' by (auto simp: mark_reserve_stale_def mark_stale_def)
  ultimately show ?thesis using fresh by (simp add: res_simps)
qed

lemma withdraw_queued_flow:
  assumes "withdraw_queued_liquidity L m r t clk = Inr (r', t', x)" "live r"
  shows "healthy_step r r' \<and> lu_stale (rsv_last_update r') \<noteq> 0 \<and>
    lu_stale (rsv_last_update r) = 0 \<and> lu_slot (rsv_last_update r) = clk_slot clk"
proof -
  from assms(1) obtain burn r1 paid q where
    r1: "redeem_reserve_collateral L r burn clk FOR_WITHDRAW_QUEUED_LIQUIDITY = Inr (r1, paid)"
    and r': "r' = r1\<lparr> rsv_withdraw_queue := q \<rparr>"
    by (auto simp: withdraw_queued_liquidity_def Let_def res_simps split: if_splits)
  from redeem_flow [OF r1 assms(2)] show ?thesis
    by (auto simp: r' intro: same_tokens_healthy)
qed

lemma queue_flows:
  "enqueue_to_withdraw L m r a = Inr (r', n) \<Longrightarrow> \<exists>q. r' = r\<lparr> rsv_withdraw_queue := q \<rparr>"
  "cancel_withdraw_ticket L m r t a = Inr (r', t', n) \<Longrightarrow> \<exists>q. r' = r\<lparr> rsv_withdraw_queue := q \<rparr>"
  by (auto simp: enqueue_to_withdraw_def cancel_withdraw_ticket_def Let_def res_simps split: if_splits)

lemma fees_flow:
  assumes "lo_redeem_fees L r slot = Inr (r', x)" "covered r"
  shows "healthy_step r r' \<and> lu_stale (rsv_last_update r') \<noteq> 0 \<and>
    lu_stale (rsv_last_update r) = 0 \<and> lu_slot (rsv_last_update r) = slot"
proof -
  from assms(1) obtain r1 where fresh: "ensure_reserve_fresh r slot NO_CHECKS = Inr ()"
    and r1: "redeem_fees L r x = Inr r1" and r': "r' = mark_reserve_stale r1"
    by (auto simp: lo_redeem_fees_def res_simps split: if_splits)
  have "healthy_step r r1" using redeem_fees_keeps_share_value [OF r1 assms(2)] by (rule healthy_stepI)
  then show ?thesis using fresh by (auto simp: r' res_simps intro: same_tokens_healthy)
qed

lemma referrer_fees_flow:
  assumes "lo_withdraw_referrer_fees L r slot rts = Inr (r', rts', x)" "covered r"
  shows "healthy_step r r' \<and> lu_stale (rsv_last_update r') \<noteq> 0 \<and>
    lu_stale (rsv_last_update r) = 0 \<and> lu_slot (rsv_last_update r) = slot"
proof -
  from assms(1) obtain r1 where fresh: "ensure_reserve_fresh r slot ALL_CHECKS = Inr ()"
    and r1: "reserve_withdraw_referrer_fees L r x rts = Inr (r1, rts')" and r': "r' = mark_reserve_stale r1"
    by (auto simp: lo_withdraw_referrer_fees_def res_simps split: if_splits)
  have "healthy_step r r1" using referrer_fees_keep_share_value [OF r1 assms(2)] by (rule healthy_stepI)
  then show ?thesis using fresh by (auto simp: r' res_simps intro: same_tokens_healthy)
qed

lemma flash_borrow_flow:
  assumes "flash_borrow_reserve_liquidity L r amount = Inr r'" "covered r"
  shows "healthy_step r r' \<and> lu_stale (rsv_last_update r') \<noteq> 0"
proof -
  from assms(1) obtain f r1 where r1: "reserve_borrow L r f True = Inr r1" and r': "r' = mark_reserve_stale r1"
    by (auto simp: flash_borrow_reserve_liquidity_def res_simps split: if_splits)
  have "healthy_step r r1" using borrow_keeps_share_value [OF r1 assms(2)] by (rule healthy_stepI)
  then show ?thesis by (auto simp: r' intro: same_tokens_healthy)
qed

lemma referrer_credit_healthy:
  assumes "frac_of_u64 L fee = Inr f" "add_referrer_fee r rts f = Inr (r1, rts')"
    and "add_ov (total_available_amount (rsv_liquidity r1)) fee = Inr a" "covered r"
  shows "healthy_step r (r1\<lparr> rsv_liquidity := (rsv_liquidity r1)\<lparr> total_available_amount := a \<rparr> \<rparr>)"
proof -
  from assms(2) obtain c u fees where
    fees: "add_ov (accumulated_referrer_fees_sf (rsv_liquidity r)) f = Inr fees"
    and r1: "r1 = r\<lparr> rsv_liquidity := (rsv_liquidity r)\<lparr> accumulated_referrer_fees_sf := fees \<rparr> \<rparr>"
    by (auto simp: add_referrer_fee_def rbind_eq_Inr)
  let ?r = "r1\<lparr> rsv_liquidity := (rsv_liquidity r1)\<lparr> total_available_amount := a \<rparr> \<rparr>"
  have "share_value_le r ?r \<and> covered ?r"
    using assms(1,3) fees
    by (intro same_tokens_share_value [OF assms(4), of _ 0])
      (simp_all add: r1 assets_bits_def fees_bits_def frac_of_u64_eq ov_eq add_mult_distrib)
  then show ?thesis by (simp add: healthy_step_def r1)
qed

lemma flash_settled_healthy:
  assumes "frac_of_u64 L amount = Inr f" "liquidity_repay L (rsv_liquidity r) amount f = Inr l" "covered r"
  shows "healthy_step r (r\<lparr> rsv_liquidity := l \<rparr>)"
proof -
  have avail: "unat (total_available_amount l) = unat (total_available_amount (rsv_liquidity r)) + unat amount"
    and debt: "unat (borrowed_amount_sf l) = unat (borrowed_amount_sf (rsv_liquidity r)) - unat f"
    and fees: "fees_bits l = fees_bits (rsv_liquidity r)"
    using assms(2) by (auto simp: liquidity_repay_eq fees_bits_def)
  have "assets_bits (rsv_liquidity r) \<le> assets_bits l"
    using assms(1) by (simp add: assets_bits_def avail debt add_mult_distrib frac_of_u64_eq)
  with same_tokens_share_value [OF assms(3), of "r\<lparr> rsv_liquidity := l \<rparr>"
      "assets_bits l - assets_bits (rsv_liquidity r)"] fees
  show ?thesis by (simp add: healthy_step_def)
qed

lemma flash_repay_parts:
  assumes "flash_repay_reserve_liquidity L m r amount t rts = Inr (r', rts', x, y)"
  obtains f fee l r1 where "frac_of_u64 L amount = Inr f"
    "liquidity_repay L (rsv_liquidity r) amount f = Inr l"
    "refresh_reserve_limit_timestamps L (r\<lparr> rsv_liquidity := l \<rparr>) t = Inr r1"
    "r' = mark_reserve_stale r1 \<or>
      (\<exists>s s' ff r2 a. frac_of_u64 L fee = Inr ff \<and> add_referrer_fee (mark_reserve_stale r1) s ff = Inr (r2, s') \<and>
         add_ov (total_available_amount (rsv_liquidity r2)) fee = Inr a \<and>
         r' = r2\<lparr> rsv_liquidity := (rsv_liquidity r2)\<lparr> total_available_amount := a \<rparr> \<rparr>)"
  using assms
  by (auto simp: flash_repay_reserve_liquidity_def Let_def res_simps split: option.splits if_splits;
      metis)

lemma flash_repay_flow:
  assumes "flash_repay_reserve_liquidity L m r amount t rts = Inr (r', rts', x, y)" "covered r"
    and mint: "0 < rsv_mint r"
  shows "healthy_step r r' \<and> lu_stale (rsv_last_update r') \<noteq> 0"
proof -
  obtain f fee l r1 where f: "frac_of_u64 L amount = Inr f"
    and l: "liquidity_repay L (rsv_liquidity r) amount f = Inr l"
    and r1: "refresh_reserve_limit_timestamps L (r\<lparr> rsv_liquidity := l \<rparr>) t = Inr r1"
    and r': "r' = mark_reserve_stale r1 \<or>
      (\<exists>s s' ff r2 a. frac_of_u64 L fee = Inr ff \<and> add_referrer_fee (mark_reserve_stale r1) s ff = Inr (r2, s') \<and>
         add_ov (total_available_amount (rsv_liquidity r2)) fee = Inr a \<and>
         r' = r2\<lparr> rsv_liquidity := (rsv_liquidity r2)\<lparr> total_available_amount := a \<rparr> \<rparr>)"
    by (rule flash_repay_parts [OF assms(1)])
  have h1: "healthy_step r (mark_reserve_stale r1)"
    using flash_settled_healthy [OF f l assms(2)] limit_timestamps [OF r1]
    by (meson same_tokens_healthy mark_reserve_stale_simps(1))
  from r' show ?thesis
  proof
    assume "r' = mark_reserve_stale r1" then show ?thesis using h1 by simp
  next
    assume "\<exists>s s' ff r2 a. frac_of_u64 L fee = Inr ff \<and> add_referrer_fee (mark_reserve_stale r1) s ff = Inr (r2, s') \<and>
         add_ov (total_available_amount (rsv_liquidity r2)) fee = Inr a \<and>
         r' = r2\<lparr> rsv_liquidity := (rsv_liquidity r2)\<lparr> total_available_amount := a \<rparr> \<rparr>"
    then obtain s s' ff r2 a where c: "frac_of_u64 L fee = Inr ff"
      "add_referrer_fee (mark_reserve_stale r1) s ff = Inr (r2, s')"
      "add_ov (total_available_amount (rsv_liquidity r2)) fee = Inr a"
      and eq: "r' = r2\<lparr> rsv_liquidity := (rsv_liquidity r2)\<lparr> total_available_amount := a \<rparr> \<rparr>"
      by blast
    have "healthy_step (mark_reserve_stale r1) r'"
      unfolding eq by (rule referrer_credit_healthy [OF c]) (use h1 in \<open>simp add: healthy_step_def\<close>)
    moreover have "rsv_mint (mark_reserve_stale r1) = rsv_mint r"
      using limit_timestamps [OF r1] by (simp add: same_tokens_def rsv_mint_def)
    moreover have "lu_stale (rsv_last_update r') \<noteq> 0"
      using c(2) by (auto simp: eq add_referrer_fee_def rbind_eq_Inr)
    ultimately show ?thesis using healthy_trans [OF h1] mint by simp
  qed
qed

lemma flow_step_healthy:
  assumes "flow_execute L m f r = Inr r'" "live r"
  shows "healthy_step r r'" "refresh_in_force f (Some s) = None \<Longrightarrow> lu_stale (rsv_last_update r') \<noteq> 0"
    and "pricing_slot f = Some s' \<Longrightarrow> lu_stale (rsv_last_update r) = 0 \<and> lu_slot (rsv_last_update r) = s'"
proof -
  have cov: "covered r" "0 < rsv_mint r" using assms(2) by (simp_all add: live_def)
  have "healthy_step r r' \<and> (refresh_in_force f (Some s) = None \<longrightarrow> lu_stale (rsv_last_update r') \<noteq> 0) \<and>
    (pricing_slot f = Some s' \<longrightarrow> lu_stale (rsv_last_update r) = 0 \<and> lu_slot (rsv_last_update r) = s')"
    using assms(1)
  proof (cases f)
    case (RefreshFlow clk price bps apr)
    with assms refresh_healthy show ?thesis by auto
  next
    case (DepositFlow clk amount)
    with assms deposit_flow show ?thesis by (auto simp: rbind_eq_Inr)
  next
    case (RedeemFlow clk amount opts)
    with assms redeem_flow show ?thesis by (auto simp: rbind_eq_Inr)
  next
    case (EnqueueFlow amount)
    with assms(1) queue_flows(1) cov same_tokens_healthy' [OF same_tokens_bookkeeping(2)]
    show ?thesis by (fastforce simp: rbind_eq_Inr)
  next
    case (WithdrawQueuedFlow clk t)
    with assms withdraw_queued_flow show ?thesis by (auto simp: rbind_eq_Inr)
  next
    case (CancelFlow t amount)
    with assms(1) queue_flows(2) cov same_tokens_healthy' [OF same_tokens_bookkeeping(2)]
    show ?thesis by (fastforce simp: rbind_eq_Inr)
  next
    case (RedeemFeesFlow slot)
    with assms(1) fees_flow cov show ?thesis by (auto simp: rbind_eq_Inr)
  next
    case (ReferrerFeesFlow slot rts)
    with assms(1) referrer_fees_flow cov show ?thesis by (auto simp: rbind_eq_Inr)
  next
    case (FlashBorrowFlow amount)
    with assms(1) flash_borrow_flow cov show ?thesis by auto
  next
    case (FlashRepayFlow amount t rts)
    with assms(1) flash_repay_flow cov show ?thesis by (auto simp: rbind_eq_Inr)
  qed
  then show "healthy_step r r'" "refresh_in_force f (Some s) = None \<Longrightarrow> lu_stale (rsv_last_update r') \<noteq> 0"
    "pricing_slot f = Some s' \<Longrightarrow> lu_stale (rsv_last_update r) = 0 \<and> lu_slot (rsv_last_update r) = s'"
    by auto
qed

lemma flow_refresh_slot:
  assumes "flow_execute L m f r = Inr r'" "live r" "lu_stale (rsv_last_update r') = 0"
    and "lu_stale (rsv_last_update r) = 0 \<Longrightarrow> before = Some (lu_slot (rsv_last_update r))"
  shows "refresh_in_force f before = Some (lu_slot (rsv_last_update r'))"
proof (cases "refresh_in_force f (Some undefined) = None")
  case True with flow_step_healthy(2) [OF assms(1,2)] assms(3) show ?thesis by blast
next
  case False
  then show ?thesis
  proof (cases f)
    case (RefreshFlow clk price bps apr)
    with assms(1,2) refresh_healthy show ?thesis by auto
  next
    case (EnqueueFlow amount)
    with assms queue_flows(1) show ?thesis by (fastforce simp: rbind_eq_Inr)
  next
    case (CancelFlow t amount)
    with assms queue_flows(2) show ?thesis by (fastforce simp: rbind_eq_Inr)
  qed simp_all
qed

lemma flow_reaches_healthy:
  assumes "flow_reaches L m r fs r'"
  shows "live r' \<and> share_value_le r r' \<and>
    (lu_stale (rsv_last_update r') = 0 \<longrightarrow> in_force fs = Some (lu_slot (rsv_last_update r'))) \<and>
    (\<forall>pre f post s. fs = pre @ f # post \<longrightarrow> pricing_slot f = Some s \<longrightarrow> in_force pre = Some s)"
  using assms
proof induction
  case (flow_start r) then show ?case by simp
next
  case (flow_step r fs r' f r'')
  then have live: "live r'" and le: "share_value_le r r'" and mint: "0 < rsv_mint r'"
    by (simp_all add: live_def)
  have h: "healthy_step r' r''" using flow_step_healthy(1) [OF flow_step.hyps(2) live] .
  have "live r''" using healthy_live [OF h live flow_step.hyps(3)] .
  moreover have "share_value_le r r''"
    using share_value_le_trans [OF le _ mint] h by (simp add: healthy_step_def)
  moreover have "in_force (fs @ [f]) = Some (lu_slot (rsv_last_update r''))"
    if "lu_stale (rsv_last_update r'') = 0"
    using flow_refresh_slot [OF flow_step.hyps(2) live that, of "in_force fs"] flow_step.IH
    by (simp add: in_force_def)
  moreover have "in_force pre = Some s" if "fs @ [f] = pre @ g # post" "pricing_slot g = Some s" for pre g post s
  proof (cases post rule: rev_cases)
    case Nil
    with that(1) have "pre = fs" "g = f" by auto
    with flow_step_healthy(3) [OF flow_step.hyps(2) live, of s] that(2) flow_step.IH show ?thesis by auto
  next
    case (snoc ps p)
    with that(1) have "fs = pre @ g # ps" by auto
    with that(2) flow_step.IH show ?thesis by blast
  qed
  ultimately show ?case by blast
qed

end

text \<open>
  C19. Over every history of accepted instructions on a reserve that starts stale, the value of a
  collateral token never decreases, and every deposit, redemption and fee withdrawal happens in
  the slot of a refresh after which no other instruction has moved the reserve's tokens.
\<close>

theorem instructions_keep_share_value_and_freshness:
  assumes "num_lib L" "flow_reaches L m r fs r'"
  shows "live r' \<and> share_value_le r r' \<and>
    (\<forall>pre f post s. fs = pre @ f # post \<longrightarrow> pricing_slot f = Some s \<longrightarrow> in_force pre = Some s)"
  using num_lib.flow_reaches_healthy [OF assms] by blast

text \<open>A history: a refresh with a price in slot 5, then a deposit of 700 tokens in the same slot.\<close>

definition limited_reserve :: reserve where
  "limited_reserve = sample_reserve\<lparr>
     rsv_last_update := last_update_new 5,
     rsv_config := (rsv_config sample_reserve)\<lparr> deposit_limit := 10000 \<rparr> \<rparr>"

definition sample_clock :: clock where
  "sample_clock = \<lparr> clk_slot = 5, clk_unix_timestamp = 1000 \<rparr>"

definition sample_flows :: "reserve_flow list" where
  "sample_flows = [RefreshFlow sample_clock
     (Some \<lparr> pr_price = fx_one, pr_status = 63, pr_timestamp = 990 \<rparr>) 0 0, DepositFlow sample_clock 700]"

definition refreshed_reserve :: reserve where
  "refreshed_reserve = limited_reserve\<lparr>
     rsv_liquidity := (rsv_liquidity sample_reserve)
       \<lparr> market_price_sf := fx_one, market_price_last_updated_ts := 990 \<rparr>,
     rsv_last_update := \<lparr> lu_slot = 5, lu_stale = 0, lu_price_status = 63 \<rparr> \<rparr>"

lemma limited_fields:
  "rsv_liquidity limited_reserve = rsv_liquidity sample_reserve"
  "rsv_collateral limited_reserve = rsv_collateral sample_reserve"
  "rsv_last_update limited_reserve = last_update_new 5"
  "emergency_mode (rsv_config limited_reserve) = 0"
  "deposit_limit (rsv_config limited_reserve) = 10000"
  "deposit_withdrawal_cap (rsv_config limited_reserve) = zero_withdrawal_caps"
  by (simp_all add: limited_reserve_def sample_reserve_def reserve_init_def zero_config_def)

lemma limited_live: "live limited_reserve"
  using sample_live
  by (simp add: live_def rsv_supply_def rsv_mint_def covered_def limited_fields)
    (simp add: limited_reserve_def)

lemma limited_refresh:
  "flow_execute std_lib m (sample_flows ! 0) limited_reserve = Inr refreshed_reserve"
  by (simp add: sample_flows_def refresh_reserve_def reserve_accrue_interest_def
      distribute_rewards_def refresh_price_def slots_elapsed_def checked_sub_def to_word_opt_def
      limited_fields last_update_new_def sample_clock_def reserve_is_emergency_mode_def
      update_slot_def refreshed_reserve_def ok_or_def rbind_def)

lemma refreshed_fields:
  "total_supply std_lib (rsv_liquidity refreshed_reserve) = Inr (1500 * 2 ^ 60)"
  "rsv_collateral refreshed_reserve = rsv_collateral sample_reserve"
  "total_available_amount (rsv_liquidity refreshed_reserve) = 1000"
  "deposit_limit (rsv_config refreshed_reserve) = 10000"
  "deposit_withdrawal_cap (rsv_config refreshed_reserve) = zero_withdrawal_caps"
  "rsv_last_update refreshed_reserve = \<lparr> lu_slot = 5, lu_stale = 0, lu_price_status = 63 \<rparr>"
  using sample_supply sample_fields limited_fields
  by (simp_all add: refreshed_reserve_def std.total_supply_eq solvent_def supply_bits_def
      assets_bits_def fees_bits_def)

lemma refreshed_rate: "rsv_exchange_rate std_lib refreshed_reserve =
    Inr \<lparr> cer_collateral_supply = 1000, cer_liquidity = 1500 * 2 ^ 60 \<rparr>"
  by (simp add: rsv_exchange_rate_def refreshed_fields collateral_rate_for_def
      from_supply_and_liquidity_def sample_fields)

lemma refreshed_deposit:
  "\<exists>r'. flow_execute std_lib m (sample_flows ! 1) refreshed_reserve = Inr r' \<and> rsv_mint r' = 1466"
proof -
  let ?rate = "\<lparr> cer_collateral_supply = 1000, cer_liquidity = 1500 * 2 ^ 60 \<rparr>"
  have c: "liquidity_to_collateral std_lib ?rate 700 = Inr 466"
    "collateral_to_liquidity_ceil std_lib ?rate 466 = Inr 699"
    by (simp_all add: std.liquidity_to_collateral_eq std.collateral_to_liquidity_ceil_eq to_col_def
        to_liq_ceil_def ceil_div_def rate_of_cer_def fx_scale_def)
  have f: "frac_of_u64 std_lib 699 = Inr (699 * 2 ^ 60)" "frac_of_u64 std_lib 10000 = Inr (10000 * 2 ^ 60)"
    by (simp_all add: std.frac_of_u64_eq fx_scale_def)
  have fresh: "ensure_reserve_fresh refreshed_reserve 5 NO_CHECKS = Inr ()"
    by (simp add: ensure_reserve_fresh_eq refreshed_fields flags_contain_def NO_CHECKS_def)
  have caps: "\<exists>caps. sub_from_withdrawal_accum zero_withdrawal_caps 699 1000 = Inr caps"
    by (simp add: sub_from_withdrawal_accum_def check_and_update_withdrawal_caps_def
        zero_withdrawal_caps_def update_counter_def i64_of_u64_def to_i64_opt_def ok_or_def rbind_def)
  from caps obtain caps where "sub_from_withdrawal_accum zero_withdrawal_caps 699 1000 = Inr caps" by blast
  with c f show ?thesis
    by (simp add: sample_flows_def deposit_reserve_liquidity_def sample_clock_def fresh
        compute_depositable_amount_and_minted_collateral_def refreshed_rate refreshed_fields std_eval
        clock_timestamp_def reserve_deposit_liquidity_def liquidity_deposit_def collateral_mint_def
        checked_add_def to_word_opt_def sample_fields rsv_mint_def mark_reserve_stale_def)
qed

theorem instructions_keep_share_value_and_freshness_witness:
  "\<exists>r'. flow_reaches std_lib lending_market_default limited_reserve sample_flows r' \<and>
     rsv_mint r' = 1466 \<and> share_value_le limited_reserve r' \<and> in_force [sample_flows ! 0] = Some 5"
proof -
  obtain r' where r': "flow_execute std_lib lending_market_default (sample_flows ! 1) refreshed_reserve = Inr r'"
    "rsv_mint r' = 1466" using refreshed_deposit by blast
  have "flow_reaches std_lib lending_market_default limited_reserve [] limited_reserve"
    by (rule flow_start [OF limited_live]) (simp add: limited_fields last_update_new_def)
  from flow_step [OF this limited_refresh]
  have "flow_reaches std_lib lending_market_default limited_reserve [sample_flows ! 0] refreshed_reserve"
    by (simp add: rsv_mint_def refreshed_fields sample_fields)
  from flow_step [OF this r'(1)] r'(2)
  have reach: "flow_reaches std_lib lending_market_default limited_reserve sample_flows r'"
    by (simp add: sample_flows_def)
  have "sample_flows = [sample_flows ! 0] @ sample_flows ! 1 # []" "pricing_slot (sample_flows ! 1) = Some 5"
    by (simp_all add: sample_flows_def sample_clock_def)
  with instructions_keep_share_value_and_freshness [OF std.num_lib_axioms reach] reach r'(2)
  show ?thesis by blast
qed

end
