(* ===== verification/Lending_Checks.thy ===== *)
theory Lending_Checks imports Reserve_Flows begin

text \<open>
  The guards of the instructions (\<open>lending_market/lending_checks.rs\<close>): which accounts may be used
  together, in which state a reserve must be, and the comparison of vault balances with the books
  after the transfers. A function takes the loaded accounts it reads and the keys of the others;
  the extension checks of token accounts, which unpack data of the token program, are a parameter.
\<close>

section \<open>Types\<close>

record token_checks =
  mint_extensions_check :: "pubkey \<Rightarrow> unit res"
  ta_extensions_check :: "pubkey \<Rightarrow> unit res"

definition check_only_supported_liquidity_token_extensions ::
  "token_checks \<Rightarrow> pubkey \<Rightarrow> pubkey \<Rightarrow> unit res" where
  "check_only_supported_liquidity_token_extensions tc mint ta =
     rbind (mint_extensions_check tc mint) (\<lambda>_. ta_extensions_check tc ta)"

datatype lending_action = Additive u64 | Subtractive u64

definition subtractive_signed :: "i64 \<Rightarrow> lending_action" where
  "subtractive_signed net_subtracted =
     (if sint net_subtracted \<ge> 0 then Subtractive net_subtracted else Additive (- net_subtracted))"

definition require_eq :: "'a \<Rightarrow> 'a \<Rightarrow> lending_error \<Rightarrow> unit res" where
  "require_eq a b e = (if a = b then Inr () else fail e)"

lemma require_eq_Inr [res_simps]: "require_eq a b e = Inr u \<longleftrightarrow> a = b"
  by (simp add: require_eq_def res_simps)

section \<open>The state of the market and of a reserve\<close>

text \<open>The access control of the instructions of users in \<open>lib.rs\<close>, which runs after the account constraints.\<close>

definition emergency_mode_disabled :: "lending_market \<Rightarrow> unit res" where
  "emergency_mode_disabled m = (if lm_emergency_mode m > 0 then fail GlobalEmergencyMode else Inr ())"

lemma emergency_mode_disabled_Inr [res_simps]: "emergency_mode_disabled m = Inr u \<longleftrightarrow> lm_emergency_mode m = 0"
  by (simp add: emergency_mode_disabled_def res_simps word_gt_0)

definition check_reserve_emergency_mode :: "reserve \<Rightarrow> unit res" where
  "check_reserve_emergency_mode r =
     (if reserve_is_emergency_mode (rsv_config r) then fail ReserveEmergencyMode else Inr ())"

definition check_reserve_version :: "reserve \<Rightarrow> unit res" where
  "check_reserve_version r =
     (if rsv_version r \<noteq> of_nat PROGRAM_VERSION then fail ReserveDeprecated else Inr ())"

definition check_reserve_status_and_version :: "reserve \<Rightarrow> unit res" where
  "check_reserve_status_and_version r =
     rbind (config_status (rsv_config r)) (\<lambda>status.
     if status = Obsolete then fail ReserveObsolete
     else check_reserve_version r)"

definition not_the_vault :: "pubkey \<Rightarrow> pubkey \<Rightarrow> unit res" where
  "not_the_vault vault key = (if vault = key then fail InvalidAccountInput else Inr ())"

section \<open>Guards before an instruction\<close>

definition borrow_obligation_liquidity_checks ::
  "token_checks \<Rightarrow> reserve \<Rightarrow> pubkey \<Rightarrow> pubkey \<Rightarrow> unit res" where
  "borrow_obligation_liquidity_checks tc r mint user_destination_liquidity =
     rbind (not_the_vault (rl_supply_vault (rsv_liquidity r)) user_destination_liquidity) (\<lambda>_.
     rbind (check_reserve_status_and_version r) (\<lambda>_.
     rbind (check_reserve_emergency_mode r) (\<lambda>_.
     check_only_supported_liquidity_token_extensions tc mint user_destination_liquidity)))"

definition rollover_fixed_term_borrow_checks ::
  "token_checks \<Rightarrow> pubkey \<times> reserve \<Rightarrow> pubkey \<times> reserve \<Rightarrow> pubkey \<Rightarrow> unit res" where
  "rollover_fixed_term_borrow_checks tc source target liquidity_mint =
     rbind (check_reserve_status_and_version (snd source)) (\<lambda>_.
     rbind (check_reserve_emergency_mode (snd source)) (\<lambda>_.
     rbind (check_reserve_status_and_version (snd target)) (\<lambda>_.
     rbind (check_reserve_emergency_mode (snd target)) (\<lambda>_.
     if fst source \<noteq> fst target then mint_extensions_check tc liquidity_mint else Inr ()))))"

definition enqueue_to_withdraw_checks ::
  "token_checks \<Rightarrow> reserve \<Rightarrow> pubkey \<Rightarrow> pubkey \<Rightarrow> unit res" where
  "enqueue_to_withdraw_checks tc r mint user_destination_liquidity_ta =
     rbind (not_the_vault (rl_supply_vault (rsv_liquidity r)) user_destination_liquidity_ta) (\<lambda>_.
     rbind (check_reserve_status_and_version r) (\<lambda>_.
     rbind (check_reserve_emergency_mode r) (\<lambda>_.
     check_only_supported_liquidity_token_extensions tc mint user_destination_liquidity_ta)))"

definition withdraw_queued_liquidity_checks :: "reserve \<Rightarrow> pubkey \<Rightarrow> unit res" where
  "withdraw_queued_liquidity_checks r user_destination_liquidity =
     rbind (not_the_vault (rl_supply_vault (rsv_liquidity r)) user_destination_liquidity) (\<lambda>_.
     rbind (check_reserve_emergency_mode r) (\<lambda>_.
     check_reserve_version r))"

definition recover_invalid_ticket_collateral_checks :: "reserve \<Rightarrow> unit res" where
  "recover_invalid_ticket_collateral_checks r =
     rbind (check_reserve_version r) (\<lambda>_. check_reserve_emergency_mode r)"

definition deposit_obligation_collateral_checks :: "reserve \<Rightarrow> pubkey \<Rightarrow> unit res" where
  "deposit_obligation_collateral_checks r user_source_collateral =
     rbind (not_the_vault (rc_supply_vault (rsv_collateral r)) user_source_collateral) (\<lambda>_.
     rbind (check_reserve_status_and_version r) (\<lambda>_.
     check_reserve_emergency_mode r))"

definition deposit_reserve_liquidity_checks ::
  "token_checks \<Rightarrow> reserve \<Rightarrow> pubkey \<Rightarrow> pubkey \<Rightarrow> pubkey \<Rightarrow> unit res" where
  "deposit_reserve_liquidity_checks tc r mint user_source_liquidity user_destination_collateral =
     rbind (not_the_vault (rl_supply_vault (rsv_liquidity r)) user_source_liquidity) (\<lambda>_.
     rbind (not_the_vault (rc_supply_vault (rsv_collateral r)) user_destination_collateral) (\<lambda>_.
     rbind (check_reserve_status_and_version r) (\<lambda>_.
     rbind (check_reserve_emergency_mode r) (\<lambda>_.
     rbind (ensure (\<not> is_ctoken_usage_blocked (rsv_config r)) CTokenUsageBlocked) (\<lambda>_.
     check_only_supported_liquidity_token_extensions tc mint user_source_liquidity)))))"

definition deposit_reserve_liquidity_and_obligation_collateral_checks ::
  "token_checks \<Rightarrow> reserve \<Rightarrow> pubkey \<Rightarrow> pubkey \<Rightarrow> unit res" where
  "deposit_reserve_liquidity_and_obligation_collateral_checks tc r mint user_source_liquidity =
     rbind (not_the_vault (rl_supply_vault (rsv_liquidity r)) user_source_liquidity) (\<lambda>_.
     rbind (check_reserve_status_and_version r) (\<lambda>_.
     rbind (check_reserve_emergency_mode r) (\<lambda>_.
     check_only_supported_liquidity_token_extensions tc mint user_source_liquidity)))"

definition liquidate_obligation_checks ::
  "token_checks \<Rightarrow> reserve \<Rightarrow> pubkey \<Rightarrow> reserve \<Rightarrow> pubkey \<Rightarrow> pubkey \<Rightarrow> pubkey \<Rightarrow> pubkey \<Rightarrow> unit res" where
  "liquidate_obligation_checks tc repay_reserve repay_mint withdraw_reserve withdraw_mint
     user_source_liquidity user_destination_collateral user_destination_liquidity =
     rbind (not_the_vault (rl_supply_vault (rsv_liquidity repay_reserve)) user_source_liquidity) (\<lambda>_.
     rbind (not_the_vault (rc_supply_vault (rsv_collateral repay_reserve))
              user_destination_collateral) (\<lambda>_.
     rbind (check_reserve_emergency_mode repay_reserve) (\<lambda>_.
     rbind (check_reserve_version repay_reserve) (\<lambda>_.
     rbind (not_the_vault (rl_supply_vault (rsv_liquidity withdraw_reserve)) user_source_liquidity) (\<lambda>_.
     rbind (not_the_vault (rc_supply_vault (rsv_collateral withdraw_reserve))
              user_destination_collateral) (\<lambda>_.
     rbind (check_reserve_emergency_mode withdraw_reserve) (\<lambda>_.
     rbind (check_reserve_version withdraw_reserve) (\<lambda>_.
     rbind (check_only_supported_liquidity_token_extensions tc repay_mint user_source_liquidity) (\<lambda>_.
     check_only_supported_liquidity_token_extensions tc withdraw_mint user_destination_liquidity)))))))))"

definition redeem_reserve_collateral_checks ::
  "token_checks \<Rightarrow> reserve \<Rightarrow> pubkey \<Rightarrow> pubkey \<Rightarrow> pubkey \<Rightarrow> unit res" where
  "redeem_reserve_collateral_checks tc r mint user_source_collateral user_destination_liquidity =
     rbind (not_the_vault (rc_supply_vault (rsv_collateral r)) user_source_collateral) (\<lambda>_.
     rbind (not_the_vault (rl_supply_vault (rsv_liquidity r)) user_destination_liquidity) (\<lambda>_.
     rbind (check_reserve_emergency_mode r) (\<lambda>_.
     rbind (check_reserve_version r) (\<lambda>_.
     check_only_supported_liquidity_token_extensions tc mint user_destination_liquidity))))"

definition withdraw_obligation_collateral_and_redeem_reserve_collateral_checks ::
  "token_checks \<Rightarrow> reserve \<Rightarrow> pubkey \<Rightarrow> pubkey \<Rightarrow> unit res" where
  "withdraw_obligation_collateral_and_redeem_reserve_collateral_checks tc r mint
     user_destination_liquidity =
     rbind (check_reserve_emergency_mode r) (\<lambda>_.
     rbind (check_reserve_version r) (\<lambda>_.
     rbind (not_the_vault (rl_supply_vault (rsv_liquidity r)) user_destination_liquidity) (\<lambda>_.
     check_only_supported_liquidity_token_extensions tc mint user_destination_liquidity)))"

definition repay_obligation_liquidity_checks ::
  "token_checks \<Rightarrow> reserve \<Rightarrow> pubkey \<Rightarrow> pubkey \<Rightarrow> unit res" where
  "repay_obligation_liquidity_checks tc r mint user_source_liquidity =
     rbind (not_the_vault (rl_supply_vault (rsv_liquidity r)) user_source_liquidity) (\<lambda>_.
     rbind (check_reserve_emergency_mode r) (\<lambda>_.
     rbind (check_reserve_version r) (\<lambda>_.
     check_only_supported_liquidity_token_extensions tc mint user_source_liquidity)))"

definition withdraw_obligation_collateral_checks :: "reserve \<Rightarrow> pubkey \<Rightarrow> unit res" where
  "withdraw_obligation_collateral_checks r user_destination_collateral =
     rbind (check_reserve_emergency_mode r) (\<lambda>_.
     rbind (check_reserve_version r) (\<lambda>_.
     rbind (not_the_vault (rc_supply_vault (rsv_collateral r)) user_destination_collateral) (\<lambda>_.
     ensure (\<not> is_ctoken_usage_blocked (rsv_config r)) CTokenUsageBlocked)))"

definition flash_borrow_reserve_liquidity_checks ::
  "token_checks \<Rightarrow> reserve \<Rightarrow> pubkey \<Rightarrow> pubkey \<Rightarrow> unit res" where
  "flash_borrow_reserve_liquidity_checks tc r mint user_destination_liquidity =
     rbind (check_reserve_emergency_mode r) (\<lambda>_.
     rbind (not_the_vault (rl_supply_vault (rsv_liquidity r)) user_destination_liquidity) (\<lambda>_.
     rbind (check_reserve_version r) (\<lambda>_.
     rbind (config_status (rsv_config r)) (\<lambda>status.
     if status = Obsolete then fail ReserveObsolete
     else if flash_loan_fee_sf (cfg_fees (rsv_config r)) = - 1 then fail FlashLoansDisabled
     else check_only_supported_liquidity_token_extensions tc mint user_destination_liquidity))))"

definition flash_repay_reserve_liquidity_checks :: "reserve \<Rightarrow> pubkey \<Rightarrow> unit res" where
  "flash_repay_reserve_liquidity_checks r user_source_liquidity =
     rbind (check_reserve_emergency_mode r) (\<lambda>_.
     not_the_vault (rl_supply_vault (rsv_liquidity r)) user_source_liquidity)"

text \<open>The obligation account is \<open>None\<close> when it holds no data.\<close>

definition refresh_obligation_farms_for_reserve_checks ::
  "obligation option \<Rightarrow> pubkey \<Rightarrow> reserve \<Rightarrow> unit res" where
  "refresh_obligation_farms_for_reserve_checks ob_opt lending_market r =
     rbind (case ob_opt of
              Some ob \<Rightarrow> if ob_lending_market ob \<noteq> lending_market then fail InvalidAccountInput else Inr ()
            | None \<Rightarrow> Inr ()) (\<lambda>_.
     check_reserve_status_and_version r)"

definition initial_liquidation_reserve_liquidity_available_amount ::
  "reserve \<Rightarrow> reserve \<Rightarrow> u64 \<times> u64" where
  "initial_liquidation_reserve_liquidity_available_amount repay_reserve withdraw_reserve =
     (total_available_liquidity_amount repay_reserve, total_available_liquidity_amount withdraw_reserve)"

definition topup_reserve_rewards_checks ::
  "token_checks \<Rightarrow> reserve \<Rightarrow> pubkey \<Rightarrow> pubkey \<Rightarrow> unit res" where
  "topup_reserve_rewards_checks tc r mint source_liquidity =
     rbind (not_the_vault (rl_supply_vault (rsv_liquidity r)) source_liquidity) (\<lambda>_.
     rbind (check_reserve_status_and_version r) (\<lambda>_.
     rbind (check_reserve_emergency_mode r) (\<lambda>_.
     check_only_supported_liquidity_token_extensions tc mint source_liquidity)))"

definition cancel_withdraw_ticket_checks :: "reserve \<Rightarrow> unit res" where
  "cancel_withdraw_ticket_checks r =
     rbind (check_reserve_version r) (\<lambda>_. check_reserve_emergency_mode r)"

section \<open>Balances after the transfers\<close>

definition moved :: "u64 \<Rightarrow> lending_action \<Rightarrow> u64 res" where
  "moved initial action = (case action of Additive amount \<Rightarrow> add_ov initial amount
                                        | Subtractive amount \<Rightarrow> sub_ov initial amount)"

definition post_transfer_vault_balance_liquidity_reserve_checks ::
  "u64 \<Rightarrow> u64 \<Rightarrow> u64 \<Rightarrow> u64 \<Rightarrow> lending_action \<Rightarrow> unit res" where
  "post_transfer_vault_balance_liquidity_reserve_checks final_vault final_available
     initial_vault initial_available action =
     rbind (sub_ov initial_vault initial_available) (\<lambda>pre_diff.
     rbind (sub_ov final_vault final_available) (\<lambda>post_diff.
     rbind (require_eq pre_diff post_diff ReserveTokenBalanceMismatch) (\<lambda>_.
     rbind (moved initial_vault action) (\<lambda>expected_vault.
     rbind (require_eq expected_vault final_vault ReserveVaultBalanceMismatch) (\<lambda>_.
     rbind (moved initial_available action) (\<lambda>expected_available.
     require_eq expected_available final_available ReserveAccountingMismatch))))))"

definition post_transfer_vault_balance_rewards_deposit_checks ::
  "u64 \<Rightarrow> u64 \<Rightarrow> u64 \<Rightarrow> u64 \<Rightarrow> u64 \<Rightarrow> u64 \<Rightarrow> u64 \<Rightarrow> unit res" where
  "post_transfer_vault_balance_rewards_deposit_checks initial_vault final_vault
     initial_rewards final_rewards initial_available final_available amount_transferred =
     rbind (add_ov initial_vault amount_transferred) (\<lambda>expected_vault.
     rbind (require_eq expected_vault final_vault ReserveVaultBalanceMismatch) (\<lambda>_.
     rbind (add_ov initial_rewards amount_transferred) (\<lambda>expected_rewards.
     rbind (require_eq expected_rewards final_rewards ReserveAccountingMismatch) (\<lambda>_.
     require_eq initial_available final_available ReserveAccountingMismatch))))"

text \<open>The differences of two \<open>u64\<close> are taken in \<open>i128\<close>, where they cannot overflow.\<close>

definition post_transfer_owner_queued_collateral_vault_balance_checks ::
  "u64 \<Rightarrow> u64 \<Rightarrow> u64 \<Rightarrow> u64 \<Rightarrow> lending_action \<Rightarrow> unit res" where
  "post_transfer_owner_queued_collateral_vault_balance_checks final_vault final_queued
     initial_vault initial_queued action =
     rbind (require_eq (uint initial_vault - uint initial_queued) (uint final_vault - uint final_queued)
              ReserveTokenBalanceMismatch) (\<lambda>_.
     rbind (moved initial_vault action) (\<lambda>expected_vault.
     rbind (require_eq expected_vault final_vault ReserveVaultBalanceMismatch) (\<lambda>_.
     rbind (moved initial_queued action) (\<lambda>expected_queued.
     require_eq expected_queued final_queued ReserveAccountingMismatch))))"

definition post_ticket_collateral_recovery_owner_queued_collateral_vault_balance_checks ::
  "u64 \<Rightarrow> u64 \<Rightarrow> u64 \<Rightarrow> u64 \<Rightarrow> u64 \<Rightarrow> unit res" where
  "post_ticket_collateral_recovery_owner_queued_collateral_vault_balance_checks
     final_vault final_user initial_vault initial_user amount_transferred =
     rbind (sub_ov initial_vault amount_transferred) (\<lambda>expected_vault.
     rbind (require_eq expected_vault final_vault ReserveVaultBalanceMismatch) (\<lambda>_.
     rbind (add_ov initial_user amount_transferred) (\<lambda>expected_user.
     require_eq expected_user final_user UserTokenBalanceMismatch)))"

definition post_cancel_withdraw_ticket_balance_checks ::
  "u64 \<Rightarrow> u64 \<Rightarrow> u64 \<Rightarrow> u64 \<Rightarrow> u64 \<Rightarrow> u64 \<Rightarrow> u64 \<Rightarrow> unit res" where
  "post_cancel_withdraw_ticket_balance_checks final_vault final_user final_queued
     initial_vault initial_user initial_queued amount_transferred =
     rbind (sub_ov initial_vault amount_transferred) (\<lambda>expected_vault.
     rbind (require_eq expected_vault final_vault ReserveVaultBalanceMismatch) (\<lambda>_.
     rbind (add_ov initial_user amount_transferred) (\<lambda>expected_user.
     rbind (require_eq expected_user final_user UserTokenBalanceMismatch) (\<lambda>_.
     rbind (sub_ov initial_queued amount_transferred) (\<lambda>expected_queued.
     require_eq expected_queued final_queued ReserveAccountingMismatch)))))"

definition post_liquidate_repay_amount_check :: "u64 \<Rightarrow> u64 \<Rightarrow> unit res" where
  "post_liquidate_repay_amount_check max_repay actual_repay =
     ensure (max_repay \<ge> actual_repay) InsufficientRepayAmount"

section \<open>Rollovers\<close>

record reserve_accounting_and_balance =
  rab_total_available_liquidity_amount :: u64
  rab_borrowed_amount :: frac
  rab_vault_balance :: u64

record obligation_rollover_accounting =
  ora_source_reserve_borrowed_amount :: frac
  ora_target_reserve_borrowed_amount :: frac

record rollover_accounting_and_balances =
  ro_source_reserve :: reserve_accounting_and_balance
  ro_target_reserve :: reserve_accounting_and_balance
  ro_obligation :: obligation_rollover_accounting

record fixed_term_rollover_result =
  ftr_repaid_amount :: frac
  ftr_borrowed_amount :: frac
  ftr_tokens_to_transfer_over :: u64

definition rollover_fixed_term_borrow_into_same_reserve_post_checks ::
  "reserve_accounting_and_balance \<Rightarrow> obligation_rollover_accounting \<Rightarrow>
   reserve_accounting_and_balance \<Rightarrow> obligation_rollover_accounting \<Rightarrow> unit res" where
  "rollover_fixed_term_borrow_into_same_reserve_post_checks rb ob ra oa =
     rbind (require_eq (rab_total_available_liquidity_amount rb)
              (rab_total_available_liquidity_amount ra) ReserveAccountingMismatch) (\<lambda>_.
     rbind (require_eq (rab_borrowed_amount rb) (rab_borrowed_amount ra) ReserveAccountingMismatch) (\<lambda>_.
     rbind (require_eq (rab_vault_balance rb) (rab_vault_balance ra) ReserveVaultBalanceMismatch) (\<lambda>_.
     rbind (require_eq (ora_source_reserve_borrowed_amount ob)
              (ora_source_reserve_borrowed_amount oa) ObligationAccountingMismatch) (\<lambda>_.
     require_eq (ora_target_reserve_borrowed_amount ob)
       (ora_target_reserve_borrowed_amount oa) ObligationAccountingMismatch))))"

definition rollover_fixed_term_borrow_into_different_reserve_post_checks ::
  "numlib \<Rightarrow> rollover_accounting_and_balances \<Rightarrow> rollover_accounting_and_balances \<Rightarrow>
   fixed_term_rollover_result \<Rightarrow> unit res" where
  "rollover_fixed_term_borrow_into_different_reserve_post_checks L before after x =
     (let repaid = ftr_repaid_amount x; borrowed = ftr_borrowed_amount x;
          tokens = ftr_tokens_to_transfer_over x;
          sb = ro_source_reserve before; sa = ro_source_reserve after;
          tb = ro_target_reserve before; ta = ro_target_reserve after;
          obb = ro_obligation before; oba = ro_obligation after
      in rbind (ensure (borrowed \<ge> repaid) ReserveAccountingMismatch) (\<lambda>_.
         rbind (fx_sub L borrowed repaid) (\<lambda>excess.
         rbind (ensure (fx_one > excess) ReserveAccountingMismatch) (\<lambda>_.
         rbind (fx_sub L (rab_borrowed_amount sb) repaid) (\<lambda>e1.
         rbind (require_eq e1 (rab_borrowed_amount sa) ReserveAccountingMismatch) (\<lambda>_.
         rbind (add_ov (rab_total_available_liquidity_amount sb) tokens) (\<lambda>e2.
         rbind (require_eq e2 (rab_total_available_liquidity_amount sa) ReserveAccountingMismatch) (\<lambda>_.
         rbind (add_ov (rab_vault_balance sb) tokens) (\<lambda>e3.
         rbind (require_eq e3 (rab_vault_balance sa) ReserveVaultBalanceMismatch) (\<lambda>_.
         rbind (fx_add L (rab_borrowed_amount tb) borrowed) (\<lambda>e4.
         rbind (require_eq e4 (rab_borrowed_amount ta) ReserveAccountingMismatch) (\<lambda>_.
         rbind (sub_ov (rab_total_available_liquidity_amount tb) tokens) (\<lambda>e5.
         rbind (require_eq e5 (rab_total_available_liquidity_amount ta) ReserveAccountingMismatch) (\<lambda>_.
         rbind (sub_ov (rab_vault_balance tb) tokens) (\<lambda>e6.
         rbind (require_eq e6 (rab_vault_balance ta) ReserveVaultBalanceMismatch) (\<lambda>_.
         rbind (fx_sub L (ora_source_reserve_borrowed_amount obb) repaid) (\<lambda>e7.
         rbind (require_eq e7 (ora_source_reserve_borrowed_amount oba) ObligationAccountingMismatch) (\<lambda>_.
         rbind (fx_add L (ora_target_reserve_borrowed_amount obb) borrowed) (\<lambda>e8.
         require_eq e8 (ora_target_reserve_borrowed_amount oba) ObligationAccountingMismatch)))))))))))))))))))"

section \<open>Referrers\<close>

text \<open>
  \<open>pda\<close> derives the address of a referrer's token account from the referrer and the reserve, with
  the bump stored in the account. A derivation that fails, and a bump that is not a byte, panic.
\<close>

definition validate_referrer_token_state ::
  "(pubkey \<Rightarrow> pubkey \<Rightarrow> u64 \<Rightarrow> pubkey option) \<Rightarrow> referrer_token_state \<Rightarrow> u64 \<Rightarrow> pubkey \<Rightarrow> pubkey \<Rightarrow>
   pubkey \<Rightarrow> pubkey \<Rightarrow> unit res" where
  "validate_referrer_token_state pda rts bump rts_key mint owner_referrer reserve_key =
     (if rts_mint rts = 0 \<or> rts_referrer rts = 0 then fail ReferrerAccountNotInitialized
      else if rts_mint rts \<noteq> mint then fail ReferrerAccountMintMissmatch
      else if bump \<ge> 256 then Inl Panic
      else rbind (ok_or (pda (rts_referrer rts) reserve_key bump) Panic) (\<lambda>valid_pda.
        if rts_key \<noteq> valid_pda then fail ReferrerAccountWrongAddress
        else if rts_referrer rts \<noteq> owner_referrer then fail ReferrerAccountReferrerMissmatch
        else Inr ()))"

section \<open>What the balance checks establish\<close>

lemma check_reserve_simps [res_simps]:
  "check_reserve_emergency_mode r = Inr u \<longleftrightarrow> \<not> reserve_is_emergency_mode (rsv_config r)"
  "check_reserve_version r = Inr u \<longleftrightarrow> rsv_version r = of_nat PROGRAM_VERSION"
  "not_the_vault v k = Inr u \<longleftrightarrow> v \<noteq> k"
  by (simp_all add: check_reserve_emergency_mode_def check_reserve_version_def not_the_vault_def res_simps)

lemma moved_eq [res_simps]:
  "moved a (Additive n) = Inr b \<longleftrightarrow> unat b = unat a + unat n"
  "moved a (Subtractive n) = Inr b \<longleftrightarrow> unat n \<le> unat a \<and> unat b = unat a - unat n"
  by (auto simp: moved_def ov_eq)

text \<open>
  What an instruction moved in the vault is what it moved in the books, and tokens the books do
  not know of stay in the vault.
\<close>

lemma vault_checks_add:
  assumes "post_transfer_vault_balance_liquidity_reserve_checks vault' avail' vault avail (Additive n) = Inr ()"
  shows "unat vault' = unat vault + unat n" "unat avail' = unat avail + unat n"
    "unat vault' - unat avail' = unat vault - unat avail" "avail \<le> vault"
  using assms
  by (auto simp: post_transfer_vault_balance_liquidity_reserve_checks_def res_simps ov_eq word_le_nat_alt)

lemma vault_checks_sub:
  assumes "post_transfer_vault_balance_liquidity_reserve_checks vault' avail' vault avail (Subtractive n) = Inr ()"
  shows "unat vault' + unat n = unat vault" "unat avail' + unat n = unat avail"
    "unat vault' - unat avail' = unat vault - unat avail" "avail \<le> vault"
  using assms
  by (auto simp: post_transfer_vault_balance_liquidity_reserve_checks_def res_simps ov_eq word_le_nat_alt)

lemma uint_of_sint:
  fixes n :: i64
  shows "0 \<le> sint n \<Longrightarrow> uint n = sint n" and "sint n < 0 \<Longrightarrow> uint (- n) = - sint n"
proof -
  have b: "- (2 ^ 63) \<le> sint n" "sint n < 2 ^ 63" using sint_ge [of n] sint_lt [of n] by simp_all
  have "uint n = sint n mod 2 ^ 64" using uint_word_of_int [of "sint n", where 'a = 64] by simp
  then show "0 \<le> sint n \<Longrightarrow> uint n = sint n" using b by simp
  have "uint (- n) = (- sint n) mod 2 ^ 64"
    using uint_word_of_int [of "- sint n", where 'a = 64] by simp
  then show "sint n < 0 \<Longrightarrow> uint (- n) = - sint n" using b by simp
qed

lemma subtractive_signed_eq:
  "case subtractive_signed n of Additive a \<Rightarrow> sint n < 0 \<and> uint a = - sint n
     | Subtractive a \<Rightarrow> 0 \<le> sint n \<and> uint a = sint n"
  by (simp add: subtractive_signed_def uint_of_sint)

lemma queued_vault_checks_intro:
  assumes "unat n \<le> unat vault" "unat n \<le> unat queued"
    "unat vault' = unat vault - unat n" "unat queued' = unat queued - unat n"
  shows "post_transfer_owner_queued_collateral_vault_balance_checks vault' queued' vault queued
     (Subtractive n) = Inr ()"
proof -
  have "moved vault (Subtractive n) = Inr vault'" "moved queued (Subtractive n) = Inr queued'"
    using assms by (simp_all add: moved_eq)
  moreover have "uint vault - uint queued = uint vault' - uint queued'"
    using assms by (simp only: uint_nat)
  ultimately show ?thesis
    by (simp add: post_transfer_owner_queued_collateral_vault_balance_checks_def require_eq_def)
qed

lemma queued_vault_checks_intro_add:
  assumes "unat vault' = unat vault + unat n" "unat queued' = unat queued + unat n"
  shows "post_transfer_owner_queued_collateral_vault_balance_checks vault' queued' vault queued
     (Additive n) = Inr ()"
proof -
  have "moved vault (Additive n) = Inr vault'" "moved queued (Additive n) = Inr queued'"
    using assms by (simp_all add: moved_eq)
  moreover have "uint vault - uint queued = uint vault' - uint queued'"
    using assms by (simp only: uint_nat)
  ultimately show ?thesis
    by (simp add: post_transfer_owner_queued_collateral_vault_balance_checks_def require_eq_def)
qed

end
