(* ===== verification/Token_Program.thy ===== *)
theory Token_Program imports Lending_Checks begin

text \<open>
  The token program, which the handlers call to move, burn and mint tokens. Its code is not part of
  the repository: it is a parameter of the model, a record of the calls the program makes, with
  their documented effect on the balances as the assumptions of the locale \<open>token_calls\<close>. A
  balance belongs to a token account, named by its address or, for the vaults of the withdraw
  queue, by the owner the address is derived from.
\<close>

datatype token_acc = QueueVault pubkey | TokenAccount pubkey

type_synonym balances = "token_acc \<Rightarrow> u64"

record tokenlib =
  tk_transfer :: "balances \<Rightarrow> token_acc \<Rightarrow> token_acc \<Rightarrow> u64 \<Rightarrow> balances res"
  tk_transfer_checked :: "balances \<Rightarrow> token_acc \<Rightarrow> token_acc \<Rightarrow> u64 \<Rightarrow> balances res"
  tk_burn :: "balances \<Rightarrow> token_acc \<Rightarrow> u64 \<Rightarrow> balances res"
  tk_mint :: "balances \<Rightarrow> token_acc \<Rightarrow> u64 \<Rightarrow> balances res"

text \<open>
  Collateral tokens are plain tokens, whose transfers are exact. A transfer of liquidity takes the
  amount from the source; the receiver may get less, when the mint charges a transfer fee.
\<close>

locale token_calls =
  fixes T :: tokenlib
  assumes transfer: "tk_transfer T b x y n = Inr b' \<Longrightarrow> x \<noteq> y \<Longrightarrow>
      unat n \<le> unat (b x) \<and> unat (b y) + unat n < 2 ^ 64 \<and> b' = b(x := b x - n, y := b y + n)"
    and transfer_checked: "tk_transfer_checked T b x y n = Inr b' \<Longrightarrow> x \<noteq> y \<Longrightarrow>
      unat n \<le> unat (b x) \<and> b' x = b x - n \<and> unat (b' y) \<le> unat (b y) + unat n \<and>
      (\<forall>z. z \<noteq> x \<longrightarrow> z \<noteq> y \<longrightarrow> b' z = b z)"
    and burn: "tk_burn T b x n = Inr b' \<Longrightarrow> unat n \<le> unat (b x) \<and> b' = b(x := b x - n)"
    and mint: "tk_mint T b x n = Inr b' \<Longrightarrow> unat (b x) + unat n < 2 ^ 64 \<and> b' = b(x := b x + n)"
begin

lemma unat_minus: "unat (n :: u64) \<le> unat m \<Longrightarrow> unat (m - n) = unat m - unat n"
  by (simp add: unat_sub word_le_nat_alt)

lemma unat_plus: "unat (m :: u64) + unat n < 2 ^ 64 \<Longrightarrow> unat (m + n) = unat m + unat n"
  by (simp add: unat_add_lem [where 'a = 64, simplified])

lemma transfer_unat:
  assumes "tk_transfer T b x y n = Inr b'" "x \<noteq> y"
  shows "unat (b' x) + unat n = unat (b x)" "unat (b' y) = unat (b y) + unat n"
    "z \<noteq> x \<Longrightarrow> z \<noteq> y \<Longrightarrow> b' z = b z"
  using transfer [OF assms] assms(2) by (simp_all add: unat_minus unat_plus)

lemma transfer_checked_unat:
  assumes "tk_transfer_checked T b x y n = Inr b'" "x \<noteq> y"
  shows "unat (b' x) + unat n = unat (b x)" "z \<noteq> x \<Longrightarrow> z \<noteq> y \<Longrightarrow> b' z = b z"
  using transfer_checked [OF assms] by (simp_all add: unat_minus)

lemma burn_unat:
  assumes "tk_burn T b x n = Inr b'"
  shows "unat (b' x) + unat n = unat (b x)" "z \<noteq> x \<Longrightarrow> b' z = b z"
  using burn [OF assms] by (simp_all add: unat_minus)

end

text \<open>The token program without transfer fees, as a witness that the assumptions can hold.\<close>

definition plain_transfer :: "balances \<Rightarrow> token_acc \<Rightarrow> token_acc \<Rightarrow> u64 \<Rightarrow> balances res" where
  "plain_transfer b x y n =
     (if unat (b x) < unat n then Inl ProgramErr
      else if x = y then Inr b
      else if unat (b y) + unat n < 2 ^ 64 then Inr (b(x := b x - n, y := b y + n))
      else Inl ProgramErr)"

definition plain_tokens :: tokenlib where
  "plain_tokens = \<lparr> tk_transfer = plain_transfer, tk_transfer_checked = plain_transfer,
     tk_burn = (\<lambda>b x n. if unat n \<le> unat (b x) then Inr (b(x := b x - n)) else Inl ProgramErr),
     tk_mint = (\<lambda>b x n. if unat (b x) + unat n < 2 ^ 64 then Inr (b(x := b x + n)) else Inl ProgramErr) \<rparr>"

interpretation plain: token_calls plain_tokens
proof
  fix b :: balances and x y :: token_acc and n :: u64 and b' :: balances
  assume "tk_transfer plain_tokens b x y n = Inr b'" "x \<noteq> y"
  then show "unat n \<le> unat (b x) \<and> unat (b y) + unat n < 2 ^ 64 \<and> b' = b(x := b x - n, y := b y + n)"
    by (simp add: plain_tokens_def plain_transfer_def split: if_splits)
next
  fix b :: balances and x y :: token_acc and n :: u64 and b' :: balances
  assume t: "tk_transfer_checked plain_tokens b x y n = Inr b'" and xy: "x \<noteq> y"
  then have "\<not> unat (b x) < unat n" "unat (b y) + unat n < 2 ^ 64" "b' = b(x := b x - n, y := b y + n)"
    by (simp_all add: plain_tokens_def plain_transfer_def split: if_splits)
  then show "unat n \<le> unat (b x) \<and> b' x = b x - n \<and> unat (b' y) \<le> unat (b y) + unat n \<and>
      (\<forall>z. z \<noteq> x \<longrightarrow> z \<noteq> y \<longrightarrow> b' z = b z)"
    using xy by (simp add: unat_add_lem [where 'a = 64, simplified])
next
  fix b :: balances and x :: token_acc and n :: u64 and b' :: balances
  show "tk_burn plain_tokens b x n = Inr b' \<Longrightarrow> unat n \<le> unat (b x) \<and> b' = b(x := b x - n)"
    "tk_mint plain_tokens b x n = Inr b' \<Longrightarrow> unat (b x) + unat n < 2 ^ 64 \<and> b' = b(x := b x + n)"
    by (simp_all add: plain_tokens_def split: if_splits)
qed

end
