(* ===== verification/Withdraw_Queue.thy ===== *)
theory Withdraw_Queue imports Token_Program begin

text \<open>
  The withdraw queue of a reserve: the tickets, the vaults that hold the queued collateral tokens,
  and the four instructions on them (\<open>state/withdraw_ticket.rs\<close> and the handlers
  \<open>enqueue_to_withdraw\<close>, \<open>withdraw_queued_liquidity\<close>, \<open>cancel_withdraw_ticket\<close> and
  \<open>recover_invalid_ticket_collateral\<close>). The accounts derived from seeds are kept in maps indexed by
  the seeds: a ticket by its sequence number, a vault by its owner. Rent payments and log lines
  are left out.
\<close>

section \<open>State\<close>

datatype progress_callback_type = NoCallback | KlendQueueAccountingHandlerOnKvault

definition progress_callback_type_of_u8 :: "u8 \<Rightarrow> progress_callback_type option" where
  "progress_callback_type_of_u8 n = (if n = 0 then Some NoCallback
     else if n = 1 then Some KlendQueueAccountingHandlerOnKvault else None)"

fun progress_callback_type_to_u8 :: "progress_callback_type \<Rightarrow> u8" where
  "progress_callback_type_to_u8 NoCallback = 0"
| "progress_callback_type_to_u8 KlendQueueAccountingHandlerOnKvault = 1"

definition ticket_progress_callback_type :: "withdraw_ticket \<Rightarrow> progress_callback_type res" where
  "ticket_progress_callback_type t =
     ok_or (progress_callback_type_of_u8 (wt_progress_callback_type t)) Panic"

fun callback_program_address :: "pubkey \<Rightarrow> progress_callback_type \<Rightarrow> pubkey" where
  "callback_program_address kvault_program NoCallback = 0"
| "callback_program_address kvault_program KlendQueueAccountingHandlerOnKvault = kvault_program"

text \<open>What a handler sees of a token account.\<close>

record token_account =
  ta_address :: pubkey
  ta_mint :: pubkey
  ta_authority :: pubkey
  ta_program :: pubkey
  ta_delegate :: "pubkey option"
  ta_frozen :: bool

text \<open>
  The runtime: the extension checks, the addresses of associated token accounts and of the base
  authorities of vaults, the ids of the vault and the token program, and the callback into the
  vault program.
\<close>

record queue_env =
  env_token_checks :: token_checks
  env_ata :: "pubkey \<Rightarrow> pubkey \<Rightarrow> pubkey \<Rightarrow> pubkey"
  env_base_authority :: "pubkey \<Rightarrow> pubkey"
  env_kvault_program :: pubkey
  env_spl_token :: pubkey
  env_callback :: "pubkey \<Rightarrow> u64 \<Rightarrow> ticketed_withdraw_result \<Rightarrow> unit res"

record queue_world =
  qw_market_key :: pubkey
  qw_market :: lending_market
  qw_reserve_key :: pubkey
  qw_reserve :: reserve
  qw_tickets :: "u64 \<Rightarrow> withdraw_ticket option"
  qw_balances :: balances

text \<open>The constraint of Anchor on the market of a reserve.\<close>

definition has_one_lending_market :: "queue_world \<Rightarrow> unit res" where
  "has_one_lending_market w =
     (if rsv_lending_market (qw_reserve w) = qw_market_key w then Inr () else Inl ProgramErr)"

definition require_ta :: "bool \<Rightarrow> unit res" where
  "require_ta b = (if b then Inr () else Inl ProgramErr)"

definition refresh_without_price ::
  "numlib \<Rightarrow> clock \<Rightarrow> lending_market \<Rightarrow> reserve \<Rightarrow> reserve res" where
  "refresh_without_price L clk m r =
     refresh_reserve L r clk None (lm_referral_fee_bps m) (lm_reserve_rewards_max_apr_bps m)"

section \<open>Issuing a ticket\<close>

record vault_account =
  va_key :: pubkey
  va_owner :: pubkey
  va_data :: "u8 list"

definition VAULT_STATE_DISCRIMINATOR :: "u8 list" where
  "VAULT_STATE_DISCRIMINATOR = [228, 196, 82, 165, 98, 210, 235, 152]"

definition extract_vault_address_from_kvault_signed_accounts ::
  "queue_env \<Rightarrow> pubkey \<Rightarrow> vault_account option \<Rightarrow> pubkey res" where
  "extract_vault_address_from_kvault_signed_accounts env owner account_0 =
     (case account_0 of
        None \<Rightarrow> fail InvalidWithdrawTicketProgressCallbackConfig
      | Some v \<Rightarrow>
          if va_owner v \<noteq> env_kvault_program env
          then fail InvalidWithdrawTicketProgressCallbackConfig
          else if take (length VAULT_STATE_DISCRIMINATOR) (va_data v) \<noteq> VAULT_STATE_DISCRIMINATOR
          then fail InvalidWithdrawTicketProgressCallbackConfig
          else if owner \<noteq> env_base_authority env (va_key v)
          then fail InvalidWithdrawTicketProgressCallbackConfig
          else Inr (va_key v))"

definition extract_progress_callback_custom_accounts ::
  "queue_env \<Rightarrow> pubkey \<Rightarrow> vault_account option \<Rightarrow> progress_callback_type \<Rightarrow> pubkey list res" where
  "extract_progress_callback_custom_accounts env owner account_0 callback =
     (case callback of
        NoCallback \<Rightarrow> Inr [0, 0]
      | KlendQueueAccountingHandlerOnKvault \<Rightarrow>
          rbind (extract_vault_address_from_kvault_signed_accounts env owner account_0) (\<lambda>v.
          Inr [v, 0]))"

record enqueue_accounts =
  ea_owner :: pubkey
  ea_user_source_collateral_ta :: token_account
  ea_user_destination_liquidity_ta :: token_account
  ea_progress_callback_custom_account_0 :: "vault_account option"

definition enqueue_constraints :: "queue_env \<Rightarrow> enqueue_accounts \<Rightarrow> queue_world \<Rightarrow> unit res" where
  "enqueue_constraints env a w =
     (let r = qw_reserve w; source = ea_user_source_collateral_ta a;
          destination = ea_user_destination_liquidity_ta a
      in rbind (has_one_lending_market w) (\<lambda>_.
         rbind (require_ta (ta_mint source = rc_mint_pubkey (rsv_collateral r) \<and>
                  ta_authority source = ea_owner a \<and> ta_program source = env_spl_token env)) (\<lambda>_.
         rbind (require_ta (ta_mint destination = rl_mint_pubkey (rsv_liquidity r) \<and>
                  ta_authority destination = ea_owner a \<and>
                  ta_program destination = token_program (rsv_liquidity r))) (\<lambda>_.
         rbind (ensure (ta_delegate destination = None) InvalidTokenAccountState) (\<lambda>_.
         rbind (ensure (\<not> ta_frozen destination) InvalidTokenAccountState) (\<lambda>_.
         require_ta (qw_tickets w (next_issued_ticket_sequence_number (rsv_withdraw_queue r)) = None)))))))"

definition process_enqueue_to_withdraw ::
  "numlib \<Rightarrow> tokenlib \<Rightarrow> queue_env \<Rightarrow> clock \<Rightarrow> enqueue_accounts \<Rightarrow> u64 \<Rightarrow> progress_callback_type \<Rightarrow>
   queue_world \<Rightarrow> queue_world res" where
  "process_enqueue_to_withdraw L T env clk a collateral_amount callback w =
     (let m = qw_market w; owner = ea_owner a; destination = ta_address (ea_user_destination_liquidity_ta a)
      in rbind (enqueue_constraints env a w) (\<lambda>_.
         rbind (emergency_mode_disabled m) (\<lambda>_.
         rbind (enqueue_to_withdraw_checks (env_token_checks env) (qw_reserve w)
                  (rl_mint_pubkey (rsv_liquidity (qw_reserve w))) destination) (\<lambda>_.
         rbind (ensure (is_withdraw_ticket_issuance_enabled m) WithdrawTicketIssuanceDisabled) (\<lambda>_.
         rbind (refresh_without_price L clk m (qw_reserve w)) (\<lambda>r.
         let initial_vault = qw_balances w (QueueVault owner);
             initial_queued = queued_collateral_amount (rsv_withdraw_queue r)
         in rbind (enqueue_to_withdraw L m r collateral_amount) (\<lambda>(r, sequence_number).
         rbind (extract_progress_callback_custom_accounts env owner
                  (ea_progress_callback_custom_account_0 a) callback) (\<lambda>custom_accounts.
         rbind (clock_timestamp (clk_unix_timestamp clk)) (\<lambda>created_at.
         let ticket = \<lparr> wt_sequence_number = sequence_number, wt_owner = owner,
               wt_reserve = qw_reserve_key w, wt_user_destination_liquidity_ta = destination,
               wt_queued_collateral_amount = collateral_amount,
               wt_created_at_timestamp = created_at, wt_invalid = 0,
               wt_progress_callback_type = progress_callback_type_to_u8 callback,
               wt_progress_callback_custom_accounts = custom_accounts \<rparr>
         in rbind (tk_transfer T (qw_balances w) (TokenAccount (ta_address (ea_user_source_collateral_ta a)))
                     (QueueVault owner) collateral_amount) (\<lambda>balances.
         rbind (post_transfer_owner_queued_collateral_vault_balance_checks
                  (balances (QueueVault owner)) (queued_collateral_amount (rsv_withdraw_queue r))
                  initial_vault initial_queued (Additive collateral_amount)) (\<lambda>_.
         Inr (w\<lparr> qw_reserve := r, qw_balances := balances,
                 qw_tickets := (qw_tickets w)(sequence_number \<mapsto> ticket) \<rparr>))))))))))))"

section \<open>Processing the head of the queue\<close>

datatype destination_validity = DestinationValid | DestinationInvalid | AtaToBeCreated

text \<open>
  The destination as it is found: the program that owns the account, whether it holds data, the
  token account if the data unpacks to one, and the outcomes of the extension checks.
\<close>

record destination_account =
  da_address :: pubkey
  da_owned_by_system :: bool
  da_owned_by :: pubkey
  da_data_is_empty :: bool
  da_token_account :: "token_account option"
  da_mint_extensions_ok :: bool
  da_mint_default_state_ok :: bool
  da_extensions_ok :: bool

definition resolve_destination ::
  "queue_env \<Rightarrow> destination_account \<Rightarrow> pubkey \<Rightarrow> pubkey \<Rightarrow> pubkey \<Rightarrow> destination_validity" where
  "resolve_destination env d owner mint program =
     (let is_system_owned = da_owned_by_system d;
          is_token_program_owned = (\<not> da_owned_by_system d \<and> da_owned_by d = program)
      in if \<not> is_system_owned \<and> \<not> is_token_program_owned then DestinationInvalid
         else if \<not> da_mint_extensions_ok d then DestinationInvalid
         else if da_data_is_empty d then
           (if da_address d = env_ata env owner mint program
            then if da_mint_default_state_ok d then AtaToBeCreated else DestinationInvalid
            else DestinationInvalid)
         else if is_system_owned then DestinationInvalid
         else case da_token_account d of
           None \<Rightarrow> DestinationInvalid
         | Some ta \<Rightarrow>
             if ta_authority ta \<noteq> owner \<or> ta_mint ta \<noteq> mint then DestinationInvalid
             else if ta_delegate ta \<noteq> None \<or> ta_frozen ta then DestinationInvalid
             else if \<not> da_extensions_ok d then DestinationInvalid
             else DestinationValid)"

record withdraw_accounts =
  wa_user_destination_liquidity :: destination_account
  wa_progress_callback_program :: "pubkey option"
  wa_progress_callback_custom_account_0 :: "pubkey option"
  wa_progress_callback_custom_account_1 :: "pubkey option"

definition address_is :: "pubkey option \<Rightarrow> pubkey \<Rightarrow> unit res" where
  "address_is account expected = require_ta (case account of None \<Rightarrow> True | Some k \<Rightarrow> k = expected)"

definition head_number :: "queue_world \<Rightarrow> u64" where
  "head_number w = next_withdrawable_ticket_sequence_number (rsv_withdraw_queue (qw_reserve w))"

definition withdraw_constraints ::
  "queue_env \<Rightarrow> withdraw_accounts \<Rightarrow> queue_world \<Rightarrow> withdraw_ticket res" where
  "withdraw_constraints env a w =
     rbind (has_one_lending_market w) (\<lambda>_.
     rbind (ok_or (qw_tickets w (head_number w)) ProgramErr) (\<lambda>t.
     rbind (require_ta (da_address (wa_user_destination_liquidity a) =
                          wt_user_destination_liquidity_ta t)) (\<lambda>_.
     rbind (require_ta (wt_reserve t = qw_reserve_key w)) (\<lambda>_.
     rbind (ensure (ticket_is_valid t) WithdrawTicketInvalid) (\<lambda>_.
     rbind (ticket_progress_callback_type t) (\<lambda>callback.
     rbind (address_is (wa_progress_callback_program a)
              (callback_program_address (env_kvault_program env) callback)) (\<lambda>_.
     rbind (address_is (wa_progress_callback_custom_account_0 a)
              (wt_progress_callback_custom_accounts t ! 0)) (\<lambda>_.
     rbind (address_is (wa_progress_callback_custom_account_1 a)
              (wt_progress_callback_custom_accounts t ! 1)) (\<lambda>_.
     Inr t)))))))))"

definition cpi_update_klend_queue_accounting ::
  "queue_env \<Rightarrow> withdraw_accounts \<Rightarrow> u64 \<Rightarrow> ticketed_withdraw_result \<Rightarrow> unit res" where
  "cpi_update_klend_queue_accounting env a sequence_number result =
     (case (wa_progress_callback_program a, wa_progress_callback_custom_account_0 a) of
        (Some program, Some vault) \<Rightarrow> env_callback env vault sequence_number result
      | _ \<Rightarrow> fail WithdrawTicketProgressCallbackAccountsMissing)"

definition redeem_head ::
  "numlib \<Rightarrow> tokenlib \<Rightarrow> queue_env \<Rightarrow> clock \<Rightarrow> withdraw_accounts \<Rightarrow> bool \<Rightarrow> withdraw_ticket \<Rightarrow>
   queue_world \<Rightarrow> queue_world res" where
  "redeem_head L T env clk a require_closing_ticket ticket w =
     (let m = qw_market w; owner = wt_owner ticket; n = head_number w;
          supply_vault = TokenAccount (rl_supply_vault (rsv_liquidity (qw_reserve w)))
      in rbind (refresh_without_price L clk m (qw_reserve w)) (\<lambda>r0.
         rbind (withdraw_queued_liquidity L m r0 ticket clk) (\<lambda>(r, ticket, result).
         let burn = twr_collateral_amount_to_burn result; paid = twr_liquidity_amount_to_withdraw result
         in rbind (tk_burn T (qw_balances w) (QueueVault owner) burn) (\<lambda>balances1.
         rbind (tk_transfer_checked T balances1 supply_vault
                  (TokenAccount (da_address (wa_user_destination_liquidity a))) paid) (\<lambda>balances.
         rbind (ticket_progress_callback_type ticket) (\<lambda>callback.
         rbind (case callback of
                  NoCallback \<Rightarrow> Inr ()
                | KlendQueueAccountingHandlerOnKvault \<Rightarrow>
                    cpi_update_klend_queue_accounting env a (wt_sequence_number ticket) result) (\<lambda>_.
         rbind (post_transfer_vault_balance_liquidity_reserve_checks
                  (balances supply_vault) (total_available_liquidity_amount r)
                  (qw_balances w supply_vault) (total_available_liquidity_amount r0)
                  (Subtractive paid)) (\<lambda>_.
         rbind (post_transfer_owner_queued_collateral_vault_balance_checks
                  (balances (QueueVault owner)) (queued_collateral_amount (rsv_withdraw_queue r))
                  (qw_balances w (QueueVault owner)) (queued_collateral_amount (rsv_withdraw_queue r0))
                  (Subtractive burn)) (\<lambda>_.
         let w = w\<lparr> qw_reserve := r, qw_balances := balances \<rparr>
         in if wt_queued_collateral_amount ticket = 0
            then Inr (w\<lparr> qw_tickets := (qw_tickets w)(n := None) \<rparr>)
            else if require_closing_ticket then fail WithdrawTicketRequiresFullRedemption
            else Inr (w\<lparr> qw_tickets := (qw_tickets w)(n \<mapsto> ticket) \<rparr>))))))))))"

definition process_withdraw_queued_liquidity ::
  "numlib \<Rightarrow> tokenlib \<Rightarrow> queue_env \<Rightarrow> clock \<Rightarrow> withdraw_accounts \<Rightarrow> queue_world \<Rightarrow>
   (queue_world \<times> bool) res" where
  "process_withdraw_queued_liquidity L T env clk a w =
     rbind (withdraw_constraints env a w) (\<lambda>ticket.
     rbind (emergency_mode_disabled (qw_market w)) (\<lambda>_.
     rbind (withdraw_queued_liquidity_checks (qw_reserve w)
              (da_address (wa_user_destination_liquidity a))) (\<lambda>_.
     rbind (ensure (is_withdraw_ticket_redemption_enabled (qw_market w))
              WithdrawTicketRedemptionDisabled) (\<lambda>_.
     let r = qw_reserve w; n = head_number w
     in if wt_queued_collateral_amount ticket = 0 then
          rbind (queue_dequeue (rsv_withdraw_queue r) 0 True) (\<lambda>q.
          Inr (w\<lparr> qw_reserve := r\<lparr> rsv_withdraw_queue := q \<rparr>,
                  qw_tickets := (qw_tickets w)(n := None) \<rparr>, True))
        else case resolve_destination env (wa_user_destination_liquidity a) (wt_owner ticket)
                    (rl_mint_pubkey (rsv_liquidity r)) (token_program (rsv_liquidity r)) of
          AtaToBeCreated \<Rightarrow> rbind (redeem_head L T env clk a True ticket w) (\<lambda>w. Inr (w, True))
        | DestinationInvalid \<Rightarrow>
            rbind (queue_dequeue (rsv_withdraw_queue r) (wt_queued_collateral_amount ticket) True) (\<lambda>q.
            Inr (w\<lparr> qw_reserve := r\<lparr> rsv_withdraw_queue := q \<rparr>,
                    qw_tickets := (qw_tickets w)(n \<mapsto> ticket\<lparr> wt_invalid := 1 \<rparr>) \<rparr>, False))
        | DestinationValid \<Rightarrow> rbind (redeem_head L T env clk a False ticket w) (\<lambda>w. Inr (w, True))))))"

section \<open>Leaving the queue\<close>

record cancel_accounts =
  ca_owner :: pubkey
  ca_user_destination_collateral :: token_account

definition process_cancel_withdraw_ticket ::
  "numlib \<Rightarrow> tokenlib \<Rightarrow> queue_env \<Rightarrow> clock \<Rightarrow> cancel_accounts \<Rightarrow> u64 \<Rightarrow> u64 \<Rightarrow>
   queue_world \<Rightarrow> queue_world res" where
  "process_cancel_withdraw_ticket L T env clk a sequence_number collateral_amount_to_cancel w =
     (let m = qw_market w; owner = ca_owner a; destination = ca_user_destination_collateral a;
          user = TokenAccount (ta_address destination)
      in rbind (has_one_lending_market w) (\<lambda>_.
         rbind (require_ta (ta_mint destination = rc_mint_pubkey (rsv_collateral (qw_reserve w)) \<and>
                  ta_authority destination = owner)) (\<lambda>_.
         rbind (ensure (ta_delegate destination = None) InvalidTokenAccountState) (\<lambda>_.
         rbind (ok_or (qw_tickets w sequence_number) ProgramErr) (\<lambda>ticket.
         rbind (require_ta (wt_reserve ticket = qw_reserve_key w)) (\<lambda>_.
         rbind (ensure (wt_owner ticket = owner) InvalidSigner) (\<lambda>_.
         rbind (ensure (ticket_is_valid ticket) WithdrawTicketInvalid) (\<lambda>_.
         rbind (ensure (\<not> is_fully_cancelled ticket) WithdrawTicketFullyCancelled) (\<lambda>_.
         rbind (emergency_mode_disabled m) (\<lambda>_.
         rbind (cancel_withdraw_ticket_checks (qw_reserve w)) (\<lambda>_.
         rbind (ensure (is_withdraw_ticket_cancellation_enabled m) WithdrawTicketCancellationDisabled) (\<lambda>_.
         rbind (refresh_without_price L clk m (qw_reserve w)) (\<lambda>r0.
         rbind (cancel_withdraw_ticket L m r0 ticket collateral_amount_to_cancel)
           (\<lambda>(r, ticket, amount_to_cancel).
         rbind (tk_transfer T (qw_balances w) (QueueVault owner) user amount_to_cancel) (\<lambda>balances.
         rbind (post_cancel_withdraw_ticket_balance_checks
                  (balances (QueueVault owner)) (balances user)
                  (queued_collateral_amount (rsv_withdraw_queue r))
                  (qw_balances w (QueueVault owner)) (qw_balances w user)
                  (queued_collateral_amount (rsv_withdraw_queue r0)) amount_to_cancel) (\<lambda>_.
         Inr (w\<lparr> qw_reserve := r, qw_balances := balances,
                 qw_tickets := (qw_tickets w)(sequence_number \<mapsto> ticket) \<rparr>)))))))))))))))))"

record recover_accounts =
  ra_payer :: pubkey
  ra_user_source_collateral :: token_account

definition is_allowed_signer_to_use_destination_token_account ::
  "queue_env \<Rightarrow> pubkey \<Rightarrow> pubkey \<Rightarrow> pubkey \<Rightarrow> pubkey \<Rightarrow> pubkey \<Rightarrow> bool" where
  "is_allowed_signer_to_use_destination_token_account env signer destination_ta ticket_owner mint program \<longleftrightarrow>
     (if signer = ticket_owner then True else destination_ta = env_ata env ticket_owner mint program)"

definition process_recover_invalid_ticket_collateral ::
  "tokenlib \<Rightarrow> queue_env \<Rightarrow> recover_accounts \<Rightarrow> u64 \<Rightarrow> queue_world \<Rightarrow> queue_world res" where
  "process_recover_invalid_ticket_collateral T env a sequence_number w =
     (let destination = ra_user_source_collateral a; user = TokenAccount (ta_address destination);
          mint = rc_mint_pubkey (rsv_collateral (qw_reserve w))
      in rbind (has_one_lending_market w) (\<lambda>_.
         rbind (ok_or (qw_tickets w sequence_number) ProgramErr) (\<lambda>ticket.
         rbind (require_ta (ta_mint destination = mint \<and>
                  ta_authority destination = wt_owner ticket)) (\<lambda>_.
         rbind (ensure (ta_delegate destination = None) InvalidTokenAccountState) (\<lambda>_.
         rbind (ensure (is_allowed_signer_to_use_destination_token_account env (ra_payer a)
                  (ta_address destination) (wt_owner ticket) mint (env_spl_token env)) InvalidSigner) (\<lambda>_.
         rbind (require_ta (wt_reserve ticket = qw_reserve_key w)) (\<lambda>_.
         rbind (ensure (\<not> ticket_is_valid ticket) WithdrawTicketStillValid) (\<lambda>_.
         rbind (emergency_mode_disabled (qw_market w)) (\<lambda>_.
         rbind (recover_invalid_ticket_collateral_checks (qw_reserve w)) (\<lambda>_.
         rbind (tk_transfer T (qw_balances w) (QueueVault (wt_owner ticket)) user
                  (wt_queued_collateral_amount ticket)) (\<lambda>balances.
         rbind (post_ticket_collateral_recovery_owner_queued_collateral_vault_balance_checks
                  (balances (QueueVault (wt_owner ticket))) (balances user)
                  (qw_balances w (QueueVault (wt_owner ticket))) (qw_balances w user)
                  (wt_queued_collateral_amount ticket)) (\<lambda>_.
         Inr (w\<lparr> qw_balances := balances,
                 qw_tickets := (qw_tickets w)(sequence_number := None) \<rparr>)))))))))))))"

end
