(* ===== verification/Queue_Safety.thy ===== *)
theory Queue_Safety imports Withdraw_Queue Reserve_Histories begin

text \<open>
  The withdraw queue over arbitrary histories: what the reserve records of it, the tickets and the
  vaults always agree, the ticket at the head can always be processed, and processing ends.
\<close>

section \<open>Tallies of tickets\<close>

lemma word_eq_plus_one:
  fixes a b :: "'a::len word"
  assumes "unat a = unat b + 1"
  shows "a = b + 1"
proof -
  have "a = of_nat (unat a)" by simp
  also have "\<dots> = of_nat (unat b) + 1" by (simp only: assms of_nat_add of_nat_1)
  finally show ?thesis by simp
qed

definition tally :: "(withdraw_ticket \<Rightarrow> bool) \<Rightarrow> (u64 \<Rightarrow> withdraw_ticket option) \<Rightarrow> nat" where
  "tally P tickets = (\<Sum>s\<in>UNIV. case tickets s of
     Some t \<Rightarrow> if P t then unat (wt_queued_collateral_amount t) else 0 | None \<Rightarrow> 0)"

definition ticket_weight :: "(withdraw_ticket \<Rightarrow> bool) \<Rightarrow> withdraw_ticket option \<Rightarrow> nat" where
  "ticket_weight P x = (case x of
     Some t \<Rightarrow> if P t then unat (wt_queued_collateral_amount t) else 0 | None \<Rightarrow> 0)"

lemma ticket_weight_simps [simp]:
  "ticket_weight P None = 0"
  "ticket_weight P (Some t) = (if P t then unat (wt_queued_collateral_amount t) else 0)"
  by (simp_all add: ticket_weight_def)

lemma tally_weight: "tally P tickets = (\<Sum>s\<in>UNIV. ticket_weight P (tickets s))"
  by (simp add: tally_def ticket_weight_def)

lemma tally_upd:
  "tally P (tickets(s := x)) + ticket_weight P (tickets s) = tally P tickets + ticket_weight P x"
proof -
  have "tally P (tickets(s := x)) = ticket_weight P x + (\<Sum>k\<in>UNIV - {s}. ticket_weight P (tickets k))"
    unfolding tally_weight by (subst sum.remove [of UNIV s]) (auto intro!: sum.cong)
  moreover have "tally P tickets = ticket_weight P (tickets s) + (\<Sum>k\<in>UNIV - {s}. ticket_weight P (tickets k))"
    unfolding tally_weight by (subst sum.remove [of UNIV s]) auto
  ultimately show ?thesis by simp
qed

lemma tally_le: "ticket_weight P (tickets s) \<le> tally P tickets"
  unfolding tally_weight by (rule member_le_sum) auto

lemma tally_empty [simp]: "tally P (\<lambda>_. None) = 0"
  by (simp add: tally_def)

section \<open>The invariant\<close>

definition qw_queue :: "queue_world \<Rightarrow> withdraw_queue" where
  "qw_queue w = rsv_withdraw_queue (qw_reserve w)"

definition waiting :: "queue_world \<Rightarrow> u64 \<Rightarrow> bool" where
  "waiting w s \<longleftrightarrow> next_withdrawable_ticket_sequence_number (qw_queue w) \<le> s \<and>
     s < next_issued_ticket_sequence_number (qw_queue w)"

definition owned_by :: "pubkey \<Rightarrow> withdraw_ticket \<Rightarrow> bool" where
  "owned_by owner t \<longleftrightarrow> wt_owner t = owner"

definition queue_ok :: "queue_world \<Rightarrow> bool" where
  "queue_ok w \<longleftrightarrow>
     next_withdrawable_ticket_sequence_number (qw_queue w) \<le> next_issued_ticket_sequence_number (qw_queue w) \<and>
     (\<forall>s. waiting w s \<longleftrightarrow> (\<exists>t. qw_tickets w s = Some t \<and> ticket_is_valid t)) \<and>
     (\<forall>s t. qw_tickets w s = Some t \<longrightarrow> s < next_issued_ticket_sequence_number (qw_queue w) \<and>
        wt_sequence_number t = s \<and> wt_reserve t = qw_reserve_key w \<and>
        progress_callback_type_of_u8 (wt_progress_callback_type t) \<noteq> None) \<and>
     unat (queued_collateral_amount (qw_queue w)) = tally ticket_is_valid (qw_tickets w) \<and>
     (\<forall>owner. tally (owned_by owner) (qw_tickets w) \<le> unat (qw_balances w (QueueVault owner)))"

definition queue_empty :: "queue_world \<Rightarrow> bool" where
  "queue_empty w \<longleftrightarrow> qw_queue w = withdraw_queue_default \<and> qw_tickets w = (\<lambda>_. None)"

text \<open>
  What everything else may do: other instructions and other programs may change the market, the
  rest of the reserve and the balances, but not the queue and the tickets, and they cannot take
  tokens out of the vaults of the queue, whose authority is the market.
\<close>

definition elsewhere :: "queue_world \<Rightarrow> queue_world \<Rightarrow> bool" where
  "elsewhere w w' \<longleftrightarrow> qw_queue w' = qw_queue w \<and> qw_tickets w' = qw_tickets w \<and>
     qw_reserve_key w' = qw_reserve_key w \<and>
     (\<forall>owner. qw_balances w (QueueVault owner) \<le> qw_balances w' (QueueVault owner))"

inductive queue_reaches :: "numlib \<Rightarrow> tokenlib \<Rightarrow> queue_env \<Rightarrow> queue_world \<Rightarrow> queue_world \<Rightarrow> bool"
  for L T env where
  queue_start: "queue_empty w \<Longrightarrow> queue_reaches L T env w w"
| queue_enqueue: "queue_reaches L T env w w' \<Longrightarrow>
    process_enqueue_to_withdraw L T env clk ea amount callback w' = Inr w'' \<Longrightarrow>
    queue_reaches L T env w w''"
| queue_withdraw: "queue_reaches L T env w w' \<Longrightarrow>
    process_withdraw_queued_liquidity L T env clk wa w' = Inr (w'', paid) \<Longrightarrow>
    queue_reaches L T env w w''"
| queue_cancel: "queue_reaches L T env w w' \<Longrightarrow>
    process_cancel_withdraw_ticket L T env clk ca s amount w' = Inr w'' \<Longrightarrow>
    queue_reaches L T env w w''"
| queue_recover: "queue_reaches L T env w w' \<Longrightarrow>
    process_recover_invalid_ticket_collateral T env ra s w' = Inr w'' \<Longrightarrow>
    queue_reaches L T env w w''"
| queue_elsewhere: "queue_reaches L T env w w' \<Longrightarrow> elsewhere w' w'' \<Longrightarrow> queue_reaches L T env w w''"

section \<open>Effects of the handlers\<close>

lemma callback_round_trip [simp]:
  "progress_callback_type_of_u8 (progress_callback_type_to_u8 c) = Some c"
  by (cases c) (simp_all add: progress_callback_type_of_u8_def)

lemma queue_enqueue_eq:
  "queue_enqueue q a = Inr (q', n) \<longleftrightarrow>
     n = next_issued_ticket_sequence_number q \<and>
     unat (queued_collateral_amount q') = unat (queued_collateral_amount q) + unat a \<and>
     unat (next_issued_ticket_sequence_number q') = unat (next_issued_ticket_sequence_number q) + 1 \<and>
     next_withdrawable_ticket_sequence_number q' = next_withdrawable_ticket_sequence_number q"
  by (cases q; cases q') (auto simp: queue_enqueue_def rbind_eq_Inr ov_eq)

lemma queue_dequeue_eq:
  "queue_dequeue q a closed = Inr q' \<longleftrightarrow>
     unat a \<le> unat (queued_collateral_amount q) \<and>
     unat (queued_collateral_amount q') = unat (queued_collateral_amount q) - unat a \<and>
     unat (next_withdrawable_ticket_sequence_number q') =
       unat (next_withdrawable_ticket_sequence_number q) + (if closed then 1 else 0) \<and>
     next_issued_ticket_sequence_number q' = next_issued_ticket_sequence_number q"
  by ((cases q; cases q'; cases closed), (auto simp: queue_dequeue_def rbind_eq_Inr ov_eq))
    (simp add: word_unat_eq_iff)

lemma queue_dequeue_ex:
  assumes "unat x \<le> unat (queued_collateral_amount q)"
    and "unat (next_withdrawable_ticket_sequence_number q) + 1 < 2 ^ 64"
  shows "\<exists>q'. queue_dequeue q x True = Inr q'"
proof -
  have "\<exists>a. sub_ov (queued_collateral_amount q) x = Inr a"
    using assms(1) by (cases "sub_ov (queued_collateral_amount q) x") (auto simp: ov_eq)
  moreover have "\<exists>n. add_ov (next_withdrawable_ticket_sequence_number q) 1 = Inr n"
    using assms(2) by (cases "add_ov (next_withdrawable_ticket_sequence_number q) 1") (auto simp: ov_eq)
  ultimately show ?thesis by (auto simp: queue_dequeue_def)
qed

context num_lib begin

lemma refresh_keeps_queue:
  assumes "refresh_without_price L clk m r = Inr r'"
  shows "rsv_withdraw_queue r' = rsv_withdraw_queue r" "rsv_lending_market r' = rsv_lending_market r"
proof -
  from assms obtain r1 r2 x r3 st where
    r1: "reserve_accrue_interest L r (clk_slot clk) (lm_referral_fee_bps m) = Inr r1"
    and r2: "distribute_rewards L r1 (clk_slot clk) (lm_reserve_rewards_max_apr_bps m) = Inr (r2, x)"
    and r3: "refresh_price r2 clk None = Inr (r3, st)"
    and r': "r' = r3\<lparr> rsv_last_update := update_slot (rsv_last_update r3) (clk_slot clk) st \<rparr>"
    by (auto simp: refresh_without_price_def refresh_reserve_def Let_def rbind_eq_Inr)
  have "rsv_withdraw_queue r1 = rsv_withdraw_queue r \<and> rsv_lending_market r1 = rsv_lending_market r"
    using r1 by (auto simp: reserve_accrue_interest_def rbind_eq_Inr split: if_splits)
  moreover have "rsv_withdraw_queue r2 = rsv_withdraw_queue r1 \<and> rsv_lending_market r2 = rsv_lending_market r1"
    using distribute_rewards_cases [OF r2] by auto
  moreover have "rsv_withdraw_queue r3 = rsv_withdraw_queue r2 \<and> rsv_lending_market r3 = rsv_lending_market r2"
    using r3 by (auto simp: refresh_price_def rbind_eq_Inr split: if_splits)
  ultimately show "rsv_withdraw_queue r' = rsv_withdraw_queue r" "rsv_lending_market r' = rsv_lending_market r"
    by (simp_all add: r')
qed

lemma redeem_keeps_queue:
  assumes "redeem_reserve_collateral L r amount clk opts = Inr (r', paid)"
  shows "rsv_withdraw_queue r' = rsv_withdraw_queue r"
proof -
  from assms obtain r1 t r2 where
    r1: "reserve_redeem_collateral L r amount (use_withdraw_queue opts) = Inr (r1, paid)"
    and r2: "refresh_reserve_limit_timestamps L r1 t = Inr r2"
    and r': "r' = mark_reserve_stale r2 \<or>
      (\<exists>caps. r' = (mark_reserve_stale r2)\<lparr> rsv_config := (rsv_config r2)\<lparr> deposit_withdrawal_cap := caps \<rparr> \<rparr>)"
    by (auto simp: redeem_reserve_collateral_def Let_def res_simps split: if_splits)
  have "rsv_withdraw_queue r1 = rsv_withdraw_queue r"
    using r1 withdraw_takes_available [of "use_withdraw_queue opts" r paid]
    by (auto simp: reserve_redeem_collateral_def rbind_eq_Inr take_available_eq)
  with limit_timestamps(4) [OF r2] r' show ?thesis by auto
qed

lemma withdraw_queued_effect:
  assumes "withdraw_queued_liquidity L m r0 t clk = Inr (r, t', res)"
  shows "\<exists>max rem r1 q. total_redeemable_collateral_amount L r0 = Inr max \<and> max \<noteq> 0 \<and>
    twr_collateral_amount_to_burn res = min (wt_queued_collateral_amount t) max \<and>
    sub_ov (wt_queued_collateral_amount t) (twr_collateral_amount_to_burn res) = Inr rem \<and>
    t' = t\<lparr> wt_queued_collateral_amount := rem \<rparr> \<and>
    redeem_reserve_collateral L r0 (twr_collateral_amount_to_burn res) clk
      FOR_WITHDRAW_QUEUED_LIQUIDITY = Inr (r1, twr_liquidity_amount_to_withdraw res) \<and>
    queue_dequeue (rsv_withdraw_queue r1) (twr_collateral_amount_to_burn res) (rem = 0) = Inr q \<and>
    r = r1\<lparr> rsv_withdraw_queue := q \<rparr>"
proof -
  from assms obtain max where max: "total_redeemable_collateral_amount L r0 = Inr max"
    by (auto simp: withdraw_queued_liquidity_def rbind_eq_Inr)
  have ne: "max \<noteq> 0"
  proof
    assume "max = 0" with max assms show False by (simp add: withdraw_queued_liquidity_def fail_def)
  qed
  from assms ne show ?thesis
    by (clarsimp simp: withdraw_queued_liquidity_def max Let_def rbind_eq_Inr)
qed

lemma enqueue_effect:
  assumes "process_enqueue_to_withdraw L T env clk a amount cb w = Inr w'"
  shows "\<exists>q n t b. queue_enqueue (qw_queue w) amount = Inr (q, n) \<and> qw_tickets w n = None \<and>
    tk_transfer T (qw_balances w) (TokenAccount (ta_address (ea_user_source_collateral_ta a)))
      (QueueVault (wt_owner t)) amount = Inr b \<and>
    wt_queued_collateral_amount t = amount \<and> ticket_is_valid t \<and> wt_sequence_number t = n \<and>
    wt_reserve t = qw_reserve_key w \<and> progress_callback_type_of_u8 (wt_progress_callback_type t) \<noteq> None \<and>
    qw_queue w' = q \<and> qw_tickets w' = (qw_tickets w)(n \<mapsto> t) \<and> qw_balances w' = b \<and>
    qw_reserve_key w' = qw_reserve_key w"
proof -
  from assms obtain r r' n custom created b where c: "enqueue_constraints env a w = Inr ()"
    and r: "refresh_without_price L clk (qw_market w) (qw_reserve w) = Inr r"
    and r': "enqueue_to_withdraw L (qw_market w) r amount = Inr (r', n)"
    and b: "tk_transfer T (qw_balances w) (TokenAccount (ta_address (ea_user_source_collateral_ta a)))
      (QueueVault (ea_owner a)) amount = Inr b"
    and w': "w' = w\<lparr> qw_reserve := r', qw_balances := b, qw_tickets := (qw_tickets w)(n \<mapsto>
      \<lparr> wt_sequence_number = n, wt_owner = ea_owner a, wt_reserve = qw_reserve_key w,
        wt_user_destination_liquidity_ta = ta_address (ea_user_destination_liquidity_ta a),
        wt_queued_collateral_amount = amount, wt_created_at_timestamp = created, wt_invalid = 0,
        wt_progress_callback_type = progress_callback_type_to_u8 cb,
        wt_progress_callback_custom_accounts = custom \<rparr>) \<rparr>"
    by (clarsimp simp: process_enqueue_to_withdraw_def Let_def rbind_eq_Inr)
  define t where "t = \<lparr> wt_sequence_number = n, wt_owner = ea_owner a, wt_reserve = qw_reserve_key w,
        wt_user_destination_liquidity_ta = ta_address (ea_user_destination_liquidity_ta a),
        wt_queued_collateral_amount = amount, wt_created_at_timestamp = created, wt_invalid = 0,
        wt_progress_callback_type = progress_callback_type_to_u8 cb,
        wt_progress_callback_custom_accounts = custom \<rparr>"
  obtain q where q: "queue_enqueue (rsv_withdraw_queue r) amount = Inr (q, n)"
    and rq: "r' = r\<lparr> rsv_withdraw_queue := q \<rparr>"
    using r' by (auto simp: enqueue_to_withdraw_def res_simps split: if_splits)
  have "qw_tickets w (next_issued_ticket_sequence_number (qw_queue w)) = None"
    using c by (auto simp: enqueue_constraints_def Let_def rbind_eq_Inr require_ta_def qw_queue_def
        split: if_splits)
  moreover have q': "queue_enqueue (qw_queue w) amount = Inr (q, n)"
    using q refresh_keeps_queue(1) [OF r] by (simp add: qw_queue_def)
  ultimately have "qw_tickets w n = None" by (simp add: queue_enqueue_eq)
  moreover have "wt_owner t = ea_owner a \<and> wt_queued_collateral_amount t = amount \<and> ticket_is_valid t \<and>
      wt_sequence_number t = n \<and> wt_reserve t = qw_reserve_key w \<and>
      progress_callback_type_of_u8 (wt_progress_callback_type t) \<noteq> None"
    by (simp add: t_def ticket_is_valid_def)
  ultimately show ?thesis
    using q' b by (intro exI [of _ q] exI [of _ n] exI [of _ t] exI [of _ b]) (simp add: w' qw_queue_def rq t_def)
qed

lemma cancel_effect:
  assumes "process_cancel_withdraw_ticket L T env clk a s amount w = Inr w'"
  shows "\<exists>q t t' x b. qw_tickets w s = Some t \<and> ticket_is_valid t \<and> wt_owner t = ca_owner a \<and>
    unat x \<le> unat (wt_queued_collateral_amount t) \<and>
    queue_dequeue (qw_queue w) x False = Inr q \<and>
    unat (wt_queued_collateral_amount t') = unat (wt_queued_collateral_amount t) - unat x \<and>
    t' = t\<lparr> wt_queued_collateral_amount := wt_queued_collateral_amount t' \<rparr> \<and>
    tk_transfer T (qw_balances w) (QueueVault (wt_owner t))
      (TokenAccount (ta_address (ca_user_destination_collateral a))) x = Inr b \<and>
    qw_queue w' = q \<and> qw_tickets w' = (qw_tickets w)(s \<mapsto> t') \<and> qw_balances w' = b \<and>
    qw_reserve_key w' = qw_reserve_key w"
proof -
  from assms obtain t r r' t' x b where t: "qw_tickets w s = Some t" "ticket_is_valid t" "wt_owner t = ca_owner a"
    and r: "refresh_without_price L clk (qw_market w) (qw_reserve w) = Inr r"
    and r': "cancel_withdraw_ticket L (qw_market w) r t amount = Inr (r', t', x)"
    and b: "tk_transfer T (qw_balances w) (QueueVault (ca_owner a))
      (TokenAccount (ta_address (ca_user_destination_collateral a))) x = Inr b"
    and w': "w' = w\<lparr> qw_reserve := r', qw_balances := b, qw_tickets := (qw_tickets w)(s \<mapsto> t') \<rparr>"
    by (clarsimp simp: process_cancel_withdraw_ticket_def Let_def res_simps)
  from r' obtain q rem where x: "x = min amount (wt_queued_collateral_amount t)"
    and rem: "sub_ov (wt_queued_collateral_amount t) x = Inr rem"
    and q: "queue_dequeue (rsv_withdraw_queue r) x False = Inr q"
    and eqs: "r' = r\<lparr> rsv_withdraw_queue := q \<rparr>" "t' = t\<lparr> wt_queued_collateral_amount := rem \<rparr>"
    by (auto simp: cancel_withdraw_ticket_def Let_def res_simps split: if_splits)
  have q': "queue_dequeue (qw_queue w) x False = Inr q"
    using q refresh_keeps_queue(1) [OF r] by (simp add: qw_queue_def)
  show ?thesis
    using t b rem q'
    by (intro exI [of _ q] exI [of _ t] exI [of _ t'] exI [of _ x] exI [of _ b])
      (simp add: w' qw_queue_def eqs ov_eq)
qed

end

lemma recover_effect:
  assumes "process_recover_invalid_ticket_collateral T env a s w = Inr w'"
  shows "\<exists>t b. qw_tickets w s = Some t \<and> \<not> ticket_is_valid t \<and>
    tk_transfer T (qw_balances w) (QueueVault (wt_owner t))
      (TokenAccount (ta_address (ra_user_source_collateral a))) (wt_queued_collateral_amount t) = Inr b \<and>
    w' = w\<lparr> qw_balances := b, qw_tickets := (qw_tickets w)(s := None) \<rparr>"
  using assms by (clarsimp simp: process_recover_invalid_ticket_collateral_def Let_def res_simps)

text \<open>The crates and the token program together.\<close>

locale queue_runtime = num_lib L + token_calls T for L :: numlib and T :: tokenlib

interpretation std_queue: queue_runtime std_lib plain_tokens
  by unfold_locales

context queue_runtime begin

text \<open>Redeeming the head burns \<open>x\<close> tokens of its owner's vault, which leave the ticket and the books.\<close>

lemma redeem_head_effect:
  assumes "redeem_head L T env clk a rc t w = Inr w'"
    and other: "rl_supply_vault (rsv_liquidity (qw_reserve w)) \<noteq> da_address (wa_user_destination_liquidity a)"
  shows "\<exists>q x closed. x \<noteq> 0 \<and> unat x \<le> unat (wt_queued_collateral_amount t) \<and>
    (closed \<longleftrightarrow> x = wt_queued_collateral_amount t) \<and>
    queue_dequeue (qw_queue w) x closed = Inr q \<and> qw_queue w' = q \<and>
    qw_tickets w' = (qw_tickets w)(head_number w := if closed then None
      else Some (t\<lparr> wt_queued_collateral_amount := wt_queued_collateral_amount t - x \<rparr>)) \<and>
    (\<forall>owner. unat (qw_balances w' (QueueVault owner)) + (if owner = wt_owner t then unat x else 0) =
       unat (qw_balances w (QueueVault owner))) \<and>
    qw_reserve_key w' = qw_reserve_key w"
proof -
  let ?supply = "TokenAccount (rl_supply_vault (rsv_liquidity (qw_reserve w)))"
  let ?dest = "TokenAccount (da_address (wa_user_destination_liquidity a))"
  from assms(1) obtain r0 r t' res b1 b where r0: "refresh_without_price L clk (qw_market w) (qw_reserve w) = Inr r0"
    and r: "withdraw_queued_liquidity L (qw_market w) r0 t clk = Inr (r, t', res)"
    and b1: "tk_burn T (qw_balances w) (QueueVault (wt_owner t)) (twr_collateral_amount_to_burn res) = Inr b1"
    and b: "tk_transfer_checked T b1 ?supply ?dest (twr_liquidity_amount_to_withdraw res) = Inr b"
    and fin: "(if wt_queued_collateral_amount t' = 0
      then Inr (w\<lparr> qw_reserve := r, qw_balances := b, qw_tickets := (qw_tickets (w\<lparr> qw_reserve := r, qw_balances := b \<rparr>))(head_number w := None) \<rparr>)
      else if rc then fail WithdrawTicketRequiresFullRedemption
      else Inr (w\<lparr> qw_reserve := r, qw_balances := b, qw_tickets := (qw_tickets (w\<lparr> qw_reserve := r, qw_balances := b \<rparr>))(head_number w \<mapsto> t') \<rparr>)) = Inr w'"
    by (clarsimp simp: redeem_head_def Let_def rbind_eq_Inr)
  from fin have w': "w' = w\<lparr> qw_reserve := r, qw_balances := b, qw_tickets :=
      (qw_tickets w)(head_number w := if wt_queued_collateral_amount t' = 0 then None else Some t') \<rparr>"
    by (simp add: fail_def split: if_splits)
  let ?x = "twr_collateral_amount_to_burn res"
  from withdraw_queued_effect [OF r] obtain rem r1 q where rem: "sub_ov (wt_queued_collateral_amount t) ?x = Inr rem"
    and t': "t' = t\<lparr> wt_queued_collateral_amount := rem \<rparr>"
    and r1: "redeem_reserve_collateral L r0 ?x clk FOR_WITHDRAW_QUEUED_LIQUIDITY =
      Inr (r1, twr_liquidity_amount_to_withdraw res)"
    and q: "queue_dequeue (rsv_withdraw_queue r1) ?x (rem = 0) = Inr q"
    and rq: "r = r1\<lparr> rsv_withdraw_queue := q \<rparr>"
    by blast
  have x: "?x \<noteq> 0" using r1 by (auto simp: redeem_reserve_collateral_def res_simps)
  have remx: "rem = wt_queued_collateral_amount t - ?x" "unat ?x \<le> unat (wt_queued_collateral_amount t)"
    using rem by (auto simp: ov_eq word_unat_eq_iff unat_minus)
  then have closed: "rem = 0 \<longleftrightarrow> ?x = wt_queued_collateral_amount t" by auto
  have q': "queue_dequeue (qw_queue w) ?x (rem = 0) = Inr q"
    using q redeem_keeps_queue [OF r1] refresh_keeps_queue(1) [OF r0] by (simp add: qw_queue_def)
  have bal: "unat (b (QueueVault owner)) + (if owner = wt_owner t then unat ?x else 0) =
      unat (qw_balances w (QueueVault owner))" for owner
    using burn_unat [OF b1] transfer_checked_unat(2) [OF b, of "QueueVault owner"] other by auto
  show ?thesis
    using x remx closed q' bal
    by (intro exI [of _ q] exI [of _ ?x] exI [of _ "rem = 0"]) (simp add: w' qw_queue_def rq t')
qed

lemma withdraw_cases:
  assumes "process_withdraw_queued_liquidity L T env clk a w = Inr (w', paid)"
  obtains (cancelled) t q where "qw_tickets w (head_number w) = Some t" "ticket_is_valid t"
      "wt_queued_collateral_amount t = 0" "paid"
      "queue_dequeue (qw_queue w) 0 True = Inr q"
      "w' = w\<lparr> qw_reserve := (qw_reserve w)\<lparr> rsv_withdraw_queue := q \<rparr>,
        qw_tickets := (qw_tickets w)(head_number w := None) \<rparr>"
  | (invalidated) t q where "qw_tickets w (head_number w) = Some t" "ticket_is_valid t" "\<not> paid"
      "queue_dequeue (qw_queue w) (wt_queued_collateral_amount t) True = Inr q"
      "w' = w\<lparr> qw_reserve := (qw_reserve w)\<lparr> rsv_withdraw_queue := q \<rparr>,
        qw_tickets := (qw_tickets w)(head_number w \<mapsto> t\<lparr> wt_invalid := 1 \<rparr>) \<rparr>"
  | (redeemed) t rc where "qw_tickets w (head_number w) = Some t" "ticket_is_valid t" "paid"
      "redeem_head L T env clk a rc t w = Inr w'"
      "rl_supply_vault (rsv_liquidity (qw_reserve w)) \<noteq> da_address (wa_user_destination_liquidity a)"
proof -
  from assms obtain t where c: "withdraw_constraints env a w = Inr t"
    and checks: "withdraw_queued_liquidity_checks (qw_reserve w)
      (da_address (wa_user_destination_liquidity a)) = Inr ()"
    and body: "(if wt_queued_collateral_amount t = 0 then
          rbind (queue_dequeue (rsv_withdraw_queue (qw_reserve w)) 0 True) (\<lambda>q.
          Inr (w\<lparr> qw_reserve := (qw_reserve w)\<lparr> rsv_withdraw_queue := q \<rparr>,
                  qw_tickets := (qw_tickets w)(head_number w := None) \<rparr>, True))
        else case resolve_destination env (wa_user_destination_liquidity a) (wt_owner t)
                    (rl_mint_pubkey (rsv_liquidity (qw_reserve w))) (token_program (rsv_liquidity (qw_reserve w))) of
          AtaToBeCreated \<Rightarrow> rbind (redeem_head L T env clk a True t w) (\<lambda>w. Inr (w, True))
        | DestinationInvalid \<Rightarrow>
            rbind (queue_dequeue (rsv_withdraw_queue (qw_reserve w)) (wt_queued_collateral_amount t) True) (\<lambda>q.
            Inr (w\<lparr> qw_reserve := (qw_reserve w)\<lparr> rsv_withdraw_queue := q \<rparr>,
                    qw_tickets := (qw_tickets w)(head_number w \<mapsto> t\<lparr> wt_invalid := 1 \<rparr>) \<rparr>, False))
        | DestinationValid \<Rightarrow> rbind (redeem_head L T env clk a False t w) (\<lambda>w. Inr (w, True))) = Inr (w', paid)"
    by (auto simp: process_withdraw_queued_liquidity_def Let_def rbind_eq_Inr)
  have t: "qw_tickets w (head_number w) = Some t" "ticket_is_valid t"
    using c by (auto simp: withdraw_constraints_def res_simps)
  have notvault: "rl_supply_vault (rsv_liquidity (qw_reserve w)) \<noteq> da_address (wa_user_destination_liquidity a)"
    using checks by (auto simp: withdraw_queued_liquidity_checks_def res_simps)
  show thesis
  proof (cases "wt_queued_collateral_amount t = 0")
    case True
    with body cancelled [OF t True] show thesis by (auto simp: rbind_eq_Inr qw_queue_def)
  next
    case False
    with body show thesis
      using invalidated [OF t] redeemed [OF t _ _ notvault]
      by (auto simp: rbind_eq_Inr qw_queue_def split: destination_validity.splits)
  qed
qed

section \<open>The invariant is kept\<close>

lemma queue_okD:
  assumes "queue_ok w"
  shows "next_withdrawable_ticket_sequence_number (qw_queue w) \<le> next_issued_ticket_sequence_number (qw_queue w)"
    "waiting w s \<longleftrightarrow> (\<exists>t. qw_tickets w s = Some t \<and> ticket_is_valid t)"
    "qw_tickets w s = Some t \<Longrightarrow> s < next_issued_ticket_sequence_number (qw_queue w) \<and>
        wt_sequence_number t = s \<and> wt_reserve t = qw_reserve_key w \<and>
        progress_callback_type_of_u8 (wt_progress_callback_type t) \<noteq> None"
    "unat (queued_collateral_amount (qw_queue w)) = tally ticket_is_valid (qw_tickets w)"
    "tally (owned_by owner) (qw_tickets w) \<le> unat (qw_balances w (QueueVault owner))"
  using assms unfolding queue_ok_def by blast+

text \<open>A vault that gains what a ticket gains, or loses what a ticket loses, stays sufficient.\<close>

lemma vault_covers:
  assumes "tally (owned_by owner) tickets \<le> unat (b (QueueVault owner))"
    and "unat (b' (QueueVault owner)) + ticket_weight (owned_by owner) (tickets s) =
         unat (b (QueueVault owner)) + ticket_weight (owned_by owner) x"
  shows "tally (owned_by owner) (tickets(s := x)) \<le> unat (b' (QueueVault owner))"
  using assms tally_upd [of "owned_by owner" tickets s x] by linarith

lemma enqueue_keeps_queue_ok:
  assumes "process_enqueue_to_withdraw L T env clk a amount cb w = Inr w'" "queue_ok w"
  shows "queue_ok w'"
proof -
  from enqueue_effect [OF assms(1)] obtain q n t b where q: "queue_enqueue (qw_queue w) amount = Inr (q, n)"
    and none: "qw_tickets w n = None"
    and b: "tk_transfer T (qw_balances w) (TokenAccount (ta_address (ea_user_source_collateral_ta a)))
      (QueueVault (wt_owner t)) amount = Inr b"
    and t: "wt_queued_collateral_amount t = amount" "ticket_is_valid t" "wt_sequence_number t = n"
      "wt_reserve t = qw_reserve_key w" "progress_callback_type_of_u8 (wt_progress_callback_type t) \<noteq> None"
    and w': "qw_queue w' = q" "qw_tickets w' = (qw_tickets w)(n \<mapsto> t)" "qw_balances w' = b"
      "qw_reserve_key w' = qw_reserve_key w"
    by blast
  note ok = queue_okD [OF assms(2)]
  note q = q [unfolded queue_enqueue_eq]
  have le: "unat (next_withdrawable_ticket_sequence_number (qw_queue w)) \<le> unat n"
    using ok(1) q by (simp add: word_le_nat_alt)
  have wait: "waiting w' s \<longleftrightarrow> waiting w s \<or> s = n" for s
    using q le by (auto simp: waiting_def w' word_le_nat_alt word_less_nat_alt word_unat_eq_iff less_Suc_eq)
  have vault: "tally (owned_by owner) ((qw_tickets w)(n \<mapsto> t)) \<le> unat (b (QueueVault owner))" for owner
    using transfer_unat [OF b] none
    by (intro vault_covers [where b = "qw_balances w", OF ok(5)]) (auto simp: owned_by_def t)
  have total: "unat (queued_collateral_amount q) = tally ticket_is_valid ((qw_tickets w)(n \<mapsto> t))"
    using tally_upd [of ticket_is_valid "qw_tickets w" n "Some t"] none q ok(4) t by simp
  show ?thesis
    unfolding queue_ok_def
  proof (intro conjI allI impI)
    show "next_withdrawable_ticket_sequence_number (qw_queue w') \<le> next_issued_ticket_sequence_number (qw_queue w')"
      using q le by (simp add: w' word_le_nat_alt)
    show "waiting w' s \<longleftrightarrow> (\<exists>u. qw_tickets w' s = Some u \<and> ticket_is_valid u)" for s
      using wait [of s] ok(2) [of s] t(2) by (auto simp: w')
    fix s u assume "qw_tickets w' s = Some u"
    then have "(s = n \<and> u = t) \<or> qw_tickets w s = Some u" by (auto simp: w' split: if_splits)
    then have "s = n \<and> u = t \<or> s < n \<and> wt_sequence_number u = s \<and> wt_reserve u = qw_reserve_key w \<and>
        progress_callback_type_of_u8 (wt_progress_callback_type u) \<noteq> None"
      using ok(3) [of s u] q by auto
    then show "s < next_issued_ticket_sequence_number (qw_queue w')" "wt_sequence_number u = s"
      "wt_reserve u = qw_reserve_key w'"
      "progress_callback_type_of_u8 (wt_progress_callback_type u) \<noteq> None"
      using t q by (auto simp: w' word_less_nat_alt)
  qed (use total vault w' in auto)
qed

text \<open>
  A change of one ticket that keeps its number and its owner, with the queue's total following
  the ticket, and the vault following it.
\<close>

lemma ticket_update_keeps_queue_ok:
  assumes "queue_ok w" and t: "qw_tickets w s = Some t"
    and issued: "next_issued_ticket_sequence_number (qw_queue w') = next_issued_ticket_sequence_number (qw_queue w)"
    and tickets: "qw_tickets w' = (qw_tickets w)(s := x)" and key: "qw_reserve_key w' = qw_reserve_key w"
    and same: "\<And>u. x = Some u \<Longrightarrow> wt_owner u = wt_owner t \<and> wt_sequence_number u = wt_sequence_number t \<and>
        wt_reserve u = wt_reserve t \<and> wt_progress_callback_type u = wt_progress_callback_type t"
    and total: "unat (queued_collateral_amount (qw_queue w')) + ticket_weight ticket_is_valid (Some t) =
      unat (queued_collateral_amount (qw_queue w)) + ticket_weight ticket_is_valid x"
    and vault: "\<And>owner. unat (qw_balances w' (QueueVault owner)) + ticket_weight (owned_by owner) (Some t) =
      unat (qw_balances w (QueueVault owner)) + ticket_weight (owned_by owner) x"
    and waits: "\<And>k. waiting w' k \<longleftrightarrow> (if k = s then \<exists>u. x = Some u \<and> ticket_is_valid u else waiting w k)"
    and le: "next_withdrawable_ticket_sequence_number (qw_queue w') \<le> next_issued_ticket_sequence_number (qw_queue w')"
  shows "queue_ok w'"
proof -
  note ok = queue_okD [OF assms(1)]
  have "waiting w' k \<longleftrightarrow> (\<exists>u. qw_tickets w' k = Some u \<and> ticket_is_valid u)" for k
    using waits [of k] ok(2) [of k] by (auto simp: tickets)
  moreover have "k < next_issued_ticket_sequence_number (qw_queue w') \<and> wt_sequence_number u = k \<and>
      wt_reserve u = qw_reserve_key w' \<and> progress_callback_type_of_u8 (wt_progress_callback_type u) \<noteq> None"
    if "qw_tickets w' k = Some u" for k u
    using that ok(3) [OF t] ok(3) [of k u] same [of u] by (auto simp: tickets issued key split: if_splits)
  moreover have "unat (queued_collateral_amount (qw_queue w')) = tally ticket_is_valid (qw_tickets w')"
    using total ok(4) tally_upd [of ticket_is_valid "qw_tickets w" s x] by (simp add: tickets t)
  moreover have "tally (owned_by owner) (qw_tickets w') \<le> unat (qw_balances w' (QueueVault owner))" for owner
    unfolding tickets by (rule vault_covers [where b = "qw_balances w", OF ok(5)]) (use vault [of owner] t in simp)
  ultimately show ?thesis using le unfolding queue_ok_def by blast
qed

text \<open>The waiting tickets when the head is left and when it is passed.\<close>

lemma waiting_same:
  assumes "next_issued_ticket_sequence_number (qw_queue w') = next_issued_ticket_sequence_number (qw_queue w)"
    "next_withdrawable_ticket_sequence_number (qw_queue w') = next_withdrawable_ticket_sequence_number (qw_queue w)"
  shows "waiting w' k \<longleftrightarrow> waiting w k"
  using assms by (simp add: waiting_def)

lemma waiting_passed:
  assumes "next_issued_ticket_sequence_number (qw_queue w') = next_issued_ticket_sequence_number (qw_queue w)"
    "unat (next_withdrawable_ticket_sequence_number (qw_queue w')) =
     unat (next_withdrawable_ticket_sequence_number (qw_queue w)) + 1"
  shows "waiting w' k \<longleftrightarrow> waiting w k \<and> k \<noteq> head_number w"
  using assms
  by (auto simp: waiting_def head_number_def qw_queue_def word_le_nat_alt word_less_nat_alt word_unat_eq_iff)

lemma passed_le:
  assumes "waiting w (head_number w)"
    "next_issued_ticket_sequence_number (qw_queue w') = next_issued_ticket_sequence_number (qw_queue w)"
    "unat (next_withdrawable_ticket_sequence_number (qw_queue w')) =
     unat (next_withdrawable_ticket_sequence_number (qw_queue w)) + 1"
  shows "next_withdrawable_ticket_sequence_number (qw_queue w') \<le> next_issued_ticket_sequence_number (qw_queue w')"
  using assms by (simp add: waiting_def head_number_def qw_queue_def word_le_nat_alt word_less_nat_alt)

lemma head_waits: "queue_ok w \<Longrightarrow> qw_tickets w (head_number w) = Some t \<Longrightarrow> ticket_is_valid t \<Longrightarrow> waiting w (head_number w)"
  using queue_okD(2) by blast

text \<open>Passing the head: the ticket is closed or marked, its tokens leave the books.\<close>

lemma pass_head_keeps_queue_ok:
  assumes ok: "queue_ok w" and t: "qw_tickets w (head_number w) = Some t" "ticket_is_valid t"
    and q: "queue_dequeue (qw_queue w) x True = Inr q" and w': "qw_queue w' = q"
      "qw_tickets w' = (qw_tickets w)(head_number w := y)" "qw_reserve_key w' = qw_reserve_key w"
    and x: "x = wt_queued_collateral_amount t"
    and y: "y = None \<or> y = Some (t\<lparr> wt_invalid := 1 \<rparr>)"
    and vault: "\<And>owner. unat (qw_balances w' (QueueVault owner)) + ticket_weight (owned_by owner) (Some t) =
      unat (qw_balances w (QueueVault owner)) + ticket_weight (owned_by owner) y"
  shows "queue_ok w'" "unat (head_number w') = unat (head_number w) + 1"
proof -
  note q = q [unfolded queue_dequeue_eq]
  have nw: "unat (next_withdrawable_ticket_sequence_number (qw_queue w')) =
     unat (next_withdrawable_ticket_sequence_number (qw_queue w)) + 1"
    and ni: "next_issued_ticket_sequence_number (qw_queue w') = next_issued_ticket_sequence_number (qw_queue w)"
    using q by (simp_all add: w')
  then show "unat (head_number w') = unat (head_number w) + 1" by (simp add: head_number_def qw_queue_def)
  have inval: "\<not> ticket_is_valid (t\<lparr> wt_invalid := 1 \<rparr>)" by (simp add: ticket_is_valid_def)
  show "queue_ok w'"
  proof (rule ticket_update_keeps_queue_ok [OF ok t(1) ni w'(2,3) _ _ vault])
    show "waiting w' k \<longleftrightarrow> (if k = head_number w then \<exists>u. y = Some u \<and> ticket_is_valid u else waiting w k)" for k
      using waiting_passed [OF ni nw, of k] y inval by auto
    show "next_withdrawable_ticket_sequence_number (qw_queue w') \<le> next_issued_ticket_sequence_number (qw_queue w')"
      by (rule passed_le [OF head_waits [OF ok t] ni nw])
    show "unat (queued_collateral_amount (qw_queue w')) + ticket_weight ticket_is_valid (Some t) =
      unat (queued_collateral_amount (qw_queue w)) + ticket_weight ticket_is_valid y"
      using q t(2) y inval by (auto simp: w' x)
  qed (use y in auto)
qed

text \<open>
  What an accepted call on the head leaves: a queue in order, and either the next ticket at the
  head or the same ticket with fewer tokens.
\<close>

lemma withdraw_progress:
  assumes "process_withdraw_queued_liquidity L T env clk a w = Inr (w', paid)" and ok: "queue_ok w"
  shows "queue_ok w' \<and> next_issued_ticket_sequence_number (qw_queue w') = next_issued_ticket_sequence_number (qw_queue w) \<and>
    (unat (head_number w') = unat (head_number w) + 1 \<and>
       unat (queued_collateral_amount (qw_queue w')) \<le> unat (queued_collateral_amount (qw_queue w)) \<or>
     head_number w' = head_number w \<and>
       unat (queued_collateral_amount (qw_queue w')) < unat (queued_collateral_amount (qw_queue w)))"
  using assms(1)
proof (cases rule: withdraw_cases)
  case (cancelled t q)
  have q': "qw_queue w' = q" by (simp add: cancelled qw_queue_def)
  have "queue_ok w'" "unat (head_number w') = unat (head_number w) + 1"
    using pass_head_keeps_queue_ok [OF ok cancelled(1,2,5) q', of None] cancelled
    by (simp_all add: cancelled(6))
  then show ?thesis using cancelled(5) by (simp add: q' queue_dequeue_eq)
next
  case (invalidated t q)
  have q': "qw_queue w' = q" by (simp add: invalidated qw_queue_def)
  have "queue_ok w'" "unat (head_number w') = unat (head_number w) + 1"
    using pass_head_keeps_queue_ok [OF ok invalidated(1,2,4) q', of "Some (t\<lparr> wt_invalid := 1 \<rparr>)"]
    by (simp_all add: invalidated(5) owned_by_def)
  then show ?thesis using invalidated(4) by (simp add: q' queue_dequeue_eq)
next
  case (redeemed t rc)
  from redeem_head_effect [OF redeemed(4,5)] obtain q x closed where
    x: "x \<noteq> 0" "unat x \<le> unat (wt_queued_collateral_amount t)" "closed \<longleftrightarrow> x = wt_queued_collateral_amount t"
    and q: "queue_dequeue (qw_queue w) x closed = Inr q" and w': "qw_queue w' = q"
      "qw_tickets w' = (qw_tickets w)(head_number w := if closed then None
         else Some (t\<lparr> wt_queued_collateral_amount := wt_queued_collateral_amount t - x \<rparr>))"
      "qw_reserve_key w' = qw_reserve_key w"
    and bal: "\<And>owner. unat (qw_balances w' (QueueVault owner)) + (if owner = wt_owner t then unat x else 0) =
       unat (qw_balances w (QueueVault owner))"
    by blast
  show ?thesis
  proof (cases closed)
    case True
    have "queue_ok w'" "unat (head_number w') = unat (head_number w) + 1"
    proof -
      have v: "unat (qw_balances w' (QueueVault owner)) + ticket_weight (owned_by owner) (Some t) =
          unat (qw_balances w (QueueVault owner)) + ticket_weight (owned_by owner) None" for owner
        using bal [of owner] x(3) True by (auto simp: owned_by_def)
      show "queue_ok w'" "unat (head_number w') = unat (head_number w) + 1"
        using pass_head_keeps_queue_ok [OF ok redeemed(1,2), of x q w' None] q w' x(3) True v by auto
    qed
    then show ?thesis using q True by (simp add: w' queue_dequeue_eq)
  next
    case False
    let ?t = "t\<lparr> wt_queued_collateral_amount := wt_queued_collateral_amount t - x \<rparr>"
    note q' = q [unfolded queue_dequeue_eq]
    have nw: "next_withdrawable_ticket_sequence_number (qw_queue w') = next_withdrawable_ticket_sequence_number (qw_queue w)"
      and ni: "next_issued_ticket_sequence_number (qw_queue w') = next_issued_ticket_sequence_number (qw_queue w)"
      using q' False by (simp_all add: w' word_unat_eq_iff)
    have amount: "unat (wt_queued_collateral_amount ?t) + unat x = unat (wt_queued_collateral_amount t)"
      using x(2) by (simp add: unat_minus)
    have tickets: "qw_tickets w' = (qw_tickets w)(head_number w := Some ?t)" using w'(2) False by simp
    have "queue_ok w'"
    proof (rule ticket_update_keeps_queue_ok [OF ok redeemed(1) ni tickets w'(3)])
      show "waiting w' k \<longleftrightarrow> (if k = head_number w then \<exists>u. Some ?t = Some u \<and> ticket_is_valid u else waiting w k)" for k
        using waiting_same [OF ni nw, of k] head_waits [OF ok redeemed(1,2)] redeemed(2)
        by (auto simp: ticket_is_valid_def)
      show "unat (queued_collateral_amount (qw_queue w')) + ticket_weight ticket_is_valid (Some t) =
          unat (queued_collateral_amount (qw_queue w)) + ticket_weight ticket_is_valid (Some ?t)"
        using q' redeemed(2) amount by (simp add: w' ticket_is_valid_def)
      show "unat (qw_balances w' (QueueVault owner)) + ticket_weight (owned_by owner) (Some t) =
          unat (qw_balances w (QueueVault owner)) + ticket_weight (owned_by owner) (Some ?t)" for owner
        using bal [of owner] amount by (auto simp: owned_by_def)
    qed (use queue_okD(1) [OF ok] ni nw in auto)
    moreover have "head_number w' = head_number w" using nw by (simp add: head_number_def qw_queue_def)
    moreover have "0 < unat x" using x(1) by (simp add: unat_gt_0)
    ultimately show ?thesis using q' ni by (simp add: w')
  qed
qed

lemma cancel_keeps_queue_ok:
  assumes "process_cancel_withdraw_ticket L T env clk a s amount w = Inr w'" and ok: "queue_ok w"
  shows "queue_ok w'"
proof -
  from cancel_effect [OF assms(1)] obtain q t t' x b where t: "qw_tickets w s = Some t" "ticket_is_valid t"
    and x: "unat x \<le> unat (wt_queued_collateral_amount t)" and q: "queue_dequeue (qw_queue w) x False = Inr q"
    and t': "unat (wt_queued_collateral_amount t') = unat (wt_queued_collateral_amount t) - unat x"
      "t' = t\<lparr> wt_queued_collateral_amount := wt_queued_collateral_amount t' \<rparr>"
    and b: "tk_transfer T (qw_balances w) (QueueVault (wt_owner t))
      (TokenAccount (ta_address (ca_user_destination_collateral a))) x = Inr b"
    and w': "qw_queue w' = q" "qw_tickets w' = (qw_tickets w)(s \<mapsto> t')" "qw_balances w' = b"
      "qw_reserve_key w' = qw_reserve_key w"
    by blast
  note q' = q [unfolded queue_dequeue_eq]
  have nw: "next_withdrawable_ticket_sequence_number (qw_queue w') = next_withdrawable_ticket_sequence_number (qw_queue w)"
    and ni: "next_issued_ticket_sequence_number (qw_queue w') = next_issued_ticket_sequence_number (qw_queue w)"
    using q' by (simp_all add: w' word_unat_eq_iff)
  have same: "wt_owner t' = wt_owner t" "wt_sequence_number t' = wt_sequence_number t"
    "wt_reserve t' = wt_reserve t" "wt_progress_callback_type t' = wt_progress_callback_type t"
    "wt_invalid t' = wt_invalid t"
    by (subst t'(2), simp)+
  then have valid: "ticket_is_valid t'" using t(2) by (simp add: ticket_is_valid_def)
  show ?thesis
  proof (rule ticket_update_keeps_queue_ok [OF ok t(1) ni w'(2,4)])
    show "waiting w' k \<longleftrightarrow> (if k = s then \<exists>u. Some t' = Some u \<and> ticket_is_valid u else waiting w k)" for k
      using waiting_same [OF ni nw, of k] queue_okD(2) [OF ok, of s] t valid by auto
    show "unat (queued_collateral_amount (qw_queue w')) + ticket_weight ticket_is_valid (Some t) =
        unat (queued_collateral_amount (qw_queue w)) + ticket_weight ticket_is_valid (Some t')"
      using q' t(2) valid x t'(1) by (simp add: w')
    show "unat (qw_balances w' (QueueVault owner)) + ticket_weight (owned_by owner) (Some t) =
        unat (qw_balances w (QueueVault owner)) + ticket_weight (owned_by owner) (Some t')" for owner
      using transfer_unat [OF b] x t'(1) same(1) by (auto simp: owned_by_def w')
  qed (use queue_okD(1) [OF ok] ni nw same in auto)
qed

lemma recover_keeps_queue_ok:
  assumes "process_recover_invalid_ticket_collateral T env a s w = Inr w'" and ok: "queue_ok w"
  shows "queue_ok w'"
proof -
  from recover_effect [OF assms(1)] obtain t b where t: "qw_tickets w s = Some t" "\<not> ticket_is_valid t"
    and b: "tk_transfer T (qw_balances w) (QueueVault (wt_owner t))
      (TokenAccount (ta_address (ra_user_source_collateral a))) (wt_queued_collateral_amount t) = Inr b"
    and w': "w' = w\<lparr> qw_balances := b, qw_tickets := (qw_tickets w)(s := None) \<rparr>"
    by blast
  have q: "qw_queue w' = qw_queue w" by (simp add: w' qw_queue_def)
  show ?thesis
  proof (rule ticket_update_keeps_queue_ok [OF ok t(1), of w' None])
    show "waiting w' k \<longleftrightarrow> (if k = s then \<exists>u. None = Some u \<and> ticket_is_valid u else waiting w k)" for k
      using queue_okD(2) [OF ok, of s] t by (auto simp: waiting_def q)
    show "unat (qw_balances w' (QueueVault owner)) + ticket_weight (owned_by owner) (Some t) =
        unat (qw_balances w (QueueVault owner)) + ticket_weight (owned_by owner) None" for owner
      using transfer_unat [OF b] by (auto simp: owned_by_def w')
  qed (use queue_okD(1) [OF ok] t q in \<open>auto simp: w'\<close>)
qed

lemma reaches_queue_ok: "queue_reaches L T env w w' \<Longrightarrow> queue_ok w'"
proof (induction rule: queue_reaches.induct)
  case (queue_start w)
  then show ?case by (simp add: queue_empty_def queue_ok_def waiting_def withdraw_queue_default_def)
next
  case (queue_elsewhere w w' w'')
  then show ?case
    by (auto simp: elsewhere_def queue_ok_def waiting_def word_le_nat_alt intro: order_trans)
next
  case (queue_enqueue w w' clk ea amount callback w'')
  show ?case by (rule enqueue_keeps_queue_ok [OF queue_enqueue.hyps(2) queue_enqueue.IH])
next
  case (queue_withdraw w w' clk wa w'' paid)
  show ?case using withdraw_progress [OF queue_withdraw.hyps(2) queue_withdraw.IH] by (rule conjunct1)
next
  case (queue_cancel w w' clk ca s amount w'')
  show ?case by (rule cancel_keeps_queue_ok [OF queue_cancel.hyps(2) queue_cancel.IH])
next
  case (queue_recover w w' ra s w'')
  show ?case by (rule recover_keeps_queue_ok [OF queue_recover.hyps(2) queue_recover.IH])
qed

section \<open>The head can always be passed, and processing ends\<close>

text \<open>
  An open market and reserve, and a caller who passes the accounts of the head ticket; the ticket
  has been cancelled, or its destination cannot be paid any more.
\<close>

end

definition redemption_open :: "queue_world \<Rightarrow> bool" where
  "redemption_open w \<longleftrightarrow> rsv_lending_market (qw_reserve w) = qw_market_key w \<and>
     lm_emergency_mode (qw_market w) = 0 \<and> is_withdraw_ticket_redemption_enabled (qw_market w) \<and>
     \<not> reserve_is_emergency_mode (rsv_config (qw_reserve w)) \<and>
     rsv_version (qw_reserve w) = of_nat PROGRAM_VERSION"

definition skippable :: "queue_env \<Rightarrow> queue_world \<Rightarrow> withdraw_ticket \<Rightarrow> withdraw_accounts \<Rightarrow> bool" where
  "skippable env w t a \<longleftrightarrow>
     (let d = wa_user_destination_liquidity a; liquidity = rsv_liquidity (qw_reserve w)
      in da_address d = wt_user_destination_liquidity_ta t \<and> da_address d \<noteq> rl_supply_vault liquidity \<and>
         wa_progress_callback_program a = None \<and> wa_progress_callback_custom_account_0 a = None \<and>
         wa_progress_callback_custom_account_1 a = None \<and>
         (wt_queued_collateral_amount t = 0 \<or>
          resolve_destination env d (wt_owner t) (rl_mint_pubkey liquidity) (token_program liquidity) =
            DestinationInvalid))"

fun process_all :: "numlib \<Rightarrow> tokenlib \<Rightarrow> queue_env \<Rightarrow> (clock \<times> withdraw_accounts) list \<Rightarrow>
  queue_world \<Rightarrow> queue_world res" where
  "process_all L T env [] w = Inr w"
| "process_all L T env ((clk, a) # calls) w =
     rbind (process_withdraw_queued_liquidity L T env clk a w) (\<lambda>(w, _). process_all L T env calls w)"

definition queue_length :: "queue_world \<Rightarrow> nat" where
  "queue_length w = unat (next_issued_ticket_sequence_number (qw_queue w)) -
     unat (next_withdrawable_ticket_sequence_number (qw_queue w))"

context queue_runtime begin

lemma skip_head:
  assumes ok: "queue_ok w" and "redemption_open w" and t: "qw_tickets w (head_number w) = Some t"
    and head: "waiting w (head_number w)" and "skippable env w t a"
  shows "\<exists>q y paid. process_withdraw_queued_liquidity L T env clk a w =
      Inr (w\<lparr> qw_reserve := (qw_reserve w)\<lparr> rsv_withdraw_queue := q \<rparr>,
             qw_tickets := (qw_tickets w)(head_number w := y) \<rparr>, paid) \<and>
    next_issued_ticket_sequence_number q = next_issued_ticket_sequence_number (qw_queue w) \<and>
    unat (next_withdrawable_ticket_sequence_number q) =
      unat (next_withdrawable_ticket_sequence_number (qw_queue w)) + 1"
proof -
  note D = queue_okD [OF ok]
  have valid: "ticket_is_valid t" using D(2) head t by auto
  obtain cb where cb: "ticket_progress_callback_type t = Inr cb"
    using D(3) [OF t] by (auto simp: ticket_progress_callback_type_def)
  have constraints: "withdraw_constraints env a w = Inr t"
    using assms(2,5) D(3) [OF t] t valid cb
    by (simp add: withdraw_constraints_def redemption_open_def has_one_lending_market_def skippable_def
        Let_def require_ta_def ensure_def address_is_def)
  have checks: "emergency_mode_disabled (qw_market w) = Inr ()"
    "withdraw_queued_liquidity_checks (qw_reserve w) (da_address (wa_user_destination_liquidity a)) = Inr ()"
    using assms(2,5)
    by (auto simp: redemption_open_def emergency_mode_disabled_def withdraw_queued_liquidity_checks_def
        check_reserve_emergency_mode_def check_reserve_version_def not_the_vault_def skippable_def Let_def)
  have amount: "unat (wt_queued_collateral_amount t) \<le> unat (queued_collateral_amount (qw_queue w))"
    using tally_le [of ticket_is_valid "qw_tickets w" "head_number w"] t valid D(4) by simp
  have room: "unat (next_withdrawable_ticket_sequence_number (qw_queue w)) + 1 < 2 ^ 64"
    using head unsigned_less [where ?'a = nat, of "next_issued_ticket_sequence_number (qw_queue w)"]
    by (simp add: waiting_def head_number_def qw_queue_def word_less_nat_alt)
  obtain q where q: "queue_dequeue (qw_queue w) (wt_queued_collateral_amount t) True = Inr q"
    using queue_dequeue_ex [OF amount room] by blast
  note q' = q [unfolded queue_dequeue_eq]
  show ?thesis
  proof (cases "wt_queued_collateral_amount t = 0")
    case True
    then show ?thesis
      using constraints checks assms(2) q q'
      by (intro exI [of _ q] exI [of _ None] exI [of _ True])
        (simp add: process_withdraw_queued_liquidity_def redemption_open_def ensure_def qw_queue_def)
  next
    case False
    then have "resolve_destination env (wa_user_destination_liquidity a) (wt_owner t)
        (rl_mint_pubkey (rsv_liquidity (qw_reserve w))) (token_program (rsv_liquidity (qw_reserve w))) =
        DestinationInvalid"
      using assms(5) by (simp add: skippable_def Let_def)
    then show ?thesis
      using constraints checks assms(2) q q' False
      by (intro exI [of _ q] exI [of _ "Some (t\<lparr> wt_invalid := 1 \<rparr>)"] exI [of _ False])
        (simp add: process_withdraw_queued_liquidity_def redemption_open_def ensure_def qw_queue_def)
  qed
qed

lemma head_waits_iff: "queue_ok w \<Longrightarrow> 0 < queue_length w \<longleftrightarrow> waiting w (head_number w)"
  by (simp add: queue_length_def waiting_def head_number_def qw_queue_def word_less_nat_alt)

lemma process_all_drains:
  assumes "queue_ok w" "redemption_open w" "length calls \<le> queue_length w"
    and "\<forall>i t. i < length calls \<longrightarrow> qw_tickets w (head_number w + of_nat i) = Some t \<longrightarrow>
      skippable env w t (snd (calls ! i))"
  shows "\<exists>w'. process_all L T env calls w = Inr w' \<and> queue_ok w' \<and>
    queue_length w' = queue_length w - length calls"
  using assms
proof (induction calls arbitrary: w)
  case Nil then show ?case by simp
next
  case (Cons call calls)
  obtain clk a where call: "call = (clk, a)" by (cases call)
  have head: "waiting w (head_number w)"
    using head_waits_iff [OF Cons.prems(1)] Cons.prems(3) by auto
  then obtain t where t: "qw_tickets w (head_number w) = Some t" using queue_okD(2) [OF Cons.prems(1)] by blast
  have "skippable env w t a" using Cons.prems(4) [rule_format, of 0 t] t by (simp add: call)
  from skip_head [OF Cons.prems(1,2) t head this, of clk] obtain q y paid w1 where
    w1: "process_withdraw_queued_liquidity L T env clk a w = Inr (w1, paid)"
      "w1 = w\<lparr> qw_reserve := (qw_reserve w)\<lparr> rsv_withdraw_queue := q \<rparr>,
             qw_tickets := (qw_tickets w)(head_number w := y) \<rparr>"
    and q: "next_issued_ticket_sequence_number q = next_issued_ticket_sequence_number (qw_queue w)"
      "unat (next_withdrawable_ticket_sequence_number q) =
      unat (next_withdrawable_ticket_sequence_number (qw_queue w)) + 1"
    by blast
  have next_head: "head_number w1 = head_number w + 1"
    using q(2) by (intro word_eq_plus_one) (simp add: w1(2) head_number_def qw_queue_def)
  have len: "queue_length w1 = queue_length w - 1"
    using q by (simp add: queue_length_def w1(2) qw_queue_def)
  have other: "head_number w1 + of_nat i \<noteq> head_number w" if "i < length calls" for i
  proof -
    have "Suc i < 2 ^ 64"
      using that Cons.prems(3) unsigned_less [where ?'a = nat, of "next_issued_ticket_sequence_number (qw_queue w)"]
      by (simp add: queue_length_def)
    then have "of_nat (Suc i) \<noteq> (0 :: u64)" by (simp add: word_unat_eq_iff unat_of_nat take_bit_nat_eq_self del: of_nat_Suc)
    then show ?thesis by (simp add: next_head add.assoc)
  qed
  have "\<exists>w'. process_all L T env calls w1 = Inr w' \<and> queue_ok w' \<and>
      queue_length w' = queue_length w1 - length calls"
  proof (rule Cons.IH)
    show "queue_ok w1" using withdraw_progress [OF w1(1) Cons.prems(1)] by (rule conjunct1)
    show "redemption_open w1" using Cons.prems(2) by (simp add: redemption_open_def w1(2))
    show "length calls \<le> queue_length w1" using Cons.prems(3) len by simp
    show "\<forall>i t. i < length calls \<longrightarrow> qw_tickets w1 (head_number w1 + of_nat i) = Some t \<longrightarrow>
        skippable env w1 t (snd (calls ! i))"
    proof (intro allI impI)
      fix i u assume i: "i < length calls" and u: "qw_tickets w1 (head_number w1 + of_nat i) = Some u"
      have "qw_tickets w (head_number w + of_nat (Suc i)) = Some u"
        using u other [OF i] by (simp add: w1(2)) (simp add: next_head [unfolded w1(2)] add.assoc)
      then have "skippable env w u (snd (calls ! i))" using Cons.prems(4) [rule_format, of "Suc i" u] i by simp
      then show "skippable env w1 u (snd (calls ! i))" by (simp add: skippable_def w1(2))
    qed
  qed
  then show ?case using w1(1) len by (auto simp: call)
qed

text \<open>The tickets waiting and the tokens queued, together: a measure that every call decreases.\<close>

lemma process_all_decreases:
  assumes "process_all L T env calls w = Inr w'" "queue_ok w"
  shows "length calls + queue_length w' + unat (queued_collateral_amount (qw_queue w')) \<le>
    queue_length w + unat (queued_collateral_amount (qw_queue w))"
  using assms
proof (induction calls arbitrary: w)
  case Nil then show ?case by simp
next
  case (Cons call calls)
  obtain clk a where call: "call = (clk, a)" by (cases call)
  with Cons.prems(1) obtain w1 paid where w1: "process_withdraw_queued_liquidity L T env clk a w = Inr (w1, paid)"
    and rest: "process_all L T env calls w1 = Inr w'" by (auto simp: rbind_eq_Inr)
  note p = withdraw_progress [OF w1 Cons.prems(2)]
  have "queue_length w1 + unat (queued_collateral_amount (qw_queue w1)) <
      queue_length w + unat (queued_collateral_amount (qw_queue w))"
    using p queue_okD(1) [of w1] by (auto simp: queue_length_def head_number_def qw_queue_def word_le_nat_alt)
  with Cons.IH [OF rest] p show ?case by simp
qed

end

text \<open>
  C16. In every state the queue can reach, with everything else interleaved, the tickets that wait
  are exactly the valid ones, the reserve's record of the queued collateral is their sum, and the
  vault of each owner holds at least the collateral of all the owner's tickets.
\<close>

theorem queue_tickets_are_backed:
  assumes "num_lib L" "token_calls T" "queue_reaches L T env w0 w"
  shows "(\<forall>s. waiting w s \<longleftrightarrow> (\<exists>t. qw_tickets w s = Some t \<and> ticket_is_valid t)) \<and>
    unat (queued_collateral_amount (qw_queue w)) = tally ticket_is_valid (qw_tickets w) \<and>
    (\<forall>owner. tally (owned_by owner) (qw_tickets w) \<le> unat (qw_balances w (QueueVault owner)))"
  using queue_runtime.reaches_queue_ok [OF queue_runtime.intro [OF assms(1,2)] assms(3)]
  unfolding queue_ok_def by blast

text \<open>
  C18. Tickets that have been cancelled, or whose destination cannot be paid any more, never block
  the queue: any number of them at the head are passed by as many calls, which all succeed.
\<close>

theorem unpayable_tickets_never_block:
  assumes "num_lib L" "token_calls T" "queue_reaches L T env w0 w" "redemption_open w"
    and "length calls \<le> queue_length w"
    and "\<forall>i t. i < length calls \<longrightarrow> qw_tickets w (head_number w + of_nat i) = Some t \<longrightarrow>
      skippable env w t (snd (calls ! i))"
  shows "\<exists>w'. process_all L T env calls w = Inr w' \<and> queue_length w' = queue_length w - length calls"
  using queue_runtime.process_all_drains [OF queue_runtime.intro [OF assms(1,2)]
      queue_runtime.reaches_queue_ok [OF queue_runtime.intro [OF assms(1,2)] assms(3)] assms(4,5,6)]
  by blast

text \<open>
  C17. Processing the queue ends: every call that is accepted closes a ticket, skips one or pays
  some of it out, so the number of accepted calls is at most the tickets waiting and the tokens queued.
\<close>

theorem queue_processing_ends:
  assumes "num_lib L" "token_calls T" "queue_reaches L T env w0 w"
    and "process_all L T env calls w = Inr w'"
  shows "length calls + queue_length w' + unat (queued_collateral_amount (qw_queue w')) \<le>
    queue_length w + unat (queued_collateral_amount (qw_queue w))"
  using queue_runtime.process_all_decreases [OF queue_runtime.intro [OF assms(1,2)] assms(4)
      queue_runtime.reaches_queue_ok [OF queue_runtime.intro [OF assms(1,2)] assms(3)]] .

section \<open>An example\<close>

text \<open>One owner queues 100 collateral tokens; then the destination turns out to be another program's account.\<close>

definition queue_market :: lending_market where
  "queue_market = lending_market_default\<lparr> lm_withdraw_ticket_issuance_enabled := 1,
     lm_withdraw_ticket_redemption_enabled := 1, lm_min_withdraw_queued_liquidity_value := 0 \<rparr>"

definition sample_env :: queue_env where
  "sample_env = \<lparr> env_token_checks = \<lparr> mint_extensions_check = (\<lambda>_. Inr ()), ta_extensions_check = (\<lambda>_. Inr ()) \<rparr>,
     env_ata = (\<lambda>owner mint program. owner + 1), env_base_authority = (\<lambda>v. v + 1), env_kvault_program = 77,
     env_spl_token = 88, env_callback = (\<lambda>_ _ _. Inr ()) \<rparr>"

definition sample_queue_world :: queue_world where
  "sample_queue_world = \<lparr> qw_market_key = 0, qw_market = queue_market, qw_reserve_key = 5,
     qw_reserve = limited_reserve\<lparr> rsv_withdraw_queue := withdraw_queue_default,
       rsv_liquidity := (rsv_liquidity limited_reserve)\<lparr> rl_supply_vault := 99 \<rparr> \<rparr>,
     qw_tickets = (\<lambda>_. None), qw_balances = (\<lambda>_. 0)(TokenAccount 11 := 500) \<rparr>"

definition sample_ta :: "pubkey \<Rightarrow> pubkey \<Rightarrow> token_account" where
  "sample_ta address program = \<lparr> ta_address = address, ta_mint = 0, ta_authority = 9, ta_program = program,
     ta_delegate = None, ta_frozen = False \<rparr>"

definition sample_enqueue :: enqueue_accounts where
  "sample_enqueue = \<lparr> ea_owner = 9, ea_user_source_collateral_ta = sample_ta 11 88,
     ea_user_destination_liquidity_ta = sample_ta 12 0, ea_progress_callback_custom_account_0 = None \<rparr>"

definition sample_withdraw :: withdraw_accounts where
  "sample_withdraw = \<lparr> wa_user_destination_liquidity = \<lparr> da_address = 12, da_owned_by_system = False,
       da_owned_by = 66, da_data_is_empty = False, da_token_account = None, da_mint_extensions_ok = True,
       da_mint_default_state_ok = True, da_extensions_ok = True \<rparr>,
     wa_progress_callback_program = None, wa_progress_callback_custom_account_0 = None,
     wa_progress_callback_custom_account_1 = None \<rparr>"

lemma queue_reserve_fields:
  "rsv_liquidity (qw_reserve sample_queue_world) = (rsv_liquidity sample_reserve)\<lparr> rl_supply_vault := 99 \<rparr>"
  "rsv_collateral (qw_reserve sample_queue_world) = rsv_collateral sample_reserve"
  "rsv_last_update (qw_reserve sample_queue_world) = last_update_new 5"
  "rsv_config (qw_reserve sample_queue_world) = rsv_config limited_reserve"
  "rsv_withdraw_queue (qw_reserve sample_queue_world) = withdraw_queue_default"
  "rsv_lending_market (qw_reserve sample_queue_world) = 0"
  "rsv_version (qw_reserve sample_queue_world) = of_nat PROGRAM_VERSION"
  by (simp_all add: sample_queue_world_def limited_fields)
    (simp_all add: limited_reserve_def sample_reserve_def reserve_init_def)

lemma queue_config_fields:
  "cfg_status (rsv_config limited_reserve) = 0" "emergency_mode (rsv_config limited_reserve) = 0"
  "max_age_price_seconds (token_info (rsv_config limited_reserve)) = 0"
  by (simp_all add: limited_reserve_def sample_reserve_def reserve_init_def zero_config_def token_info_default_def)

lemma queue_liquidity_fields:
  "market_price_sf (rsv_liquidity sample_reserve) = 0" "mint_decimals (rsv_liquidity sample_reserve) = 0"
  "rl_mint_pubkey (rsv_liquidity sample_reserve) = 0" "token_program (rsv_liquidity sample_reserve) = 0"
  "rc_mint_pubkey (rsv_collateral sample_reserve) = 0"
  by (simp_all add: sample_reserve_def reserve_init_def reserve_liquidity_default_def reserve_collateral_default_def)

lemma queue_refreshed:
  "refresh_without_price std_lib sample_clock queue_market (qw_reserve sample_queue_world) =
     Inr ((qw_reserve sample_queue_world)\<lparr> rsv_last_update := \<lparr> lu_slot = 5, lu_stale = 0, lu_price_status = 0 \<rparr> \<rparr>)"
  by (simp add: refresh_without_price_def refresh_reserve_def reserve_accrue_interest_def
      distribute_rewards_def refresh_price_def slots_elapsed_def checked_sub_def to_word_opt_def
      queue_reserve_fields queue_config_fields last_update_new_def sample_clock_def
      reserve_is_emergency_mode_def update_slot_def ok_or_def rbind_def is_saved_price_age_valid_def
      clock_timestamp_def NO_CHECKS_def)

lemma queue_min_value:
  "check_min_withdraw_ticket_value std_lib queue_market
     ((qw_reserve sample_queue_world)\<lparr> rsv_last_update := lu \<rparr>) 100 = Inr ()"
proof -
  let ?rate = "\<lparr> cer_collateral_supply = 1000, cer_liquidity = 1500 * 2 ^ 60 \<rparr>"
  have total: "total_supply std_lib ((rsv_liquidity sample_reserve)\<lparr> rl_supply_vault := 99 \<rparr>) = Inr (1500 * 2 ^ 60)"
    using sample_supply by (simp add: total_supply_def)
  have rate: "rsv_exchange_rate std_lib ((qw_reserve sample_queue_world)\<lparr> rsv_last_update := lu \<rparr>) = Inr ?rate"
    by (simp add: rsv_exchange_rate_def queue_reserve_fields total collateral_rate_for_def
        from_supply_and_liquidity_def sample_fields)
  have paid: "collateral_to_liquidity std_lib ?rate 100 = Inr 150"
    by (simp add: std.collateral_to_liquidity_eq to_liq_def rate_of_cer_def fx_scale_def)
  have f: "frac_of_u64 std_lib 150 = Inr (150 * 2 ^ 60)" by (simp add: std.frac_of_u64_eq fx_scale_def)
  have "liquidity_amount_to_market_value std_lib ((rsv_liquidity sample_reserve)\<lparr> rl_supply_vault := 99 \<rparr>)
      (150 * 2 ^ 60) = Inr 0"
    by (simp add: std.liquidity_amount_to_market_value_eq queue_liquidity_fields)
  with rate paid f show ?thesis
    by (simp add: check_min_withdraw_ticket_value_def queue_reserve_fields queue_market_def frac_less_int_def)
qed

definition queued_world :: queue_world where
  "queued_world = sample_queue_world\<lparr>
     qw_reserve := (qw_reserve sample_queue_world)\<lparr> rsv_last_update := \<lparr> lu_slot = 5, lu_stale = 0, lu_price_status = 0 \<rparr>,
       rsv_withdraw_queue := \<lparr> queued_collateral_amount = 100, next_issued_ticket_sequence_number = 1,
         next_withdrawable_ticket_sequence_number = 0 \<rparr> \<rparr>,
     qw_balances := (\<lambda>_. 0)(TokenAccount 11 := 400, QueueVault 9 := 100),
     qw_tickets := (\<lambda>_. None)(0 \<mapsto> \<lparr> wt_sequence_number = 0, wt_owner = 9, wt_reserve = 5,
       wt_user_destination_liquidity_ta = 12, wt_queued_collateral_amount = 100, wt_created_at_timestamp = 1000,
       wt_invalid = 0, wt_progress_callback_type = 0, wt_progress_callback_custom_accounts = [0, 0] \<rparr>) \<rparr>"

lemma sample_queue_world_fields [simp]:
  "qw_market_key sample_queue_world = 0" "qw_market sample_queue_world = queue_market"
  "qw_reserve_key sample_queue_world = 5" "qw_tickets sample_queue_world = (\<lambda>_. None)"
  "qw_balances sample_queue_world = (\<lambda>_. 0)(TokenAccount 11 := 500)"
  by (simp_all add: sample_queue_world_def)

lemma sample_queue_constraints:
  "enqueue_constraints sample_env sample_enqueue sample_queue_world = Inr ()"
  by (simp add: enqueue_constraints_def has_one_lending_market_def require_ta_def ensure_def
      queue_reserve_fields queue_liquidity_fields sample_enqueue_def sample_ta_def sample_env_def)

lemma sample_queue_checks:
  "emergency_mode_disabled queue_market = Inr ()"
  "enqueue_to_withdraw_checks (env_token_checks sample_env) (qw_reserve sample_queue_world) mint 12 = Inr ()"
  by (simp_all add: emergency_mode_disabled_def queue_market_def lending_market_default_def
      enqueue_to_withdraw_checks_def not_the_vault_def check_reserve_status_and_version_def config_status_def
      reserve_status_of_u8_def check_reserve_version_def check_reserve_emergency_mode_def ok_or_def
      check_only_supported_liquidity_token_extensions_def sample_env_def
      reserve_is_emergency_mode_def queue_reserve_fields queue_config_fields)

lemma sample_enqueue_reserve:
  "enqueue_to_withdraw std_lib queue_market
     ((qw_reserve sample_queue_world)\<lparr> rsv_last_update := \<lparr> lu_slot = 5, lu_stale = 0, lu_price_status = 0 \<rparr> \<rparr>) 100 =
   Inr (qw_reserve queued_world, 0)"
  by (simp add: enqueue_to_withdraw_def queue_min_value queue_reserve_fields withdraw_queue_default_def
      queue_enqueue_def add_ov_def checked_add_def to_word_opt_def queued_world_def)

lemma sample_enqueued:
  "process_enqueue_to_withdraw std_lib plain_tokens sample_env sample_clock sample_enqueue 100 NoCallback
     sample_queue_world = Inr queued_world"
proof -
  have enabled: "is_withdraw_ticket_issuance_enabled queue_market"
    by (simp add: is_withdraw_ticket_issuance_enabled_def queue_market_def)
  have ta: "ta_address (ea_user_destination_liquidity_ta sample_enqueue) = 12"
    "ta_address (ea_user_source_collateral_ta sample_enqueue) = 11" "ea_owner sample_enqueue = 9"
    by (simp_all add: sample_enqueue_def sample_ta_def)
  have transfer: "tk_transfer plain_tokens ((\<lambda>_. 0)(TokenAccount 11 := 500)) (TokenAccount 11) (QueueVault 9) 100 =
      Inr ((\<lambda>_. 0)(TokenAccount 11 := 400, QueueVault 9 := 100))"
    by (simp add: plain_tokens_def plain_transfer_def fun_upd_twist)
  have post: "post_transfer_owner_queued_collateral_vault_balance_checks 100 100 0 0 (Additive 100) = Inr ()"
    by (rule queued_vault_checks_intro_add) simp_all
  have queued: "queued_collateral_amount (rsv_withdraw_queue (qw_reserve queued_world)) = 100"
    by (simp add: queued_world_def)
  show ?thesis
    using sample_queue_constraints sample_queue_checks
    by (simp add: process_enqueue_to_withdraw_def ta enabled ensure_def queue_refreshed
        sample_enqueue_reserve queue_reserve_fields withdraw_queue_default_def
        extract_progress_callback_custom_accounts_def clock_timestamp_def transfer post queued)
      (simp add: queued_world_def sample_clock_def)
qed

lemma sample_queue_reached: "queue_reaches std_lib plain_tokens sample_env sample_queue_world queued_world"
proof (rule queue_enqueue [OF queue_start sample_enqueued])
  show "queue_empty sample_queue_world"
    by (simp add: queue_empty_def qw_queue_def queue_reserve_fields)
qed

lemma queued_open: "redemption_open queued_world"
  by (simp add: redemption_open_def queued_world_def queue_reserve_fields queue_market_def
      lending_market_default_def is_withdraw_ticket_redemption_enabled_def reserve_is_emergency_mode_def
      queue_config_fields)

lemma queued_length: "queue_length queued_world = 1" "head_number queued_world = 0"
  "unat (queued_collateral_amount (qw_queue queued_world)) = 100"
  by (simp_all add: queue_length_def head_number_def qw_queue_def queued_world_def)

lemma queued_skippable:
  "qw_tickets queued_world 0 = Some t \<Longrightarrow> skippable sample_env queued_world t sample_withdraw"
  by (auto simp: queued_world_def skippable_def sample_withdraw_def resolve_destination_def
      queue_reserve_fields queue_liquidity_fields)

theorem queue_tickets_are_backed_witness:
  "waiting queued_world 0 \<and>
   (\<forall>owner. tally (owned_by owner) (qw_tickets queued_world) \<le> unat (qw_balances queued_world (QueueVault owner)))"
proof -
  have "waiting queued_world 0" by (simp add: waiting_def qw_queue_def queued_world_def)
  with queue_tickets_are_backed [OF std.num_lib_axioms plain.token_calls_axioms sample_queue_reached]
  show ?thesis by blast
qed

theorem unpayable_tickets_never_block_witness:
  "\<exists>w'. process_all std_lib plain_tokens sample_env [(sample_clock, sample_withdraw)] queued_world = Inr w' \<and>
     queue_length w' = 0"
  using unpayable_tickets_never_block [OF std.num_lib_axioms plain.token_calls_axioms sample_queue_reached
      queued_open, of "[(sample_clock, sample_withdraw)]"] queued_skippable
  by (simp add: queued_length)

theorem queue_processing_ends_witness:
  "\<exists>w'. process_all std_lib plain_tokens sample_env [(sample_clock, sample_withdraw)] queued_world = Inr w' \<and>
     1 + queue_length w' + unat (queued_collateral_amount (qw_queue w')) \<le> 101"
proof -
  have "\<exists>w'. process_all std_lib plain_tokens sample_env [(sample_clock, sample_withdraw)] queued_world = Inr w'"
    using std_queue.process_all_drains [OF std_queue.reaches_queue_ok [OF sample_queue_reached] queued_open,
        of "[(sample_clock, sample_withdraw)]"] queued_skippable
    by (auto simp: queued_length)
  then obtain w' where w': "process_all std_lib plain_tokens sample_env [(sample_clock, sample_withdraw)]
      queued_world = Inr w'" by blast
  from queue_processing_ends [OF std.num_lib_axioms plain.token_calls_axioms sample_queue_reached w'] w'
  show ?thesis by (auto simp: queued_length)
qed

end
