(* ===== verification/Position_Checks.thy ===== *)
theory Position_Checks imports Lending_Checks begin

text \<open>
  The module \<open>utils\<close> of \<open>lending_market/lending_operations.rs\<close>: the guards that the operations on
  obligations share, the market value of a position, and the checks that close an operation. Log
  lines are left out.
\<close>

section \<open>Loops over positions and their accounts\<close>

text \<open>
  The reserve accounts an instruction reaches through iterators: their keys in the order of the
  iterator, and a store from keys to reserves, so that an account passed twice is one reserve. Loading
  an account that is not in the store (not a reserve, or already borrowed) is an error.
\<close>

type_synonym reserve_store = "pubkey \<rightharpoonup> reserve"

definition load_reserve :: "error \<Rightarrow> reserve_store \<Rightarrow> pubkey \<Rightarrow> reserve res" where
  "load_reserve e store key = ok_or (store key) e"

text \<open>
  The loop \<open>for slot in slots.filter(is_active)\<close> that takes the next account for every slot in use and
  changes the slot and the state \<open>c\<close>. A missing account is an error.
\<close>

fun for_active ::
  "('s \<Rightarrow> bool) \<Rightarrow> ('s \<Rightarrow> 'a \<Rightarrow> 'c \<Rightarrow> ('s \<times> 'c) res) \<Rightarrow> 's list \<Rightarrow> 'a list \<Rightarrow> 'c \<Rightarrow> ('s list \<times> 'c) res" where
  "for_active active body [] accounts c = Inr ([], c)"
| "for_active active body (s # ss) accounts c =
     (if \<not> active s
      then rbind (for_active active body ss accounts c) (\<lambda>(ss, c). Inr (s # ss, c))
      else case accounts of
        [] \<Rightarrow> fail InvalidAccountInput
      | a # accounts \<Rightarrow> rbind (body s a c) (\<lambda>(s, c).
          rbind (for_active active body ss accounts c) (\<lambda>(ss, c). Inr (s # ss, c))))"

text \<open>
  \<open>zip_exact\<close> of \<open>utils/validation.rs\<close>: the pairs, and an error item in the end when one side is
  longer. \<open>for_active_exact\<close> is the loop over it.
\<close>

fun zip_exact :: "'a list \<Rightarrow> 'b list \<Rightarrow> ('a \<times> 'b) option list" where
  "zip_exact [] [] = []"
| "zip_exact (x # xs) (y # ys) = Some (x, y) # zip_exact xs ys"
| "zip_exact _ _ = [None]"

definition for_active_exact ::
  "('s \<Rightarrow> bool) \<Rightarrow> ('s \<Rightarrow> 'a \<Rightarrow> 'c \<Rightarrow> ('s \<times> 'c) res) \<Rightarrow> 's list \<Rightarrow> 'a list \<Rightarrow> 'c \<Rightarrow> ('s list \<times> 'c) res" where
  "for_active_exact active body ss accounts c =
     rbind (for_active active body ss accounts c) (\<lambda>(ss', c').
     if length accounts > length (filter active ss) then fail InvalidAccountInput
     else Inr (ss', c'))"

text \<open>A loop over pairs that only checks.\<close>

fun check_all :: "('a \<Rightarrow> unit res) \<Rightarrow> 'a option list \<Rightarrow> unit res" where
  "check_all body [] = Inr ()"
| "check_all body (None # xs) = fail InvalidAccountInput"
| "check_all body (Some x # xs) = rbind (body x) (\<lambda>_. check_all body xs)"

text \<open>Arrays of the account: an index out of range panics.\<close>

definition array_get :: "'a list \<Rightarrow> nat \<Rightarrow> 'a res" where
  "array_get xs i = (if i < length xs then Inr (xs ! i) else Inl Panic)"

definition ensure_key :: "pubkey \<Rightarrow> pubkey \<Rightarrow> error \<Rightarrow> unit res" where
  "ensure_key k k' e = (if k = k' then Inr () else Inl e)"

section \<open>Elevation groups of a position\<close>

definition position_elevation_group :: "u8 \<Rightarrow> lending_market \<Rightarrow> elevation_group option res" where
  "position_elevation_group elevation_group_id m =
     (if unat elevation_group_id > MAX_NUM_ELEVATION_GROUPS then fail InvalidElevationGroup
      else rbind (get_elevation_group m elevation_group_id) (\<lambda>eg.
        case eg of
          None \<Rightarrow> Inr None
        | Some g \<Rightarrow>
            rbind (ensure (eg_liquidation_threshold_pct g \<noteq> 0) InvalidElevationGroup) (\<lambda>_.
            rbind (ensure (eg_ltv_pct g \<noteq> 0) InvalidElevationGroup) (\<lambda>_.
            Inr (Some g)))))"

definition get_max_ltv_and_liquidation_threshold ::
  "reserve \<Rightarrow> elevation_group option \<Rightarrow> u8 \<times> u8" where
  "get_max_ltv_and_liquidation_threshold deposit_reserve eg = (case eg of
     Some g \<Rightarrow> (eg_ltv_pct g, eg_liquidation_threshold_pct g)
   | None \<Rightarrow> (loan_to_value_pct (rsv_config deposit_reserve),
              liquidation_threshold_pct (rsv_config deposit_reserve)))"

definition check_elevation_group_borrowing_enabled :: "lending_market \<Rightarrow> obligation \<Rightarrow> unit res" where
  "check_elevation_group_borrowing_enabled m ob =
     rbind (position_elevation_group (ob_elevation_group ob) m) (\<lambda>eg.
     case eg of
       Some g \<Rightarrow> ensure (\<not> new_loans_disabled g) ElevationGroupNewLoansDisabled
     | None \<Rightarrow> Inr ())"

definition check_non_elevation_group_borrowing_enabled :: "obligation \<Rightarrow> unit res" where
  "check_non_elevation_group_borrowing_enabled ob =
     (if ob_elevation_group ob = ELEVATION_GROUP_NONE \<and> ob_borrowing_disabled ob > 0
      then fail BorrowingDisabledOutsideElevationGroup else Inr ())"

definition check_same_elevation_group :: "obligation \<Rightarrow> reserve \<Rightarrow> unit res" where
  "check_same_elevation_group ob r =
     (if ob_elevation_group ob \<noteq> ELEVATION_GROUP_NONE \<and>
         ob_elevation_group ob \<notin> set (cfg_elevation_groups (rsv_config r))
      then fail InconsistentElevationGroup else Inr ())"

definition check_elevation_group_borrow ::
  "reserve_store \<Rightarrow> elevation_group option \<Rightarrow> obligation_liquidity \<times> pubkey \<Rightarrow> unit res" where
  "check_elevation_group_borrow store eg = (\<lambda>(borrow, reserve_pk).
     rbind (load_reserve ProgramErr store reserve_pk) (\<lambda>borrow_reserve.
     rbind (ensure_key (ol_borrow_reserve borrow) reserve_pk (LendingErr InvalidAccountInput)) (\<lambda>_.
     case eg of
       Some g \<Rightarrow>
         rbind (ensure (eg_id g \<in> set (cfg_elevation_groups (rsv_config borrow_reserve)))
                  InconsistentElevationGroup) (\<lambda>_.
         ensure_key reserve_pk (eg_debt_reserve g) (LendingErr ElevationGroupHasAnotherDebtReserve))
     | None \<Rightarrow>
         ensure (borrow_limit_outside_elevation_group (rsv_config borrow_reserve) \<ge>
                 borrowed_amount_outside_elevation_group borrow_reserve)
           ElevationGroupBorrowLimitExceeded)))"

definition check_elevation_group_deposit ::
  "reserve_store \<Rightarrow> elevation_group option \<Rightarrow> obligation_collateral \<times> pubkey \<Rightarrow> unit res" where
  "check_elevation_group_deposit store eg = (\<lambda>(deposit, reserve_pk).
     rbind (load_reserve ProgramErr store reserve_pk) (\<lambda>deposit_reserve.
     rbind (ensure_key (oc_deposit_reserve deposit) reserve_pk (LendingErr InvalidAccountInput)) (\<lambda>_.
     case eg of
       Some g \<Rightarrow>
         rbind (eg_get_index g) (\<lambda>i.
         rbind (ensure (eg_id g \<in> set (cfg_elevation_groups (rsv_config deposit_reserve)))
                  InconsistentElevationGroup) (\<lambda>_.
         rbind (ensure (reserve_pk \<noteq> eg_debt_reserve g) ElevationGroupDebtReserveAsCollateral) (\<lambda>_.
         rbind (array_get (borrow_limit_against_this_collateral_in_elevation_group
                             (rsv_config deposit_reserve)) i) (\<lambda>limit.
         rbind (array_get (borrowed_amounts_against_this_reserve_in_elevation_groups
                             deposit_reserve) i) (\<lambda>borrowed.
         ensure (limit \<ge> borrowed) ElevationGroupBorrowLimitExceeded)))))
     | None \<Rightarrow> Inr ())))"

definition check_elevation_group_borrow_limit_constraints ::
  "reserve_store \<Rightarrow> obligation \<Rightarrow> elevation_group option \<Rightarrow> pubkey list \<Rightarrow> pubkey list \<Rightarrow>
   unit res" where
  "check_elevation_group_borrow_limit_constraints store ob eg deposit_reserves borrow_reserves =
     rbind (check_all (check_elevation_group_borrow store eg)
              (zip_exact (active_borrows ob) borrow_reserves)) (\<lambda>_.
     rbind (check_all (check_elevation_group_deposit store eg)
              (zip_exact (active_deposits ob) deposit_reserves)) (\<lambda>_.
     if \<not> is_active_borrows_empty ob then check_non_elevation_group_borrowing_enabled ob
     else Inr ()))"

section \<open>Market values\<close>

definition calculate_market_value_from_liquidity_amount :: "numlib \<Rightarrow> reserve \<Rightarrow> frac \<Rightarrow> frac res" where
  "calculate_market_value_from_liquidity_amount L r liquidity_amount =
     liquidity_amount_to_market_value L (rsv_liquidity r) liquidity_amount"

definition liquidity_of_collateral :: "numlib \<Rightarrow> reserve \<Rightarrow> u64 \<Rightarrow> frac res" where
  "liquidity_of_collateral L r collateral_amount =
     rbind (rsv_exchange_rate L r) (\<lambda>rate.
     rbind (frac_of_u64 L collateral_amount) (fraction_collateral_to_liquidity L rate))"

definition calculate_obligation_collateral_market_value ::
  "numlib \<Rightarrow> reserve \<Rightarrow> obligation_collateral \<Rightarrow> frac res" where
  "calculate_obligation_collateral_market_value L deposit_reserve deposit =
     rbind (liquidity_of_collateral L deposit_reserve (oc_deposited_amount deposit))
       (calculate_market_value_from_liquidity_amount L deposit_reserve)"

definition calculate_obligation_liquidity_market_value ::
  "numlib \<Rightarrow> reserve \<Rightarrow> obligation_liquidity \<Rightarrow> frac res" where
  "calculate_obligation_liquidity_market_value L borrow_reserve borrow =
     calculate_market_value_from_liquidity_amount L borrow_reserve (ol_borrowed_amount_sf borrow)"

section \<open>Freshness and possibility\<close>

definition ensure_obligation_fresh :: "obligation \<Rightarrow> u64 \<Rightarrow> price_status_flags \<Rightarrow> unit res" where
  "ensure_obligation_fresh ob slot min_price_status =
     rbind (is_stale (ob_last_update ob) slot min_price_status) (\<lambda>stale.
     if stale then fail ObligationStale else Inr ())"

definition check_position_reserve :: "pubkey \<Rightarrow> reserve \<Rightarrow> pubkey \<Rightarrow> u64 \<Rightarrow> unit res" where
  "check_position_reserve position_reserve r reserve_pk slot =
     (if position_reserve \<noteq> reserve_pk then fail InvalidAccountInput
      else rbind (ensure_reserve_fresh r slot NO_CHECKS) (\<lambda>_.
        if rsv_version r \<noteq> of_nat PROGRAM_VERSION then fail ReserveDeprecated else Inr ()))"

definition check_obligation_collateral_deposit_reserve ::
  "obligation_collateral \<Rightarrow> reserve \<Rightarrow> pubkey \<Rightarrow> u64 \<Rightarrow> unit res" where
  "check_obligation_collateral_deposit_reserve deposit deposit_reserve deposit_reserve_pk slot =
     check_position_reserve (oc_deposit_reserve deposit) deposit_reserve deposit_reserve_pk slot"

definition check_obligation_liquidity_borrow_reserve ::
  "obligation_liquidity \<Rightarrow> reserve \<Rightarrow> pubkey \<Rightarrow> u64 \<Rightarrow> unit res" where
  "check_obligation_liquidity_borrow_reserve borrow borrow_reserve borrow_reserve_pk slot =
     check_position_reserve (ol_borrow_reserve borrow) borrow_reserve borrow_reserve_pk slot"

definition check_obligation_fully_refreshed_and_not_null :: "obligation \<Rightarrow> u64 \<Rightarrow> unit res" where
  "check_obligation_fully_refreshed_and_not_null ob slot =
     rbind (ensure_obligation_fresh ob slot ALL_CHECKS) (\<lambda>_.
     if is_active_deposits_empty ob then fail ObligationDepositsEmpty
     else if ob_deposited_value_sf ob = 0 then fail ObligationDepositsZero
     else Inr ())"

definition check_borrow_possible ::
  "lending_market \<Rightarrow> reserve \<Rightarrow> obligation \<Rightarrow> clock \<Rightarrow> unit res" where
  "check_borrow_possible m r ob clk =
     (if is_borrowing_disabled m then fail BorrowingDisabled
      else rbind (ensure_reserve_fresh r (clk_slot clk) ALL_CHECKS) (\<lambda>_.
        rbind (clock_timestamp (clk_unix_timestamp clk)) (\<lambda>timestamp.
        if get_secs_since_debt_maturity_reached (rsv_config r) timestamp \<noteq> None
        then fail Lending_Errors.ReserveDebtMaturityReached
        else rbind (check_not_marked_for_deleveraging ob) (\<lambda>_.
          if has_obsolete_reserves ob then fail ObligationInObsoleteReserve
          else rbind (check_obligation_fully_refreshed_and_not_null ob (clk_slot clk)) (\<lambda>_.
            rbind (check_same_elevation_group ob r) (\<lambda>_.
            rbind (check_elevation_group_borrowing_enabled m ob) (\<lambda>_.
            check_non_elevation_group_borrowing_enabled ob)))))))"

definition check_repay_possible :: "reserve \<Rightarrow> obligation \<Rightarrow> clock \<Rightarrow> unit res" where
  "check_repay_possible r ob clk =
     rbind (ensure_reserve_fresh r (clk_slot clk) NO_CHECKS) (\<lambda>_.
     ensure_obligation_fresh ob (clk_slot clk) NO_CHECKS)"

definition assert_obligation_liquidatable ::
  "reserve \<Rightarrow> reserve \<Rightarrow> obligation \<Rightarrow> u64 \<Rightarrow> u64 \<Rightarrow> unit res" where
  "assert_obligation_liquidatable repay_reserve withdraw_reserve ob liquidity_amount slot =
     (if liquidity_amount = 0 then fail InvalidAmount
      else rbind (ensure_reserve_fresh repay_reserve slot LIQUIDATION_CHECKS) (\<lambda>_.
        rbind (ensure_reserve_fresh withdraw_reserve slot LIQUIDATION_CHECKS) (\<lambda>_.
        rbind (ensure_obligation_fresh ob slot LIQUIDATION_CHECKS) (\<lambda>_.
        if ob_deposited_value_sf ob = 0 then fail ObligationDepositsZero
        else if ob_borrow_factor_adjusted_debt_value_sf ob = 0 then fail ObligationBorrowsZero
        else Inr ()))))"

section \<open>Closing checks\<close>

text \<open>
  \<open>saturating_mul\<close> of the fixed-point crate: the checked product, or the largest value where there
  is none.
\<close>

definition fx_saturating_mul :: "numlib \<Rightarrow> frac \<Rightarrow> frac \<Rightarrow> frac" where
  "fx_saturating_mul L a b = (case fx_checked_mul L a b of None \<Rightarrow> - 1 | Some c \<Rightarrow> c)"

definition post_deposit_obligation_invariants ::
  "numlib \<Rightarrow> frac \<Rightarrow> obligation \<Rightarrow> reserve \<Rightarrow> frac \<Rightarrow> frac \<Rightarrow> unit res" where
  "post_deposit_obligation_invariants L amount ob r previous_collateral_asset_mv
     min_accepted_net_value =
     rbind (calculate_market_value_from_liquidity_amount L r amount) (\<lambda>asset_mv.
     rbind (fx_add L (ob_deposited_value_sf ob) asset_mv) (\<lambda>new_total_deposited_mv.
     rbind (fx_add L previous_collateral_asset_mv asset_mv) (\<lambda>new_collateral_asset_mv.
     rbind (fx_div L (ob_borrow_factor_adjusted_debt_value_sf ob) new_total_deposited_mv) (\<lambda>new_ltv.
     if new_collateral_asset_mv > 0 \<and> new_collateral_asset_mv < min_accepted_net_value
     then fail NetValueRemainingTooSmall
     else if ob_deposited_value_sf ob \<noteq> 0
     then rbind (loan_to_value L ob) (\<lambda>ltv.
       if new_ltv > ltv then fail WorseLtvBlocked else Inr ())
     else Inr ()))))"

definition post_withdraw_obligation_invariants ::
  "numlib \<Rightarrow> frac \<Rightarrow> obligation \<Rightarrow> reserve \<Rightarrow> u8 \<Rightarrow> frac \<Rightarrow> frac \<Rightarrow> unit res" where
  "post_withdraw_obligation_invariants L amount ob r reserve_liquidation_threshold_pct
     previous_collateral_asset_mv min_accepted_net_value =
     rbind (calculate_market_value_from_liquidity_amount L r amount) (\<lambda>asset_mv.
     rbind (fx_sub L (ob_deposited_value_sf ob) asset_mv) (\<lambda>new_total_deposited_mv.
     let debt_value_bf = ob_borrow_factor_adjusted_debt_value_sf ob
     in rbind (if previous_collateral_asset_mv \<noteq> 0
          then rbind (fx_sub L previous_collateral_asset_mv asset_mv) (\<lambda>new_collateral_asset_mv.
            if new_collateral_asset_mv > 0 \<and> new_collateral_asset_mv < min_accepted_net_value
            then fail NetValueRemainingTooSmall else Inr ())
          else Inr ()) (\<lambda>_.
     if new_total_deposited_mv = 0 \<and> debt_value_bf > 0 then fail LiabilitiesBiggerThanAssets
     else if new_total_deposited_mv \<noteq> 0 then
       if ob_borrowed_assets_market_value_sf ob \<ge> new_total_deposited_mv
       then fail LiabilitiesBiggerThanAssets
       else rbind (fx_div L debt_value_bf new_total_deposited_mv) (\<lambda>new_ltv.
         rbind (from_percent L (ucast reserve_liquidation_threshold_pct)) (\<lambda>threshold.
         let new_unhealthy_borrow_value = fx_saturating_sub L (ob_unhealthy_borrow_value_sf ob)
               (fx_saturating_mul L asset_mv threshold)
         in rbind (fx_div L new_unhealthy_borrow_value new_total_deposited_mv) (\<lambda>new_unhealthy_ltv.
         if new_ltv \<ge> new_unhealthy_ltv \<and> new_ltv \<noteq> 0 then fail WorseLtvThanUnhealthyLtv
         else Inr ())))
     else Inr ())))"

definition ltv_enforcements :: "numlib \<Rightarrow> obligation \<Rightarrow> reserve \<Rightarrow> frac \<Rightarrow> unit res" where
  "ltv_enforcements L ob withdraw_reserve initial_ltv =
     (let debt_value = ob_borrow_factor_adjusted_debt_value_sf ob;
          new_total_deposited_mv = ob_deposited_value_sf ob
      in if ob_lowest_reserve_deposit_max_ltv_pct ob = 0 \<and> debt_value > 0
         then fail ZeroMaxLtvAssetsInDeposits
         else if ob_lowest_reserve_deposit_max_ltv_pct ob <
                   loan_to_value_pct (rsv_config withdraw_reserve) \<and> debt_value > 0
         then fail LowestLtvAssetsPriority
         else rbind (if new_total_deposited_mv \<noteq> 0 then
             rbind (unhealthy_loan_to_value L ob) (\<lambda>new_unhealthy_ltv.
             rbind (loan_to_value L ob) (\<lambda>new_ltv.
             if new_ltv > initial_ltv then fail WorseLtvBlocked
             else if new_ltv \<ge> new_unhealthy_ltv then fail WorseLtvThanUnhealthyLtv
             else Inr ()))
           else Inr ()) (\<lambda>_.
         if new_total_deposited_mv = 0 \<and> debt_value > 0 then fail LiabilitiesBiggerThanAssets
         else Inr ()))"

definition post_repay_and_withdraw_obligation_enforcements ::
  "numlib \<Rightarrow> obligation \<Rightarrow> reserve \<Rightarrow> frac \<Rightarrow> unit res" where
  "post_repay_and_withdraw_obligation_enforcements L ob withdraw_reserve initial_ltv_before_repay =
     ltv_enforcements L ob withdraw_reserve initial_ltv_before_repay"

datatype max_reserves_as_collateral_check = Perform | Skip

definition post_deposit_and_withdraw_obligation_enforcements ::
  "numlib \<Rightarrow> obligation \<Rightarrow> reserve \<Rightarrow> lending_market \<Rightarrow> frac \<Rightarrow>
   max_reserves_as_collateral_check \<Rightarrow> unit res" where
  "post_deposit_and_withdraw_obligation_enforcements L ob withdraw_reserve m initial_ltv check =
     rbind (ltv_enforcements L ob withdraw_reserve initial_ltv) (\<lambda>_.
     if check = Perform
     then rbind (position_elevation_group (ob_elevation_group ob) m) (\<lambda>eg.
       case eg of
         Some g \<Rightarrow> ensure (unat (eg_max_reserves_as_collateral g) \<ge> active_deposits_count ob)
                     ObligationCollateralExceedsElevationGroupLimit
       | None \<Rightarrow> Inr ())
     else Inr ())"

definition post_borrow_obligation_invariants ::
  "numlib \<Rightarrow> frac \<Rightarrow> obligation \<Rightarrow> reserve \<Rightarrow> frac \<Rightarrow> frac \<Rightarrow> unit res" where
  "post_borrow_obligation_invariants L amount ob r liquidity_asset_mv min_accepted_net_value =
     rbind (calculate_market_value_from_liquidity_amount L r amount) (\<lambda>asset_mv.
     rbind (borrow_factor_f L r (ob_elevation_group ob \<noteq> ELEVATION_GROUP_NONE)) (\<lambda>factor.
     rbind (fx_mul L asset_mv factor) (\<lambda>bf_asset_mv.
     rbind (fx_add L (ob_borrow_factor_adjusted_debt_value_sf ob) bf_asset_mv)
       (\<lambda>new_total_bf_debt_mv.
     rbind (fx_add L (ob_borrowed_assets_market_value_sf ob) asset_mv) (\<lambda>new_total_no_bf_debt_mv.
     rbind (fx_add L liquidity_asset_mv asset_mv) (\<lambda>new_liquidity_asset_mv.
     if new_liquidity_asset_mv > 0 \<and> new_liquidity_asset_mv < min_accepted_net_value
     then fail NetValueRemainingTooSmall
     else rbind (fx_div L new_total_bf_debt_mv (ob_deposited_value_sf ob)) (\<lambda>new_ltv.
       rbind (unhealthy_loan_to_value L ob) (\<lambda>unhealthy_ltv.
       if new_ltv > unhealthy_ltv then fail WorseLtvThanUnhealthyLtv
       else if new_total_no_bf_debt_mv \<ge> ob_deposited_value_sf ob
       then fail LiabilitiesBiggerThanAssets else Inr ()))))))))"

definition post_repay_obligation_invariants ::
  "numlib \<Rightarrow> frac \<Rightarrow> obligation \<Rightarrow> reserve \<Rightarrow> frac \<Rightarrow> frac \<Rightarrow> unit res" where
  "post_repay_obligation_invariants L amount ob r liquidity_asset_mv min_accepted_net_value =
     rbind (calculate_market_value_from_liquidity_amount L r amount) (\<lambda>asset_mv.
     rbind (borrow_factor_f L r (ob_elevation_group ob \<noteq> ELEVATION_GROUP_NONE)) (\<lambda>factor.
     rbind (fx_mul L asset_mv factor) (\<lambda>bf_asset_mv.
     rbind (fx_sub L (ob_borrow_factor_adjusted_debt_value_sf ob) bf_asset_mv)
       (\<lambda>new_total_bf_debt_mv.
     rbind (if liquidity_asset_mv \<noteq> 0
       then rbind (fx_sub L liquidity_asset_mv asset_mv) (\<lambda>new_liquidity_asset_mv.
         if new_liquidity_asset_mv > 0 \<and> new_liquidity_asset_mv < min_accepted_net_value
         then fail NetValueRemainingTooSmall else Inr ())
       else Inr ()) (\<lambda>_.
     if ob_deposited_value_sf ob > 0
     then rbind (fx_div L new_total_bf_debt_mv (ob_deposited_value_sf ob)) (\<lambda>new_ltv.
       rbind (loan_to_value L ob) (\<lambda>ltv.
       if new_ltv > ltv then fail WorseLtvBlocked else Inr ()))
     else Inr ())))))"

definition clear_obligation_orders_if_no_debt :: "obligation \<Rightarrow> obligation" where
  "clear_obligation_orders_if_no_debt ob =
     (if \<not> has_debt ob then fst (remove_all_orders ob) else ob)"

end
