(* ===== verification/Position_Operations.thy ===== *)
theory Position_Operations imports Position_Checks begin

text \<open>
  The operations on the positions of an obligation, from \<open>lending_market/lending_operations.rs\<close>:
  deposit and withdraw collateral, borrow, repay, forgive bad debt, and change the elevation group,
  with the trackers that count the debt of elevation groups against each collateral reserve and the
  debt outside of groups.
\<close>

section \<open>Debt trackers\<close>

text \<open>\<open>x[i] = f (x[i])\<close> on an array of the account, which panics out of range.\<close>

definition array_update :: "'a list \<Rightarrow> nat \<Rightarrow> ('a \<Rightarrow> 'a res) \<Rightarrow> 'a list res" where
  "array_update xs i f = rbind (array_get xs i) (\<lambda>x. rbind (f x) (\<lambda>y. Inr (xs[i := y])))"

definition update_group_debt :: "reserve \<Rightarrow> nat \<Rightarrow> (u64 \<Rightarrow> u64 res) \<Rightarrow> reserve res" where
  "update_group_debt r i f =
     rbind (array_update (borrowed_amounts_against_this_reserve_in_elevation_groups r) i f) (\<lambda>xs.
     Inr (r\<lparr> borrowed_amounts_against_this_reserve_in_elevation_groups := xs \<rparr>))"

text \<open>Indexing with \<open>id as usize - 1\<close>: the identifier 0 underflows.\<close>

definition group_index :: "u8 \<Rightarrow> nat res" where
  "group_index elevation_group_id =
     (if elevation_group_id = 0 then Inl Panic else Inr (unat elevation_group_id - 1))"

definition track_group_borrow ::
  "nat \<Rightarrow> u64 \<Rightarrow> obligation_collateral \<Rightarrow> pubkey \<Rightarrow> reserve_store \<Rightarrow>
   (obligation_collateral \<times> reserve_store) res" where
  "track_group_borrow i new_borrowed_amount deposit reserve_pk store =
     rbind (ensure_key reserve_pk (oc_deposit_reserve deposit) ProgramErr) (\<lambda>_.
     rbind (load_reserve ProgramErr store reserve_pk) (\<lambda>r.
     rbind (array_get (borrow_limit_against_this_collateral_in_elevation_group (rsv_config r)) i)
       (\<lambda>debt_limit.
     rbind (update_group_debt r i (\<lambda>prev.
         rbind (ok_or (checked_add prev new_borrowed_amount)
                  (LendingErr ElevationGroupBorrowLimitExceeded)) (\<lambda>new.
         rbind (ensure (debt_limit \<ge> new) ElevationGroupBorrowLimitExceeded) (\<lambda>_. Inr new))))
       (\<lambda>r.
     rbind (add_ov (oc_borrowed_amount_against_this_collateral_in_elevation_group deposit)
              new_borrowed_amount) (\<lambda>amount.
     Inr (deposit\<lparr> oc_borrowed_amount_against_this_collateral_in_elevation_group := amount \<rparr>,
          store(reserve_pk \<mapsto> r)))))))"

definition update_elevation_group_debt_trackers_on_borrow ::
  "u64 \<Rightarrow> obligation \<Rightarrow> nat \<Rightarrow> elevation_group option \<Rightarrow> pubkey \<Rightarrow> reserve \<Rightarrow> pubkey list \<Rightarrow>
   reserve_store \<Rightarrow> (obligation \<times> reserve \<times> reserve_store) res" where
  "update_elevation_group_debt_trackers_on_borrow new_borrowed_amount ob borrow_index eg
     borrow_reserve_pk borrow_reserve deposit_reserves store = (case eg of
     Some g \<Rightarrow>
       rbind (eg_get_index g) (\<lambda>i.
       rbind (ensure_key (eg_debt_reserve g) borrow_reserve_pk
                (LendingErr ElevationGroupHasAnotherDebtReserve)) (\<lambda>_.
       rbind (for_active collateral_is_active (track_group_borrow i new_borrowed_amount)
                (ob_deposits ob) deposit_reserves store) (\<lambda>(deposits, store).
       Inr (ob\<lparr> ob_deposits := deposits \<rparr>, borrow_reserve, store))))
   | None \<Rightarrow>
       rbind (ok_or (checked_add (borrowed_amount_outside_elevation_group borrow_reserve)
                       new_borrowed_amount) (LendingErr MathOverflow)) (\<lambda>new_total_borrow_amount.
       rbind (ensure (borrow_limit_outside_elevation_group (rsv_config borrow_reserve) \<ge>
                      new_total_borrow_amount) BorrowLimitExceeded) (\<lambda>_.
       rbind (array_update (ob_borrows ob) borrow_index (\<lambda>l.
           rbind (add_ov (ol_borrowed_amount_outside_elevation_groups l) new_borrowed_amount)
             (\<lambda>amount. Inr (l\<lparr> ol_borrowed_amount_outside_elevation_groups := amount \<rparr>))))
         (\<lambda>borrows.
       Inr (ob\<lparr> ob_borrows := borrows \<rparr>,
            borrow_reserve\<lparr> borrowed_amount_outside_elevation_group := new_total_borrow_amount \<rparr>,
            store)))))"

definition track_group_repay ::
  "nat \<Rightarrow> u64 \<Rightarrow> obligation_collateral \<Rightarrow> pubkey \<Rightarrow> reserve_store \<Rightarrow>
   (obligation_collateral \<times> reserve_store) res" where
  "track_group_repay i repay_amount deposit reserve_pk store =
     rbind (ensure_key reserve_pk (oc_deposit_reserve deposit) ProgramErr) (\<lambda>_.
     rbind (load_reserve ProgramErr store reserve_pk) (\<lambda>r.
     rbind (array_get (borrow_limit_against_this_collateral_in_elevation_group (rsv_config r)) i)
       (\<lambda>debt_limit.
     rbind (update_group_debt r i (\<lambda>pre. Inr (saturating_sub pre repay_amount))) (\<lambda>r.
     Inr (deposit\<lparr> oc_borrowed_amount_against_this_collateral_in_elevation_group :=
            saturating_sub (oc_borrowed_amount_against_this_collateral_in_elevation_group deposit)
              repay_amount \<rparr>, store(reserve_pk \<mapsto> r))))))"

definition update_elevation_group_debt_trackers_on_repay ::
  "u64 \<Rightarrow> obligation \<Rightarrow> nat \<Rightarrow> reserve \<Rightarrow> pubkey list \<Rightarrow> reserve_store \<Rightarrow>
   (obligation \<times> reserve \<times> reserve_store) res" where
  "update_elevation_group_debt_trackers_on_repay repay_amount ob borrow_index borrow_reserve
     deposit_reserves store =
     (if ob_elevation_group ob \<noteq> ELEVATION_GROUP_NONE
      then rbind (group_index (ob_elevation_group ob)) (\<lambda>i.
        rbind (for_active collateral_is_active (track_group_repay i repay_amount)
                 (ob_deposits ob) deposit_reserves store) (\<lambda>(deposits, store).
        Inr (ob\<lparr> ob_deposits := deposits \<rparr>, borrow_reserve, store)))
      else rbind (array_update (ob_borrows ob) borrow_index (\<lambda>l.
          Inr (l\<lparr> ol_borrowed_amount_outside_elevation_groups :=
            saturating_sub (ol_borrowed_amount_outside_elevation_groups l) repay_amount \<rparr>)))
        (\<lambda>borrows.
        Inr (ob\<lparr> ob_borrows := borrows \<rparr>,
             borrow_reserve\<lparr> borrowed_amount_outside_elevation_group :=
               saturating_sub (borrowed_amount_outside_elevation_group borrow_reserve)
                 repay_amount \<rparr>, store)))"

definition update_elevation_group_debt_trackers_on_new_deposit ::
  "u64 option \<Rightarrow> obligation_collateral \<Rightarrow> nat \<Rightarrow> elevation_group option \<Rightarrow> pubkey \<Rightarrow> reserve \<Rightarrow>
   max_reserves_as_collateral_check \<Rightarrow> (obligation_collateral \<times> reserve) res" where
  "update_elevation_group_debt_trackers_on_new_deposit total_borrowed collateral pre_deposit_count
     eg deposit_reserve_pk deposit_reserve check = (case eg of
     Some g \<Rightarrow>
       rbind (ensure (eg_debt_reserve g \<noteq> deposit_reserve_pk)
                ElevationGroupDebtReserveAsCollateral) (\<lambda>_.
       rbind (if check = Perform
              then ensure (unat (eg_max_reserves_as_collateral g) \<ge> pre_deposit_count + 1)
                     ObligationCollateralExceedsElevationGroupLimit
              else Inr ()) (\<lambda>_.
       rbind (eg_get_index g) (\<lambda>i.
       rbind (ok_or total_borrowed (LendingErr ObligationElevationGroupMultipleDebtReserve))
         (\<lambda>total_borrowed.
       rbind (update_group_debt deposit_reserve i (\<lambda>x. add_ov x total_borrowed))
         (\<lambda>deposit_reserve.
       Inr (collateral\<lparr> oc_borrowed_amount_against_this_collateral_in_elevation_group :=
              total_borrowed \<rparr>, deposit_reserve))))))
   | None \<Rightarrow> Inr (collateral, deposit_reserve))"

definition update_elevation_group_debt_trackers_on_full_withdraw ::
  "u64 \<Rightarrow> u8 \<Rightarrow> reserve \<Rightarrow> reserve res" where
  "update_elevation_group_debt_trackers_on_full_withdraw previous_debt_in_elevation_group
     elevation_group_id deposit_reserve =
     (if elevation_group_id \<noteq> ELEVATION_GROUP_NONE
      then rbind (group_index elevation_group_id) (\<lambda>i.
        update_group_debt deposit_reserve i (\<lambda>x.
          Inr (saturating_sub x previous_debt_in_elevation_group)))
      else Inr deposit_reserve)"

text \<open>
  The source slot is looked up again: it is gone when the loan was moved over in full.
\<close>

definition update_elevation_group_debt_trackers_on_rollover ::
  "obligation \<Rightarrow> u64 \<Rightarrow> reserve \<Rightarrow> reserve \<Rightarrow> pubkey \<Rightarrow> nat \<Rightarrow> (obligation \<times> reserve \<times> reserve) res" where
  "update_elevation_group_debt_trackers_on_rollover ob tokens_moved_over source_borrow_reserve
     target_borrow_reserve source_borrow_reserve_address target_borrow_index =
     rbind (add_ov (borrowed_amount_outside_elevation_group target_borrow_reserve) tokens_moved_over)
       (\<lambda>target_amount.
     rbind (case find_liquidity_in_borrows ob source_borrow_reserve_address of
         Inr (_, i) \<Rightarrow> array_update (ob_borrows ob) i (\<lambda>l.
           Inr (l\<lparr> ol_borrowed_amount_outside_elevation_groups :=
             saturating_sub (ol_borrowed_amount_outside_elevation_groups l) tokens_moved_over \<rparr>))
       | Inl _ \<Rightarrow> Inr (ob_borrows ob)) (\<lambda>borrows.
     rbind (array_update borrows target_borrow_index (\<lambda>l.
         rbind (add_ov (ol_borrowed_amount_outside_elevation_groups l) tokens_moved_over)
           (\<lambda>amount. Inr (l\<lparr> ol_borrowed_amount_outside_elevation_groups := amount \<rparr>)))) (\<lambda>borrows.
     Inr (ob\<lparr> ob_borrows := borrows \<rparr>,
          source_borrow_reserve\<lparr> borrowed_amount_outside_elevation_group :=
            saturating_sub (borrowed_amount_outside_elevation_group source_borrow_reserve)
              tokens_moved_over \<rparr>,
          target_borrow_reserve\<lparr> borrowed_amount_outside_elevation_group := target_amount \<rparr>))))"

section \<open>Marks\<close>

definition mark_obligation_stale :: "obligation \<Rightarrow> obligation" where
  "mark_obligation_stale ob = ob\<lparr> ob_last_update := mark_stale (ob_last_update ob) \<rparr>"

section \<open>Depositing and withdrawing collateral\<close>

definition deposit_obligation_collateral ::
  "numlib \<Rightarrow> lending_market \<Rightarrow> reserve \<Rightarrow> obligation \<Rightarrow> u64 \<Rightarrow> u64 \<Rightarrow> pubkey \<Rightarrow>
   max_reserves_as_collateral_check \<Rightarrow> (reserve \<times> obligation) res" where
  "deposit_obligation_collateral L m r ob slot collateral_amount deposit_reserve_pk check =
     (if collateral_amount = 0 then fail InvalidAmount
      else rbind (ensure_reserve_fresh r slot NO_CHECKS) (\<lambda>_.
        rbind (ensure_obligation_fresh ob slot NO_CHECKS) (\<lambda>_.
        if disable_usage_as_coll_outside_emode (rsv_config r) > 0 \<and>
           ob_elevation_group ob = ELEVATION_GROUP_NONE \<and>
           ob_borrow_factor_adjusted_debt_value_sf ob > 0
        then fail DepositDisabledOutsideElevationGroup
        else rbind (check_same_elevation_group ob r) (\<lambda>_.
          rbind (position_elevation_group (ob_elevation_group ob) m) (\<lambda>eg.
          rbind (if snd (get_max_ltv_and_liquidation_threshold r eg) = 0
                 then check_not_marked_for_deleveraging ob else Inr ()) (\<lambda>_.
          rbind (get_borrowed_amount_if_single_token L ob) (\<lambda>total_borrowed_amount.
          rbind (find_or_add_collateral_to_deposits ob deposit_reserve_pk) (\<lambda>(ob', i, newly_added).
          rbind (if newly_added
                 then update_elevation_group_debt_trackers_on_new_deposit total_borrowed_amount
                        (ob_deposits ob' ! i) (active_deposits_count ob) eg deposit_reserve_pk r check
                 else Inr (ob_deposits ob' ! i, r)) (\<lambda>(collateral, r).
          rbind (collateral_deposit collateral collateral_amount) (\<lambda>collateral.
          let ob' = ob'\<lparr> ob_deposits := (ob_deposits ob')[i := collateral] \<rparr>
          in rbind (check_orders_supported_after_user_operation ob') (\<lambda>_.
          let ob' = mark_obligation_stale ob'; r = mark_reserve_stale r
          in rbind (liquidity_of_collateral L r collateral_amount) (\<lambda>amount.
          rbind (post_deposit_obligation_invariants L amount ob' r (oc_market_value_sf collateral)
                   (lm_min_net_value_in_obligation_sf m)) (\<lambda>_.
          Inr (r, ob'))))))))))))))"

text \<open>
  How much may leave, when the obligation has debt: at most what keeps the debt within the chosen
  limit. With \<open>u64::MAX\<close> the amount is the largest that is allowed.
\<close>

definition max_collateral_to_withdraw ::
  "numlib \<Rightarrow> obligation_collateral \<Rightarrow> frac \<Rightarrow> u64 res" where
  "max_collateral_to_withdraw L c max_value =
     rbind (fx_div L (min max_value (oc_market_value_sf c)) (oc_market_value_sf c))
       (\<lambda>withdraw_ratio.
     rbind (fx_mul_int L withdraw_ratio (ucast (oc_deposited_amount c))) (\<lambda>ratioed_amount_f.
     rbind (to_floor L ratioed_amount_f) (\<lambda>ratioed_amount.
     Inr (min (oc_deposited_amount c) ratioed_amount))))"

definition exact_collateral_to_withdraw ::
  "numlib \<Rightarrow> obligation_collateral \<Rightarrow> frac \<Rightarrow> u64 \<Rightarrow> ltv_max_withdrawal_check \<Rightarrow> u64 res" where
  "exact_collateral_to_withdraw L c max_value collateral_amount check =
     (let withdraw_amount = min collateral_amount (oc_deposited_amount c)
      in rbind (frac_of_u64 L withdraw_amount) (\<lambda>withdraw_amount_f.
         rbind (frac_of_u64 L (oc_deposited_amount c)) (\<lambda>deposited_f.
         rbind (div_ceil L withdraw_amount_f deposited_f) (\<lambda>withdraw_ratio.
         rbind (fx_mul L (oc_market_value_sf c) withdraw_ratio) (\<lambda>withdraw_value.
         if (if check = LiquidationThreshold then withdraw_value \<ge> max_value
             else withdraw_value > max_value)
         then fail WithdrawTooLarge else Inr withdraw_amount)))))"

definition collateral_to_withdraw ::
  "numlib \<Rightarrow> obligation \<Rightarrow> obligation_collateral \<Rightarrow> u8 \<times> u8 \<Rightarrow> u64 \<Rightarrow>
   ltv_max_withdrawal_check \<Rightarrow> u64 res" where
  "collateral_to_withdraw L ob c ltvs collateral_amount check =
     (if is_active_borrows_empty ob
      then Inr (if collateral_amount = - 1 then oc_deposited_amount c
                else min (oc_deposited_amount c) collateral_amount)
      else if ob_deposited_value_sf ob = 0 then fail ObligationDepositsZero
      else rbind (max_withdraw_value L ob c (fst ltvs) (snd ltvs) check) (\<lambda>max_withdraw_value.
        if max_withdraw_value = 0 then fail MaximumWithdrawValueZero
        else rbind (if collateral_amount = - 1
                    then max_collateral_to_withdraw L c max_withdraw_value
                    else exact_collateral_to_withdraw L c max_withdraw_value collateral_amount check)
          (\<lambda>withdraw_amount.
          if withdraw_amount = 0 then fail WithdrawTooSmall else Inr withdraw_amount)))"

definition check_obsolete_withdraw :: "obligation \<Rightarrow> reserve \<Rightarrow> unit res" where
  "check_obsolete_withdraw ob r =
     (if has_obsolete_reserves ob
      then rbind (config_status (rsv_config r)) (\<lambda>status.
        if status = Active then fail ObligationInObsoleteReserve else Inr ())
      else Inr ())"

definition withdraw_obligation_collateral ::
  "numlib \<Rightarrow> lending_market \<Rightarrow> reserve \<Rightarrow> obligation \<Rightarrow> u64 \<Rightarrow> u64 \<Rightarrow> pubkey \<Rightarrow>
   ltv_max_withdrawal_check \<Rightarrow> (reserve \<times> obligation \<times> u64) res" where
  "withdraw_obligation_collateral L m r ob collateral_amount slot withdraw_reserve_pk check =
     (if collateral_amount = 0 then fail InvalidAmount
      else
      let is_borrows_empty = is_active_borrows_empty ob;
          required_price_status = (if is_borrows_empty then NO_CHECKS else ALL_CHECKS)
      in rbind (ensure_reserve_fresh r slot required_price_status) (\<lambda>_.
         rbind (ensure_obligation_fresh ob slot required_price_status) (\<lambda>_.
         rbind (position_of_collateral_in_deposits ob withdraw_reserve_pk) (\<lambda>i.
         let collateral = ob_deposits ob ! i
         in if oc_deposited_amount collateral = 0 then fail ObligationCollateralEmpty
         else rbind (if \<not> is_borrows_empty then check_elevation_group_borrowing_enabled m ob
                     else Inr ()) (\<lambda>_.
         rbind (check_obsolete_withdraw ob r) (\<lambda>_.
         rbind (position_elevation_group (ob_elevation_group ob) m) (\<lambda>eg.
         let ltvs = get_max_ltv_and_liquidation_threshold r eg
         in rbind (collateral_to_withdraw L ob collateral ltvs collateral_amount check)
           (\<lambda>withdraw_amount.
         rbind (obligation_withdraw ob withdraw_amount i) (\<lambda>(ob, is_full_withdrawal).
         let ob = mark_obligation_stale ob
         in rbind (if is_full_withdrawal = Full
             then update_elevation_group_debt_trackers_on_full_withdraw
               (oc_borrowed_amount_against_this_collateral_in_elevation_group collateral)
               (ob_elevation_group ob) r
             else Inr r) (\<lambda>r.
         rbind (liquidity_of_collateral L r withdraw_amount) (\<lambda>amount.
         rbind (post_withdraw_obligation_invariants L amount ob r (snd ltvs)
                  (oc_market_value_sf (ob_deposits ob ! i)) (lm_min_net_value_in_obligation_sf m)) (\<lambda>_.
         Inr (r, ob, withdraw_amount)))))))))))))"

section \<open>Borrowing\<close>

definition borrow_into_slot ::
  "numlib \<Rightarrow> obligation \<Rightarrow> reserve \<Rightarrow> pubkey \<Rightarrow> frac \<Rightarrow> u64 \<Rightarrow> (obligation \<times> nat) res" where
  "borrow_into_slot L ob borrow_reserve borrow_reserve_pk borrow_amount_f current_timestamp =
     rbind (find_or_add_liquidity_to_borrows ob borrow_reserve_pk
              (cumulative_borrow_rate_bsf (rsv_liquidity borrow_reserve))) (\<lambda>(ob, i).
     rbind (get_secs_since_reserve_debt_term_end (ob_borrows ob ! i) (rsv_config borrow_reserve)
              current_timestamp) (\<lambda>secs.
     if secs \<noteq> None then fail DebtReachedReserveDebtTerm
     else rbind (loan_borrow L (ob_borrows ob ! i) borrow_amount_f current_timestamp) (\<lambda>l.
       Inr (ob\<lparr> ob_borrows := (ob_borrows ob)[i := l] \<rparr>, i))))"

definition credit_referrer ::
  "numlib \<Rightarrow> lending_market \<Rightarrow> reserve \<Rightarrow> referrer_token_state option \<Rightarrow> u64 \<Rightarrow>
   (reserve \<times> referrer_token_state option) res" where
  "credit_referrer L m r rts_opt referrer_fee = (case rts_opt of
     Some rts \<Rightarrow>
       if lm_referral_fee_bps m > 0
       then rbind (frac_of_u64 L referrer_fee) (\<lambda>referrer_fee_f.
         rbind (add_referrer_fee r rts referrer_fee_f) (\<lambda>(r, rts).
         rbind (add_ov (total_available_amount (rsv_liquidity r)) referrer_fee) (\<lambda>available.
         Inr (r\<lparr> rsv_liquidity := (rsv_liquidity r)\<lparr> total_available_amount := available \<rparr> \<rparr>,
              Some rts))))
       else Inr (r, Some rts)
   | None \<Rightarrow> Inr (r, None))"

definition borrow_obligation_liquidity ::
  "numlib \<Rightarrow> lending_market \<Rightarrow> reserve \<Rightarrow> obligation \<Rightarrow> borrow_size \<Rightarrow> clock \<Rightarrow> pubkey \<Rightarrow>
   referrer_token_state option \<Rightarrow> pubkey list \<Rightarrow> reserve_store \<Rightarrow>
   (reserve \<times> obligation \<times> referrer_token_state option \<times> reserve_store \<times>
    calculate_borrow_result) res" where
  "borrow_obligation_liquidity L m r ob borrow_size clk borrow_reserve_pk rts_opt
     deposit_reserves store =
     (if borrow_size_is_zero borrow_size then fail InvalidAmount
      else rbind (check_borrow_possible m r ob clk) (\<lambda>_.
        if remaining_borrow_value ob = 0 then fail BorrowTooLarge
        else rbind (remaining_borrow_capacity L r) (\<lambda>capacity.
        if capacity = 0 then fail BorrowLimitExceeded
        else rbind (calculate_borrow L r borrow_size (remaining_borrow_value ob) (lm_referral_fee_bps m)
            (ob_elevation_group ob \<noteq> ELEVATION_GROUP_NONE) (rts_opt \<noteq> None)) (\<lambda>result.
        let borrow_amount_f = cbr_borrow_amount_f result
        in rbind (to_ceil L borrow_amount_f) (\<lambda>borrow_amount.
        rbind (clock_timestamp (clk_unix_timestamp clk)) (\<lambda>current_timestamp.
        rbind (add_to_withdrawal_accum (debt_withdrawal_cap (rsv_config r)) borrow_amount
                 current_timestamp) (\<lambda>caps.
        let r = r\<lparr> rsv_config := (rsv_config r)\<lparr> debt_withdrawal_cap := caps \<rparr> \<rparr>
        in if cbr_receive_amount result = 0 then fail BorrowTooSmall
        else rbind (check_below_reserve_utilization_limit L r borrow_amount_f) (\<lambda>_.
        rbind (reserve_borrow L r borrow_amount_f False) (\<lambda>r.
        let r = mark_reserve_stale r
        in rbind (borrow_into_slot L ob r borrow_reserve_pk borrow_amount_f current_timestamp)
          (\<lambda>(ob, i).
        rbind (credit_referrer L m r rts_opt (cbr_referrer_fee result)) (\<lambda>(r, rts_opt).
        rbind (check_orders_supported_after_user_operation ob) (\<lambda>_.
        let ob = mark_obligation_stale (ob\<lparr> ob_has_debt := 1 \<rparr>)
        in rbind (get_elevation_group m (ob_elevation_group ob)) (\<lambda>eg.
        rbind (update_elevation_group_debt_trackers_on_borrow borrow_amount ob i eg
                 borrow_reserve_pk r deposit_reserves store) (\<lambda>(ob, r, store).
        rbind (post_borrow_obligation_invariants L borrow_amount_f ob r
                 (ol_market_value_sf (ob_borrows ob ! i)) (lm_min_net_value_in_obligation_sf m)) (\<lambda>_.
        Inr (r, ob, rts_opt, store, result))))))))))))))))"

section \<open>Repaying\<close>

definition settle_debt :: "numlib \<Rightarrow> obligation \<Rightarrow> frac \<Rightarrow> nat \<Rightarrow> obligation res" where
  "settle_debt L ob settle_amount i =
     rbind (obligation_repay L ob settle_amount i) (\<lambda>ob.
     Inr (mark_obligation_stale (clear_obligation_orders_if_no_debt (update_has_debt ob))))"

definition repay_obligation_liquidity ::
  "numlib \<Rightarrow> reserve \<Rightarrow> obligation \<Rightarrow> clock \<Rightarrow> u64 \<Rightarrow> pubkey \<Rightarrow> lending_market \<Rightarrow>
   pubkey list \<Rightarrow> reserve_store \<Rightarrow> (reserve \<times> obligation \<times> reserve_store \<times> u64) res" where
  "repay_obligation_liquidity L r ob clk liquidity_amount repay_reserve_pk m deposit_reserves store =
     (if liquidity_amount = 0 then fail InvalidAmount
      else rbind (find_liquidity_in_borrows ob repay_reserve_pk) (\<lambda>(l, i).
        if ol_borrowed_amount_sf l = 0 then fail ObligationLiquidityEmpty
        else rbind (check_repay_possible r ob clk) (\<lambda>_.
        rbind (calculate_repay L liquidity_amount (ol_borrowed_amount_sf l)) (\<lambda>result.
        let settle_amount = crr_settle_amount result; repay_amount = crr_repay_amount result
        in if repay_amount = 0 then fail RepayTooSmall
        else rbind (clock_timestamp (clk_unix_timestamp clk)) (\<lambda>timestamp.
        rbind (calculate_early_repay_penalty L l r settle_amount timestamp) (\<lambda>early_repay_penalty.
        rbind (add_ov repay_amount early_repay_penalty) (\<lambda>repay_amount_with_penalty.
        rbind (sub_from_withdrawal_accum (debt_withdrawal_cap (rsv_config r)) repay_amount timestamp)
          (\<lambda>caps.
        let r = r\<lparr> rsv_config := (rsv_config r)\<lparr> debt_withdrawal_cap := caps \<rparr> \<rparr>
        in rbind (update_elevation_group_debt_trackers_on_repay repay_amount ob i r deposit_reserves
             store)
          (\<lambda>(ob, r, store).
        rbind (liquidity_repay L (rsv_liquidity r) repay_amount settle_amount) (\<lambda>liquidity.
        rbind (if early_repay_penalty > 0
               then accumulate_early_repay_penalty L liquidity early_repay_penalty
               else Inr liquidity) (\<lambda>liquidity.
        let r = mark_reserve_stale (r\<lparr> rsv_liquidity := liquidity \<rparr>)
        in rbind (settle_debt L ob settle_amount i) (\<lambda>ob.
        rbind (check_orders_supported_after_user_operation ob) (\<lambda>_.
        rbind (post_repay_obligation_invariants L settle_amount ob r
                 (ol_market_value_sf (ob_borrows ob ! i)) (lm_min_net_value_in_obligation_sf m)) (\<lambda>_.
        Inr (r, ob, store, repay_amount_with_penalty)))))))))))))))"

definition socialize_loss ::
  "numlib \<Rightarrow> reserve \<Rightarrow> pubkey \<Rightarrow> obligation \<Rightarrow> u64 \<Rightarrow> u64 \<Rightarrow> pubkey list \<Rightarrow> reserve_store \<Rightarrow>
   (reserve \<times> obligation \<times> reserve_store \<times> frac) res" where
  "socialize_loss L r reserve_pk ob liquidity_amount slot deposit_reserves store =
     rbind (ensure_reserve_fresh r slot ALL_CHECKS) (\<lambda>_.
     rbind (ensure_obligation_fresh ob slot ALL_CHECKS) (\<lambda>_.
     if \<not> is_active_deposits_empty ob then fail CannotSocializeObligationWithCollateral
     else if is_active_deposits_empty ob \<and> is_active_borrows_empty ob then fail ObligationEmpty
     else rbind (find_liquidity_in_borrows ob reserve_pk) (\<lambda>(l, i).
     rbind (frac_of_u64 L liquidity_amount) (\<lambda>liquidity_amount_f.
     let forgive_amount_f = min liquidity_amount_f (ol_borrowed_amount_sf l)
     in rbind (total_supply L (rsv_liquidity r)) (\<lambda>supply.
     let r = (if forgive_amount_f \<ge> supply then r\<lparr> rsv_version := - 1 \<rparr> else r)
     in rbind (to_ceil L forgive_amount_f) (\<lambda>forgive_amount.
     rbind (update_elevation_group_debt_trackers_on_repay forgive_amount ob i r deposit_reserves
              store)
       (\<lambda>(ob, r, store).
     rbind (forgive_debt L (rsv_liquidity r) forgive_amount_f) (\<lambda>liquidity.
     let r = mark_reserve_stale (r\<lparr> rsv_liquidity := liquidity \<rparr>)
     in rbind (settle_debt L ob forgive_amount_f i) (\<lambda>ob.
     Inr (r, ob, store, forgive_amount_f))))))))))"

section \<open>After a liquidation\<close>

definition repay_and_withdraw_from_obligation_post_liquidation ::
  "numlib \<Rightarrow> obligation \<Rightarrow> reserve \<Rightarrow> frac \<Rightarrow> u64 \<Rightarrow> u64 \<Rightarrow> nat \<Rightarrow> nat \<Rightarrow> (obligation \<times> reserve) res" where
  "repay_and_withdraw_from_obligation_post_liquidation L ob repay_reserve settle_amount
     withdraw_amount repay_amount liquidity_index collateral_index =
     (if repay_amount = 0 then fail LiquidationTooSmall
      else if withdraw_amount = 0 then fail LiquidationTooSmall
      else rbind (liquidity_repay L (rsv_liquidity repay_reserve) repay_amount settle_amount)
        (\<lambda>liquidity.
        rbind (obligation_repay L ob settle_amount liquidity_index) (\<lambda>ob.
        rbind (obligation_withdraw ob withdraw_amount collateral_index) (\<lambda>(ob, _).
        Inr (mark_obligation_stale (clear_obligation_orders_if_no_debt (update_has_debt ob)),
             mark_reserve_stale (repay_reserve\<lparr> rsv_liquidity := liquidity \<rparr>))))))"

end
