(* ===== verification/Refresh_Obligation.thy ===== *)
theory Refresh_Obligation imports Position_Operations begin

text \<open>
  Bringing an obligation up to date, from \<open>lending_market/lending_operations.rs\<close>: the loops that
  revalue every position against its reserve (\<open>refresh_obligation_borrows\<close>,
  \<open>refresh_obligation_deposits\<close>), the referral fees they share out, \<open>refresh_obligation\<close> itself, and the
  change of the elevation group. What the loops add up is compared with sums over the positions.
\<close>

section \<open>Referral fees\<close>

text \<open>A referrer account: its key, the bump it stores, and its state.\<close>

type_synonym referrer_account = "pubkey \<times> u64 \<times> referrer_token_state"

type_synonym referrer_pda = "pubkey \<Rightarrow> pubkey \<Rightarrow> u64 \<Rightarrow> pubkey option"

text \<open>The iterator over referrer accounts: those handed out, and those still to come.\<close>

type_synonym referrer_iter = "referrer_account list \<times> referrer_account list"

text \<open>The end of \<open>accumulate_referrer_fees\<close>: the fee goes to the referrer, or to the protocol.\<close>

definition assign_referrer_fee ::
  "referrer_pda \<Rightarrow> pubkey \<Rightarrow> reserve \<Rightarrow> pubkey \<Rightarrow> u16 \<Rightarrow> bool \<Rightarrow> frac \<Rightarrow> referrer_iter \<Rightarrow>
   (reserve \<times> referrer_iter) res" where
  "assign_referrer_fee pda borrow_reserve_key r obligation_referrer referral_fee_bps
     obligation_has_referrer capped rts_iter =
     (if obligation_has_referrer \<and> referral_fee_bps > 0
      then case snd rts_iter of
          [] \<Rightarrow> fail InvalidAccountInput
        | (rts_key, bump, rts) # rest \<Rightarrow>
            rbind (validate_referrer_token_state pda rts bump rts_key
                     (rl_mint_pubkey (rsv_liquidity r)) obligation_referrer borrow_reserve_key) (\<lambda>_.
            rbind (add_referrer_fee r rts capped) (\<lambda>(r, rts).
            Inr (r, fst rts_iter @ [(rts_key, bump, rts)], rest)))
      else rbind (add_ov (accumulated_protocol_fees_sf (rsv_liquidity r)) capped) (\<lambda>fees.
        Inr (r\<lparr> rsv_liquidity := (rsv_liquidity r)\<lparr> accumulated_protocol_fees_sf := fees \<rparr> \<rparr>,
             rts_iter)))"

definition accumulate_referrer_fees ::
  "numlib \<Rightarrow> referrer_pda \<Rightarrow> pubkey \<Rightarrow> reserve \<Rightarrow> pubkey \<Rightarrow> u16 \<Rightarrow> u64 \<Rightarrow> frac \<Rightarrow> frac \<Rightarrow> bool \<Rightarrow>
   referrer_iter \<Rightarrow> (reserve \<times> referrer_iter) res" where
  "accumulate_referrer_fees L pda borrow_reserve_key r obligation_referrer referral_fee_bps elapsed
     borrowed_amount_f previous_borrowed_amount_f obligation_has_referrer rts_iter =
     (let absolute_referral_rate = absolute_referral_rate_sf (rsv_liquidity r)
      in if absolute_referral_rate = 0 then Inr (r, rts_iter)
         else rbind (from_bps L (ucast (host_fixed_interest_rate_bps (rsv_config r)))) (\<lambda>host_rate.
           rbind (approximate_compounded_interest L host_rate elapsed) (\<lambda>fixed_rate.
           rbind (fx_sub L borrowed_amount_f previous_borrowed_amount_f) (\<lambda>net_new_debt.
           rbind (fx_mul L previous_borrowed_amount_f fixed_rate) (\<lambda>with_fixed.
           rbind (fx_sub L with_fixed previous_borrowed_amount_f) (\<lambda>net_new_fixed_debt.
           if net_new_fixed_debt > net_new_debt
           then fail CannotCalculateReferralAmountDueToSlotsMismatch
           else rbind (fx_sub L net_new_debt net_new_fixed_debt) (\<lambda>net_new_variable_debt.
             rbind (fx_mul L net_new_variable_debt absolute_referral_rate) (\<lambda>referrer_fee.
             let capped = min referrer_fee (pending_referrer_fees_sf (rsv_liquidity r))
             in rbind (sub_ov (pending_referrer_fees_sf (rsv_liquidity r)) capped) (\<lambda>pending.
             let r = r\<lparr> rsv_liquidity := (rsv_liquidity r)\<lparr> pending_referrer_fees_sf := pending \<rparr> \<rparr>
             in assign_referrer_fee pda borrow_reserve_key r obligation_referrer referral_fee_bps
                  obligation_has_referrer capped rts_iter)))))))))"

section \<open>Borrows\<close>

record refresh_obligation_borrows_result =
  br_num_borrow_reserves :: nat
  br_num_of_obsolete_reserves :: u8
  br_borrowed_assets_market_value :: frac
  br_borrow_factor_adjusted_debt_value :: frac
  br_borrowed_amounts_accumulator :: u64
  br_prices_state :: price_status_flags
  br_highest_borrow_factor :: frac
  br_referrers :: referrer_iter

definition borrows_result_start :: "referrer_account list \<Rightarrow> refresh_obligation_borrows_result" where
  "borrows_result_start referrers = \<lparr> br_num_borrow_reserves = 0, br_num_of_obsolete_reserves = 0,
     br_borrowed_assets_market_value = 0, br_borrow_factor_adjusted_debt_value = 0,
     br_borrowed_amounts_accumulator = 0, br_prices_state = ALL_CHECKS,
     br_highest_borrow_factor = fx_one, br_referrers = ([], referrers) \<rparr>"

definition count_obsolete :: "reserve \<Rightarrow> u8 \<Rightarrow> u8 res" where
  "count_obsolete r n =
     rbind (config_status (rsv_config r)) (\<lambda>status. if status = Obsolete then add_ov n 1 else Inr n)"

definition track_refreshed_borrow ::
  "elevation_group option \<Rightarrow> pubkey \<Rightarrow> reserve \<Rightarrow> obligation_liquidity \<Rightarrow> u64 \<Rightarrow>
   (reserve \<times> obligation_liquidity) res" where
  "track_refreshed_borrow eg borrow_reserve_key r borrow borrowed_amount = (case eg of
     Some g \<Rightarrow>
       rbind (ensure (eg_id g \<in> set (cfg_elevation_groups (rsv_config r))) InconsistentElevationGroup)
         (\<lambda>_.
       rbind (ensure_key borrow_reserve_key (eg_debt_reserve g)
                (LendingErr ElevationGroupHasAnotherDebtReserve)) (\<lambda>_.
       Inr (r, borrow)))
   | None \<Rightarrow>
       rbind (add_ov (saturating_sub (borrowed_amount_outside_elevation_group r)
                        (ol_borrowed_amount_outside_elevation_groups borrow)) borrowed_amount)
         (\<lambda>outside.
       Inr (r\<lparr> borrowed_amount_outside_elevation_group := outside \<rparr>,
            borrow\<lparr> ol_borrowed_amount_outside_elevation_groups := borrowed_amount \<rparr>)))"

definition refresh_borrow ::
  "numlib \<Rightarrow> referrer_pda \<Rightarrow> obligation \<Rightarrow> lending_market \<Rightarrow> clock \<Rightarrow> elevation_group option \<Rightarrow>
   obligation_liquidity \<Rightarrow> pubkey \<Rightarrow> reserve_store \<times> refresh_obligation_borrows_result \<Rightarrow>
   (obligation_liquidity \<times> reserve_store \<times> refresh_obligation_borrows_result) res" where
  "refresh_borrow L pda ob m clk eg borrow key = (\<lambda>(store, acc).
     rbind (load_reserve (LendingErr InvalidAccountInput) store key) (\<lambda>r.
     rbind (check_obligation_liquidity_borrow_reserve borrow r key (clk_slot clk)) (\<lambda>_.
     let previous_borrowed_amount_f = ol_borrowed_amount_sf borrow
     in rbind (loan_accrue_interest L borrow (cumulative_borrow_rate_bsf (rsv_liquidity r)))
       (\<lambda>borrow.
     let borrowed_amount_f = ol_borrowed_amount_sf borrow
     in rbind (to_ceil L borrowed_amount_f) (\<lambda>borrowed_amount.
     rbind (add_ov (br_borrowed_amounts_accumulator acc) borrowed_amount) (\<lambda>accumulator.
     rbind (track_refreshed_borrow eg key r borrow borrowed_amount) (\<lambda>(r, borrow).
     rbind (count_obsolete r (br_num_of_obsolete_reserves acc)) (\<lambda>num_obsolete.
     rbind (slots_elapsed (ob_last_update ob) (clk_slot clk)) (\<lambda>elapsed.
     rbind (accumulate_referrer_fees L pda key r (ob_referrer ob) (lm_referral_fee_bps m) elapsed
              borrowed_amount_f previous_borrowed_amount_f (has_referrer ob) (br_referrers acc))
       (\<lambda>(r, referrers).
     rbind (calculate_obligation_liquidity_market_value L r borrow) (\<lambda>market_value.
     rbind (fx_add L (br_borrowed_assets_market_value acc) market_value) (\<lambda>assets_value.
     rbind (borrow_factor_f L r (eg \<noteq> None)) (\<lambda>factor.
     rbind (fx_mul L market_value factor) (\<lambda>bf_value.
     rbind (fx_add L (br_borrow_factor_adjusted_debt_value acc) bf_value) (\<lambda>debt_value.
     rbind (clock_timestamp (clk_unix_timestamp clk)) (\<lambda>timestamp.
     rbind (capture_borrowed_amount_at_expiration L
              (borrow\<lparr> ol_market_value_sf := market_value,
                       ol_borrow_factor_adjusted_market_value_sf := bf_value \<rparr>)
              (rsv_config r) timestamp) (\<lambda>borrow.
     Inr (borrow, store(key \<mapsto> r), \<lparr>
       br_num_borrow_reserves = Suc (br_num_borrow_reserves acc),
       br_num_of_obsolete_reserves = num_obsolete,
       br_borrowed_assets_market_value = assets_value,
       br_borrow_factor_adjusted_debt_value = debt_value,
       br_borrowed_amounts_accumulator = accumulator,
       br_prices_state = br_prices_state acc AND get_price_status (rsv_last_update r),
       br_highest_borrow_factor =
         (if \<not> frac_less_int market_value (lm_min_value_skip_liquidation_bf_checks m)
          then max (br_highest_borrow_factor acc) factor else br_highest_borrow_factor acc),
       br_referrers = referrers \<rparr>))))))))))))))))))"

text \<open>
  The result: the obligation, its borrow accounts, what was added up, the debt when an elevation
  group is set, and the highest borrow factor in percent. The loop body sets \<open>has_debt\<close>.
\<close>

definition refresh_obligation_borrows ::
  "numlib \<Rightarrow> referrer_pda \<Rightarrow> obligation \<Rightarrow> lending_market \<Rightarrow> clock \<Rightarrow> elevation_group option \<Rightarrow>
   pubkey list \<Rightarrow> referrer_account list \<Rightarrow> reserve_store \<Rightarrow>
   (obligation \<times> reserve_store \<times> refresh_obligation_borrows_result \<times> u64 option \<times> u64) res" where
  "refresh_obligation_borrows L pda ob m clk eg borrow_reserves referrers store =
     rbind (for_active loan_is_active (refresh_borrow L pda ob m clk eg) (ob_borrows ob)
              borrow_reserves (store, borrows_result_start referrers)) (\<lambda>(borrows, store, acc).
     let ob = ob\<lparr> ob_borrows := borrows,
                  ob_has_debt := (if br_num_borrow_reserves acc > 0 then 1 else ob_has_debt ob) \<rparr>
     in rbind (if eg \<noteq> None
          then rbind (ensure (br_num_borrow_reserves acc \<le> 1) InconsistentElevationGroup) (\<lambda>_.
            Inr (Some (br_borrowed_amounts_accumulator acc)))
          else Inr None) (\<lambda>amount_in_group.
     rbind (to_percent L (fx_checked_to_u64 L) (br_highest_borrow_factor acc)) (\<lambda>pct.
     rbind (ok_or pct Panic) (\<lambda>highest_borrow_factor_pct.
     Inr (ob, store, acc, amount_in_group, highest_borrow_factor_pct)))))"

section \<open>Deposits\<close>

record refresh_obligation_deposits_result =
  dr_lowest_deposit_liquidation_ltv_threshold_pct :: u8
  dr_lowest_deposit_max_ltv_pct :: u8
  dr_num_of_obsolete_reserves :: u8
  dr_deposited_value :: frac
  dr_allowed_borrow_value :: frac
  dr_unhealthy_borrow_value :: frac
  dr_prices_state :: price_status_flags
  dr_borrowing_disabled :: bool

definition deposits_result_start :: refresh_obligation_deposits_result where
  "deposits_result_start = \<lparr> dr_lowest_deposit_liquidation_ltv_threshold_pct = - 1,
     dr_lowest_deposit_max_ltv_pct = - 1, dr_num_of_obsolete_reserves = 0, dr_deposited_value = 0,
     dr_allowed_borrow_value = 0, dr_unhealthy_borrow_value = 0, dr_prices_state = ALL_CHECKS,
     dr_borrowing_disabled = False \<rparr>"

definition track_refreshed_deposit ::
  "(elevation_group \<times> u64) option \<Rightarrow> pubkey \<Rightarrow> reserve \<Rightarrow> obligation_collateral \<Rightarrow>
   (reserve \<times> obligation_collateral) res" where
  "track_refreshed_deposit group_debt key r deposit = (case group_debt of
     Some (g, debt_amount) \<Rightarrow>
       rbind (eg_get_index g) (\<lambda>i.
       rbind (ensure (eg_id g \<in> set (cfg_elevation_groups (rsv_config r))) InconsistentElevationGroup)
         (\<lambda>_.
       rbind (ensure (key \<noteq> eg_debt_reserve g) ElevationGroupDebtReserveAsCollateral) (\<lambda>_.
       rbind (update_group_debt r i (\<lambda>x.
           add_ov (saturating_sub x
             (oc_borrowed_amount_against_this_collateral_in_elevation_group deposit)) debt_amount))
         (\<lambda>r.
       Inr (r, deposit\<lparr> oc_borrowed_amount_against_this_collateral_in_elevation_group :=
              debt_amount \<rparr>)))))
   | None \<Rightarrow> Inr (r, deposit))"

definition refresh_deposit ::
  "numlib \<Rightarrow> lending_market \<Rightarrow> u64 \<Rightarrow> elevation_group option \<Rightarrow> (elevation_group \<times> u64) option \<Rightarrow>
   obligation_collateral \<Rightarrow> pubkey \<Rightarrow> reserve_store \<times> refresh_obligation_deposits_result \<Rightarrow>
   (obligation_collateral \<times> reserve_store \<times> refresh_obligation_deposits_result) res" where
  "refresh_deposit L m slot eg group_debt deposit key = (\<lambda>(store, acc).
     rbind (load_reserve (LendingErr InvalidAccountInput) store key) (\<lambda>r.
     rbind (count_obsolete r (dr_num_of_obsolete_reserves acc)) (\<lambda>num_obsolete.
     rbind (check_obligation_collateral_deposit_reserve deposit r key slot) (\<lambda>_.
     rbind (track_refreshed_deposit group_debt key r deposit) (\<lambda>(r, deposit).
     rbind (calculate_obligation_collateral_market_value L r deposit) (\<lambda>market_value.
     let deposit = deposit\<lparr> oc_market_value_sf := market_value \<rparr>;
         (ltv_pct, threshold_pct) = get_max_ltv_and_liquidation_threshold r eg
     in rbind (fx_add L (dr_deposited_value acc) market_value) (\<lambda>deposited_value.
     rbind (from_percent L (ucast ltv_pct)) (\<lambda>ltv.
     rbind (fx_mul L market_value ltv) (\<lambda>allowed.
     rbind (fx_add L (dr_allowed_borrow_value acc) allowed) (\<lambda>allowed_borrow_value.
     rbind (from_percent L (ucast threshold_pct)) (\<lambda>threshold.
     rbind (fx_mul L market_value threshold) (\<lambda>unhealthy.
     rbind (fx_add L (dr_unhealthy_borrow_value acc) unhealthy) (\<lambda>unhealthy_borrow_value.
     Inr (deposit, store(key \<mapsto> r), \<lparr>
       dr_lowest_deposit_liquidation_ltv_threshold_pct =
         (if \<not> frac_less_int market_value (lm_min_value_skip_liquidation_ltv_checks m) \<and>
             threshold_pct > 0
          then min (dr_lowest_deposit_liquidation_ltv_threshold_pct acc) threshold_pct
          else dr_lowest_deposit_liquidation_ltv_threshold_pct acc),
       dr_lowest_deposit_max_ltv_pct = min (dr_lowest_deposit_max_ltv_pct acc) ltv_pct,
       dr_num_of_obsolete_reserves = num_obsolete,
       dr_deposited_value = deposited_value,
       dr_allowed_borrow_value = allowed_borrow_value,
       dr_unhealthy_borrow_value = unhealthy_borrow_value,
       dr_prices_state = dr_prices_state acc AND get_price_status (rsv_last_update r),
       dr_borrowing_disabled = (dr_borrowing_disabled acc \<or>
         eg = None \<and> disable_usage_as_coll_outside_emode (rsv_config r) > 0) \<rparr>))))))))))))))"

definition refresh_obligation_deposits ::
  "numlib \<Rightarrow> obligation \<Rightarrow> lending_market \<Rightarrow> u64 \<Rightarrow> elevation_group option \<Rightarrow> pubkey list \<Rightarrow>
   u64 option \<Rightarrow> reserve_store \<Rightarrow>
   (obligation \<times> reserve_store \<times> refresh_obligation_deposits_result) res" where
  "refresh_obligation_deposits L ob m slot eg deposit_reserves borrowed_amount_in_group store =
     rbind (case (eg, borrowed_amount_in_group) of
         (Some g, Some borrowed_amount) \<Rightarrow> Inr (Some (g, borrowed_amount))
       | (None, None) \<Rightarrow> Inr None
       | _ \<Rightarrow> Inl Panic) (\<lambda>group_debt.
     rbind (for_active collateral_is_active (refresh_deposit L m slot eg group_debt) (ob_deposits ob)
              deposit_reserves (store, deposits_result_start)) (\<lambda>(deposits, store, acc).
     Inr (ob\<lparr> ob_deposits := deposits \<rparr>, store, acc)))"

section \<open>The obligation\<close>

definition refresh_obligation ::
  "numlib \<Rightarrow> referrer_pda \<Rightarrow> obligation \<Rightarrow> lending_market \<Rightarrow> clock \<Rightarrow> pubkey list \<Rightarrow>
   pubkey list \<Rightarrow> referrer_account list \<Rightarrow> reserve_store \<Rightarrow>
   (obligation \<times> reserve_store \<times> referrer_account list) res" where
  "refresh_obligation L pda ob m clk deposit_reserves borrow_reserves referrers store =
     rbind (clock_timestamp (clk_unix_timestamp clk)) (\<lambda>timestamp.
     rbind (position_elevation_group (ob_elevation_group ob) m) (\<lambda>eg.
     rbind (refresh_obligation_borrows L pda ob m clk eg borrow_reserves referrers store)
       (\<lambda>(ob, store, br, amount_in_group, highest_borrow_factor_pct).
     rbind (refresh_obligation_deposits L ob m (clk_slot clk) eg deposit_reserves amount_in_group
              store) (\<lambda>(ob, store, dr).
     rbind (frac_of_u64 L (lm_global_allowed_borrow_value m)) (\<lambda>global_allowed_borrow_value.
     Inr (ob\<lparr>
       ob_borrowed_assets_market_value_sf := br_borrowed_assets_market_value br,
       ob_deposited_value_sf := dr_deposited_value dr,
       ob_borrow_factor_adjusted_debt_value_sf := br_borrow_factor_adjusted_debt_value br,
       ob_allowed_borrow_value_sf :=
         min (dr_allowed_borrow_value dr) global_allowed_borrow_value,
       ob_unhealthy_borrow_value_sf := dr_unhealthy_borrow_value dr,
       ob_lowest_reserve_deposit_liquidation_ltv :=
         ucast (dr_lowest_deposit_liquidation_ltv_threshold_pct dr),
       ob_lowest_reserve_deposit_max_ltv_pct := dr_lowest_deposit_max_ltv_pct dr,
       ob_num_of_obsolete_borrow_reserves := br_num_of_obsolete_reserves br,
       ob_num_of_obsolete_deposit_reserves := dr_num_of_obsolete_reserves dr,
       ob_borrowing_disabled := (if dr_borrowing_disabled dr then 1 else 0),
       ob_highest_borrow_factor_pct := highest_borrow_factor_pct,
       ob_borrow_order := clear_if_past_fillable_timestamp (ob_borrow_order ob) timestamp,
       ob_last_update := update_slot (ob_last_update ob) (clk_slot clk)
         (Some (dr_prices_state dr AND br_prices_state br)) \<rparr>,
       store, fst (br_referrers br) @ snd (br_referrers br)))))))"

section \<open>Changing the elevation group\<close>

definition reset_group_deposit ::
  "nat \<Rightarrow> obligation_collateral \<Rightarrow> pubkey \<Rightarrow> reserve_store \<Rightarrow>
   (obligation_collateral \<times> reserve_store) res" where
  "reset_group_deposit i deposit key store =
     rbind (ensure_key (oc_deposit_reserve deposit) key (LendingErr InvalidAccountInput)) (\<lambda>_.
     rbind (load_reserve ProgramErr store key) (\<lambda>r.
     rbind (update_group_debt r i (\<lambda>x. Inr (saturating_sub x
         (oc_borrowed_amount_against_this_collateral_in_elevation_group deposit)))) (\<lambda>r.
     Inr (deposit\<lparr> oc_borrowed_amount_against_this_collateral_in_elevation_group := 0 \<rparr>,
          store(key \<mapsto> r)))))"

definition reset_borrow_outside ::
  "obligation_liquidity \<Rightarrow> pubkey \<Rightarrow> reserve_store \<Rightarrow> (obligation_liquidity \<times> reserve_store) res" where
  "reset_borrow_outside borrow key store =
     rbind (load_reserve ProgramErr store key) (\<lambda>r.
     Inr (borrow\<lparr> ol_borrowed_amount_outside_elevation_groups := 0 \<rparr>,
          store(key \<mapsto> r\<lparr> borrowed_amount_outside_elevation_group :=
            saturating_sub (borrowed_amount_outside_elevation_group r)
              (ol_borrowed_amount_outside_elevation_groups borrow) \<rparr>)))"

definition reset_elevation_group_debts ::
  "obligation \<Rightarrow> elevation_group option \<Rightarrow> pubkey list \<Rightarrow> pubkey list \<Rightarrow> reserve_store \<Rightarrow>
   (obligation \<times> reserve_store) res" where
  "reset_elevation_group_debts ob eg deposit_reserves borrow_reserves store = (case eg of
     Some g \<Rightarrow>
       rbind (eg_get_index g) (\<lambda>i.
       rbind (for_active_exact collateral_is_active (reset_group_deposit i) (ob_deposits ob)
                deposit_reserves store) (\<lambda>(deposits, store).
       Inr (ob\<lparr> ob_deposits := deposits \<rparr>, store)))
   | None \<Rightarrow>
       rbind (for_active_exact loan_is_active reset_borrow_outside (ob_borrows ob)
                borrow_reserves store) (\<lambda>(borrows, store).
       Inr (ob\<lparr> ob_borrows := borrows \<rparr>, store)))"

definition check_new_elevation_group :: "obligation \<Rightarrow> elevation_group option \<Rightarrow> unit res" where
  "check_new_elevation_group ob eg = (case eg of
     Some g \<Rightarrow>
       rbind (ensure (\<not> new_loans_disabled g) ElevationGroupNewLoansDisabled) (\<lambda>_.
       rbind (ensure (eg_debt_reserve g \<noteq> 0) ElevationGroupWithoutDebtReserve) (\<lambda>_.
       rbind (ensure (eg_max_reserves_as_collateral g > 0) ElevationGroupMaxCollateralReserveZero)
         (\<lambda>_.
       ensure (unat (eg_max_reserves_as_collateral g) \<ge> active_deposits_count ob)
         ObligationCollateralExceedsElevationGroupLimit)))
   | None \<Rightarrow> Inr ())"

definition request_elevation_group ::
  "numlib \<Rightarrow> referrer_pda \<Rightarrow> obligation \<Rightarrow> lending_market \<Rightarrow> clock \<Rightarrow> u8 \<Rightarrow> pubkey list \<Rightarrow>
   pubkey list \<Rightarrow> referrer_account list \<Rightarrow> reserve_store \<Rightarrow>
   (obligation \<times> reserve_store \<times> referrer_account list) res" where
  "request_elevation_group L pda ob m clk new_elevation_group deposit_reserves borrow_reserves
     referrers store =
     rbind (check_obligation_fully_refreshed_and_not_null ob (clk_slot clk)) (\<lambda>_.
     rbind (ensure (ob_elevation_group ob \<noteq> new_elevation_group) ElevationGroupAlreadyActivated) (\<lambda>_.
     rbind (loan_to_value L ob) (\<lambda>initial_ltv.
     rbind (position_elevation_group (ob_elevation_group ob) m) (\<lambda>old_group.
     rbind (reset_elevation_group_debts ob old_group deposit_reserves borrow_reserves store)
       (\<lambda>(ob, store).
     rbind (position_elevation_group new_elevation_group m) (\<lambda>eg.
     rbind (check_new_elevation_group ob eg) (\<lambda>_.
     rbind (refresh_obligation_borrows L pda ob m clk eg borrow_reserves referrers store)
       (\<lambda>(ob, store, br, amount_in_group, _).
     rbind (refresh_obligation_deposits L ob m (clk_slot clk) eg deposit_reserves amount_in_group
              store) (\<lambda>(ob, store, dr).
     if dr_allowed_borrow_value dr < br_borrow_factor_adjusted_debt_value br
     then fail UnhealthyElevationGroupLtv
     else rbind (check_ltv_not_worse_if_marked_for_deleveraging L ob initial_ltv
                   (br_borrow_factor_adjusted_debt_value br) (dr_deposited_value dr)) (\<lambda>_.
       let ob = mark_obligation_stale (ob\<lparr> ob_elevation_group := new_elevation_group,
             ob_borrowing_disabled := (if dr_borrowing_disabled dr then 1 else 0) \<rparr>)
       in rbind (check_elevation_group_borrow_limit_constraints store ob eg deposit_reserves
                   borrow_reserves) (\<lambda>_.
          Inr (ob, store, fst (br_referrers br) @ snd (br_referrers br)))))))))))))"

end
