(* ===== verification/Obligation_Figures.thy ===== *)
theory Obligation_Figures imports Refresh_Obligation begin

text \<open>
  What \<open>refresh_obligation\<close> stores in an obligation, compared with a reference: sums over the positions,
  each valued on its own from its reserve, in exact arithmetic over naturals.
\<close>

section \<open>The reference\<close>

text \<open>Values and amounts are bits of fractions; every division rounds down.\<close>

definition market_worth :: "reserve \<Rightarrow> nat \<Rightarrow> nat" where
  "market_worth r amount_bits =
     amount_bits * unat (market_price_sf (rsv_liquidity r)) div mint_factor_bits (rsv_liquidity r)"

definition shares_worth :: "reserve \<Rightarrow> nat \<Rightarrow> nat" where
  "shares_worth r shares =
     (if rsv_mint r = 0 \<or> rsv_supply r = 0 then shares * fx_scale
      else shares * rsv_supply r div rsv_mint r)"

definition pct_bits :: "u8 \<Rightarrow> nat" where
  "pct_bits p = unat p * fx_scale div 100"

definition factor_bits :: "bool \<Rightarrow> reserve \<Rightarrow> nat" where
  "factor_bits in_group r =
     (if in_group then fx_scale
      else max fx_scale (unat (borrow_factor_pct (rsv_config r)) * fx_scale div 100))"

definition deposit_worth :: "reserve_store \<Rightarrow> obligation_collateral \<Rightarrow> nat" where
  "deposit_worth store d = (case store (oc_deposit_reserve d) of
     Some r \<Rightarrow> market_worth r (shares_worth r (unat (oc_deposited_amount d))) | None \<Rightarrow> 0)"

definition deposit_ltvs :: "reserve_store \<Rightarrow> elevation_group option \<Rightarrow> obligation_collateral \<Rightarrow> u8 \<times> u8" where
  "deposit_ltvs store eg d = (case store (oc_deposit_reserve d) of
     Some r \<Rightarrow> get_max_ltv_and_liquidation_threshold r eg | None \<Rightarrow> (0, 0))"

definition loan_worth :: "reserve_store \<Rightarrow> obligation_liquidity \<Rightarrow> nat" where
  "loan_worth store l = (case store (ol_borrow_reserve l) of
     Some r \<Rightarrow> market_worth r (unat (ol_borrowed_amount_sf l)) | None \<Rightarrow> 0)"

definition loan_factor :: "reserve_store \<Rightarrow> bool \<Rightarrow> obligation_liquidity \<Rightarrow> nat" where
  "loan_factor store in_group l = (case store (ol_borrow_reserve l) of
     Some r \<Rightarrow> factor_bits in_group r | None \<Rightarrow> 0)"

definition deposits_total :: "reserve_store \<Rightarrow> obligation \<Rightarrow> nat" where
  "deposits_total store ob = (\<Sum>d\<leftarrow>active_deposits ob. deposit_worth store d)"

definition allowed_total :: "reserve_store \<Rightarrow> elevation_group option \<Rightarrow> obligation \<Rightarrow> nat" where
  "allowed_total store eg ob =
     (\<Sum>d\<leftarrow>active_deposits ob. fmul (deposit_worth store d) (pct_bits (fst (deposit_ltvs store eg d))))"

definition unhealthy_total :: "reserve_store \<Rightarrow> elevation_group option \<Rightarrow> obligation \<Rightarrow> nat" where
  "unhealthy_total store eg ob =
     (\<Sum>d\<leftarrow>active_deposits ob. fmul (deposit_worth store d) (pct_bits (snd (deposit_ltvs store eg d))))"

definition loans_total :: "reserve_store \<Rightarrow> obligation \<Rightarrow> nat" where
  "loans_total store ob = (\<Sum>l\<leftarrow>active_borrows ob. loan_worth store l)"

definition weighted_loans_total :: "reserve_store \<Rightarrow> bool \<Rightarrow> obligation \<Rightarrow> nat" where
  "weighted_loans_total store in_group ob =
     (\<Sum>l\<leftarrow>active_borrows ob. fmul (loan_worth store l) (loan_factor store in_group l))"

record obligation_figures =
  fig_deposited :: nat
  fig_allowed :: nat
  fig_unhealthy :: nat
  fig_borrowed :: nat
  fig_debt :: nat

definition figures_of :: "obligation \<Rightarrow> obligation_figures" where
  "figures_of ob = \<lparr>
     fig_deposited = unat (ob_deposited_value_sf ob),
     fig_allowed = unat (ob_allowed_borrow_value_sf ob),
     fig_unhealthy = unat (ob_unhealthy_borrow_value_sf ob),
     fig_borrowed = unat (ob_borrowed_assets_market_value_sf ob),
     fig_debt = unat (ob_borrow_factor_adjusted_debt_value_sf ob) \<rparr>"

definition reference_figures ::
  "reserve_store \<Rightarrow> lending_market \<Rightarrow> elevation_group option \<Rightarrow> obligation \<Rightarrow> obligation_figures" where
  "reference_figures store m eg ob = \<lparr>
     fig_deposited = deposits_total store ob,
     fig_allowed = min (allowed_total store eg ob) (unat (lm_global_allowed_borrow_value m) * fx_scale),
     fig_unhealthy = unhealthy_total store eg ob,
     fig_borrowed = loans_total store ob,
     fig_debt = weighted_loans_total store (eg \<noteq> None) ob \<rparr>"

section \<open>Loops over positions\<close>

text \<open>
  A loop over the slots in use keeps an invariant of its state, leaves each of them with the
  property its step gives it, and adds up what each step adds.
\<close>

lemma for_active_loop:
  assumes "for_active active body ss accounts c = Inr (ss', c')" and "I c"
    and "\<And>s a c s1 c1. active s \<Longrightarrow> I c \<Longrightarrow> body s a c = Inr (s1, c1) \<Longrightarrow>
           I c1 \<and> active s1 \<and> Q s1 \<and> (g c1 :: nat) = g c + f s1"
  shows "I c' \<and> (\<forall>s \<in> set (filter active ss'). Q s) \<and> g c' = g c + (\<Sum>s\<leftarrow>filter active ss'. f s)"
  using assms(1,2)
proof (induction ss arbitrary: accounts c ss')
  case Nil
  then show ?case by simp
next
  case (Cons s ss)
  show ?case
  proof (cases "active s")
    case False
    with Cons.prems obtain rest where "ss' = s # rest" "for_active active body ss accounts c = Inr (rest, c')"
      by (auto simp: res_simps)
    with Cons.IH [of accounts c rest] Cons.prems(2) False show ?thesis by simp
  next
    case True
    with Cons.prems obtain a accs s1 c1 rest where "accounts = a # accs" and
      b: "body s a c = Inr (s1, c1)" and r: "for_active active body ss accs c1 = Inr (rest, c')" and
      ss': "ss' = s1 # rest"
      by (auto simp: res_simps split: list.splits)
    from assms(3) [OF True Cons.prems(2) b] have 1: "I c1" "active s1" "Q s1" "g c1 = g c + f s1"
      by auto
    with Cons.IH [OF r] ss' show ?thesis by simp
  qed
qed

lemma for_active_keys:
  assumes "for_active active body ss accounts c = Inr (ss', c')"
    and "\<And>s a c s1 c1. body s a c = Inr (s1, c1) \<Longrightarrow> key s1 = key s"
  shows "map key ss' = map key ss"
  using assms(1)
proof (induction ss arbitrary: accounts c ss')
  case (Cons s ss)
  then show ?case
    by (cases "active s") (auto simp: res_simps assms(2) split: list.splits)
qed simp

section \<open>What a refresh leaves alone\<close>

text \<open>The fields of a reserve that values depend on.\<close>

definition pricing :: "reserve \<Rightarrow> reserve_config \<times> u128 \<times> u64 \<times> nat \<times> nat" where
  "pricing r = (rsv_config r, market_price_sf (rsv_liquidity r), mint_decimals (rsv_liquidity r),
     rsv_supply r, rsv_mint r)"

definition same_pricing :: "reserve_store \<Rightarrow> reserve_store \<Rightarrow> bool" where
  "same_pricing store store' \<longleftrightarrow> (\<forall>k. map_option pricing (store' k) = map_option pricing (store k))"

lemma same_pricing_refl [simp]: "same_pricing store store"
  by (simp add: same_pricing_def)

lemma same_pricing_trans: "same_pricing a b \<Longrightarrow> same_pricing b c \<Longrightarrow> same_pricing a c"
  by (simp add: same_pricing_def)

lemma same_pricing_upd:
  "store k = Some r \<Longrightarrow> pricing r' = pricing r \<Longrightarrow> same_pricing store (store(k \<mapsto> r'))"
  by (simp add: same_pricing_def)

lemma pricing_worth:
  assumes "pricing r' = pricing r"
  shows "market_worth r' n = market_worth r n" "shares_worth r' n = shares_worth r n"
    "factor_bits b r' = factor_bits b r"
    "get_max_ltv_and_liquidation_threshold r' eg = get_max_ltv_and_liquidation_threshold r eg"
  using assms
  by (auto simp: pricing_def market_worth_def shares_worth_def factor_bits_def mint_factor_bits_def
      get_max_ltv_and_liquidation_threshold_def split: option.splits)

lemma same_pricing_cases:
  assumes "same_pricing store store'"
  obtains "store k = None" "store' k = None"
    | r r' where "store k = Some r" "store' k = Some r'" "pricing r' = pricing r"
  using assms [unfolded same_pricing_def, THEN spec, of k] that
  by (cases "store k"; cases "store' k") simp_all

lemma same_pricing_worth:
  assumes "same_pricing store store'"
  shows "deposit_worth store' d = deposit_worth store d" "deposit_ltvs store' eg d = deposit_ltvs store eg d"
    "loan_worth store' l = loan_worth store l" "loan_factor store' b l = loan_factor store b l"
proof -
  show "deposit_worth store' d = deposit_worth store d" "deposit_ltvs store' eg d = deposit_ltvs store eg d"
  proof (atomize (full), cases rule: same_pricing_cases [OF assms, of "oc_deposit_reserve d"])
    case (2 r r')
    with pricing_worth [OF 2(3)] show "deposit_worth store' d = deposit_worth store d \<and>
        deposit_ltvs store' eg d = deposit_ltvs store eg d"
      by (simp add: deposit_worth_def deposit_ltvs_def)
  qed (simp add: deposit_worth_def deposit_ltvs_def)
  show "loan_worth store' l = loan_worth store l" "loan_factor store' b l = loan_factor store b l"
  proof (atomize (full), cases rule: same_pricing_cases [OF assms, of "ol_borrow_reserve l"])
    case (2 r r')
    with pricing_worth [OF 2(3)] show "loan_worth store' l = loan_worth store l \<and>
        loan_factor store' b l = loan_factor store b l"
      by (simp add: loan_worth_def loan_factor_def)
  qed (simp add: loan_worth_def loan_factor_def)
qed

lemma update_group_debt_pricing: "update_group_debt r i f = Inr r' \<Longrightarrow> pricing r' = pricing r"
  by (auto simp: update_group_debt_def res_simps pricing_def rsv_supply_def rsv_mint_def)

section \<open>Steps of the loops\<close>

context num_lib begin

lemma collateral_market_value_eq:
  assumes "calculate_obligation_collateral_market_value L r d = Inr v"
  shows "unat v = market_worth r (shares_worth r (unat (oc_deposited_amount d)))"
proof -
  obtain f q amount where f: "total_supply L (rsv_liquidity r) = Inr f"
    and amount: "frac_of_u64 L (oc_deposited_amount d) = Inr amount"
    and q: "fraction_collateral_to_liquidity L (collateral_rate_for (rsv_collateral r) f) amount = Inr q"
    and v: "liquidity_amount_to_market_value L (rsv_liquidity r) q = Inr v"
    using assms
    by (auto simp: calculate_obligation_collateral_market_value_def liquidity_of_collateral_def
        rsv_exchange_rate_def calculate_market_value_from_liquidity_amount_def rbind_eq_Inr)
  from f have sup: "unat f = rsv_supply r" by (simp add: total_supply_eq rsv_supply_def)
  then have f0: "f = 0 \<longleftrightarrow> rsv_supply r = 0" using unat_eq_0 [of f] by simp
  from amount have a: "unat amount = unat (oc_deposited_amount d) * fx_scale" by (simp add: frac_of_u64_eq)
  have "unat q = shares_worth r (unat (oc_deposited_amount d))"
  proof (cases "mint_total_supply (rsv_collateral r) = 0 \<or> f = 0")
    case True
    with q a show ?thesis
      by (simp add: collateral_rate_for_def INITIAL_COLLATERAL_RATE_def CER_ONE_def
          fraction_collateral_to_liquidity_eq shares_worth_def rsv_mint_def f0)
  next
    case False
    with q a sup show ?thesis
      by (simp add: collateral_rate_for_def from_supply_and_liquidity_def
          fraction_collateral_to_liquidity_eq shares_worth_def rsv_mint_def f0)
  qed
  with v show ?thesis by (simp add: liquidity_amount_to_market_value_eq market_worth_def)
qed

lemma liquidity_market_value_eq:
  "calculate_obligation_liquidity_market_value L r l = Inr v \<Longrightarrow>
   unat v = market_worth r (unat (ol_borrowed_amount_sf l))"
  by (simp add: calculate_obligation_liquidity_market_value_def market_worth_def
      calculate_market_value_from_liquidity_amount_def liquidity_amount_to_market_value_eq)

lemma borrow_factor_bits: "borrow_factor_f L r b = Inr f \<Longrightarrow> unat f = factor_bits b r"
  by (auto simp: borrow_factor_f_def factor_bits_def get_borrow_factor_def res_simps arith_simps
      split: if_splits)

lemma pct_fraction: "from_percent L (ucast (p :: u8)) = Inr f \<Longrightarrow> unat f = pct_bits p"
  by (simp add: from_percent_eq pct_bits_def)

lemma track_refreshed_deposit_keeps:
  "track_refreshed_deposit gd key r d = Inr (r', d') \<Longrightarrow>
   pricing r' = pricing r \<and> oc_deposit_reserve d' = oc_deposit_reserve d \<and>
   oc_deposited_amount d' = oc_deposited_amount d"
  by (auto simp: track_refreshed_deposit_def res_simps update_group_debt_pricing split: option.splits)

text \<open>One step of the loop over deposits.\<close>

lemma refresh_deposit_step:
  assumes "refresh_deposit L m slot eg gd d key (store, acc) = Inr (d', store', acc')"
  shows "same_pricing store store' \<and> oc_deposit_reserve d' = oc_deposit_reserve d \<and>
     unat (oc_market_value_sf d') = deposit_worth store d' \<and>
     unat (dr_deposited_value acc') = unat (dr_deposited_value acc) + deposit_worth store d' \<and>
     unat (dr_allowed_borrow_value acc') = unat (dr_allowed_borrow_value acc) +
       fmul (deposit_worth store d') (pct_bits (fst (deposit_ltvs store eg d'))) \<and>
     unat (dr_unhealthy_borrow_value acc') = unat (dr_unhealthy_borrow_value acc) +
       fmul (deposit_worth store d') (pct_bits (snd (deposit_ltvs store eg d')))"
proof -
  from assms obtain r r1 d1 v dv f1 w1 a f2 w2 u where
    r: "store key = Some r" and
    chk: "check_obligation_collateral_deposit_reserve d r key slot = Inr ()" and
    tr: "track_refreshed_deposit gd key r d = Inr (r1, d1)" and
    v: "calculate_obligation_collateral_market_value L r1 d1 = Inr v" and
    dv: "fx_add L (dr_deposited_value acc) v = Inr dv" and
    f1: "from_percent L (ucast (fst (get_max_ltv_and_liquidation_threshold r1 eg))) = Inr f1" "fx_mul L v f1 = Inr w1"
      "fx_add L (dr_allowed_borrow_value acc) w1 = Inr a" and
    f2: "from_percent L (ucast (snd (get_max_ltv_and_liquidation_threshold r1 eg))) = Inr f2" "fx_mul L v f2 = Inr w2"
      "fx_add L (dr_unhealthy_borrow_value acc) w2 = Inr u" and
    out: "d' = d1\<lparr> oc_market_value_sf := v \<rparr>" "store' = store(key \<mapsto> r1)"
      "dr_deposited_value acc' = dv" "dr_allowed_borrow_value acc' = a" "dr_unhealthy_borrow_value acc' = u"
    by (auto simp: refresh_deposit_def rbind_eq_Inr load_reserve_def ok_or_eq Let_def case_prod_beta)
  from track_refreshed_deposit_keeps [OF tr] have k: "pricing r1 = pricing r"
    "oc_deposit_reserve d1 = oc_deposit_reserve d" "oc_deposited_amount d1 = oc_deposited_amount d" by auto
  from chk have key: "oc_deposit_reserve d = key"
    by (simp add: check_obligation_collateral_deposit_reserve_def check_position_reserve_def fail_def
        split: if_splits)
  have dw: "unat v = deposit_worth store d'"
    using collateral_market_value_eq [OF v] r k key out(1)
    by (simp add: deposit_worth_def pricing_worth(1,2) [OF k(1)])
  have dl: "deposit_ltvs store eg d' = get_max_ltv_and_liquidation_threshold r1 eg"
    using r k key out(1) by (simp add: deposit_ltvs_def pricing_worth(4) [OF k(1)])
  have d': "oc_deposit_reserve d' = oc_deposit_reserve d" "oc_market_value_sf d' = v" using out(1) k(2) by simp_all
  show ?thesis
    using same_pricing_upd [where store = store and k = key, OF r k(1)] dv f1(2,3) f2(2,3) out(2-5)
    by (simp add: d' dw [symmetric] dl fx_eq pct_fraction [OF f1(1)] pct_fraction [OF f2(1)] fmul_def)
qed

lemma moved_fees_pricing:
  assumes "rsv_config r' = rsv_config r" "rsv_collateral r' = rsv_collateral r"
    and "market_price_sf (rsv_liquidity r') = market_price_sf (rsv_liquidity r)"
    and "mint_decimals (rsv_liquidity r') = mint_decimals (rsv_liquidity r)"
    and "assets_bits (rsv_liquidity r') = assets_bits (rsv_liquidity r)"
    and "fees_bits (rsv_liquidity r') = fees_bits (rsv_liquidity r)"
  shows "pricing r' = pricing r"
  using assms by (simp add: pricing_def rsv_supply_def supply_bits_def rsv_mint_def)

lemma add_referrer_fee_pricing:
  assumes "add_referrer_fee r rts fee = Inr (r', rts')"
  shows "rsv_config r' = rsv_config r" "rsv_collateral r' = rsv_collateral r"
    "market_price_sf (rsv_liquidity r') = market_price_sf (rsv_liquidity r)"
    "mint_decimals (rsv_liquidity r') = mint_decimals (rsv_liquidity r)"
    "assets_bits (rsv_liquidity r') = assets_bits (rsv_liquidity r)"
    "fees_bits (rsv_liquidity r') = fees_bits (rsv_liquidity r) + unat fee"
  using assms by (auto simp: add_referrer_fee_def rbind_eq_Inr ov_eq assets_bits_def fees_bits_def)

lemma accumulate_referrer_fees_pricing:
  assumes "accumulate_referrer_fees L pda key r ref bps n b p has iter = Inr (r', iter')"
  shows "pricing r' = pricing r"
proof (cases "absolute_referral_rate_sf (rsv_liquidity r) = 0")
  case True
  with assms show ?thesis by (simp add: accumulate_referrer_fees_def)
next
  case False
  with assms obtain c pend where pend: "sub_ov (pending_referrer_fees_sf (rsv_liquidity r)) c = Inr pend"
    and a: "assign_referrer_fee pda key (r\<lparr> rsv_liquidity := (rsv_liquidity r)
          \<lparr> pending_referrer_fees_sf := pend \<rparr> \<rparr>) ref bps has c iter = Inr (r', iter')"
    by (auto simp: accumulate_referrer_fees_def Let_def rbind_eq_Inr fail_def split: if_splits)
  from a have r': "(\<exists>rts rts'. add_referrer_fee (r\<lparr> rsv_liquidity := (rsv_liquidity r)
          \<lparr> pending_referrer_fees_sf := pend \<rparr> \<rparr>) rts c = Inr (r', rts')) \<or>
        (\<exists>fees. add_ov (accumulated_protocol_fees_sf (rsv_liquidity r)) c = Inr fees \<and>
          r' = r\<lparr> rsv_liquidity := (rsv_liquidity r)\<lparr> pending_referrer_fees_sf := pend,
            accumulated_protocol_fees_sf := fees \<rparr> \<rparr>)"
    by (cases "has \<and> bps > 0"; cases "snd iter")
       (auto simp: assign_referrer_fee_def rbind_eq_Inr fail_def case_prod_beta)
  from pend have p: "unat c \<le> unat (pending_referrer_fees_sf (rsv_liquidity r))"
    "unat pend = unat (pending_referrer_fees_sf (rsv_liquidity r)) - unat c" by (auto simp: ov_eq)
  from r' show ?thesis
  proof
    assume "\<exists>rts rts'. add_referrer_fee (r\<lparr> rsv_liquidity := (rsv_liquidity r)
          \<lparr> pending_referrer_fees_sf := pend \<rparr> \<rparr>) rts c = Inr (r', rts')"
    then obtain rts rts' where "add_referrer_fee (r\<lparr> rsv_liquidity := (rsv_liquidity r)
        \<lparr> pending_referrer_fees_sf := pend \<rparr> \<rparr>) rts c = Inr (r', rts')" by blast
    note k = add_referrer_fee_pricing [OF this]
    have "fees_bits (rsv_liquidity r') = fees_bits (rsv_liquidity r)"
      using k(6) p by (simp add: fees_bits_def)
    with k(1-5) show ?thesis by (intro moved_fees_pricing) (simp_all add: assets_bits_def)
  next
    assume "\<exists>fees. add_ov (accumulated_protocol_fees_sf (rsv_liquidity r)) c = Inr fees \<and>
          r' = r\<lparr> rsv_liquidity := (rsv_liquidity r)\<lparr> pending_referrer_fees_sf := pend,
            accumulated_protocol_fees_sf := fees \<rparr> \<rparr>"
    then obtain fees where f: "unat fees = unat (accumulated_protocol_fees_sf (rsv_liquidity r)) + unat c"
      "r' = r\<lparr> rsv_liquidity := (rsv_liquidity r)\<lparr> pending_referrer_fees_sf := pend,
            accumulated_protocol_fees_sf := fees \<rparr> \<rparr>"
      by (auto simp: ov_eq)
    have "fees_bits (rsv_liquidity r') = fees_bits (rsv_liquidity r)"
      unfolding f(2) fees_bits_def using p f(1) by simp
    then show ?thesis by (intro moved_fees_pricing) (simp_all add: f(2) assets_bits_def)
  qed
qed

lemma track_refreshed_borrow_keeps:
  "track_refreshed_borrow eg key r l n = Inr (r', l') \<Longrightarrow>
   pricing r' = pricing r \<and> ol_borrow_reserve l' = ol_borrow_reserve l \<and>
   ol_borrowed_amount_sf l' = ol_borrowed_amount_sf l"
  by (auto simp: track_refreshed_borrow_def res_simps pricing_def rsv_supply_def rsv_mint_def
      split: option.splits)

lemma capture_keeps:
  "capture_borrowed_amount_at_expiration L l c t = Inr l' \<Longrightarrow>
   ol_borrow_reserve l' = ol_borrow_reserve l \<and> ol_borrowed_amount_sf l' = ol_borrowed_amount_sf l \<and>
   ol_market_value_sf l' = ol_market_value_sf l \<and>
   ol_borrow_factor_adjusted_market_value_sf l' = ol_borrow_factor_adjusted_market_value_sf l"
  by (auto simp: capture_borrowed_amount_at_expiration_def rbind_eq_Inr split: if_splits)

lemma accrue_keeps_reserve:
  "loan_accrue_interest L l r = Inr l' \<Longrightarrow> ol_borrow_reserve l' = ol_borrow_reserve l"
  by (auto simp: loan_accrue_interest_def Let_def rbind_eq_Inr fail_def split: if_splits)

text \<open>One step of the loop over borrows.\<close>

lemma refresh_borrow_step:
  assumes "refresh_borrow L pda ob m clk eg l key (store, acc) = Inr (l', store', acc')"
  shows "same_pricing store store' \<and> ol_borrow_reserve l' = ol_borrow_reserve l \<and>
     unat (ol_market_value_sf l') = loan_worth store l' \<and>
     unat (br_borrowed_assets_market_value acc') =
       unat (br_borrowed_assets_market_value acc) + loan_worth store l' \<and>
     unat (br_borrow_factor_adjusted_debt_value acc') = unat (br_borrow_factor_adjusted_debt_value acc) +
       fmul (loan_worth store l') (loan_factor store (eg \<noteq> None) l')"
proof -
  from assms obtain r l1 n r1 l2 elapsed b p r2 iter v av f w dv t where
    r: "store key = Some r" and
    chk: "check_obligation_liquidity_borrow_reserve l r key (clk_slot clk) = Inr ()" and
    acr: "loan_accrue_interest L l (cumulative_borrow_rate_bsf (rsv_liquidity r)) = Inr l1" and
    tr: "track_refreshed_borrow eg key r l1 n = Inr (r1, l2)" and
    fee: "accumulate_referrer_fees L pda key r1 (ob_referrer ob) (lm_referral_fee_bps m)
        elapsed b p (has_referrer ob) (br_referrers acc) = Inr (r2, iter)" and
    v: "calculate_obligation_liquidity_market_value L r2 l2 = Inr v" and
    av: "fx_add L (br_borrowed_assets_market_value acc) v = Inr av" and
    f: "borrow_factor_f L r2 (eg \<noteq> None) = Inr f" "fx_mul L v f = Inr w"
      "fx_add L (br_borrow_factor_adjusted_debt_value acc) w = Inr dv" and
    cap: "capture_borrowed_amount_at_expiration L (l2\<lparr> ol_market_value_sf := v,
        ol_borrow_factor_adjusted_market_value_sf := w \<rparr>) (rsv_config r2) t = Inr l'" and
    out: "store' = store(key \<mapsto> r2)" "br_borrowed_assets_market_value acc' = av"
      "br_borrow_factor_adjusted_debt_value acc' = dv"
    unfolding refresh_borrow_def prod.case
    by (auto simp: rbind_eq_Inr load_reserve_def ok_or_eq Let_def case_prod_beta simp del: not_None_eq)
  from track_refreshed_borrow_keeps [OF tr] have k1: "pricing r1 = pricing r"
    "ol_borrow_reserve l2 = ol_borrow_reserve l1" by auto
  from fee k1 have k: "pricing r2 = pricing r" by (auto dest: accumulate_referrer_fees_pricing)
  from cap have c: "ol_borrow_reserve l' = ol_borrow_reserve l2"
    "ol_borrowed_amount_sf l' = ol_borrowed_amount_sf l2" "ol_market_value_sf l' = v"
    by (auto dest!: capture_keeps)
  from chk have key: "ol_borrow_reserve l = key"
    by (simp add: check_obligation_liquidity_borrow_reserve_def check_position_reserve_def fail_def
        split: if_splits)
  then have key': "ol_borrow_reserve l' = key"
    using c(1) k1(2) accrue_keeps_reserve [OF acr] by simp
  have lw: "unat v = loan_worth store l'"
    using liquidity_market_value_eq [OF v] r key' c(2) by (simp add: loan_worth_def pricing_worth(1) [OF k])
  have lf: "loan_factor store (eg \<noteq> None) l' = unat f"
    using r key' borrow_factor_bits [OF f(1)] by (simp add: loan_factor_def pricing_worth(3) [OF k])
  show ?thesis
    using same_pricing_upd [where store = store and k = key, OF r k] key key' av f(2,3) out c(3)
    by (simp add: lw [symmetric] lf fx_eq fmul_def del: not_None_eq)
qed

section \<open>The loops\<close>

lemma refresh_deposits_figures:
  assumes "for_active collateral_is_active (refresh_deposit L m slot eg gd) ds keys (store, acc) =
      Inr (ds', store', acc')"
  shows "same_pricing store store'"
    "\<forall>d \<in> set (filter collateral_is_active ds'). unat (oc_market_value_sf d) = deposit_worth store d"
    "unat (dr_deposited_value acc') = unat (dr_deposited_value acc) +
       (\<Sum>d\<leftarrow>filter collateral_is_active ds'. deposit_worth store d)"
    "unat (dr_allowed_borrow_value acc') = unat (dr_allowed_borrow_value acc) +
       (\<Sum>d\<leftarrow>filter collateral_is_active ds'.
          fmul (deposit_worth store d) (pct_bits (fst (deposit_ltvs store eg d))))"
    "unat (dr_unhealthy_borrow_value acc') = unat (dr_unhealthy_borrow_value acc) +
       (\<Sum>d\<leftarrow>filter collateral_is_active ds'.
          fmul (deposit_worth store d) (pct_bits (snd (deposit_ltvs store eg d))))"
proof -
  let ?I = "\<lambda>c. same_pricing store (fst c)"
  let ?Q = "\<lambda>d. unat (oc_market_value_sf d) = deposit_worth store d"
  have step: "?I c1 \<and> collateral_is_active s1 \<and> ?Q s1 \<and>
      unat (dr_deposited_value (snd c1)) = unat (dr_deposited_value (snd c)) + deposit_worth store s1 \<and>
      unat (dr_allowed_borrow_value (snd c1)) = unat (dr_allowed_borrow_value (snd c)) +
        fmul (deposit_worth store s1) (pct_bits (fst (deposit_ltvs store eg s1))) \<and>
      unat (dr_unhealthy_borrow_value (snd c1)) = unat (dr_unhealthy_borrow_value (snd c)) +
        fmul (deposit_worth store s1) (pct_bits (snd (deposit_ltvs store eg s1)))"
    if "collateral_is_active s" "?I c" "refresh_deposit L m slot eg gd s a c = Inr (s1, c1)" for s a c s1 c1
  proof -
    note st = refresh_deposit_step [of m slot eg gd s a "fst c" "snd c" s1 "fst c1" "snd c1"]
    have "refresh_deposit L m slot eg gd s a (fst c, snd c) = Inr (s1, fst c1, snd c1)" using that(3) by simp
    note st = st [OF this]
    have w: "deposit_worth (fst c) = deposit_worth store" "deposit_ltvs (fst c) eg = deposit_ltvs store eg"
      using same_pricing_worth [OF that(2)] by (auto intro!: ext)
    from st same_pricing_trans [OF that(2), of "fst c1"] that(1) show ?thesis
      unfolding w collateral_is_active_def by simp
  qed
  note run = for_active_loop [OF assms, of ?I ?Q]
  have a: "same_pricing store (fst (store', acc')) \<and> (\<forall>d \<in> set (filter collateral_is_active ds'). ?Q d) \<and>
      unat (dr_deposited_value (snd (store', acc'))) = unat (dr_deposited_value (snd (store, acc))) +
        (\<Sum>d\<leftarrow>filter collateral_is_active ds'. deposit_worth store d)"
    by (rule run) (simp, use step in blast)
  have b: "same_pricing store (fst (store', acc')) \<and> (\<forall>d \<in> set (filter collateral_is_active ds'). ?Q d) \<and>
      unat (dr_allowed_borrow_value (snd (store', acc'))) = unat (dr_allowed_borrow_value (snd (store, acc))) +
        (\<Sum>d\<leftarrow>filter collateral_is_active ds'.
          fmul (deposit_worth store d) (pct_bits (fst (deposit_ltvs store eg d))))"
    by (rule run) (simp, use step in blast)
  have c: "same_pricing store (fst (store', acc')) \<and> (\<forall>d \<in> set (filter collateral_is_active ds'). ?Q d) \<and>
      unat (dr_unhealthy_borrow_value (snd (store', acc'))) = unat (dr_unhealthy_borrow_value (snd (store, acc))) +
        (\<Sum>d\<leftarrow>filter collateral_is_active ds'.
          fmul (deposit_worth store d) (pct_bits (snd (deposit_ltvs store eg d))))"
    by (rule run) (simp, use step in blast)
  from a b c show "same_pricing store store'"
    "\<forall>d \<in> set (filter collateral_is_active ds'). unat (oc_market_value_sf d) = deposit_worth store d"
    "unat (dr_deposited_value acc') = unat (dr_deposited_value acc) +
       (\<Sum>d\<leftarrow>filter collateral_is_active ds'. deposit_worth store d)"
    "unat (dr_allowed_borrow_value acc') = unat (dr_allowed_borrow_value acc) +
       (\<Sum>d\<leftarrow>filter collateral_is_active ds'.
          fmul (deposit_worth store d) (pct_bits (fst (deposit_ltvs store eg d))))"
    "unat (dr_unhealthy_borrow_value acc') = unat (dr_unhealthy_borrow_value acc) +
       (\<Sum>d\<leftarrow>filter collateral_is_active ds'.
          fmul (deposit_worth store d) (pct_bits (snd (deposit_ltvs store eg d))))"
    by simp_all
qed

lemma refresh_borrows_figures:
  assumes "for_active loan_is_active (refresh_borrow L pda ob m clk eg) ls keys (store, acc) =
      Inr (ls', store', acc')"
  shows "same_pricing store store'"
    "\<forall>l \<in> set (filter loan_is_active ls'). unat (ol_market_value_sf l) = loan_worth store l"
    "unat (br_borrowed_assets_market_value acc') = unat (br_borrowed_assets_market_value acc) +
       (\<Sum>l\<leftarrow>filter loan_is_active ls'. loan_worth store l)"
    "unat (br_borrow_factor_adjusted_debt_value acc') = unat (br_borrow_factor_adjusted_debt_value acc) +
       (\<Sum>l\<leftarrow>filter loan_is_active ls'. fmul (loan_worth store l) (loan_factor store (eg \<noteq> None) l))"
proof -
  let ?I = "\<lambda>c. same_pricing store (fst c)"
  let ?Q = "\<lambda>l. unat (ol_market_value_sf l) = loan_worth store l"
  have step: "?I c1 \<and> loan_is_active s1 \<and> ?Q s1 \<and>
      unat (br_borrowed_assets_market_value (snd c1)) =
        unat (br_borrowed_assets_market_value (snd c)) + loan_worth store s1 \<and>
      unat (br_borrow_factor_adjusted_debt_value (snd c1)) =
        unat (br_borrow_factor_adjusted_debt_value (snd c)) +
        fmul (loan_worth store s1) (loan_factor store (eg \<noteq> None) s1)"
    if "loan_is_active s" "?I c" "refresh_borrow L pda ob m clk eg s a c = Inr (s1, c1)" for s a c s1 c1
  proof -
    note st = refresh_borrow_step [of pda ob m clk eg s a "fst c" "snd c" s1 "fst c1" "snd c1"]
    have "refresh_borrow L pda ob m clk eg s a (fst c, snd c) = Inr (s1, fst c1, snd c1)" using that(3) by simp
    note st = st [OF this]
    have w: "loan_worth (fst c) = loan_worth store" "loan_factor (fst c) b = loan_factor store b" for b
      using same_pricing_worth [OF that(2)] by (auto intro!: ext)
    from st same_pricing_trans [OF that(2), of "fst c1"] that(1) show ?thesis
      unfolding w loan_is_active_def by simp
  qed
  note run = for_active_loop [OF assms, of ?I ?Q]
  have a: "same_pricing store (fst (store', acc')) \<and> (\<forall>l \<in> set (filter loan_is_active ls'). ?Q l) \<and>
      unat (br_borrowed_assets_market_value (snd (store', acc'))) =
        unat (br_borrowed_assets_market_value (snd (store, acc))) +
        (\<Sum>l\<leftarrow>filter loan_is_active ls'. loan_worth store l)"
    by (rule run) (simp, use step in blast)
  have b: "same_pricing store (fst (store', acc')) \<and> (\<forall>l \<in> set (filter loan_is_active ls'). ?Q l) \<and>
      unat (br_borrow_factor_adjusted_debt_value (snd (store', acc'))) =
        unat (br_borrow_factor_adjusted_debt_value (snd (store, acc))) +
        (\<Sum>l\<leftarrow>filter loan_is_active ls'. fmul (loan_worth store l) (loan_factor store (eg \<noteq> None) l))"
    by (rule run) (simp, use step in blast)
  from a b show "same_pricing store store'"
    "\<forall>l \<in> set (filter loan_is_active ls'). unat (ol_market_value_sf l) = loan_worth store l"
    "unat (br_borrowed_assets_market_value acc') = unat (br_borrowed_assets_market_value acc) +
       (\<Sum>l\<leftarrow>filter loan_is_active ls'. loan_worth store l)"
    "unat (br_borrow_factor_adjusted_debt_value acc') = unat (br_borrow_factor_adjusted_debt_value acc) +
       (\<Sum>l\<leftarrow>filter loan_is_active ls'. fmul (loan_worth store l) (loan_factor store (eg \<noteq> None) l))"
    by simp_all
qed

lemma refresh_obligation_parts:
  assumes "refresh_obligation L pda ob m clk dks bks refs store = Inr (ob', store', refs')"
    and eg: "position_elevation_group (ob_elevation_group ob) m = Inr eg"
  obtains ls store1 br gd ds dr where
    "for_active loan_is_active (refresh_borrow L pda ob m clk eg) (ob_borrows ob) bks
       (store, borrows_result_start refs) = Inr (ls, store1, br)"
    "for_active collateral_is_active (refresh_deposit L m (clk_slot clk) eg gd) (ob_deposits ob) dks
       (store1, deposits_result_start) = Inr (ds, store', dr)"
    "ob_borrows ob' = ls" "ob_deposits ob' = ds"
    "ob_borrowed_assets_market_value_sf ob' = br_borrowed_assets_market_value br"
    "ob_borrow_factor_adjusted_debt_value_sf ob' = br_borrow_factor_adjusted_debt_value br"
    "ob_deposited_value_sf ob' = dr_deposited_value dr"
    "ob_unhealthy_borrow_value_sf ob' = dr_unhealthy_borrow_value dr"
    "unat (ob_allowed_borrow_value_sf ob') =
       min (unat (dr_allowed_borrow_value dr)) (unat (lm_global_allowed_borrow_value m) * fx_scale)"
proof -
  from assms(1) obtain ob1 store1 br amt pct ob2 dr g where
    b: "refresh_obligation_borrows L pda ob m clk eg bks refs store = Inr (ob1, store1, br, amt, pct)" and
    d: "refresh_obligation_deposits L ob1 m (clk_slot clk) eg dks amt store1 = Inr (ob2, store', dr)" and
    g: "frac_of_u64 L (lm_global_allowed_borrow_value m) = Inr g" and
    out: "ob_borrows ob' = ob_borrows ob2" "ob_deposits ob' = ob_deposits ob2"
      "ob_borrowed_assets_market_value_sf ob' = br_borrowed_assets_market_value br"
      "ob_borrow_factor_adjusted_debt_value_sf ob' = br_borrow_factor_adjusted_debt_value br"
      "ob_deposited_value_sf ob' = dr_deposited_value dr"
      "ob_unhealthy_borrow_value_sf ob' = dr_unhealthy_borrow_value dr"
      "ob_allowed_borrow_value_sf ob' = min (dr_allowed_borrow_value dr) g"
    unfolding refresh_obligation_def
    by (auto simp: rbind_eq_Inr eg case_prod_beta)
  from b obtain ls where ls: "for_active loan_is_active (refresh_borrow L pda ob m clk eg) (ob_borrows ob) bks
       (store, borrows_result_start refs) = Inr (ls, store1, br)"
    "ob_borrows ob1 = ls" "ob_deposits ob1 = ob_deposits ob"
    unfolding refresh_obligation_borrows_def by (auto simp: rbind_eq_Inr case_prod_beta Let_def)
  from d obtain gd ds where ds: "for_active collateral_is_active (refresh_deposit L m (clk_slot clk) eg gd)
       (ob_deposits ob1) dks (store1, deposits_result_start) = Inr (ds, store', dr)"
    "ob_borrows ob2 = ob_borrows ob1" "ob_deposits ob2 = ds"
    unfolding refresh_obligation_deposits_def by (auto simp: rbind_eq_Inr case_prod_beta)
  show ?thesis
    by (rule that [OF ls(1)]) (use ds ls out g in \<open>simp_all add: frac_of_u64_eq\<close>)
qed

lemma refresh_figures:
  assumes "refresh_obligation L pda ob m clk dks bks refs store = Inr (ob', store', refs')"
    and "position_elevation_group (ob_elevation_group ob) m = Inr eg"
  shows "figures_of ob' = reference_figures store m eg ob'"
    "\<forall>d \<in> set (active_deposits ob'). unat (oc_market_value_sf d) = deposit_worth store d"
    "\<forall>l \<in> set (active_borrows ob'). unat (ol_market_value_sf l) = loan_worth store l"
    "same_pricing store store'"
proof (atomize (full), rule refresh_obligation_parts [OF assms], goal_cases)
  case (1 ls store1 br gd ds dr)
  note b = refresh_borrows_figures [OF 1(1)]
  note d = refresh_deposits_figures [OF 1(2), unfolded same_pricing_worth [OF b(1)]]
  show ?case
    using 1 b d same_pricing_trans [OF b(1) d(1)]
    by (simp add: figures_of_def reference_figures_def active_deposits_def active_borrows_def
        deposits_total_def allowed_total_def unhealthy_total_def loans_total_def
        weighted_loans_total_def borrows_result_start_def deposits_result_start_def del: not_None_eq)
qed

end

section \<open>Properties\<close>

text \<open>
  C6. The five figures a refresh stores in an obligation, each accumulated by a loop that also
  accrues interest, moves fees and updates trackers, are the sums over its positions that the
  reference computes: every deposit is worth its shares at the exchange rate and price of its own
  reserve, every loan its debt at the price of its reserve, weighted by the limits and the borrow
  factor of the reserve or the elevation group; and each slot stores its own worth.
\<close>

theorem refresh_computes_the_reference:
  assumes "num_lib L"
    and "refresh_obligation L pda ob m clk dks bks refs store = Inr (ob', store', refs')"
    and "position_elevation_group (ob_elevation_group ob) m = Inr eg"
  shows "figures_of ob' = reference_figures store m eg ob' \<and>
     (\<forall>d \<in> set (active_deposits ob'). unat (oc_market_value_sf d) = deposit_worth store d) \<and>
     (\<forall>l \<in> set (active_borrows ob'). unat (ol_market_value_sf l) = loan_worth store l)"
  using num_lib.refresh_figures [OF assms] by blast

text \<open>
  A position: 100 shares of a reserve that pays 1.5 tokens a share at a price of 2, with limits of
  75\% and 80\%, and a loan of 30 tokens at a price of 1.
\<close>

definition priced_reserve :: reserve where
  "priced_reserve = sample_reserve \<lparr>
     rsv_last_update := \<lparr> lu_slot = 5, lu_stale = 0, lu_price_status = 63 \<rparr>,
     rsv_liquidity := (rsv_liquidity sample_reserve)\<lparr> market_price_sf := 2 * 2 ^ 60 \<rparr>,
     rsv_config := (rsv_config sample_reserve)\<lparr> loan_to_value_pct := 75,
       liquidation_threshold_pct := 80 \<rparr> \<rparr>"

definition debt_reserve :: reserve where
  "debt_reserve = sample_reserve \<lparr>
     rsv_last_update := \<lparr> lu_slot = 5, lu_stale = 0, lu_price_status = 63 \<rparr>,
     rsv_liquidity := (rsv_liquidity sample_reserve)\<lparr> market_price_sf := 2 ^ 60 \<rparr>,
     rsv_config := (rsv_config sample_reserve)\<lparr> borrow_limit_outside_elevation_group := 5000 \<rparr> \<rparr>"

definition sample_store :: reserve_store where
  "sample_store = [7 \<mapsto> priced_reserve, 8 \<mapsto> debt_reserve]"

definition sample_deposit_slot :: obligation_collateral where
  "sample_deposit_slot = (obligation_collateral_new 7)\<lparr> oc_deposited_amount := 100 \<rparr>"

definition sample_loan_slot :: obligation_liquidity where
  "sample_loan_slot = (obligation_liquidity_new 8 (bf_from std_lib fx_one))
     \<lparr> ol_borrowed_amount_sf := 30 * 2 ^ 60 \<rparr>"

definition sample_obligation :: obligation where
  "sample_obligation = obligation_default\<lparr>
     ob_deposits := sample_deposit_slot # replicate 7 obligation_collateral_default,
     ob_borrows := sample_loan_slot # replicate 4 obligation_liquidity_default \<rparr>"

definition sample_clock :: clock where
  "sample_clock = \<lparr> clk_slot = 5, clk_unix_timestamp = 1000 \<rparr>"

lemma for_active_inactive:
  "\<forall>s \<in> set ss. \<not> active s \<Longrightarrow> for_active active body ss accounts c = Inr (ss, c)"
  by (induction ss) auto

lemma free_slots [simp]:
  "\<not> collateral_is_active obligation_collateral_default" "\<not> loan_is_active obligation_liquidity_default"
  by (simp_all add: collateral_is_active_def obligation_collateral_default_def
      obligation_collateral_new_def loan_is_active_def obligation_liquidity_default_def
      obligation_liquidity_new_def)

lemma sample_rate_again: "rsv_exchange_rate std_lib priced_reserve =
    Inr \<lparr> cer_collateral_supply = 1000, cer_liquidity = 1500 * 2 ^ 60 \<rparr>"
  using sample_rate by (simp add: rsv_exchange_rate_def priced_reserve_def total_supply_def)

lemma sample_reserve_plain:
  "mint_decimals (rsv_liquidity sample_reserve) = 0" "rsv_version sample_reserve = 1"
  "cfg_status (rsv_config sample_reserve) = 0"
  "absolute_referral_rate_sf (rsv_liquidity sample_reserve) = 0"
  "borrow_factor_pct (rsv_config sample_reserve) = 100"
  "debt_term_seconds (rsv_config sample_reserve) = 0"
  "borrowed_amount_outside_elevation_group sample_reserve = 0"
  "cumulative_borrow_rate_bsf (rsv_liquidity sample_reserve) = bf_from std_lib fx_one"
  "disable_usage_as_coll_outside_emode (rsv_config sample_reserve) = 0"
  by (simp_all add: sample_reserve_def reserve_init_def reserve_liquidity_default_def zero_config_def
      PROGRAM_VERSION_def)

lemma sample_liquidity_of_collateral:
  "liquidity_of_collateral std_lib priced_reserve 100 = Inr (150 * 2 ^ 60)"
  by (simp add: liquidity_of_collateral_def sample_rate_again frac_of_u64_def
      fraction_collateral_to_liquidity_def bf_mul_def bf_from_def bf_div_int_def bf_try_into_def FRAC_NBITS_def std_eval)

lemma priced_reserve_fields:
  "rsv_liquidity priced_reserve = (rsv_liquidity sample_reserve)\<lparr> market_price_sf := 2 * 2 ^ 60 \<rparr>"
  "rsv_config priced_reserve = (rsv_config sample_reserve)\<lparr> loan_to_value_pct := 75,
     liquidation_threshold_pct := 80 \<rparr>"
  "rsv_last_update priced_reserve = \<lparr> lu_slot = 5, lu_stale = 0, lu_price_status = 63 \<rparr>"
  "rsv_version priced_reserve = 1"
  by (simp_all add: priced_reserve_def sample_reserve_plain)

lemma debt_reserve_fields:
  "rsv_liquidity debt_reserve = (rsv_liquidity sample_reserve)\<lparr> market_price_sf := 2 ^ 60 \<rparr>"
  "rsv_config debt_reserve = (rsv_config sample_reserve)\<lparr> borrow_limit_outside_elevation_group := 5000 \<rparr>"
  "rsv_last_update debt_reserve = \<lparr> lu_slot = 5, lu_stale = 0, lu_price_status = 63 \<rparr>"
  "rsv_version debt_reserve = 1" "borrowed_amount_outside_elevation_group debt_reserve = 0"
  by (simp_all add: debt_reserve_def sample_reserve_plain)

lemma sample_mint_factor [simp]:
  "mint_factor ((rsv_liquidity sample_reserve)\<lparr> market_price_sf := p \<rparr>) = Inr 1"
  by (simp add: mint_factor_def ten_pow_def sample_reserve_plain POWERS_OF_TEN_def)

lemma sample_deposit_value:
  "oc_deposited_amount d = 100 \<Longrightarrow>
   calculate_obligation_collateral_market_value std_lib priced_reserve d = Inr (300 * 2 ^ 60)"
  by (simp add: calculate_obligation_collateral_market_value_def sample_liquidity_of_collateral
      calculate_market_value_from_liquidity_amount_def liquidity_amount_to_market_value_def
      priced_reserve_fields FRACTION_ONE_SCALED_def full_mul_int_ratio_def mul_ov_def checked_mul_def std_eval)

lemma sample_fresh:
  "is_stale \<lparr> lu_slot = 5, lu_stale = 0, lu_price_status = 63 \<rparr> 5 flags = Inr (flags AND 63 \<noteq> flags)"
  by (simp add: is_stale_def slots_elapsed_def checked_sub_def STALE_AFTER_SLOTS_ELAPSED_def
      get_price_status_def flags_truncate_def ALL_CHECKS_eval flags_contain_def and.commute)

lemma sample_deposit_step:
  "refresh_deposit std_lib lending_market_default 5 None None sample_deposit_slot 7
     (sample_store(8 \<mapsto> r), deposits_result_start) =
   Inr (sample_deposit_slot\<lparr> oc_market_value_sf := 300 * 2 ^ 60 \<rparr>, sample_store(8 \<mapsto> r), \<lparr>
     dr_lowest_deposit_liquidation_ltv_threshold_pct = 80, dr_lowest_deposit_max_ltv_pct = 75,
     dr_num_of_obsolete_reserves = 0, dr_deposited_value = 300 * 2 ^ 60,
     dr_allowed_borrow_value = 225 * 2 ^ 60, dr_unhealthy_borrow_value = 276701161105643274000,
     dr_prices_state = 63, dr_borrowing_disabled = False \<rparr>)"
proof -
  have "(sample_store(8 \<mapsto> r)) 7 = Some priced_reserve" "(sample_store(8 \<mapsto> r))(7 \<mapsto> priced_reserve) = sample_store(8 \<mapsto> r)"
    by (auto simp: sample_store_def)
  moreover have "oc_deposited_amount sample_deposit_slot = 100" "oc_deposit_reserve sample_deposit_slot = 7"
    by (simp_all add: sample_deposit_slot_def obligation_collateral_new_def)
  ultimately show ?thesis
    by (simp add: refresh_deposit_def load_reserve_def count_obsolete_def config_status_def
        priced_reserve_fields sample_reserve_plain reserve_status_of_u8_def ensure_reserve_fresh_def
        check_obligation_collateral_deposit_reserve_def check_position_reserve_def sample_fresh
        NO_CHECKS_def PROGRAM_VERSION_def track_refreshed_deposit_def sample_deposit_value
        get_max_ltv_and_liquidation_threshold_def deposits_result_start_def from_percent_def
        frac_less_int_def lending_market_default_def get_price_status_def flags_truncate_def
        ALL_CHECKS_eval std_eval)
qed

lemma sample_borrow_step:
  "refresh_borrow std_lib (\<lambda>_ _ _. None) sample_obligation lending_market_default sample_clock None
     sample_loan_slot 8 (sample_store, borrows_result_start []) =
   Inr (sample_loan_slot\<lparr> ol_market_value_sf := 30 * 2 ^ 60,
          ol_borrow_factor_adjusted_market_value_sf := 30 * 2 ^ 60,
          ol_borrowed_amount_outside_elevation_groups := 30 \<rparr>,
        sample_store(8 \<mapsto> debt_reserve\<lparr> borrowed_amount_outside_elevation_group := 30 \<rparr>), \<lparr>
     br_num_borrow_reserves = 1, br_num_of_obsolete_reserves = 0,
     br_borrowed_assets_market_value = 30 * 2 ^ 60,
     br_borrow_factor_adjusted_debt_value = 30 * 2 ^ 60,
     br_borrowed_amounts_accumulator = 30, br_prices_state = 63,
     br_highest_borrow_factor = 2 ^ 60, br_referrers = ([], []) \<rparr>)"
proof -
  have st: "sample_store 8 = Some debt_reserve" by (simp add: sample_store_def)
  have sl: "ol_borrow_reserve sample_loan_slot = 8" "ol_borrowed_amount_sf sample_loan_slot = 34587645138205409280"
    "ol_cumulative_borrow_rate_bsf sample_loan_slot = bf_from std_lib fx_one"
    "ol_borrowed_amount_outside_elevation_groups sample_loan_slot = 0"
    "ol_borrowed_amount_at_expiration sample_loan_slot = 0"
    by (simp_all add: sample_loan_slot_def obligation_liquidity_new_def)
  have chk: "check_obligation_liquidity_borrow_reserve sample_loan_slot debt_reserve 8 5 = Inr ()"
    by (simp add: check_obligation_liquidity_borrow_reserve_def check_position_reserve_def sl
        ensure_reserve_fresh_def debt_reserve_fields sample_fresh NO_CHECKS_def PROGRAM_VERSION_def)
  have acr: "loan_accrue_interest std_lib sample_loan_slot (bf_from std_lib 1152921504606846976) =
      Inr sample_loan_slot"
    by (simp add: loan_accrue_interest_def sl fx_one_def)
  have ceil: "to_ceil std_lib (34587645138205409280) = Inr 30" by (simp add: to_ceil_def std_eval)
  have ov: "add_ov 0 (30 :: u64) = Inr 30" "saturating_sub 0 (0 :: u64) = 0"
    by (simp_all add: add_ov_def checked_add_def saturating_sub_def to_word_opt_def)
  have el: "slots_elapsed (ob_last_update sample_obligation) 5 = Inr 5"
    by (simp add: sample_obligation_def obligation_default_def last_update_default_def
        last_update_new_def slots_elapsed_def checked_sub_def)
  have mv: "calculate_obligation_liquidity_market_value std_lib (debt_reserve\<lparr> borrowed_amount_outside_elevation_group := 30 \<rparr>)
      (sample_loan_slot\<lparr> ol_borrowed_amount_outside_elevation_groups := 30 \<rparr>) = Inr (34587645138205409280)"
    by (simp add: calculate_obligation_liquidity_market_value_def calculate_market_value_from_liquidity_amount_def
        liquidity_amount_to_market_value_def debt_reserve_fields sl FRACTION_ONE_SCALED_def
        full_mul_int_ratio_def mul_ov_def checked_mul_def std_eval)
  have bf: "borrow_factor_f std_lib (debt_reserve\<lparr> borrowed_amount_outside_elevation_group := 30 \<rparr>) False = Inr fx_one"
    by (simp add: borrow_factor_f_def get_borrow_factor_def debt_reserve_fields sample_reserve_plain
        from_percent_def std_eval)
  show ?thesis
    by (simp add: ceil mv refresh_borrow_def load_reserve_def st sample_clock_def chk acr sl ov el bf
        borrows_result_start_def track_refreshed_borrow_def debt_reserve_fields sample_reserve_plain
        count_obsolete_def config_status_def reserve_status_of_u8_def accumulate_referrer_fees_def
        clock_timestamp_def capture_borrowed_amount_at_expiration_def
        get_secs_since_reserve_debt_term_end_def get_debt_term_end_timestamp_def
        get_debt_term_seconds_def frac_less_int_def lending_market_default_def get_price_status_def
        flags_truncate_def ALL_CHECKS_eval std_eval)
qed

lemma sample_refresh:
  "\<exists>ob' store'. refresh_obligation std_lib (\<lambda>_ _ _. None) sample_obligation lending_market_default
       sample_clock [7] [8] [] sample_store = Inr (ob', store', []) \<and>
     ob_deposits ob' = sample_deposit_slot\<lparr> oc_market_value_sf := 300 * 2 ^ 60 \<rparr> #
       replicate 7 obligation_collateral_default \<and>
     ob_borrow_factor_adjusted_debt_value_sf ob' = 30 * 2 ^ 60 \<and>
     ob_allowed_borrow_value_sf ob' = 225 * 2 ^ 60"
proof -
  have "collateral_is_active sample_deposit_slot" "loan_is_active sample_loan_slot"
    by (simp_all add: sample_deposit_slot_def collateral_is_active_def obligation_collateral_new_def
        sample_loan_slot_def loan_is_active_def obligation_liquidity_new_def)
  moreover have "position_elevation_group (ob_elevation_group sample_obligation) lending_market_default = Inr None"
    by (simp add: sample_obligation_def obligation_default_def position_elevation_group_def
        get_elevation_group_def ELEVATION_GROUP_NONE_def)
  moreover have "to_percent std_lib (fx_checked_to_u64 std_lib) 1152921504606846976 = Inr (Some 100)"
    by (simp add: to_percent_def fraction_lit_def std_eval)
  moreover have "frac_of_u64 std_lib (lm_global_allowed_borrow_value lending_market_default) = Inr (45000000 * 2 ^ 60)"
    by (simp add: frac_of_u64_def lending_market_default_def GLOBAL_ALLOWED_BORROW_VALUE_def std_eval)
  moreover have "ob_deposits sample_obligation = sample_deposit_slot # replicate 7 obligation_collateral_default"
    "ob_borrows sample_obligation = sample_loan_slot # replicate 4 obligation_liquidity_default"
    by (simp_all add: sample_obligation_def)
  moreover have "clk_slot sample_clock = 5" "clock_timestamp (clk_unix_timestamp sample_clock) = Inr 1000"
    by (simp_all add: sample_clock_def clock_timestamp_def)
  ultimately show ?thesis
    using sample_borrow_step sample_deposit_step
    by (simp add: refresh_obligation_def refresh_obligation_borrows_def refresh_obligation_deposits_def
        for_active_inactive)
qed

theorem refresh_computes_the_reference_witness:
  "\<exists>ob' store'. refresh_obligation std_lib (\<lambda>_ _ _. None) sample_obligation lending_market_default
       sample_clock [7] [8] [] sample_store = Inr (ob', store', []) \<and>
     fig_allowed (figures_of ob') = 225 * 2 ^ 60 \<and>
     figures_of ob' = reference_figures sample_store lending_market_default None ob'"
proof -
  obtain ob' store' where r: "refresh_obligation std_lib (\<lambda>_ _ _. None) sample_obligation
      lending_market_default sample_clock [7] [8] [] sample_store = Inr (ob', store', [])"
    and a: "ob_allowed_borrow_value_sf ob' = 225 * 2 ^ 60"
    using sample_refresh by blast
  have "position_elevation_group (ob_elevation_group sample_obligation) lending_market_default = Inr None"
    by (simp add: sample_obligation_def obligation_default_def position_elevation_group_def
        get_elevation_group_def ELEVATION_GROUP_NONE_def)
  from refresh_computes_the_reference [OF std.num_lib_axioms r this] r a show ?thesis
    by (auto simp: figures_of_def)
qed

end
