(* ===== verification/Position_Safety.thy ===== *)
theory Position_Safety imports Obligation_Figures begin

text \<open>
  What the operations on positions guarantee: an accepted borrow stays within the borrow limit of the
  obligation and leaves it solvent and healthy, and an accepted withdrawal of collateral does.
\<close>

section \<open>Borrowing\<close>

lemma weighted_value_le:
  assumes "(a :: nat) * f \<le> X * s" "X * p \<le> M * m" "0 < m" "0 < s"
  shows "a * p div m * f div s \<le> M"
proof -
  have "a * p div m * f \<le> a * p * f div m"
    by (metis assms(3) div_le_mono div_mult_le' mult.commute mult.left_commute mult_le_mono1
        nonzero_mult_div_cancel_left less_numeral_extra(3))
  also have "a * p * f \<le> X * s * p" using mult_le_mono1 [OF assms(1), of p] by (simp add: ac_simps)
  then have "a * p * f div m \<le> X * s * p div m" by (rule div_le_mono)
  also have "X * s * p \<le> M * m * s" using mult_le_mono1 [OF assms(2), of s] by (simp add: ac_simps)
  then have "X * s * p div m \<le> M * m * s div m" by (rule div_le_mono)
  also have "M * m * s div m = M * s" using assms(3) by simp
  finally have "a * p div m * f div s \<le> M * s div s" by (rule div_le_mono)
  with assms(4) show ?thesis by simp
qed

text \<open>The fields of a reserve that the value and the weight of a debt depend on.\<close>

definition debt_pricing :: "reserve \<Rightarrow> u128 \<times> u64 \<times> u64" where
  "debt_pricing r = (market_price_sf (rsv_liquidity r), mint_decimals (rsv_liquidity r),
     borrow_factor_pct (rsv_config r))"

lemma debt_pricing_worth:
  assumes "debt_pricing r' = debt_pricing r"
  shows "market_worth r' n = market_worth r n" "factor_bits b r' = factor_bits b r"
  using assms by (auto simp: debt_pricing_def market_worth_def factor_bits_def mint_factor_bits_def)

context num_lib begin

lemma all_available_value:
  assumes "calculate_borrow_all_available L r max_value bps has_ref factor = Inr b"
  shows "fmul (market_worth r (unat (cbr_borrow_amount_f b))) (unat factor) \<le> unat max_value"
proof -
  from assms obtain X a0 where X: "market_value_to_liquidity_amount L (rsv_liquidity r) max_value = Inr X"
    and a0: "fx_div L X factor = Inr a0" and a: "cbr_borrow_amount_f b \<le> a0"
    by (auto simp: calculate_borrow_all_available_def Let_def rbind_eq_Inr split: prod.splits)
  let ?p = "unat (market_price_sf (rsv_liquidity r))" and ?m = "mint_factor_bits (rsv_liquidity r)"
  from X have "unat X = unat max_value * ?m div ?p" by (simp add: market_value_to_liquidity_amount_eq)
  then have Xp: "unat X * ?p \<le> unat max_value * ?m" by (simp add: div_mult_le')
  from a0 have "unat a0 = unat X * fx_scale div unat factor" by (simp add: fx_eq)
  then have "unat a0 * unat factor \<le> unat X * fx_scale" by (simp add: div_mult_le')
  moreover from a have "unat (cbr_borrow_amount_f b) * unat factor \<le> unat a0 * unat factor"
    by (simp add: word_le_nat_alt)
  ultimately have "unat (cbr_borrow_amount_f b) * unat factor \<le> unat X * fx_scale" by linarith
  from weighted_value_le [OF this Xp mint_factor_bits_pos fx_scale_pos] show ?thesis
    by (simp add: fmul_def market_worth_def)
qed

lemma exact_value:
  assumes "calculate_borrow_exact L r x max_value bps has_ref factor = Inr b"
  shows "fmul (market_worth r (unat (cbr_borrow_amount_f b))) (unat factor) \<le> unat max_value"
  using assms
  by (auto simp: calculate_borrow_exact_def rbind_eq_Inr fail_eq liquidity_amount_to_market_value_eq
      fx_eq not_less word_le_nat_alt market_worth_def fmul_def split: prod.splits if_splits)

lemma sized_borrow_value:
  assumes "calculate_borrow L r request max_value bps in_group has_ref = Inr b"
  shows "fmul (market_worth r (unat (cbr_borrow_amount_f b))) (factor_bits in_group r) \<le> unat max_value"
proof -
  from assms obtain factor where f: "borrow_factor_f L r in_group = Inr factor"
    and "calculate_borrow_all_available L r max_value bps has_ref factor = Inr b \<or>
      (\<exists>x. calculate_borrow_exact L r x max_value bps has_ref factor = Inr b)"
    by (cases request) (auto simp: calculate_borrow_def rbind_eq_Inr Let_def split: if_splits)
  with all_available_value exact_value show ?thesis by (metis borrow_factor_bits)
qed

lemma reserve_borrow_keeps_pricing:
  "reserve_borrow L r f q = Inr r' \<Longrightarrow> debt_pricing r' = debt_pricing r"
  by (auto simp: reserve_borrow_def withdraw_including_queued_def withdraw_freely_available_def
      take_available_def rbind_eq_Inr debt_pricing_def fail_eq split: if_splits)

lemma credit_referrer_keeps_pricing:
  "credit_referrer L m r rts fee = Inr (r', rts') \<Longrightarrow> debt_pricing r' = debt_pricing r"
  by (auto simp: credit_referrer_def rbind_eq_Inr debt_pricing_def add_referrer_fee_def
      split: option.splits if_splits)

lemma trackers_keep_totals:
  assumes "update_elevation_group_debt_trackers_on_borrow n ob i eg k r dks store = Inr (ob', r', store')"
  shows "debt_pricing r' = debt_pricing r \<and>
    ob_deposited_value_sf ob' = ob_deposited_value_sf ob \<and>
    ob_borrow_factor_adjusted_debt_value_sf ob' = ob_borrow_factor_adjusted_debt_value_sf ob \<and>
    ob_borrowed_assets_market_value_sf ob' = ob_borrowed_assets_market_value_sf ob \<and>
    ob_unhealthy_borrow_value_sf ob' = ob_unhealthy_borrow_value_sf ob \<and>
    ob_elevation_group ob' = ob_elevation_group ob"
  using assms
  by (auto simp: update_elevation_group_debt_trackers_on_borrow_def rbind_eq_Inr debt_pricing_def
      split: option.splits)

lemma borrow_into_slot_keeps_totals:
  assumes "borrow_into_slot L ob r k f t = Inr (ob', i)"
  shows "ob_deposited_value_sf ob' = ob_deposited_value_sf ob \<and>
    ob_borrow_factor_adjusted_debt_value_sf ob' = ob_borrow_factor_adjusted_debt_value_sf ob \<and>
    ob_borrowed_assets_market_value_sf ob' = ob_borrowed_assets_market_value_sf ob \<and>
    ob_unhealthy_borrow_value_sf ob' = ob_unhealthy_borrow_value_sf ob \<and>
    ob_elevation_group ob' = ob_elevation_group ob"
  using assms
  by (auto simp: borrow_into_slot_def find_or_add_liquidity_to_borrows_def rbind_eq_Inr fail_eq
      split: option.splits if_splits)

lemma post_borrow_healthy:
  assumes "post_borrow_obligation_invariants L amount ob r mv min_value = Inr ()"
  defines "v \<equiv> market_worth r (unat amount)"
  defines "w \<equiv> fmul v (factor_bits (ob_elevation_group ob \<noteq> ELEVATION_GROUP_NONE) r)"
  shows "unat (ob_borrowed_assets_market_value_sf ob) + v < unat (ob_deposited_value_sf ob)"
    "(unat (ob_borrow_factor_adjusted_debt_value_sf ob) + w) * fx_scale div unat (ob_deposited_value_sf ob)
       \<le> unat (ob_unhealthy_borrow_value_sf ob) * fx_scale div unat (ob_deposited_value_sf ob)"
  using assms(1) unfolding v_def w_def
  by (auto simp: post_borrow_obligation_invariants_def rbind_eq_Inr fail_eq fx_eq not_less not_le
      word_less_nat_alt word_le_nat_alt calculate_market_value_from_liquidity_amount_def
      liquidity_amount_to_market_value_eq market_worth_def fmul_def unhealthy_loan_to_value_def
      dest!: borrow_factor_bits split: if_splits)

lemma borrow_is_safe:
  assumes "borrow_obligation_liquidity L m r ob request clk k rts dks store = Inr (r', ob', rts', store', b)"
  defines "v \<equiv> market_worth r (unat (cbr_borrow_amount_f b))"
  defines "w \<equiv> fmul v (factor_bits (ob_elevation_group ob \<noteq> ELEVATION_GROUP_NONE) r)"
  shows "unat (ob_borrow_factor_adjusted_debt_value_sf ob) + w \<le> unat (ob_allowed_borrow_value_sf ob)"
    "unat (ob_borrowed_assets_market_value_sf ob) + v < unat (ob_deposited_value_sf ob)"
    "(unat (ob_borrow_factor_adjusted_debt_value_sf ob) + w) * fx_scale div unat (ob_deposited_value_sf ob)
       \<le> unat (ob_unhealthy_borrow_value_sf ob) * fx_scale div unat (ob_deposited_value_sf ob)"
proof -
  from assms(1) obtain t caps r1 ob1 i r2 eg ob2 mv min_value amount where
    rem: "remaining_borrow_value ob \<noteq> 0" and
    sized: "calculate_borrow L r request (remaining_borrow_value ob) (lm_referral_fee_bps m)
        (ob_elevation_group ob \<noteq> ELEVATION_GROUP_NONE) (rts \<noteq> None) = Inr b" and
    r1: "reserve_borrow L (r\<lparr> rsv_config := (rsv_config r)\<lparr> debt_withdrawal_cap := caps \<rparr> \<rparr>)
        (cbr_borrow_amount_f b) False = Inr r1" and
    ob1: "borrow_into_slot L ob (mark_reserve_stale r1) k (cbr_borrow_amount_f b) t = Inr (ob1, i)" and
    r2: "credit_referrer L m (mark_reserve_stale r1) rts (cbr_referrer_fee b) = Inr (r2, rts')" and
    tr: "update_elevation_group_debt_trackers_on_borrow amount
        (mark_obligation_stale (ob1\<lparr> ob_has_debt := 1 \<rparr>)) i eg k r2 dks store = Inr (ob2, r', store')" and
    post: "post_borrow_obligation_invariants L (cbr_borrow_amount_f b) ob2 r' mv min_value = Inr ()"
    unfolding borrow_obligation_liquidity_def
    by (auto simp: rbind_eq_Inr fail_eq case_prod_beta Let_def simp del: not_None_eq split: if_splits)
  let ?base = "r\<lparr> rsv_config := (rsv_config r)\<lparr> debt_withdrawal_cap := caps \<rparr> \<rparr>"
  have "debt_pricing ?base = debt_pricing r" "debt_pricing (mark_reserve_stale r1) = debt_pricing r1"
    by (simp_all add: debt_pricing_def mark_reserve_stale_def)
  with reserve_borrow_keeps_pricing [OF r1] credit_referrer_keeps_pricing [OF r2] trackers_keep_totals [OF tr]
  have p: "debt_pricing r' = debt_pricing r" by simp
  from trackers_keep_totals [OF tr] borrow_into_slot_keeps_totals [OF ob1]
  have t: "ob_deposited_value_sf ob2 = ob_deposited_value_sf ob"
    "ob_borrow_factor_adjusted_debt_value_sf ob2 = ob_borrow_factor_adjusted_debt_value_sf ob"
    "ob_borrowed_assets_market_value_sf ob2 = ob_borrowed_assets_market_value_sf ob"
    "ob_unhealthy_borrow_value_sf ob2 = ob_unhealthy_borrow_value_sf ob"
    "ob_elevation_group ob2 = ob_elevation_group ob"
    by (simp_all add: mark_obligation_stale_def)
  from post_borrow_healthy [OF post] show
    "unat (ob_borrowed_assets_market_value_sf ob) + v < unat (ob_deposited_value_sf ob)"
    "(unat (ob_borrow_factor_adjusted_debt_value_sf ob) + w) * fx_scale div unat (ob_deposited_value_sf ob)
       \<le> unat (ob_unhealthy_borrow_value_sf ob) * fx_scale div unat (ob_deposited_value_sf ob)"
    by (simp_all only: t debt_pricing_worth [OF p] v_def w_def)
  from sized_borrow_value [OF sized] rem
  show "unat (ob_borrow_factor_adjusted_debt_value_sf ob) + w \<le> unat (ob_allowed_borrow_value_sf ob)"
    by (auto simp: v_def w_def remaining_borrow_value_def saturating_sub_def word_le_nat_alt unat_sub
        split: if_splits)
qed

end

section \<open>The limits of the reserve\<close>

text \<open>
  A borrow of \<open>f\<close> at a time \<open>t\<close> takes the reserve from \<open>r\<close> to \<open>r'\<close> within its limits: the debt grows by
  exactly the borrow and stays within the borrow limit; the part of the supply that is lent stays
  below the utilization from which borrowing is blocked; the borrow, rounded up to tokens, is entered
  into the withdrawal cap, whose outflow stays within the capacity; and a borrow outside of
  elevation groups counts against the limit for those.
\<close>

definition within_reserve_limits :: "reserve \<Rightarrow> reserve \<Rightarrow> bool \<Rightarrow> frac \<Rightarrow> u64 \<Rightarrow> bool" where
  "within_reserve_limits r r' outside_groups f t \<longleftrightarrow>
     (let cfg = rsv_config r; debt = unat (total_borrow (rsv_liquidity r'));
          tokens = ceil_div (unat f) fx_scale; cap = debt_withdrawal_cap (rsv_config r') in
      debt = unat (total_borrow (rsv_liquidity r)) + unat f \<and>
      debt \<le> unat (borrow_limit cfg) * fx_scale \<and>
      (utilization_limit_block_borrowing_above_pct cfg \<noteq> 0 \<longrightarrow>
         debt * fx_scale div rsv_supply r <
           unat (utilization_limit_block_borrowing_above_pct cfg) * fx_scale div 100) \<and>
      (config_interval_length_seconds (debt_withdrawal_cap cfg) \<noteq> 0 \<longrightarrow>
         cap = cap_entry (debt_withdrawal_cap cfg) t (int tokens) \<and>
         sint (wc_current_total cap) \<le> sint (config_capacity (debt_withdrawal_cap cfg))) \<and>
      (outside_groups \<longrightarrow>
         unat (borrowed_amount_outside_elevation_group r') =
           unat (borrowed_amount_outside_elevation_group r) + tokens \<and>
         borrowed_amount_outside_elevation_group r' \<le> borrow_limit_outside_elevation_group cfg))"

lemma cap_entered:
  assumes "add_to_withdrawal_accum caps n t = Inr caps'" "config_interval_length_seconds caps \<noteq> 0" "n \<noteq> 0"
  shows "caps' = cap_entry caps t (uint n)" "sint (wc_current_total caps') \<le> sint (config_capacity caps)"
proof -
  from assms have m: "movement_allowed caps n t Add" and c: "caps' = cap_entry caps t (uint n)"
    by (simp_all add: add_to_withdrawal_accum_def check_and_update_eq flow_of_def)
  show "caps' = cap_entry caps t (uint n)" by (rule c)
  from m assms(3) have le: "counted caps t + uint n \<le> sint (config_capacity caps)"
    by (simp add: movement_allowed_def)
  moreover have "- (2 ^ 63) \<le> counted caps t + uint n" "counted caps t + uint n < 2 ^ 63"
    using counted_bounds [of caps t] uint_ge_0 [of n] le sint_i64_bounds(2) [of "config_capacity caps"]
    by linarith+
  ultimately show "sint (wc_current_total caps') \<le> sint (config_capacity caps)"
    using sint_word_of_int_i64 [of "counted caps t + uint n"] by (simp add: c cap_entry_def)
qed

lemma mark_reserve_stale_keeps [simp]:
  "rsv_config (mark_reserve_stale r) = rsv_config r" "rsv_liquidity (mark_reserve_stale r) = rsv_liquidity r"
  "borrowed_amount_outside_elevation_group (mark_reserve_stale r) = borrowed_amount_outside_elevation_group r"
  by (simp_all add: mark_reserve_stale_def)

context num_lib begin

lemma sized_borrow_not_zero:
  assumes "calculate_borrow L r request max_value bps in_group has_ref = Inr b" "cbr_receive_amount b \<noteq> 0"
  shows "cbr_borrow_amount_f b \<noteq> 0"
proof -
  from assms(1) obtain factor where
    "calculate_borrow_all_available L r max_value bps has_ref factor = Inr b \<or>
      (\<exists>x. calculate_borrow_exact L r x max_value bps has_ref factor = Inr b)"
    by (cases request) (auto simp: calculate_borrow_def rbind_eq_Inr Let_def split: if_splits)
  then show ?thesis
  proof (elim disjE exE)
    assume "calculate_borrow_all_available L r max_value bps has_ref factor = Inr b"
    then obtain n o_fee d r_fee where n: "to_floor L (cbr_borrow_amount_f b) = Inr n" and
      d: "sub_ov n o_fee = Inr d" "sub_ov d r_fee = Inr (cbr_receive_amount b)"
      by (auto simp: calculate_borrow_all_available_def Let_def rbind_eq_Inr split: prod.splits)
    from d have "unat (cbr_receive_amount b) \<le> unat n" by (auto simp: arith_simps)
    with assms(2) n show ?thesis by (auto simp: arith_simps)
  next
    fix x assume "calculate_borrow_exact L r x max_value bps has_ref factor = Inr b"
    then obtain xf ff where "frac_of_u64 L x = Inr xf" "fx_add L xf ff = Inr (cbr_borrow_amount_f b)"
      "cbr_receive_amount b = x"
      by (auto simp: calculate_borrow_exact_def rbind_eq_Inr fail_eq split: prod.splits if_splits)
    then have "unat (cbr_borrow_amount_f b) = unat (cbr_receive_amount b) * fx_scale + unat ff"
      by (simp add: frac_of_u64_def arith_simps)
    with assms(2) show ?thesis by (auto simp: fx_scale_def)
  qed
qed

lemma utilization_kept_below:
  assumes "check_below_reserve_utilization_limit L r f = Inr ()"
    and "utilization_limit_block_borrowing_above_pct (rsv_config r) \<noteq> 0"
  shows "(unat (total_borrow (rsv_liquidity r)) + unat f) * fx_scale div rsv_supply r <
    unat (utilization_limit_block_borrowing_above_pct (rsv_config r)) * fx_scale div 100"
proof -
  from assms obtain d s u limit where "fx_add L (total_borrow (rsv_liquidity r)) f = Inr d"
    "total_supply L (rsv_liquidity r) = Inr s" "fx_div L d s = Inr u"
    "from_percent L (ucast (utilization_limit_block_borrowing_above_pct (rsv_config r))) = Inr limit" "\<not> limit \<le> u"
    by (auto simp: check_below_reserve_utilization_limit_def rbind_eq_Inr Let_def fail_eq simp del: not_le
        split: if_splits)
  then show ?thesis by (simp add: arith_simps rsv_supply_def not_le word_less_nat_alt)
qed

lemma reserve_borrow_debt:
  assumes "reserve_borrow L r f q = Inr r'"
  shows "unat (total_borrow (rsv_liquidity r')) = unat (total_borrow (rsv_liquidity r)) + unat f"
    "rsv_config r' = rsv_config r"
    "borrowed_amount_outside_elevation_group r' = borrowed_amount_outside_elevation_group r"
  using assms
  by (auto simp: reserve_borrow_def withdraw_including_queued_def withdraw_freely_available_def
      take_available_def rbind_eq_Inr fail_eq total_borrow_def fx_eq split: if_splits)

lemma credit_referrer_debt:
  assumes "credit_referrer L m r rts fee = Inr (r', rts')"
  shows "total_borrow (rsv_liquidity r') = total_borrow (rsv_liquidity r)" "rsv_config r' = rsv_config r"
    "borrowed_amount_outside_elevation_group r' = borrowed_amount_outside_elevation_group r"
  using assms by (auto simp: credit_referrer_def rbind_eq_Inr total_borrow_def add_referrer_fee_def
      split: option.splits if_splits)

lemma trackers_debt:
  assumes "update_elevation_group_debt_trackers_on_borrow n ob i eg k r dks store = Inr (ob', r', store')"
  shows "rsv_liquidity r' = rsv_liquidity r" "rsv_config r' = rsv_config r"
    "eg = None \<longrightarrow> unat (borrowed_amount_outside_elevation_group r') =
         unat (borrowed_amount_outside_elevation_group r) + unat n \<and>
       borrowed_amount_outside_elevation_group r' \<le> borrow_limit_outside_elevation_group (rsv_config r)"
  using assms by (auto simp: update_elevation_group_debt_trackers_on_borrow_def rbind_eq_Inr arith_simps res_simps
      ensure_eq split: option.splits)

lemma borrow_within_reserve:
  assumes "borrow_obligation_liquidity L m r ob request clk k rts dks store = Inr (r', ob', rts', store', b)"
  shows "\<exists>t. clock_timestamp (clk_unix_timestamp clk) = Inr t \<and>
    within_reserve_limits r r' (ob_elevation_group ob = ELEVATION_GROUP_NONE) (cbr_borrow_amount_f b) t"
proof -
  let ?f = "cbr_borrow_amount_f b"
  from assms obtain t capacity caps r1 ob1 i r2 eg ob2 amount where
    cap: "remaining_borrow_capacity L r = Inr capacity" "capacity \<noteq> 0" and
    sized: "calculate_borrow L r request (remaining_borrow_value ob) (lm_referral_fee_bps m)
        (ob_elevation_group ob \<noteq> ELEVATION_GROUP_NONE) (rts \<noteq> None) = Inr b" and
    amount: "to_ceil L ?f = Inr amount" and t: "clock_timestamp (clk_unix_timestamp clk) = Inr t" and
    caps: "add_to_withdrawal_accum (debt_withdrawal_cap (rsv_config r)) amount t = Inr caps" and
    some: "cbr_receive_amount b \<noteq> 0" and
    ut: "check_below_reserve_utilization_limit L
        (r\<lparr> rsv_config := (rsv_config r)\<lparr> debt_withdrawal_cap := caps \<rparr> \<rparr>) ?f = Inr ()" and
    r1: "reserve_borrow L (r\<lparr> rsv_config := (rsv_config r)\<lparr> debt_withdrawal_cap := caps \<rparr> \<rparr>) ?f False = Inr r1" and
    ob1: "borrow_into_slot L ob (mark_reserve_stale r1) k ?f t = Inr (ob1, i)" and
    r2: "credit_referrer L m (mark_reserve_stale r1) rts (cbr_referrer_fee b) = Inr (r2, rts')" and
    eg: "get_elevation_group m (ob_elevation_group ob1) = Inr eg" and
    tr: "update_elevation_group_debt_trackers_on_borrow amount
        (mark_obligation_stale (ob1\<lparr> ob_has_debt := 1 \<rparr>)) i eg k r2 dks store = Inr (ob2, r', store')"
    unfolding borrow_obligation_liquidity_def
    by (auto simp: rbind_eq_Inr fail_eq case_prod_beta Let_def mark_obligation_stale_def simp del: not_None_eq
        split: if_splits)
  note r1 = reserve_borrow_debt [OF r1] and r2 = credit_referrer_debt [OF r2] and tr = trackers_debt [OF tr]
  have debt: "unat (total_borrow (rsv_liquidity r')) = unat (total_borrow (rsv_liquidity r)) + unat ?f"
    using r1(1) r2(1) tr(1) by simp
  have cfg: "debt_withdrawal_cap (rsv_config r') = caps" "borrow_limit_outside_elevation_group (rsv_config r2) =
      borrow_limit_outside_elevation_group (rsv_config r)"
    "borrowed_amount_outside_elevation_group r2 = borrowed_amount_outside_elevation_group r"
    using r1(2,3) r2(2,3) tr(2) by simp_all
  from amount have n: "unat amount = ceil_div (unat ?f) fx_scale" by (simp add: arith_simps)
  have "0 < unat ?f" using sized_borrow_not_zero [OF sized some] by (simp add: unat_gt_0)
  then have "amount \<noteq> 0" using n le_ceil_div [of fx_scale "unat ?f"] by (auto simp: fx_scale_def)
  note ce = cap_entered [OF caps _ this]
  have tokens: "uint amount = int (ceil_div (unat ?f) fx_scale)" by (simp only: n [symmetric] uint_nat)
  have "?f \<le> capacity" using sized_borrow_limits [OF sized] cap(1) by auto
  moreover have "unat capacity = unat (borrow_limit (rsv_config r)) * fx_scale - unat (total_borrow (rsv_liquidity r))"
    using cap(1) by (auto simp: remaining_borrow_capacity_def rbind_eq_Inr frac_of_u64_def arith_simps)
  moreover have "unat capacity \<noteq> 0" using cap(2) by simp
  ultimately have limit: "unat (total_borrow (rsv_liquidity r)) + unat ?f \<le> unat (borrow_limit (rsv_config r)) * fx_scale"
    by (simp add: word_le_nat_alt del: unat_eq_0)
  have util: "(unat (total_borrow (rsv_liquidity r)) + unat ?f) * fx_scale div rsv_supply r <
      unat (utilization_limit_block_borrowing_above_pct (rsv_config r)) * fx_scale div 100"
    if "utilization_limit_block_borrowing_above_pct (rsv_config r) \<noteq> 0"
    using utilization_kept_below [OF ut] that by (simp add: rsv_supply_def)
  have "eg = None" if "ob_elevation_group ob = ELEVATION_GROUP_NONE"
    using eg borrow_into_slot_keeps_totals [OF ob1] that by (simp add: get_elevation_group_def)
  with tr(3) cfg(2,3) n have outside: "ob_elevation_group ob = ELEVATION_GROUP_NONE \<longrightarrow>
      unat (borrowed_amount_outside_elevation_group r') =
        unat (borrowed_amount_outside_elevation_group r) + ceil_div (unat ?f) fx_scale \<and>
      borrowed_amount_outside_elevation_group r' \<le> borrow_limit_outside_elevation_group (rsv_config r)"
    by simp
  show ?thesis
    unfolding within_reserve_limits_def Let_def debt cfg(1) tokens [symmetric]
    using t limit util ce outside by blast
qed

end

section \<open>Withdrawing collateral\<close>

context num_lib begin

lemma saturating_mul_left:
  "unat (x :: frac) - unat (fx_saturating_mul L a b) = unat x - fmul (unat a) (unat b)"
proof (cases "fx_checked_mul L a b")
  case None
  then have "2 ^ 128 \<le> fmul (unat a) (unat b)" by (simp add: fx_err fmul_def)
  moreover have "x \<le> (- 1 :: u128)" by (rule word_n1_ge)
  ultimately show ?thesis using u128_lt [of x] None
    by (simp add: fx_saturating_mul_def word_le_nat_alt)
next
  case (Some c)
  then have "unat c = fmul (unat a) (unat b)" by (simp add: fx_opt_eq fmul_def)
  then show ?thesis by (simp add: fx_saturating_mul_def Some)
qed

lemma collateral_value_eq:
  assumes "liquidity_of_collateral L r shares = Inr a"
    and "calculate_market_value_from_liquidity_amount L r a = Inr v"
  shows "unat v = market_worth r (shares_worth r (unat shares))"
  using collateral_market_value_eq [of r "(obligation_collateral_new 0)\<lparr> oc_deposited_amount := shares \<rparr>" v] assms
  by (simp add: calculate_obligation_collateral_market_value_def obligation_collateral_new_def)

lemma post_withdraw_healthy:
  assumes "post_withdraw_obligation_invariants L amount ob r pct mv min_value = Inr ()"
    and "calculate_market_value_from_liquidity_amount L r amount = Inr v"
  defines "rest \<equiv> unat (ob_deposited_value_sf ob) - unat v"
  defines "debt \<equiv> unat (ob_borrow_factor_adjusted_debt_value_sf ob)"
  shows "unat v \<le> unat (ob_deposited_value_sf ob)"
    "rest = 0 \<Longrightarrow> debt = 0"
    "rest \<noteq> 0 \<Longrightarrow> unat (ob_borrowed_assets_market_value_sf ob) < rest"
    "rest \<noteq> 0 \<Longrightarrow> debt * fx_scale div rest \<noteq> 0 \<Longrightarrow> debt * fx_scale div rest <
       (unat (ob_unhealthy_borrow_value_sf ob) - fmul (unat v) (pct_bits pct)) * fx_scale div rest"
proof -
  from assms(1,2) obtain tot where tot: "fx_sub L (ob_deposited_value_sf ob) v = Inr tot"
    and zero: "\<not> (tot = 0 \<and> ob_borrow_factor_adjusted_debt_value_sf ob > 0)"
    and rest: "tot \<noteq> 0 \<Longrightarrow> \<not> tot \<le> ob_borrowed_assets_market_value_sf ob \<and>
      (\<exists>ltv th ultv. fx_div L (ob_borrow_factor_adjusted_debt_value_sf ob) tot = Inr ltv \<and>
        from_percent L (ucast pct) = Inr th \<and>
        fx_div L (fx_saturating_sub L (ob_unhealthy_borrow_value_sf ob) (fx_saturating_mul L v th)) tot = Inr ultv \<and>
        \<not> (ultv \<le> ltv \<and> ltv \<noteq> 0))"
    by (cases "\<exists>tot. fx_sub L (ob_deposited_value_sf ob) v = Inr tot \<and> tot = 0")
       (auto simp: post_withdraw_obligation_invariants_def rbind_eq_Inr fail_eq Let_def split: if_splits)
  from tot have t: "unat v \<le> unat (ob_deposited_value_sf ob)" "unat tot = rest"
    by (auto simp: fx_eq rest_def)
  then show "unat v \<le> unat (ob_deposited_value_sf ob)" by simp
  show "debt = 0" if "rest = 0"
    using zero that t(2) by (simp add: debt_def word_less_nat_alt)
  assume "rest \<noteq> 0"
  with t(2) have "tot \<noteq> 0" by auto
  from rest [OF this] obtain ltv th ultv where
    a: "\<not> tot \<le> ob_borrowed_assets_market_value_sf ob" and
    l: "fx_div L (ob_borrow_factor_adjusted_debt_value_sf ob) tot = Inr ltv" and
    th: "from_percent L (ucast pct) = Inr th" and
    u: "fx_div L (fx_saturating_sub L (ob_unhealthy_borrow_value_sf ob) (fx_saturating_mul L v th)) tot = Inr ultv" and
    cmp: "\<not> (ultv \<le> ltv \<and> ltv \<noteq> 0)" by blast
  from a t(2) show "unat (ob_borrowed_assets_market_value_sf ob) < rest" by (simp add: not_le word_less_nat_alt)
  from l t(2) have ltv: "unat ltv = debt * fx_scale div rest" by (simp add: fx_eq debt_def)
  from u t(2) have ultv: "unat ultv =
      (unat (ob_unhealthy_borrow_value_sf ob) - fmul (unat v) (pct_bits pct)) * fx_scale div rest"
    by (simp add: fx_eq saturating_mul_left pct_fraction [OF th])
  assume "debt * fx_scale div rest \<noteq> 0"
  with cmp ltv ultv show "debt * fx_scale div rest <
       (unat (ob_unhealthy_borrow_value_sf ob) - fmul (unat v) (pct_bits pct)) * fx_scale div rest"
    by (auto simp: word_le_nat_alt not_le)
qed

lemma full_withdraw_keeps_pricing:
  "update_elevation_group_debt_trackers_on_full_withdraw n g r = Inr r' \<Longrightarrow> pricing r' = pricing r"
  by (auto simp: update_elevation_group_debt_trackers_on_full_withdraw_def rbind_eq_Inr
      update_group_debt_pricing split: if_splits)

lemma withdraw_keeps_totals:
  assumes "obligation_withdraw ob n i = Inr (ob', res)"
  shows "ob_deposited_value_sf ob' = ob_deposited_value_sf ob"
    "ob_borrow_factor_adjusted_debt_value_sf ob' = ob_borrow_factor_adjusted_debt_value_sf ob"
    "ob_borrowed_assets_market_value_sf ob' = ob_borrowed_assets_market_value_sf ob"
    "ob_unhealthy_borrow_value_sf ob' = ob_unhealthy_borrow_value_sf ob"
  using assms by (auto simp: obligation_withdraw_def rbind_eq_Inr split: if_splits)

lemma withdraw_is_safe:
  assumes "withdraw_obligation_collateral L m r ob shares slot k check = Inr (r', ob', n)"
    and eg: "position_elevation_group (ob_elevation_group ob) m = Inr eg"
  defines "v \<equiv> market_worth r (shares_worth r (unat n))"
  defines "rest \<equiv> unat (ob_deposited_value_sf ob) - v"
  defines "debt \<equiv> unat (ob_borrow_factor_adjusted_debt_value_sf ob)"
  shows "v \<le> unat (ob_deposited_value_sf ob)"
    "rest = 0 \<Longrightarrow> debt = 0"
    "rest \<noteq> 0 \<Longrightarrow> unat (ob_borrowed_assets_market_value_sf ob) < rest"
    "rest \<noteq> 0 \<Longrightarrow> debt * fx_scale div rest \<noteq> 0 \<Longrightarrow> debt * fx_scale div rest <
       (unat (ob_unhealthy_borrow_value_sf ob) -
          fmul v (pct_bits (snd (get_max_ltv_and_liquidation_threshold r eg)))) * fx_scale div rest"
proof -
  from assms(1) eg obtain i ob1 kind amount mv min_value where
    w: "obligation_withdraw ob n i = Inr (ob1, kind)" and
    p: "pricing r' = pricing r" and
    a: "liquidity_of_collateral L r' n = Inr amount" and
    post: "post_withdraw_obligation_invariants L amount (mark_obligation_stale ob1) r'
      (snd (get_max_ltv_and_liquidation_threshold r eg)) mv min_value = Inr ()"
    unfolding withdraw_obligation_collateral_def Let_def
    by (auto simp: rbind_eq_Inr fail_eq case_prod_beta dest: full_withdraw_keeps_pricing split: if_splits)
  from post obtain v' where v': "calculate_market_value_from_liquidity_amount L r' amount = Inr v'"
    by (auto simp: post_withdraw_obligation_invariants_def rbind_eq_Inr)
  have v: "unat v' = v"
    using collateral_value_eq [OF a v'] pricing_worth [OF p] by (simp add: v_def)
  have t: "ob_deposited_value_sf (mark_obligation_stale ob1) = ob_deposited_value_sf ob"
    "ob_borrow_factor_adjusted_debt_value_sf (mark_obligation_stale ob1) = ob_borrow_factor_adjusted_debt_value_sf ob"
    "ob_borrowed_assets_market_value_sf (mark_obligation_stale ob1) = ob_borrowed_assets_market_value_sf ob"
    "ob_unhealthy_borrow_value_sf (mark_obligation_stale ob1) = ob_unhealthy_borrow_value_sf ob"
    using withdraw_keeps_totals [OF w] by (simp_all add: mark_obligation_stale_def)
  note h = post_withdraw_healthy [OF post v', unfolded t v, folded rest_def debt_def]
  show "v \<le> unat (ob_deposited_value_sf ob)" by (rule h(1))
  show "rest = 0 \<Longrightarrow> debt = 0" by (rule h(2))
  show "rest \<noteq> 0 \<Longrightarrow> unat (ob_borrowed_assets_market_value_sf ob) < rest" by (rule h(3))
  show "rest \<noteq> 0 \<Longrightarrow> debt * fx_scale div rest \<noteq> 0 \<Longrightarrow> debt * fx_scale div rest <
       (unat (ob_unhealthy_borrow_value_sf ob) -
          fmul v (pct_bits (snd (get_max_ltv_and_liquidation_threshold r eg)))) * fx_scale div rest"
    by (rule h(4))
qed

end

section \<open>Properties\<close>

text \<open>
  C8. A borrow that is accepted against a fresh obligation stays within the limits of the obligation
  and of the reserve. At the refreshed figures and with the value of the new debt, the debt weighted by
  the borrow factor is at most the allowed borrow value, the debt at market value stays below the value
  of the deposits, and the loan to value ratio is at most the one at which the obligation can be
  liquidated. The debt of the reserve grows by the borrow and stays within the borrow limit, the
  utilization stays below the one that blocks borrowing, the withdrawal cap records the
  borrow and is not exceeded, and outside of elevation groups the limit for those borrows is kept. This
  holds for every way of sizing the borrow, elevation groups and referrers included.
\<close>

theorem accepted_borrow_stays_within_limits:
  assumes "num_lib L"
    and "borrow_obligation_liquidity L m r ob request clk k rts dks store = Inr (r', ob', rts', store', b)"
    and "v = market_worth r (unat (cbr_borrow_amount_f b))"
    and "w = fmul v (factor_bits (ob_elevation_group ob \<noteq> ELEVATION_GROUP_NONE) r)"
  shows "unat (ob_borrow_factor_adjusted_debt_value_sf ob) + w \<le> unat (ob_allowed_borrow_value_sf ob) \<and>
     unat (ob_borrowed_assets_market_value_sf ob) + v < unat (ob_deposited_value_sf ob) \<and>
     (unat (ob_borrow_factor_adjusted_debt_value_sf ob) + w) * fx_scale div unat (ob_deposited_value_sf ob)
       \<le> unat (ob_unhealthy_borrow_value_sf ob) * fx_scale div unat (ob_deposited_value_sf ob) \<and>
     (\<exists>t. clock_timestamp (clk_unix_timestamp clk) = Inr t \<and>
       within_reserve_limits r r' (ob_elevation_group ob = ELEVATION_GROUP_NONE) (cbr_borrow_amount_f b) t)"
  using num_lib.borrow_is_safe [OF assms(1,2)] num_lib.borrow_within_reserve [OF assms(1,2)] assms(3,4) by blast

text \<open>
  C9. A withdrawal of collateral that is accepted leaves the obligation solvent and healthy at the
  refreshed figures: what leaves is worth at most the deposits; if nothing is left there was no debt;
  otherwise the debt at market value stays below the value of the deposits that are left, and the loan
  to value ratio, unless it rounds to zero, stays strictly below the one at which the obligation could
  be liquidated after the withdrawal.
\<close>

theorem accepted_withdrawal_leaves_obligation_healthy:
  assumes "num_lib L"
    and "withdraw_obligation_collateral L m r ob shares slot k check = Inr (r', ob', n)"
    and "position_elevation_group (ob_elevation_group ob) m = Inr eg"
    and "v = market_worth r (shares_worth r (unat n))"
    and "rest = unat (ob_deposited_value_sf ob) - v"
    and "debt = unat (ob_borrow_factor_adjusted_debt_value_sf ob)"
  shows "v \<le> unat (ob_deposited_value_sf ob) \<and>
     (if rest = 0 then debt = 0
      else unat (ob_borrowed_assets_market_value_sf ob) < rest \<and>
        (debt * fx_scale div rest = 0 \<or> debt * fx_scale div rest <
           (unat (ob_unhealthy_borrow_value_sf ob) -
              fmul v (pct_bits (snd (get_max_ltv_and_liquidation_threshold r eg)))) * fx_scale div rest))"
  using num_lib.withdraw_is_safe [OF assms(1-3)] assms(4-6) by auto

section \<open>Witnesses\<close>

text \<open>The position of the witness of the refresh, after that refresh.\<close>

definition fresh_obligation :: obligation where
  "fresh_obligation = sample_obligation\<lparr>
     ob_last_update := \<lparr> lu_slot = 5, lu_stale = 0, lu_price_status = 63 \<rparr>,
     ob_deposits := sample_deposit_slot\<lparr> oc_market_value_sf := 300 * 2 ^ 60 \<rparr> #
       replicate 7 obligation_collateral_default,
     ob_borrows := sample_loan_slot\<lparr> ol_market_value_sf := 30 * 2 ^ 60,
       ol_borrow_factor_adjusted_market_value_sf := 30 * 2 ^ 60,
       ol_borrowed_amount_outside_elevation_groups := 30 \<rparr> # replicate 4 obligation_liquidity_default,
     ob_deposited_value_sf := 300 * 2 ^ 60, ob_borrowed_assets_market_value_sf := 30 * 2 ^ 60,
     ob_borrow_factor_adjusted_debt_value_sf := 30 * 2 ^ 60, ob_allowed_borrow_value_sf := 225 * 2 ^ 60,
     ob_unhealthy_borrow_value_sf := 276701161105643274000, ob_has_debt := 1 \<rparr>"

lemma fresh_obligation_fields:
  "ob_last_update fresh_obligation = \<lparr> lu_slot = 5, lu_stale = 0, lu_price_status = 63 \<rparr>"
  "ob_deposits fresh_obligation = sample_deposit_slot\<lparr> oc_market_value_sf := 300 * 2 ^ 60 \<rparr> #
     replicate 7 obligation_collateral_default"
  "ob_deposited_value_sf fresh_obligation = 300 * 2 ^ 60"
  "ob_borrowed_assets_market_value_sf fresh_obligation = 30 * 2 ^ 60"
  "ob_borrow_factor_adjusted_debt_value_sf fresh_obligation = 30 * 2 ^ 60"
  "ob_allowed_borrow_value_sf fresh_obligation = 225 * 2 ^ 60"
  "ob_unhealthy_borrow_value_sf fresh_obligation = 276701161105643274000"
  "ob_elevation_group fresh_obligation = 0"
  "ob_num_of_obsolete_borrow_reserves fresh_obligation = 0"
  "ob_num_of_obsolete_deposit_reserves fresh_obligation = 0"
  "ob_autodeleverage_margin_call_started_timestamp fresh_obligation = 0"
  "ob_borrowing_disabled fresh_obligation = 0"
  by (simp_all add: fresh_obligation_def sample_obligation_def obligation_default_def ELEVATION_GROUP_NONE_def)

lemma fresh_slots:
  "collateral_is_active (sample_deposit_slot\<lparr> oc_market_value_sf := x \<rparr>)"
  "oc_deposit_reserve (sample_deposit_slot\<lparr> oc_market_value_sf := x \<rparr>) = 7"
  "oc_deposited_amount (sample_deposit_slot\<lparr> oc_market_value_sf := x \<rparr>) = 100"
  by (simp_all add: sample_deposit_slot_def collateral_is_active_def obligation_collateral_new_def)

lemma no_group_simps [simp]:
  "get_elevation_group m 0 = Inr None" "position_elevation_group 0 m = Inr None"
  by (simp_all add: get_elevation_group_def position_elevation_group_def ELEVATION_GROUP_NONE_def)

lemma fresh_active:
  "\<not> is_active_borrows_empty fresh_obligation" "\<not> is_active_deposits_empty fresh_obligation"
  by (simp_all add: is_active_borrows_empty_def is_active_deposits_empty_def fresh_obligation_def
      sample_loan_slot_def loan_is_active_def obligation_liquidity_new_def fresh_slots)

lemma sample_withdraw_amount:
  "collateral_to_withdraw std_lib fresh_obligation (sample_deposit_slot\<lparr> oc_market_value_sf := 300 * 2 ^ 60 \<rparr>)
     (75, 80) 20 MaxLtv = Inr 20"
  by (simp add: collateral_to_withdraw_def fresh_active fresh_obligation_fields max_withdraw_value_def
      exact_collateral_to_withdraw_def fresh_slots frac_of_u64_def div_ceil_def sub_ov_def
      checked_sub_def FRAC_NBITS_def std_eval)

lemma sample_liquidity_of_20:
  "liquidity_of_collateral std_lib priced_reserve 20 = Inr (30 * 2 ^ 60)"
  by (simp add: liquidity_of_collateral_def sample_rate_again frac_of_u64_def
      fraction_collateral_to_liquidity_def bf_mul_def bf_from_def bf_div_int_def bf_try_into_def FRAC_NBITS_def std_eval)

lemma sample_value_of_30:
  "calculate_market_value_from_liquidity_amount std_lib priced_reserve 34587645138205409280 = Inr (60 * 2 ^ 60)"
  by (simp add: calculate_market_value_from_liquidity_amount_def liquidity_amount_to_market_value_def
      priced_reserve_fields FRACTION_ONE_SCALED_def full_mul_int_ratio_def mul_ov_def checked_mul_def std_eval)

lemma sample_post_withdraw:
  assumes "ob_deposited_value_sf ob = 300 * 2 ^ 60" "ob_borrowed_assets_market_value_sf ob = 30 * 2 ^ 60"
    "ob_borrow_factor_adjusted_debt_value_sf ob = 30 * 2 ^ 60"
    "ob_unhealthy_borrow_value_sf ob = 276701161105643274000"
  shows "post_withdraw_obligation_invariants std_lib 34587645138205409280 ob priced_reserve 80 (300 * 2 ^ 60)
     MIN_NET_VALUE_IN_OBLIGATION = Inr ()"
  by (simp add: post_withdraw_obligation_invariants_def sample_value_of_30 assms from_percent_def
      fx_saturating_mul_def MIN_NET_VALUE_IN_OBLIGATION_def std_eval)

lemma sample_withdraw:
  "\<exists>ob'. withdraw_obligation_collateral std_lib lending_market_default priced_reserve fresh_obligation 20 5 7
     MaxLtv = Inr (priced_reserve, ob', 20)"
proof -
  have pos: "position_of_collateral_in_deposits fresh_obligation 7 = Inr 0"
    by (simp add: position_of_collateral_in_deposits_def fresh_active fresh_obligation_fields fresh_slots)
  have w: "obligation_withdraw fresh_obligation 20 0 = Inr (fresh_obligation\<lparr> ob_deposits :=
      sample_deposit_slot\<lparr> oc_market_value_sf := 300 * 2 ^ 60, oc_deposited_amount := 80 \<rparr> #
        replicate 7 obligation_collateral_default \<rparr>, Partial)"
    by (simp add: obligation_withdraw_def fresh_obligation_fields fresh_slots collateral_withdraw_def checked_sub_def)
  have fresh: "ensure_reserve_fresh priced_reserve 5 ALL_CHECKS = Inr ()"
    "ensure_obligation_fresh fresh_obligation 5 ALL_CHECKS = Inr ()"
    by (simp_all add: ensure_reserve_fresh_def ensure_obligation_fresh_def priced_reserve_fields
        fresh_obligation_fields sample_fresh ALL_CHECKS_eval)
  have none: "position_elevation_group (ob_elevation_group fresh_obligation) lending_market_default = Inr None"
    by (simp add: fresh_obligation_fields)
  have ltvs: "get_max_ltv_and_liquidation_threshold priced_reserve None = (75, 80)"
    by (simp add: get_max_ltv_and_liquidation_threshold_def priced_reserve_fields)
  have d0: "ob_deposits fresh_obligation ! 0 = sample_deposit_slot\<lparr> oc_market_value_sf := 300 * 2 ^ 60 \<rparr>"
    by (simp add: fresh_obligation_fields)
  have post: "post_withdraw_obligation_invariants std_lib 34587645138205409280
      (mark_obligation_stale (fresh_obligation\<lparr> ob_deposits := ds \<rparr>)) priced_reserve 80 (300 * 2 ^ 60)
      MIN_NET_VALUE_IN_OBLIGATION = Inr ()" for ds
    by (rule sample_post_withdraw) (simp_all add: mark_obligation_stale_def fresh_obligation_fields)
  have mv: "oc_market_value_sf (ob_deposits (mark_obligation_stale (fresh_obligation\<lparr> ob_deposits :=
      sample_deposit_slot\<lparr> oc_market_value_sf := 300 * 2 ^ 60, oc_deposited_amount := 80 \<rparr> #
        replicate 7 obligation_collateral_default \<rparr>)) ! 0) = 300 * 2 ^ 60"
    by (simp add: mark_obligation_stale_def)
  have net: "lm_min_net_value_in_obligation_sf lending_market_default = MIN_NET_VALUE_IN_OBLIGATION"
    by (simp add: lending_market_default_def)
  show ?thesis
    unfolding withdraw_obligation_collateral_def Let_def
    using sample_withdraw_amount sample_liquidity_of_20 post [of "sample_deposit_slot\<lparr> oc_market_value_sf :=
      300 * 2 ^ 60, oc_deposited_amount := 80 \<rparr> # replicate 7 obligation_collateral_default"] w mv
    by (simp add: fresh_active fresh pos d0 fresh_slots check_elevation_group_borrowing_enabled_def none
        check_obsolete_withdraw_def has_obsolete_reserves_def fresh_obligation_fields ltvs net)
qed

theorem accepted_withdrawal_leaves_obligation_healthy_witness:
  "\<exists>ob'. withdraw_obligation_collateral std_lib lending_market_default priced_reserve fresh_obligation 20 5 7
     MaxLtv = Inr (priced_reserve, ob', 20) \<and>
   market_worth priced_reserve (shares_worth priced_reserve 20) \<le> unat (ob_deposited_value_sf fresh_obligation)"
proof -
  obtain ob' where w: "withdraw_obligation_collateral std_lib lending_market_default priced_reserve
      fresh_obligation 20 5 7 MaxLtv = Inr (priced_reserve, ob', 20)"
    using sample_withdraw by blast
  have none: "position_elevation_group (ob_elevation_group fresh_obligation) lending_market_default = Inr None"
    by (simp add: fresh_obligation_fields)
  from accepted_withdrawal_leaves_obligation_healthy [OF std.num_lib_axioms w none refl refl refl] w
  show ?thesis by auto
qed

lemma sample_borrow_result:
  "calculate_borrow std_lib debt_reserve (Exact 10) (195 * 2 ^ 60) 0 False False =
     Inr \<lparr> cbr_borrow_amount_f = 10 * 2 ^ 60, cbr_receive_amount = 10, cbr_origination_fee = 0,
           cbr_referrer_fee = 0 \<rparr>"
proof -
  have cfg: "rsv_config debt_reserve = (zero_config \<lparr> points = [] \<rparr>)
       \<lparr> rewards_amount_per_slot := 3, borrow_limit := 2000, borrow_factor_pct := 100,
         borrow_limit_outside_elevation_group := 5000 \<rparr>"
    by (simp add: debt_reserve_fields sample_reserve_def reserve_init_def)
  have fees: "calculate_borrow_fees std_lib (cfg_fees (rsv_config debt_reserve)) (10 * 2 ^ 60) Exclusive 0 False = Inr (0, 0)"
    by (simp add: calculate_borrow_fees_def calculate_fees_def cfg zero_config_def from_bps_def std_eval)
  have mv: "liquidity_amount_to_market_value std_lib (rsv_liquidity debt_reserve) (10 * 2 ^ 60) = Inr (10 * 2 ^ 60)"
    by (simp add: liquidity_amount_to_market_value_def debt_reserve_fields FRACTION_ONE_SCALED_def
        full_mul_int_ratio_def mul_ov_def checked_mul_def std_eval)
  have bf: "borrow_factor_f std_lib debt_reserve False = Inr fx_one"
    by (simp add: borrow_factor_f_def get_borrow_factor_def cfg from_percent_def std_eval)
  have cap: "remaining_borrow_capacity std_lib debt_reserve = Inr (1500 * 2 ^ 60)"
    by (simp add: remaining_borrow_capacity_def cfg frac_of_u64_def total_borrow_def debt_reserve_fields
        sample_fields std_eval)
  have rate: "rsv_exchange_rate std_lib debt_reserve = rsv_exchange_rate std_lib sample_reserve"
    by (simp add: rsv_exchange_rate_def debt_reserve_def total_supply_def)
  have q: "rsv_withdraw_queue debt_reserve = withdraw_queue_default"
    by (simp add: debt_reserve_def sample_reserve_def reserve_init_def)
  have av: "freely_available_liquidity_amount std_lib debt_reserve = Inr 1000"
    by (simp add: freely_available_liquidity_amount_def queued_liquidity_amount_def rate sample_rate q
        withdraw_queue_default_def collateral_to_liquidity_def fraction_collateral_to_liquidity_def
        total_available_liquidity_amount_def debt_reserve_fields sample_fields saturating_sub_def
        bf_mul_def bf_from_def bf_div_int_def bf_try_into_def FRAC_NBITS_def to_floor_def std_eval)
  show ?thesis
    using fees mv
    by (simp add: calculate_borrow_def bf calculate_borrow_exact_def frac_of_u64_def add_ov_def
        checked_add_def cap av std_eval)
qed

lemma sample_borrow_possible:
  "check_borrow_possible lending_market_default debt_reserve fresh_obligation sample_clock = Inr ()"
  by (simp add: check_borrow_possible_def is_borrowing_disabled_def lending_market_default_def
      ensure_reserve_fresh_def debt_reserve_fields sample_clock_def sample_fresh ALL_CHECKS_eval
      clock_timestamp_def get_secs_since_debt_maturity_reached_def get_debt_maturity_timestamp_def
      sample_reserve_def reserve_init_def zero_config_def check_not_marked_for_deleveraging_def
      is_marked_for_deleveraging_def has_obsolete_reserves_def fresh_obligation_fields fresh_active
      check_obligation_fully_refreshed_and_not_null_def ensure_obligation_fresh_def
      check_same_elevation_group_def ELEVATION_GROUP_NONE_def
      check_elevation_group_borrowing_enabled_def check_non_elevation_group_borrowing_enabled_def)

definition capped_debt_reserve :: "withdrawal_caps \<Rightarrow> reserve" where
  "capped_debt_reserve caps =
     debt_reserve\<lparr> rsv_config := (rsv_config debt_reserve)\<lparr> debt_withdrawal_cap := caps \<rparr> \<rparr>"

lemma capped_fields:
  "rsv_liquidity (capped_debt_reserve caps) = rsv_liquidity debt_reserve"
  "rsv_collateral (capped_debt_reserve caps) = rsv_collateral debt_reserve"
  "rsv_withdraw_queue (capped_debt_reserve caps) = withdraw_queue_default"
  "rsv_config (capped_debt_reserve caps) = (rsv_config debt_reserve)\<lparr> debt_withdrawal_cap := caps \<rparr>"
  by (simp_all add: capped_debt_reserve_def) (simp add: debt_reserve_def sample_reserve_def reserve_init_def)

lemma debt_reserve_supply: "total_supply std_lib (rsv_liquidity debt_reserve) = Inr (1500 * 2 ^ 60)"
  using sample_supply by (simp add: total_supply_def debt_reserve_fields)

lemma sample_utilization: "check_below_reserve_utilization_limit std_lib (capped_debt_reserve caps) (10 * 2 ^ 60) = Inr ()"
  using debt_reserve_supply
  by (simp add: check_below_reserve_utilization_limit_def capped_fields total_borrow_def debt_reserve_fields
      sample_fields from_percent_def sample_reserve_def reserve_init_def zero_config_def std_eval)

lemma sample_reserve_borrow:
  "reserve_borrow std_lib (capped_debt_reserve caps) (10 * 2 ^ 60) False =
     Inr ((capped_debt_reserve caps)\<lparr> rsv_liquidity := (rsv_liquidity debt_reserve)
       \<lparr> total_available_amount := 990, borrowed_amount_sf := 510 * 2 ^ 60 \<rparr> \<rparr>)"
proof -
  have rate: "rsv_exchange_rate std_lib (capped_debt_reserve caps) = rsv_exchange_rate std_lib sample_reserve"
    by (simp add: rsv_exchange_rate_def capped_fields) (simp add: debt_reserve_def total_supply_def)
  have av: "freely_available_liquidity_amount std_lib (capped_debt_reserve caps) = Inr 1000"
    by (simp add: freely_available_liquidity_amount_def queued_liquidity_amount_def rate sample_rate capped_fields
        withdraw_queue_default_def collateral_to_liquidity_def fraction_collateral_to_liquidity_def
        total_available_liquidity_amount_def debt_reserve_fields sample_fields saturating_sub_def
        bf_mul_def bf_from_def bf_div_int_def bf_try_into_def FRAC_NBITS_def to_floor_def std_eval)
  have fl: "to_floor std_lib 11529215046068469760 = Inr 10" by (simp add: to_floor_def std_eval)
  show ?thesis
    by (simp add: reserve_borrow_def fl withdraw_freely_available_def av take_available_def capped_fields
        debt_reserve_fields sample_fields sub_ov_def checked_sub_def total_borrow_def std_eval)
qed

lemma sample_caps: "\<exists>caps. add_to_withdrawal_accum (debt_withdrawal_cap (rsv_config debt_reserve)) 10 1000 = Inr caps"
  by (simp add: debt_reserve_fields sample_reserve_def reserve_init_def zero_config_def
      zero_withdrawal_caps_def add_to_withdrawal_accum_def check_and_update_withdrawal_caps_def update_counter_def
      i64_of_u64_def to_i64_opt_def)

definition borrowed_reserve :: "withdrawal_caps \<Rightarrow> reserve" where
  "borrowed_reserve caps = mark_reserve_stale ((capped_debt_reserve caps)\<lparr> rsv_liquidity :=
     (rsv_liquidity debt_reserve)\<lparr> total_available_amount := 990, borrowed_amount_sf := 510 * 2 ^ 60 \<rparr> \<rparr>)"

definition larger_loan :: obligation_liquidity where
  "larger_loan = sample_loan_slot\<lparr> ol_market_value_sf := 30 * 2 ^ 60,
     ol_borrow_factor_adjusted_market_value_sf := 30 * 2 ^ 60,
     ol_borrowed_amount_outside_elevation_groups := 30,
     ol_borrowed_amount_sf := 40 * 2 ^ 60, ol_last_borrowed_at_timestamp := 1000 \<rparr>"

lemma sample_into_slot:
  "borrow_into_slot std_lib fresh_obligation (borrowed_reserve caps) 8 (10 * 2 ^ 60) 1000 =
     Inr (fresh_obligation\<lparr> ob_borrows := larger_loan # replicate 4 obligation_liquidity_default \<rparr>, 0)"
proof -
  have b: "ob_borrows fresh_obligation = sample_loan_slot\<lparr> ol_market_value_sf := 30 * 2 ^ 60,
       ol_borrow_factor_adjusted_market_value_sf := 30 * 2 ^ 60,
       ol_borrowed_amount_outside_elevation_groups := 30 \<rparr> # replicate 4 obligation_liquidity_default"
    by (simp add: fresh_obligation_def)
  have "find_or_add_liquidity_to_borrows fresh_obligation 8 rate = Inr (fresh_obligation, 0)" for rate
    by (simp add: find_or_add_liquidity_to_borrows_def find_liquidity_index_in_borrows_def b
        sample_loan_slot_def obligation_liquidity_new_def)
  moreover have "debt_term_seconds (rsv_config (borrowed_reserve caps)) = 0"
    by (simp add: borrowed_reserve_def mark_reserve_stale_def capped_fields debt_reserve_fields sample_reserve_plain)
  moreover have "fx_add std_lib 34587645138205409280 11529215046068469760 = Inr 46116860184273879040"
    by (simp add: std_eval)
  ultimately show ?thesis
    by (simp add: borrow_into_slot_def b get_secs_since_reserve_debt_term_end_def larger_loan_def
        get_debt_term_end_timestamp_def get_debt_term_seconds_def loan_borrow_def sample_loan_slot_def
        obligation_liquidity_new_def)
qed

lemma sample_track:
  "\<exists>r' ob'. update_elevation_group_debt_trackers_on_borrow 10 (mark_obligation_stale
      (fresh_obligation\<lparr> ob_borrows := larger_loan # replicate 4 obligation_liquidity_default, ob_has_debt := 1 \<rparr>))
      0 None 8 (borrowed_reserve caps) [] Map.empty = Inr (ob', r', Map.empty) \<and>
    rsv_liquidity r' = rsv_liquidity (borrowed_reserve caps) \<and> rsv_config r' = rsv_config (borrowed_reserve caps) \<and>
    ol_market_value_sf (ob_borrows ob' ! 0) = 30 * 2 ^ 60 \<and>
    ob_elevation_group ob' = 0 \<and> ob_deposited_value_sf ob' = 300 * 2 ^ 60 \<and>
    ob_borrowed_assets_market_value_sf ob' = 30 * 2 ^ 60 \<and>
    ob_borrow_factor_adjusted_debt_value_sf ob' = 30 * 2 ^ 60 \<and>
    ob_unhealthy_borrow_value_sf ob' = 276701161105643274000"
proof -
  have "borrowed_amount_outside_elevation_group (borrowed_reserve caps) = 0"
    "borrow_limit_outside_elevation_group (rsv_config (borrowed_reserve caps)) = 5000"
    by (simp_all add: borrowed_reserve_def mark_reserve_stale_def capped_debt_reserve_def debt_reserve_fields)
  then show ?thesis
    by (simp add: update_elevation_group_debt_trackers_on_borrow_def checked_add_def to_word_opt_def
        array_update_def array_get_def mark_obligation_stale_def larger_loan_def add_ov_def
        fresh_obligation_fields)
qed

lemma sample_post_borrow:
  assumes "rsv_liquidity r' = rsv_liquidity (borrowed_reserve caps)" "rsv_config r' = rsv_config (borrowed_reserve caps)"
    "ob_elevation_group ob = 0" "ob_deposited_value_sf ob = 300 * 2 ^ 60"
    "ob_borrowed_assets_market_value_sf ob = 30 * 2 ^ 60" "ob_borrow_factor_adjusted_debt_value_sf ob = 30 * 2 ^ 60"
    "ob_unhealthy_borrow_value_sf ob = 276701161105643274000"
  shows "post_borrow_obligation_invariants std_lib (10 * 2 ^ 60) ob r' (30 * 2 ^ 60) MIN_NET_VALUE_IN_OBLIGATION = Inr ()"
proof -
  have c: "borrow_factor_pct (rsv_config (borrowed_reserve caps)) = 100"
    by (simp add: borrowed_reserve_def mark_reserve_stale_def capped_fields debt_reserve_fields sample_reserve_plain)
  have l: "rsv_liquidity (borrowed_reserve caps) = (rsv_liquidity sample_reserve)\<lparr> market_price_sf := 2 ^ 60,
      total_available_amount := 990, borrowed_amount_sf := 510 * 2 ^ 60 \<rparr>"
    by (simp add: borrowed_reserve_def mark_reserve_stale_def capped_fields debt_reserve_fields)
  have mf: "mint_factor (rsv_liquidity (borrowed_reserve caps)) = Inr 1"
    by (simp add: l mint_factor_def ten_pow_def sample_reserve_plain POWERS_OF_TEN_def)
  have p: "market_price_sf (rsv_liquidity (borrowed_reserve caps)) = 2 ^ 60" by (simp add: l)
  show ?thesis
    using p
    by (simp add: post_borrow_obligation_invariants_def calculate_market_value_from_liquidity_amount_def
        liquidity_amount_to_market_value_def assms mf FRACTION_ONE_SCALED_def full_mul_int_ratio_def mul_ov_def
        checked_mul_def borrow_factor_f_def get_borrow_factor_def c from_percent_def unhealthy_loan_to_value_def
        ELEVATION_GROUP_NONE_def MIN_NET_VALUE_IN_OBLIGATION_def std_eval)
qed

lemma sample_borrow:
  "\<exists>r' ob' b. borrow_obligation_liquidity std_lib lending_market_default debt_reserve fresh_obligation (Exact 10)
     sample_clock 8 None [] Map.empty = Inr (r', ob', None, Map.empty, b) \<and> cbr_borrow_amount_f b = 10 * 2 ^ 60"
proof -
  obtain caps where caps: "add_to_withdrawal_accum (debt_withdrawal_cap (rsv_config debt_reserve)) 10 1000 = Inr caps"
    using sample_caps by blast
  obtain r' ob' where tr: "update_elevation_group_debt_trackers_on_borrow 10 (mark_obligation_stale
      (fresh_obligation\<lparr> ob_borrows := larger_loan # replicate 4 obligation_liquidity_default, ob_has_debt := 1 \<rparr>))
      0 None 8 (borrowed_reserve caps) [] Map.empty = Inr (ob', r', Map.empty)"
    and post: "post_borrow_obligation_invariants std_lib (10 * 2 ^ 60) ob' r' (30 * 2 ^ 60) MIN_NET_VALUE_IN_OBLIGATION = Inr ()"
    and mv: "ol_market_value_sf (ob_borrows ob' ! 0) = 30 * 2 ^ 60"
    using sample_track [of caps] sample_post_borrow by blast
  have rem: "remaining_borrow_value fresh_obligation = 195 * 2 ^ 60"
    by (simp add: remaining_borrow_value_def fresh_obligation_fields saturating_sub_def)
  have cap: "\<exists>c. remaining_borrow_capacity std_lib debt_reserve = Inr c \<and> c \<noteq> 0"
    by (simp add: remaining_borrow_capacity_def frac_of_u64_def total_borrow_def debt_reserve_fields
        sample_fields sample_reserve_def reserve_init_def zero_config_def reserve_liquidity_default_def std_eval)
  have clk: "clock_timestamp (clk_unix_timestamp sample_clock) = Inr 1000"
    by (simp add: sample_clock_def clock_timestamp_def)
  have ceil: "to_ceil std_lib 11529215046068469760 = Inr 10" by (simp add: to_ceil_def std_eval)
  have ords: "check_orders_supported_after_user_operation (fresh_obligation\<lparr> ob_borrows := ls \<rparr>) = Inr ()" for ls
    by (simp add: check_orders_supported_after_user_operation_def fresh_obligation_def sample_obligation_def
        obligation_default_def order_is_supported_by_def numeral_2_eq_2)
  have mk: "lm_referral_fee_bps lending_market_default = 0"
    "lm_min_net_value_in_obligation_sf lending_market_default = MIN_NET_VALUE_IN_OBLIGATION"
    by (simp_all add: lending_market_default_def)
  have eg: "ob_elevation_group (mark_obligation_stale (fresh_obligation\<lparr> ob_borrows := ls, ob_has_debt := 1 \<rparr>)) = 0" for ls
    by (simp add: mark_obligation_stale_def fresh_obligation_fields)
  have bres: "mark_reserve_stale ((capped_debt_reserve caps)\<lparr> rsv_liquidity :=
      (rsv_liquidity debt_reserve)\<lparr> total_available_amount := 990, borrowed_amount_sf := 510 * 2 ^ 60 \<rparr> \<rparr>) = borrowed_reserve caps"
    by (simp add: borrowed_reserve_def)
  show ?thesis
    using cap rem sample_borrow_result sample_utilization [of caps] sample_reserve_borrow [of caps]
      sample_into_slot [of caps] bres post mv tr
    by (auto simp: borrow_obligation_liquidity_def Let_def sample_borrow_possible clk ceil caps mk eg
        capped_debt_reserve_def [symmetric] credit_referrer_def ords fresh_obligation_fields ELEVATION_GROUP_NONE_def)
qed

theorem accepted_borrow_stays_within_limits_witness:
  "\<exists>r' ob' b. borrow_obligation_liquidity std_lib lending_market_default debt_reserve fresh_obligation (Exact 10)
     sample_clock 8 None [] Map.empty = Inr (r', ob', None, Map.empty, b) \<and>
   unat (ob_borrowed_assets_market_value_sf fresh_obligation) + market_worth debt_reserve (10 * 2 ^ 60) <
     unat (ob_deposited_value_sf fresh_obligation) \<and>
   (\<exists>t. within_reserve_limits debt_reserve r' True (10 * 2 ^ 60) t)"
proof -
  obtain r' ob' b where b: "borrow_obligation_liquidity std_lib lending_market_default debt_reserve
      fresh_obligation (Exact 10) sample_clock 8 None [] Map.empty = Inr (r', ob', None, Map.empty, b)"
    "cbr_borrow_amount_f b = 10 * 2 ^ 60"
    using sample_borrow by blast
  have "unat (cbr_borrow_amount_f b) = 10 * 2 ^ 60" using b(2) by simp
  moreover have "ob_elevation_group fresh_obligation = ELEVATION_GROUP_NONE"
    by (simp add: fresh_obligation_fields ELEVATION_GROUP_NONE_def)
  ultimately show ?thesis
    using accepted_borrow_stays_within_limits [OF std.num_lib_axioms b(1) refl refl] b by auto
qed

end
