(* ===== verification/Liquidate.thy ===== *)
theory Liquidate imports Position_Safety begin

text \<open>
  A whole liquidation, from \<open>lending_market/lending_operations.rs\<close>: the guards, the amounts of
  \<open>state/liquidation_operations.rs\<close>, the settlement of the two positions, the execution of an order,
  and the redemption of the seized collateral tokens with the fee of the protocol. The two reserves
  are accounts of the store and may be the same account; log lines are left out.
\<close>

section \<open>Results\<close>

record liquidate_obligation_result =
  lor_settle_amount :: frac
  lor_repay_amount :: u64
  lor_withdraw_amount :: u64
  lor_withdraw_collateral_amount :: u64
  lor_liquidation_bonus_rate :: frac
  lor_liquidation_reason :: liquidation_reason

record liquidate_and_redeem_result =
  lrr_repay_amount :: u64
  lrr_withdraw_amount :: u64
  lrr_withdraw_collateral_amount :: u64
  lrr_total_withdraw_liquidity_amount :: "(u64 \<times> u64) option"
  lrr_liquidation_reason :: liquidation_reason

section \<open>Settling the positions\<close>

text \<open>The collateral tokens of a reserve that a liquidation for this reason can redeem now.\<close>

definition max_redeemable_collateral :: "numlib \<Rightarrow> reserve \<Rightarrow> liquidation_reason \<Rightarrow> u64 res" where
  "max_redeemable_collateral L r reason =
     (if use_withdraw_queue (redeem_options_resolve reason)
      then total_redeemable_collateral_amount L r
      else freely_redeemable_collateral_amount L r)"

definition consume_executed_order ::
  "numlib \<Rightarrow> obligation \<Rightarrow> liquidation_reason \<Rightarrow> u64 \<Rightarrow> obligation res" where
  "consume_executed_order L ob reason repay_amount =
     (if has_debt ob
      then case reason of
          ObligationOrder i \<Rightarrow> consume_order_at L ob i repay_amount
        | _ \<Rightarrow> Inr ob
      else Inr ob)"

text \<open>
  The amounts, and the slots they concern. \<open>repay_reserve\<close> and \<open>withdraw_reserve\<close> are the accounts
  before anything changes.
\<close>

definition size_liquidation ::
  "numlib \<Rightarrow> lending_market \<Rightarrow> pubkey \<Rightarrow> reserve \<Rightarrow> pubkey \<Rightarrow> reserve \<Rightarrow> obligation \<Rightarrow> clock \<Rightarrow> u64 \<Rightarrow>
   u64 option \<Rightarrow> (nat \<times> nat \<times> calculate_liquidation_result) res" where
  "size_liquidation L m repay_key repay_reserve withdraw_key withdraw_reserve ob clk
     liquidity_amount max_allowed_ltv_override_pct_opt =
     rbind (position_elevation_group (ob_elevation_group ob) m) (\<lambda>eg.
     let threshold_pct = snd (get_max_ltv_and_liquidation_threshold withdraw_reserve eg)
     in if threshold_pct = 0 then fail CollateralNonLiquidatable
     else rbind (assert_obligation_liquidatable repay_reserve withdraw_reserve ob liquidity_amount
              (clk_slot clk)) (\<lambda>_.
       rbind (find_liquidity_in_borrows ob repay_key) (\<lambda>(l, liquidity_index).
       if ol_borrow_factor_adjusted_market_value_sf l = 0 then fail ObligationLiquidityEmpty
       else rbind (position_of_collateral_in_deposits ob withdraw_key) (\<lambda>collateral_index.
         let collateral = ob_deposits ob ! collateral_index
         in if oc_market_value_sf collateral = 0 then fail ObligationCollateralEmpty
         else rbind (clock_timestamp (clk_unix_timestamp clk)) (\<lambda>timestamp.
           rbind (calculate_liquidation L
               \<lparr> ci_lending_market = m, ci_collateral_reserve = withdraw_reserve, ci_liquidity = l,
                 ci_debt_reserve = repay_reserve, ci_obligation = ob, ci_timestamp = timestamp,
                 ci_max_allowed_ltv_override_pct_opt = max_allowed_ltv_override_pct_opt \<rparr>
               liquidity_amount collateral
               (borrow_factor_pct (rsv_config repay_reserve) \<ge> ob_highest_borrow_factor_pct ob)
               (ucast threshold_pct \<le> ob_lowest_reserve_deposit_liquidation_ltv ob))
             (\<lambda>result. Inr (liquidity_index, collateral_index, result)))))))"

definition liquidate_obligation ::
  "numlib \<Rightarrow> lending_market \<Rightarrow> pubkey \<Rightarrow> pubkey \<Rightarrow> obligation \<Rightarrow> clock \<Rightarrow> u64 \<Rightarrow> u64 option \<Rightarrow>
   pubkey list \<Rightarrow> reserve_store \<Rightarrow> (obligation \<times> reserve_store \<times> liquidate_obligation_result) res" where
  "liquidate_obligation L m repay_key withdraw_key ob clk liquidity_amount
     max_allowed_ltv_override_pct_opt deposit_reserves store =
     rbind (load_reserve ProgramErr store repay_key) (\<lambda>repay_reserve.
     rbind (load_reserve ProgramErr store withdraw_key) (\<lambda>withdraw_reserve.
     rbind (size_liquidation L m repay_key repay_reserve withdraw_key withdraw_reserve ob clk
              liquidity_amount max_allowed_ltv_override_pct_opt)
       (\<lambda>(liquidity_index, collateral_index, result).
     let repay_amount = lr_repay_amount result; withdraw_amount = lr_withdraw_amount result;
         reason = lr_liquidation_reason result;
         is_full_withdrawal =
           (oc_deposited_amount (ob_deposits ob ! collateral_index) = withdraw_amount)
     in rbind (update_elevation_group_debt_trackers_on_repay repay_amount ob liquidity_index
              repay_reserve deposit_reserves (store(repay_key := None)))
       (\<lambda>(ob, repay_reserve, store).
     let previous_debt =
       oc_borrowed_amount_against_this_collateral_in_elevation_group
         (ob_deposits ob ! collateral_index)
     in rbind (repay_and_withdraw_from_obligation_post_liquidation L ob repay_reserve
              (lr_settle_amount result) withdraw_amount repay_amount liquidity_index
              collateral_index) (\<lambda>(ob, repay_reserve).
     let store = store(repay_key \<mapsto> repay_reserve)
     in rbind (consume_executed_order L ob reason repay_amount) (\<lambda>ob.
     rbind (load_reserve ProgramErr store withdraw_key) (\<lambda>withdraw_reserve.
     rbind (refresh_reserve L withdraw_reserve clk None (lm_referral_fee_bps m)
              (lm_reserve_rewards_max_apr_bps m)) (\<lambda>withdraw_reserve.
     rbind (max_redeemable_collateral L withdraw_reserve reason) (\<lambda>max_redeemable.
     rbind (if is_full_withdrawal
            then update_elevation_group_debt_trackers_on_full_withdraw previous_debt
                   (ob_elevation_group ob) withdraw_reserve
            else Inr withdraw_reserve) (\<lambda>withdraw_reserve.
     Inr (ob, store(withdraw_key \<mapsto> withdraw_reserve),
       \<lparr> lor_settle_amount = lr_settle_amount result, lor_repay_amount = repay_amount,
         lor_withdraw_amount = withdraw_amount,
         lor_withdraw_collateral_amount = min withdraw_amount max_redeemable,
         lor_liquidation_bonus_rate = lr_liquidation_bonus_rate result,
         lor_liquidation_reason = reason \<rparr>)))))))))))"

section \<open>Redeeming the seized tokens\<close>

definition liquidation_fee_pct :: "reserve \<Rightarrow> liquidation_reason \<Rightarrow> u8" where
  "liquidation_fee_pct r reason =
     (if is_order_reason reason then protocol_order_execution_fee_pct (rsv_config r)
      else protocol_liquidation_fee_pct (rsv_config r))"

definition post_liquidate_redeem ::
  "numlib \<Rightarrow> reserve \<Rightarrow> u64 \<Rightarrow> u64 \<Rightarrow> frac \<Rightarrow> liquidation_reason \<Rightarrow> u64 \<Rightarrow> clock \<Rightarrow>
   (reserve \<times> (u64 \<times> u64) option) res" where
  "post_liquidate_redeem L r withdraw_amount withdraw_collateral_amount bonus_rate reason
     min_acceptable_received_liquidity_amount clk =
     (if withdraw_collateral_amount \<noteq> 0
      then rbind (redeem_reserve_collateral L r withdraw_collateral_amount clk
                (redeem_options_resolve reason)) (\<lambda>(r, withdraw_liquidity_amount).
        rbind (calculate_protocol_liquidation_fee L withdraw_liquidity_amount bonus_rate
                 (liquidation_fee_pct r reason)) (\<lambda>fee.
        rbind (sub_ov withdraw_liquidity_amount fee) (\<lambda>net.
        if net < min_acceptable_received_liquidity_amount then fail LiquidationRewardTooSmall
        else Inr (r, Some (withdraw_liquidity_amount, fee)))))
      else rbind (rsv_exchange_rate L r) (\<lambda>rate.
        rbind (collateral_to_liquidity L rate withdraw_amount) (\<lambda>theoretical.
        if theoretical < min_acceptable_received_liquidity_amount
        then fail LiquidationRewardTooSmall
        else Inr (r, None))))"

definition liquidate_and_redeem ::
  "numlib \<Rightarrow> lending_market \<Rightarrow> pubkey \<Rightarrow> pubkey \<Rightarrow> obligation \<Rightarrow> clock \<Rightarrow> u64 \<Rightarrow> u64 \<Rightarrow> u64 option \<Rightarrow>
   pubkey list \<Rightarrow> reserve_store \<Rightarrow> (obligation \<times> reserve_store \<times> liquidate_and_redeem_result) res" where
  "liquidate_and_redeem L m repay_key withdraw_key ob clk liquidity_amount
     min_acceptable_received_liquidity_amount max_allowed_ltv_override_pct_opt deposit_reserves
     store =
     rbind (liquidate_obligation L m repay_key withdraw_key ob clk liquidity_amount
              max_allowed_ltv_override_pct_opt deposit_reserves store) (\<lambda>(ob, store, result).
     rbind (load_reserve ProgramErr store withdraw_key) (\<lambda>withdraw_reserve.
     rbind (post_liquidate_redeem L withdraw_reserve (lor_withdraw_amount result)
              (lor_withdraw_collateral_amount result) (lor_liquidation_bonus_rate result)
              (lor_liquidation_reason result) min_acceptable_received_liquidity_amount clk)
       (\<lambda>(withdraw_reserve, redeemed).
     Inr (ob, store(withdraw_key \<mapsto> withdraw_reserve),
       \<lparr> lrr_repay_amount = lor_repay_amount result,
         lrr_withdraw_amount = lor_withdraw_amount result,
         lrr_withdraw_collateral_amount = lor_withdraw_collateral_amount result,
         lrr_total_withdraw_liquidity_amount = redeemed,
         lrr_liquidation_reason = lor_liquidation_reason result \<rparr>))))"

end
