(* ===== verification/Rollover.thy ===== *)
theory Rollover imports Liquidate begin

text \<open>
  Rollovers of fixed-term loans, from \<open>lending_market/lending_operations.rs\<close>: the term of a loan starts
  again in its reserve, or the loan moves to another reserve that pays it back. The two reserves of
  a move are distinct accounts; log lines are left out.
\<close>

section \<open>Guards\<close>

definition preserves_rollover_config :: "obligation_liquidity \<Rightarrow> reserve \<Rightarrow> bool" where
  "preserves_rollover_config source_borrow target_reserve \<longleftrightarrow>
     get_debt_term_seconds (rsv_config target_reserve) \<noteq> None \<or>
     is_migration_to_fixed_enabled (ol_fixed_term_borrow_rollover_config source_borrow)"

definition check_rollover_into_existing_slot_possible ::
  "obligation_liquidity \<Rightarrow> obligation_liquidity \<Rightarrow> reserve \<Rightarrow> reserve \<Rightarrow> unit res" where
  "check_rollover_into_existing_slot_possible source_borrow target_borrow source_reserve
     target_reserve =
     (if ol_fixed_term_borrow_rollover_config source_borrow \<noteq>
         ol_fixed_term_borrow_rollover_config target_borrow
      then fail ObligationBorrowRolloverConfigMismatch
      else rbind (get_debt_term_end_timestamp source_borrow (rsv_config source_reserve))
        (\<lambda>source_end.
        rbind (get_debt_term_end_timestamp target_borrow (rsv_config target_reserve)) (\<lambda>target_end.
        case (source_end, target_end) of
          (Some s, Some t) \<Rightarrow>
            if t \<le> s then fail ObligationBorrowRolloverMustProlongDebtTerm else Inr ()
        | (None, Some _) \<Rightarrow> Inr ()
        | (Some _, None) \<Rightarrow> Inr ()
        | (None, None) \<Rightarrow> Inl Panic)))"

definition check_within_rollover_window ::
  "reserve \<Rightarrow> obligation_liquidity \<Rightarrow> u64 \<Rightarrow> clock \<Rightarrow> unit res" where
  "check_within_rollover_window source_reserve source_borrow window_seconds clk =
     rbind (get_debt_term_end_timestamp source_borrow (rsv_config source_reserve)) (\<lambda>term_end.
     case term_end of
       None \<Rightarrow> fail ObligationBorrowRolloverNotApplicable
     | Some e \<Rightarrow>
         rbind (clock_timestamp (clk_unix_timestamp clk)) (\<lambda>timestamp.
         if window_seconds < saturating_sub e timestamp
         then fail ObligationBorrowOutsideRolloverWindow else Inr ()))"

definition check_same_reserve_rollover_liquidity_available ::
  "numlib \<Rightarrow> reserve \<Rightarrow> obligation_liquidity \<Rightarrow> unit res" where
  "check_same_reserve_rollover_liquidity_available L r borrow =
     (let rollover_amount = ol_borrowed_amount_sf borrow
      in rbind (frac_of_u64 L (total_available_amount (rsv_liquidity r))) (\<lambda>available.
         rbind (fx_add L available rollover_amount) (\<lambda>total_after_repay.
         rbind (queued_liquidity_amount L r) (\<lambda>queued.
         rbind (frac_of_u64 L queued) (\<lambda>queued_f.
         if rollover_amount > fx_saturating_sub L total_after_repay queued_f
         then fail InsufficientLiquidity else Inr ())))))"

definition check_rollover_possible ::
  "lending_market \<Rightarrow> pubkey \<Rightarrow> reserve \<Rightarrow> pubkey \<Rightarrow> reserve \<Rightarrow> obligation \<Rightarrow> obligation_liquidity \<Rightarrow>
   clock \<Rightarrow> unit res" where
  "check_rollover_possible m source_key source_reserve target_key target_reserve ob source_borrow
     clk =
     (if ob_elevation_group ob \<noteq> ELEVATION_GROUP_NONE then fail RolloverNotSupportedInElevationGroup
      else rbind (check_repay_possible source_reserve ob clk) (\<lambda>_.
        rbind (check_borrow_possible m target_reserve ob clk) (\<lambda>_.
        if borrow_factor_pct (rsv_config target_reserve) \<noteq>
             borrow_factor_pct (rsv_config source_reserve)
        then fail ObligationBorrowRolloverTargetReserveMismatch
        else rbind (resolve_rollover_mode (ol_fixed_term_borrow_rollover_config source_borrow)
                 (rsv_config source_reserve) (rsv_config target_reserve)) (\<lambda>mode.
          rbind (resolve_allowed_rollover_time m mode) (\<lambda>time.
          rbind (case time of
              allowed_rollover_time.Always \<Rightarrow> Inr ()
            | BeforeDebtExpiration window_seconds \<Rightarrow>
                check_within_rollover_window source_reserve source_borrow window_seconds clk) (\<lambda>_.
          if source_key \<noteq> target_key
          then case find_liquidity_in_borrows ob target_key of
              Inr (existing_target_borrow, _) \<Rightarrow>
                check_rollover_into_existing_slot_possible source_borrow existing_target_borrow
                  source_reserve target_reserve
            | Inl _ \<Rightarrow> Inr ()
          else Inr ()))))))"

section \<open>The same reserve\<close>

definition rollover_borrow_into_same_reserve ::
  "numlib \<Rightarrow> lending_market \<Rightarrow> pubkey \<Rightarrow> reserve \<Rightarrow> obligation \<Rightarrow> clock \<Rightarrow> obligation res" where
  "rollover_borrow_into_same_reserve L m key r ob clk =
     rbind (find_liquidity_in_borrows ob key) (\<lambda>(borrow, i).
     rbind (check_rollover_possible m key r key r ob borrow clk) (\<lambda>_.
     rbind (check_same_reserve_rollover_liquidity_available L r borrow) (\<lambda>_.
     rbind (check_below_reserve_borrow_limit L r 0) (\<lambda>_.
     rbind (check_below_reserve_utilization_limit L r 0) (\<lambda>_.
     rbind (check_borrow_limit_outside_elevation_group_not_exceeded r) (\<lambda>_.
     rbind (get_active_borrow ob i) (\<lambda>borrow.
     rbind (clock_timestamp (clk_unix_timestamp clk)) (\<lambda>timestamp.
     Inr (mark_obligation_stale (ob\<lparr> ob_borrows := (ob_borrows ob)
       [i := borrow\<lparr> ol_last_borrowed_at_timestamp := timestamp,
                     ol_borrowed_amount_at_expiration := 0 \<rparr>] \<rparr>))))))))))"

section \<open>Another reserve\<close>

text \<open>How many tokens the target reserve lends: the whole debt, rounded up, or what it has.\<close>

definition size_rollover ::
  "numlib \<Rightarrow> lending_market \<Rightarrow> reserve \<Rightarrow> frac \<Rightarrow> u64 \<Rightarrow> u64 res" where
  "size_rollover L m target_reserve full_borrow_amount timestamp =
     rbind (borrowable_liquidity_amount_outside_elevation_group L target_reserve timestamp)
       (\<lambda>borrowable.
     rbind (to_ceil L full_borrow_amount) (\<lambda>full_tokens.
     let tokens = min borrowable full_tokens
     in rbind (frac_of_u64 L tokens) (\<lambda>tokens_f.
        if tokens_f \<ge> full_borrow_amount then Inr tokens
        else rbind (calculate_market_value_from_liquidity_amount L target_reserve tokens_f)
          (\<lambda>rollover_value.
          if frac_less_int rollover_value (lm_min_partial_rollover_value m)
          then fail PartialRolloverValueTooSmall else Inr tokens))))"

text \<open>The positions: the source loan is repaid, the target loan takes over its configuration.\<close>

definition move_loan ::
  "numlib \<Rightarrow> obligation \<Rightarrow> nat \<Rightarrow> frac \<Rightarrow> pubkey \<Rightarrow> big_fraction \<Rightarrow> frac \<Rightarrow> rollover_config \<Rightarrow> u64 \<Rightarrow>
   (obligation \<times> nat) res" where
  "move_loan L ob source_index repaid_amount target_key target_rate borrowed_amount
     preserved_rollover_config timestamp =
     rbind (obligation_repay L ob repaid_amount source_index) (\<lambda>ob.
     rbind (find_or_add_liquidity_to_borrows ob target_key target_rate) (\<lambda>(ob, target_index).
     rbind (loan_borrow L (ob_borrows ob ! target_index) borrowed_amount timestamp) (\<lambda>l.
     Inr (ob\<lparr> ob_borrows := (ob_borrows ob)[target_index :=
            l\<lparr> ol_borrowed_amount_at_expiration := 0,
               ol_fixed_term_borrow_rollover_config := preserved_rollover_config \<rparr>] \<rparr>,
          target_index))))"

definition rollover_borrow_into_different_reserve ::
  "numlib \<Rightarrow> lending_market \<Rightarrow> pubkey \<Rightarrow> reserve \<Rightarrow> pubkey \<Rightarrow> reserve \<Rightarrow> obligation \<Rightarrow> clock \<Rightarrow>
   (reserve \<times> reserve \<times> obligation \<times> fixed_term_rollover_result) res" where
  "rollover_borrow_into_different_reserve L m source_key source_reserve target_key target_reserve
     ob clk =
     rbind (find_liquidity_in_borrows ob source_key) (\<lambda>(source_borrow, source_index).
     rbind (check_rollover_possible m source_key source_reserve target_key target_reserve ob
              source_borrow clk) (\<lambda>_.
     let full_borrow_amount = ol_borrowed_amount_sf source_borrow
     in rbind (clock_timestamp (clk_unix_timestamp clk)) (\<lambda>timestamp.
     rbind (size_rollover L m target_reserve full_borrow_amount timestamp) (\<lambda>tokens.
     rbind (frac_of_u64 L tokens) (\<lambda>borrowed_amount.
     let repaid_amount = min borrowed_amount full_borrow_amount
     in rbind (fx_sub L borrowed_amount repaid_amount) (\<lambda>debt_increase.
     rbind (check_below_obligation_allowed_borrow_value L ob target_reserve debt_increase) (\<lambda>_.
     rbind (sub_from_withdrawal_accum (debt_withdrawal_cap (rsv_config source_reserve)) tokens
              timestamp) (\<lambda>source_caps.
     rbind (add_to_withdrawal_accum (debt_withdrawal_cap (rsv_config target_reserve)) tokens
              timestamp) (\<lambda>target_caps.
     let source_reserve = source_reserve
           \<lparr> rsv_config := (rsv_config source_reserve)\<lparr> debt_withdrawal_cap := source_caps \<rparr> \<rparr>;
         target_reserve = target_reserve
           \<lparr> rsv_config := (rsv_config target_reserve)\<lparr> debt_withdrawal_cap := target_caps \<rparr> \<rparr>
     in rbind (liquidity_repay L (rsv_liquidity source_reserve) tokens repaid_amount)
       (\<lambda>source_liquidity.
     rbind (reserve_borrow L target_reserve borrowed_amount False) (\<lambda>target_reserve.
     let preserved_rollover_config =
           (if preserves_rollover_config source_borrow target_reserve
            then ol_fixed_term_borrow_rollover_config source_borrow else rollover_config_default)
     in rbind (move_loan L ob source_index repaid_amount target_key
              (cumulative_borrow_rate_bsf (rsv_liquidity target_reserve)) borrowed_amount
              preserved_rollover_config timestamp) (\<lambda>(ob, target_index).
     rbind (update_elevation_group_debt_trackers_on_rollover ob tokens
              (source_reserve\<lparr> rsv_liquidity := source_liquidity \<rparr>) target_reserve source_key
              target_index) (\<lambda>(ob, source_reserve, target_reserve).
     rbind (check_orders_supported_after_user_operation ob) (\<lambda>_.
     Inr (mark_reserve_stale source_reserve, mark_reserve_stale target_reserve,
          mark_obligation_stale ob,
          \<lparr> ftr_repaid_amount = repaid_amount, ftr_borrowed_amount = borrowed_amount,
            ftr_tokens_to_transfer_over = tokens \<rparr>)))))))))))))))"

end
