(* ===== verification/Position_Effects.thy ===== *)
theory Position_Effects imports Rollover Obligation_Books Reserve_Histories Liquidation_Safety begin

text \<open>
  What the operations on positions do to the accounts they touch, over all their branches: the books
  of the obligation change as the abstract operations say, every reserve keeps the value of its
  shares, and the reserves reached through the account iterators change in their trackers only.
\<close>

lemma guard_eq: "(if c then fail e else x) = Inr y \<longleftrightarrow> \<not> c \<and> x = Inr y"
  by (simp add: fail_def)

section \<open>Positions without trackers\<close>

definition deposit_view :: "obligation_collateral \<Rightarrow> pubkey \<times> u64" where
  "deposit_view c = (oc_deposit_reserve c, oc_deposited_amount c)"

definition loan_view :: "obligation_liquidity \<Rightarrow> pubkey \<times> u128" where
  "loan_view l = (ol_borrow_reserve l, ol_borrowed_amount_sf l)"

definition same_positions :: "obligation \<Rightarrow> obligation \<Rightarrow> bool" where
  "same_positions ob ob' \<longleftrightarrow>
     map deposit_view (ob_deposits ob') = map deposit_view (ob_deposits ob) \<and>
     map loan_view (ob_borrows ob') = map loan_view (ob_borrows ob)"

lemma same_positions_refl [simp]: "same_positions ob ob"
  by (simp add: same_positions_def)

lemma same_positions_trans: "same_positions a b \<Longrightarrow> same_positions b c \<Longrightarrow> same_positions a c"
  by (simp add: same_positions_def)

text \<open>A book is a function of the views of its slots.\<close>

lemma slots_ok_view: "slots_ok key xs \<longleftrightarrow> distinct (filter (\<lambda>k. k \<noteq> 0) (map fst (map (\<lambda>x. (key x, f x)) xs)))"
  by (simp add: slots_ok_def comp_def)

lemma slot_book_view:
  "slot_book key (\<lambda>x. g (f x)) xs =
     (\<lambda>k. if k = 0 then None else map_option g (map_of (map (\<lambda>x. (key x, f x)) xs) k))"
proof
  fix k
  have "map_option (\<lambda>x. g (f x)) (find (\<lambda>x. key x = k) xs) = map_option g (map_of (map (\<lambda>x. (key x, f x)) xs) k)"
    by (induction xs) auto
  then show "slot_book key (\<lambda>x. g (f x)) xs k =
      (if k = 0 then None else map_option g (map_of (map (\<lambda>x. (key x, f x)) xs) k))"
    by (simp add: slot_book_def)
qed

lemma same_positions_books:
  assumes "same_positions ob ob'"
  shows "deposit_book ob' = deposit_book ob" "debt_book ob' = debt_book ob"
    "obligation_ok ob' \<longleftrightarrow> obligation_ok ob"
proof -
  have d: "map (\<lambda>c. (oc_deposit_reserve c, oc_deposited_amount c)) (ob_deposits ob') =
      map (\<lambda>c. (oc_deposit_reserve c, oc_deposited_amount c)) (ob_deposits ob)"
    and l: "map (\<lambda>l. (ol_borrow_reserve l, ol_borrowed_amount_sf l)) (ob_borrows ob') =
      map (\<lambda>l. (ol_borrow_reserve l, ol_borrowed_amount_sf l)) (ob_borrows ob)"
    using assms by (simp_all add: same_positions_def deposit_view_def [abs_def] loan_view_def [abs_def])
  show "deposit_book ob' = deposit_book ob"
    unfolding deposit_book_def slot_book_view [where f = oc_deposited_amount] d ..
  show "debt_book ob' = debt_book ob"
    unfolding debt_book_def slot_book_view [where f = ol_borrowed_amount_sf and g = unat] l ..
  show "obligation_ok ob' \<longleftrightarrow> obligation_ok ob"
    unfolding obligation_ok_def slots_ok_view [where f = oc_deposited_amount and xs = "ob_deposits _"]
      slots_ok_view [where f = ol_borrowed_amount_sf and xs = "ob_borrows _"] d l
    using map_eq_imp_length_eq [OF d] map_eq_imp_length_eq [OF l] by simp
qed

lemma same_positions_lists:
  "ob_deposits ob' = ob_deposits ob \<Longrightarrow> ob_borrows ob' = ob_borrows ob \<Longrightarrow> same_positions ob ob'"
  by (simp add: same_positions_def)

section \<open>Reserves behind the iterators\<close>

definition only_trackers :: "reserve \<Rightarrow> reserve \<Rightarrow> bool" where
  "only_trackers r r' \<longleftrightarrow> r' = r\<lparr>
     borrowed_amount_outside_elevation_group := borrowed_amount_outside_elevation_group r',
     borrowed_amounts_against_this_reserve_in_elevation_groups :=
       borrowed_amounts_against_this_reserve_in_elevation_groups r' \<rparr>"

lemma only_trackers_intros [simp, intro]:
  "only_trackers r r"
  "only_trackers r (r\<lparr> borrowed_amount_outside_elevation_group := x \<rparr>)"
  "only_trackers r (r\<lparr> borrowed_amounts_against_this_reserve_in_elevation_groups := xs \<rparr>)"
  by (simp_all add: only_trackers_def)

lemma only_trackers_trans: "only_trackers a b \<Longrightarrow> only_trackers b c \<Longrightarrow> only_trackers a c"
  unfolding only_trackers_def by (cases a, cases b, cases c) simp

lemma only_trackers_keep:
  assumes "only_trackers r r'"
  shows "same_tokens r r'" "rsv_config r' = rsv_config r" "rsv_last_update r' = rsv_last_update r"
    "rsv_liquidity r' = rsv_liquidity r" "rsv_collateral r' = rsv_collateral r"
    "rsv_withdraw_queue r' = rsv_withdraw_queue r"
  using assms unfolding only_trackers_def
  by (cases r, cases r', simp add: same_tokens_def terms_of_def)+

definition store_rel :: "(reserve \<Rightarrow> reserve \<Rightarrow> bool) \<Rightarrow> reserve_store \<Rightarrow> reserve_store \<Rightarrow> bool" where
  "store_rel R store store' \<longleftrightarrow> (\<forall>k. rel_option R (store k) (store' k))"

lemma store_rel_refl [simp]: "(\<And>r. R r r) \<Longrightarrow> store_rel R store store"
  by (simp add: store_rel_def rel_option_reflI)

lemma store_rel_upd:
  "store_rel R store store' \<Longrightarrow> R r r' \<Longrightarrow> store_rel R (store(k \<mapsto> r)) (store'(k \<mapsto> r'))"
  by (simp add: store_rel_def)

lemma store_rel_put:
  "(\<And>r. R r r) \<Longrightarrow> store k = Some r \<Longrightarrow> R r r' \<Longrightarrow> store_rel R store (store(k \<mapsto> r'))"
  by (simp add: store_rel_def rel_option_reflI)

lemmas store_put_trackers = store_rel_put [where R = only_trackers, OF only_trackers_intros(1)]

lemma store_rel_trans:
  assumes "store_rel R a b" "store_rel S b c" "\<And>x y z. R x y \<Longrightarrow> S y z \<Longrightarrow> T x z"
  shows "store_rel T a c"
  unfolding store_rel_def
proof
  fix k
  show "rel_option T (a k) (c k)"
    using assms(1) [unfolded store_rel_def, THEN spec, of k] assms(2) [unfolded store_rel_def, THEN spec, of k]
    by (cases "a k"; cases "b k"; cases "c k") (auto intro: assms(3))
qed

lemma store_rel_mono: "store_rel R a b \<Longrightarrow> (\<And>x y. R x y \<Longrightarrow> S x y) \<Longrightarrow> store_rel S a b"
  by (metis option.rel_mono_strong store_rel_def)

lemma store_rel_Some: "store_rel R a b \<Longrightarrow> a k = Some r \<Longrightarrow> \<exists>r'. b k = Some r' \<and> R r r'"
  by (metis option_rel_Some1 store_rel_def)

lemma load_reserve_eq [res_simps]: "load_reserve e store k = Inr r \<longleftrightarrow> store k = Some r"
  by (cases "store k") (simp_all add: load_reserve_def)

section \<open>Trackers\<close>

text \<open>A loop that only touches trackers, and one entry of an array.\<close>

lemma tracking_loop:
  assumes "for_active active body ss accounts store = Inr (ss', store')"
    and "\<And>s a st s1 st1. body s a st = Inr (s1, st1) \<Longrightarrow> view s1 = view s \<and> store_rel only_trackers st st1"
  shows "map view ss' = map view ss \<and> store_rel only_trackers store store'"
  using assms(1)
proof (induction ss arbitrary: accounts store ss')
  case (Cons s ss)
  show ?case
  proof (cases "active s")
    case False
    with Cons show ?thesis by (fastforce simp: res_simps)
  next
    case True
    with Cons.prems obtain a accs s1 st1 rest where b: "body s a store = Inr (s1, st1)" and
      r: "for_active active body ss accs st1 = Inr (rest, store')" and ss': "ss' = s1 # rest"
      by (auto simp: res_simps split: list.splits)
    from assms(2) [OF b] Cons.IH [OF r] show ?thesis
      by (auto simp: ss' intro: store_rel_trans only_trackers_trans)
  qed
qed simp

lemma array_update_view:
  assumes "array_update xs i f = Inr ys" "\<And>x y. f x = Inr y \<Longrightarrow> view y = view x"
  shows "map view ys = map view xs"
proof -
  from assms(1) obtain y where y: "f (xs ! i) = Inr y" "ys = xs[i := y]" "i < length xs"
    by (auto simp: array_update_def array_get_def res_simps split: if_splits)
  from assms(2) [OF y(1)] y(2,3) show ?thesis by (simp add: map_update list_update_same_conv)
qed

lemma group_debt_trackers: "update_group_debt r i f = Inr r' \<Longrightarrow> only_trackers r r'"
  by (auto simp: update_group_debt_def res_simps)

lemma track_group_borrow_trackers:
  "track_group_borrow i n d k store = Inr (d', store') \<Longrightarrow>
   deposit_view d' = deposit_view d \<and> store_rel only_trackers store store'"
  by (auto simp: track_group_borrow_def res_simps deposit_view_def dest: group_debt_trackers intro: store_put_trackers)

lemma track_group_repay_trackers:
  "track_group_repay i n d k store = Inr (d', store') \<Longrightarrow>
   deposit_view d' = deposit_view d \<and> store_rel only_trackers store store'"
  by (auto simp: track_group_repay_def res_simps deposit_view_def dest: group_debt_trackers intro: store_put_trackers)

lemma borrow_trackers:
  assumes "update_elevation_group_debt_trackers_on_borrow n ob i eg k r dks store = Inr (ob', r', store')"
  shows "same_positions ob ob' \<and> only_trackers r r' \<and> store_rel only_trackers store store' \<and>
    ob' = ob\<lparr> ob_deposits := ob_deposits ob', ob_borrows := ob_borrows ob' \<rparr>"
proof (cases eg)
  case None
  with assms show ?thesis
    by (auto simp: update_elevation_group_debt_trackers_on_borrow_def res_simps same_positions_def
        loan_view_def dest!: array_update_view [where view = loan_view])
next
  case (Some g)
  with assms show ?thesis
    by (auto simp: update_elevation_group_debt_trackers_on_borrow_def res_simps same_positions_def
        dest!: tracking_loop [where view = deposit_view, OF _ track_group_borrow_trackers])
qed

lemma repay_trackers:
  assumes "update_elevation_group_debt_trackers_on_repay n ob i r dks store = Inr (ob', r', store')"
  shows "same_positions ob ob' \<and> only_trackers r r' \<and> store_rel only_trackers store store' \<and>
    ob' = ob\<lparr> ob_deposits := ob_deposits ob', ob_borrows := ob_borrows ob' \<rparr>"
proof (cases "ob_elevation_group ob = ELEVATION_GROUP_NONE")
  case True
  with assms show ?thesis
    by (auto simp: update_elevation_group_debt_trackers_on_repay_def res_simps same_positions_def
        loan_view_def dest!: array_update_view [where view = loan_view])
next
  case False
  with assms show ?thesis
    by (auto simp: update_elevation_group_debt_trackers_on_repay_def res_simps same_positions_def
        dest!: tracking_loop [where view = deposit_view, OF _ track_group_repay_trackers])
qed

lemma full_withdraw_trackers:
  "update_elevation_group_debt_trackers_on_full_withdraw n g r = Inr r' \<Longrightarrow> only_trackers r r'"
  by (auto simp: update_elevation_group_debt_trackers_on_full_withdraw_def res_simps
      dest: group_debt_trackers split: if_splits)

lemma new_deposit_trackers:
  "update_elevation_group_debt_trackers_on_new_deposit t c n eg k r chk = Inr (c', r') \<Longrightarrow>
   deposit_view c' = deposit_view c \<and> only_trackers r r'"
  by (auto simp: update_elevation_group_debt_trackers_on_new_deposit_def res_simps deposit_view_def
      dest: group_debt_trackers split: option.splits)

lemma rollover_trackers:
  assumes "update_elevation_group_debt_trackers_on_rollover ob n s t k i = Inr (ob', s', t')"
  shows "same_positions ob ob' \<and> only_trackers s s' \<and> only_trackers t t' \<and>
    ob' = ob\<lparr> ob_borrows := ob_borrows ob' \<rparr>"
  using assms
  by (auto simp: update_elevation_group_debt_trackers_on_rollover_def res_simps same_positions_def
      loan_view_def dest!: array_update_view [where view = loan_view] split: sum.splits prod.splits)

section \<open>Slots by key\<close>

lemma position_map: "position P (map f xs) = position (\<lambda>x. P (f x)) xs"
  by (induction xs) simp_all

lemma loan_keys: "same_positions ob ob' \<Longrightarrow> map ol_borrow_reserve (ob_borrows ob') = map ol_borrow_reserve (ob_borrows ob)"
proof -
  assume "same_positions ob ob'"
  then have "map fst (map loan_view (ob_borrows ob')) = map fst (map loan_view (ob_borrows ob))"
    by (simp only: same_positions_def)
  then show ?thesis by (simp add: loan_view_def comp_def)
qed

lemma deposit_keys: "same_positions ob ob' \<Longrightarrow> map oc_deposit_reserve (ob_deposits ob') = map oc_deposit_reserve (ob_deposits ob)"
proof -
  assume "same_positions ob ob'"
  then have "map fst (map deposit_view (ob_deposits ob')) = map fst (map deposit_view (ob_deposits ob))"
    by (simp only: same_positions_def)
  then show ?thesis by (simp add: deposit_view_def comp_def)
qed

lemma find_liquidity_keys:
  assumes "map ol_borrow_reserve (ob_borrows ob') = map ol_borrow_reserve (ob_borrows ob)"
    and "find_liquidity_in_borrows ob k = Inr (l, i)"
  shows "find_liquidity_in_borrows ob' k = Inr (ob_borrows ob' ! i, i)"
proof -
  have "position (\<lambda>l. ol_borrow_reserve l = k) (ob_borrows ob') = position (\<lambda>l. ol_borrow_reserve l = k) (ob_borrows ob)"
    using arg_cong [OF assms(1), of "position (\<lambda>x. x = k)"] by (simp add: position_map)
  moreover have "is_active_borrows_empty ob' = is_active_borrows_empty ob"
    using arg_cong [OF assms(1), of "list_all (\<lambda>x. x = 0)"]
    by (simp add: is_active_borrows_empty_def loan_is_active_def list_all_iff)
  ultimately show ?thesis
    using assms(2)
    by (auto simp: find_liquidity_in_borrows_def find_liquidity_index_in_borrows_def res_simps split: if_splits)
qed

lemma position_of_collateral_keys:
  assumes "map oc_deposit_reserve (ob_deposits ob') = map oc_deposit_reserve (ob_deposits ob)"
  shows "position_of_collateral_in_deposits ob' k = position_of_collateral_in_deposits ob k"
proof -
  have "position (\<lambda>l. oc_deposit_reserve l = k) (ob_deposits ob') = position (\<lambda>l. oc_deposit_reserve l = k) (ob_deposits ob)"
    using arg_cong [OF assms, of "position (\<lambda>x. x = k)"] by (simp add: position_map)
  moreover have "is_active_deposits_empty ob' = is_active_deposits_empty ob"
    using arg_cong [OF assms, of "list_all (\<lambda>x. x = 0)"]
    by (simp add: is_active_deposits_empty_def collateral_is_active_def list_all_iff)
  ultimately show ?thesis by (simp add: position_of_collateral_in_deposits_def)
qed

lemma found_liquidity: "find_liquidity_in_borrows ob k = Inr (l, i) \<Longrightarrow>
    l = ob_borrows ob ! i \<and> i < length (ob_borrows ob) \<and> ol_borrow_reserve l = k"
  by (auto simp: find_liquidity_in_borrows_def find_liquidity_index_in_borrows_def res_simps
      position_eq_Some split: if_splits)

lemma found_collateral: "position_of_collateral_in_deposits ob k = Inr i \<Longrightarrow>
    i < length (ob_deposits ob) \<and> oc_deposit_reserve (ob_deposits ob ! i) = k"
  by (auto simp: position_of_collateral_in_deposits_def res_simps position_eq_Some split: if_splits)

text \<open>What an operation does to an obligation after it changed the slots.\<close>

lemma same_positions_marks [simp]:
  "same_positions ob (mark_obligation_stale ob)"
  "same_positions ob (update_has_debt ob)"
  "same_positions ob (clear_obligation_orders_if_no_debt ob)"
  "same_positions ob (ob\<lparr> ob_has_debt := x \<rparr>)"
  by (auto intro!: same_positions_lists simp: mark_obligation_stale_def update_has_debt_def
      clear_obligation_orders_if_no_debt_def remove_all_orders_def Let_def)

lemma same_positions_after_settling [simp]:
  "same_positions ob (mark_obligation_stale (clear_obligation_orders_if_no_debt (update_has_debt ob)))"
  by (meson same_positions_marks same_positions_trans)

lemma same_tokens_debt_cap [simp, intro]:
  "same_tokens r (r\<lparr> rsv_config := (rsv_config r)\<lparr> debt_withdrawal_cap := caps \<rparr> \<rparr>)"
  by (simp add: same_tokens_def)

text \<open>Repaying the slot of a loan found before the trackers changed, and withdrawing likewise.\<close>

lemma repay_slot_books:
  assumes "num_lib L" "obligation_ok ob" "k \<noteq> 0" "same_positions ob ob1"
    and "find_liquidity_in_borrows ob k = Inr (l, i)" "obligation_repay L ob1 a i = Inr ob2"
  shows "obligation_ok ob2 \<and> deposit_book ob2 = deposit_book ob \<and>
    ob_deposits ob2 = ob_deposits ob1 \<and> book_repay (debt_book ob) k (unat a) = Inr (debt_book ob2)"
proof -
  have "repay_to L ob1 k a = Inr ob2"
    using find_liquidity_keys [OF loan_keys [OF assms(4)] assms(5)] assms(6) by (simp add: repay_to_def)
  moreover have "obligation_ok ob1" using assms(2,4) by (simp add: same_positions_books)
  ultimately have "book_repay (debt_book ob1) k (unat a) = Inr (debt_book ob2) \<and>
      obligation_ok ob2 \<and> deposit_book ob2 = deposit_book ob1"
    using repay_refines [OF assms(1) _ assms(3), of ob1 a] by simp
  moreover have "ob_deposits ob2 = ob_deposits ob1"
    using assms(6) by (auto simp: obligation_repay_def res_simps split: if_splits)
  ultimately show ?thesis by (simp add: same_positions_books [OF assms(4)])
qed

lemma withdraw_slot_books:
  assumes "obligation_ok ob" "k \<noteq> 0"
    and "position_of_collateral_in_deposits ob k = Inr i" "obligation_withdraw ob a i = Inr (ob2, full)"
  shows "obligation_ok ob2 \<and> debt_book ob2 = debt_book ob \<and>
    book_withdraw (deposit_book ob) k (unat a) = Inr (deposit_book ob2)"
proof -
  have "withdraw_from ob k a = Inr ob2" using assms(3,4) by (simp add: withdraw_from_def)
  with withdraw_refines [OF assms(1,2), of a] show ?thesis by simp
qed

section \<open>Deposits and withdrawals of collateral\<close>

lemma collateral_deposit_view:
  assumes "collateral_deposit c a = Inr c1" "deposit_view c = deposit_view c0"
  shows "\<exists>c2. collateral_deposit c0 a = Inr c2 \<and> deposit_view c2 = deposit_view c1"
  using assms by (auto simp: collateral_deposit_def deposit_view_def res_simps)

context num_lib begin

lemma deposit_effect:
  assumes "deposit_obligation_collateral L m r ob slot n k chk = Inr (r', ob')" "obligation_ok ob" "k \<noteq> 0"
  shows "same_tokens r r'" "obligation_ok ob'" "debt_book ob' = debt_book ob"
    "book_deposit (deposit_book ob) k (unat n) = Inr (deposit_book ob')"
proof -
  from assms(1) obtain total eg ob1 i new c r1 c1 where
    f: "find_or_add_collateral_to_deposits ob k = Inr (ob1, i, new)" and
    t: "(if new then update_elevation_group_debt_trackers_on_new_deposit total (ob_deposits ob1 ! i)
          (active_deposits_count ob) eg k r chk else Inr (ob_deposits ob1 ! i, r)) = Inr (c, r1)" and
    c: "collateral_deposit c n = Inr c1" and r': "r' = mark_reserve_stale r1" and
    ob': "ob' = mark_obligation_stale (ob1\<lparr> ob_deposits := (ob_deposits ob1)[i := c1] \<rparr>)"
    unfolding deposit_obligation_collateral_def Let_def
    by (auto simp: rbind_eq_Inr fail_eq case_prod_beta split: if_splits)
  have v: "deposit_view c = deposit_view (ob_deposits ob1 ! i)" "only_trackers r r1"
    using t new_deposit_trackers by (auto split: if_splits)
  from collateral_deposit_view [OF c v(1)] obtain c2 where
    c2: "collateral_deposit (ob_deposits ob1 ! i) n = Inr c2" "deposit_view c2 = deposit_view c1" by blast
  let ?ob = "ob1\<lparr> ob_deposits := (ob_deposits ob1)[i := c2] \<rparr>"
  have "deposit_into ob k n = Inr ?ob" using f c2(1) by (simp add: deposit_into_def)
  with deposit_refines [OF assms(2,3), of n] have b: "obligation_ok ?ob" "debt_book ?ob = debt_book ob"
    "book_deposit (deposit_book ob) k (unat n) = Inr (deposit_book ?ob)" by simp_all
  have "same_positions ?ob (ob1\<lparr> ob_deposits := (ob_deposits ob1)[i := c1] \<rparr>)"
    using c2(2) by (simp add: same_positions_def map_update)
  then have "same_positions ?ob ob'" unfolding ob' by (meson same_positions_marks(1) same_positions_trans)
  note same_positions_books [OF this]
  with b show "obligation_ok ob'" "debt_book ob' = debt_book ob"
    "book_deposit (deposit_book ob) k (unat n) = Inr (deposit_book ob')" by simp_all
  show "same_tokens r r'"
    unfolding r' using only_trackers_keep(1) [OF v(2)] by (meson mark_reserve_stale_simps(1) same_tokens_trans)
qed

lemma withdraw_effect:
  assumes "withdraw_obligation_collateral L m r ob a slot k chk = Inr (r', ob', n)" "obligation_ok ob" "k \<noteq> 0"
  shows "same_tokens r r'" "obligation_ok ob'" "debt_book ob' = debt_book ob"
    "book_withdraw (deposit_book ob) k (unat n) = Inr (deposit_book ob')"
proof -
  from assms(1) obtain i ob1 full c where
    i: "position_of_collateral_in_deposits ob k = Inr i" and
    w: "obligation_withdraw ob n i = Inr (ob1, full)" and
    r': "(if full = Full then update_elevation_group_debt_trackers_on_full_withdraw c
           (ob_elevation_group (mark_obligation_stale ob1)) r else Inr r) = Inr r'" and
    ob': "ob' = mark_obligation_stale ob1"
    unfolding withdraw_obligation_collateral_def Let_def
    by (auto simp: rbind_eq_Inr fail_eq case_prod_beta split: if_splits)
  from withdraw_slot_books [OF assms(2,3) i w]
  show "obligation_ok ob'" "debt_book ob' = debt_book ob"
    "book_withdraw (deposit_book ob) k (unat n) = Inr (deposit_book ob')"
    by (simp_all add: ob' same_positions_books [OF same_positions_marks(1)])
  show "same_tokens r r'"
    using r' by (auto split: if_splits dest!: full_withdraw_trackers intro: only_trackers_keep(1))
qed

section \<open>Borrows and repayments\<close>

lemma credit_referrer_healthy:
  assumes "credit_referrer L m r rts fee = Inr (r', rts')" "covered r"
  shows "healthy_step r r'"
proof (cases "rts = None \<or> \<not> lm_referral_fee_bps m > 0")
  case True
  with assms show ?thesis
    by (auto simp: credit_referrer_def same_tokens_healthy' split: option.splits if_splits)
next
  case False
  with assms(1) obtain s s1 f r1 a where c: "frac_of_u64 L fee = Inr f" "add_referrer_fee r s f = Inr (r1, s1)"
    "add_ov (total_available_amount (rsv_liquidity r1)) fee = Inr a" and
    r': "r' = r1\<lparr> rsv_liquidity := (rsv_liquidity r1)\<lparr> total_available_amount := a \<rparr> \<rparr>"
    by (auto simp: credit_referrer_def res_simps)
  from referrer_credit_healthy [OF c assms(2)] show ?thesis by (simp add: r')
qed

lemma borrow_mint: "reserve_borrow L r f q = Inr r' \<Longrightarrow> rsv_mint r' = rsv_mint r"
  by (auto simp: reserve_borrow_def withdraw_including_queued_def withdraw_freely_available_def
      take_available_def rbind_eq_Inr rsv_mint_def fail_eq split: if_splits)

lemma borrow_into_slot_from:
  assumes "borrow_into_slot L ob r k f t = Inr (ob', i)"
  shows "borrow_from L ob k (cumulative_borrow_rate_bsf (rsv_liquidity r)) f t = Inr ob'"
  using assms by (auto simp: borrow_into_slot_def borrow_from_def res_simps split: if_splits)

lemma credit_referrer_mint: "credit_referrer L m r rts fee = Inr (r', rts') \<Longrightarrow> rsv_mint r' = rsv_mint r"
  by (auto simp: credit_referrer_def add_referrer_fee_def res_simps rsv_mint_def split: option.splits if_splits)

lemma borrow_effect:
  assumes "borrow_obligation_liquidity L m r ob sz clk k rts dks store = Inr (r', ob', rts', store', b)"
    and "obligation_ok ob" "k \<noteq> 0"
  shows "live r \<Longrightarrow> healthy_step r r'" "rsv_mint r' = rsv_mint r" "store_rel only_trackers store store'"
    "obligation_ok ob'" "deposit_book ob' = deposit_book ob"
    "book_borrow (debt_book ob) k (unat (cbr_borrow_amount_f b)) = Inr (debt_book ob')"
proof -
  from assms(1) obtain caps r1 t ob1 i r2 ob2 eg n where
    r1: "reserve_borrow L (r\<lparr> rsv_config := (rsv_config r)\<lparr> debt_withdrawal_cap := caps \<rparr> \<rparr>)
          (cbr_borrow_amount_f b) False = Inr r1" and
    ob1: "borrow_into_slot L ob (mark_reserve_stale r1) k (cbr_borrow_amount_f b) t = Inr (ob1, i)" and
    r2: "credit_referrer L m (mark_reserve_stale r1) rts (cbr_referrer_fee b) = Inr (r2, rts')" and
    t: "update_elevation_group_debt_trackers_on_borrow n
          (mark_obligation_stale (ob1\<lparr> ob_has_debt := 1 \<rparr>)) i eg k r2 dks store = Inr (ob', r', store')"
    unfolding borrow_obligation_liquidity_def Let_def
    by (auto simp: rbind_eq_Inr fail_eq case_prod_beta split: if_splits)
  let ?r = "r\<lparr> rsv_config := (rsv_config r)\<lparr> debt_withdrawal_cap := caps \<rparr> \<rparr>"
  have m1: "rsv_mint (mark_reserve_stale r1) = rsv_mint r"
    using borrow_mint [OF r1] by (simp add: rsv_mint_def)
  note tr = borrow_trackers [OF t]
  show "healthy_step r r'" if lv: "live r"
  proof -
    have c: "covered ?r" using lv by (simp add: live_def covered_def)
    have h1: "healthy_step r (mark_reserve_stale r1)"
      using healthy_stepI [OF borrow_keeps_share_value [OF r1 c]] same_tokens_debt_cap
      by (meson healthy_before same_tokens_healthy mark_reserve_stale_simps(1))
    then have "covered (mark_reserve_stale r1)" by (simp add: healthy_step_def)
    from credit_referrer_healthy [OF r2 this] have "healthy_step r r2"
      using healthy_trans [OF h1] m1 lv by (simp add: live_def)
    then show ?thesis using same_tokens_healthy only_trackers_keep(1) tr by blast
  qed
  have m2: "rsv_mint r2 = rsv_mint (mark_reserve_stale r1)" by (rule credit_referrer_mint [OF r2])
  show "rsv_mint r' = rsv_mint r" using only_trackers_keep(5) [of r2 r'] tr m2 m1 by (simp add: rsv_mint_def)
  show "store_rel only_trackers store store'" using tr by blast
  have "obligation_ok ob1" "deposit_book ob1 = deposit_book ob"
    "book_borrow (debt_book ob) k (unat (cbr_borrow_amount_f b)) = Inr (debt_book ob1)"
    using borrow_refines [OF num_lib_axioms assms(2,3), of "cumulative_borrow_rate_bsf
        (rsv_liquidity (mark_reserve_stale r1))" "cbr_borrow_amount_f b" t]
    unfolding borrow_into_slot_from [OF ob1] by simp_all
  moreover have "same_positions ob1 ob'"
    using same_positions_trans [OF same_positions_trans [OF same_positions_marks(4,1)] conjunct1 [OF tr]] .
  ultimately show "obligation_ok ob'" "deposit_book ob' = deposit_book ob"
    "book_borrow (debt_book ob) k (unat (cbr_borrow_amount_f b)) = Inr (debt_book ob')"
    by (simp_all add: same_positions_books)
qed

text \<open>Tokens that cover what they settle.\<close>

lemma covered_repay_healthy:
  assumes "liquidity_repay L (rsv_liquidity r) tokens settle = Inr l" "covered r"
    and "unat settle \<le> unat tokens * fx_scale"
  shows "healthy_step r (r\<lparr> rsv_liquidity := l \<rparr>)"
proof -
  have avail: "unat (total_available_amount l) = unat (total_available_amount (rsv_liquidity r)) + unat tokens"
    and debt: "unat (borrowed_amount_sf l) = unat (borrowed_amount_sf (rsv_liquidity r)) - unat settle"
    and fees: "fees_bits l = fees_bits (rsv_liquidity r)"
    using assms(1) by (auto simp: liquidity_repay_eq fees_bits_def)
  have "assets_bits (rsv_liquidity r) \<le> assets_bits l"
    using assms(3) by (simp add: assets_bits_def avail debt add_mult_distrib)
  with same_tokens_share_value [OF assms(2), of "r\<lparr> rsv_liquidity := l \<rparr>"
      "assets_bits l - assets_bits (rsv_liquidity r)"] fees
  show ?thesis by (simp add: healthy_step_def)
qed

lemma penalty_healthy:
  assumes "(if n > 0 then accumulate_early_repay_penalty L l0 n else Inr l0) = Inr l"
    and "covered r" "rsv_liquidity r = l0"
  shows "healthy_step r (r\<lparr> rsv_liquidity := l \<rparr>)"
proof (cases "n > 0")
  case True
  with assms have "reserve_execute L (Penalty n) r = Inr (r\<lparr> rsv_liquidity := l \<rparr>)" by simp
  from healthy_stepI [OF penalty_keeps_share_value [OF this assms(2)]] show ?thesis .
next
  case False
  with assms(1,3) have "r\<lparr> rsv_liquidity := l \<rparr> = r" by auto
  with assms(2) show ?thesis by (simp add: same_tokens_healthy')
qed

lemma calculate_repay_covers:
  "calculate_repay L n debt = Inr x \<Longrightarrow> unat (crr_settle_amount x) \<le> unat (crr_repay_amount x) * fx_scale"
  by (auto simp: calculate_repay_def rbind_eq_Inr to_ceil_eq le_ceil_div)

lemma repay_effect:
  assumes "repay_obligation_liquidity L r ob clk n k m dks store = Inr (r', ob', store', paid)"
    and "obligation_ok ob" "k \<noteq> 0"
  shows "live r \<Longrightarrow> healthy_step r r'" "rsv_mint r' = rsv_mint r" "store_rel only_trackers store store'"
    "obligation_ok ob'" "deposit_book ob' = deposit_book ob"
    "\<exists>x l i. find_liquidity_in_borrows ob k = Inr (l, i) \<and>
       calculate_repay L n (ol_borrowed_amount_sf l) = Inr x \<and>
       book_repay (debt_book ob) k (unat (crr_settle_amount x)) = Inr (debt_book ob')"
proof -
  from assms(1) obtain l i x caps ob1 r1 l1 pen l2 ob2 where
    l: "find_liquidity_in_borrows ob k = Inr (l, i)" and
    x: "calculate_repay L n (ol_borrowed_amount_sf l) = Inr x" and
    t: "update_elevation_group_debt_trackers_on_repay (crr_repay_amount x) ob i
          (r\<lparr> rsv_config := (rsv_config r)\<lparr> debt_withdrawal_cap := caps \<rparr> \<rparr>) dks store = Inr (ob1, r1, store')" and
    l1: "liquidity_repay L (rsv_liquidity r1) (crr_repay_amount x) (crr_settle_amount x) = Inr l1" and
    l2: "(if pen > 0 then accumulate_early_repay_penalty L l1 pen else Inr l1) = Inr l2" and
    r': "r' = mark_reserve_stale (r1\<lparr> rsv_liquidity := l2 \<rparr>)" and
    ob2: "settle_debt L ob1 (crr_settle_amount x) i = Inr ob'"
    unfolding repay_obligation_liquidity_def Let_def
    by (auto simp: rbind_eq_Inr guard_eq case_prod_beta)
  note tr = repay_trackers [OF t]
  let ?r = "r\<lparr> rsv_config := (rsv_config r)\<lparr> debt_withdrawal_cap := caps \<rparr> \<rparr>"
  have m: "rsv_mint r1 = rsv_mint r" using tr only_trackers_keep(5) [of ?r r1] by (simp add: rsv_mint_def)
  show "healthy_step r r'" if lv: "live r"
  proof -
    have "same_tokens r r1" using tr only_trackers_keep(1) same_tokens_debt_cap same_tokens_trans by blast
    then have h1: "healthy_step r r1" using lv by (simp add: same_tokens_healthy' live_def)
    then have c1: "covered r1" by (simp add: healthy_step_def)
    note h2 = covered_repay_healthy [OF l1 c1 calculate_repay_covers [OF x]]
    have "healthy_step (r1\<lparr> rsv_liquidity := l1 \<rparr>) (r1\<lparr> rsv_liquidity := l1, rsv_liquidity := l2 \<rparr>)"
      using h2 by (intro penalty_healthy [OF l2]) (simp_all add: healthy_step_def)
    then have h3: "healthy_step (r1\<lparr> rsv_liquidity := l1 \<rparr>) (r1\<lparr> rsv_liquidity := l2 \<rparr>)" by simp
    have "0 < rsv_mint r" using lv by (simp add: live_def)
    then have "healthy_step r (r1\<lparr> rsv_liquidity := l2 \<rparr>)"
      using healthy_trans [OF healthy_trans [OF h1 h2] h3] m by (simp add: rsv_mint_def)
    then show ?thesis unfolding r' by (rule same_tokens_healthy) simp
  qed
  show "rsv_mint r' = rsv_mint r" using m by (simp add: r' rsv_mint_def)
  show "store_rel only_trackers store store'" using tr by blast
  from ob2 obtain ob2' where o: "obligation_repay L ob1 (crr_settle_amount x) i = Inr ob2'"
    "ob' = mark_obligation_stale (clear_obligation_orders_if_no_debt (update_has_debt ob2'))"
    by (auto simp: settle_debt_def res_simps)
  note b = repay_slot_books [OF num_lib_axioms assms(2,3) _ l o(1)]
  show "obligation_ok ob'" "deposit_book ob' = deposit_book ob"
    "\<exists>x l i. find_liquidity_in_borrows ob k = Inr (l, i) \<and>
       calculate_repay L n (ol_borrowed_amount_sf l) = Inr x \<and>
       book_repay (debt_book ob) k (unat (crr_settle_amount x)) = Inr (debt_book ob')"
    using b tr l x by (simp_all add: o(2) same_positions_books [OF same_positions_after_settling])
qed

end

end
