(* ===== verification/Position_Transfers.thy ===== *)
theory Position_Transfers imports Position_Effects begin

text \<open>
  What liquidations, rollovers, refreshes and forgiven debt do to the accounts they touch: the books of
  the obligation and the value of the shares of every reserve, however many reserves are involved.
\<close>

section \<open>Reserves that keep their value\<close>

text \<open>A reserve whose shares, all of them, are worth at least as much as before.\<close>

definition kept :: "reserve \<Rightarrow> reserve \<Rightarrow> bool" where
  "kept r r' \<longleftrightarrow> (live r \<longrightarrow> healthy_step r r' \<and> rsv_mint r' = rsv_mint r)"

lemma kept_live: "kept r r' \<Longrightarrow> live r \<Longrightarrow> live r'"
  unfolding kept_def by (metis healthy_live live_def)

lemma kept_trans: "kept a b \<Longrightarrow> kept b c \<Longrightarrow> kept a c"
  using kept_live [of a b] by (auto simp: kept_def live_def intro: healthy_trans)

lemma kept_same_tokens:
  assumes "same_tokens r r'"
  shows "kept r r'"
  using assms same_tokens_healthy' [OF assms]
  by (auto simp: kept_def live_def same_tokens_def rsv_mint_def)

lemma kept_refl [simp]: "kept r r"
  by (simp add: kept_same_tokens)

lemma kept_trackers: "only_trackers r r' \<Longrightarrow> kept r r'"
  by (simp add: kept_same_tokens only_trackers_keep(1))

lemma kept_stale [simp]: "kept r (mark_reserve_stale r)"
  by (simp add: kept_same_tokens)

lemma kept_pricing:
  assumes "pricing r' = pricing r"
  shows "kept r r'"
proof -
  from assms have p: "rsv_config r' = rsv_config r" "rsv_supply r' = rsv_supply r" "rsv_mint r' = rsv_mint r"
    by (simp_all add: pricing_def)
  show ?thesis unfolding kept_def
  proof
    assume "live r"
    then have "0 < rsv_supply r'" using p by (simp add: live_def)
    then have "covered r'" by (simp add: rsv_supply_def supply_bits_def covered_def)
    with p show "healthy_step r r' \<and> rsv_mint r' = rsv_mint r"
      by (simp add: healthy_step_def share_value_le_def terms_of_def)
  qed
qed

lemma kept_same_pricing: "same_pricing store store' \<Longrightarrow> store_rel kept store store'"
  unfolding store_rel_def
proof
  fix k assume s: "same_pricing store store'"
  show "rel_option kept (store k) (store' k)"
    by (rule same_pricing_cases [OF s, of k]) (simp_all add: kept_pricing)
qed

lemma trackers_kept: "store_rel only_trackers store store' \<Longrightarrow> store_rel kept store store'"
  by (erule store_rel_mono) (rule kept_trackers)

lemma store_kept_trans: "store_rel kept a b \<Longrightarrow> store_rel kept b c \<Longrightarrow> store_rel kept a c"
  by (erule (1) store_rel_trans) (rule kept_trans)

lemma store_rel_replace:
  assumes "store_rel R (store(k := None)) store1" "store k = Some r" "R r r'"
  shows "store_rel R store (store1(k \<mapsto> r'))"
proof -
  have "store_rel R ((store(k := None))(k \<mapsto> r)) (store1(k \<mapsto> r'))"
    using assms(1,3) by (rule store_rel_upd)
  moreover have "(store(k := None))(k \<mapsto> r) = store" using assms(2) by auto
  ultimately show ?thesis by simp
qed

lemmas store_put_kept = store_rel_put [where R = kept, OF kept_refl]

definition all_live :: "reserve_store \<Rightarrow> bool" where
  "all_live store \<longleftrightarrow> (\<forall>k r. store k = Some r \<longrightarrow> live r)"

lemma kept_all_live:
  assumes "store_rel kept store store'" "all_live store"
  shows "all_live store'"
  unfolding all_live_def
proof (intro allI impI)
  fix k r' assume "store' k = Some r'"
  with assms(1) obtain r where "store k = Some r" "kept r r'"
    unfolding store_rel_def by (metis option_rel_Some2)
  with assms(2) show "live r'" by (auto simp: all_live_def intro: kept_live)
qed

text \<open>
  \<open>grown\<close> is what holds of a reserve after an operation that may burn shares: nobody's shares lost
  value.
\<close>

definition grown :: "reserve \<Rightarrow> reserve \<Rightarrow> bool" where
  "grown r r' \<longleftrightarrow> (live r \<longrightarrow> healthy_step r r')"

lemma kept_grown: "kept r r' \<Longrightarrow> grown r r'"
  by (simp add: kept_def grown_def)

lemma kept_then_grown: "kept a b \<Longrightarrow> grown b c \<Longrightarrow> grown a c"
  using kept_live [of a b] by (auto simp: kept_def grown_def live_def intro: healthy_trans)

lemma store_kept_then_grown: "store_rel kept a b \<Longrightarrow> store_rel grown b c \<Longrightarrow> store_rel grown a c"
  by (erule (1) store_rel_trans) (rule kept_then_grown)

lemma grown_refl [simp]: "grown r r"
  by (simp add: kept_grown)

lemmas store_put_grown = store_rel_put [where R = grown, OF grown_refl]

section \<open>Liquidation\<close>

context num_lib begin

lemma refresh_kept: "refresh_reserve L r clk price bps apr = Inr r' \<Longrightarrow> kept r r'"
proof -
  assume a: "refresh_reserve L r clk price bps apr = Inr r'"
  then obtain r1 r2 x r3 st where r1: "reserve_accrue_interest L r (clk_slot clk) bps = Inr r1"
    and r2: "distribute_rewards L r1 (clk_slot clk) apr = Inr (r2, x)"
    and r3: "refresh_price r2 clk price = Inr (r3, st)"
    and r': "r' = r3\<lparr> rsv_last_update := update_slot (rsv_last_update r3) (clk_slot clk) st \<rparr>"
    by (auto simp: refresh_reserve_def Let_def rbind_eq_Inr)
  have "rsv_mint r1 = rsv_mint r"
    using r1 by (auto simp: reserve_accrue_interest_def rbind_eq_Inr rsv_mint_def split: if_splits)
  moreover have "rsv_mint r2 = rsv_mint r1"
    using r2 by (auto simp: distribute_rewards_def Let_def rbind_eq_Inr rsv_mint_def split: if_splits)
  moreover have "rsv_mint r3 = rsv_mint r2"
    using refresh_price_same [OF r3] by (auto simp: same_tokens_def rsv_mint_def)
  ultimately have "rsv_mint r' = rsv_mint r" by (simp add: r' rsv_mint_def)
  with refresh_healthy [OF a] show "kept r r'" by (simp add: kept_def)
qed

lemma covered_repay_kept:
  assumes "liquidity_repay L (rsv_liquidity r) tokens settle = Inr l"
    and "unat settle \<le> unat tokens * fx_scale"
  shows "kept r (r\<lparr> rsv_liquidity := l \<rparr>)"
  using covered_repay_healthy [OF assms(1) _ assms(2)] by (simp add: kept_def live_def rsv_mint_def)

lemma consume_executed_order_positions:
  "consume_executed_order L ob reason n = Inr ob' \<Longrightarrow> same_positions ob ob'"
  by (auto simp: consume_executed_order_def consume_order_at_def res_simps intro!: same_positions_lists
      split: if_splits liquidation_reason.splits)

lemma post_liquidation_effect:
  assumes "repay_and_withdraw_from_obligation_post_liquidation L ob1 r a w n li ci = Inr (ob', r')"
    and "obligation_ok ob" "rk \<noteq> 0" "wk \<noteq> 0" "same_positions ob ob1"
    and "find_liquidity_in_borrows ob rk = Inr (l, li)" "position_of_collateral_in_deposits ob wk = Inr ci"
    and "unat a \<le> unat n * fx_scale"
  shows "obligation_ok ob'" "book_repay (debt_book ob) rk (unat a) = Inr (debt_book ob')"
    "book_withdraw (deposit_book ob) wk (unat w) = Inr (deposit_book ob')" "kept r r'"
    "unat (total_available_amount (rsv_liquidity r')) = unat (total_available_amount (rsv_liquidity r)) + unat n"
    "n \<noteq> 0" "w \<noteq> 0"
proof -
  from assms(1) obtain rl ob2 ob3 full where nz: "n \<noteq> 0" "w \<noteq> 0" and
    rl: "liquidity_repay L (rsv_liquidity r) n a = Inr rl" and
    ob2: "obligation_repay L ob1 a li = Inr ob2" and ob3: "obligation_withdraw ob2 w ci = Inr (ob3, full)" and
    ob': "ob' = mark_obligation_stale (clear_obligation_orders_if_no_debt (update_has_debt ob3))" and
    r': "r' = mark_reserve_stale (r\<lparr> rsv_liquidity := rl \<rparr>)"
    by (auto simp: repay_and_withdraw_from_obligation_post_liquidation_def rbind_eq_Inr guard_eq)
  note b = repay_slot_books [OF num_lib_axioms assms(2,3,5,6) ob2]
  have "position_of_collateral_in_deposits ob2 wk = Inr ci"
    using position_of_collateral_keys [of ob2 ob wk] deposit_keys [OF assms(5)] b assms(7) by simp
  from withdraw_slot_books [OF _ assms(4) this ob3] b
  have "obligation_ok ob3" "debt_book ob3 = debt_book ob2"
    "book_withdraw (deposit_book ob) wk (unat w) = Inr (deposit_book ob3)" by simp_all
  with b show "obligation_ok ob'" "book_repay (debt_book ob) rk (unat a) = Inr (debt_book ob')"
    "book_withdraw (deposit_book ob) wk (unat w) = Inr (deposit_book ob')"
    by (simp_all add: ob' same_positions_books [OF same_positions_after_settling])
  show "kept r r'"
    unfolding r' using covered_repay_kept [OF rl assms(8)] kept_stale kept_trans by blast
  show "unat (total_available_amount (rsv_liquidity r')) =
      unat (total_available_amount (rsv_liquidity r)) + unat n"
    using rl by (auto simp: r' liquidity_repay_eq)
  show "n \<noteq> 0" "w \<noteq> 0" using nz by simp_all
qed

lemma size_liquidation_parts:
  assumes "size_liquidation L m rk rr wk wr ob clk n ov = Inr (li, ci, x)"
  obtains l inputs hb ll where "find_liquidity_in_borrows ob rk = Inr (l, li)"
    "position_of_collateral_in_deposits ob wk = Inr ci" "ci_liquidity inputs = l"
    "ci_obligation inputs = ob" "calculate_liquidation L inputs n (ob_deposits ob ! ci) hb ll = Inr x"
proof -
  from assms obtain l hb ll t where "find_liquidity_in_borrows ob rk = Inr (l, li)"
    "position_of_collateral_in_deposits ob wk = Inr ci"
    "calculate_liquidation L \<lparr> ci_lending_market = m, ci_collateral_reserve = wr, ci_liquidity = l,
       ci_debt_reserve = rr, ci_obligation = ob, ci_timestamp = t,
       ci_max_allowed_ltv_override_pct_opt = ov \<rparr> n (ob_deposits ob ! ci) hb ll = Inr x"
    by (auto simp: size_liquidation_def Let_def rbind_eq_Inr guard_eq case_prod_beta)
  from that [OF this(1,2) _ _ this(3)] show thesis by simp
qed

lemma liquidate_obligation_effect:
  assumes "liquidate_obligation L m rk wk ob clk n ov dks store = Inr (ob', store', x)"
    and "obligation_ok ob" "rk \<noteq> 0" "wk \<noteq> 0"
  shows "obligation_ok ob'" "book_repay (debt_book ob) rk (unat (lor_settle_amount x)) = Inr (debt_book ob')"
    "book_withdraw (deposit_book ob) wk (unat (lor_withdraw_amount x)) = Inr (deposit_book ob')"
    "unat (lor_repay_amount x) = ceil_div (unat (lor_settle_amount x)) fx_scale" "lor_repay_amount x \<le> n"
    "store_rel kept store store'" "lor_withdraw_collateral_amount x \<le> lor_withdraw_amount x"
    "\<exists>r r'. store rk = Some r \<and> store' rk = Some r' \<and> (rk \<noteq> wk \<longrightarrow>
       unat (total_available_amount (rsv_liquidity r')) =
         unat (total_available_amount (rsv_liquidity r)) + unat (lor_repay_amount x))"
proof -
  from assms(1) obtain rr wr li ci y ob1 rr1 store1 c ob2 rr2 wr2 wr3 mx wr4 where
    rr: "store rk = Some rr" and wr: "store wk = Some wr" and
    s: "size_liquidation L m rk rr wk wr ob clk n ov = Inr (li, ci, y)" and
    t: "update_elevation_group_debt_trackers_on_repay (lr_repay_amount y) ob li rr dks (store(rk := None)) =
          Inr (ob1, rr1, store1)" and
    p: "repay_and_withdraw_from_obligation_post_liquidation L ob1 rr1 (lr_settle_amount y)
          (lr_withdraw_amount y) (lr_repay_amount y) li ci = Inr (ob2, rr2)" and
    o: "consume_executed_order L ob2 (lr_liquidation_reason y) (lr_repay_amount y) = Inr ob'" and
    wr2: "(store1(rk \<mapsto> rr2)) wk = Some wr2" and
    wr3: "refresh_reserve L wr2 clk None (lm_referral_fee_bps m) (lm_reserve_rewards_max_apr_bps m) = Inr wr3" and
    wr4: "(if oc_deposited_amount (ob_deposits ob ! ci) = lr_withdraw_amount y
           then update_elevation_group_debt_trackers_on_full_withdraw c (ob_elevation_group ob') wr3
           else Inr wr3) = Inr wr4" and
    out: "store' = store1(rk \<mapsto> rr2, wk \<mapsto> wr4)" "lor_settle_amount x = lr_settle_amount y"
      "lor_repay_amount x = lr_repay_amount y" "lor_withdraw_amount x = lr_withdraw_amount y"
      "lor_withdraw_collateral_amount x = min (lr_withdraw_amount y) mx"
    unfolding liquidate_obligation_def Let_def
    by (auto simp: rbind_eq_Inr load_reserve_eq case_prod_beta simp del: fun_upd_apply)
  obtain l inputs hb ll where
    l: "find_liquidity_in_borrows ob rk = Inr (l, li)" "position_of_collateral_in_deposits ob wk = Inr ci" and
    calc: "calculate_liquidation L inputs n (ob_deposits ob ! ci) hb ll = Inr y"
    by (rule size_liquidation_parts [OF s])
  note b = liquidation_bounds [OF calc]
  have cov: "unat (lr_settle_amount y) \<le> unat (lr_repay_amount y) * fx_scale"
    using b by (simp add: le_ceil_div)
  note tr = repay_trackers [OF t]
  note e = post_liquidation_effect [OF p assms(2-4) conjunct1 [OF tr] l cov]
  note sp = same_positions_books [OF consume_executed_order_positions [OF o]]
  show "obligation_ok ob'" "book_repay (debt_book ob) rk (unat (lor_settle_amount x)) = Inr (debt_book ob')"
    "book_withdraw (deposit_book ob) wk (unat (lor_withdraw_amount x)) = Inr (deposit_book ob')"
    using e(1-3) sp by (simp_all add: out)
  show "unat (lor_repay_amount x) = ceil_div (unat (lor_settle_amount x)) fx_scale" "lor_repay_amount x \<le> n"
    using b by (simp_all add: out)
  show "lor_withdraw_collateral_amount x \<le> lor_withdraw_amount x" by (simp add: out)
  have "kept rr rr2" using tr kept_trackers kept_trans e(4) by blast
  with trackers_kept tr have 1: "store_rel kept store (store1(rk \<mapsto> rr2))"
    using rr by (intro store_rel_replace [where R = kept and store = store and k = rk]) blast+
  have "only_trackers wr3 wr4" using wr4 full_withdraw_trackers by (auto split: if_splits)
  with refresh_kept [OF wr3] have "kept wr2 wr4" using kept_trackers kept_trans by blast
  from store_put_kept [where store = "store1(rk \<mapsto> rr2)" and k = wk, OF wr2 this] 1 show "store_rel kept store store'"
    unfolding out by (blast intro: store_kept_trans)
  have "rsv_liquidity rr1 = rsv_liquidity rr" using tr only_trackers_keep(4) by blast
  with e(5) rr show "\<exists>r r'. store rk = Some r \<and> store' rk = Some r' \<and> (rk \<noteq> wk \<longrightarrow>
       unat (total_available_amount (rsv_liquidity r')) =
         unat (total_available_amount (rsv_liquidity r)) + unat (lor_repay_amount x))"
    by (simp add: out)
qed

text \<open>The fee is part of what was redeemed, and the rest is what the liquidator insisted on.\<close>

lemma post_liquidate_redeem_effect:
  assumes "post_liquidate_redeem L r w c bonus reason min_out clk = Inr (r', out)"
  shows "case out of
      None \<Rightarrow> r' = r \<and> c = 0
    | Some (paid, fee) \<Rightarrow> c \<noteq> 0 \<and> fee \<le> paid \<and> unat min_out \<le> unat paid - unat fee \<and>
        redeem_reserve_collateral L r c clk (redeem_options_resolve reason) = Inr (r', paid)"
proof (cases "c = 0")
  case True
  with assms show ?thesis by (auto simp: post_liquidate_redeem_def rbind_eq_Inr guard_eq)
next
  case False
  with assms obtain paid fee net where p: "redeem_reserve_collateral L r c clk (redeem_options_resolve reason) = Inr (r', paid)"
    "sub_ov paid fee = Inr net" "\<not> net < min_out" "out = Some (paid, fee)"
    by (auto simp: post_liquidate_redeem_def rbind_eq_Inr guard_eq)
  then show ?thesis using False by (simp add: ov_eq word_le_nat_alt word_less_nat_alt not_less)
qed

lemma redeemed_available:
  assumes "redeem_reserve_collateral L r c clk opts = Inr (r', paid)"
  shows "unat (total_available_amount (rsv_liquidity r)) = unat (total_available_amount (rsv_liquidity r')) + unat paid"
proof -
  from assms obtain r1 r2 t where r1: "reserve_redeem_collateral L r c (use_withdraw_queue opts) = Inr (r1, paid)"
    and r2: "refresh_reserve_limit_timestamps L r1 t = Inr r2"
    and r': "r' = mark_reserve_stale r2 \<or>
      (\<exists>caps. r' = (mark_reserve_stale r2)\<lparr> rsv_config := (rsv_config r2)\<lparr> deposit_withdrawal_cap := caps \<rparr> \<rparr>)"
    by (auto simp: redeem_reserve_collateral_def Let_def res_simps split: if_splits)
  from r1 obtain rate r3 rc where "rsv_exchange_rate L r = Inr rate" and "collateral_to_liquidity L rate c = Inr paid"
    and "take_available r paid = Inr r3" and "collateral_burn (rsv_collateral r3) c = Inr rc"
    and "r1 = r3\<lparr> rsv_collateral := rc \<rparr>"
    using withdraw_takes_available [of "use_withdraw_queue opts" r]
    by (auto simp: reserve_redeem_collateral_def rbind_eq_Inr)
  then have "unat (total_available_amount (rsv_liquidity r)) = unat (total_available_amount (rsv_liquidity r1)) + unat paid"
    by (auto simp: take_available_def rbind_eq_Inr ov_eq)
  with limit_timestamps(5) [OF r2] r' show ?thesis by auto
qed

text \<open>A second refresh in the same slot changes no amount.\<close>

lemma refresh_again:
  assumes "refresh_reserve L r clk price bps apr = Inr r'" "lu_slot (rsv_last_update r) = clk_slot clk"
  shows "total_available_amount (rsv_liquidity r') = total_available_amount (rsv_liquidity r)"
proof -
  from assms obtain r1 r2 x r3 st where r1: "reserve_accrue_interest L r (clk_slot clk) bps = Inr r1"
    and r2: "distribute_rewards L r1 (clk_slot clk) apr = Inr (r2, x)"
    and r3: "refresh_price r2 clk price = Inr (r3, st)"
    and r': "r' = r3\<lparr> rsv_last_update := update_slot (rsv_last_update r3) (clk_slot clk) st \<rparr>"
    by (auto simp: refresh_reserve_def Let_def rbind_eq_Inr)
  have "slots_elapsed (rsv_last_update r) (clk_slot clk) = Inr 0"
    using assms(2) by (simp add: slots_elapsed_def checked_sub_def)
  with r1 have "r1 = r" by (simp add: reserve_accrue_interest_def)
  with r2 assms(2) have "r2 = r" by (simp add: distribute_rewards_def slots_elapsed_def checked_sub_def)
  with r3 show ?thesis
    by (auto simp: r' refresh_price_def rbind_eq_Inr split: if_splits option.splits)
qed

lemma redeem_grown: "redeem_reserve_collateral L r c clk opts = Inr (r', paid) \<Longrightarrow> grown r r'"
  using redeem_flow by (simp add: grown_def)

lemma liquidate_and_redeem_parts:
  assumes "liquidate_and_redeem L m rk wk ob clk n min_out ov dks store = Inr (ob', store', x)"
  obtains store1 y wr wr' where
    "liquidate_obligation L m rk wk ob clk n ov dks store = Inr (ob', store1, y)"
    "store1 wk = Some wr" "store' = store1(wk \<mapsto> wr')"
    "lrr_repay_amount x = lor_repay_amount y" "lrr_withdraw_amount x = lor_withdraw_amount y"
    "post_liquidate_redeem L wr (lor_withdraw_amount y) (lor_withdraw_collateral_amount y)
       (lor_liquidation_bonus_rate y) (lor_liquidation_reason y) min_out clk =
       Inr (wr', lrr_total_withdraw_liquidity_amount x)"
  using assms by (auto simp: liquidate_and_redeem_def rbind_eq_Inr load_reserve_eq)

lemma liquidate_and_redeem_grown:
  assumes "liquidate_and_redeem L m rk wk ob clk n min_out ov dks store = Inr (ob', store', x)"
    and "obligation_ok ob" "rk \<noteq> 0" "wk \<noteq> 0"
  shows "obligation_ok ob' \<and> store_rel grown store store'"
proof -
  obtain store1 y wr wr' where
    l: "liquidate_obligation L m rk wk ob clk n ov dks store = Inr (ob', store1, y)" and
    w: "store1 wk = Some wr" "store' = store1(wk \<mapsto> wr')" and
    p: "post_liquidate_redeem L wr (lor_withdraw_amount y) (lor_withdraw_collateral_amount y)
       (lor_liquidation_bonus_rate y) (lor_liquidation_reason y) min_out clk =
       Inr (wr', lrr_total_withdraw_liquidity_amount x)"
    by (rule liquidate_and_redeem_parts [OF assms(1)])
  note e = liquidate_obligation_effect [OF l assms(2-4)]
  have "grown wr wr'"
    using post_liquidate_redeem_effect [OF p] redeem_grown by (auto split: option.splits)
  from store_put_grown [where store = store1 and k = wk, OF w(1) this] e(1,6)
  show ?thesis unfolding w(2) by (blast intro: store_kept_then_grown)
qed

section \<open>Rollovers\<close>

lemma same_reserve_rollover_effect:
  assumes "rollover_borrow_into_same_reserve L m k r ob clk = Inr ob'"
  shows "same_positions ob ob'"
proof -
  from assms obtain i l t where l: "get_active_borrow ob i = Inr l" and
    ob': "ob' = mark_obligation_stale (ob\<lparr> ob_borrows := (ob_borrows ob)
       [i := l\<lparr> ol_last_borrowed_at_timestamp := t, ol_borrowed_amount_at_expiration := 0 \<rparr>] \<rparr>)"
    by (auto simp: rollover_borrow_into_same_reserve_def rbind_eq_Inr case_prod_beta)
  from l have "i < length (ob_borrows ob)" "l = ob_borrows ob ! i"
    by (auto simp: get_active_borrow_def fail_def split: if_splits)
  then have "same_positions ob (ob\<lparr> ob_borrows := (ob_borrows ob)
       [i := l\<lparr> ol_last_borrowed_at_timestamp := t, ol_borrowed_amount_at_expiration := 0 \<rparr>] \<rparr>)"
    by (simp add: same_positions_def map_update list_update_same_conv loan_view_def)
  then show ?thesis unfolding ob' by (rule same_positions_trans) simp
qed

lemma move_loan_books:
  assumes "move_loan L ob i a tk rate b cfg t = Inr (ob', j)"
    and "obligation_ok ob" "sk \<noteq> 0" "tk \<noteq> 0" "find_liquidity_in_borrows ob sk = Inr (l, i)"
  shows "obligation_ok ob' \<and> deposit_book ob' = deposit_book ob \<and>
    (\<exists>d. book_repay (debt_book ob) sk (unat a) = Inr d \<and> book_borrow d tk (unat b) = Inr (debt_book ob'))"
proof -
  from assms(1) obtain ob1 ob2 l1 where o1: "obligation_repay L ob a i = Inr ob1" and
    o2: "find_or_add_liquidity_to_borrows ob1 tk rate = Inr (ob2, j)" and
    l1: "loan_borrow L (ob_borrows ob2 ! j) b t = Inr l1" and
    ob': "ob' = ob2\<lparr> ob_borrows := (ob_borrows ob2)[j := l1\<lparr> ol_borrowed_amount_at_expiration := 0,
        ol_fixed_term_borrow_rollover_config := cfg \<rparr>] \<rparr>"
    by (auto simp: move_loan_def rbind_eq_Inr)
  note r = repay_slot_books [OF num_lib_axioms assms(2,3) same_positions_refl assms(5) o1]
  let ?ob = "ob2\<lparr> ob_borrows := (ob_borrows ob2)[j := l1] \<rparr>"
  have "borrow_from L ob1 tk rate b t = Inr ?ob" using o2 l1 by (simp add: borrow_from_def)
  with borrow_refines [OF num_lib_axioms _ assms(4), of ob1 rate b t] r
  have "obligation_ok ?ob" "deposit_book ?ob = deposit_book ob1"
    "book_borrow (debt_book ob1) tk (unat b) = Inr (debt_book ?ob)" by simp_all
  moreover have "same_positions ?ob ob'"
    by (simp add: ob' same_positions_def map_update loan_view_def)
  ultimately show ?thesis using r by (simp add: same_positions_books)
qed

lemma borrowed_available:
  assumes "reserve_borrow L r f q = Inr r'" "unat f = n * fx_scale"
  shows "unat (total_available_amount (rsv_liquidity r)) = unat (total_available_amount (rsv_liquidity r')) + n"
proof -
  from assms(1) obtain amount r1 b where amount: "to_floor L f = Inr amount"
    and taken: "take_available r amount = Inr r1"
    and b: "fx_add L (borrowed_amount_sf (rsv_liquidity r1)) f = Inr b"
    and r': "r' = r1\<lparr> rsv_liquidity := (rsv_liquidity r1)\<lparr> borrowed_amount_sf := b \<rparr> \<rparr>"
    using withdraw_takes_available [of q r]
    by (auto simp: reserve_borrow_def rbind_eq_Inr total_borrow_def)
  have "unat amount = n" using amount assms(2) by (simp add: to_floor_eq)
  with taken show ?thesis by (auto simp: r' take_available_def rbind_eq_Inr ov_eq)
qed

lemma size_rollover_le:
  "size_rollover L m r full t = Inr n \<Longrightarrow> unat n \<le> ceil_div (unat full) fx_scale"
  by (auto simp: size_rollover_def Let_def rbind_eq_Inr guard_eq to_ceil_eq fail_def word_le_nat_alt min_def
      split: if_splits)

lemma rollover_effect:
  assumes "rollover_borrow_into_different_reserve L m sk s tk t ob clk = Inr (s', t', ob', x)"
    and "obligation_ok ob" "sk \<noteq> 0" "tk \<noteq> 0"
  shows "obligation_ok ob'" "deposit_book ob' = deposit_book ob"
    "\<exists>d. book_repay (debt_book ob) sk (unat (ftr_repaid_amount x)) = Inr d \<and>
       book_borrow d tk (unat (ftr_borrowed_amount x)) = Inr (debt_book ob')"
    "unat (ftr_borrowed_amount x) = unat (ftr_tokens_to_transfer_over x) * fx_scale"
    "unat (ftr_repaid_amount x) \<le> unat (ftr_borrowed_amount x)"
    "unat (ftr_borrowed_amount x) < unat (ftr_repaid_amount x) + fx_scale"
    "kept s s'" "kept t t'"
    "unat (total_available_amount (rsv_liquidity s')) =
       unat (total_available_amount (rsv_liquidity s)) + unat (ftr_tokens_to_transfer_over x)"
    "unat (total_available_amount (rsv_liquidity t)) =
       unat (total_available_amount (rsv_liquidity t')) + unat (ftr_tokens_to_transfer_over x)"
proof -
  from assms(1) obtain l i tm n b sc tc sl t1 cfg ob1 j ob2 s2 t2 where
    l: "find_liquidity_in_borrows ob sk = Inr (l, i)" and
    n: "size_rollover L m t (ol_borrowed_amount_sf l) tm = Inr n" and b: "frac_of_u64 L n = Inr b" and
    sl: "liquidity_repay L (rsv_liquidity s) n (min b (ol_borrowed_amount_sf l)) = Inr sl" and
    t1: "reserve_borrow L (t\<lparr> rsv_config := (rsv_config t)\<lparr> debt_withdrawal_cap := tc \<rparr> \<rparr>) b False = Inr t1" and
    ob1: "move_loan L ob i (min b (ol_borrowed_amount_sf l)) tk
       (cumulative_borrow_rate_bsf (rsv_liquidity t1)) b cfg tm = Inr (ob1, j)" and
    tr: "update_elevation_group_debt_trackers_on_rollover ob1 n
       (s\<lparr> rsv_config := (rsv_config s)\<lparr> debt_withdrawal_cap := sc \<rparr>, rsv_liquidity := sl \<rparr>) t1 sk j =
       Inr (ob2, s2, t2)" and
    out: "s' = mark_reserve_stale s2" "t' = mark_reserve_stale t2" "ob' = mark_obligation_stale ob2"
      "ftr_repaid_amount x = min b (ol_borrowed_amount_sf l)" "ftr_borrowed_amount x = b"
      "ftr_tokens_to_transfer_over x = n"
    unfolding rollover_borrow_into_different_reserve_def Let_def
    by (auto simp: rbind_eq_Inr case_prod_beta)
  note k = rollover_trackers [OF tr]
  have "same_positions ob1 ob'" unfolding out using k same_positions_marks(1) same_positions_trans by blast
  note sp = same_positions_books [OF this]
  note mv = move_loan_books [OF ob1 assms(2-4) l]
  with sp show "obligation_ok ob'" "deposit_book ob' = deposit_book ob"
    "\<exists>d. book_repay (debt_book ob) sk (unat (ftr_repaid_amount x)) = Inr d \<and>
       book_borrow d tk (unat (ftr_borrowed_amount x)) = Inr (debt_book ob')"
    by (simp_all add: out)
  have ub: "unat b = unat n * fx_scale" using b by (simp add: frac_of_u64_eq)
  then show "unat (ftr_borrowed_amount x) = unat (ftr_tokens_to_transfer_over x) * fx_scale" by (simp add: out)
  have le: "unat (min b (ol_borrowed_amount_sf l)) \<le> unat b" by (simp add: min_def word_le_nat_alt)
  then show "unat (ftr_repaid_amount x) \<le> unat (ftr_borrowed_amount x)" by (simp add: out)
  have "unat n * fx_scale < unat (ol_borrowed_amount_sf l) + fx_scale"
    by (rule le_less_trans [OF mult_le_mono1 [OF size_rollover_le [OF n]] ceil_div_less [OF fx_scale_pos]])
  then show "unat (ftr_borrowed_amount x) < unat (ftr_repaid_amount x) + fx_scale"
    by (auto simp: out ub min_def)
  let ?s = "s\<lparr> rsv_config := (rsv_config s)\<lparr> debt_withdrawal_cap := sc \<rparr> \<rparr>"
  have "kept s ?s" by (simp add: kept_same_tokens)
  moreover have "kept ?s (?s\<lparr> rsv_liquidity := sl \<rparr>)"
    using covered_repay_kept [of ?s n _ sl] sl le ub by simp
  ultimately show "kept s s'"
    unfolding out using k kept_trackers kept_stale kept_trans by (metis (no_types))
  let ?t = "t\<lparr> rsv_config := (rsv_config t)\<lparr> debt_withdrawal_cap := tc \<rparr> \<rparr>"
  have "kept t ?t" by (simp add: kept_same_tokens)
  moreover have "kept ?t t1"
    using healthy_stepI [OF borrow_keeps_share_value [OF t1]] borrow_mint [OF t1] by (simp add: kept_def live_def)
  ultimately show "kept t t'"
    unfolding out using k kept_trackers kept_stale kept_trans by (metis (no_types))
  have "rsv_liquidity s2 = sl" "rsv_liquidity t2 = rsv_liquidity t1" using k by (auto dest: only_trackers_keep(4))
  then show "unat (total_available_amount (rsv_liquidity s')) =
       unat (total_available_amount (rsv_liquidity s)) + unat (ftr_tokens_to_transfer_over x)"
    using sl by (auto simp: out liquidity_repay_eq)
  show "unat (total_available_amount (rsv_liquidity t)) =
       unat (total_available_amount (rsv_liquidity t')) + unat (ftr_tokens_to_transfer_over x)"
    using borrowed_available [OF t1 ub] \<open>rsv_liquidity t2 = rsv_liquidity t1\<close> by (simp add: out)
qed

section \<open>Forgiven debt\<close>

text \<open>The one operation that takes from the suppliers of its reserve, and only from those.\<close>

lemma socialize_effect:
  assumes "socialize_loss L r k ob n slot dks store = Inr (r', ob', store', x)"
    and "obligation_ok ob" "k \<noteq> 0"
  shows "obligation_ok ob'" "deposit_book ob' = deposit_book ob"
    "book_repay (debt_book ob) k (unat x) = Inr (debt_book ob')" "store_rel kept store store'"
    "is_active_deposits_empty ob"
proof -
  from assms(1) obtain l i n' r0 ob1 r1 where
    e: "is_active_deposits_empty ob" and
    l: "find_liquidity_in_borrows ob k = Inr (l, i)" and
    t: "update_elevation_group_debt_trackers_on_repay n' ob i r0 dks store = Inr (ob1, r1, store')" and
    s: "settle_debt L ob1 x i = Inr ob'"
    unfolding socialize_loss_def Let_def
    by (auto simp: rbind_eq_Inr guard_eq case_prod_beta simp del: split_paired_Ex)
  note tr = repay_trackers [OF t]
  from s obtain ob2 where o: "obligation_repay L ob1 x i = Inr ob2"
    "ob' = mark_obligation_stale (clear_obligation_orders_if_no_debt (update_has_debt ob2))"
    by (auto simp: settle_debt_def res_simps)
  note b = repay_slot_books [OF num_lib_axioms assms(2,3) conjunct1 [OF tr] l o(1)]
  show "obligation_ok ob'" "deposit_book ob' = deposit_book ob"
    "book_repay (debt_book ob) k (unat x) = Inr (debt_book ob')"
    using b by (simp_all add: o(2) same_positions_books [OF same_positions_after_settling])
  show "store_rel kept store store'" using tr trackers_kept by blast
  show "is_active_deposits_empty ob" by (rule e)
qed

end

section \<open>Refreshes\<close>

definition same_keys :: "obligation \<Rightarrow> obligation \<Rightarrow> bool" where
  "same_keys ob ob' \<longleftrightarrow>
     map deposit_view (ob_deposits ob') = map deposit_view (ob_deposits ob) \<and>
     map ol_borrow_reserve (ob_borrows ob') = map ol_borrow_reserve (ob_borrows ob)"

lemma same_keys_ok:
  assumes "same_keys ob ob'" "obligation_ok ob"
  shows "obligation_ok ob' \<and> deposit_book ob' = deposit_book ob \<and> dom (debt_book ob') = dom (debt_book ob)"
proof -
  have d: "map (\<lambda>c. (oc_deposit_reserve c, oc_deposited_amount c)) (ob_deposits ob') =
      map (\<lambda>c. (oc_deposit_reserve c, oc_deposited_amount c)) (ob_deposits ob)"
    and l: "map ol_borrow_reserve (ob_borrows ob') = map ol_borrow_reserve (ob_borrows ob)"
    using assms(1) by (simp_all add: same_keys_def deposit_view_def [abs_def])
  have "deposit_book ob' = deposit_book ob"
    unfolding deposit_book_def slot_book_view [where f = oc_deposited_amount] d ..
  moreover have "slots_ok oc_deposit_reserve (ob_deposits ob') = slots_ok oc_deposit_reserve (ob_deposits ob)"
    unfolding slots_ok_view [where f = oc_deposited_amount] d ..
  moreover have "slots_ok ol_borrow_reserve (ob_borrows ob') = slots_ok ol_borrow_reserve (ob_borrows ob)"
    unfolding slots_ok_def l ..
  moreover have "dom (debt_book ob') = dom (debt_book ob)"
    unfolding debt_book_def borrows.dom_book l ..
  ultimately show ?thesis
    using assms(2) map_eq_imp_length_eq [OF d] map_eq_imp_length_eq [OF l] by (simp add: obligation_ok_def)
qed

lemma same_keys_trans: "same_keys a b \<Longrightarrow> same_keys b c \<Longrightarrow> same_keys a c"
  by (simp add: same_keys_def)

lemma same_positions_keys: "same_positions ob ob' \<Longrightarrow> same_keys ob ob'"
  using loan_keys [of ob ob'] by (simp add: same_keys_def) (simp add: same_positions_def)

context num_lib begin

lemma refresh_deposit_view:
  "refresh_deposit L m slot eg gd d key c = Inr (d', c') \<Longrightarrow> deposit_view d' = deposit_view d"
  by (cases c) (auto simp: refresh_deposit_def Let_def rbind_eq_Inr case_prod_beta deposit_view_def
      dest!: track_refreshed_deposit_keeps)

lemma refresh_borrow_key:
  "refresh_borrow L pda ob m clk eg l key c = Inr (l', c') \<Longrightarrow> ol_borrow_reserve l' = ol_borrow_reserve l"
  using refresh_borrow_step [of pda ob m clk eg l key "fst c" "snd c" l' "fst c'" "snd c'"] by simp

lemma refresh_borrows_effect:
  assumes "refresh_obligation_borrows L pda ob m clk eg bks refs store = Inr (ob', store', br, amt, pct)"
  shows "same_keys ob ob' \<and> store_rel kept store store'"
proof -
  from assms obtain ls where ls: "for_active loan_is_active (refresh_borrow L pda ob m clk eg) (ob_borrows ob) bks
       (store, borrows_result_start refs) = Inr (ls, store', br)"
    "ob_borrows ob' = ls" "ob_deposits ob' = ob_deposits ob"
    unfolding refresh_obligation_borrows_def by (auto simp: rbind_eq_Inr case_prod_beta Let_def)
  show ?thesis
    using for_active_keys [OF ls(1), of ol_borrow_reserve, OF refresh_borrow_key]
      refresh_borrows_figures(1) [OF ls(1)] ls(2,3)
    by (simp add: same_keys_def kept_same_pricing)
qed

lemma refresh_deposits_effect:
  assumes "refresh_obligation_deposits L ob m slot eg dks amt store = Inr (ob', store', dr)"
  shows "same_keys ob ob' \<and> store_rel kept store store'"
proof -
  from assms obtain gd ds where ds: "for_active collateral_is_active (refresh_deposit L m slot eg gd)
       (ob_deposits ob) dks (store, deposits_result_start) = Inr (ds, store', dr)"
    "ob_borrows ob' = ob_borrows ob" "ob_deposits ob' = ds"
    unfolding refresh_obligation_deposits_def by (auto simp: rbind_eq_Inr case_prod_beta)
  show ?thesis
    using for_active_keys [OF ds(1), of deposit_view, OF refresh_deposit_view]
      refresh_deposits_figures(1) [OF ds(1)] ds(2,3)
    by (simp add: same_keys_def kept_same_pricing)
qed

lemma refresh_effect:
  assumes "refresh_obligation L pda ob m clk dks bks refs store = Inr (ob', store', refs')"
  shows "same_keys ob ob' \<and> store_rel kept store store'"
proof -
  from assms obtain eg where eg: "position_elevation_group (ob_elevation_group ob) m = Inr eg"
    by (auto simp: refresh_obligation_def rbind_eq_Inr)
  show ?thesis
  proof (rule refresh_obligation_parts [OF assms eg], goal_cases)
    case (1 ls store1 br gd ds dr)
    then show ?case
      using for_active_keys [OF 1(1), of ol_borrow_reserve, OF refresh_borrow_key]
        for_active_keys [OF 1(2), of deposit_view, OF refresh_deposit_view]
        same_pricing_trans [OF refresh_borrows_figures(1) [OF 1(1)] refresh_deposits_figures(1) [OF 1(2)]]
      by (simp add: same_keys_def kept_same_pricing)
  qed
qed

lemma reset_group_deposit_trackers:
  "reset_group_deposit i d k store = Inr (d', store') \<Longrightarrow>
   deposit_view d' = deposit_view d \<and> store_rel only_trackers store store'"
  by (auto simp: reset_group_deposit_def res_simps deposit_view_def dest: group_debt_trackers intro: store_put_trackers)

lemma reset_borrow_outside_trackers:
  "reset_borrow_outside l k store = Inr (l', store') \<Longrightarrow>
   loan_view l' = loan_view l \<and> store_rel only_trackers store store'"
  by (auto simp: reset_borrow_outside_def res_simps loan_view_def intro: store_put_trackers)

lemma reset_group_effect:
  assumes "reset_elevation_group_debts ob eg dks bks store = Inr (ob', store')"
  shows "same_positions ob ob' \<and> store_rel only_trackers store store'"
proof (cases eg)
  case None
  with assms show ?thesis
    by (auto simp: reset_elevation_group_debts_def for_active_exact_def rbind_eq_Inr guard_eq same_positions_def
        case_prod_beta dest!: tracking_loop [where view = loan_view, OF _ reset_borrow_outside_trackers])
next
  case (Some g)
  with assms show ?thesis
    by (auto simp: reset_elevation_group_debts_def for_active_exact_def rbind_eq_Inr guard_eq same_positions_def
        case_prod_beta dest!: tracking_loop [where view = deposit_view, OF _ reset_group_deposit_trackers])
qed

lemma request_group_effect:
  assumes "request_elevation_group L pda ob m clk g dks bks refs store = Inr (ob', store', refs')"
  shows "same_keys ob ob' \<and> store_rel kept store store'"
proof -
  from assms obtain g0 rx eg bx dx where
    r: "reset_elevation_group_debts ob g0 dks bks store = Inr rx" and
    b: "refresh_obligation_borrows L pda (fst rx) m clk eg bks refs (snd rx) = Inr bx" and
    d: "refresh_obligation_deposits L (fst bx) m (clk_slot clk) eg dks (fst (snd (snd (snd bx)))) (fst (snd bx)) = Inr dx" and
    out: "Inr (mark_obligation_stale ((fst dx)\<lparr> ob_elevation_group := g, ob_borrowing_disabled :=
         if dr_borrowing_disabled (snd (snd dx)) then 1 else 0 \<rparr>), fst (snd dx),
       fst (br_referrers (fst (snd (snd bx)))) @ snd (br_referrers (fst (snd (snd bx))))) =
       (Inr (ob', store', refs') :: (obligation \<times> reserve_store \<times> referrer_account list) res)"
    unfolding request_elevation_group_def Let_def case_prod_beta rbind_eq_Inr guard_eq
    by (elim exE conjE) blast
  from r have "reset_elevation_group_debts ob g0 dks bks store = Inr (fst rx, snd rx)" by simp
  note reset_group_effect [OF this]
  moreover from b have "refresh_obligation_borrows L pda (fst rx) m clk eg bks refs (snd rx) =
      Inr (fst bx, fst (snd bx), fst (snd (snd bx)), fst (snd (snd (snd bx))), snd (snd (snd (snd bx))))" by simp
  note refresh_borrows_effect [OF this]
  moreover from d have "refresh_obligation_deposits L (fst bx) m (clk_slot clk) eg dks
      (fst (snd (snd (snd bx)))) (fst (snd bx)) = Inr (fst dx, fst (snd dx), snd (snd dx))" by simp
  note refresh_deposits_effect [OF this]
  ultimately have "same_keys ob (fst dx) \<and> store_rel kept store (fst (snd dx))"
    by (blast intro: same_keys_trans same_positions_keys store_kept_trans trackers_kept)
  with out show ?thesis by (auto simp: same_keys_def mark_obligation_stale_def)
qed

end

end
