(* ===== verification/Ledger.thy ===== *)
theory Ledger imports Position_Transfers begin

text \<open>
  All the accounts of a market together: the reserves and the obligations, and the instructions of
  \<open>lending_market/lending_operations.rs\<close> as steps on them. An instruction names its accounts by their
  keys; a reserve that an instruction holds mutably is out of reach of its account iterators.
\<close>

section \<open>Accounts and instructions\<close>

record ledger =
  lg_reserves :: reserve_store
  lg_obligations :: "pubkey \<rightharpoonup> obligation"

datatype instruction =
    OnReserve pubkey reserve_flow
  | RefreshObligation pubkey clock "pubkey list" "pubkey list" "referrer_account list"
  | DepositCollateral pubkey pubkey u64 u64 max_reserves_as_collateral_check
  | WithdrawCollateral pubkey pubkey u64 u64 ltv_max_withdrawal_check
  | BorrowLiquidity pubkey pubkey borrow_size clock "referrer_token_state option" "pubkey list"
  | RepayLiquidity pubkey pubkey u64 clock "pubkey list"
  | LiquidateAndRedeem pubkey pubkey pubkey clock u64 u64 "u64 option" "pubkey list"
  | RolloverSame pubkey pubkey clock
  | RolloverInto pubkey pubkey pubkey clock
  | RequestGroup pubkey u8 clock "pubkey list" "pubkey list" "referrer_account list"
  | SocializeLoss pubkey pubkey u64 u64 "pubkey list"

definition load_obligation :: "ledger \<Rightarrow> pubkey \<Rightarrow> obligation res" where
  "load_obligation g o_key = ok_or (lg_obligations g o_key) ProgramErr"

definition put_accounts :: "ledger \<Rightarrow> pubkey \<Rightarrow> obligation \<Rightarrow> reserve_store \<Rightarrow> ledger" where
  "put_accounts g o_key ob store =
     \<lparr> lg_reserves = store, lg_obligations = (lg_obligations g)(o_key \<mapsto> ob) \<rparr>"

text \<open>An operation on an obligation and one reserve, with the other reserves in reach.\<close>

definition with_accounts ::
  "ledger \<Rightarrow> pubkey \<Rightarrow> pubkey \<Rightarrow>
   (reserve \<Rightarrow> obligation \<Rightarrow> reserve_store \<Rightarrow> (reserve \<times> obligation \<times> reserve_store) res) \<Rightarrow> ledger res" where
  "with_accounts g o_key k f =
     rbind (load_obligation g o_key) (\<lambda>ob.
     rbind (load_reserve ProgramErr (lg_reserves g) k) (\<lambda>r.
     rbind (f r ob ((lg_reserves g)(k := None))) (\<lambda>(r, ob, store).
     Inr (put_accounts g o_key ob (store(k \<mapsto> r))))))"

fun ledger_execute ::
  "numlib \<Rightarrow> referrer_pda \<Rightarrow> lending_market \<Rightarrow> instruction \<Rightarrow> ledger \<Rightarrow> ledger res" where
  "ledger_execute L pda m (OnReserve k f) g =
     rbind (load_reserve ProgramErr (lg_reserves g) k) (\<lambda>r.
     rbind (flow_execute L m f r) (\<lambda>r.
     Inr (g\<lparr> lg_reserves := (lg_reserves g)(k \<mapsto> r) \<rparr>)))"
| "ledger_execute L pda m (RefreshObligation o_key clk dks bks refs) g =
     rbind (load_obligation g o_key) (\<lambda>ob.
     rbind (refresh_obligation L pda ob m clk dks bks refs (lg_reserves g)) (\<lambda>(ob, store, _).
     Inr (put_accounts g o_key ob store)))"
| "ledger_execute L pda m (DepositCollateral o_key k n slot chk) g =
     with_accounts g o_key k (\<lambda>r ob store.
       rbind (deposit_obligation_collateral L m r ob slot n k chk) (\<lambda>(r, ob). Inr (r, ob, store)))"
| "ledger_execute L pda m (WithdrawCollateral o_key k n slot chk) g =
     with_accounts g o_key k (\<lambda>r ob store.
       rbind (withdraw_obligation_collateral L m r ob n slot k chk) (\<lambda>(r, ob, _). Inr (r, ob, store)))"
| "ledger_execute L pda m (BorrowLiquidity o_key k request clk rts dks) g =
     with_accounts g o_key k (\<lambda>r ob store.
       rbind (borrow_obligation_liquidity L m r ob request clk k rts dks store)
         (\<lambda>(r, ob, _, store, _). Inr (r, ob, store)))"
| "ledger_execute L pda m (RepayLiquidity o_key k n clk dks) g =
     with_accounts g o_key k (\<lambda>r ob store.
       rbind (repay_obligation_liquidity L r ob clk n k m dks store)
         (\<lambda>(r, ob, store, _). Inr (r, ob, store)))"
| "ledger_execute L pda m (LiquidateAndRedeem o_key rk wk clk n min_out ov dks) g =
     rbind (load_obligation g o_key) (\<lambda>ob.
     rbind (liquidate_and_redeem L m rk wk ob clk n min_out ov dks (lg_reserves g)) (\<lambda>(ob, store, _).
     Inr (put_accounts g o_key ob store)))"
| "ledger_execute L pda m (RolloverSame o_key k clk) g =
     with_accounts g o_key k (\<lambda>r ob store.
       rbind (rollover_borrow_into_same_reserve L m k r ob clk) (\<lambda>ob. Inr (r, ob, store)))"
| "ledger_execute L pda m (RolloverInto o_key sk tk clk) g =
     with_accounts g o_key sk (\<lambda>s ob store.
       rbind (load_reserve ProgramErr store tk) (\<lambda>t.
       rbind (rollover_borrow_into_different_reserve L m sk s tk t ob clk) (\<lambda>(s, t, ob, _).
       Inr (s, ob, store(tk \<mapsto> t)))))"
| "ledger_execute L pda m (RequestGroup o_key group_id clk dks bks refs) g =
     rbind (load_obligation g o_key) (\<lambda>ob.
     rbind (request_elevation_group L pda ob m clk group_id dks bks refs (lg_reserves g)) (\<lambda>(ob, store, _).
     Inr (put_accounts g o_key ob store)))"
| "ledger_execute L pda m (SocializeLoss o_key k n slot dks) g =
     with_accounts g o_key k (\<lambda>r ob store.
       rbind (socialize_loss L r k ob n slot dks store) (\<lambda>(r, ob, store, _). Inr (r, ob, store)))"

text \<open>The reserve whose suppliers an instruction makes pay for bad debt.\<close>

fun forgiven_in :: "instruction \<Rightarrow> pubkey option" where
  "forgiven_in (SocializeLoss o_key k n slot dks) = Some k"
| "forgiven_in _ = None"

section \<open>One instruction\<close>

definition obligations_ok :: "ledger \<Rightarrow> bool" where
  "obligations_ok g \<longleftrightarrow> (\<forall>k ob. lg_obligations g k = Some ob \<longrightarrow> obligation_ok ob)"

text \<open>What an instruction may do to the reserve with key \<open>k\<close>.\<close>

definition step_ok :: "instruction \<Rightarrow> pubkey \<Rightarrow> reserve \<Rightarrow> reserve \<Rightarrow> bool" where
  "step_ok i k r r' \<longleftrightarrow> forgiven_in i = Some k \<or> grown r r'"

definition ledger_ok :: "instruction \<Rightarrow> ledger \<Rightarrow> ledger \<Rightarrow> bool" where
  "ledger_ok i g g' \<longleftrightarrow> obligations_ok g' \<and>
     (\<forall>k. rel_option (step_ok i k) (lg_reserves g k) (lg_reserves g' k))"

lemma store_grown_ok: "store_rel grown (lg_reserves g) (lg_reserves g') \<Longrightarrow>
    obligations_ok g' \<Longrightarrow> ledger_ok i g g'"
  unfolding ledger_ok_def store_rel_def step_ok_def
  by (auto intro: option.rel_mono_strong)

lemma load_obligation_eq [res_simps]:
  "load_obligation g k = Inr ob \<longleftrightarrow> lg_obligations g k = Some ob"
  by (simp add: load_obligation_def ok_or_eq)

lemma put_accounts_simps [simp]:
  "lg_reserves (put_accounts g k ob store) = store"
  "obligations_ok g \<Longrightarrow> obligation_ok ob \<Longrightarrow> obligations_ok (put_accounts g k ob store)"
  by (simp_all add: put_accounts_def obligations_ok_def)

lemma with_accounts_cases:
  assumes "with_accounts g o_key k f = Inr g'"
  obtains ob r r' ob' store' where "lg_obligations g o_key = Some ob" "lg_reserves g k = Some r"
    "f r ob ((lg_reserves g)(k := None)) = Inr (r', ob', store')"
    "g' = put_accounts g o_key ob' (store'(k \<mapsto> r'))"
  using assms by (auto simp: with_accounts_def rbind_eq_Inr res_simps)

text \<open>The reserve of the instruction and the reserves it reached through its iterators.\<close>

lemma with_accounts_ok:
  assumes "with_accounts g o_key k f = Inr g'" "obligations_ok g" "lg_reserves g 0 = None"
    and "\<And>r ob r' ob' store'. f r ob ((lg_reserves g)(k := None)) = Inr (r', ob', store') \<Longrightarrow>
      obligation_ok ob \<Longrightarrow> k \<noteq> 0 \<Longrightarrow> obligation_ok ob' \<and> grown r r' \<and>
      store_rel grown ((lg_reserves g)(k := None)) store'"
  shows "ledger_ok i g g'"
proof -
  obtain ob r r' ob' store' where s: "lg_obligations g o_key = Some ob" "lg_reserves g k = Some r"
    "f r ob ((lg_reserves g)(k := None)) = Inr (r', ob', store')"
    "g' = put_accounts g o_key ob' (store'(k \<mapsto> r'))"
    by (rule with_accounts_cases [OF assms(1)])
  have "obligation_ok ob" using s(1) assms(2) by (auto simp: obligations_ok_def)
  moreover have "k \<noteq> 0" using s(2) assms(3) by auto
  ultimately have h: "obligation_ok ob' \<and> grown r r' \<and> store_rel grown ((lg_reserves g)(k := None)) store'"
    by (intro assms(4) [OF s(3)])
  then have "store_rel grown (lg_reserves g) (store'(k \<mapsto> r'))"
    using s(2) by (intro store_rel_replace [where R = grown and store = "lg_reserves g" and k = k]) blast+
  with h assms(2) show ?thesis by (intro store_grown_ok) (simp_all add: s(4))
qed

lemma kept_store_grown: "store_rel kept a b \<Longrightarrow> store_rel grown a b"
  by (erule store_rel_mono) (rule kept_grown)

lemma trackers_grown: "store_rel only_trackers a b \<Longrightarrow> store_rel grown a b"
  by (rule kept_store_grown) (rule trackers_kept)

lemma same_tokens_grown: "same_tokens r r' \<Longrightarrow> grown r r'"
  by (rule kept_grown) (rule kept_same_tokens)

context num_lib begin

lemma flow_grown: "flow_execute L m f r = Inr r' \<Longrightarrow> grown r r'"
  using flow_step_healthy(1) by (simp add: grown_def)

lemma deposit_grown:
  assumes "deposit_obligation_collateral L m r ob slot n k chk = Inr (r', ob')" "obligation_ok ob" "k \<noteq> 0"
  shows "obligation_ok ob' \<and> grown r r'"
  using deposit_effect [OF assms] same_tokens_grown by blast

lemma withdraw_grown:
  assumes "withdraw_obligation_collateral L m r ob a slot k chk = Inr (r', ob', n)" "obligation_ok ob" "k \<noteq> 0"
  shows "obligation_ok ob' \<and> grown r r'"
  using withdraw_effect [OF assms] same_tokens_grown by blast

lemma borrow_grown:
  assumes "borrow_obligation_liquidity L m r ob sz clk k rts dks store = Inr (r', ob', rts', store', b)"
    and "obligation_ok ob" "k \<noteq> 0"
  shows "obligation_ok ob' \<and> grown r r' \<and> store_rel grown store store'"
  using borrow_effect [OF assms] trackers_grown by (simp add: grown_def)

lemma repay_grown:
  assumes "repay_obligation_liquidity L r ob clk n k m dks store = Inr (r', ob', store', paid)"
    and "obligation_ok ob" "k \<noteq> 0"
  shows "obligation_ok ob' \<and> grown r r' \<and> store_rel grown store store'"
  using repay_effect [OF assms] trackers_grown by (simp add: grown_def)

lemma socialize_ok:
  assumes "ledger_execute L pda m (SocializeLoss o_key k n slot dks) g = Inr g'"
    and "obligations_ok g" "lg_reserves g 0 = None"
  shows "ledger_ok (SocializeLoss o_key k n slot dks) g g'"
proof -
  obtain ob r r' ob' store' where s: "lg_obligations g o_key = Some ob" "lg_reserves g k = Some r"
    "rbind (socialize_loss L r k ob n slot dks ((lg_reserves g)(k := None)))
       (\<lambda>(r, ob, store, _). Inr (r, ob, store)) = Inr (r', ob', store')"
    "g' = put_accounts g o_key ob' (store'(k \<mapsto> r'))"
    by (rule with_accounts_cases [OF assms(1) [simplified]])
  then obtain x where x: "socialize_loss L r k ob n slot dks ((lg_reserves g)(k := None)) = Inr (r', ob', store', x)"
    by (auto simp: rbind_eq_Inr)
  have ok: "obligation_ok ob" "k \<noteq> 0" using s(1,2) assms(2,3) by (auto simp: obligations_ok_def)
  note e = socialize_effect [OF x ok]
  have "rel_option (step_ok (SocializeLoss o_key k n slot dks) j) (lg_reserves g j) (lg_reserves g' j)" for j
  proof (cases "j = k")
    case True
    then show ?thesis by (simp add: s(2,4) step_ok_def)
  next
    case False
    then have "rel_option kept (lg_reserves g j) (lg_reserves g' j)"
      using e(4) [unfolded store_rel_def, THEN spec, of j] by (simp add: s(4))
    then show ?thesis by (rule option.rel_mono_strong) (simp add: step_ok_def kept_grown)
  qed
  with e(1) assms(2) show ?thesis by (simp add: ledger_ok_def s(4))
qed

lemma rollover_into_ok:
  assumes "rbind (load_reserve ProgramErr store tk) (\<lambda>t.
       rbind (rollover_borrow_into_different_reserve L m sk s tk t ob clk) (\<lambda>(s, t, ob, _).
       Inr (s, ob, store(tk \<mapsto> t)))) = Inr (s', ob', store')"
    and "obligation_ok ob" "sk \<noteq> 0" "store 0 = None"
  shows "obligation_ok ob' \<and> grown s s' \<and> store_rel grown store store'"
proof -
  from assms(1) obtain t t' x where t: "store tk = Some t" and
    r: "rollover_borrow_into_different_reserve L m sk s tk t ob clk = Inr (s', t', ob', x)" and
    st: "store' = store(tk \<mapsto> t')"
    by (auto simp: rbind_eq_Inr res_simps)
  have "tk \<noteq> 0" using t assms(4) by auto
  note e = rollover_effect [OF r assms(2,3) this]
  with store_put_grown [where store = store and k = tk, OF t, of t'] show ?thesis
    by (simp add: st kept_grown)
qed

text \<open>Every instruction keeps the obligations in order and the value of all shares it may not touch.\<close>

lemma instruction_keeps_ledger_ok:
  assumes "ledger_execute L pda m i g = Inr g'" "obligations_ok g" "lg_reserves g 0 = None"
  shows "ledger_ok i g g'"
proof (cases i)
  case (OnReserve k f)
  with assms(1) obtain r r' where r: "lg_reserves g k = Some r" "flow_execute L m f r = Inr r'" and
    g': "g' = g\<lparr> lg_reserves := (lg_reserves g)(k \<mapsto> r') \<rparr>"
    by (auto simp: rbind_eq_Inr res_simps)
  show ?thesis
    by (rule store_grown_ok)
      (use store_put_grown [where store = "lg_reserves g" and k = k, OF r(1) flow_grown [OF r(2)]] assms(2)
        in \<open>simp_all add: g' obligations_ok_def\<close>)
next
  case (RefreshObligation o_key clk dks bks refs)
  with assms(1) obtain ob ob' store' refs' where o: "lg_obligations g o_key = Some ob" and
    r: "refresh_obligation L pda ob m clk dks bks refs (lg_reserves g) = Inr (ob', store', refs')" and
    g': "g' = put_accounts g o_key ob' store'"
    by (auto simp: rbind_eq_Inr res_simps)
  show ?thesis
    by (rule store_grown_ok)
      (use refresh_effect [OF r] same_keys_ok [of ob ob'] o assms(2) kept_store_grown
        in \<open>auto simp: g' obligations_ok_def [of g]\<close>)
next
  case (RequestGroup o_key group_id clk dks bks refs)
  with assms(1) obtain ob ob' store' refs' where o: "lg_obligations g o_key = Some ob" and
    r: "request_elevation_group L pda ob m clk group_id dks bks refs (lg_reserves g) = Inr (ob', store', refs')" and
    g': "g' = put_accounts g o_key ob' store'"
    by (auto simp: rbind_eq_Inr res_simps)
  show ?thesis
    by (rule store_grown_ok)
      (use request_group_effect [OF r] same_keys_ok [of ob ob'] o assms(2) kept_store_grown
        in \<open>auto simp: g' obligations_ok_def [of g]\<close>)
next
  case (LiquidateAndRedeem o_key rk wk clk n min_out ov dks)
  with assms(1) obtain ob ob' store' x where o: "lg_obligations g o_key = Some ob" and
    r: "liquidate_and_redeem L m rk wk ob clk n min_out ov dks (lg_reserves g) = Inr (ob', store', x)" and
    g': "g' = put_accounts g o_key ob' store'"
    by (auto simp: rbind_eq_Inr res_simps)
  have "lg_reserves g rk \<noteq> None" "lg_reserves g wk \<noteq> None"
    using r by (auto simp: liquidate_and_redeem_def liquidate_obligation_def rbind_eq_Inr res_simps)
  then have "rk \<noteq> 0" "wk \<noteq> 0" using assms(3) by auto
  moreover have "obligation_ok ob" using o assms(2) by (auto simp: obligations_ok_def)
  ultimately show ?thesis
    using liquidate_and_redeem_grown [OF r] assms(2) by (intro store_grown_ok) (simp_all add: g')
next
  case (DepositCollateral o_key k n slot chk)
  show ?thesis
    by (rule with_accounts_ok [OF assms(1) [unfolded DepositCollateral ledger_execute.simps] assms(2,3)])
      (use deposit_grown in \<open>auto simp: rbind_eq_Inr\<close>)
next
  case (SocializeLoss o_key k n slot dks)
  with assms show ?thesis by (auto intro: socialize_ok)
next
  case (WithdrawCollateral o_key k n slot chk)
  show ?thesis
    by (rule with_accounts_ok [OF assms(1) [unfolded WithdrawCollateral ledger_execute.simps] assms(2,3)])
      (use withdraw_grown in \<open>auto simp: rbind_eq_Inr\<close>)
next
  case (BorrowLiquidity o_key k request clk rts dks)
  show ?thesis
    by (rule with_accounts_ok [OF assms(1) [unfolded BorrowLiquidity ledger_execute.simps] assms(2,3)])
      (use borrow_grown in \<open>auto simp: rbind_eq_Inr\<close>)
next
  case (RepayLiquidity o_key k n clk dks)
  show ?thesis
    by (rule with_accounts_ok [OF assms(1) [unfolded RepayLiquidity ledger_execute.simps] assms(2,3)])
      (use repay_grown in \<open>auto simp: rbind_eq_Inr\<close>)
next
  case (RolloverSame o_key k clk)
  show ?thesis
    by (rule with_accounts_ok [OF assms(1) [unfolded RolloverSame ledger_execute.simps] assms(2,3)])
      (auto simp: rbind_eq_Inr same_positions_books dest!: same_reserve_rollover_effect)
next
  case (RolloverInto o_key sk tk clk)
  show ?thesis
    by (rule with_accounts_ok [OF assms(1) [unfolded RolloverInto ledger_execute.simps] assms(2,3)])
      (rule rollover_into_ok, use assms(3) in auto)
qed

end

section \<open>Histories\<close>

text \<open>
  The accounts of a market at the start of a history: every reserve with shares and assets behind them,
  every obligation with one slot per reserve, and no account under the default key.
\<close>

definition sound_ledger :: "ledger \<Rightarrow> bool" where
  "sound_ledger g \<longleftrightarrow> obligations_ok g \<and> all_live (lg_reserves g) \<and> lg_reserves g 0 = None"

definition shares_outstanding :: "ledger \<Rightarrow> bool" where
  "shares_outstanding g \<longleftrightarrow> (\<forall>k r. lg_reserves g k = Some r \<longrightarrow> 0 < rsv_mint r)"

text \<open>
  Accepted instructions, each under the market's settings of its time. A reserve never runs out of
  shares: the first deposit of a reserve is never redeemed.
\<close>

inductive ledger_reaches ::
  "numlib \<Rightarrow> referrer_pda \<Rightarrow> ledger \<Rightarrow> (lending_market \<times> instruction) list \<Rightarrow> ledger \<Rightarrow> bool"
  for L pda where
  history_start: "sound_ledger g \<Longrightarrow> ledger_reaches L pda g [] g"
| history_step: "\<lbrakk> ledger_reaches L pda g hist g'; ledger_execute L pda m i g' = Inr g''; shares_outstanding g'' \<rbrakk>
    \<Longrightarrow> ledger_reaches L pda g (hist @ [(m, i)]) g''"

text \<open>The reserves whose suppliers paid for bad debt in a history.\<close>

definition forgiven :: "(lending_market \<times> instruction) list \<Rightarrow> pubkey set" where
  "forgiven hist = {k. \<exists>(m, i) \<in> set hist. forgiven_in i = Some k}"

lemma forgiven_snoc [simp]:
  "k \<in> forgiven (hist @ [(m, i)]) \<longleftrightarrow> k \<in> forgiven hist \<or> forgiven_in i = Some k"
  by (auto simp: forgiven_def)

lemma ledger_ok_reserve:
  assumes "ledger_ok i g g'" "lg_reserves g k = Some r" "forgiven_in i \<noteq> Some k"
  obtains r' where "lg_reserves g' k = Some r'" "grown r r'"
proof -
  have "rel_option (step_ok i k) (lg_reserves g k) (lg_reserves g' k)"
    using assms(1) by (simp add: ledger_ok_def)
  then obtain r' where "lg_reserves g' k = Some r'" "step_ok i k r r'"
    unfolding assms(2) option_rel_Some1 by blast
  with assms(3) that show thesis by (simp add: step_ok_def)
qed

lemma ledger_ok_none:
  assumes "ledger_ok i g g'"
  shows "lg_reserves g' k = None \<longleftrightarrow> lg_reserves g k = None"
proof -
  have "rel_option (step_ok i k) (lg_reserves g k) (lg_reserves g' k)"
    using assms by (simp add: ledger_ok_def)
  then show ?thesis by (cases rule: option.rel_cases) simp_all
qed

context num_lib begin

lemma ledger_history:
  assumes "ledger_reaches L pda g hist g'"
  shows "obligations_ok g' \<and> lg_reserves g' 0 = None \<and>
    (\<forall>k r. lg_reserves g k = Some r \<longrightarrow> k \<notin> forgiven hist \<longrightarrow>
       (\<exists>r'. lg_reserves g' k = Some r' \<and> live r' \<and> share_value_le r r'))"
  using assms
proof induction
  case (history_start g)
  then show ?case by (auto simp: sound_ledger_def all_live_def)
next
  case (history_step g hist g' m i g'')
  note ok = instruction_keeps_ledger_ok [OF history_step.hyps(2)]
  with history_step.IH have ok: "ledger_ok i g' g''" by blast
  have "\<exists>r''. lg_reserves g'' k = Some r'' \<and> live r'' \<and> share_value_le r r''"
    if r: "lg_reserves g k = Some r" "k \<notin> forgiven (hist @ [(m, i)])" for k r
  proof -
    from history_step.IH r obtain r' where r': "lg_reserves g' k = Some r'" "live r'" "share_value_le r r'"
      by auto
    from r(2) obtain r'' where r'': "lg_reserves g'' k = Some r''" "grown r' r''"
      using ledger_ok_reserve [OF ok r'(1)] by auto
    then have h: "healthy_step r' r''" "0 < rsv_mint r''"
      using r'(2) history_step.hyps(3) by (auto simp: grown_def shares_outstanding_def)
    with r' have "share_value_le r r''"
      by (intro share_value_le_trans [OF r'(3)]) (simp_all add: healthy_step_def live_def)
    with healthy_live [OF h(1) r'(2) h(2)] r''(1) show ?thesis by blast
  qed
  then show ?case using ok ledger_ok_none [OF ok] history_step.IH by (auto simp: ledger_ok_def)
qed

end

text \<open>
  C1. Over every history of accepted instructions of a market, whatever their order and whatever
  accounts they name, a share of a reserve is worth at least as much as at the start unless the
  market's owner forgave debt of that very reserve, and every obligation has one slot per reserve.
\<close>

theorem no_instruction_takes_from_suppliers:
  assumes "num_lib L" "ledger_reaches L pda g hist g'"
    and "lg_reserves g k = Some r" "k \<notin> forgiven hist"
  shows "obligations_ok g' \<and> (\<exists>r'. lg_reserves g' k = Some r' \<and> share_value_le r r')"
  using num_lib.ledger_history [OF assms(1,2)] assms(3,4) by blast

definition no_referrers :: referrer_pda where
  "no_referrers _ _ _ = None"

definition sample_ledger :: ledger where
  "sample_ledger = \<lparr> lg_reserves = sample_store, lg_obligations = [3 \<mapsto> fresh_obligation] \<rparr>"

lemma fresh_obligation_ok: "obligation_ok fresh_obligation"
  by (simp add: obligation_ok_def slots_ok_def fresh_obligation_fields sample_deposit_slot_def
      obligation_collateral_new_def obligation_collateral_default_def sample_loan_slot_def
      obligation_liquidity_new_def obligation_liquidity_default_def fresh_obligation_def)

lemma sample_store_live: "all_live sample_store"
  using sample_live
  by (auto simp: all_live_def sample_store_def live_def priced_reserve_def debt_reserve_def rsv_supply_def
      supply_bits_def covered_def assets_bits_def fees_bits_def rsv_mint_def)

lemma sample_ledger_sound: "sound_ledger sample_ledger"
  by (simp add: sound_ledger_def sample_ledger_def obligations_ok_def fresh_obligation_ok sample_store_live)
    (simp add: sample_store_def)

theorem no_instruction_takes_from_suppliers_witness:
  "\<exists>g'. ledger_reaches std_lib no_referrers sample_ledger
      [(lending_market_default, WithdrawCollateral 3 7 20 5 MaxLtv)] g' \<and>
     obligations_ok g' \<and> (\<exists>r'. lg_reserves g' 8 = Some r' \<and> share_value_le debt_reserve r')"
proof -
  obtain ob' where w: "withdraw_obligation_collateral std_lib lending_market_default priced_reserve
      fresh_obligation 20 5 7 MaxLtv = Inr (priced_reserve, ob', 20)"
    using sample_withdraw by blast
  let ?g = "put_accounts sample_ledger 3 ob' sample_store"
  have st: "(sample_store(7 := None))(7 \<mapsto> priced_reserve) = sample_store"
    by (auto simp: sample_store_def)
  have "ledger_execute std_lib no_referrers lending_market_default (WithdrawCollateral 3 7 20 5 MaxLtv) sample_ledger = Inr ?g"
    using w st by (simp add: with_accounts_def load_obligation_def load_reserve_def sample_ledger_def put_accounts_def)
      (simp add: sample_store_def)
  moreover have "shares_outstanding ?g"
    using sample_ledger_sound by (auto simp: sound_ledger_def all_live_def live_def shares_outstanding_def sample_ledger_def)
  ultimately have "ledger_reaches std_lib no_referrers sample_ledger
      ([] @ [(lending_market_default, WithdrawCollateral 3 7 20 5 MaxLtv)]) ?g"
    using history_start [OF sample_ledger_sound] by (intro history_step)
  then have run: "ledger_reaches std_lib no_referrers sample_ledger
      [(lending_market_default, WithdrawCollateral 3 7 20 5 MaxLtv)] ?g" by simp
  have "lg_reserves sample_ledger 8 = Some debt_reserve" by (simp add: sample_ledger_def sample_store_def)
  from no_instruction_takes_from_suppliers [OF std.num_lib_axioms run this] run show ?thesis
    by (auto simp: forgiven_def)
qed

end
