(* ===== verification/Liquidation_Settlement.thy ===== *)
theory Liquidation_Settlement imports Ledger begin

text \<open>
  What changes hands when a position is liquidated: the books of the obligation and the tokens of the
  two reserves, in one statement.
\<close>

section \<open>Tokens of the two reserves\<close>

definition available :: "reserve \<Rightarrow> nat" where
  "available r = unat (total_available_amount (rsv_liquidity r))"

context num_lib begin

lemma available_keep:
  "only_trackers r r' \<Longrightarrow> available r' = available r" "available (mark_reserve_stale r) = available r"
  by (simp_all add: available_def only_trackers_keep(4))

lemma store_rel_before:
  assumes "store_rel R store store'" "store' k = Some r"
  obtains r0 where "store k = Some r0" "R r0 r"
proof -
  from assms(1) have "rel_option R (store k) (store' k)" by (simp add: store_rel_def)
  with assms(2) that show thesis by (auto simp: option_rel_Some2)
qed

lemma size_liquidation_fresh:
  "size_liquidation L m rk rr wk wr ob clk n ov = Inr x \<Longrightarrow> lu_slot (rsv_last_update wr) = clk_slot clk"
  by (cases x) (auto simp: size_liquidation_def Let_def rbind_eq_Inr guard_eq case_prod_beta
      assert_obligation_liquidatable_def ensure_reserve_fresh_eq)

text \<open>The reserve of the seized collateral is the same amount of tokens richer or poorer as before.\<close>

lemma seized_reserve_available:
  assumes "liquidate_obligation L m rk wk ob clk n ov dks store = Inr (ob', store', x)"
    and "rk \<noteq> wk"
  shows "\<exists>w w'. store wk = Some w \<and> store' wk = Some w' \<and> available w' = available w"
proof -
  from assms(1) obtain rr wr li ci y ob1 rr1 store1 c rr2 wr2 wr3 wr4 where
    wr: "store wk = Some wr" and
    s: "size_liquidation L m rk rr wk wr ob clk n ov = Inr (li, ci, y)" and
    t: "update_elevation_group_debt_trackers_on_repay (lr_repay_amount y) ob li rr dks (store(rk := None)) =
          Inr (ob1, rr1, store1)" and
    wr2: "(store1(rk \<mapsto> rr2)) wk = Some wr2" and
    wr3: "refresh_reserve L wr2 clk None (lm_referral_fee_bps m) (lm_reserve_rewards_max_apr_bps m) = Inr wr3" and
    wr4: "(if oc_deposited_amount (ob_deposits ob ! ci) = lr_withdraw_amount y
           then update_elevation_group_debt_trackers_on_full_withdraw c (ob_elevation_group ob') wr3
           else Inr wr3) = Inr wr4" and
    out: "store' = store1(rk \<mapsto> rr2, wk \<mapsto> wr4)"
    unfolding liquidate_obligation_def Let_def
    by (auto simp: rbind_eq_Inr load_reserve_eq case_prod_beta simp del: fun_upd_apply)
  from wr2 assms(2) have "store1 wk = Some wr2" by simp
  moreover have "store_rel only_trackers (store(rk := None)) store1" using repay_trackers [OF t] by blast
  ultimately obtain w where w: "(store(rk := None)) wk = Some w" "only_trackers w wr2"
    by (auto elim: store_rel_before)
  with wr assms(2) have tr: "only_trackers wr wr2" by simp
  have "lu_slot (rsv_last_update wr2) = clk_slot clk"
    using size_liquidation_fresh [OF s] only_trackers_keep [OF tr] by (simp add: only_trackers_def)
  from refresh_again [OF wr3 this] have "available wr3 = available wr2" by (simp add: available_def)
  moreover have "only_trackers wr3 wr4" using wr4 full_withdraw_trackers by (auto split: if_splits)
  ultimately show ?thesis using wr tr by (simp add: out available_keep(1))
qed

lemma liquidation_settlement:
  assumes "liquidate_and_redeem L m rk wk ob clk n min_out ov dks store = Inr (ob', store', x)"
    and "obligation_ok ob" "rk \<noteq> 0" "wk \<noteq> 0" "rk \<noteq> wk"
  obtains settled rr rr' wr wr' where
    "book_repay (debt_book ob) rk settled = Inr (debt_book ob')"
    "unat (lrr_repay_amount x) = ceil_div settled fx_scale" "lrr_repay_amount x \<le> n"
    "book_withdraw (deposit_book ob) wk (unat (lrr_withdraw_amount x)) = Inr (deposit_book ob')"
    "store rk = Some rr" "store' rk = Some rr'" "available rr' = available rr + unat (lrr_repay_amount x)"
    "store wk = Some wr" "store' wk = Some wr'"
    "case lrr_total_withdraw_liquidity_amount x of
       None \<Rightarrow> available wr' = available wr
     | Some (paid, fee) \<Rightarrow> available wr = available wr' + unat paid \<and> fee \<le> paid \<and>
         unat min_out \<le> unat paid - unat fee"
proof -
  obtain store1 y w1 w2 where
    l: "liquidate_obligation L m rk wk ob clk n ov dks store = Inr (ob', store1, y)" and
    w: "store1 wk = Some w1" "store' = store1(wk \<mapsto> w2)" and
    x: "lrr_repay_amount x = lor_repay_amount y" "lrr_withdraw_amount x = lor_withdraw_amount y" and
    p: "post_liquidate_redeem L w1 (lor_withdraw_amount y) (lor_withdraw_collateral_amount y)
       (lor_liquidation_bonus_rate y) (lor_liquidation_reason y) min_out clk =
       Inr (w2, lrr_total_withdraw_liquidity_amount x)"
    by (rule liquidate_and_redeem_parts [OF assms(1)])
  note e = liquidate_obligation_effect [OF l assms(2-4)]
  obtain wr where wr: "store wk = Some wr" "available w1 = available wr"
    using seized_reserve_available [OF l assms(5)] w(1) by auto
  obtain rr rr' where rr: "store rk = Some rr" "store1 rk = Some rr'"
    "available rr' = available rr + unat (lor_repay_amount y)"
    using e(8) assms(5) unfolding available_def by blast
  have "case lrr_total_withdraw_liquidity_amount x of
       None \<Rightarrow> available w2 = available wr
     | Some (paid, fee) \<Rightarrow> available wr = available w2 + unat paid \<and> fee \<le> paid \<and>
         unat min_out \<le> unat paid - unat fee"
    using post_liquidate_redeem_effect [OF p] redeemed_available wr(2)
    by (auto simp: available_def split: option.splits)
  with e rr wr w x assms(5) show thesis by (intro that [of _ rr rr' wr w2]) simp_all
qed

end

section \<open>A sample liquidation\<close>

text \<open>
  A position of 100 tokens worth 100 against a debt of 80, of which a liquidator repays 10: the debt
  reserve gets 10 tokens, and 10 seized shares are redeemed for 15 tokens, 1 of them the fee.
\<close>

definition settling_clock :: clock where
  "settling_clock = \<lparr> clk_slot = 5, clk_unix_timestamp = 1000 \<rparr>"

definition with_bonus :: "reserve \<Rightarrow> reserve" where
  "with_bonus r = r\<lparr> rsv_config := (rsv_config r)
     \<lparr> max_liquidation_bonus_bps := 500, min_liquidation_bonus_bps := 200 \<rparr> \<rparr>"

definition liq_obligation :: obligation where
  "liq_obligation = fresh_obligation\<lparr>
     ob_deposited_value_sf := 100 * 2 ^ 60,
     ob_deposits := sample_deposit_slot\<lparr> oc_market_value_sf := 100 * 2 ^ 60 \<rparr> # replicate 7 obligation_collateral_default,
     ob_borrow_factor_adjusted_debt_value_sf := 80 * 2 ^ 60, ob_borrowed_assets_market_value_sf := 80 * 2 ^ 60,
     ob_unhealthy_borrow_value_sf := 75 * 2 ^ 60, ob_lowest_reserve_deposit_liquidation_ltv := 80 \<rparr>"

definition liq_store :: reserve_store where
  "liq_store = [7 \<mapsto> with_bonus priced_reserve, 8 \<mapsto> with_bonus debt_reserve]"

definition liq_loan :: obligation_liquidity where
  "liq_loan = sample_loan_slot\<lparr> ol_market_value_sf := 30 * 2 ^ 60,
     ol_borrow_factor_adjusted_market_value_sf := 30 * 2 ^ 60, ol_borrowed_amount_outside_elevation_groups := 30 \<rparr>"

lemma liq_fields:
  "ob_borrows liq_obligation = liq_loan # replicate 4 obligation_liquidity_default"
  "ob_deposits liq_obligation =
     sample_deposit_slot\<lparr> oc_market_value_sf := 100 * 2 ^ 60 \<rparr> # replicate 7 obligation_collateral_default"
  "ob_elevation_group liq_obligation = 0" "ob_deposited_value_sf liq_obligation = 100 * 2 ^ 60"
  "ob_borrow_factor_adjusted_debt_value_sf liq_obligation = 80 * 2 ^ 60"
  "ob_borrowed_assets_market_value_sf liq_obligation = 80 * 2 ^ 60"
  "ob_unhealthy_borrow_value_sf liq_obligation = 75 * 2 ^ 60"
  "ob_lowest_reserve_deposit_liquidation_ltv liq_obligation = 80"
  "ob_last_update liq_obligation = \<lparr> lu_slot = 5, lu_stale = 0, lu_price_status = 63 \<rparr>"
  by (simp_all add: liq_obligation_def fresh_obligation_def liq_loan_def sample_obligation_def obligation_default_def
      ELEVATION_GROUP_NONE_def)

lemma liq_loan_fields:
  "ol_borrow_reserve liq_loan = 8" "ol_borrowed_amount_sf liq_loan = 30 * 2 ^ 60" "ol_market_value_sf liq_loan = 30 * 2 ^ 60"
  "ol_borrow_factor_adjusted_market_value_sf liq_loan = 30 * 2 ^ 60"
  "ol_borrowed_amount_outside_elevation_groups liq_loan = 30" "ol_borrowed_amount_at_expiration liq_loan = 0"
  by (simp_all add: liq_loan_def sample_loan_slot_def obligation_liquidity_new_def)

lemma with_bonus_fields:
  "rsv_liquidity (with_bonus r) = rsv_liquidity r" "rsv_collateral (with_bonus r) = rsv_collateral r"
  "rsv_last_update (with_bonus r) = rsv_last_update r" "rsv_withdraw_queue (with_bonus r) = rsv_withdraw_queue r"
  "max_liquidation_bonus_bps (rsv_config (with_bonus r)) = 500"
  "min_liquidation_bonus_bps (rsv_config (with_bonus r)) = 200"
  "liquidation_threshold_pct (rsv_config (with_bonus r)) = liquidation_threshold_pct (rsv_config r)"
  "loan_to_value_pct (rsv_config (with_bonus r)) = loan_to_value_pct (rsv_config r)"
  "borrow_factor_pct (rsv_config (with_bonus r)) = borrow_factor_pct (rsv_config r)"
  "borrowed_amount_outside_elevation_group (with_bonus r) = borrowed_amount_outside_elevation_group r"
  by (simp_all add: with_bonus_def)

lemma liq_ltvs:
  "loan_to_value std_lib liq_obligation = Inr 922337203685477580"
  "no_bf_loan_to_value std_lib liq_obligation = Inr 922337203685477580"
  "unhealthy_loan_to_value std_lib liq_obligation = Inr 864691128455135232"
  by (simp_all add: loan_to_value_def no_bf_loan_to_value_def unhealthy_loan_to_value_def liq_fields std_eval)

definition liq_inputs :: liquidation_check_inputs where
  "liq_inputs = \<lparr> ci_lending_market = lending_market_default, ci_collateral_reserve = with_bonus priced_reserve,
     ci_liquidity = liq_loan, ci_debt_reserve = with_bonus debt_reserve, ci_obligation = liq_obligation,
     ci_timestamp = 1000, ci_max_allowed_ltv_override_pct_opt = None \<rparr>"

lemma liq_params: "get_liquidation_params std_lib liq_inputs True True = Inr sample_params"
proof -
  have b: "calculate_liquidation_bonus std_lib (rsv_config (with_bonus r)) (rsv_config (with_bonus s))
      864691128455135232 922337203685477580 922337203685477580 (- 1) = Inr 57646075230342348" for r s
    by (simp add: calculate_liquidation_bonus_def FRACTION_0_99_def with_bonus_fields from_bps_def std_eval)
  have "check_liquidate_obligation std_lib liq_inputs = Inr (Some sample_params)"
    by (simp add: check_liquidate_obligation_def liq_inputs_def liq_fields liq_ltvs b params_for_def sample_params_def
        get_emode_max_liquidation_bonus_def is_price_triggered_liquidation_disabled_def
        lending_market_default_def ELEVATION_GROUP_NONE_def)
  then show ?thesis by (simp add: get_liquidation_params_def or_else_def sample_params_def)
qed

lemma liq_max_amount:
  "max_liquidatable_borrowed_amount std_lib lending_market_default liq_obligation liq_loan LtvExceeded =
     Inr 18446744073709551600"
proof -
  have m: "get_insolvency_risk_unhealthy_ltv std_lib lending_market_default = Inr 1095275429376504627"
    "get_liquidation_max_debt_close_factor std_lib lending_market_default = Inr 230584300921369395"
    "get_max_liquidatable_debt_market_value_at_once std_lib lending_market_default = Inr (500000 * 2 ^ 60)"
    by (simp_all add: get_insolvency_risk_unhealthy_ltv_def get_liquidation_max_debt_close_factor_def
        get_max_liquidatable_debt_market_value_at_once_def lending_market_default_def from_percent_def std_eval
        CLOSE_TO_INSOLVENCY_RISKY_LTV_def LIQUIDATION_CLOSE_FACTOR_def MAX_LIQUIDATABLE_VALUE_AT_ONCE_def)
  show ?thesis
    by (simp add: max_liquidatable_borrowed_amount_def liq_ltvs m liq_fields liq_loan_fields std_eval)
qed

lemma liq_amounts:
  assumes "oc_market_value_sf c = 100 * 2 ^ 60" "oc_deposited_amount c = 100"
  shows "calculate_liquidation std_lib liq_inputs 10 c True True = Inr sample_liquidation"
proof -
  have f: "lm_min_full_liquidation_value_threshold lending_market_default = 2"
    "ci_obligation liq_inputs = liq_obligation" "ci_lending_market liq_inputs = lending_market_default"
    "ci_liquidity liq_inputs = liq_loan" "lp_liquidation_bonus_rate sample_params = 57646075230342348"
    "lp_liquidation_reason sample_params = LtvExceeded"
    by (simp_all add: lending_market_default_def LIQUIDATION_CLOSE_VALUE_def liq_inputs_def sample_params_def)
  show ?thesis
    by (simp add: calculate_liquidation_def liq_params f assms liq_loan_fields std_eval liq_max_amount
        frac_less_int_def calculate_liquidation_amounts_def to_ceil_def to_floor_def sample_liquidation_def)
qed

lemma liq_positions:
  "find_liquidity_in_borrows liq_obligation 8 = Inr (liq_loan, 0)"
  "position_of_collateral_in_deposits liq_obligation 7 = Inr 0"
  by (simp_all add: find_liquidity_in_borrows_def find_liquidity_index_in_borrows_def position_of_collateral_in_deposits_def
      is_active_deposits_empty_def is_active_borrows_empty_def liq_fields liq_loan_fields fresh_slots loan_is_active_def)

lemma liq_size:
  "size_liquidation std_lib lending_market_default 8 (with_bonus debt_reserve) 7 (with_bonus priced_reserve)
     liq_obligation settling_clock 10 None = Inr (0, 0, sample_liquidation)"
proof -
  have g: "position_elevation_group (ob_elevation_group liq_obligation) lending_market_default = Inr None"
    by (simp add: liq_fields)
  have t: "get_max_ltv_and_liquidation_threshold (with_bonus priced_reserve) None = (75, 80)"
    by (simp add: get_max_ltv_and_liquidation_threshold_def with_bonus_fields priced_reserve_fields)
  have a: "assert_obligation_liquidatable (with_bonus debt_reserve) (with_bonus priced_reserve) liq_obligation 10
      (clk_slot settling_clock) = Inr ()"
    by (simp add: assert_obligation_liquidatable_def ensure_reserve_fresh_def ensure_obligation_fresh_def
        with_bonus_fields priced_reserve_fields debt_reserve_fields liq_fields sample_fresh settling_clock_def
        LIQUIDATION_CHECKS_def PRICE_LOADED_def PRICE_AGE_CHECKED_def PRICE_USAGE_ALLOWED_def)
  have b: "ob_highest_borrow_factor_pct liq_obligation \<le> borrow_factor_pct (rsv_config (with_bonus debt_reserve))"
    by (simp add: liq_obligation_def with_bonus_fields debt_reserve_fields sample_reserve_plain fresh_obligation_def
        sample_obligation_def obligation_default_def)
  have c: "clock_timestamp (clk_unix_timestamp settling_clock) = Inr 1000"
    by (simp add: settling_clock_def clock_timestamp_def)
  show ?thesis
    using liq_amounts [of "ob_deposits liq_obligation ! 0"]
    by (simp add: size_liquidation_def g t a liq_positions liq_loan_fields c b liq_inputs_def liq_fields fresh_slots)
qed

definition rest_obligation :: obligation where
  "rest_obligation = mark_obligation_stale (clear_obligation_orders_if_no_debt (update_has_debt (liq_obligation\<lparr>
     ob_borrows := liq_loan\<lparr> ol_borrowed_amount_outside_elevation_groups := 20, ol_borrowed_amount_sf := 20 * 2 ^ 60 \<rparr> #
       replicate 4 obligation_liquidity_default,
     ob_deposits := sample_deposit_slot\<lparr> oc_market_value_sf := 100 * 2 ^ 60, oc_deposited_amount := 90 \<rparr> #
       replicate 7 obligation_collateral_default \<rparr>)))"

definition repaid_reserve :: reserve where
  "repaid_reserve = mark_reserve_stale ((with_bonus debt_reserve)\<lparr> borrowed_amount_outside_elevation_group := 0,
     rsv_liquidity := (rsv_liquidity debt_reserve)\<lparr> total_available_amount := 1010,
       borrowed_amount_sf := 490 * 2 ^ 60 \<rparr> \<rparr>)"

lemma liq_settled:
  "rbind (update_elevation_group_debt_trackers_on_repay 10 liq_obligation 0 (with_bonus debt_reserve) [] store)
     (\<lambda>(ob, r, store). rbind (repay_and_withdraw_from_obligation_post_liquidation std_lib ob r (10 * 2 ^ 60) 10 10 0 0)
       (\<lambda>(ob, r). Inr (ob, r, store))) = Inr (rest_obligation, repaid_reserve, store)"
  by (simp add: update_elevation_group_debt_trackers_on_repay_def liq_fields ELEVATION_GROUP_NONE_def
      array_update_def array_get_def liq_loan_fields saturating_sub_def
      repay_and_withdraw_from_obligation_post_liquidation_def liquidity_repay_def add_ov_def checked_add_def
      obligation_repay_def obligation_withdraw_def fresh_slots collateral_withdraw_def checked_sub_def
      loan_repay_def with_bonus_fields debt_reserve_fields rest_obligation_def repaid_reserve_def sample_fields std_eval)

lemma liq_rate: "rsv_exchange_rate std_lib (with_bonus priced_reserve) =
    Inr \<lparr> cer_collateral_supply = 1000, cer_liquidity = 1500 * 2 ^ 60 \<rparr>"
  using sample_rate_again by (simp add: rsv_exchange_rate_def with_bonus_fields)

definition seized_reserve :: reserve where
  "seized_reserve = (with_bonus priced_reserve)\<lparr> rsv_last_update :=
     update_slot (rsv_last_update (with_bonus priced_reserve)) 5 (Some NO_CHECKS) \<rparr>"

lemma liq_refresh:
  "refresh_reserve std_lib (with_bonus priced_reserve) settling_clock None bps apr = Inr seized_reserve"
proof -
  have "rsv_config (with_bonus priced_reserve) = (zero_config \<lparr> points = [] \<rparr>)
     \<lparr> rewards_amount_per_slot := 3, borrow_limit := 2000, borrow_factor_pct := 100,
       loan_to_value_pct := 75, liquidation_threshold_pct := 80,
       max_liquidation_bonus_bps := 500, min_liquidation_bonus_bps := 200 \<rparr>"
    by (simp add: with_bonus_def priced_reserve_fields sample_reserve_def reserve_init_def)
  then show ?thesis
    by (simp add: refresh_reserve_def reserve_accrue_interest_def with_bonus_fields priced_reserve_fields
        slots_elapsed_def checked_sub_def settling_clock_def distribute_rewards_def refresh_price_def
        reserve_is_emergency_mode_def zero_config_def is_saved_price_age_valid_def clock_timestamp_def
        seized_reserve_def token_info_default_def saturating_sub_def)
qed

lemma seized_fields:
  "rsv_liquidity seized_reserve = rsv_liquidity priced_reserve" "rsv_collateral seized_reserve = rsv_collateral sample_reserve"
  "rsv_withdraw_queue seized_reserve = rsv_withdraw_queue sample_reserve"
  "rsv_config seized_reserve = rsv_config (with_bonus priced_reserve)"
  by (simp_all add: seized_reserve_def with_bonus_def priced_reserve_def)

lemma seized_rate: "rsv_exchange_rate std_lib seized_reserve = rsv_exchange_rate std_lib (with_bonus priced_reserve)"
  by (simp add: rsv_exchange_rate_def seized_reserve_def)

lemma sample_queue: "rsv_withdraw_queue sample_reserve = withdraw_queue_default"
  by (simp add: sample_reserve_def reserve_init_def)

lemma liq_available: "freely_available_liquidity_amount std_lib seized_reserve = Inr 1000"
  by (simp add: freely_available_liquidity_amount_def queued_liquidity_amount_def seized_rate liq_rate
      withdraw_queue_default_def collateral_to_liquidity_def fraction_collateral_to_liquidity_def
      total_available_liquidity_amount_def priced_reserve_fields sample_fields saturating_sub_def seized_fields sample_queue
      bf_mul_def bf_from_def bf_div_int_def bf_try_into_def FRAC_NBITS_def to_floor_def std_eval)

lemma liq_redeemable: "max_redeemable_collateral std_lib seized_reserve LtvExceeded = Inr 667"
  by (simp add: max_redeemable_collateral_def FOR_PROTOCOL_ENFORCED_LIQUIDATION_def freely_redeemable_collateral_amount_def
      total_redeemable_collateral_amount_def seized_rate liq_rate liquidity_to_collateral_ceil_def
      fraction_liquidity_to_collateral_ceil_def fraction_liquidity_to_collateral_def bf_mul_int_def bf_div_ceil_def bf_div_fraction_def panicking_shl_def liquidity_to_collateral_def
      collateral_to_liquidity_def fraction_collateral_to_liquidity_def
      total_available_liquidity_amount_def priced_reserve_fields sample_fields saturating_sub_def seized_fields sample_queue
      withdraw_queue_default_def frac_of_u64_def to_ceil_def
      bf_mul_def bf_from_def bf_div_int_def bf_div_def bf_try_into_def FRAC_NBITS_def to_floor_def std_eval)

lemma seized_config: "rsv_config seized_reserve = (zero_config \<lparr> points = [] \<rparr>)
     \<lparr> rewards_amount_per_slot := 3, borrow_limit := 2000, borrow_factor_pct := 100,
       loan_to_value_pct := 75, liquidation_threshold_pct := 80,
       max_liquidation_bonus_bps := 500, min_liquidation_bonus_bps := 200 \<rparr>"
  by (simp add: seized_fields with_bonus_def priced_reserve_fields sample_reserve_def reserve_init_def)

definition drawn_reserve :: reserve where
  "drawn_reserve = mark_reserve_stale (seized_reserve\<lparr>
     rsv_collateral := (rsv_collateral sample_reserve)\<lparr> mint_total_supply := 990 \<rparr>,
     rsv_liquidity := (rsv_liquidity priced_reserve)\<lparr> total_available_amount := 985,
       deposit_limit_crossed_timestamp := 1000, borrow_limit_crossed_timestamp := 0 \<rparr> \<rparr>)"

lemma liq_redeem:
  "redeem_reserve_collateral std_lib seized_reserve 10 settling_clock (redeem_options_resolve LtvExceeded) =
     Inr (drawn_reserve, 15)"
proof -
  have q: "queued_collateral_amount withdraw_queue_default = 0" by (simp add: withdraw_queue_default_def)
  have l: "collateral_to_liquidity std_lib \<lparr> cer_collateral_supply = 1000, cer_liquidity = 1729382256910270464000 \<rparr> 10 =
      Inr 15"
    by (simp add: collateral_to_liquidity_def fraction_collateral_to_liquidity_def to_floor_def
        bf_mul_def bf_from_def bf_div_int_def bf_try_into_def FRAC_NBITS_def std_eval)
  have f: "is_stale (rsv_last_update seized_reserve) 5 NO_CHECKS = Inr False"
    by (simp add: seized_reserve_def with_bonus_fields priced_reserve_fields update_slot_def Let_def is_stale_def
        slots_elapsed_def checked_sub_def STALE_AFTER_SLOTS_ELAPSED_def get_price_status_def flags_truncate_def
        NO_CHECKS_def flags_contain_def)
  have t: "total_supply std_lib ((rsv_liquidity sample_reserve)\<lparr> market_price_sf := 2305843009213693952,
      total_available_amount := 985 \<rparr>) = Inr (1485 * 2 ^ 60)"
    by (simp add: total_supply_def sample_reserve_def reserve_init_def reserve_liquidity_default_def total_borrow_def
        frac_of_u64_def std_eval)
  have c: "deposit_limit_crossed_timestamp (rsv_liquidity sample_reserve) = 0"
    "borrow_limit_crossed_timestamp (rsv_liquidity sample_reserve) = 0"
    "mint_total_supply (rsv_collateral sample_reserve) = 1000"
    by (simp_all add: sample_reserve_def reserve_init_def reserve_liquidity_default_def)
  have z: "deposit_limit (rsv_config seized_reserve) = 0" "borrow_limit (rsv_config seized_reserve) = 2000"
    by (simp_all add: seized_config zero_config_def)
  show ?thesis
    by (simp add: redeem_reserve_collateral_def ensure_reserve_fresh_def f settling_clock_def clock_timestamp_def
        reserve_redeem_collateral_def seized_rate liq_rate l FOR_PROTOCOL_ENFORCED_LIQUIDATION_def
        withdraw_including_queued_def take_available_def seized_fields(1-3) priced_reserve_fields sample_fields sub_ov_def
        checked_sub_def collateral_burn_def c refresh_reserve_limit_timestamps_def
        update_deposit_limit_crossed_timestamp_def update_borrow_limit_crossed_timestamp_def
        deposit_limit_crossed_def borrow_limit_crossed_def t z frac_of_u64_def total_borrow_def
        drawn_reserve_def std_eval)
qed

lemma liq_post_redeem:
  "post_liquidate_redeem std_lib seized_reserve 10 10 57646075230342348 LtvExceeded 1 settling_clock =
     Inr (drawn_reserve, Some (15, 1))"
proof -
  have p: "liquidation_fee_pct drawn_reserve LtvExceeded = 0"
    by (simp add: liquidation_fee_pct_def drawn_reserve_def mark_reserve_stale_def seized_config zero_config_def)
  have "calculate_protocol_liquidation_fee std_lib 15 57646075230342348 0 = Inr 1"
    by (simp add: calculate_protocol_liquidation_fee_def from_percent_def frac_of_u64_def to_ceil_def std_eval)
  then show ?thesis
    using liq_redeem by (simp add: post_liquidate_redeem_def p sub_ov_def checked_sub_def)
qed

lemma sample_settlement:
  "liquidate_and_redeem std_lib lending_market_default 8 7 liq_obligation settling_clock 10 1 None [] liq_store =
     Inr (rest_obligation, (liq_store(8 := None))(8 \<mapsto> repaid_reserve, 7 \<mapsto> seized_reserve, 7 \<mapsto> drawn_reserve),
       \<lparr> lrr_repay_amount = 10, lrr_withdraw_amount = 10, lrr_withdraw_collateral_amount = 10,
         lrr_total_withdraw_liquidity_amount = Some (15, 1), lrr_liquidation_reason = LtvExceeded \<rparr>)"
proof -
  have st: "liq_store 8 = Some (with_bonus debt_reserve)" "liq_store 7 = Some (with_bonus priced_reserve)"
    by (simp_all add: liq_store_def)
  from liq_settled [of "liq_store(8 := None)"] obtain ob1 r1 where
    t: "update_elevation_group_debt_trackers_on_repay 10 liq_obligation 0 (with_bonus debt_reserve) [] (liq_store(8 := None)) =
      Inr (ob1, r1, liq_store(8 := None))" and
    s: "repay_and_withdraw_from_obligation_post_liquidation std_lib ob1 r1 (10 * 2 ^ 60) 10 10 0 0 =
      Inr (rest_obligation, repaid_reserve)"
    by (auto simp: rbind_eq_Inr)
  have nf: "oc_deposited_amount (ob_deposits liq_obligation ! 0) \<noteq> 10" by (simp add: liq_fields fresh_slots)
  have o: "consume_executed_order std_lib rest_obligation LtvExceeded 10 = Inr rest_obligation"
    by (simp add: consume_executed_order_def)
  have "liquidate_obligation std_lib lending_market_default 8 7 liq_obligation settling_clock 10 None [] liq_store =
    Inr (rest_obligation, (liq_store(8 := None))(8 \<mapsto> repaid_reserve, 7 \<mapsto> seized_reserve),
      \<lparr> lor_settle_amount = 10 * 2 ^ 60, lor_repay_amount = 10, lor_withdraw_amount = 10,
        lor_withdraw_collateral_amount = 10, lor_liquidation_bonus_rate = 57646075230342348,
        lor_liquidation_reason = LtvExceeded \<rparr>)"
    using s nf o
    by (simp add: liquidate_obligation_def load_reserve_def st liq_size sample_liquidation_def t liq_refresh liq_redeemable
        del: fun_upd_upd)
  then show ?thesis
    by (simp add: liquidate_and_redeem_def load_reserve_def liq_post_redeem del: fun_upd_upd)
qed

lemma liq_obligation_ok: "obligation_ok liq_obligation"
  by (simp add: obligation_ok_def slots_ok_def liq_fields sample_deposit_slot_def
      obligation_collateral_new_def obligation_collateral_default_def liq_loan_fields
      obligation_liquidity_new_def obligation_liquidity_default_def)


text \<open>
  C10. A liquidation settles both sides of the position. The obligation's debt to the one reserve falls
  by the settled amount, and the liquidator pays it rounded up to tokens, at most the tokens offered;
  the obligation's deposit in the other reserve falls by the seized shares. The first reserve holds
  that many tokens more, and the second holds less only by what the redeemed shares paid, of which the
  protocol keeps a fee and the liquidator gets at least the minimum asked for. The obligation keeps
  one slot per reserve, and no share of any reserve loses value.
\<close>

theorem liquidation_settles_both_sides:
  assumes "num_lib L" "liquidate_and_redeem L m rk wk ob clk n min_out ov dks store = Inr (ob', store', x)"
    and "obligation_ok ob" "rk \<noteq> 0" "wk \<noteq> 0" "rk \<noteq> wk"
  shows "obligation_ok ob' \<and> store_rel grown store store' \<and>
    (\<exists>settled rr rr' wr wr'.
       book_repay (debt_book ob) rk settled = Inr (debt_book ob') \<and>
       unat (lrr_repay_amount x) = ceil_div settled fx_scale \<and> lrr_repay_amount x \<le> n \<and>
       book_withdraw (deposit_book ob) wk (unat (lrr_withdraw_amount x)) = Inr (deposit_book ob') \<and>
       store rk = Some rr \<and> store' rk = Some rr' \<and>
       available rr' = available rr + unat (lrr_repay_amount x) \<and>
       store wk = Some wr \<and> store' wk = Some wr' \<and>
       (case lrr_total_withdraw_liquidity_amount x of
          None \<Rightarrow> available wr' = available wr
        | Some (paid, fee) \<Rightarrow> available wr = available wr' + unat paid \<and> fee \<le> paid \<and>
            unat min_out \<le> unat paid - unat fee))"
proof (intro conjI)
  show "obligation_ok ob'" "store_rel grown store store'"
    using num_lib.liquidate_and_redeem_grown [OF assms(1-5)] by blast+
qed (rule num_lib.liquidation_settlement [OF assms], blast)

theorem liquidation_settles_both_sides_witness:
  "\<exists>ob' store' x. liquidate_and_redeem std_lib lending_market_default 8 7 liq_obligation settling_clock 10 1 None []
     liq_store = Inr (ob', store', x) \<and> lrr_total_withdraw_liquidity_amount x = Some (15, 1) \<and>
   (\<exists>w w'. liq_store 7 = Some w \<and> store' 7 = Some w' \<and> available w = available w' + 15)"
  using liquidation_settles_both_sides [OF std.num_lib_axioms sample_settlement liq_obligation_ok]
    sample_settlement by auto

end
