(* ===== verification/Rollover_Settlement.thy ===== *)
theory Rollover_Settlement imports Liquidation_Settlement begin

text \<open>
  What changes hands when a loan moves to another reserve: the target reserve lends the tokens that
  repay the source reserve, and the obligation owes what it owed, less than a token more.
\<close>

section \<open>A sample rollover\<close>

text \<open>
  An open-term loan of 30 tokens moves to a reserve that lends for 600 seconds at 5 percent, which the
  owner of the obligation allows.
\<close>

definition flat_curve :: borrow_rate_curve where
  "flat_curve = \<lparr> points = [curve_point_new 0 500, curve_point_new 10000 500] @
     replicate 9 (curve_point_new 10000 500) \<rparr>"

definition fixed_term_reserve :: reserve where
  "fixed_term_reserve = debt_reserve\<lparr> rsv_config := (rsv_config debt_reserve)
     \<lparr> debt_term_seconds := 600, borrow_rate_curve := flat_curve \<rparr> \<rparr>"

definition rolling_market :: lending_market where
  "rolling_market = lending_market_default\<lparr> lm_obligation_borrow_migration_to_fixed_execution_enabled := 1 \<rparr>"

definition willing :: rollover_config where
  "willing = \<lparr> auto_rollover_enabled = 0, open_term_allowed = 0, migration_to_fixed_enabled = 1,
     ro_max_borrow_rate_bps = 500, ro_min_debt_term_seconds = 600 \<rparr>"

definition willing_loan :: obligation_liquidity where
  "willing_loan = liq_loan\<lparr> ol_fixed_term_borrow_rollover_config := willing \<rparr>"

definition willing_obligation :: obligation where
  "willing_obligation = fresh_obligation\<lparr> ob_borrows := willing_loan # replicate 4 obligation_liquidity_default \<rparr>"

lemma replicates: "replicate 4 x = [x, x, x, x]" "replicate 9 x = [x, x, x, x, x, x, x, x, x]"
  by (simp_all add: numeral_eq_Suc)

lemma willing_fields:
  "ob_borrows willing_obligation = willing_loan # replicate 4 obligation_liquidity_default"
  "ob_deposits willing_obligation = ob_deposits fresh_obligation"
  "ob_elevation_group willing_obligation = 0"
  "ol_borrow_reserve willing_loan = 8" "ol_borrowed_amount_sf willing_loan = 30 * 2 ^ 60"
  "ol_fixed_term_borrow_rollover_config willing_loan = willing"
  by (simp_all add: willing_obligation_def willing_loan_def liq_loan_fields fresh_obligation_fields)

lemma willing_find:
  "find_liquidity_in_borrows willing_obligation 8 = Inr (willing_loan, 0)"
  "\<exists>e. find_liquidity_in_borrows willing_obligation 9 = Inl e"
  by (simp_all add: find_liquidity_in_borrows_def find_liquidity_index_in_borrows_def
      is_active_borrows_empty_def willing_fields loan_is_active_def fail_def
      obligation_liquidity_default_def obligation_liquidity_new_def replicates(1))

lemma term_fields:
  "rsv_liquidity fixed_term_reserve = rsv_liquidity debt_reserve" "rsv_collateral fixed_term_reserve = rsv_collateral debt_reserve"
  "rsv_last_update fixed_term_reserve = rsv_last_update debt_reserve"
  "rsv_withdraw_queue fixed_term_reserve = withdraw_queue_default"
  "get_debt_term_seconds (rsv_config fixed_term_reserve) = Some 600"
  "borrow_factor_pct (rsv_config fixed_term_reserve) = 100"
  "borrow_factor_pct (rsv_config debt_reserve) = 100"
  "get_debt_term_seconds (rsv_config debt_reserve) = None"
  "borrowed_amount_outside_elevation_group fixed_term_reserve = 0"
  by (simp_all add: fixed_term_reserve_def debt_reserve_fields sample_reserve_plain get_debt_term_seconds_def)
    (simp add: debt_reserve_def sample_queue)

lemma term_config: "rsv_config fixed_term_reserve = (zero_config flat_curve)
    \<lparr> rewards_amount_per_slot := 3, borrow_limit := 2000, borrow_factor_pct := 100,
      borrow_limit_outside_elevation_group := 5000, debt_term_seconds := 600 \<rparr>"
  by (simp add: fixed_term_reserve_def debt_reserve_fields sample_reserve_def reserve_init_def zero_config_def)

lemma rolling_possible:
  "check_rollover_possible rolling_market 8 debt_reserve 9 fixed_term_reserve willing_obligation willing_loan
     settling_clock = Inr ()"
proof -
  have m: "lm_obligation_borrow_migration_to_fixed_execution_enabled rolling_market = 1"
    "is_borrowing_disabled rolling_market = False"
    by (simp_all add: rolling_market_def lending_market_default_def is_borrowing_disabled_def)
  have r: "max_borrow_rate_bps (rsv_config fixed_term_reserve) = Inr 500"
    by (simp add: max_borrow_rate_bps_def term_config zero_config_def flat_curve_def curve_point_new_def replicates(2))
  have mode: "resolve_rollover_mode willing (rsv_config debt_reserve) (rsv_config fixed_term_reserve) = Inr FromOpenToFixedTerm"
    by (simp add: resolve_rollover_mode_def term_fields check_migration_to_fixed_term_possible_def r willing_def
        is_migration_to_fixed_enabled_def)
  have "check_repay_possible debt_reserve willing_obligation settling_clock = Inr ()"
    by (simp add: check_repay_possible_def ensure_reserve_fresh_def debt_reserve_fields settling_clock_def sample_fresh
        ensure_obligation_fresh_def willing_obligation_def fresh_obligation_fields NO_CHECKS_def)
  moreover have "check_borrow_possible rolling_market fixed_term_reserve willing_obligation settling_clock = Inr ()"
    by (simp add: check_borrow_possible_def m ensure_reserve_fresh_def term_fields debt_reserve_fields settling_clock_def
        sample_fresh ALL_CHECKS_eval clock_timestamp_def get_secs_since_debt_maturity_reached_def
        get_debt_maturity_timestamp_def term_config zero_config_def check_not_marked_for_deleveraging_def
        is_marked_for_deleveraging_def has_obsolete_reserves_def willing_obligation_def fresh_obligation_fields
        check_obligation_fully_refreshed_and_not_null_def ensure_obligation_fresh_def
        check_same_elevation_group_def ELEVATION_GROUP_NONE_def is_active_deposits_empty_def
        check_elevation_group_borrowing_enabled_def check_non_elevation_group_borrowing_enabled_def fresh_slots)
  ultimately show ?thesis
    using willing_find(2)
    by (auto simp: check_rollover_possible_def willing_fields ELEVATION_GROUP_NONE_def term_fields mode
        resolve_allowed_rollover_time_def m)
qed

definition capped_term_reserve :: "withdrawal_caps \<Rightarrow> reserve" where
  "capped_term_reserve caps =
     fixed_term_reserve\<lparr> rsv_config := (rsv_config fixed_term_reserve)\<lparr> debt_withdrawal_cap := caps \<rparr> \<rparr>"

lemma capped_term_fields:
  "rsv_liquidity (capped_term_reserve caps) = rsv_liquidity debt_reserve"
  "rsv_withdraw_queue (capped_term_reserve caps) = withdraw_queue_default"
  "rsv_collateral (capped_term_reserve caps) = rsv_collateral debt_reserve"
  by (simp_all add: capped_term_reserve_def term_fields)

lemma term_rate:
  "rsv_exchange_rate std_lib fixed_term_reserve = rsv_exchange_rate std_lib sample_reserve"
  "rsv_exchange_rate std_lib (capped_term_reserve caps) = rsv_exchange_rate std_lib sample_reserve"
  by (simp_all add: rsv_exchange_rate_def term_fields capped_term_fields) (simp_all add: debt_reserve_def total_supply_def)

lemma term_available:
  "freely_available_liquidity_amount std_lib fixed_term_reserve = Inr 1000"
  "freely_available_liquidity_amount std_lib (capped_term_reserve caps) = Inr 1000"
  by (simp_all add: freely_available_liquidity_amount_def queued_liquidity_amount_def term_rate sample_rate
      term_fields capped_term_fields
      withdraw_queue_default_def collateral_to_liquidity_def fraction_collateral_to_liquidity_def
      total_available_liquidity_amount_def debt_reserve_fields sample_fields saturating_sub_def
      bf_mul_def bf_from_def bf_div_int_def bf_try_into_def FRAC_NBITS_def to_floor_def std_eval)

lemma rolling_size: "size_rollover std_lib m fixed_term_reserve (30 * 2 ^ 60) 1000 = Inr 30"
proof -
  have "remaining_borrow_capacity std_lib fixed_term_reserve = Inr (1500 * 2 ^ 60)"
    by (simp add: remaining_borrow_capacity_def term_config zero_config_def frac_of_u64_def total_borrow_def term_fields
        debt_reserve_fields sample_fields std_eval)
  moreover have "max_borrowing_utilization_rate std_lib (rsv_config fixed_term_reserve) = Inr None"
    by (simp add: max_borrowing_utilization_rate_def term_config zero_config_def)
  moreover have "total_supply std_lib (rsv_liquidity fixed_term_reserve) = Inr (1500 * 2 ^ 60)"
    using debt_reserve_supply by (simp add: term_fields)
  moreover have "remaining_withdrawal_caps_amount (debt_withdrawal_cap (rsv_config fixed_term_reserve)) 1000 = Inr (- 1)"
    by (simp add: remaining_withdrawal_caps_amount_def term_config zero_config_def zero_withdrawal_caps_def)
  moreover have "borrow_limit_outside_elevation_group (rsv_config fixed_term_reserve) = 5000"
    by (simp add: term_config)
  ultimately have "borrowable_liquidity_amount_outside_elevation_group std_lib fixed_term_reserve 1000 = Inr 1000"
    by (simp add: borrowable_liquidity_amount_outside_elevation_group_def term_available term_fields saturating_sub_def
        to_floor_def std_eval)
  then show ?thesis by (simp add: size_rollover_def to_ceil_def frac_of_u64_def std_eval)
qed

lemma rolling_caps:
  "\<exists>caps. sub_from_withdrawal_accum (debt_withdrawal_cap (rsv_config debt_reserve)) 30 1000 = Inr caps"
  "\<exists>caps. add_to_withdrawal_accum (debt_withdrawal_cap (rsv_config fixed_term_reserve)) 30 1000 = Inr caps"
  by (simp_all add: debt_reserve_fields term_config sample_reserve_def reserve_init_def zero_config_def
      zero_withdrawal_caps_def add_to_withdrawal_accum_def sub_from_withdrawal_accum_def
      check_and_update_withdrawal_caps_def update_counter_def i64_of_u64_def to_i64_opt_def)

lemma rolling_repay:
  "\<exists>l. liquidity_repay std_lib (rsv_liquidity debt_reserve) 30 (30 * 2 ^ 60) = Inr l"
  by (simp add: liquidity_repay_def add_ov_def checked_add_def debt_reserve_fields sample_fields std_eval)

lemma rolling_borrow:
  "\<exists>r. reserve_borrow std_lib (capped_term_reserve caps) (30 * 2 ^ 60) False = Inr r \<and>
     borrowed_amount_outside_elevation_group r = 0"
proof -
  have fl: "to_floor std_lib 34587645138205409280 = Inr 30" by (simp add: to_floor_def std_eval)
  show ?thesis
    by (simp add: reserve_borrow_def fl withdraw_freely_available_def term_available take_available_def
        capped_term_fields debt_reserve_fields sample_fields sub_ov_def checked_sub_def total_borrow_def std_eval)
      (simp add: capped_term_reserve_def term_fields)
qed

lemma rolling_move:
  "\<exists>ob. move_loan std_lib willing_obligation 0 (30 * 2 ^ 60) 9 rate (30 * 2 ^ 60) cfg 1000 = Inr (ob, 0) \<and>
     (\<exists>l. ob_borrows ob = l # replicate 4 obligation_liquidity_default \<and> ol_borrow_reserve l = 9 \<and>
        ol_borrowed_amount_outside_elevation_groups l = 0) \<and>
     ob_obligation_orders ob = ob_obligation_orders fresh_obligation"
  by (simp add: move_loan_def obligation_repay_def willing_fields find_or_add_liquidity_to_borrows_def
      find_liquidity_index_in_borrows_def loan_borrow_def obligation_liquidity_default_def obligation_liquidity_new_def
      loan_is_active_def std_eval replicates(1) willing_obligation_def)

lemma rolling_trackers:
  assumes "ob_borrows ob = l # replicate 4 obligation_liquidity_default" "ol_borrow_reserve l = 9"
    "ol_borrowed_amount_outside_elevation_groups l = 0" "borrowed_amount_outside_elevation_group t = 0"
  shows "\<exists>ob' s' t'. update_elevation_group_debt_trackers_on_rollover ob 30 s t 8 0 = Inr (ob', s', t') \<and>
    ob_obligation_orders ob' = ob_obligation_orders ob"
proof -
  have "\<exists>e. find_liquidity_in_borrows ob 8 = Inl e"
    using assms
    by (simp add: find_liquidity_in_borrows_def find_liquidity_index_in_borrows_def is_active_borrows_empty_def
        loan_is_active_def fail_def obligation_liquidity_default_def obligation_liquidity_new_def replicates(1))
  then show ?thesis
    using assms
    by (auto simp: update_elevation_group_debt_trackers_on_rollover_def array_update_def array_get_def add_ov_def
        checked_add_def to_word_opt_def)
qed

lemma sample_rollover:
  "\<exists>s' t' ob' x. rollover_borrow_into_different_reserve std_lib rolling_market 8 debt_reserve 9 fixed_term_reserve
     willing_obligation settling_clock = Inr (s', t', ob', x) \<and> ftr_tokens_to_transfer_over x = 30"
proof -
  obtain sc tc where c: "sub_from_withdrawal_accum (debt_withdrawal_cap (rsv_config debt_reserve)) 30 1000 = Inr sc"
    "add_to_withdrawal_accum (debt_withdrawal_cap (rsv_config fixed_term_reserve)) 30 1000 = Inr tc"
    using rolling_caps by blast
  obtain l where l: "liquidity_repay std_lib (rsv_liquidity debt_reserve) 30 (30 * 2 ^ 60) = Inr l"
    using rolling_repay by blast
  obtain t where t: "reserve_borrow std_lib (capped_term_reserve tc) (30 * 2 ^ 60) False = Inr t"
    "borrowed_amount_outside_elevation_group t = 0"
    using rolling_borrow by blast
  have p: "preserves_rollover_config willing_loan t"
    by (simp add: preserves_rollover_config_def willing_fields willing_def is_migration_to_fixed_enabled_def)
  obtain ob slot where m: "move_loan std_lib willing_obligation 0 (30 * 2 ^ 60) 9
      (cumulative_borrow_rate_bsf (rsv_liquidity t)) (30 * 2 ^ 60) willing 1000 = Inr (ob, 0)"
    "ob_borrows ob = slot # replicate 4 obligation_liquidity_default" "ol_borrow_reserve slot = 9"
    "ol_borrowed_amount_outside_elevation_groups slot = 0"
    "ob_obligation_orders ob = ob_obligation_orders fresh_obligation"
    using rolling_move by blast
  let ?s = "debt_reserve\<lparr> rsv_config := (rsv_config debt_reserve)\<lparr> debt_withdrawal_cap := sc \<rparr>, rsv_liquidity := l \<rparr>"
  obtain ob' s' t' where tr: "update_elevation_group_debt_trackers_on_rollover ob 30 ?s t 8 0 = Inr (ob', s', t')"
    "ob_obligation_orders ob' = ob_obligation_orders fresh_obligation"
    using rolling_trackers [OF m(2-4) t(2)] m(5) by metis
  have o: "check_orders_supported_after_user_operation ob' = Inr ()"
    by (simp add: check_orders_supported_after_user_operation_def tr(2) fresh_obligation_def sample_obligation_def
        obligation_default_def order_is_supported_by_def numeral_2_eq_2)
  have b: "check_below_obligation_allowed_borrow_value std_lib willing_obligation fixed_term_reserve 0 = Inr ()"
    by (simp add: check_below_obligation_allowed_borrow_value_def liquidity_amount_to_market_value_def term_fields
        debt_reserve_fields FRACTION_ONE_SCALED_def full_mul_int_ratio_def mul_ov_def checked_mul_def
        borrow_factor_f_def get_borrow_factor_def willing_fields from_percent_def ELEVATION_GROUP_NONE_def std_eval)
  have ts: "clock_timestamp (clk_unix_timestamp settling_clock) = Inr 1000"
    by (simp add: settling_clock_def clock_timestamp_def)
  have sz: "size_rollover std_lib rolling_market fixed_term_reserve 34587645138205409280 1000 = Inr 30"
    using rolling_size by simp
  show ?thesis
    using c l t(1) m(1) tr(1) o p
    by (simp add: rollover_borrow_into_different_reserve_def willing_find(1) rolling_possible ts willing_fields
        sz frac_of_u64_def std_eval b capped_term_reserve_def)
qed

section \<open>Both reserves\<close>

text \<open>
  C15. A loan that moves to another reserve is repaid there and borrowed here in one step: the target
  reserve lends a whole number of tokens, which all go to the source reserve; the obligation's debt to
  the source falls by what they repay, its debt to the target grows by what they are worth, and the
  total grows by less than one token. Its deposits and the value of the shares of both reserves are
  kept.
\<close>

theorem rollover_moves_the_debt:
  assumes "num_lib L" "rollover_borrow_into_different_reserve L m sk s tk t ob clk = Inr (s', t', ob', x)"
    and "obligation_ok ob" "sk \<noteq> 0" "tk \<noteq> 0"
  shows "obligation_ok ob' \<and> deposit_book ob' = deposit_book ob \<and>
    (\<exists>d. book_repay (debt_book ob) sk (unat (ftr_repaid_amount x)) = Inr d \<and>
       book_borrow d tk (unat (ftr_borrowed_amount x)) = Inr (debt_book ob')) \<and>
    unat (ftr_borrowed_amount x) = unat (ftr_tokens_to_transfer_over x) * fx_scale \<and>
    unat (ftr_repaid_amount x) \<le> unat (ftr_borrowed_amount x) \<and>
    unat (ftr_borrowed_amount x) < unat (ftr_repaid_amount x) + fx_scale \<and>
    available s' = available s + unat (ftr_tokens_to_transfer_over x) \<and>
    available t = available t' + unat (ftr_tokens_to_transfer_over x) \<and> kept s s' \<and> kept t t'"
  using num_lib.rollover_effect [OF assms] unfolding available_def by blast

lemma willing_obligation_ok: "obligation_ok willing_obligation"
  using fresh_obligation_ok
  by (simp add: obligation_ok_def slots_ok_def willing_fields replicates(1) obligation_liquidity_default_def
      obligation_liquidity_new_def)

theorem rollover_moves_the_debt_witness:
  "\<exists>s' t' ob' x. rollover_borrow_into_different_reserve std_lib rolling_market 8 debt_reserve 9 fixed_term_reserve
     willing_obligation settling_clock = Inr (s', t', ob', x) \<and> available s' = available debt_reserve + 30 \<and>
   available fixed_term_reserve = available t' + 30"
proof -
  obtain s' t' ob' x where r: "rollover_borrow_into_different_reserve std_lib rolling_market 8 debt_reserve 9
      fixed_term_reserve willing_obligation settling_clock = Inr (s', t', ob', x)" "ftr_tokens_to_transfer_over x = 30"
    using sample_rollover by blast
  from rollover_moves_the_debt [OF std.num_lib_axioms r(1) willing_obligation_ok] r show ?thesis by auto
qed

end
