(* ===== verification/Reserve_Updates.thy ===== *)
theory Reserve_Updates imports Reserve_Histories begin

text \<open>
  Changes of a reserve's configuration: the modes of \<open>update_reserve_config\<close> with their validations
  (\<open>lending_market/lending_operations.rs\<close>), the integrity of a whole configuration, who may change
  what, and the handlers \<open>handler_update_reserve_config.rs\<close>, \<open>handler_clone_reserve_config.rs\<close> and
  the account that \<open>handler_init_reserve.rs\<close> writes. Creating the token accounts and moving the
  first deposit are transfers of the token program and left out.
\<close>

section \<open>Modes\<close>

datatype update_config_mode =
    UpdateLoanToValuePct | UpdateMaxLiquidationBonusBps | UpdateLiquidationThresholdPct |
    UpdateProtocolLiquidationFee | UpdateProtocolTakeRate | UpdateFeesOriginationFee |
    UpdateFeesFlashLoanFee | DeprecatedUpdateFeesReferralFeeBps | UpdateDepositLimit |
    UpdateBorrowLimit | UpdateTokenInfoLowerHeuristic | UpdateTokenInfoUpperHeuristic |
    UpdateTokenInfoExpHeuristic | UpdateTokenInfoTwapDivergence | UpdateTokenInfoScopeTwap |
    UpdateTokenInfoScopeChain | UpdateTokenInfoName | UpdateTokenInfoPriceMaxAge |
    UpdateTokenInfoTwapMaxAge | UpdateScopePriceFeed | UpdatePythPrice | UpdateSwitchboardFeed |
    UpdateSwitchboardTwapFeed | UpdateBorrowRateCurve | DeprecatedUpdateEntireReserveConfig |
    UpdateDebtWithdrawalCap | UpdateDepositWithdrawalCap |
    DeprecatedUpdateDebtWithdrawalCapCurrentTotal |
    DeprecatedUpdateDepositWithdrawalCapCurrentTotal | UpdateBadDebtLiquidationBonusBps |
    UpdateMinLiquidationBonusBps | UpdateDeleveragingMarginCallPeriod | UpdateBorrowFactor |
    DeprecatedUpdateAssetTier | UpdateElevationGroup |
    UpdateDeleveragingThresholdDecreaseBpsPerDay | DeprecatedUpdateMultiplierSideBoost |
    DeprecatedUpdateMultiplierTagBoost | UpdateReserveStatus | UpdateFarmCollateral |
    UpdateFarmDebt | UpdateDisableUsageAsCollateralOutsideEmode |
    UpdateBlockBorrowingAboveUtilizationPct | UpdateBlockPriceUsage |
    UpdateBorrowLimitOutsideElevationGroup |
    UpdateBorrowLimitsInElevationGroupAgainstThisReserve | UpdateHostFixedInterestRateBps |
    UpdateAutodeleverageEnabled | UpdateDeleveragingBonusIncreaseBpsPerDay |
    UpdateProtocolOrderExecutionFee | UpdateProposerAuthorityLock | UpdateMinDeleveragingBonusBps |
    UpdateBlockCTokenUsage | UpdateDebtMaturityTimestamp | UpdateDebtTermSeconds |
    UpdateEarlyRepayRemainingInterestPct | UpdateReserveEmergencyMode | UpdateRewardsAmountPerSlot |
    UpdateReservePermissionedOps

text \<open>Decoders of the values that only a reserve has: the arrays, the signed capacity and the curve.\<close>

record reserve_decoders =
  de_i64 :: "u8 list \<Rightarrow> i64 res"
  de_chain :: "u8 list \<Rightarrow> u16 list res"
  de_name :: "u8 list \<Rightarrow> u8 list res"
  de_curve :: "u8 list \<Rightarrow> borrow_rate_curve res"
  de_groups :: "u8 list \<Rightarrow> u8 list res"
  de_limits :: "u8 list \<Rightarrow> u64 list res"

text \<open>\<open>borsh_deserialize\<close> (\<open>utils/mod.rs\<close>) aborts where the decoder fails.\<close>

definition borsh_deserialize :: "(u8 list \<Rightarrow> 'a res) \<Rightarrow> u8 list \<Rightarrow> 'a res" where
  "borsh_deserialize de bytes = (case de bytes of Inl _ \<Rightarrow> Inl Panic | Inr v \<Rightarrow> Inr v)"

section \<open>Validations\<close>

definition check_proper_fraction :: "u64 \<Rightarrow> unit res" where
  "check_proper_fraction sf = check_lte fx_scale sf"

definition check_proper_fraction_or_max :: "u64 \<Rightarrow> unit res" where
  "check_proper_fraction_or_max sf = (if sf = - 1 then Inr () else check_proper_fraction sf)"

definition check_not_set_in_the_past :: "clock \<Rightarrow> u64 \<Rightarrow> unit res" where
  "check_not_set_in_the_past clk subject_timestamp =
     rbind (clock_timestamp (clk_unix_timestamp clk)) (\<lambda>timestamp.
     if subject_timestamp \<noteq> 0 \<and> subject_timestamp < timestamp then fail InvalidConfig else Inr ())"

definition check_debt_term_not_shortened_on_reserve_having_borrows ::
  "u64 option \<Rightarrow> u64 option \<Rightarrow> bool \<Rightarrow> unit res" where
  "check_debt_term_not_shortened_on_reserve_having_borrows previous new_term reserve_has_borrows =
     (if \<not> reserve_has_borrows then Inr ()
      else case new_term of
        None \<Rightarrow> Inr ()
      | Some n \<Rightarrow> (case previous of
          None \<Rightarrow> fail InvalidConfig
        | Some p \<Rightarrow> if n < p then fail InvalidConfig else Inr ()))"

text \<open>Writers into the nested parts of a configuration.\<close>

definition on_config :: "reserve \<Rightarrow> (reserve_config \<Rightarrow> reserve_config) \<Rightarrow> reserve" where
  "on_config r f = r\<lparr> rsv_config := f (rsv_config r) \<rparr>"

definition on_token :: "reserve \<Rightarrow> (token_info \<Rightarrow> token_info) \<Rightarrow> reserve" where
  "on_token r f = on_config r (\<lambda>c. c\<lparr> token_info := f (token_info c) \<rparr>)"

text \<open>
  A withdrawal cap is set from two numbers: the capacity, then the interval from the eighth byte on
  (slicing a shorter value aborts).
\<close>

definition set_withdrawal_cap ::
  "decoders \<Rightarrow> reserve_decoders \<Rightarrow> withdrawal_caps \<Rightarrow> u8 list \<Rightarrow> withdrawal_caps res" where
  "set_withdrawal_cap D RD caps bytes =
     rbind (set_field (de_i64 RD) check_not_negative bytes (\<lambda>v. caps\<lparr> config_capacity := v \<rparr>)) (\<lambda>caps.
     if length bytes < 8 then Inl Panic
     else set_field (de_u64 D) accept_anything (drop 8 bytes)
       (\<lambda>v. caps\<lparr> config_interval_length_seconds := v \<rparr>))"

section \<open>\<open>update_reserve_config\<close>\<close>

primrec set_reserve_field ::
  "decoders \<Rightarrow> reserve_decoders \<Rightarrow> reserve \<Rightarrow> update_config_mode \<Rightarrow> u8 list \<Rightarrow> clock \<Rightarrow> reserve res" where
  "set_reserve_field D RD r UpdateLoanToValuePct bytes clk =
     set_field (de_u8 D) check_valid_pct bytes (\<lambda>v. on_config r (\<lambda>c. c\<lparr> loan_to_value_pct := v \<rparr>))"
| "set_reserve_field D RD r UpdateMaxLiquidationBonusBps bytes clk =
     set_field (de_u16 D) check_valid_bps bytes (\<lambda>v. on_config r (\<lambda>c. c\<lparr> max_liquidation_bonus_bps := v \<rparr>))"
| "set_reserve_field D RD r UpdateLiquidationThresholdPct bytes clk =
     set_field (de_u8 D) check_valid_pct bytes (\<lambda>v. on_config r (\<lambda>c. c\<lparr> liquidation_threshold_pct := v \<rparr>))"
| "set_reserve_field D RD r UpdateProtocolLiquidationFee bytes clk =
     set_field (de_u8 D) check_valid_pct bytes (\<lambda>v. on_config r (\<lambda>c. c\<lparr> protocol_liquidation_fee_pct := v \<rparr>))"
| "set_reserve_field D RD r UpdateProtocolOrderExecutionFee bytes clk =
     set_field (de_u8 D) check_valid_pct bytes (\<lambda>v. on_config r (\<lambda>c. c\<lparr> protocol_order_execution_fee_pct := v \<rparr>))"
| "set_reserve_field D RD r UpdateProtocolTakeRate bytes clk =
     set_field (de_u8 D) check_valid_pct bytes (\<lambda>v. on_config r (\<lambda>c. c\<lparr> protocol_take_rate_pct := v \<rparr>))"
| "set_reserve_field D RD r UpdateFeesOriginationFee bytes clk =
     set_field (de_u64 D) check_proper_fraction bytes
       (\<lambda>v. on_config r (\<lambda>c. c\<lparr> cfg_fees := (cfg_fees c)\<lparr> origination_fee_sf := v \<rparr> \<rparr>))"
| "set_reserve_field D RD r UpdateFeesFlashLoanFee bytes clk =
     set_field (de_u64 D) check_proper_fraction_or_max bytes
       (\<lambda>v. on_config r (\<lambda>c. c\<lparr> cfg_fees := (cfg_fees c)\<lparr> flash_loan_fee_sf := v \<rparr> \<rparr>))"
| "set_reserve_field D RD r UpdateDepositLimit bytes clk =
     set_field (de_u64 D) accept_anything bytes (\<lambda>v. on_config r (\<lambda>c. c\<lparr> deposit_limit := v \<rparr>))"
| "set_reserve_field D RD r UpdateBorrowLimit bytes clk =
     set_field (de_u64 D) accept_anything bytes (\<lambda>v. on_config r (\<lambda>c. c\<lparr> borrow_limit := v \<rparr>))"
| "set_reserve_field D RD r UpdateTokenInfoLowerHeuristic bytes clk =
     set_field (de_u64 D) accept_anything bytes
       (\<lambda>v. on_token r (\<lambda>t. t\<lparr> heuristic := (heuristic t)\<lparr> ph_lower := v \<rparr> \<rparr>))"
| "set_reserve_field D RD r UpdateTokenInfoUpperHeuristic bytes clk =
     set_field (de_u64 D) accept_anything bytes
       (\<lambda>v. on_token r (\<lambda>t. t\<lparr> heuristic := (heuristic t)\<lparr> ph_upper := v \<rparr> \<rparr>))"
| "set_reserve_field D RD r UpdateTokenInfoExpHeuristic bytes clk =
     set_field (de_u64 D) accept_anything bytes
       (\<lambda>v. on_token r (\<lambda>t. t\<lparr> heuristic := (heuristic t)\<lparr> ph_exp := v \<rparr> \<rparr>))"
| "set_reserve_field D RD r UpdateTokenInfoTwapDivergence bytes clk =
     set_field (de_u64 D) check_valid_bps bytes (\<lambda>v. on_token r (\<lambda>t. t\<lparr> max_twap_divergence_bps := v \<rparr>))"
| "set_reserve_field D RD r UpdateTokenInfoScopeChain bytes clk =
     set_field (de_chain RD) accept_anything bytes
       (\<lambda>v. on_token r (\<lambda>t. t\<lparr> scope_configuration := (scope_configuration t)\<lparr> price_chain := v \<rparr> \<rparr>))"
| "set_reserve_field D RD r UpdateTokenInfoScopeTwap bytes clk =
     set_field (de_chain RD) accept_anything bytes
       (\<lambda>v. on_token r (\<lambda>t. t\<lparr> scope_configuration := (scope_configuration t)\<lparr> twap_chain := v \<rparr> \<rparr>))"
| "set_reserve_field D RD r UpdateTokenInfoName bytes clk =
     rbind (set_item (de_name RD) accept_anything bytes) (\<lambda>v.
     if \<not> utf8_valid (token_name (token_info (rsv_config r))) \<or> \<not> utf8_valid v then Inl Panic
     else Inr (on_token r (\<lambda>t. t\<lparr> token_name := v \<rparr>)))"
| "set_reserve_field D RD r UpdateTokenInfoPriceMaxAge bytes clk =
     set_field (de_u64 D) accept_anything bytes (\<lambda>v. on_token r (\<lambda>t. t\<lparr> max_age_price_seconds := v \<rparr>))"
| "set_reserve_field D RD r UpdateTokenInfoTwapMaxAge bytes clk =
     set_field (de_u64 D) accept_anything bytes (\<lambda>v. on_token r (\<lambda>t. t\<lparr> max_age_twap_seconds := v \<rparr>))"
| "set_reserve_field D RD r UpdateScopePriceFeed bytes clk =
     set_field (de_pubkey D) accept_anything bytes
       (\<lambda>v. on_token r (\<lambda>t. t\<lparr> scope_configuration := (scope_configuration t)\<lparr> scope_price_feed := v \<rparr> \<rparr>))"
| "set_reserve_field D RD r UpdatePythPrice bytes clk =
     set_field (de_pubkey D) accept_anything bytes
       (\<lambda>v. on_token r (\<lambda>t. t\<lparr> pyth_configuration := (pyth_configuration t)\<lparr> pyth_price := v \<rparr> \<rparr>))"
| "set_reserve_field D RD r UpdateSwitchboardFeed bytes clk =
     set_field (de_pubkey D) accept_anything bytes
       (\<lambda>v. on_token r (\<lambda>t. t\<lparr> switchboard_configuration := (switchboard_configuration t)\<lparr> price_aggregator := v \<rparr> \<rparr>))"
| "set_reserve_field D RD r UpdateSwitchboardTwapFeed bytes clk =
     set_field (de_pubkey D) accept_anything bytes
       (\<lambda>v. on_token r (\<lambda>t. t\<lparr> switchboard_configuration := (switchboard_configuration t)\<lparr> twap_aggregator := v \<rparr> \<rparr>))"
| "set_reserve_field D RD r UpdateBorrowRateCurve bytes clk =
     set_field (de_curve RD) accept_anything bytes (\<lambda>v. on_config r (\<lambda>c. c\<lparr> borrow_rate_curve := v \<rparr>))"
| "set_reserve_field D RD r UpdateDebtWithdrawalCap bytes clk =
     rbind (set_withdrawal_cap D RD (debt_withdrawal_cap (rsv_config r)) bytes) (\<lambda>v.
     Inr (on_config r (\<lambda>c. c\<lparr> debt_withdrawal_cap := v \<rparr>)))"
| "set_reserve_field D RD r UpdateDepositWithdrawalCap bytes clk =
     rbind (set_withdrawal_cap D RD (deposit_withdrawal_cap (rsv_config r)) bytes) (\<lambda>v.
     Inr (on_config r (\<lambda>c. c\<lparr> deposit_withdrawal_cap := v \<rparr>)))"
| "set_reserve_field D RD r UpdateBadDebtLiquidationBonusBps bytes clk =
     set_field (de_u16 D) (check_lte 100) bytes (\<lambda>v. on_config r (\<lambda>c. c\<lparr> bad_debt_liquidation_bonus_bps := v \<rparr>))"
| "set_reserve_field D RD r UpdateMinLiquidationBonusBps bytes clk =
     set_field (de_u16 D) check_valid_bps bytes (\<lambda>v. on_config r (\<lambda>c. c\<lparr> min_liquidation_bonus_bps := v \<rparr>))"
| "set_reserve_field D RD r UpdateDeleveragingMarginCallPeriod bytes clk =
     set_field (de_u64 D) accept_anything bytes
       (\<lambda>v. on_config r (\<lambda>c. c\<lparr> deleveraging_margin_call_period_secs := v \<rparr>))"
| "set_reserve_field D RD r UpdateBorrowFactor bytes clk =
     set_field (de_u64 D) (check_gte 100) bytes (\<lambda>v. on_config r (\<lambda>c. c\<lparr> borrow_factor_pct := v \<rparr>))"
| "set_reserve_field D RD r UpdateElevationGroup bytes clk =
     set_field (de_groups RD) accept_anything bytes (\<lambda>v. on_config r (\<lambda>c. c\<lparr> cfg_elevation_groups := v \<rparr>))"
| "set_reserve_field D RD r UpdateDeleveragingThresholdDecreaseBpsPerDay bytes clk =
     set_field (de_u64 D) accept_anything bytes
       (\<lambda>v. on_config r (\<lambda>c. c\<lparr> deleveraging_threshold_decrease_bps_per_day := v \<rparr>))"
| "set_reserve_field D RD r UpdateReserveStatus bytes clk =
     set_field (de_u8 D) (check_valid_u8_enum reserve_status_of_u8) bytes
       (\<lambda>v. on_config r (\<lambda>c. c\<lparr> cfg_status := v \<rparr>))"
| "set_reserve_field D RD r UpdateBorrowLimitOutsideElevationGroup bytes clk =
     set_field (de_u64 D) accept_anything bytes
       (\<lambda>v. on_config r (\<lambda>c. c\<lparr> borrow_limit_outside_elevation_group := v \<rparr>))"
| "set_reserve_field D RD r UpdateBorrowLimitsInElevationGroupAgainstThisReserve bytes clk =
     set_field (de_limits RD) accept_anything bytes
       (\<lambda>v. on_config r (\<lambda>c. c\<lparr> borrow_limit_against_this_collateral_in_elevation_group := v \<rparr>))"
| "set_reserve_field D RD r UpdateFarmCollateral bytes clk =
     set_field (de_pubkey D) accept_anything bytes (\<lambda>v. r\<lparr> farm_collateral := v \<rparr>)"
| "set_reserve_field D RD r UpdateFarmDebt bytes clk =
     set_field (de_pubkey D) accept_anything bytes (\<lambda>v. r\<lparr> farm_debt := v \<rparr>)"
| "set_reserve_field D RD r UpdateDisableUsageAsCollateralOutsideEmode bytes clk =
     set_field (de_u8 D) check_bool bytes (\<lambda>v. on_config r (\<lambda>c. c\<lparr> disable_usage_as_coll_outside_emode := v \<rparr>))"
| "set_reserve_field D RD r UpdateBlockBorrowingAboveUtilizationPct bytes clk =
     set_field (de_u8 D) check_valid_pct bytes
       (\<lambda>v. on_config r (\<lambda>c. c\<lparr> utilization_limit_block_borrowing_above_pct := v \<rparr>))"
| "set_reserve_field D RD r UpdateBlockPriceUsage bytes clk =
     set_field (de_u8 D) check_bool bytes (\<lambda>v. on_token r (\<lambda>t. t\<lparr> block_price_usage := v \<rparr>))"
| "set_reserve_field D RD r UpdateHostFixedInterestRateBps bytes clk =
     set_field (de_u16 D) check_valid_bps bytes (\<lambda>v. on_config r (\<lambda>c. c\<lparr> host_fixed_interest_rate_bps := v \<rparr>))"
| "set_reserve_field D RD r UpdateAutodeleverageEnabled bytes clk =
     set_field (de_u8 D) check_bool bytes (\<lambda>v. on_config r (\<lambda>c. c\<lparr> autodeleverage_enabled := v \<rparr>))"
| "set_reserve_field D RD r UpdateDeleveragingBonusIncreaseBpsPerDay bytes clk =
     set_field (de_u64 D) accept_anything bytes
       (\<lambda>v. on_config r (\<lambda>c. c\<lparr> deleveraging_bonus_increase_bps_per_day := v \<rparr>))"
| "set_reserve_field D RD r UpdateMinDeleveragingBonusBps bytes clk =
     set_field (de_u16 D) check_valid_bps bytes (\<lambda>v. on_config r (\<lambda>c. c\<lparr> min_deleveraging_bonus_bps := v \<rparr>))"
| "set_reserve_field D RD r UpdateDebtMaturityTimestamp bytes clk =
     set_field (de_u64 D) (check_not_set_in_the_past clk) bytes
       (\<lambda>v. on_config r (\<lambda>c. c\<lparr> debt_maturity_timestamp := v \<rparr>))"
| "set_reserve_field D RD r UpdateProposerAuthorityLock bytes clk =
     set_field (de_u8 D) check_bool bytes (\<lambda>v. on_config r (\<lambda>c. c\<lparr> proposer_authority_locked := v \<rparr>))"
| "set_reserve_field D RD r UpdateDebtTermSeconds bytes clk =
     set_field (de_u64 D)
       (\<lambda>v. check_debt_term_not_shortened_on_reserve_having_borrows
              (get_debt_term_seconds (rsv_config r)) (if v > 0 then Some v else None)
              (borrowed_amount_sf (rsv_liquidity r) > 0)) bytes
       (\<lambda>v. on_config r (\<lambda>c. c\<lparr> debt_term_seconds := v \<rparr>))"
| "set_reserve_field D RD r UpdateEarlyRepayRemainingInterestPct bytes clk =
     set_field (de_u8 D) check_valid_pct bytes
       (\<lambda>v. on_config r (\<lambda>c. c\<lparr> early_repay_remaining_interest_pct := v \<rparr>))"
| "set_reserve_field D RD r UpdateBlockCTokenUsage bytes clk =
     set_field (de_u8 D) check_bool bytes (\<lambda>v. on_config r (\<lambda>c. c\<lparr> block_ctoken_usage := v \<rparr>))"
| "set_reserve_field D RD r UpdateReserveEmergencyMode bytes clk =
     set_field (de_u8 D) check_bool bytes (\<lambda>v. on_config r (\<lambda>c. c\<lparr> emergency_mode := v \<rparr>))"
| "set_reserve_field D RD r UpdateRewardsAmountPerSlot bytes clk =
     set_field (de_u64 D) accept_anything bytes (\<lambda>v. on_config r (\<lambda>c. c\<lparr> rewards_amount_per_slot := v \<rparr>))"
| "set_reserve_field D RD r UpdateReservePermissionedOps bytes clk =
     set_field (de_u64 D) check_valid_permissioned_ops bytes
       (\<lambda>v. on_config r (\<lambda>c. c\<lparr> permissioned_ops := v \<rparr>))"
| "set_reserve_field D RD r DeprecatedUpdateFeesReferralFeeBps bytes clk = Inl Panic"
| "set_reserve_field D RD r DeprecatedUpdateMultiplierSideBoost bytes clk = Inl Panic"
| "set_reserve_field D RD r DeprecatedUpdateMultiplierTagBoost bytes clk = Inl Panic"
| "set_reserve_field D RD r DeprecatedUpdateDebtWithdrawalCapCurrentTotal bytes clk = Inl Panic"
| "set_reserve_field D RD r DeprecatedUpdateAssetTier bytes clk = Inl Panic"
| "set_reserve_field D RD r DeprecatedUpdateEntireReserveConfig bytes clk = Inl Panic"
| "set_reserve_field D RD r DeprecatedUpdateDepositWithdrawalCapCurrentTotal bytes clk = Inl Panic"

definition update_reserve_config ::
  "decoders \<Rightarrow> reserve_decoders \<Rightarrow> reserve \<Rightarrow> update_config_mode \<Rightarrow> u8 list \<Rightarrow> clock \<Rightarrow> reserve res" where
  "update_reserve_config D RD r mode bytes clk =
     rbind (set_reserve_field D RD r mode bytes clk) (\<lambda>r. Inr (mark_reserve_stale r))"

definition clone_reserve_config ::
  "reserve \<Rightarrow> reserve \<Rightarrow> reserve_config_customizations \<Rightarrow> reserve res" where
  "clone_reserve_config source target customizations =
     rbind (config_from_customized (rsv_config source) customizations) (\<lambda>c.
     if rsv_lending_market source \<noteq> rsv_lending_market target \<and> cfg_elevation_groups c \<noteq> replicate 20 0
     then fail InvalidConfig
     else Inr (target\<lparr> rsv_config := c \<rparr>))"

section \<open>Who may change what\<close>

primrec is_update_reserve_config_mode_global_admin_only :: "update_config_mode \<Rightarrow> bool" where
  "is_update_reserve_config_mode_global_admin_only UpdateProtocolTakeRate \<longleftrightarrow> True"
| "is_update_reserve_config_mode_global_admin_only UpdateProtocolLiquidationFee \<longleftrightarrow> True"
| "is_update_reserve_config_mode_global_admin_only UpdateHostFixedInterestRateBps \<longleftrightarrow> True"
| "is_update_reserve_config_mode_global_admin_only UpdateProtocolOrderExecutionFee \<longleftrightarrow> True"
| "is_update_reserve_config_mode_global_admin_only UpdateFeesOriginationFee \<longleftrightarrow> True"
| "is_update_reserve_config_mode_global_admin_only UpdateFeesFlashLoanFee \<longleftrightarrow> True"
| "is_update_reserve_config_mode_global_admin_only UpdateBlockCTokenUsage \<longleftrightarrow> True"
| "is_update_reserve_config_mode_global_admin_only UpdateLoanToValuePct \<longleftrightarrow> False"
| "is_update_reserve_config_mode_global_admin_only UpdateMaxLiquidationBonusBps \<longleftrightarrow> False"
| "is_update_reserve_config_mode_global_admin_only UpdateLiquidationThresholdPct \<longleftrightarrow> False"
| "is_update_reserve_config_mode_global_admin_only DeprecatedUpdateFeesReferralFeeBps \<longleftrightarrow> False"
| "is_update_reserve_config_mode_global_admin_only UpdateDepositLimit \<longleftrightarrow> False"
| "is_update_reserve_config_mode_global_admin_only UpdateBorrowLimit \<longleftrightarrow> False"
| "is_update_reserve_config_mode_global_admin_only UpdateTokenInfoLowerHeuristic \<longleftrightarrow> False"
| "is_update_reserve_config_mode_global_admin_only UpdateTokenInfoUpperHeuristic \<longleftrightarrow> False"
| "is_update_reserve_config_mode_global_admin_only UpdateTokenInfoExpHeuristic \<longleftrightarrow> False"
| "is_update_reserve_config_mode_global_admin_only UpdateTokenInfoTwapDivergence \<longleftrightarrow> False"
| "is_update_reserve_config_mode_global_admin_only UpdateTokenInfoScopeTwap \<longleftrightarrow> False"
| "is_update_reserve_config_mode_global_admin_only UpdateTokenInfoScopeChain \<longleftrightarrow> False"
| "is_update_reserve_config_mode_global_admin_only UpdateTokenInfoName \<longleftrightarrow> False"
| "is_update_reserve_config_mode_global_admin_only UpdateTokenInfoPriceMaxAge \<longleftrightarrow> False"
| "is_update_reserve_config_mode_global_admin_only UpdateTokenInfoTwapMaxAge \<longleftrightarrow> False"
| "is_update_reserve_config_mode_global_admin_only UpdateScopePriceFeed \<longleftrightarrow> False"
| "is_update_reserve_config_mode_global_admin_only UpdatePythPrice \<longleftrightarrow> False"
| "is_update_reserve_config_mode_global_admin_only UpdateSwitchboardFeed \<longleftrightarrow> False"
| "is_update_reserve_config_mode_global_admin_only UpdateSwitchboardTwapFeed \<longleftrightarrow> False"
| "is_update_reserve_config_mode_global_admin_only UpdateBorrowRateCurve \<longleftrightarrow> False"
| "is_update_reserve_config_mode_global_admin_only DeprecatedUpdateEntireReserveConfig \<longleftrightarrow> False"
| "is_update_reserve_config_mode_global_admin_only UpdateDebtWithdrawalCap \<longleftrightarrow> False"
| "is_update_reserve_config_mode_global_admin_only UpdateDepositWithdrawalCap \<longleftrightarrow> False"
| "is_update_reserve_config_mode_global_admin_only DeprecatedUpdateDebtWithdrawalCapCurrentTotal \<longleftrightarrow> False"
| "is_update_reserve_config_mode_global_admin_only DeprecatedUpdateDepositWithdrawalCapCurrentTotal \<longleftrightarrow> False"
| "is_update_reserve_config_mode_global_admin_only UpdateBadDebtLiquidationBonusBps \<longleftrightarrow> False"
| "is_update_reserve_config_mode_global_admin_only UpdateMinLiquidationBonusBps \<longleftrightarrow> False"
| "is_update_reserve_config_mode_global_admin_only UpdateDeleveragingMarginCallPeriod \<longleftrightarrow> False"
| "is_update_reserve_config_mode_global_admin_only UpdateBorrowFactor \<longleftrightarrow> False"
| "is_update_reserve_config_mode_global_admin_only DeprecatedUpdateAssetTier \<longleftrightarrow> False"
| "is_update_reserve_config_mode_global_admin_only UpdateElevationGroup \<longleftrightarrow> False"
| "is_update_reserve_config_mode_global_admin_only UpdateDeleveragingThresholdDecreaseBpsPerDay \<longleftrightarrow> False"
| "is_update_reserve_config_mode_global_admin_only DeprecatedUpdateMultiplierSideBoost \<longleftrightarrow> False"
| "is_update_reserve_config_mode_global_admin_only DeprecatedUpdateMultiplierTagBoost \<longleftrightarrow> False"
| "is_update_reserve_config_mode_global_admin_only UpdateReserveStatus \<longleftrightarrow> False"
| "is_update_reserve_config_mode_global_admin_only UpdateFarmCollateral \<longleftrightarrow> False"
| "is_update_reserve_config_mode_global_admin_only UpdateFarmDebt \<longleftrightarrow> False"
| "is_update_reserve_config_mode_global_admin_only UpdateDisableUsageAsCollateralOutsideEmode \<longleftrightarrow> False"
| "is_update_reserve_config_mode_global_admin_only UpdateBlockBorrowingAboveUtilizationPct \<longleftrightarrow> False"
| "is_update_reserve_config_mode_global_admin_only UpdateBlockPriceUsage \<longleftrightarrow> False"
| "is_update_reserve_config_mode_global_admin_only UpdateBorrowLimitOutsideElevationGroup \<longleftrightarrow> False"
| "is_update_reserve_config_mode_global_admin_only UpdateBorrowLimitsInElevationGroupAgainstThisReserve \<longleftrightarrow> False"
| "is_update_reserve_config_mode_global_admin_only UpdateAutodeleverageEnabled \<longleftrightarrow> False"
| "is_update_reserve_config_mode_global_admin_only UpdateDeleveragingBonusIncreaseBpsPerDay \<longleftrightarrow> False"
| "is_update_reserve_config_mode_global_admin_only UpdateMinDeleveragingBonusBps \<longleftrightarrow> False"
| "is_update_reserve_config_mode_global_admin_only UpdateDebtMaturityTimestamp \<longleftrightarrow> False"
| "is_update_reserve_config_mode_global_admin_only UpdateDebtTermSeconds \<longleftrightarrow> False"
| "is_update_reserve_config_mode_global_admin_only UpdateReserveEmergencyMode \<longleftrightarrow> False"
| "is_update_reserve_config_mode_global_admin_only UpdateProposerAuthorityLock \<longleftrightarrow> False"
| "is_update_reserve_config_mode_global_admin_only UpdateEarlyRepayRemainingInterestPct \<longleftrightarrow> False"
| "is_update_reserve_config_mode_global_admin_only UpdateRewardsAmountPerSlot \<longleftrightarrow> False"
| "is_update_reserve_config_mode_global_admin_only UpdateReservePermissionedOps \<longleftrightarrow> False"

definition is_update_reserve_config_mode_allowed_for_emergency_council ::
  "decoders \<Rightarrow> update_config_mode \<Rightarrow> u8 list \<Rightarrow> bool res" where
  "is_update_reserve_config_mode_allowed_for_emergency_council D mode bytes = (case mode of
     UpdateBorrowLimit \<Rightarrow> rbind (borsh_deserialize (de_u64 D) bytes) (\<lambda>v. Inr (v = 0))
   | UpdateBlockPriceUsage \<Rightarrow> rbind (borsh_deserialize (de_u8 D) bytes) (\<lambda>v. Inr (v = 1))
   | UpdateReserveEmergencyMode \<Rightarrow> rbind (borsh_deserialize (de_u8 D) bytes) (\<lambda>v. Inr (v = 1))
   | UpdateDisableUsageAsCollateralOutsideEmode \<Rightarrow>
       rbind (borsh_deserialize (de_u8 D) bytes) (\<lambda>v. Inr (v = 1))
   | UpdateDepositLimit \<Rightarrow> rbind (borsh_deserialize (de_u64 D) bytes) (\<lambda>v. Inr (v = 0))
   | UpdateLoanToValuePct \<Rightarrow> rbind (borsh_deserialize (de_u8 D) bytes) (\<lambda>v. Inr (v = 0))
   | _ \<Rightarrow> Inr False)"

definition is_allowed_signer_to_init_reserve :: "pubkey \<Rightarrow> lending_market \<Rightarrow> bool" where
  "is_allowed_signer_to_init_reserve signer m \<longleftrightarrow>
     signer = lm_lending_market_owner m \<or> signer = lm_proposer_authority m"

definition initialization_phase :: "lending_market \<Rightarrow> reserve \<Rightarrow> bool" where
  "initialization_phase m r \<longleftrightarrow> \<not> is_used r (lm_min_initial_deposit_amount m) \<and>
     is_usage_blocked r \<and> proposer_authority_locked (rsv_config r) = 0"

definition is_allowed_signer_to_update_reserve_config ::
  "decoders \<Rightarrow> pubkey \<Rightarrow> update_config_mode \<Rightarrow> u8 list \<Rightarrow> lending_market \<Rightarrow> reserve \<Rightarrow> pubkey \<Rightarrow> bool res" where
  "is_allowed_signer_to_update_reserve_config D signer mode bytes m r global_admin =
     (if initialization_phase m r \<and> signer = lm_proposer_authority m then Inr True
      else if is_update_reserve_config_mode_global_admin_only mode then Inr (global_admin = signer)
      else rbind (is_update_reserve_config_mode_allowed_for_emergency_council D mode bytes) (\<lambda>for_council.
        if for_council \<and> lm_emergency_council m = signer then Inr True
        else Inr (lm_lending_market_owner m = signer)))"

definition is_allowed_signer_to_clone_reserve_config :: "pubkey \<Rightarrow> lending_market \<Rightarrow> reserve \<Rightarrow> bool" where
  "is_allowed_signer_to_clone_reserve_config signer m r \<longleftrightarrow>
     signer = lm_lending_market_owner m \<or>
     proposer_authority_locked (rsv_config r) = 0 \<and> signer = lm_proposer_authority m"

definition allowed_signer_update_reserve_config :: "update_config_mode \<Rightarrow> pubkey \<Rightarrow> pubkey \<Rightarrow> pubkey" where
  "allowed_signer_update_reserve_config mode lending_market_owner global_admin =
     (if is_update_reserve_config_mode_global_admin_only mode then global_admin else lending_market_owner)"

section \<open>Integrity of a configuration\<close>

definition elevation_group_integrity ::
  "reserve_config \<Rightarrow> pubkey \<Rightarrow> elevation_group \<Rightarrow> unit res" where
  "elevation_group_integrity c reserve_address g =
     rbind (ensure (eg_debt_reserve g \<noteq> 0) InvalidConfig) (\<lambda>_.
     rbind (if eg_debt_reserve g \<noteq> reserve_address then
              rbind (ensure (eg_max_liquidation_bonus_bps g \<le> max_liquidation_bonus_bps c) InvalidConfig) (\<lambda>_.
              rbind (ensure (liquidation_threshold_pct c \<le> eg_liquidation_threshold_pct g) InvalidConfig) (\<lambda>_.
              rbind (ensure (loan_to_value_pct c \<le> eg_ltv_pct g) InvalidConfig) (\<lambda>_.
              rbind (ensure (eg_ltv_pct g \<le> eg_liquidation_threshold_pct g) InvalidConfig) (\<lambda>_.
              ensure (eg_liquidation_threshold_pct g \<le> 100) InvalidConfig))))
            else Inr ()) (\<lambda>_.
     ensure (eg_max_reserves_as_collateral g \<noteq> 0) InvalidConfig))"

fun elevation_groups_integrity ::
  "reserve_config \<Rightarrow> lending_market \<Rightarrow> pubkey \<Rightarrow> u8 list \<Rightarrow> unit res" where
  "elevation_groups_integrity c m reserve_address [] = Inr ()"
| "elevation_groups_integrity c m reserve_address (i # is) =
     rbind (get_elevation_group m i) (\<lambda>found.
     rbind (case found of None \<Rightarrow> Inr () | Some g \<Rightarrow> elevation_group_integrity c reserve_address g) (\<lambda>_.
     elevation_groups_integrity c m reserve_address is))"

definition autodeleverage_integrity :: "reserve_config \<Rightarrow> unit res" where
  "autodeleverage_integrity c =
     (if Reserve_Config.is_autodeleverage_enabled c then
        rbind (ensure (deleveraging_margin_call_period_secs c \<noteq> 0) InvalidConfig) (\<lambda>_.
        rbind (ensure (deleveraging_threshold_decrease_bps_per_day c \<noteq> 0) InvalidConfig) (\<lambda>_.
        ensure (deleveraging_bonus_increase_bps_per_day c \<noteq> 0) InvalidConfig))
      else Inr ())"

definition validate_reserve_config_integrity ::
  "reserve_config \<Rightarrow> lending_market \<Rightarrow> pubkey \<Rightarrow> unit res" where
  "validate_reserve_config_integrity c m reserve_address =
     rbind (ensure (reserve_status_of_u8 (cfg_status c) \<noteq> None) InvalidConfig) (\<lambda>_.
     rbind (ensure (loan_to_value_pct c < 100) InvalidConfig) (\<lambda>_.
     rbind (ensure (unat (max_liquidation_bonus_bps c) \<le> FULL_BPS) InvalidConfig) (\<lambda>_.
     rbind (ensure (loan_to_value_pct c \<le> liquidation_threshold_pct c \<and>
                    liquidation_threshold_pct c \<le> 100) InvalidConfig) (\<lambda>_.
     rbind (ensure (unat (origination_fee_sf (cfg_fees c)) < fx_scale) InvalidConfig) (\<lambda>_.
     rbind (ensure (protocol_liquidation_fee_pct c \<le> 100) InvalidConfig) (\<lambda>_.
     rbind (ensure (protocol_order_execution_fee_pct c \<le> 100) InvalidConfig) (\<lambda>_.
     rbind (ensure (protocol_take_rate_pct c \<le> 100) InvalidConfig) (\<lambda>_.
     rbind (ensure (token_info_is_valid (token_info c)) InvalidOracleConfig) (\<lambda>_.
     rbind (ensure (is_twap_config_valid (token_info c)) InvalidTwapConfig) (\<lambda>_.
     rbind (ensure (bad_debt_liquidation_bonus_bps c < 100) InvalidConfig) (\<lambda>_.
     rbind (ensure (min_liquidation_bonus_bps c \<le> max_liquidation_bonus_bps c) InvalidConfig) (\<lambda>_.
     rbind (ensure (min_deleveraging_bonus_bps c \<le> max_liquidation_bonus_bps c) InvalidConfig) (\<lambda>_.
     rbind (ensure (100 \<le> borrow_factor_pct c) InvalidConfig) (\<lambda>_.
     rbind (autodeleverage_integrity c) (\<lambda>_.
     rbind (ensure (early_repay_remaining_interest_pct c \<le> 100) InvalidConfig) (\<lambda>_.
     rbind (ensure (borrow_limit_outside_elevation_group c = - 1 \<or>
                    borrow_limit_outside_elevation_group c \<le> borrow_limit c) InvalidConfig) (\<lambda>_.
     rbind (elevation_groups_integrity c m reserve_address (cfg_elevation_groups c)) (\<lambda>_.
     rbind (ensure (utilization_limit_block_borrowing_above_pct c \<le> 100) InvalidConfig) (\<lambda>_.
     curve_validate (borrow_rate_curve c))))))))))))))))))))"

section \<open>Handlers\<close>

text \<open>
  The account constraints come first, in the order of the accounts, then the body. The clock and the
  accounts' addresses are arguments.
\<close>

definition process_update_reserve_config ::
  "numlib \<Rightarrow> decoders \<Rightarrow> reserve_decoders \<Rightarrow> pubkey \<Rightarrow> global_config \<Rightarrow> pubkey \<Rightarrow> lending_market \<Rightarrow>
   pubkey \<Rightarrow> reserve \<Rightarrow> update_config_mode \<Rightarrow> u8 list \<Rightarrow> bool \<Rightarrow> clock \<Rightarrow> reserve res" where
  "process_update_reserve_config L D RD signer gc market_key m reserve_key r mode bytes skip clk =
     rbind (is_allowed_signer_to_update_reserve_config D signer mode bytes m r (gc_global_admin gc)) (\<lambda>allowed.
     rbind (ensure allowed InvalidSigner) (\<lambda>_.
     if rsv_lending_market r \<noteq> market_key then Inl ProgramErr
     else rbind (ensure (\<not> is_immutable m \<or>
            is_update_reserve_config_mode_global_admin_only mode \<and> signer = gc_global_admin gc \<or>
            mode = UpdateReserveEmergencyMode) OperationNotPermittedMarketImmutable) (\<lambda>_.
       rbind (ensure (has_initial_deposit r) ReserveHasNotReceivedInitialDeposit) (\<lambda>_.
       rbind (refresh_reserve L r clk None (lm_referral_fee_bps m) (lm_reserve_rewards_max_apr_bps m)) (\<lambda>r1.
       rbind (update_reserve_config D RD r1 mode bytes clk) (\<lambda>r2.
       rbind (if skip then ensure (is_predeposit r2 (lm_min_initial_deposit_amount m)) InvalidConfig
              else validate_reserve_config_integrity (rsv_config r2) m reserve_key) (\<lambda>_.
       rbind (ensure (\<not> (is_usage_blocked r \<and> \<not> is_usage_blocked r2) \<or> lm_lending_market_owner m = signer)
                InvalidSigner) (\<lambda>_.
       Inr r2))))))))"

record reserve_config_customization_args =
  override_fixed_rate_bps :: u8
  fixed_borrow_rate_bps :: u32
  override_debt_term_seconds :: u8
  args_debt_term_seconds :: u64
  clear_elevation_groups :: u8

definition gated :: "u8 \<Rightarrow> 'a \<Rightarrow> 'a \<Rightarrow> 'a option res" where
  "gated gate default_value v =
     (if gate = 0 then if v \<noteq> default_value then fail InvalidConfig else Inr None else Inr (Some v))"

definition customizations_try_from ::
  "reserve_config_customization_args \<Rightarrow> reserve_config_customizations res" where
  "customizations_try_from args =
     rbind (gated (override_fixed_rate_bps args) 0 (fixed_borrow_rate_bps args)) (\<lambda>rate.
     rbind (gated (override_debt_term_seconds args) 0 (args_debt_term_seconds args)) (\<lambda>debt_term.
     rbind (gated (clear_elevation_groups args) (replicate 20 0) (replicate 20 0)) (\<lambda>groups.
     Inr \<lparr> overridden_fixed_rate_bps = rate, overridden_debt_term_seconds = debt_term,
           overridden_elevation_groups = groups \<rparr>)))"

definition process_clone_reserve_config ::
  "pubkey \<Rightarrow> pubkey \<Rightarrow> lending_market \<Rightarrow> reserve \<Rightarrow> reserve \<Rightarrow> reserve_config_customization_args \<Rightarrow> reserve res" where
  "process_clone_reserve_config signer market_key m source target args =
     rbind (ensure (is_allowed_signer_to_clone_reserve_config signer m target) InvalidSigner) (\<lambda>_.
     if rsv_lending_market target \<noteq> market_key then Inl ProgramErr
     else rbind (ensure (\<not> is_immutable m) OperationNotPermittedMarketImmutable) (\<lambda>_.
       rbind (ensure (\<not> is_usage_blocked source) CloneSourceReserveDisabled) (\<lambda>_.
       rbind (ensure (\<not> reserve_is_emergency_mode (rsv_config source)) ReserveEmergencyMode) (\<lambda>_.
       rbind (ensure (is_predeposit target (lm_min_initial_deposit_amount m)) CloneTargetReserveAlreadyInUse) (\<lambda>_.
       rbind (ensure (rl_mint_pubkey (rsv_liquidity target) = rl_mint_pubkey (rsv_liquidity source))
                ClonedReserveLiquidityMintMismatch) (\<lambda>_.
       rbind (ensure (\<not> reserve_is_emergency_mode (rsv_config target)) ReserveEmergencyMode) (\<lambda>_.
       rbind (customizations_try_from args) (\<lambda>customizations.
       clone_reserve_config source target customizations))))))))"

text \<open>
  The account that \<open>init_reserve\<close> writes, from the clock, the keys of the new accounts and the mint.
\<close>

record init_reserve_accounts =
  ira_lending_market :: pubkey
  ira_liquidity_mint :: pubkey
  ira_mint_decimals :: u8
  ira_token_program :: pubkey
  ira_liquidity_supply :: pubkey
  ira_fee_receiver :: pubkey
  ira_collateral_mint :: pubkey
  ira_collateral_supply :: pubkey
  ira_frozen_by_default :: bool

definition init_reserve_account ::
  "numlib \<Rightarrow> pubkey \<Rightarrow> lending_market \<Rightarrow> init_reserve_accounts \<Rightarrow> clock \<Rightarrow> reserve res" where
  "init_reserve_account L signer m accs clk =
     rbind (ensure (is_allowed_signer_to_init_reserve signer m) InvalidSigner) (\<lambda>_.
     let min_initial_deposit_amount =
           (if ira_frozen_by_default accs then 0 else lm_min_initial_deposit_amount m)
     in rbind reserve_config_default (\<lambda>c.
        Inr (reserve_init \<lparr>
          irp_current_slot = clk_slot clk,
          irp_lending_market = ira_lending_market accs,
          irp_liquidity = reserve_liquidity_new L \<lparr>
            nrl_mint_pubkey = ira_liquidity_mint accs,
            nrl_mint_decimals = ira_mint_decimals accs,
            nrl_mint_token_program = ira_token_program accs,
            nrl_supply_vault = ira_liquidity_supply accs,
            nrl_fee_vault = ira_fee_receiver accs,
            nrl_market_price_sf = 0,
            initial_amount_deposited_in_reserve = min_initial_deposit_amount \<rparr>,
          irp_collateral = reserve_collateral_new \<lparr>
            nrc_mint_pubkey = ira_collateral_mint accs,
            nrc_supply_vault = ira_collateral_supply accs,
            initial_collateral_supply = min_initial_deposit_amount \<rparr>,
          irp_config = c\<lparr> cfg_status := reserve_status_to_u8 Hidden \<rparr> \<rparr>)))"

end
