(* ===== verification/Reserve_Rules.thy ===== *)
theory Reserve_Rules imports Reserve_Updates begin

text \<open>
  What the administration of a reserve guarantees: a reserve that can be used has a sound
  configuration, changes of the configuration never take from the suppliers, and every signer stays
  within its rights.
\<close>

section \<open>Sound configurations\<close>

text \<open>The part of a configuration's integrity that does not depend on the market.\<close>

definition config_sound :: "reserve_config \<Rightarrow> bool" where
  "config_sound c \<longleftrightarrow>
     reserve_status_of_u8 (cfg_status c) \<noteq> None \<and>
     unat (loan_to_value_pct c) < 100 \<and>
     loan_to_value_pct c \<le> liquidation_threshold_pct c \<and> unat (liquidation_threshold_pct c) \<le> 100 \<and>
     min_liquidation_bonus_bps c \<le> max_liquidation_bonus_bps c \<and>
     min_deleveraging_bonus_bps c \<le> max_liquidation_bonus_bps c \<and>
     unat (max_liquidation_bonus_bps c) \<le> 10000 \<and> unat (bad_debt_liquidation_bonus_bps c) < 100 \<and>
     unat (origination_fee_sf (cfg_fees c)) < fx_scale \<and>
     unat (protocol_take_rate_pct c) \<le> 100 \<and> unat (protocol_liquidation_fee_pct c) \<le> 100 \<and>
     unat (protocol_order_execution_fee_pct c) \<le> 100 \<and> unat (early_repay_remaining_interest_pct c) \<le> 100 \<and>
     100 \<le> unat (borrow_factor_pct c) \<and> unat (utilization_limit_block_borrowing_above_pct c) \<le> 100 \<and>
     token_info_is_valid (token_info c) \<and> is_twap_config_valid (token_info c) \<and>
     autodeleverage_integrity c = Inr () \<and>
     (borrow_limit_outside_elevation_group c = - 1 \<or>
      borrow_limit_outside_elevation_group c \<le> borrow_limit c) \<and>
     curve_validate (borrow_rate_curve c) = Inr ()"

lemma validated_config_sound:
  assumes "validate_reserve_config_integrity c m k = Inr ()"
  shows "config_sound c"
  using assms
  by (simp add: validate_reserve_config_integrity_def config_sound_def res_simps FULL_BPS_def
      word_less_nat_alt word_le_nat_alt del: not_None_eq)

definition well_configured :: "reserve \<Rightarrow> bool" where
  "well_configured r \<longleftrightarrow> \<not> is_usage_blocked r \<longrightarrow> config_sound (rsv_config r)"

lemma config_sound_caps [simp]:
  "config_sound (c\<lparr> deposit_withdrawal_cap := a \<rparr>) = config_sound c"
  "config_sound (c\<lparr> debt_withdrawal_cap := a \<rparr>) = config_sound c"
  by (simp_all add: config_sound_def autodeleverage_integrity_def Reserve_Config.is_autodeleverage_enabled_def)

lemma terms_decide:
  "config_sound (rsv_config r) = config_sound (terms_of r)"
  "is_usage_blocked r \<longleftrightarrow> deposit_limit (terms_of r) = 0 \<and> borrow_limit (terms_of r) = 0"
  by (simp_all add: terms_of_def is_usage_blocked_def)

lemma same_terms_well_configured: "terms_of r' = terms_of r \<Longrightarrow> well_configured r \<Longrightarrow> well_configured r'"
  by (simp add: well_configured_def terms_decide)

section \<open>What an update writes\<close>

lemma update_config_effect:
  assumes "update_reserve_config D RD r mode bytes clk = Inr r'"
  shows "rsv_liquidity r' = rsv_liquidity r" "rsv_collateral r' = rsv_collateral r"
    "rsv_lending_market r' = rsv_lending_market r"
    "unat (protocol_take_rate_pct (rsv_config r)) \<le> 100 \<Longrightarrow> unat (protocol_take_rate_pct (rsv_config r')) \<le> 100"
proof -
  obtain r1 where r1: "set_reserve_field D RD r mode bytes clk = Inr r1" and r': "r' = mark_reserve_stale r1"
    using assms by (auto simp: update_reserve_config_def rbind_eq_Inr)
  have e: "rsv_liquidity r1 = rsv_liquidity r \<and> rsv_collateral r1 = rsv_collateral r \<and>
      rsv_lending_market r1 = rsv_lending_market r"
    using r1 by (cases mode) (auto simp: res_simps on_config_def on_token_def split: if_splits)
  have take: "unat (protocol_take_rate_pct (rsv_config r)) \<le> 100 \<Longrightarrow>
      unat (protocol_take_rate_pct (rsv_config r1)) \<le> 100"
    using r1 by (cases mode) (auto simp: res_simps on_config_def on_token_def split: if_splits)
  show "rsv_liquidity r' = rsv_liquidity r" "rsv_collateral r' = rsv_collateral r"
    "rsv_lending_market r' = rsv_lending_market r"
    "unat (protocol_take_rate_pct (rsv_config r)) \<le> 100 \<Longrightarrow> unat (protocol_take_rate_pct (rsv_config r')) \<le> 100"
    using e take by (simp_all add: r' mark_reserve_stale_def)
qed

text \<open>A change of the configuration keeps the tokens, so it keeps what shares are worth.\<close>

definition reconfigured :: "reserve \<Rightarrow> reserve \<Rightarrow> bool" where
  "reconfigured r r' \<longleftrightarrow> rsv_liquidity r' = rsv_liquidity r \<and> rsv_collateral r' = rsv_collateral r \<and>
     (unat (protocol_take_rate_pct (rsv_config r)) \<le> 100 \<longrightarrow> unat (protocol_take_rate_pct (rsv_config r')) \<le> 100)"

lemma reconfigured_value:
  assumes "reconfigured r r'"
  shows "rsv_supply r' = rsv_supply r" "rsv_mint r' = rsv_mint r" "live r \<Longrightarrow> live r'"
    "share_value_le r0 r' = share_value_le r0 r"
  using assms
  by (simp_all add: reconfigured_def live_def covered_def rsv_supply_def rsv_mint_def share_value_le_def)

lemma process_update_cases:
  assumes "process_update_reserve_config L D RD signer gc mk m k r mode bytes skip clk = Inr r'"
  obtains r1 where
    "is_allowed_signer_to_update_reserve_config D signer mode bytes m r (gc_global_admin gc) = Inr True"
    "rsv_lending_market r = mk"
    "is_immutable m \<longrightarrow> is_update_reserve_config_mode_global_admin_only mode \<and> signer = gc_global_admin gc \<or>
       mode = UpdateReserveEmergencyMode"
    "has_initial_deposit r"
    "refresh_reserve L r clk None (lm_referral_fee_bps m) (lm_reserve_rewards_max_apr_bps m) = Inr r1"
    "update_reserve_config D RD r1 mode bytes clk = Inr r'"
    "skip \<longrightarrow> is_predeposit r' (lm_min_initial_deposit_amount m)"
    "\<not> skip \<longrightarrow> validate_reserve_config_integrity (rsv_config r') m k = Inr ()"
    "is_usage_blocked r \<and> \<not> is_usage_blocked r' \<longrightarrow> signer = lm_lending_market_owner m"
  using assms
  by (cases skip) (auto simp: process_update_reserve_config_def rbind_eq_Inr ensure_eq split: if_splits)

lemma process_update_well_configured:
  assumes "process_update_reserve_config L D RD signer gc mk m k r mode bytes skip clk = Inr r'"
  shows "well_configured r'"
  by (rule process_update_cases [OF assms])
    (auto simp: well_configured_def is_predeposit_def dest: validated_config_sound)

lemma clone_cases:
  assumes "process_clone_reserve_config signer mk m source target args = Inr r'"
  obtains c cust where "is_allowed_signer_to_clone_reserve_config signer m target" "\<not> is_immutable m"
    "rsv_lending_market target = mk" "\<not> is_usage_blocked source"
    "is_predeposit target (lm_min_initial_deposit_amount m)"
    "rl_mint_pubkey (rsv_liquidity target) = rl_mint_pubkey (rsv_liquidity source)"
    "config_from_customized (rsv_config source) cust = Inr c" "r' = target\<lparr> rsv_config := c \<rparr>"
    "rsv_lending_market source = rsv_lending_market target \<or> cfg_elevation_groups c = replicate 20 0"
  using assms
  by (auto simp: process_clone_reserve_config_def clone_reserve_config_def rbind_eq_Inr ensure_eq fail_def
      split: if_splits)

lemma clone_effect:
  assumes "process_clone_reserve_config signer mk m source target args = Inr r'" "well_configured source"
  shows "reconfigured target r'" "well_configured r'" "is_usage_blocked r'"
proof -
  obtain c cust where c: "\<not> is_usage_blocked source"
    "config_from_customized (rsv_config source) cust = Inr c" "r' = target\<lparr> rsv_config := c \<rparr>"
    by (rule clone_cases [OF assms(1)])
  then have "config_sound (rsv_config source)" using assms(2) by (simp add: well_configured_def)
  then have take: "unat (protocol_take_rate_pct (rsv_config source)) \<le> 100" by (simp add: config_sound_def)
  have keep: "deposit_limit c = 0" "borrow_limit c = 0"
    "protocol_take_rate_pct c = protocol_take_rate_pct (rsv_config source)"
    using c(2) by (auto simp: config_from_customized_def rbind_eq_Inr)
  with take show "reconfigured target r'" "well_configured r'" "is_usage_blocked r'"
    by (simp_all add: c(3) reconfigured_def well_configured_def is_usage_blocked_def)
qed

lemma init_effect:
  assumes "init_reserve_account L signer m accs clk = Inr r"
  shows "is_usage_blocked r" "well_configured r" "rsv_lending_market r = ira_lending_market accs"
    "0 < rsv_mint r \<Longrightarrow> live r"
proof -
  from assms obtain c where c: "rbind (curve_new_flat 0) (\<lambda>curve. Inr (zero_config curve)) = Inr c"
    and r: "rsv_config r = c\<lparr> cfg_status := reserve_status_to_u8 Hidden \<rparr>"
      "rsv_lending_market r = ira_lending_market accs"
      "rsv_mint r = unat (total_available_amount (rsv_liquidity r))"
      "borrowed_amount_sf (rsv_liquidity r) = 0" "fees_bits (rsv_liquidity r) = 0"
    by (auto simp: init_reserve_account_def Let_def rbind_eq_Inr reserve_init_def reserve_config_default_def
        reserve_liquidity_new_def reserve_collateral_new_def fees_bits_def rsv_mint_def)
  from c have z: "deposit_limit c = 0" "borrow_limit c = 0" "protocol_take_rate_pct c = 0"
    by (auto simp: rbind_eq_Inr zero_config_def)
  with r show "is_usage_blocked r" "well_configured r" "rsv_lending_market r = ira_lending_market accs"
    by (simp_all add: is_usage_blocked_def well_configured_def)
  show "live r" if "0 < rsv_mint r"
    using that r z
    by (simp add: live_def covered_def rsv_supply_def supply_bits_def assets_bits_def fx_scale_def)
qed

section \<open>Rights of the signers\<close>

text \<open>The protocol's own terms: fees, and whether collateral tokens may be used elsewhere.\<close>

definition protocol_terms :: "reserve_config \<Rightarrow> reserve_config" where
  "protocol_terms c = (zero_config (borrow_rate_curve c))\<lparr> borrow_rate_curve := \<lparr> points = [] \<rparr>,
     protocol_take_rate_pct := protocol_take_rate_pct c, protocol_liquidation_fee_pct := protocol_liquidation_fee_pct c,
     protocol_order_execution_fee_pct := protocol_order_execution_fee_pct c,
     host_fixed_interest_rate_bps := host_fixed_interest_rate_bps c, cfg_fees := cfg_fees c,
     block_ctoken_usage := block_ctoken_usage c \<rparr>"

text \<open>All other terms.\<close>

definition market_terms :: "reserve_config \<Rightarrow> reserve_config" where
  "market_terms c = c\<lparr> protocol_take_rate_pct := 0, protocol_liquidation_fee_pct := 0,
     protocol_order_execution_fee_pct := 0, host_fixed_interest_rate_bps := 0,
     cfg_fees := \<lparr> origination_fee_sf = 0, flash_loan_fee_sf = 0 \<rparr>, block_ctoken_usage := 0 \<rparr>"

text \<open>What the emergency council may do: close a limit, stop the use as collateral or the price, or stop the reserve.\<close>

definition tightened :: "reserve_config \<Rightarrow> reserve_config \<Rightarrow> bool" where
  "tightened c c' \<longleftrightarrow> c' \<in> {c\<lparr> borrow_limit := 0 \<rparr>, c\<lparr> deposit_limit := 0 \<rparr>, c\<lparr> loan_to_value_pct := 0 \<rparr>,
     c\<lparr> emergency_mode := 1 \<rparr>, c\<lparr> disable_usage_as_coll_outside_emode := 1 \<rparr>,
     c\<lparr> token_info := (token_info c)\<lparr> block_price_usage := 1 \<rparr> \<rparr>}"

lemma borsh_deserialize_eq [res_simps]: "borsh_deserialize de bytes = Inr v \<longleftrightarrow> de bytes = Inr v"
  by (auto simp: borsh_deserialize_def split: sum.splits)

lemma update_config_field:
  assumes "update_reserve_config D RD r mode bytes clk = Inr r'"
  obtains r1 where "set_reserve_field D RD r mode bytes clk = Inr r1" "rsv_config r' = rsv_config r1"
  using assms by (auto simp: update_reserve_config_def rbind_eq_Inr mark_reserve_stale_def)

lemma admin_mode_writes:
  assumes "set_reserve_field D RD r mode bytes clk = Inr r'"
  shows "is_update_reserve_config_mode_global_admin_only mode \<Longrightarrow>
      market_terms (rsv_config r') = market_terms (rsv_config r)"
    "\<not> is_update_reserve_config_mode_global_admin_only mode \<Longrightarrow>
      protocol_terms (rsv_config r') = protocol_terms (rsv_config r)"
  using assms
  by (cases mode; auto simp: res_simps on_config_def on_token_def market_terms_def protocol_terms_def
      zero_config_def split: if_splits)+

lemma council_mode_writes:
  assumes "set_reserve_field D RD r mode bytes clk = Inr r'"
    and "is_update_reserve_config_mode_allowed_for_emergency_council D mode bytes = Inr True"
  shows "tightened (rsv_config r) (rsv_config r')"
  using assms
  by (cases mode) (auto simp: is_update_reserve_config_mode_allowed_for_emergency_council_def res_simps
      on_config_def on_token_def tightened_def)

lemma emergency_mode_writes:
  "set_reserve_field D RD r UpdateReserveEmergencyMode bytes clk = Inr r' \<Longrightarrow>
     \<exists>x. rsv_config r' = (rsv_config r)\<lparr> emergency_mode := x \<rparr>"
  by (auto simp: res_simps on_config_def)

lemma refresh_config:
  assumes "refresh_reserve L r clk price bps apr = Inr r'"
  shows "rsv_config r' = rsv_config r"
proof -
  from assms obtain r1 r2 x r3 st where r1: "reserve_accrue_interest L r (clk_slot clk) bps = Inr r1"
    and r2: "distribute_rewards L r1 (clk_slot clk) apr = Inr (r2, x)"
    and r3: "refresh_price r2 clk price = Inr (r3, st)"
    and r': "r' = r3\<lparr> rsv_last_update := update_slot (rsv_last_update r3) (clk_slot clk) st \<rparr>"
    by (auto simp: refresh_reserve_def Let_def rbind_eq_Inr)
  have "rsv_config r1 = rsv_config r"
    using r1 by (auto simp: reserve_accrue_interest_def rbind_eq_Inr split: if_splits)
  moreover have "rsv_config r2 = rsv_config r1"
    using r2 by (auto simp: distribute_rewards_def Let_def res_simps split: if_splits)
  moreover have "rsv_config r3 = rsv_config r2"
    using r3 by (auto simp: refresh_price_def res_simps split: if_splits option.splits)
  ultimately show ?thesis by (simp add: r')
qed

lemma allowed_signers:
  assumes "is_allowed_signer_to_update_reserve_config D signer mode bytes m r admin = Inr True"
    and "\<not> (initialization_phase m r \<and> signer = lm_proposer_authority m)"
  shows "is_update_reserve_config_mode_global_admin_only mode \<Longrightarrow> signer = admin"
    "\<not> is_update_reserve_config_mode_global_admin_only mode \<Longrightarrow> signer = lm_lending_market_owner m \<or>
       signer = lm_emergency_council m \<and>
       is_update_reserve_config_mode_allowed_for_emergency_council D mode bytes = Inr True"
  using assms by (auto simp: is_allowed_signer_to_update_reserve_config_def rbind_eq_Inr split: if_splits)

text \<open>
  The rights of an accepted change, \<open>r\<close> before and \<open>r'\<close> after it. Apart from the proposer of a reserve
  that is still being set up: the protocol's terms change by the global admin only, the market's
  terms by the market's owner only, except that the emergency council may tighten them. Only the
  owner opens a reserve that was blocked, the proposer included. In an immutable market nothing but
  the protocol's terms, by the global admin, and the emergency mode change.
\<close>

definition within_rights :: "pubkey \<Rightarrow> pubkey \<Rightarrow> lending_market \<Rightarrow> reserve \<Rightarrow> reserve \<Rightarrow> bool" where
  "within_rights signer admin m r r' \<longleftrightarrow>
     (let c = rsv_config r; c' = rsv_config r' in
       (initialization_phase m r \<and> signer = lm_proposer_authority m \<or>
        signer = admin \<and> market_terms c' = market_terms c \<or>
        signer = lm_lending_market_owner m \<and> protocol_terms c' = protocol_terms c \<or>
        signer = lm_emergency_council m \<and> tightened c c') \<and>
       (is_usage_blocked r \<and> \<not> is_usage_blocked r' \<longrightarrow> signer = lm_lending_market_owner m) \<and>
       (is_immutable m \<longrightarrow> signer = admin \<and> market_terms c' = market_terms c \<or>
          (\<exists>x. c' = c\<lparr> emergency_mode := x \<rparr>)))"

lemma update_within_rights:
  assumes "process_update_reserve_config L D RD signer gc mk m k r mode bytes skip clk = Inr r'"
  shows "within_rights signer (gc_global_admin gc) m r r'"
proof -
  obtain r1 where allowed: "is_allowed_signer_to_update_reserve_config D signer mode bytes m r (gc_global_admin gc) = Inr True"
    and imm: "is_immutable m \<longrightarrow> is_update_reserve_config_mode_global_admin_only mode \<and> signer = gc_global_admin gc \<or>
       mode = UpdateReserveEmergencyMode"
    and r1: "refresh_reserve L r clk None (lm_referral_fee_bps m) (lm_reserve_rewards_max_apr_bps m) = Inr r1"
    and u: "update_reserve_config D RD r1 mode bytes clk = Inr r'"
    and open_usage: "is_usage_blocked r \<and> \<not> is_usage_blocked r' \<longrightarrow> signer = lm_lending_market_owner m"
    by (rule process_update_cases [OF assms])
  obtain r2 where r2: "set_reserve_field D RD r1 mode bytes clk = Inr r2" "rsv_config r' = rsv_config r2"
    by (rule update_config_field [OF u])
  note c1 = refresh_config [OF r1]
  note writes = admin_mode_writes [OF r2(1)] council_mode_writes [OF r2(1)]
  have "initialization_phase m r \<and> signer = lm_proposer_authority m \<or>
        signer = gc_global_admin gc \<and> market_terms (rsv_config r') = market_terms (rsv_config r) \<or>
        signer = lm_lending_market_owner m \<and> protocol_terms (rsv_config r') = protocol_terms (rsv_config r) \<or>
        signer = lm_emergency_council m \<and> tightened (rsv_config r) (rsv_config r')"
    using allowed_signers [OF allowed] writes r2(2) c1 by metis
  moreover have "signer = gc_global_admin gc \<and> market_terms (rsv_config r') = market_terms (rsv_config r) \<or>
      (\<exists>x. rsv_config r' = (rsv_config r)\<lparr> emergency_mode := x \<rparr>)" if "is_immutable m"
    using imm that writes(1) r2 c1 emergency_mode_writes [of D RD r1 bytes clk r2] by auto
  ultimately show ?thesis using open_usage by (auto simp: within_rights_def Let_def)
qed

text \<open>
  The council's own stop of borrowing is refused where the limit outside elevation groups is neither
  zero nor disabled: the new limit of zero is below it, which the integrity check rejects, and
  skipping that check needs a reserve nobody uses yet.
\<close>

lemma council_stop_refused:
  assumes "de_u64 D bytes = Inr 0" "borrow_limit_outside_elevation_group (rsv_config r) \<notin> {0, - 1}"
    and "is_used r1 (lm_min_initial_deposit_amount m)"
    and "refresh_reserve L r clk None (lm_referral_fee_bps m) (lm_reserve_rewards_max_apr_bps m) = Inr r1"
  shows "process_update_reserve_config L D RD signer gc mk m k r UpdateBorrowLimit bytes skip clk \<noteq> Inr r'"
proof
  assume "process_update_reserve_config L D RD signer gc mk m k r UpdateBorrowLimit bytes skip clk = Inr r'"
  then show False
  proof (rule process_update_cases)
    fix r2 assume r2: "refresh_reserve L r clk None (lm_referral_fee_bps m) (lm_reserve_rewards_max_apr_bps m) = Inr r2"
      and u: "update_reserve_config D RD r2 UpdateBorrowLimit bytes clk = Inr r'"
      and skipped: "skip \<longrightarrow> is_predeposit r' (lm_min_initial_deposit_amount m)"
      and valid: "\<not> skip \<longrightarrow> validate_reserve_config_integrity (rsv_config r') m k = Inr ()"
    have eq: "r2 = r1" using r2 assms(4) by simp
    have c: "rsv_config r' = (rsv_config r)\<lparr> borrow_limit := 0 \<rparr>"
      using u assms(1) refresh_config [OF assms(4)]
      by (auto simp: update_reserve_config_def rbind_eq_Inr res_simps on_config_def mark_reserve_stale_def eq)
    have "is_used r' (lm_min_initial_deposit_amount m)"
      using assms(3) update_config_effect(1,2) [OF u]
      by (simp add: is_used_def eq total_available_liquidity_amount_def)
    then have "\<not> skip" using skipped by (auto simp: is_predeposit_def)
    then have "config_sound (rsv_config r')" using valid validated_config_sound by blast
    with c assms(2) show False by (simp add: config_sound_def)
  qed
qed

end
