(* ===== verification/Administration.thy ===== *)
theory Administration imports Rollover_Settlement Reserve_Rules begin

text \<open>
  The instructions of users and the changes of the market's administration in one history: reserves
  appear, are configured, copy the configuration of others, and are used in between.
\<close>

section \<open>Events\<close>

datatype market_event =
    Run instruction
  | Configure pubkey global_config pubkey update_config_mode "u8 list" bool clock
  | CloneConfig pubkey pubkey pubkey reserve_config_customization_args
  | InitReserve pubkey pubkey init_reserve_accounts clock

text \<open>A new account has no data yet, the constraint \<open>zero\<close> of \<open>init_reserve\<close>.\<close>

fun market_execute ::
  "numlib \<Rightarrow> referrer_pda \<Rightarrow> decoders \<Rightarrow> reserve_decoders \<Rightarrow> pubkey \<Rightarrow> lending_market \<Rightarrow> market_event \<Rightarrow>
   ledger \<Rightarrow> ledger res" where
  "market_execute L pda D RD mk m (Run i) g = ledger_execute L pda m i g"
| "market_execute L pda D RD mk m (Configure signer gc k mode bytes skip clk) g =
     rbind (load_reserve ProgramErr (lg_reserves g) k) (\<lambda>r.
     rbind (process_update_reserve_config L D RD signer gc mk m k r mode bytes skip clk) (\<lambda>r.
     Inr (g\<lparr> lg_reserves := (lg_reserves g)(k \<mapsto> r) \<rparr>)))"
| "market_execute L pda D RD mk m (CloneConfig signer source_key target_key args) g =
     rbind (load_reserve ProgramErr (lg_reserves g) source_key) (\<lambda>source.
     rbind (load_reserve ProgramErr (lg_reserves g) target_key) (\<lambda>target.
     rbind (process_clone_reserve_config signer mk m source target args) (\<lambda>r.
     Inr (g\<lparr> lg_reserves := (lg_reserves g)(target_key \<mapsto> r) \<rparr>))))"
| "market_execute L pda D RD mk m (InitReserve signer k accs clk) g =
     (if lg_reserves g k \<noteq> None \<or> k = 0 then Inl ProgramErr
      else rbind (init_reserve_account L signer m accs clk) (\<lambda>r.
        Inr (g\<lparr> lg_reserves := (lg_reserves g)(k \<mapsto> r) \<rparr>)))"

text \<open>
  The reserves about whose suppliers nothing is claimed: those whose debt was forgiven, those that were
  without shares after some event (a new reserve of a token that freezes new accounts starts without a
  deposit), and those that copied their configuration from one of these.
\<close>

fun spoils :: "market_event \<Rightarrow> pubkey set \<Rightarrow> pubkey set" where
  "spoils (Run i) spoiled = set_option (forgiven_in i) \<union> spoiled"
| "spoils (CloneConfig signer source_key target_key args) spoiled =
     (if source_key \<in> spoiled then insert target_key spoiled else spoiled)"
| "spoils _ spoiled = spoiled"

definition without_shares :: "ledger \<Rightarrow> pubkey set" where
  "without_shares g = {k. \<exists>r. lg_reserves g k = Some r \<and> rsv_mint r = 0}"

lemma spoils_more: "spoiled \<subseteq> spoils ev spoiled"
  by (cases ev) auto

definition well_set_up :: "ledger \<Rightarrow> bool" where
  "well_set_up g \<longleftrightarrow> sound_ledger g \<and> (\<forall>k r. lg_reserves g k = Some r \<longrightarrow> well_configured r)"

text \<open>
  Every accepted event, whatever it leaves behind, and the reserves spoiled on the way.
\<close>

inductive administered ::
  "numlib \<Rightarrow> referrer_pda \<Rightarrow> decoders \<Rightarrow> reserve_decoders \<Rightarrow> pubkey \<Rightarrow> ledger \<Rightarrow>
   (lending_market \<times> market_event) list \<Rightarrow> pubkey set \<Rightarrow> ledger \<Rightarrow> bool"
  for L pda D RD mk where
  admin_start: "well_set_up g \<Longrightarrow> administered L pda D RD mk g [] {} g"
| admin_step: "\<lbrakk> administered L pda D RD mk g hist spoiled g'; market_execute L pda D RD mk m ev g' = Inr g'' \<rbrakk>
    \<Longrightarrow> administered L pda D RD mk g (hist @ [(m, ev)]) (spoils ev spoiled \<union> without_shares g'') g''"

section \<open>One event\<close>

text \<open>
  A reserve in order, and what an event may make of a reserve: an untouched claim of the suppliers,
  and a reserve in order again.
\<close>

definition in_order :: "reserve \<Rightarrow> bool" where
  "in_order r \<longleftrightarrow> live r \<and> well_configured r"

definition fair :: "reserve \<Rightarrow> reserve \<Rightarrow> bool" where
  "fair r r' \<longleftrightarrow> in_order r \<longrightarrow> 0 < rsv_mint r' \<longrightarrow> in_order r' \<and> share_value_le r r'"

lemma fair_refl [simp]: "fair r r"
  by (simp add: fair_def)

lemma grown_fair: "grown r r' \<Longrightarrow> fair r r'"
  using healthy_live [of r r'] same_terms_well_configured [of r' r]
  by (auto simp: grown_def fair_def in_order_def healthy_step_def)

lemma clone_fair:
  assumes "process_clone_reserve_config signer mk m source target args = Inr r'" "in_order source"
  shows "fair target r'"
  using clone_effect [OF assms(1)] assms(2) reconfigured_value [of target r']
  by (simp add: fair_def in_order_def)

context num_lib begin

lemma update_fair:
  assumes "process_update_reserve_config L D RD signer gc mk m k r mode bytes skip clk = Inr r'"
  shows "fair r r'"
proof -
  obtain r1 where
    r1: "refresh_reserve L r clk None (lm_referral_fee_bps m) (lm_reserve_rewards_max_apr_bps m) = Inr r1" and
    u: "update_reserve_config D RD r1 mode bytes clk = Inr r'"
    by (rule process_update_cases [OF assms])
  have re: "reconfigured r1 r'" using update_config_effect [OF u] by (simp add: reconfigured_def)
  show ?thesis
    unfolding fair_def
  proof (intro impI)
    assume r: "in_order r"
    have "kept r r1" by (rule refresh_kept [OF r1])
    then have "live r1" "share_value_le r r1"
      using r kept_live [of r r1] by (auto simp: kept_def in_order_def healthy_step_def)
    with reconfigured_value [OF re] process_update_well_configured [OF assms]
    show "in_order r' \<and> share_value_le r r'" by (simp add: in_order_def)
  qed
qed

text \<open>Every reserve that an event does not spoil is treated fairly, and new reserves are in order.\<close>

lemma event_fair:
  assumes "market_execute L pda D RD mk m ev g = Inr g'" "obligations_ok g" "lg_reserves g 0 = None"
    and order: "\<forall>j s. lg_reserves g j = Some s \<longrightarrow> j \<notin> spoiled \<longrightarrow> in_order s"
  shows "obligations_ok g' \<and> lg_reserves g' 0 = None"
    and "lg_reserves g k = Some r \<Longrightarrow> k \<notin> spoils ev spoiled \<Longrightarrow>
      \<exists>r'. lg_reserves g' k = Some r' \<and> fair r r'"
    and "lg_reserves g k = None \<Longrightarrow> lg_reserves g' k = Some r' \<Longrightarrow> 0 < rsv_mint r' \<Longrightarrow> in_order r'"
proof -
  have "(obligations_ok g' \<and> lg_reserves g' 0 = None) \<and>
    (lg_reserves g k = Some r \<longrightarrow> k \<notin> spoils ev spoiled \<longrightarrow> (\<exists>r'. lg_reserves g' k = Some r' \<and> fair r r')) \<and>
    (lg_reserves g k = None \<longrightarrow> lg_reserves g' k = Some r' \<longrightarrow> 0 < rsv_mint r' \<longrightarrow> in_order r')"
  proof (cases ev)
    case (Run i)
    with assms(1) have ok: "ledger_ok i g g'"
      by (intro instruction_keeps_ledger_ok [of pda m i g g'] assms(2,3)) simp
    have "\<exists>r'. lg_reserves g' k = Some r' \<and> fair r r'" if "lg_reserves g k = Some r" "forgiven_in i \<noteq> Some k"
      by (rule ledger_ok_reserve [OF ok that]) (blast intro: grown_fair)
    moreover have "obligations_ok g' \<and> lg_reserves g' 0 = None"
      using ok ledger_ok_none [OF ok] assms(3) by (simp add: ledger_ok_def)
    moreover have "lg_reserves g k = None \<Longrightarrow> lg_reserves g' k = None" using ledger_ok_none [OF ok] by simp
    ultimately show ?thesis using Run by (cases "forgiven_in i") auto
  next
    case (Configure signer gc key mode bytes skip clk)
    with assms(1) obtain s s' where s: "lg_reserves g key = Some s"
      "process_update_reserve_config L D RD signer gc mk m key s mode bytes skip clk = Inr s'"
      "g' = g\<lparr> lg_reserves := (lg_reserves g)(key \<mapsto> s') \<rparr>"
      by (auto simp: rbind_eq_Inr res_simps)
    with update_fair [OF s(2)] assms(2,3) show ?thesis by (auto simp: obligations_ok_def)
  next
    case (CloneConfig signer source_key target_key args)
    with assms(1) obtain s t t' where s: "lg_reserves g source_key = Some s" "lg_reserves g target_key = Some t"
      "process_clone_reserve_config signer mk m s t args = Inr t'"
      "g' = g\<lparr> lg_reserves := (lg_reserves g)(target_key \<mapsto> t') \<rparr>"
      by (auto simp: rbind_eq_Inr res_simps)
    have "fair t t'" if "target_key \<notin> spoils ev spoiled"
    proof -
      from that have "source_key \<notin> spoiled" by (simp add: CloneConfig split: if_splits)
      with order s(1) clone_fair [OF s(3)] show ?thesis by blast
    qed
    with s assms(2,3) show ?thesis by (auto simp: obligations_ok_def)
  next
    case (InitReserve signer key accs clk)
    with assms(1) obtain s where s: "lg_reserves g key = None" "key \<noteq> 0"
      "init_reserve_account L signer m accs clk = Inr s"
      "g' = g\<lparr> lg_reserves := (lg_reserves g)(key \<mapsto> s) \<rparr>"
      by (auto simp: rbind_eq_Inr split: if_splits)
    with init_effect [OF s(3)] assms(2,3) show ?thesis by (auto simp: obligations_ok_def in_order_def)
  qed
  then show "obligations_ok g' \<and> lg_reserves g' 0 = None"
    "lg_reserves g k = Some r \<Longrightarrow> k \<notin> spoils ev spoiled \<Longrightarrow> \<exists>r'. lg_reserves g' k = Some r' \<and> fair r r'"
    "lg_reserves g k = None \<Longrightarrow> lg_reserves g' k = Some r' \<Longrightarrow> 0 < rsv_mint r' \<Longrightarrow> in_order r'"
    by blast+
qed

section \<open>Histories\<close>

lemma administered_history:
  assumes "administered L pda D RD mk g hist spoiled g'"
  shows "obligations_ok g' \<and> lg_reserves g' 0 = None \<and>
    (\<forall>k r'. lg_reserves g' k = Some r' \<longrightarrow> k \<notin> spoiled \<longrightarrow> in_order r') \<and>
    (\<forall>k r. lg_reserves g k = Some r \<longrightarrow> k \<notin> spoiled \<longrightarrow>
       (\<exists>r'. lg_reserves g' k = Some r' \<and> share_value_le r r'))"
  using assms
proof induction
  case (admin_start g)
  then show ?case by (auto simp: well_set_up_def sound_ledger_def all_live_def in_order_def)
next
  case (admin_step g hist spoiled g' m ev g'')
  let ?bad = "spoils ev spoiled \<union> without_shares g''"
  have before: "obligations_ok g'" "lg_reserves g' 0 = None"
    "\<forall>j s. lg_reserves g' j = Some s \<longrightarrow> j \<notin> spoiled \<longrightarrow> in_order s"
    using admin_step.IH by auto
  note e = event_fair [OF admin_step.hyps(2) before]
  have mint: "0 < rsv_mint s" if "lg_reserves g'' j = Some s" "j \<notin> ?bad" for j s
    using that by (auto simp: without_shares_def)
  have order: "in_order s'" if "lg_reserves g'' j = Some s'" "j \<notin> ?bad" for j s'
  proof (cases "lg_reserves g' j")
    case None
    then show ?thesis using e(3) that(1) mint [OF that] by blast
  next
    case (Some s)
    then have "in_order s" using before(3) that(2) spoils_more by blast
    moreover have "fair s s'" using e(2) [OF Some] that by auto
    ultimately show ?thesis using mint [OF that] by (simp add: fair_def)
  qed
  moreover have "\<exists>s''. lg_reserves g'' j = Some s'' \<and> share_value_le s s''"
    if start: "lg_reserves g j = Some s" and fine: "j \<notin> ?bad" for j s
  proof -
    have j: "j \<notin> spoiled" using fine spoils_more by blast
    then obtain s' where s': "lg_reserves g' j = Some s'" "share_value_le s s'"
      using admin_step.IH start by blast
    obtain s'' where s'': "lg_reserves g'' j = Some s''" "fair s' s''"
      using e(2) [OF s'(1)] fine by blast
    have "in_order s'" using before(3) s'(1) j by blast
    then have "share_value_le s' s''" "0 < rsv_mint s'"
      using s''(2) mint [OF s''(1) fine] by (simp_all add: fair_def in_order_def live_def)
    with s' s'' show ?thesis by (blast intro: share_value_le_trans)
  qed
  ultimately show ?case using e(1) by simp
qed

end

section \<open>Properties\<close>

text \<open>
  C2. Whatever users and administrators do, in any order: over every history of accepted instructions,
  configuration updates, cloned configurations and new reserves, every reserve that exists at the end
  has shares backed by assets, a protocol take rate of at most 100 percent, and, unless its usage is
  blocked, a sound configuration; and a share of a reserve is worth at least as much as at the
  start. Excepted are the reserves whose debt was forgiven, those that had no shares outstanding after
  some event, and those that copied their configuration from one of these; they do not
  affect the others.
\<close>

theorem administration_keeps_reserves_in_order:
  assumes "num_lib L" "administered L pda D RD mk g hist spoiled g'"
    and "k \<notin> spoiled"
  shows "(lg_reserves g' k = Some r' \<longrightarrow> live r' \<and> (is_usage_blocked r' \<or> config_sound (rsv_config r'))) \<and>
    (lg_reserves g k = Some r \<longrightarrow> (\<exists>r'. lg_reserves g' k = Some r' \<and> share_value_le r r'))"
  using num_lib.administered_history [OF assms(1,2)] assms(3) by (auto simp: in_order_def well_configured_def)

text \<open>
  C20. Every accepted change of a reserve's configuration stays within the rights of its signer. Unless
  the proposer sets up a reserve nobody uses yet, the protocol's fees change by the global admin only,
  who changes nothing else, the market's terms change by the market's owner only, who cannot touch
  the fees, and the emergency council can only tighten: close a limit, set the loan-to-value to zero,
  stop the use as collateral or the price, or stop the reserve. Only the owner opens a blocked reserve,
  and in an immutable market nothing changes but the fees, by the global admin, and the emergency mode.
\<close>

theorem reserve_signers_stay_within_rights:
  assumes "process_update_reserve_config L D RD signer gc mk m k r mode bytes skip clk = Inr r'"
  shows "within_rights signer (gc_global_admin gc) m r r'"
  using update_within_rights [OF assms] .

text \<open>
  C40. The emergency council is allowed to set the borrow limit of a reserve to zero, but on a reserve in
  use whose limit outside elevation groups is neither zero nor disabled that change is never
  accepted, with or without the request to skip the integrity check: the new limit would be below the
  limit outside elevation groups, which only the owner can lower.
\<close>

theorem council_cannot_close_borrow_limit:
  assumes "de_u64 D bytes = Inr 0" "is_used r1 (lm_min_initial_deposit_amount m)"
    and "refresh_reserve L r clk None (lm_referral_fee_bps m) (lm_reserve_rewards_max_apr_bps m) = Inr r1"
    and "borrow_limit_outside_elevation_group (rsv_config r) \<notin> {0, - 1}"
  shows "is_update_reserve_config_mode_allowed_for_emergency_council D UpdateBorrowLimit bytes = Inr True \<and>
    (\<forall>skip r'. process_update_reserve_config L D RD signer gc mk m k r UpdateBorrowLimit bytes skip clk \<noteq> Inr r')"
  using council_stop_refused [OF assms(1,4,2,3)] assms(1)
  by (auto simp: is_update_reserve_config_mode_allowed_for_emergency_council_def borsh_deserialize_def)

section \<open>A sample history\<close>

text \<open>A reserve in use, of whose collateral the emergency council stops the borrowing power.\<close>

definition open_config :: reserve_config where
  "open_config = (zero_config flat_curve)\<lparr> borrow_limit := 2000, deposit_limit := 100000,
     borrow_factor_pct := 100, loan_to_value_pct := 75, liquidation_threshold_pct := 80,
     max_liquidation_bonus_bps := 500, min_liquidation_bonus_bps := 200,
     token_info := token_info_default\<lparr> pyth_configuration := \<lparr> pyth_price = 77 \<rparr> \<rparr> \<rparr>"

definition open_reserve :: reserve where
  "open_reserve = sample_reserve\<lparr> rsv_config := open_config,
     rsv_last_update := \<lparr> lu_slot = 5, lu_stale = 0, lu_price_status = 63 \<rparr> \<rparr>"

definition council_market :: lending_market where
  "council_market = lending_market_default\<lparr> lm_lending_market_owner := 5, lm_emergency_council := 8,
     lm_proposer_authority := 6 \<rparr>"

definition some_admin :: global_config where
  "some_admin = \<lparr> gc_global_admin = 4, gc_pending_admin = 4, gc_fee_collector = 4 \<rparr>"

definition byte_decoders :: decoders where
  "byte_decoders = \<lparr>
     de_u8 = (\<lambda>bs. case bs of [] \<Rightarrow> Inl ProgramErr | b # _ \<Rightarrow> Inr b),
     de_u16 = (\<lambda>_. Inl ProgramErr), de_u32 = (\<lambda>_. Inl ProgramErr), de_u64 = (\<lambda>_. Inl ProgramErr),
     de_u128 = (\<lambda>_. Inl ProgramErr), de_pubkey = (\<lambda>_. Inl ProgramErr) \<rparr>"

definition no_decoders :: reserve_decoders where
  "no_decoders = \<lparr> de_i64 = (\<lambda>_. Inl ProgramErr), de_chain = (\<lambda>_. Inl ProgramErr),
     de_name = (\<lambda>_. Inl ProgramErr), de_curve = (\<lambda>_. Inl ProgramErr),
     de_groups = (\<lambda>_. Inl ProgramErr), de_limits = (\<lambda>_. Inl ProgramErr) \<rparr>"

lemma open_fields:
  "rsv_config open_reserve = open_config" "rsv_liquidity open_reserve = rsv_liquidity sample_reserve"
  "rsv_collateral open_reserve = rsv_collateral sample_reserve" "rsv_lending_market open_reserve = 0"
  "lu_slot (rsv_last_update open_reserve) = 5"
  by (simp_all add: open_reserve_def sample_reserve_def reserve_init_def)

lemma open_config_valid:
  "validate_reserve_config_integrity (open_config\<lparr> loan_to_value_pct := p \<rparr>) m k = Inr ()" if "p \<le> 75"
proof -
  have "p < 100" "p \<le> 80" using that by (simp_all add: word_less_nat_alt word_le_nat_alt)
  moreover have "elevation_groups_integrity c m k (replicate n 0) = Inr ()" for c n
    by (induction n) (simp_all add: get_elevation_group_def ELEVATION_GROUP_NONE_def)
  moreover have "token_info_is_valid (token_info open_config)" "is_twap_config_valid (token_info open_config)"
    by (simp_all add: open_config_def token_info_default_def token_info_is_valid_def scope_is_valid_def
        scope_is_enabled_def scope_configuration_default_def key_enabled_def pyth_is_enabled_def
        is_twap_config_valid_def is_twap_enabled_def NULL_PUBKEY_def key_of_bytes_def)
  moreover have "curve_validate (borrow_rate_curve open_config) = Inr ()"
    by (simp add: open_config_def zero_config_def curve_validate_def flat_curve_def replicates(2)
        curve_point_new_def MAX_UTILIZATION_RATE_BPS_def)
  ultimately show ?thesis
    by (simp add: validate_reserve_config_integrity_def ensure_eq autodeleverage_integrity_def
        Reserve_Config.is_autodeleverage_enabled_def FULL_BPS_def reserve_status_of_u8_def)
      (simp add: open_config_def zero_config_def fx_scale_def reserve_status_of_u8_def)
qed

text \<open>The council sets the loan-to-value to zero.\<close>

definition council_stops :: market_event where
  "council_stops = Configure 8 some_admin 9 UpdateLoanToValuePct [0] False settling_clock"

lemma open_refresh:
  "refresh_reserve std_lib open_reserve settling_clock None bps apr = Inr (open_reserve\<lparr> rsv_last_update :=
     update_slot (rsv_last_update open_reserve) 5 (Some NO_CHECKS) \<rparr>)"
  by (simp add: refresh_reserve_def reserve_accrue_interest_def open_fields slots_elapsed_def checked_sub_def
      settling_clock_def distribute_rewards_def refresh_price_def reserve_is_emergency_mode_def
      is_saved_price_age_valid_def clock_timestamp_def saturating_sub_def)
    (simp add: open_config_def zero_config_def open_reserve_def token_info_default_def saturating_sub_def
      sample_reserve_def reserve_init_def)

lemma council_update:
  "\<exists>r'. process_update_reserve_config std_lib byte_decoders no_decoders 8 some_admin 0 council_market 9 open_reserve
     UpdateLoanToValuePct [0] False settling_clock = Inr r' \<and> rsv_config r' = open_config\<lparr> loan_to_value_pct := 0 \<rparr> \<and>
     0 < rsv_mint r'"
proof -
  have m: "lm_emergency_council council_market = 8" "lm_lending_market_owner council_market = 5"
    "lm_proposer_authority council_market = 6" "is_immutable council_market = False"
    by (simp_all add: council_market_def lending_market_default_def is_immutable_def)
  have "is_allowed_signer_to_update_reserve_config byte_decoders 8 UpdateLoanToValuePct [0] council_market open_reserve 4 =
      Inr True"
    by (simp add: is_allowed_signer_to_update_reserve_config_def m byte_decoders_def borsh_deserialize_def
        is_update_reserve_config_mode_allowed_for_emergency_council_def)
  moreover have "has_initial_deposit open_reserve"
    by (simp add: has_initial_deposit_def open_fields sample_fields)
  moreover have "\<not> is_usage_blocked open_reserve"
    by (simp add: is_usage_blocked_def open_fields open_config_def)
  ultimately show ?thesis
    using open_config_valid [of 0 council_market 9]
    by (simp add: process_update_reserve_config_def ensure_def open_refresh open_fields m some_admin_def
        update_reserve_config_def set_field_def set_item_def byte_decoders_def check_valid_pct_def check_in_range_def
        on_config_def mark_reserve_stale_def rsv_mint_def sample_fields)
qed

lemma open_reserve_in_order: "live open_reserve" "config_sound (rsv_config open_reserve)"
proof -
  have "rsv_config open_reserve = open_config\<lparr> loan_to_value_pct := 75 \<rparr>"
    by (simp add: open_fields open_config_def)
  then show "config_sound (rsv_config open_reserve)"
    using validated_config_sound [OF open_config_valid [of 75]] by simp
  have "protocol_take_rate_pct open_config = 0" by (simp add: open_config_def zero_config_def)
  then show "live open_reserve"
    using sample_live by (simp add: live_def rsv_supply_def rsv_mint_def covered_def open_fields)
qed

theorem administration_keeps_reserves_in_order_witness:
  "\<exists>g' r'. administered std_lib no_referrers byte_decoders no_decoders 0
      \<lparr> lg_reserves = [9 \<mapsto> open_reserve], lg_obligations = Map.empty \<rparr> [(council_market, council_stops)] {} g' \<and>
     lg_reserves g' 9 = Some r' \<and> loan_to_value_pct (rsv_config r') = 0 \<and> config_sound (rsv_config r') \<and>
     share_value_le open_reserve r'"
proof -
  let ?g = "\<lparr> lg_reserves = [9 \<mapsto> open_reserve], lg_obligations = Map.empty \<rparr>"
  obtain r' where r': "process_update_reserve_config std_lib byte_decoders no_decoders 8 some_admin 0 council_market 9
      open_reserve UpdateLoanToValuePct [0] False settling_clock = Inr r'"
    "rsv_config r' = open_config\<lparr> loan_to_value_pct := 0 \<rparr>" "0 < rsv_mint r'"
    using council_update by blast
  let ?g' = "?g\<lparr> lg_reserves := [9 \<mapsto> r'] \<rparr>"
  have start: "well_set_up ?g"
    using open_reserve_in_order
    by (auto simp: well_set_up_def sound_ledger_def obligations_ok_def all_live_def well_configured_def)
  have "administered std_lib no_referrers byte_decoders no_decoders 0 ?g ([] @ [(council_market, council_stops)])
      (spoils council_stops {} \<union> without_shares ?g') ?g'"
    by (rule admin_step [OF admin_start [OF start]]) (use r' in \<open>auto simp: council_stops_def load_reserve_def\<close>)
  moreover have "spoils council_stops {} \<union> without_shares ?g' = {}"
    using r'(3) by (auto simp: council_stops_def without_shares_def split: if_splits)
  ultimately have run: "administered std_lib no_referrers byte_decoders no_decoders 0 ?g
      [(council_market, council_stops)] {} ?g'" by simp
  from administration_keeps_reserves_in_order [OF std.num_lib_axioms run, of 9 r' open_reserve] r'(2)
  have "config_sound (rsv_config r')" "share_value_le open_reserve r'"
    by (auto simp: is_usage_blocked_def open_config_def)
  with run r' show ?thesis by (intro exI [of _ ?g'] exI [of _ r']) simp
qed

theorem reserve_signers_stay_within_rights_witness:
  "\<exists>r'. rsv_config r' \<noteq> rsv_config open_reserve \<and> within_rights 8 4 council_market open_reserve r'"
proof -
  obtain r' where r': "process_update_reserve_config std_lib byte_decoders no_decoders 8 some_admin 0 council_market 9
      open_reserve UpdateLoanToValuePct [0] False settling_clock = Inr r'"
    "rsv_config r' = open_config\<lparr> loan_to_value_pct := 0 \<rparr>"
    using council_update by blast
  have "loan_to_value_pct open_config = 75" by (simp add: open_config_def)
  moreover have "loan_to_value_pct (rsv_config r') = 0" using r'(2) by simp
  ultimately have "rsv_config r' \<noteq> rsv_config open_reserve" by (auto simp: open_fields)
  with reserve_signers_stay_within_rights [OF r'(1)] show ?thesis by (auto simp: some_admin_def)
qed

definition limited_reserve :: reserve where
  "limited_reserve = open_reserve\<lparr> rsv_config := open_config\<lparr> borrow_limit_outside_elevation_group := 1000 \<rparr> \<rparr>"

lemma limited_reserve_refresh:
  "refresh_reserve std_lib limited_reserve settling_clock None bps apr = Inr (limited_reserve\<lparr> rsv_last_update :=
     update_slot (rsv_last_update limited_reserve) 5 (Some NO_CHECKS) \<rparr>)"
  by (simp add: refresh_reserve_def reserve_accrue_interest_def limited_reserve_def open_fields slots_elapsed_def
      checked_sub_def settling_clock_def distribute_rewards_def refresh_price_def reserve_is_emergency_mode_def
      is_saved_price_age_valid_def clock_timestamp_def saturating_sub_def)
    (simp add: open_config_def zero_config_def open_reserve_def token_info_default_def saturating_sub_def
      sample_reserve_def reserve_init_def)

theorem council_cannot_close_borrow_limit_witness:
  "\<forall>skip r'. process_update_reserve_config std_lib (byte_decoders\<lparr> de_u64 := \<lambda>_. Inr 0 \<rparr>) no_decoders 8 some_admin 0
     council_market 9 limited_reserve UpdateBorrowLimit (replicate 8 0) skip settling_clock \<noteq> Inr r'"
proof -
  let ?r = "limited_reserve\<lparr> rsv_last_update := update_slot (rsv_last_update limited_reserve) 5 (Some NO_CHECKS) \<rparr>"
  have "is_used ?r (lm_min_initial_deposit_amount council_market)"
    by (simp add: is_used_def limited_reserve_def open_fields total_borrow_def sample_fields)
  then show ?thesis
    using council_cannot_close_borrow_limit [of "byte_decoders\<lparr> de_u64 := \<lambda>_. Inr 0 \<rparr>" "replicate 8 0" ?r council_market std_lib
        limited_reserve settling_clock] limited_reserve_refresh
    by (auto simp: limited_reserve_def)
qed

end
