(* ===== verification/Borrow_Instruction.thy ===== *)
theory Borrow_Instruction imports Rollover_Settlement Token_Program Permissioning begin

text \<open>
  The borrow instruction as a whole (\<open>handlers/handler_borrow_obligation_liquidity.rs\<close> with its access
  control in \<open>lib.rs\<close>): the account constraints, the emergency mode of the market, the guards, the
  permission, the referrer, the borrow itself, the transfers out of the vault and the comparison of the
  vault with the books. Every account that the instruction writes is part of its world.
\<close>

section \<open>Accounts\<close>

text \<open>
  The keys of the accounts, and of the token accounts the mint of the vault and the mint and
  authority of the destination, on which there are constraints.
\<close>

record borrow_accounts =
  ba_owner :: pubkey
  ba_lending_market :: pubkey
  ba_obligation :: pubkey
  ba_borrow_reserve :: pubkey
  ba_user_destination_liquidity :: pubkey
  ba_source_mint :: pubkey
  ba_destination_mint :: pubkey
  ba_destination_authority :: pubkey
  ba_remaining_accounts :: "account_info list"

record borrow_world =
  bw_market :: lending_market
  bw_reserve :: reserve
  bw_obligation :: obligation
  bw_referrer :: "referrer_account option"
  bw_deposit_reserves :: reserve_store
  bw_balances :: balances

record borrow_env =
  be_token_checks :: token_checks
  be_referrer_pda :: referrer_pda

section \<open>The parts of the instruction\<close>

definition validated_referrer ::
  "borrow_env \<Rightarrow> pubkey \<Rightarrow> reserve \<Rightarrow> obligation \<Rightarrow> referrer_account option \<Rightarrow> referrer_token_state option res" where
  "validated_referrer env k r ob account =
     (if has_referrer ob then case account of
          Some (rts_key, bump, rts) \<Rightarrow>
            rbind (validate_referrer_token_state (be_referrer_pda env) rts bump rts_key
                     (rl_mint_pubkey (rsv_liquidity r)) (ob_referrer ob) k) (\<lambda>_. Inr (Some rts))
        | None \<Rightarrow> fail ReferrerAccountMissing
      else Inr None)"

text \<open>The new state of the referrer, written to the account it was read from.\<close>

fun store_referrer :: "referrer_account option \<Rightarrow> referrer_token_state option \<Rightarrow> referrer_account option" where
  "store_referrer (Some (rts_key, bump, _)) (Some rts) = Some (rts_key, bump, rts)"
| "store_referrer account _ = account"

definition pay_borrower ::
  "tokenlib \<Rightarrow> balances \<Rightarrow> pubkey \<Rightarrow> pubkey \<Rightarrow> pubkey \<Rightarrow> u64 \<Rightarrow> u64 \<Rightarrow> balances res" where
  "pay_borrower T balances vault fee_receiver destination origination_fee receive_amount =
     rbind (if origination_fee > 0
            then tk_transfer_checked T balances (TokenAccount vault) (TokenAccount fee_receiver) origination_fee
            else Inr balances) (\<lambda>balances.
     tk_transfer_checked T balances (TokenAccount vault) (TokenAccount destination) receive_amount)"

definition borrow_obligation_liquidity_process_impl ::
  "numlib \<Rightarrow> tokenlib \<Rightarrow> borrow_env \<Rightarrow> clock \<Rightarrow> borrow_accounts \<Rightarrow> borrow_size \<Rightarrow> borrow_world \<Rightarrow>
   (borrow_world \<times> u64) res" where
  "borrow_obligation_liquidity_process_impl L T env clk a borrow_size w =
     (let m = bw_market w; r = bw_reserve w; ob = bw_obligation w; k = ba_borrow_reserve a;
          vault = rl_supply_vault (rsv_liquidity r); destination = ba_user_destination_liquidity a
      in rbind (borrow_obligation_liquidity_checks (be_token_checks env) r (rl_mint_pubkey (rsv_liquidity r)) destination) (\<lambda>_.
         rbind (check_permissions_and_strip m [r] BORROW (ba_remaining_accounts a)) (\<lambda>remaining_accounts.
         rbind (validated_referrer env k r ob (bw_referrer w)) (\<lambda>rts.
         rbind (borrow_obligation_liquidity L m r ob borrow_size clk k rts (map ai_key remaining_accounts)
                  (bw_deposit_reserves w)) (\<lambda>(r', ob', rts', store', result).
         rbind (pay_borrower T (bw_balances w) vault (fee_vault (rsv_liquidity r)) destination
                  (cbr_origination_fee result) (cbr_receive_amount result)) (\<lambda>balances.
         rbind (add_ov (cbr_origination_fee result) (cbr_receive_amount result)) (\<lambda>paid.
         rbind (post_transfer_vault_balance_liquidity_reserve_checks
                  (balances (TokenAccount vault)) (total_available_liquidity_amount r')
                  (bw_balances w (TokenAccount vault)) (total_available_liquidity_amount r) (Subtractive paid)) (\<lambda>_.
         Inr (w\<lparr> bw_reserve := r', bw_obligation := ob', bw_referrer := store_referrer (bw_referrer w) rts',
                 bw_deposit_reserves := store', bw_balances := balances \<rparr>,
              cbr_receive_amount result)))))))))"

text \<open>\<open>has_one\<close> and \<open>token\<close> constraints in the order of the accounts.\<close>

definition borrow_constraints :: "borrow_accounts \<Rightarrow> borrow_world \<Rightarrow> unit res" where
  "borrow_constraints a w =
     (if ob_lending_market (bw_obligation w) \<noteq> ba_lending_market a then Inl ProgramErr
      else if ob_owner (bw_obligation w) \<noteq> ba_owner a then fail InvalidObligationOwner
      else if rsv_lending_market (bw_reserve w) \<noteq> ba_lending_market a then Inl ProgramErr
      else if ba_destination_mint a \<noteq> ba_source_mint a \<or> ba_destination_authority a \<noteq> ba_owner a
      then Inl ProgramErr
      else Inr ())"

text \<open>
  The first version demands that the instructions around it refresh the accounts; the second one calls
  the farms program itself, which changes nothing of the lending program.
\<close>

definition process_borrow_v1 ::
  "numlib \<Rightarrow> tokenlib \<Rightarrow> borrow_env \<Rightarrow> program_ids \<Rightarrow> tx_view \<Rightarrow> clock \<Rightarrow> borrow_accounts \<Rightarrow> u64 \<Rightarrow>
   borrow_world \<Rightarrow> borrow_world res" where
  "process_borrow_v1 L T env ids tx clk a liquidity_amount w =
     rbind (borrow_constraints a w) (\<lambda>_.
     rbind (emergency_mode_disabled (bw_market w)) (\<lambda>_.
     rbind (check_refresh ids tx [(ba_borrow_reserve a, bw_reserve w)] (ba_obligation a) [FarmDebt]) (\<lambda>_.
     rbind (borrow_obligation_liquidity_process_impl L T env clk a (exact_or_all_available liquidity_amount) w)
       (\<lambda>(w, _). Inr w))))"

definition process_borrow_v2 ::
  "numlib \<Rightarrow> tokenlib \<Rightarrow> borrow_env \<Rightarrow> clock \<Rightarrow> borrow_accounts \<Rightarrow> u64 \<Rightarrow> borrow_world \<Rightarrow> borrow_world res" where
  "process_borrow_v2 L T env clk a liquidity_amount w =
     rbind (borrow_constraints a w) (\<lambda>_.
     rbind (emergency_mode_disabled (bw_market w)) (\<lambda>_.
     rbind (borrow_obligation_liquidity_process_impl L T env clk a (exact_or_all_available liquidity_amount) w)
       (\<lambda>(w, _). Inr w)))"

section \<open>The books of a borrow\<close>

text \<open>The fee that a referrer is owed stays in the reserve.\<close>

definition kept_for_referrer :: "lending_market \<Rightarrow> referrer_token_state option \<Rightarrow> u64 \<Rightarrow> nat" where
  "kept_for_referrer m rts fee = (if rts \<noteq> None \<and> lm_referral_fee_bps m > 0 then unat fee else 0)"

lemma credit_referrer_available:
  "credit_referrer L m r rts n = Inr (r', rts') \<Longrightarrow>
   unat (total_available_amount (rsv_liquidity r')) =
     unat (total_available_amount (rsv_liquidity r)) + kept_for_referrer m rts n"
  by (auto simp: credit_referrer_def rbind_eq_Inr ov_eq add_referrer_fee_def kept_for_referrer_def
      split: option.splits if_splits)

context num_lib begin

lemma fraction_borrow_available:
  assumes "reserve_borrow L r f q = Inr r'"
  shows "unat (total_available_amount (rsv_liquidity r)) =
    unat (total_available_amount (rsv_liquidity r')) + unat f div fx_scale"
proof -
  from assms obtain amount r1 b where amount: "to_floor L f = Inr amount"
    and taken: "take_available r amount = Inr r1"
    and r': "r' = r1\<lparr> rsv_liquidity := (rsv_liquidity r1)\<lparr> borrowed_amount_sf := b \<rparr> \<rparr>"
    using withdraw_takes_available [of q r]
    by (auto simp: reserve_borrow_def rbind_eq_Inr total_borrow_def)
  have "unat amount = unat f div fx_scale" using amount by (simp add: to_floor_eq)
  with taken show ?thesis by (auto simp: r' take_available_def rbind_eq_Inr ov_eq)
qed

lemma borrowed_books:
  assumes "borrow_obligation_liquidity L m r ob sz clk k rts dks store = Inr (r', ob', rts', store', b)"
  shows "unat (total_available_liquidity_amount r) + kept_for_referrer m rts (cbr_referrer_fee b) =
    unat (total_available_liquidity_amount r') + unat (cbr_borrow_amount_f b) div fx_scale"
proof -
  from assms obtain caps r1 r2 ob2 i eg n where
    r1: "reserve_borrow L (r\<lparr> rsv_config := (rsv_config r)\<lparr> debt_withdrawal_cap := caps \<rparr> \<rparr>)
          (cbr_borrow_amount_f b) False = Inr r1" and
    r2: "credit_referrer L m (mark_reserve_stale r1) rts (cbr_referrer_fee b) = Inr (r2, rts')" and
    t: "update_elevation_group_debt_trackers_on_borrow n ob2 i eg k r2 dks store = Inr (ob', r', store')"
    unfolding borrow_obligation_liquidity_def Let_def
    by (auto simp: rbind_eq_Inr fail_eq case_prod_beta split: if_splits)
  have "rsv_liquidity r' = rsv_liquidity r2"
    using borrow_trackers [OF t] only_trackers_keep(4) by blast
  then show ?thesis
    using fraction_borrow_available [OF r1] credit_referrer_available [OF r2]
    by (simp add: total_available_liquidity_amount_def mark_reserve_stale_def)
qed

end

section \<open>The tokens of a borrow\<close>

definition tokens_at :: "borrow_world \<Rightarrow> pubkey \<Rightarrow> nat" where
  "tokens_at w key = unat (bw_balances w (TokenAccount key))"

definition available_in :: "borrow_world \<Rightarrow> nat" where
  "available_in w = unat (total_available_liquidity_amount (bw_reserve w))"

context token_calls begin

lemma paid_tokens:
  assumes "pay_borrower T b vault fees dest fee n = Inr b'" "vault \<noteq> fees" "vault \<noteq> dest" "dest \<noteq> fees"
  shows "unat (b (TokenAccount vault)) = unat (b' (TokenAccount vault)) + (unat n + unat fee)"
    "unat (b' (TokenAccount dest)) \<le> unat (b (TokenAccount dest)) + unat n"
    "unat (b' (TokenAccount fees)) \<le> unat (b (TokenAccount fees)) + unat fee"
    "z \<notin> {TokenAccount vault, TokenAccount fees, TokenAccount dest} \<Longrightarrow> b' z = b z"
proof -
  from assms(1) obtain b1 where
    b1: "(if fee > 0 then tk_transfer_checked T b (TokenAccount vault) (TokenAccount fees) fee else Inr b) = Inr b1"
    and b': "tk_transfer_checked T b1 (TokenAccount vault) (TokenAccount dest) n = Inr b'"
    by (auto simp: pay_borrower_def rbind_eq_Inr)
  have one: "unat (b (TokenAccount vault)) = unat (b1 (TokenAccount vault)) + unat fee \<and>
      unat (b1 (TokenAccount fees)) \<le> unat (b (TokenAccount fees)) + unat fee \<and>
      (\<forall>z. z \<noteq> TokenAccount vault \<longrightarrow> z \<noteq> TokenAccount fees \<longrightarrow> b1 z = b z)"
  proof (cases "fee > 0")
    case True
    then have t: "tk_transfer_checked T b (TokenAccount vault) (TokenAccount fees) fee = Inr b1" using b1 by simp
    show ?thesis using transfer_checked [OF t] transfer_checked_unat(1) [OF t] assms(2) by simp
  next
    case False
    then have "fee = 0" using word_gt_0 by blast
    then show ?thesis using b1 by simp
  qed
  have two: "unat (b' (TokenAccount vault)) + unat n = unat (b1 (TokenAccount vault))"
    "unat (b' (TokenAccount dest)) \<le> unat (b1 (TokenAccount dest)) + unat n"
    "\<forall>z. z \<noteq> TokenAccount vault \<longrightarrow> z \<noteq> TokenAccount dest \<longrightarrow> b' z = b1 z"
    using transfer_checked [OF b'] transfer_checked_unat(1) [OF b'] assms(3) by simp_all
  show "unat (b (TokenAccount vault)) = unat (b' (TokenAccount vault)) + (unat n + unat fee)"
    using one two(1) by simp
  show "unat (b' (TokenAccount dest)) \<le> unat (b (TokenAccount dest)) + unat n"
    using one two(2) assms(3,4) by simp
  show "unat (b' (TokenAccount fees)) \<le> unat (b (TokenAccount fees)) + unat fee"
    using one two(3) assms(2,4) by simp
  show "z \<notin> {TokenAccount vault, TokenAccount fees, TokenAccount dest} \<Longrightarrow> b' z = b z"
    using one two(3) by simp
qed

end

text \<open>What an accepted borrow is made of.\<close>

lemma borrow_instruction_parts:
  assumes "borrow_obligation_liquidity_process_impl L T env clk a sz w = Inr (w', n)"
  obtains rts rts' b dks where
    "rl_supply_vault (rsv_liquidity (bw_reserve w)) \<noteq> ba_user_destination_liquidity a"
    "check_permissions (bw_market w) [bw_reserve w] BORROW (last_opt (ba_remaining_accounts a)) =
       Inr (requires_permission (bw_market w) [bw_reserve w] BORROW)"
    "validated_referrer env (ba_borrow_reserve a) (bw_reserve w) (bw_obligation w) (bw_referrer w) = Inr rts"
    "borrow_obligation_liquidity L (bw_market w) (bw_reserve w) (bw_obligation w) sz clk (ba_borrow_reserve a)
       rts dks (bw_deposit_reserves w) =
       Inr (bw_reserve w', bw_obligation w', rts', bw_deposit_reserves w', b)"
    "pay_borrower T (bw_balances w) (rl_supply_vault (rsv_liquidity (bw_reserve w)))
       (fee_vault (rsv_liquidity (bw_reserve w))) (ba_user_destination_liquidity a)
       (cbr_origination_fee b) n = Inr (bw_balances w')"
    "tokens_at w (rl_supply_vault (rsv_liquidity (bw_reserve w))) =
       tokens_at w' (rl_supply_vault (rsv_liquidity (bw_reserve w))) + (unat n + unat (cbr_origination_fee b))"
    "available_in w = available_in w' + (unat n + unat (cbr_origination_fee b))"
    "cbr_receive_amount b = n" "bw_market w' = bw_market w"
    "bw_referrer w' = store_referrer (bw_referrer w) rts'"
proof -
  from assms obtain own rts r' ob' rts' store' b balances paid where
    dest: "rl_supply_vault (rsv_liquidity (bw_reserve w)) \<noteq> ba_user_destination_liquidity a" and
    perm: "check_permissions_and_strip (bw_market w) [bw_reserve w] BORROW (ba_remaining_accounts a) = Inr own" and
    ref: "validated_referrer env (ba_borrow_reserve a) (bw_reserve w) (bw_obligation w) (bw_referrer w) = Inr rts" and
    b: "borrow_obligation_liquidity L (bw_market w) (bw_reserve w) (bw_obligation w) sz clk (ba_borrow_reserve a)
       rts (map ai_key own) (bw_deposit_reserves w) = Inr (r', ob', rts', store', b)" and
    pay: "pay_borrower T (bw_balances w) (rl_supply_vault (rsv_liquidity (bw_reserve w)))
       (fee_vault (rsv_liquidity (bw_reserve w))) (ba_user_destination_liquidity a)
       (cbr_origination_fee b) (cbr_receive_amount b) = Inr balances" and
    paid: "add_ov (cbr_origination_fee b) (cbr_receive_amount b) = Inr paid" and
    post: "post_transfer_vault_balance_liquidity_reserve_checks
       (balances (TokenAccount (rl_supply_vault (rsv_liquidity (bw_reserve w))))) (total_available_liquidity_amount r')
       (bw_balances w (TokenAccount (rl_supply_vault (rsv_liquidity (bw_reserve w)))))
       (total_available_liquidity_amount (bw_reserve w)) (Subtractive paid) = Inr ()" and
    w': "w' = w\<lparr> bw_reserve := r', bw_obligation := ob', bw_referrer := store_referrer (bw_referrer w) rts',
       bw_deposit_reserves := store', bw_balances := balances \<rparr>" and n: "n = cbr_receive_amount b"
    by (auto simp: borrow_obligation_liquidity_process_impl_def Let_def rbind_eq_Inr case_prod_beta
        borrow_obligation_liquidity_checks_def check_reserve_simps)
  have "unat paid = unat n + unat (cbr_origination_fee b)" using paid n by (simp add: ov_eq)
  with vault_checks_sub(1,2) [OF post] have
    "tokens_at w (rl_supply_vault (rsv_liquidity (bw_reserve w))) =
       tokens_at w' (rl_supply_vault (rsv_liquidity (bw_reserve w))) + (unat n + unat (cbr_origination_fee b))"
    "available_in w = available_in w' + (unat n + unat (cbr_origination_fee b))"
    by (simp_all add: tokens_at_def available_in_def w')
  moreover have "check_permissions (bw_market w) [bw_reserve w] BORROW (last_opt (ba_remaining_accounts a)) =
       Inr (requires_permission (bw_market w) [bw_reserve w] BORROW)"
    using perm by (auto simp: check_permissions_and_strip_def rbind_eq_Inr check_permissions_eq)
  ultimately show ?thesis using that dest ref b pay by (simp add: w' n)
qed

section \<open>Properties\<close>

text \<open>
  C7. A borrow pays out what it books: the tokens that leave the vault are those that leave the
  reserve's available liquidity, namely the amount received and the origination fee; the loan grows by at
  least as much, the deposits do not change and no share of the reserve loses value; the
  destination and the fee vault get at most their part and no other balance changes. Where the operation is
  permissioned, the authority of the market signed.
\<close>

theorem borrow_pays_out_what_it_books:
  assumes "num_lib L" "token_calls T"
    and "borrow_obligation_liquidity_process_impl L T env clk a sz w = Inr (w', n)"
    and "obligation_ok (bw_obligation w)" "ba_borrow_reserve a \<noteq> 0" "live (bw_reserve w)"
    and "vault = rl_supply_vault (rsv_liquidity (bw_reserve w))" "fees = fee_vault (rsv_liquidity (bw_reserve w))"
    and "vault \<noteq> fees" "ba_user_destination_liquidity a \<noteq> fees"
  shows "\<exists>debt fee. book_borrow (debt_book (bw_obligation w)) (ba_borrow_reserve a) debt = Inr (debt_book (bw_obligation w')) \<and>
    (unat n + fee) * fx_scale \<le> debt \<and>
    tokens_at w vault = tokens_at w' vault + (unat n + fee) \<and> available_in w = available_in w' + (unat n + fee) \<and>
    tokens_at w' (ba_user_destination_liquidity a) \<le> tokens_at w (ba_user_destination_liquidity a) + unat n \<and>
    tokens_at w' fees \<le> tokens_at w fees + fee \<and>
    (\<forall>z. z \<notin> {TokenAccount vault, TokenAccount fees, TokenAccount (ba_user_destination_liquidity a)} \<longrightarrow>
      bw_balances w' z = bw_balances w z) \<and>
    deposit_book (bw_obligation w') = deposit_book (bw_obligation w) \<and> obligation_ok (bw_obligation w') \<and>
    share_value_le (bw_reserve w) (bw_reserve w') \<and>
    (requires_permission (bw_market w) [bw_reserve w] BORROW \<longrightarrow>
      (\<exists>acct \<in> set (ba_remaining_accounts a). ai_key acct = lm_permissioning_authority (bw_market w) \<and> ai_is_signer acct))"
proof -
  obtain rts rts' b dks where
    dest: "rl_supply_vault (rsv_liquidity (bw_reserve w)) \<noteq> ba_user_destination_liquidity a" and
    perm: "check_permissions (bw_market w) [bw_reserve w] BORROW (last_opt (ba_remaining_accounts a)) =
       Inr (requires_permission (bw_market w) [bw_reserve w] BORROW)" and
    b: "borrow_obligation_liquidity L (bw_market w) (bw_reserve w) (bw_obligation w) sz clk (ba_borrow_reserve a)
       rts dks (bw_deposit_reserves w) =
       Inr (bw_reserve w', bw_obligation w', rts', bw_deposit_reserves w', b)" and
    pay: "pay_borrower T (bw_balances w) vault fees (ba_user_destination_liquidity a) (cbr_origination_fee b) n =
       Inr (bw_balances w')" and
    vault: "tokens_at w vault = tokens_at w' vault + (unat n + unat (cbr_origination_fee b))" and
    avail: "available_in w = available_in w' + (unat n + unat (cbr_origination_fee b))"
    using borrow_instruction_parts [OF assms(3)] unfolding assms(7,8) by metis
  note e = num_lib.borrow_effect [OF assms(1) b assms(4,5)]
  have "unat n + unat (cbr_origination_fee b) \<le> unat (cbr_borrow_amount_f b) div fx_scale"
    using num_lib.borrowed_books [OF assms(1) b] avail by (simp add: available_in_def)
  then have "(unat n + unat (cbr_origination_fee b)) * fx_scale \<le> unat (cbr_borrow_amount_f b)"
    by (simp add: less_eq_div_iff_mult_less_eq fx_scale_def)
  moreover have "\<exists>acct \<in> set (ba_remaining_accounts a). ai_key acct = lm_permissioning_authority (bw_market w) \<and> ai_is_signer acct"
    if "requires_permission (bw_market w) [bw_reserve w] BORROW"
    using perm that by (auto simp: check_permissions_eq last_opt_Some)
  moreover have "share_value_le (bw_reserve w) (bw_reserve w')" using e(1) assms(6) by (simp add: healthy_step_def)
  moreover note tk = token_calls.paid_tokens [OF assms(2) pay assms(9) _ assms(10)]
  ultimately show ?thesis
    using e(4-6) vault avail dest tk(2-4) unfolding assms(7)
    by (intro exI [of _ "unat (cbr_borrow_amount_f b)"] exI [of _ "unat (cbr_origination_fee b)"])
      (simp add: tokens_at_def)
qed

text \<open>Ten tokens borrowed on a vault that holds 1003, three of which the books do not know of.\<close>

definition sample_borrow_accounts :: borrow_accounts where
  "sample_borrow_accounts = \<lparr> ba_owner = 1, ba_lending_market = 0, ba_obligation = 3, ba_borrow_reserve = 8,
     ba_user_destination_liquidity = 6, ba_source_mint = 0, ba_destination_mint = 0, ba_destination_authority = 1,
     ba_remaining_accounts = [] \<rparr>"

definition sample_borrow_env :: borrow_env where
  "sample_borrow_env = \<lparr> be_token_checks = \<lparr> mint_extensions_check = (\<lambda>_. Inr ()), ta_extensions_check = (\<lambda>_. Inr ()) \<rparr>,
     be_referrer_pda = no_referrers \<rparr>"

definition sample_borrow_world :: borrow_world where
  "sample_borrow_world = \<lparr> bw_market = lending_market_default, bw_reserve = debt_reserve,
     bw_obligation = fresh_obligation, bw_referrer = None, bw_deposit_reserves = Map.empty,
     bw_balances = (\<lambda>_. 0)(TokenAccount 20 := 1003) \<rparr>"

lemma debt_reserve_vaults:
  "rl_supply_vault (rsv_liquidity debt_reserve) = 20" "fee_vault (rsv_liquidity debt_reserve) = 21"
  "total_available_amount (rsv_liquidity debt_reserve) = 1000"
  by (simp_all add: debt_reserve_fields sample_reserve_def reserve_init_def)

lemma debt_reserve_live: "live debt_reserve"
  using sample_live
  by (simp add: live_def debt_reserve_def rsv_supply_def supply_bits_def covered_def assets_bits_def fees_bits_def rsv_mint_def)

lemma sample_borrow_parts:
  assumes "borrow_obligation_liquidity std_lib lending_market_default debt_reserve fresh_obligation (Exact 10)
     clk 8 None dks store = Inr (r', ob', rts, store', b)"
  shows "cbr_receive_amount b = 10" "cbr_origination_fee b = 0"
proof -
  have "calculate_borrow std_lib debt_reserve (Exact 10) (remaining_borrow_value fresh_obligation)
      (lm_referral_fee_bps lending_market_default) (ob_elevation_group fresh_obligation \<noteq> ELEVATION_GROUP_NONE) False = Inr b"
    using assms unfolding borrow_obligation_liquidity_def Let_def
    by (auto simp: rbind_eq_Inr fail_eq case_prod_beta split: if_splits)
  moreover have "remaining_borrow_value fresh_obligation = 195 * 2 ^ 60"
    by (simp add: remaining_borrow_value_def fresh_obligation_fields saturating_sub_def)
  moreover have "lm_referral_fee_bps lending_market_default = 0" by (simp add: lending_market_default_def)
  ultimately have "Inr b = Inr \<lparr> cbr_borrow_amount_f = 10 * 2 ^ 60, cbr_receive_amount = 10, cbr_origination_fee = 0,
      cbr_referrer_fee = 0 \<rparr>"
    using sample_borrow_result by (simp add: fresh_obligation_fields ELEVATION_GROUP_NONE_def)
  then show "cbr_receive_amount b = 10" "cbr_origination_fee b = 0" by simp_all
qed

lemma sample_borrow_instruction:
  "\<exists>w'. borrow_obligation_liquidity_process_impl std_lib plain_tokens sample_borrow_env Obligation_Figures.sample_clock
     sample_borrow_accounts (Exact 10) sample_borrow_world = Inr (w', 10) \<and>
     bw_balances w' = (\<lambda>_. 0)(TokenAccount 20 := 993, TokenAccount 6 := 10)"
proof -
  obtain r' ob' b where b: "borrow_obligation_liquidity std_lib lending_market_default debt_reserve
      fresh_obligation (Exact 10) Obligation_Figures.sample_clock 8 None [] Map.empty = Inr (r', ob', None, Map.empty, b)"
    "cbr_borrow_amount_f b = 10 * 2 ^ 60"
    using sample_borrow by blast
  note parts = sample_borrow_parts [OF b(1)]
  have "unat (total_available_liquidity_amount r') = 990"
    using std.borrowed_books [OF b(1)] b(2)
    by (simp add: kept_for_referrer_def total_available_liquidity_amount_def debt_reserve_vaults fx_scale_def)
  then have "unat (total_available_liquidity_amount r') = unat (990 :: u64)" by simp
  then have avail: "total_available_liquidity_amount r' = 990" by (rule word_unat_eqI)
  have checks: "borrow_obligation_liquidity_checks (be_token_checks sample_borrow_env) debt_reserve
      (rl_mint_pubkey (rsv_liquidity debt_reserve)) 6 = Inr ()"
    by (simp add: borrow_obligation_liquidity_checks_def not_the_vault_def check_reserve_status_and_version_def
        check_reserve_version_def check_reserve_emergency_mode_def config_status_def reserve_status_of_u8_def
        check_only_supported_liquidity_token_extensions_def sample_borrow_env_def debt_reserve_vaults
        debt_reserve_fields sample_reserve_plain PROGRAM_VERSION_def reserve_is_emergency_mode_def
        sample_reserve_def reserve_init_def zero_config_def)
  have perm: "check_permissions_and_strip lending_market_default [debt_reserve] BORROW [] = Inr []"
    by (simp add: check_permissions_and_strip_def check_permissions_def requires_permission_def
        is_permissioned_market_def lending_market_default_def)
  have ref: "validated_referrer sample_borrow_env 8 debt_reserve fresh_obligation None = Inr None"
    by (simp add: validated_referrer_def has_referrer_def fresh_obligation_def sample_obligation_def obligation_default_def)
  have pay: "pay_borrower plain_tokens ((\<lambda>_. 0)(TokenAccount 20 := 1003)) 20 21 6 0 10 =
      Inr ((\<lambda>_. 0)(TokenAccount 20 := 993, TokenAccount 6 := 10))"
    by (simp add: pay_borrower_def plain_tokens_def plain_transfer_def)
  show ?thesis
    using b avail checks parts perm ref pay
    by (simp add: borrow_obligation_liquidity_process_impl_def Let_def sample_borrow_world_def
        sample_borrow_accounts_def debt_reserve_vaults total_available_liquidity_amount_def [of debt_reserve]
        add_ov_def checked_add_def to_word_opt_def post_transfer_vault_balance_liquidity_reserve_checks_def
        sub_ov_def checked_sub_def require_eq_def moved_def)
qed

theorem borrow_pays_out_what_it_books_witness:
  "\<exists>w' debt. borrow_obligation_liquidity_process_impl std_lib plain_tokens sample_borrow_env
       Obligation_Figures.sample_clock sample_borrow_accounts (Exact 10) sample_borrow_world = Inr (w', 10) \<and>
     tokens_at w' 20 = 993 \<and> tokens_at w' 6 = 10 \<and> tokens_at w' 21 = 0 \<and>
     book_borrow (debt_book fresh_obligation) 8 debt = Inr (debt_book (bw_obligation w')) \<and> 10 * fx_scale \<le> debt"
proof -
  obtain w' where w': "borrow_obligation_liquidity_process_impl std_lib plain_tokens sample_borrow_env
       Obligation_Figures.sample_clock sample_borrow_accounts (Exact 10) sample_borrow_world = Inr (w', 10)"
    "bw_balances w' = (\<lambda>_. 0)(TokenAccount 20 := 993, TokenAccount 6 := 10)"
    using sample_borrow_instruction by blast
  have fields: "bw_obligation sample_borrow_world = fresh_obligation" "bw_reserve sample_borrow_world = debt_reserve"
    "ba_borrow_reserve sample_borrow_accounts = 8" "ba_user_destination_liquidity sample_borrow_accounts = 6"
    by (simp_all add: sample_borrow_world_def sample_borrow_accounts_def)
  obtain debt fee where "book_borrow (debt_book fresh_obligation) 8 debt = Inr (debt_book (bw_obligation w'))"
    "(10 + fee) * fx_scale \<le> debt"
    using borrow_pays_out_what_it_books [OF std.num_lib_axioms plain.token_calls_axioms w'(1), of 20 21]
    by (auto simp: fields fresh_obligation_ok debt_reserve_live debt_reserve_vaults)
  then show ?thesis using w' by (auto simp: tokens_at_def add_mult_distrib)
qed

end
