(* ===== verification/Borrow_Orders.thy ===== *)
theory Borrow_Orders imports Borrow_Instruction begin

text \<open>
  Borrow orders (\<open>state/borrow_order_operations.rs\<close>, \<open>handlers/handler_set_borrow_order.rs\<close>,
  \<open>handlers/handler_fill_borrow_order.rs\<close>): the owner of an obligation asks for debt at a maximal
  rate and a minimal term, anyone fills the order by borrowing for the owner. Events go to the
  emitter, a parameter that may refuse them; a fill is a borrow instruction for the owner of the order.
\<close>

section \<open>Orders and their configuration\<close>

record borrow_order_config =
  boc_debt_liquidity_mint :: pubkey
  boc_remaining_debt_amount :: u64
  boc_filled_debt_destination :: pubkey
  boc_max_borrow_rate_bps :: u32
  boc_min_debt_term_seconds :: u64
  boc_fillable_until_timestamp :: u64
  boc_enable_auto_rollover_on_filled_borrows :: u8

datatype borrow_order_event =
    BorrowOrderPlaceEvent borrow_order
  | BorrowOrderUpdateEvent borrow_order borrow_order
  | BorrowOrderCancelEvent borrow_order
  | BorrowOrderPartialFillEvent borrow_order borrow_order
  | BorrowOrderFullFillEvent borrow_order

type_synonym event_emitter = "borrow_order_event \<Rightarrow> unit res"

section \<open>Checks\<close>

definition check_borrow_order_creation_enabled :: "lending_market \<Rightarrow> unit res" where
  "check_borrow_order_creation_enabled m =
     (if \<not> is_borrow_order_creation_enabled m then fail OrderCreationDisabled else Inr ())"

definition check_borrow_order_execution_enabled :: "lending_market \<Rightarrow> unit res" where
  "check_borrow_order_execution_enabled m =
     (if \<not> is_borrow_order_execution_enabled m then fail BorrowOrderExecutionDisabled else Inr ())"

text \<open>A fraction is compared with the integer minimum exactly, without conversion.\<close>

definition below_min_fill_value :: "lending_market \<Rightarrow> frac \<Rightarrow> bool" where
  "below_min_fill_value m v \<longleftrightarrow> unat v < unat (lm_min_borrow_order_fill_value m) * fx_scale"

definition value_of_debt_amount :: "numlib \<Rightarrow> reserve \<Rightarrow> u64 \<Rightarrow> frac res" where
  "value_of_debt_amount L r amount =
     rbind (frac_of_u64 L amount) (calculate_market_value_from_liquidity_amount L r)"

definition check_order_remaining_debt_value :: "numlib \<Rightarrow> u64 \<Rightarrow> lending_market \<Rightarrow> reserve \<Rightarrow> unit res" where
  "check_order_remaining_debt_value L remaining_debt_amount m r =
     rbind (value_of_debt_amount L r remaining_debt_amount) (\<lambda>order_value.
     if below_min_fill_value m order_value then fail BorrowOrderValueTooSmall else Inr ())"

definition check_order_config_valid ::
  "numlib \<Rightarrow> borrow_order_config \<Rightarrow> lending_market \<Rightarrow> reserve \<Rightarrow> u64 \<Rightarrow> unit res" where
  "check_order_config_valid L c m r timestamp =
     (if boc_max_borrow_rate_bps c = 0 then fail InvalidOrderConfiguration
      else if boc_remaining_debt_amount c = 0 then fail InvalidOrderConfiguration
      else if boc_fillable_until_timestamp c < timestamp then fail InvalidOrderConfiguration
      else check_order_remaining_debt_value L (boc_remaining_debt_amount c) m r)"

definition check_not_updated :: "'a \<Rightarrow> 'a \<Rightarrow> unit res" where
  "check_not_updated current new_value =
     (if new_value \<noteq> current then fail NonUpdatableOrderConfiguration else Inr ())"

fun is_term_satisfied :: "u64 option \<Rightarrow> u64 option \<Rightarrow> bool" where
  "is_term_satisfied None None \<longleftrightarrow> True"
| "is_term_satisfied None (Some _) \<longleftrightarrow> False"
| "is_term_satisfied (Some _) None \<longleftrightarrow> True"
| "is_term_satisfied (Some min_requested) (Some max_offered) \<longleftrightarrow> min_requested \<le> max_offered"

section \<open>Setting an order\<close>

definition initialize_borrow_order :: "borrow_order_config \<Rightarrow> u64 \<Rightarrow> borrow_order" where
  "initialize_borrow_order c timestamp = \<lparr>
     bo_debt_liquidity_mint = boc_debt_liquidity_mint c,
     bo_remaining_debt_amount = boc_remaining_debt_amount c,
     bo_filled_debt_destination = boc_filled_debt_destination c,
     bo_min_debt_term_seconds = boc_min_debt_term_seconds c,
     bo_fillable_until_timestamp = boc_fillable_until_timestamp c,
     bo_placed_at_timestamp = timestamp, bo_last_updated_at_timestamp = timestamp,
     bo_requested_debt_amount = boc_remaining_debt_amount c,
     bo_max_borrow_rate_bps = boc_max_borrow_rate_bps c, bo_active = 1,
     bo_enable_auto_rollover_on_filled_borrows = boc_enable_auto_rollover_on_filled_borrows c,
     bo_padding1 = replicate 2 0, bo_end_padding = replicate 5 0 \<rparr>"

definition update_borrow_order_config :: "borrow_order \<Rightarrow> borrow_order_config \<Rightarrow> u64 \<Rightarrow> borrow_order res" where
  "update_borrow_order_config bo c timestamp =
     (let bo' = bo\<lparr>
        bo_last_updated_at_timestamp := timestamp,
        bo_requested_debt_amount := (if boc_remaining_debt_amount c \<noteq> bo_remaining_debt_amount bo
          then boc_remaining_debt_amount c else bo_requested_debt_amount bo),
        bo_remaining_debt_amount := boc_remaining_debt_amount c,
        bo_max_borrow_rate_bps := boc_max_borrow_rate_bps c,
        bo_min_debt_term_seconds := boc_min_debt_term_seconds c,
        bo_fillable_until_timestamp := boc_fillable_until_timestamp c,
        bo_enable_auto_rollover_on_filled_borrows := boc_enable_auto_rollover_on_filled_borrows c \<rparr>
      in rbind (check_not_updated (bo_debt_liquidity_mint bo) (boc_debt_liquidity_mint c)) (\<lambda>_.
         rbind (check_not_updated (bo_filled_debt_destination bo) (boc_filled_debt_destination c)) (\<lambda>_.
         Inr bo')))"

definition set_borrow_order ::
  "numlib \<Rightarrow> event_emitter \<Rightarrow> lending_market \<Rightarrow> reserve \<Rightarrow> borrow_order \<Rightarrow> borrow_order_config option \<Rightarrow>
   clock \<Rightarrow> borrow_order res" where
  "set_borrow_order L emit m r bo order_config clk = (case order_config of
     None \<Rightarrow>
       if bo = borrow_order_default then Inr bo
       else rbind (emit (BorrowOrderCancelEvent bo)) (\<lambda>_. Inr borrow_order_default)
   | Some c \<Rightarrow>
       rbind (clock_timestamp (clk_unix_timestamp clk)) (\<lambda>timestamp.
       rbind (check_order_config_valid L c m r timestamp) (\<lambda>_.
       let bo = clear_if_past_fillable_timestamp bo timestamp
       in if bo = borrow_order_default
          then rbind (check_borrow_order_creation_enabled m) (\<lambda>_.
            let bo' = initialize_borrow_order c timestamp
            in rbind (emit (BorrowOrderPlaceEvent bo')) (\<lambda>_. Inr bo'))
          else rbind (update_borrow_order_config bo c timestamp) (\<lambda>bo'.
            rbind (emit (BorrowOrderUpdateEvent bo bo')) (\<lambda>_. Inr bo')))))"

section \<open>Filling an order\<close>

definition fill_borrow_order ::
  "numlib \<Rightarrow> event_emitter \<Rightarrow> lending_market \<Rightarrow> reserve \<Rightarrow> borrow_order \<Rightarrow> clock \<Rightarrow> u64 \<Rightarrow> borrow_order res" where
  "fill_borrow_order L emit m r bo clk amount =
     rbind (check_borrow_order_execution_enabled m) (\<lambda>_.
     rbind (max_borrow_rate_bps (rsv_config r)) (\<lambda>reserve_max_borrow_rate_bps.
     if reserve_max_borrow_rate_bps > bo_max_borrow_rate_bps bo then fail BorrowOrderMaxBorrowRateExceeded
     else if \<not> is_term_satisfied (get_min_debt_term_seconds bo) (get_debt_term_seconds (rsv_config r))
     then fail BorrowOrderMinDebtTermInsufficient
     else rbind (clock_timestamp (clk_unix_timestamp clk)) (\<lambda>current_timestamp.
       if \<not> is_term_satisfied (get_min_debt_term_seconds bo)
              (map_option (\<lambda>maturity. saturating_sub maturity current_timestamp)
                (get_debt_maturity_timestamp (rsv_config r)))
       then fail BorrowOrderMinDebtTermInsufficient
       else if current_timestamp > bo_fillable_until_timestamp bo then fail BorrowOrderFillTimeLimitExceeded
       else rbind (sub_ov (bo_remaining_debt_amount bo) amount) (\<lambda>new_remaining_debt_amount.
         rbind (if new_remaining_debt_amount > 0 then
                  rbind (value_of_debt_amount L r amount) (\<lambda>fill_value.
                  if below_min_fill_value m fill_value then fail BorrowOrderFillValueTooSmall
                  else check_order_remaining_debt_value L new_remaining_debt_amount m r)
                else Inr ()) (\<lambda>_.
         let bo' = bo\<lparr> bo_remaining_debt_amount := new_remaining_debt_amount \<rparr>
         in if new_remaining_debt_amount = 0
            then rbind (emit (BorrowOrderFullFillEvent bo)) (\<lambda>_. Inr borrow_order_default)
            else rbind (emit (BorrowOrderPartialFillEvent bo bo')) (\<lambda>_. Inr bo'))))))"

definition propagate_rollover_config_to_borrow ::
  "lending_market \<Rightarrow> obligation \<Rightarrow> pubkey \<Rightarrow> rollover_config \<Rightarrow> bool \<Rightarrow> obligation res" where
  "propagate_rollover_config_to_borrow m ob reserve_address rollover_config already_borrowed_from_same_reserve =
     (if \<not> is_obligation_borrow_rollover_configuration_enabled m then fail BorrowRolloverConfigurationDisabled
      else rbind (find_liquidity_in_borrows ob reserve_address) (\<lambda>(borrow, i).
        if already_borrowed_from_same_reserve then
          if ol_fixed_term_borrow_rollover_config borrow \<noteq> rollover_config
          then fail ObligationBorrowRolloverConfigMismatch
          else Inr ob
        else Inr (ob\<lparr> ob_borrows := (ob_borrows ob)[i := borrow\<lparr> ol_fixed_term_borrow_rollover_config := rollover_config \<rparr>] \<rparr>)))"

section \<open>Handlers\<close>

record borrow_order_config_args =
  boa_remaining_debt_amount :: u64
  boa_max_borrow_rate_bps :: u32
  boa_min_debt_term_seconds :: u64
  boa_fillable_until_timestamp :: u64
  boa_enable_auto_rollover_on_filled_borrows :: bool

definition with_order_accounts ::
  "borrow_order_config_args \<Rightarrow> pubkey \<Rightarrow> pubkey \<Rightarrow> borrow_order_config option" where
  "with_order_accounts args debt_liquidity_mint filled_debt_destination =
     (if args = \<lparr> boa_remaining_debt_amount = 0, boa_max_borrow_rate_bps = 0, boa_min_debt_term_seconds = 0,
          boa_fillable_until_timestamp = 0, boa_enable_auto_rollover_on_filled_borrows = False \<rparr> then None
      else Some \<lparr> boc_debt_liquidity_mint = debt_liquidity_mint,
        boc_remaining_debt_amount = boa_remaining_debt_amount args,
        boc_filled_debt_destination = filled_debt_destination,
        boc_max_borrow_rate_bps = boa_max_borrow_rate_bps args,
        boc_min_debt_term_seconds = boa_min_debt_term_seconds args,
        boc_fillable_until_timestamp = boa_fillable_until_timestamp args,
        boc_enable_auto_rollover_on_filled_borrows =
          (if boa_enable_auto_rollover_on_filled_borrows args then 1 else 0) \<rparr>)"

text \<open>
  \<open>has_one\<close>, \<open>token\<close> and \<open>address\<close> constraints of the accounts, then the emergency mode of the market
  (\<open>lib.rs\<close>). Of the token account of the destination, its mint and authority are given.
\<close>

definition process_set_borrow_order ::
  "numlib \<Rightarrow> event_emitter \<Rightarrow> pubkey \<Rightarrow> pubkey \<Rightarrow> lending_market \<Rightarrow> reserve \<Rightarrow> obligation \<Rightarrow> pubkey \<Rightarrow> pubkey \<Rightarrow>
   pubkey \<Rightarrow> pubkey \<Rightarrow> borrow_order_config_args \<Rightarrow> u64 \<Rightarrow> clock \<Rightarrow> obligation res" where
  "process_set_borrow_order L emit owner market_key m r ob debt_liquidity_mint filled_debt_destination
     destination_mint destination_authority args min_expected_current_remaining_debt_amount clk =
     (if ob_lending_market ob \<noteq> market_key \<or> ob_owner ob \<noteq> owner \<or> rsv_lending_market r \<noteq> market_key \<or>
         destination_mint \<noteq> debt_liquidity_mint \<or> destination_authority \<noteq> owner \<or>
         debt_liquidity_mint \<noteq> rl_mint_pubkey (rsv_liquidity r) then Inl ProgramErr
      else rbind (emergency_mode_disabled m) (\<lambda>_.
        rbind (check_reserve_emergency_mode r) (\<lambda>_.
        rbind (ensure (bo_remaining_debt_amount (ob_borrow_order ob) \<ge> min_expected_current_remaining_debt_amount)
                 ExpectationNotMet) (\<lambda>_.
        rbind (set_borrow_order L emit m r (ob_borrow_order ob)
                 (with_order_accounts args debt_liquidity_mint filled_debt_destination) clk) (\<lambda>bo.
        Inr (ob\<lparr> ob_borrow_order := bo \<rparr>))))))"

text \<open>The borrow for the owner, then the bookkeeping of the order and the loan's rollover settings.\<close>

definition fill_constraints :: "borrow_accounts \<Rightarrow> borrow_world \<Rightarrow> unit res" where
  "fill_constraints a w =
     (if ob_lending_market (bw_obligation w) \<noteq> ba_lending_market a \<or>
         rsv_lending_market (bw_reserve w) \<noteq> ba_lending_market a then Inl ProgramErr
      else if rl_mint_pubkey (rsv_liquidity (bw_reserve w)) \<noteq> bo_debt_liquidity_mint (ob_borrow_order (bw_obligation w))
      then fail BorrowOrderDebtLiquidityMintMismatch
      else if ba_user_destination_liquidity a \<noteq> bo_filled_debt_destination (ob_borrow_order (bw_obligation w))
      then Inl ProgramErr
      else if ba_destination_mint a \<noteq> ba_source_mint a \<or> ba_destination_authority a \<noteq> ob_owner (bw_obligation w)
      then Inl ProgramErr
      else Inr ())"

definition process_fill_borrow_order ::
  "numlib \<Rightarrow> tokenlib \<Rightarrow> borrow_env \<Rightarrow> event_emitter \<Rightarrow> clock \<Rightarrow> borrow_accounts \<Rightarrow> borrow_world \<Rightarrow> borrow_world res" where
  "process_fill_borrow_order L T env emit clk a w =
     rbind (fill_constraints a w) (\<lambda>_.
     rbind (emergency_mode_disabled (bw_market w)) (\<lambda>_.
     let order_remaining_amount = bo_remaining_debt_amount (ob_borrow_order (bw_obligation w));
         already_borrowed_from_same_reserve =
           (find_liquidity_index_in_borrows (bw_obligation w) (ba_borrow_reserve a) \<noteq> None)
     in rbind (borrow_obligation_liquidity_process_impl L T env clk a (AtMost order_remaining_amount) w) (\<lambda>(w, fill_amount).
        let ob = bw_obligation w;
            borrow_order_rollover_config = get_rollover_config_for_filled_borrow (ob_borrow_order ob)
        in rbind (fill_borrow_order L emit (bw_market w) (bw_reserve w) (ob_borrow_order ob) clk fill_amount) (\<lambda>bo.
           let ob = ob\<lparr> ob_borrow_order := bo \<rparr>
           in rbind (case borrow_order_rollover_config of
                None \<Rightarrow> Inr ob
              | Some c \<Rightarrow> propagate_rollover_config_to_borrow (bw_market w) ob (ba_borrow_reserve a) c
                  already_borrowed_from_same_reserve) (\<lambda>ob.
              Inr (w\<lparr> bw_obligation := ob \<rparr>))))))"

section \<open>What an accepted fill shows\<close>

text \<open>The conditions of the order that the reserve and the clock meet.\<close>

definition reserve_meets_order :: "borrow_order \<Rightarrow> reserve \<Rightarrow> clock \<Rightarrow> bool" where
  "reserve_meets_order bo r clk \<longleftrightarrow>
     (\<exists>rate. max_borrow_rate_bps (rsv_config r) = Inr rate \<and> rate \<le> bo_max_borrow_rate_bps bo) \<and>
     is_term_satisfied (get_min_debt_term_seconds bo) (get_debt_term_seconds (rsv_config r)) \<and>
     is_term_satisfied (get_min_debt_term_seconds bo)
       (map_option (\<lambda>maturity. saturating_sub maturity (clk_unix_timestamp clk))
         (get_debt_maturity_timestamp (rsv_config r))) \<and>
     0 \<le> sint (clk_unix_timestamp clk) \<and> clk_unix_timestamp clk \<le> bo_fillable_until_timestamp bo"

lemma fill_effect:
  assumes "fill_borrow_order L emit m r bo clk amount = Inr bo'"
  shows "is_borrow_order_execution_enabled m" "reserve_meets_order bo r clk"
    "amount \<le> bo_remaining_debt_amount bo"
    "bo' = (if amount = bo_remaining_debt_amount bo then borrow_order_default
            else bo\<lparr> bo_remaining_debt_amount := bo_remaining_debt_amount bo - amount \<rparr>)"
proof -
  from assms obtain rate t rest where
    m: "is_borrow_order_execution_enabled m" and
    rate: "max_borrow_rate_bps (rsv_config r) = Inr rate" "rate \<le> bo_max_borrow_rate_bps bo" and
    term1: "is_term_satisfied (get_min_debt_term_seconds bo) (get_debt_term_seconds (rsv_config r))" and
    t: "clock_timestamp (clk_unix_timestamp clk) = Inr t" and
    term2: "is_term_satisfied (get_min_debt_term_seconds bo)
       (map_option (\<lambda>maturity. saturating_sub maturity t) (get_debt_maturity_timestamp (rsv_config r)))" and
    time: "t \<le> bo_fillable_until_timestamp bo" and
    rest: "sub_ov (bo_remaining_debt_amount bo) amount = Inr rest" and
    bo': "bo' = (if rest = 0 then borrow_order_default else bo\<lparr> bo_remaining_debt_amount := rest \<rparr>)"
    unfolding fill_borrow_order_def Let_def check_borrow_order_execution_enabled_def
    by (auto simp: rbind_eq_Inr guard_eq not_less split: if_splits)
  have c: "t = clk_unix_timestamp clk" "0 \<le> sint (clk_unix_timestamp clk)"
    using t by (auto simp: clock_timestamp_def split: if_splits)
  have a: "amount \<le> bo_remaining_debt_amount bo" "rest = bo_remaining_debt_amount bo - amount"
    using rest by (auto simp: sub_ov_def checked_sub_def res_simps split: if_splits)
  then show "amount \<le> bo_remaining_debt_amount bo"
    "bo' = (if amount = bo_remaining_debt_amount bo then borrow_order_default
            else bo\<lparr> bo_remaining_debt_amount := bo_remaining_debt_amount bo - amount \<rparr>)"
    by (auto simp: bo')
  show "is_borrow_order_execution_enabled m" "reserve_meets_order bo r clk"
    using m rate term1 term2 time c by (auto simp: reserve_meets_order_def)
qed

section \<open>The life of an order\<close>

text \<open>
  \<open>order_life bo filled\<close>: the order \<open>bo\<close> arises from calls of its owner, fills and expiry, and
  \<open>filled\<close> tokens of it were borrowed since the owner last named an amount.
\<close>

inductive order_life :: "numlib \<Rightarrow> event_emitter \<Rightarrow> borrow_order \<Rightarrow> nat \<Rightarrow> bool" for L emit where
  no_order: "order_life L emit borrow_order_default 0"
| order_cancelled: "\<lbrakk> order_life L emit bo filled; set_borrow_order L emit m r bo None clk = Inr bo' \<rbrakk>
    \<Longrightarrow> order_life L emit bo' 0"
| order_set: "\<lbrakk> order_life L emit bo filled; set_borrow_order L emit m r bo (Some c) clk = Inr bo' \<rbrakk>
    \<Longrightarrow> order_life L emit bo'
          (if clear_if_past_fillable_timestamp bo (clk_unix_timestamp clk) = borrow_order_default \<or>
              boc_remaining_debt_amount c \<noteq> bo_remaining_debt_amount bo then 0 else filled)"
| order_filled: "\<lbrakk> order_life L emit bo filled; fill_borrow_order L emit m r bo clk amount = Inr bo' \<rbrakk>
    \<Longrightarrow> order_life L emit bo' (if amount = bo_remaining_debt_amount bo then 0 else filled + unat amount)"
| order_expired: "order_life L emit bo filled
    \<Longrightarrow> order_life L emit (clear_if_past_fillable_timestamp bo t)
          (if clear_if_past_fillable_timestamp bo t = borrow_order_default then 0 else filled)"

definition order_books :: "borrow_order \<Rightarrow> nat \<Rightarrow> bool" where
  "order_books bo filled \<longleftrightarrow>
     unat (bo_requested_debt_amount bo) = unat (bo_remaining_debt_amount bo) + filled \<and>
     (bo = borrow_order_default \<or> bo_active bo = 1 \<and> bo_remaining_debt_amount bo \<noteq> 0 \<and> bo_max_borrow_rate_bps bo \<noteq> 0)"

lemma order_books_default [simp]: "order_books borrow_order_default 0"
  by (simp add: order_books_def borrow_order_default_def)

lemma set_order_books:
  assumes "set_borrow_order L emit m r bo (Some c) clk = Inr bo'" "order_books bo filled"
  shows "order_books bo' (if clear_if_past_fillable_timestamp bo (clk_unix_timestamp clk) = borrow_order_default \<or>
              boc_remaining_debt_amount c \<noteq> bo_remaining_debt_amount bo then 0 else filled)"
proof -
  from assms(1) obtain t where t: "clock_timestamp (clk_unix_timestamp clk) = Inr t"
    and v: "boc_max_borrow_rate_bps c \<noteq> 0" "boc_remaining_debt_amount c \<noteq> 0"
    and bo': "clear_if_past_fillable_timestamp bo t = borrow_order_default \<and> bo' = initialize_borrow_order c t \<or>
      clear_if_past_fillable_timestamp bo t \<noteq> borrow_order_default \<and>
      update_borrow_order_config (clear_if_past_fillable_timestamp bo t) c t = Inr bo'"
    by (auto simp: set_borrow_order_def check_order_config_valid_def rbind_eq_Inr guard_eq Let_def split: if_splits)
  have t: "t = clk_unix_timestamp clk" using t by (auto simp: clock_timestamp_def split: if_splits)
  from bo' show ?thesis
  proof
    assume "clear_if_past_fillable_timestamp bo t = borrow_order_default \<and> bo' = initialize_borrow_order c t"
    with v t show ?thesis by (simp add: order_books_def initialize_borrow_order_def)
  next
    assume u: "clear_if_past_fillable_timestamp bo t \<noteq> borrow_order_default \<and>
      update_borrow_order_config (clear_if_past_fillable_timestamp bo t) c t = Inr bo'"
    then have bo: "clear_if_past_fillable_timestamp bo t = bo" "bo \<noteq> borrow_order_default"
      by (auto simp: clear_if_past_fillable_timestamp_def split: if_splits)
    with u v t assms(2) show ?thesis
      by (auto simp: update_borrow_order_config_def rbind_eq_Inr order_books_def Let_def)
  qed
qed

lemma fill_order_books:
  assumes "fill_borrow_order L emit m r bo clk amount = Inr bo'" "order_books bo filled"
  shows "order_books bo' (if amount = bo_remaining_debt_amount bo then 0 else filled + unat amount)"
proof (cases "amount = bo_remaining_debt_amount bo")
  case True
  with fill_effect(4) [OF assms(1)] show ?thesis by simp
next
  case False
  note e = fill_effect(3,4) [OF assms(1)]
  have "unat (bo_remaining_debt_amount bo - amount) = unat (bo_remaining_debt_amount bo) - unat amount"
    "unat amount \<le> unat (bo_remaining_debt_amount bo)" "bo_remaining_debt_amount bo - amount \<noteq> 0"
    using e(1) False by (simp_all add: unat_sub word_le_nat_alt)
  moreover have "bo \<noteq> borrow_order_default"
    using e(1) False by (auto simp: borrow_order_default_def)
  ultimately show ?thesis using e(2) False assms(2) by (simp add: order_books_def)
qed

lemma order_life_books: "order_life L emit bo filled \<Longrightarrow> order_books bo filled"
proof (induction rule: order_life.induct)
  case (order_cancelled bo filled m r clk bo')
  then have "bo' = borrow_order_default" by (auto simp: set_borrow_order_def rbind_eq_Inr split: if_splits)
  then show ?case by simp
next
  case (order_expired bo filled t)
  then show ?case by (auto simp: clear_if_past_fillable_timestamp_def)
qed (simp_all add: set_order_books fill_order_books del: not_None_eq)

section \<open>The filled borrow\<close>

lemma borrow_keeps_order:
  assumes "borrow_obligation_liquidity L m r ob sz clk k rts dks store = Inr (r', ob', rts', store', b)"
  shows "ob_borrow_order ob' = ob_borrow_order ob"
proof -
  from assms obtain rr t ob1 i eg n r2 where
    ob1: "borrow_into_slot L ob rr k (cbr_borrow_amount_f b) t = Inr (ob1, i)" and
    t: "update_elevation_group_debt_trackers_on_borrow n
          (mark_obligation_stale (ob1\<lparr> ob_has_debt := 1 \<rparr>)) i eg k r2 dks store = Inr (ob', r', store')"
    unfolding borrow_obligation_liquidity_def Let_def
    by (auto simp: rbind_eq_Inr fail_eq case_prod_beta split: if_splits)
  have "ob_borrow_order ob1 = ob_borrow_order ob"
    using ob1 by (auto simp: borrow_into_slot_def find_or_add_liquidity_to_borrows_def rbind_eq_Inr fail_eq
        split: if_splits option.splits)
  moreover have "ob_borrow_order ob' = ob_borrow_order ob1"
    using arg_cong [OF conjunct2 [OF conjunct2 [OF conjunct2 [OF borrow_trackers [OF t]]]], of ob_borrow_order]
    by (simp add: mark_obligation_stale_def)
  ultimately show ?thesis by simp
qed

lemma propagate_effect:
  assumes "propagate_rollover_config_to_borrow m ob k c already = Inr ob'"
  shows "same_positions ob ob'" "ob_borrow_order ob' = ob_borrow_order ob"
    "\<exists>l i. find_liquidity_in_borrows ob' k = Inr (l, i) \<and> ol_fixed_term_borrow_rollover_config l = c"
proof -
  from assms obtain l i where f: "find_liquidity_in_borrows ob k = Inr (l, i)"
    and ob': "already \<and> ol_fixed_term_borrow_rollover_config l = c \<and> ob' = ob \<or>
      \<not> already \<and> ob' = ob\<lparr> ob_borrows := (ob_borrows ob)[i := l\<lparr> ol_fixed_term_borrow_rollover_config := c \<rparr>] \<rparr>"
    by (auto simp: propagate_rollover_config_to_borrow_def rbind_eq_Inr guard_eq split: if_splits)
  note at = found_liquidity [OF f]
  have "same_positions ob ob' \<and> ob_borrow_order ob' = ob_borrow_order ob \<and>
    (\<exists>l i. find_liquidity_in_borrows ob' k = Inr (l, i) \<and> ol_fixed_term_borrow_rollover_config l = c)"
    using ob'
  proof
    assume "already \<and> ol_fixed_term_borrow_rollover_config l = c \<and> ob' = ob"
    with f show ?thesis by auto
  next
    assume n: "\<not> already \<and> ob' = ob\<lparr> ob_borrows := (ob_borrows ob)[i := l\<lparr> ol_fixed_term_borrow_rollover_config := c \<rparr>] \<rparr>"
    have keep: "map f ((ob_borrows ob)[i := l\<lparr> ol_fixed_term_borrow_rollover_config := c \<rparr>]) = map f (ob_borrows ob)"
      if "f (l\<lparr> ol_fixed_term_borrow_rollover_config := c \<rparr>) = f l" for f :: "obligation_liquidity \<Rightarrow> 'x"
      using at that by (simp add: map_update list_update_same_conv)
    have "same_positions ob ob'"
      using n keep [of loan_view] by (simp add: same_positions_def loan_view_def)
    moreover have "find_liquidity_in_borrows ob' k = Inr (ob_borrows ob' ! i, i)"
      using n keep [of ol_borrow_reserve] by (intro find_liquidity_keys [OF _ f]) simp
    ultimately show ?thesis using n at by auto
  qed
  then show "same_positions ob ob'" "ob_borrow_order ob' = ob_borrow_order ob"
    "\<exists>l i. find_liquidity_in_borrows ob' k = Inr (l, i) \<and> ol_fixed_term_borrow_rollover_config l = c"
    by auto
qed

text \<open>
  A fill of an order by its handler is a borrow instruction of at most what is left of the order, to
  the destination the owner chose and of the token the owner named, followed by the fill of the order;
  the slot of the loan carries the rollover settings of the order where it has some.
\<close>

lemma filled_borrow_effect:
  assumes "process_fill_borrow_order L T env emit clk a w = Inr w'"
    and "obligation_ok (bw_obligation w)" "ba_borrow_reserve a \<noteq> 0"
    and "bo = ob_borrow_order (bw_obligation w)"
  obtains w1 n where
    "borrow_obligation_liquidity_process_impl L T env clk a (AtMost (bo_remaining_debt_amount bo)) w = Inr (w1, n)"
    "w' = w1\<lparr> bw_obligation := bw_obligation w' \<rparr>"
    "fill_borrow_order L emit (bw_market w) (bw_reserve w') bo clk n = Inr (ob_borrow_order (bw_obligation w'))"
    "same_positions (bw_obligation w1) (bw_obligation w')"
    "ba_user_destination_liquidity a = bo_filled_debt_destination bo"
    "rl_mint_pubkey (rsv_liquidity (bw_reserve w)) = bo_debt_liquidity_mint bo"
    "\<And>c. get_rollover_config_for_filled_borrow bo = Some c \<Longrightarrow>
       \<exists>l i. find_liquidity_in_borrows (bw_obligation w') (ba_borrow_reserve a) = Inr (l, i) \<and>
         ol_fixed_term_borrow_rollover_config l = c"
proof -
  let ?k = "ba_borrow_reserve a"
  obtain w1 n bo1 ob' where
    i: "borrow_obligation_liquidity_process_impl L T env clk a (AtMost (bo_remaining_debt_amount bo)) w = Inr (w1, n)" and
    f: "fill_borrow_order L emit (bw_market w1) (bw_reserve w1) (ob_borrow_order (bw_obligation w1)) clk n = Inr bo1" and
    p: "(case get_rollover_config_for_filled_borrow (ob_borrow_order (bw_obligation w1)) of
          None \<Rightarrow> Inr ((bw_obligation w1)\<lparr> ob_borrow_order := bo1 \<rparr>)
        | Some c \<Rightarrow> propagate_rollover_config_to_borrow (bw_market w1) ((bw_obligation w1)\<lparr> ob_borrow_order := bo1 \<rparr>) ?k c
            (find_liquidity_index_in_borrows (bw_obligation w) ?k \<noteq> None)) = Inr ob'" and
    w': "w' = w1\<lparr> bw_obligation := ob' \<rparr>" and
    d: "ba_user_destination_liquidity a = bo_filled_debt_destination bo"
      "rl_mint_pubkey (rsv_liquidity (bw_reserve w)) = bo_debt_liquidity_mint bo"
    using assms(1) unfolding process_fill_borrow_order_def fill_constraints_def Let_def assms(4)
    by (auto simp: rbind_eq_Inr guard_eq case_prod_beta cong: option.case_cong split: if_splits)
  obtain rts rts' b dks where
    b: "borrow_obligation_liquidity L (bw_market w) (bw_reserve w) (bw_obligation w)
         (AtMost (bo_remaining_debt_amount bo)) clk ?k rts dks (bw_deposit_reserves w) =
       Inr (bw_reserve w1, bw_obligation w1, rts', bw_deposit_reserves w1, b)" and
    m: "bw_market w1 = bw_market w"
    using borrow_instruction_parts [OF i] by metis
  have ord: "ob_borrow_order (bw_obligation w1) = bo" using borrow_keeps_order [OF b] assms(4) by simp
  have same: "same_positions (bw_obligation w1) ob' \<and> ob_borrow_order ob' = bo1 \<and>
      (\<forall>c. get_rollover_config_for_filled_borrow bo = Some c \<longrightarrow>
       (\<exists>l i. find_liquidity_in_borrows ob' ?k = Inr (l, i) \<and> ol_fixed_term_borrow_rollover_config l = c))"
  proof (cases "get_rollover_config_for_filled_borrow bo")
    case None
    then show ?thesis using p by (auto simp: same_positions_def ord)
  next
    case (Some c)
    then have "propagate_rollover_config_to_borrow (bw_market w1) ((bw_obligation w1)\<lparr> ob_borrow_order := bo1 \<rparr>) ?k c
        (find_liquidity_index_in_borrows (bw_obligation w) ?k \<noteq> None) = Inr ob'" using p by (simp add: ord)
    from propagate_effect [OF this] Some show ?thesis by (simp add: same_positions_def)
  qed
  show ?thesis
    using that [OF i] f same d by (simp add: w' m ord)
qed

section \<open>Properties\<close>

text \<open>
  C29. A borrow order is never filled beyond what its owner asked for: over every history of placements,
  updates, cancellations, expiries and fills, an accepted fill and the earlier fills since the owner
  last named an amount together stay within that amount, and the order is cleared exactly when
  they reach it. The fill happens only while the market executes orders, from a reserve whose rate never
  exceeds the order's and whose loans last at least as long as the order asks, and before the
  order's deadline.
\<close>

theorem borrow_order_fills_stay_within_request:
  assumes "order_life L emit bo filled" "fill_borrow_order L emit m r bo clk amount = Inr bo'"
  shows "filled + unat amount \<le> unat (bo_requested_debt_amount bo) \<and>
    (bo' = borrow_order_default \<longleftrightarrow> filled + unat amount = unat (bo_requested_debt_amount bo)) \<and>
    (bo' = borrow_order_default \<or> unat (bo_remaining_debt_amount bo') + (filled + unat amount) = unat (bo_requested_debt_amount bo')) \<and>
    is_borrow_order_execution_enabled m \<and> reserve_meets_order bo r clk"
proof -
  have books: "unat (bo_requested_debt_amount bo) = unat (bo_remaining_debt_amount bo) + filled"
    using order_life_books [OF assms(1)] by (simp add: order_books_def)
  note e = fill_effect [OF assms(2)]
  have le: "unat amount \<le> unat (bo_remaining_debt_amount bo)" using e(3) by (simp add: word_le_nat_alt)
  show ?thesis
  proof (cases "amount = bo_remaining_debt_amount bo")
    case True
    with e books show ?thesis by simp
  next
    case False
    then have "unat amount \<noteq> unat (bo_remaining_debt_amount bo)" using word_unat_eqI by blast
    moreover have "unat (bo_remaining_debt_amount bo - amount) = unat (bo_remaining_debt_amount bo) - unat amount"
      using e(3) by (simp add: unat_sub)
    moreover have "bo_remaining_debt_amount bo - amount \<noteq> 0" using False by simp
    then have "bo_remaining_debt_amount bo' \<noteq> 0" using e(4) False by simp
    then have "bo' \<noteq> borrow_order_default" by (auto simp: borrow_order_default_def)
    ultimately show ?thesis using e books le False by simp
  qed
qed

text \<open>An order of 100 tokens for 600 seconds at 5 percent, of which 40 are filled.\<close>

definition order_config_100 :: borrow_order_config where
  "order_config_100 = \<lparr> boc_debt_liquidity_mint = 0, boc_remaining_debt_amount = 100,
     boc_filled_debt_destination = 6, boc_max_borrow_rate_bps = 500, boc_min_debt_term_seconds = 600,
     boc_fillable_until_timestamp = 2000, boc_enable_auto_rollover_on_filled_borrows = 0 \<rparr>"

definition order_market :: lending_market where
  "order_market = lending_market_default\<lparr> lm_borrow_order_creation_enabled := 1, lm_borrow_order_execution_enabled := 1 \<rparr>"

lemma order_market_fields:
  "is_borrow_order_creation_enabled order_market" "is_borrow_order_execution_enabled order_market"
  "lm_min_borrow_order_fill_value order_market = 2"
  by (simp_all add: order_market_def is_borrow_order_creation_enabled_def is_borrow_order_execution_enabled_def
      lending_market_default_def MIN_BORROW_ORDER_FILL_VALUE_def)

lemma order_values:
  "value_of_debt_amount std_lib fixed_term_reserve 100 = Inr (100 * 2 ^ 60)"
  "value_of_debt_amount std_lib fixed_term_reserve 60 = Inr (60 * 2 ^ 60)"
  "value_of_debt_amount std_lib fixed_term_reserve 40 = Inr (40 * 2 ^ 60)"
proof -
  have "mint_factor (rsv_liquidity fixed_term_reserve) = Inr 1" "market_price_sf (rsv_liquidity fixed_term_reserve) = 2 ^ 60"
    by (simp_all add: term_fields debt_reserve_fields mint_factor_def ten_pow_def sample_reserve_plain POWERS_OF_TEN_def)
  then show "value_of_debt_amount std_lib fixed_term_reserve 100 = Inr (100 * 2 ^ 60)"
    "value_of_debt_amount std_lib fixed_term_reserve 60 = Inr (60 * 2 ^ 60)"
    "value_of_debt_amount std_lib fixed_term_reserve 40 = Inr (40 * 2 ^ 60)"
    by (simp_all add: value_of_debt_amount_def calculate_market_value_from_liquidity_amount_def frac_of_u64_def
        liquidity_amount_to_market_value_def FRACTION_ONE_SCALED_def full_mul_int_ratio_def mul_ov_def
        checked_mul_def std_eval)
qed

lemma order_placed:
  "set_borrow_order std_lib (\<lambda>_. Inr ()) order_market fixed_term_reserve borrow_order_default (Some order_config_100)
     settling_clock = Inr (initialize_borrow_order order_config_100 1000)"
  using order_values(1)
  by (simp add: set_borrow_order_def settling_clock_def clock_timestamp_def check_order_config_valid_def
      order_config_100_def check_order_remaining_debt_value_def below_min_fill_value_def order_market_fields
      fx_scale_def clear_if_past_fillable_timestamp_def check_borrow_order_creation_enabled_def)

lemma order_fill_40:
  "fill_borrow_order std_lib (\<lambda>_. Inr ()) order_market fixed_term_reserve (initialize_borrow_order order_config_100 1000)
     settling_clock 40 = Inr ((initialize_borrow_order order_config_100 1000)\<lparr> bo_remaining_debt_amount := 60 \<rparr>)"
proof -
  have "max_borrow_rate_bps (rsv_config fixed_term_reserve) = Inr 500"
    by (simp add: max_borrow_rate_bps_def term_config zero_config_def flat_curve_def curve_point_new_def replicates(2))
  moreover have "get_debt_maturity_timestamp (rsv_config fixed_term_reserve) = None"
    by (simp add: get_debt_maturity_timestamp_def term_config zero_config_def)
  moreover have "get_debt_term_seconds (rsv_config fixed_term_reserve) = Some 600" by (rule term_fields)
  ultimately show ?thesis
    using order_values
    by (simp add: fill_borrow_order_def check_borrow_order_execution_enabled_def order_market_fields
        initialize_borrow_order_def order_config_100_def get_min_debt_term_seconds_def settling_clock_def
        clock_timestamp_def sub_ov_def checked_sub_def check_order_remaining_debt_value_def
        below_min_fill_value_def fx_scale_def)
qed

theorem borrow_order_fills_stay_within_request_witness:
  "\<exists>bo bo'. order_life std_lib (\<lambda>_. Inr ()) bo 0 \<and>
     fill_borrow_order std_lib (\<lambda>_. Inr ()) order_market fixed_term_reserve bo settling_clock 40 = Inr bo' \<and>
     bo_remaining_debt_amount bo' = 60 \<and> 40 \<le> unat (bo_requested_debt_amount bo) \<and>
     unat (bo_requested_debt_amount bo') = 100"
proof -
  let ?bo = "initialize_borrow_order order_config_100 1000"
  have life: "order_life std_lib (\<lambda>_. Inr ()) ?bo 0"
    using order_set [OF no_order order_placed] by (simp add: clear_if_past_fillable_timestamp_def)
  from borrow_order_fills_stay_within_request [OF life order_fill_40]
  have "40 \<le> unat (bo_requested_debt_amount ?bo)" by simp
  with life order_fill_40 show ?thesis
    by (intro exI [of _ ?bo] exI [of _ "?bo\<lparr> bo_remaining_debt_amount := 60 \<rparr>"])
      (simp add: initialize_borrow_order_def order_config_100_def)
qed

end
