(* ===== verification/Obligation_Updates.thy ===== *)
theory Obligation_Updates imports Borrow_Orders begin

text \<open>
  The rollover settings that the owner of an obligation keeps per loan: \<open>update_obligation_config\<close> with
  its integrity check (\<open>lending_market/lending_operations.rs\<close>) and
  \<open>handlers/handler_update_obligation_config.rs\<close>.
\<close>

datatype update_obligation_config_mode =
    FixedTermRolloverEnabled | FixedTermRolloverMaxBorrowRateBps | FixedTermRolloverMinDebtTermSeconds |
    FixedTermRolloverOpenTermAllowed | MigrationToFixedEnabled

datatype obligation_config_update_subject =
    ObligationSubject | DepositSubject pubkey | BorrowSubject pubkey

definition resolve_subject ::
  "pubkey option \<Rightarrow> pubkey option \<Rightarrow> obligation_config_update_subject res" where
  "resolve_subject deposit_reserve borrow_reserve = (case (deposit_reserve, borrow_reserve) of
     (Some _, Some _) \<Rightarrow> fail InvalidObligationConfigUpdateSubject
   | (None, None) \<Rightarrow> Inr ObligationSubject
   | (Some deposit, None) \<Rightarrow> Inr (DepositSubject deposit)
   | (None, Some borrow) \<Rightarrow> Inr (BorrowSubject borrow))"

primrec borrow_reserve_address :: "obligation_config_update_subject \<Rightarrow> pubkey res" where
  "borrow_reserve_address (BorrowSubject k) = Inr k"
| "borrow_reserve_address (DepositSubject k) = fail InvalidObligationConfigUpdateSubject"
| "borrow_reserve_address ObligationSubject = fail InvalidObligationConfigUpdateSubject"

definition check_enabled_rollover_config_integrity :: "lending_market \<Rightarrow> rollover_config \<Rightarrow> unit res" where
  "check_enabled_rollover_config_integrity m c =
     (let any_enabled = (is_auto_rollover_enabled c \<or> is_migration_to_fixed_enabled c)
      in if any_enabled \<and> \<not> is_obligation_borrow_rollover_configuration_enabled m
         then fail BorrowRolloverConfigurationDisabled
         else if any_enabled \<and> ro_max_borrow_rate_bps c = 0 then fail InvalidConfig
         else if is_migration_to_fixed_enabled c \<and> ro_min_debt_term_seconds c = 0 then fail InvalidConfig
         else Inr ())"

text \<open>The new settings of a loan, set and then checked as a whole where the mode asks for it.\<close>

primrec set_rollover_field ::
  "decoders \<Rightarrow> lending_market \<Rightarrow> rollover_config \<Rightarrow> update_obligation_config_mode \<Rightarrow> u8 list \<Rightarrow> rollover_config res" where
  "set_rollover_field D m c FixedTermRolloverEnabled bytes =
     rbind (set_field (de_u8 D) check_bool bytes (\<lambda>v. c\<lparr> auto_rollover_enabled := v \<rparr>)) (\<lambda>c.
     rbind (if is_auto_rollover_enabled c then check_enabled_rollover_config_integrity m c else Inr ()) (\<lambda>_. Inr c))"
| "set_rollover_field D m c FixedTermRolloverMaxBorrowRateBps bytes =
     rbind (set_field (de_u32 D) accept_anything bytes (\<lambda>v. c\<lparr> ro_max_borrow_rate_bps := v \<rparr>)) (\<lambda>c.
     rbind (check_enabled_rollover_config_integrity m c) (\<lambda>_. Inr c))"
| "set_rollover_field D m c FixedTermRolloverMinDebtTermSeconds bytes =
     rbind (set_field (de_u64 D) accept_anything bytes (\<lambda>v. c\<lparr> ro_min_debt_term_seconds := v \<rparr>)) (\<lambda>c.
     rbind (check_enabled_rollover_config_integrity m c) (\<lambda>_. Inr c))"
| "set_rollover_field D m c FixedTermRolloverOpenTermAllowed bytes =
     rbind (set_field (de_u8 D) check_bool bytes (\<lambda>v. c\<lparr> open_term_allowed := v \<rparr>)) (\<lambda>c.
     rbind (check_enabled_rollover_config_integrity m c) (\<lambda>_. Inr c))"
| "set_rollover_field D m c MigrationToFixedEnabled bytes =
     rbind (set_field (de_u8 D) check_bool bytes (\<lambda>v. c\<lparr> migration_to_fixed_enabled := v \<rparr>)) (\<lambda>c.
     rbind (if is_migration_to_fixed_enabled c then check_enabled_rollover_config_integrity m c else Inr ())
       (\<lambda>_. Inr c))"

definition update_obligation_config ::
  "decoders \<Rightarrow> obligation \<Rightarrow> lending_market \<Rightarrow> obligation_config_update_subject \<Rightarrow>
   update_obligation_config_mode \<Rightarrow> u8 list \<Rightarrow> obligation res" where
  "update_obligation_config D ob m subject mode bytes =
     rbind (borrow_reserve_address subject) (\<lambda>k.
     rbind (find_liquidity_in_borrows ob k) (\<lambda>(l, i).
     rbind (set_rollover_field D m (ol_fixed_term_borrow_rollover_config l) mode bytes) (\<lambda>c.
     Inr (ob\<lparr> ob_borrows := (ob_borrows ob)[i := l\<lparr> ol_fixed_term_borrow_rollover_config := c \<rparr>] \<rparr>))))"

text \<open>The optional reserves must be accounts of the same market, which is not in emergency mode (\<open>lib.rs\<close>).\<close>

definition of_other_market :: "pubkey \<Rightarrow> (pubkey \<times> reserve) option \<Rightarrow> bool" where
  "of_other_market market_key account = (case account of
     None \<Rightarrow> False | Some (_, r) \<Rightarrow> rsv_lending_market r \<noteq> market_key)"

definition process_update_obligation_config ::
  "decoders \<Rightarrow> pubkey \<Rightarrow> pubkey \<Rightarrow> lending_market \<Rightarrow> obligation \<Rightarrow> (pubkey \<times> reserve) option \<Rightarrow>
   (pubkey \<times> reserve) option \<Rightarrow> update_obligation_config_mode \<Rightarrow> u8 list \<Rightarrow> obligation res" where
  "process_update_obligation_config D owner market_key m ob borrow_reserve deposit_reserve mode bytes =
     (if ob_lending_market ob \<noteq> market_key \<or> ob_owner ob \<noteq> owner \<or>
         of_other_market market_key borrow_reserve \<or> of_other_market market_key deposit_reserve
      then Inl ProgramErr
      else rbind (emergency_mode_disabled m) (\<lambda>_.
        rbind (resolve_subject (map_option fst deposit_reserve) (map_option fst borrow_reserve)) (\<lambda>subject.
        update_obligation_config D ob m subject mode bytes)))"

section \<open>Enabled rollovers have limits\<close>

definition rollover_complete :: "rollover_config \<Rightarrow> bool" where
  "rollover_complete c \<longleftrightarrow>
     (is_auto_rollover_enabled c \<or> is_migration_to_fixed_enabled c \<longrightarrow> ro_max_borrow_rate_bps c \<noteq> 0) \<and>
     (is_migration_to_fixed_enabled c \<longrightarrow> ro_min_debt_term_seconds c \<noteq> 0)"

definition rollovers_complete :: "obligation \<Rightarrow> bool" where
  "rollovers_complete ob \<longleftrightarrow> (\<forall>l \<in> set (ob_borrows ob). rollover_complete (ol_fixed_term_borrow_rollover_config l))"

lemma integrity_complete [res_simps]:
  "check_enabled_rollover_config_integrity m c = Inr u \<longleftrightarrow> rollover_complete c \<and>
     (is_auto_rollover_enabled c \<or> is_migration_to_fixed_enabled c \<longrightarrow>
      is_obligation_borrow_rollover_configuration_enabled m)"
  by (auto simp: check_enabled_rollover_config_integrity_def Let_def guard_eq rollover_complete_def)

lemma set_rollover_complete:
  assumes "set_rollover_field D m c mode bytes = Inr c'" "rollover_complete c"
  shows "rollover_complete c'"
  using assms
  by (cases mode) (auto simp: rbind_eq_Inr res_simps rollover_complete_def is_auto_rollover_enabled_def
      is_migration_to_fixed_enabled_def split: if_splits)

text \<open>Switching a rollover on needs the market's consent.\<close>

lemma set_rollover_enables:
  assumes "set_rollover_field D m c mode bytes = Inr c'"
    and "is_auto_rollover_enabled c' \<and> \<not> is_auto_rollover_enabled c \<or>
      is_migration_to_fixed_enabled c' \<and> \<not> is_migration_to_fixed_enabled c"
  shows "is_obligation_borrow_rollover_configuration_enabled m"
  using assms
  by (cases mode) (auto simp: rbind_eq_Inr res_simps is_auto_rollover_enabled_def
      is_migration_to_fixed_enabled_def split: if_splits)

text \<open>
  A change of settings is the owner's, moves nothing, touches one loan, and leaves every enabled rollover
  with a rate limit and every migration with a minimal term.
\<close>

lemma obligation_update_effect:
  assumes "process_update_obligation_config D owner mk m ob b d mode bytes = Inr ob'"
  shows "owner = ob_owner ob" "same_positions ob ob'" "rollovers_complete ob \<Longrightarrow> rollovers_complete ob'"
proof -
  from assms obtain k l i c where own: "owner = ob_owner ob"
    and f: "find_liquidity_in_borrows ob k = Inr (l, i)"
    and c: "set_rollover_field D m (ol_fixed_term_borrow_rollover_config l) mode bytes = Inr c"
    and ob': "ob' = ob\<lparr> ob_borrows := (ob_borrows ob)[i := l\<lparr> ol_fixed_term_borrow_rollover_config := c \<rparr>] \<rparr>"
    by (auto simp: process_update_obligation_config_def update_obligation_config_def rbind_eq_Inr split: if_splits)
  note at = found_liquidity [OF f]
  have "map loan_view ((ob_borrows ob)[i := l\<lparr> ol_fixed_term_borrow_rollover_config := c \<rparr>]) = map loan_view (ob_borrows ob)"
    using at by (simp add: map_update list_update_same_conv loan_view_def)
  then show "same_positions ob ob'" by (simp add: ob' same_positions_def)
  show "owner = ob_owner ob" by (rule own)
  show "rollovers_complete ob'" if "rollovers_complete ob"
  proof -
    have "rollover_complete c" using set_rollover_complete [OF c] that at by (auto simp: rollovers_complete_def)
    with that show ?thesis
      using set_update_subset_insert [of "ob_borrows ob" i] by (fastforce simp: rollovers_complete_def ob')
  qed
qed

text \<open>The settings that a filled order hands on are complete as well.\<close>

lemma order_rollover_complete:
  assumes "order_life L emit bo filled" "get_rollover_config_for_filled_borrow bo = Some c"
  shows "rollover_complete c"
proof -
  have "bo \<noteq> borrow_order_default" using assms(2)
    by (auto simp: get_rollover_config_for_filled_borrow_def borrow_order_default_def)
  then have "bo_max_borrow_rate_bps bo \<noteq> 0" using order_life_books [OF assms(1)] by (simp add: order_books_def)
  then show ?thesis
    using assms(2) by (auto simp: get_rollover_config_for_filled_borrow_def rollover_complete_def
        is_auto_rollover_enabled_def is_migration_to_fixed_enabled_def split: if_splits)
qed

end
