(* ===== verification/Spec2Isabelle.thy ===== *)
theory Spec2Isabelle
  imports Fraction Last_Update Withdrawal_Caps Borrow_Rate_Curve Token_Info Reserve
    Obligation_Loan Obligation_Books Transaction Ownership_Transfer Market_Invariants Permissioning
    Liquidation_Safety Reserve_Histories Queue_Safety Position_Safety Liquidation_Settlement
    Rollover_Settlement Ledger Administration Obligation_Updates
begin

text \<open>
  A model of the lending program Kamino Lend (\<open>klend/programs/klend/src\<close>), with the theorems
  that make its accounting correct. Suppliers deposit liquidity of a token into a reserve and hold
  collateral tokens, shares of it; borrowers keep collateral positions and loans in an obligation;
  reserves and obligations belong to a market, whose owner sets limits; every value in the program
  is a fixed-point number.

  Conventions.
  \<^item> \<open>Lending_Errors\<close> and \<open>Prelude\<close>: a fallible function returns \<open>error + 'a\<close>. \<open>Inl (LendingErr e)\<close>
    is the error \<open>e\<close> of the enum \<open>LendingError\<close> (\<open>lib.rs\<close>), \<open>Inl ProgramErr\<close> an error of the runtime
    or of another program, \<open>Inl Panic\<close> an abort (overflow, division by zero, \<open>unwrap\<close> of nothing, an
    index out of range). The workspace sets \<open>overflow-checks = true\<close>, so plain arithmetic panics
    instead of wrapping. A function that takes \<open>&mut\<close> arguments returns their new values; after an
    error the transaction is rolled back, so no state is returned.
  \<^item> An integer of \<open>w\<close> bits is a \<open>w word\<close> read with \<open>unat\<close> (\<open>sint\<close> for the signed ones), a public key
    a word of 256 bits whose default is 0, an array of the accounts a list of its length, and the
    accounts an instruction reaches through iterators are keys into a finite map, so that an
    account passed twice is one account. The simp collections \<open>res_simps\<close> and \<open>arith_simps\<close> decide
    when a sequence of calls returns and what.
  \<^item> Log lines (\<open>msg!\<close>, \<open>xmsg!\<close>) have no effect on state and are left out, with the computations in
    their arguments; the name of a market, which is decoded in order to be logged, is the exception.

  Parameters: code outside the repository that the program relies on.
  \<^item> \<open>Num_Lib\<close>: the crates \<open>fixed\<close> and \<open>uint\<close>, a record of their operations with their documented
    behaviour as the assumptions of the locale \<open>num_lib\<close>, interpreted on the concrete \<open>std_lib\<close>.
  \<^item> \<open>Token_Program\<close>: the calls of the token program that move, mint and burn tokens, with their
    effect on balances as the assumptions of \<open>token_calls\<close>, interpreted on a concrete ledger; the
    callback of a queued withdrawal joins them in \<open>queue_runtime\<close>.
  \<^item> Single functions are arguments of the definitions that use them: the derivation of program
    addresses, the decoders of configuration bytes, the decoding of instructions, the extension
    checks of token accounts.

  Parts of the program and where they are modelled.
  \<^item> \<open>Fraction\<close> (\<open>utils/fraction.rs\<close>): fixed-point numbers with 60 fractional bits and their 256 bit
    extension, every rounding mode, integer powers. C37 gives the error bound of powers, C27 the
    exactness of the rounded up division.
  \<^item> \<open>Last_Update\<close> (\<open>state/last_update.rs\<close>): freshness of prices and accounts, \<open>fresh_only_after_refresh_in_slot\<close>.
  \<^item> \<open>Withdrawal_Caps\<close> (\<open>lending_market/withdrawal_cap_operations.rs\<close>): limits per interval, \<open>withdrawal_cap_admission\<close>, C21.
  \<^item> \<open>Borrow_Rate_Curve\<close> (\<open>utils/borrow_rate_curve.rs\<close>): the piecewise linear interest curve, C38, \<open>curve_construction\<close>.
  \<^item> \<open>Token_Info\<close> (\<open>state/token_info.rs\<close>): oracle configurations and their validity.
  \<^item> \<open>Reserve_Liquidity\<close>, \<open>Reserve_Collateral\<close>, \<open>Reserve_Config\<close>, \<open>Reserve\<close> (\<open>state/reserve.rs\<close>): the
    balances and debt of a reserve with compound interest and the fees owed (C4, \<open>interest_accrual_no_underflow\<close>, \<open>price_conversion_rounds_down\<close>), the
    exchange rate between collateral tokens and liquidity (an abstract \<open>exchange\<close> contract as a
    locale, interpreted on the code's conversions, C36), the configuration with the fee schedule
    (C39), and the operations of a reserve with their histories (C3, C35, \<open>reward_distribution\<close>, C34).
  \<^item> \<open>Obligation_Loan\<close>, \<open>Slots\<close>, \<open>Obligation\<close>, \<open>Obligation_Books\<close> (\<open>state/obligation.rs\<close>): one loan
    with its accrual, term and penalties (C31, \<open>early_repay_penalty_bounded\<close>, C32), the arrays of positions (the locale \<open>slots\<close>,
    interpreted for deposits and loans), the account, and its refinement to two books (C5, C33).
  \<^item> \<open>Transaction\<close> (\<open>lending_market/flash_ixs.rs\<close>, \<open>lending_market/ix_utils.rs\<close>,
    \<open>utils/refresh_ix_utils.rs\<close>): what an instruction reads of its transaction, C25, C26.
  \<^item> \<open>Config_Items\<close> (\<open>lending_market/config_items.rs\<close>, \<open>state/global_config.rs\<close>): configuration
    values are decoded, validated and stored.
  \<^item> \<open>Ownership_Transfer\<close>: the four handlers of the transfer of an obligation, C24.
  \<^item> \<open>Lending_Market\<close>, \<open>Market_Updates\<close>, \<open>Market_Invariants\<close> (\<open>state/lending_market.rs\<close> and the
    handlers that change a market): C22, C23.
  \<^item> \<open>Permissioning\<close> (\<open>utils/permissioning.rs\<close>): \<open>permission_check_and_strip\<close>.
  \<^item> \<open>Obligation_Orders\<close> (\<open>state/obligation_order_operations.rs\<close>): conditional orders, C28, C30.
  \<^item> \<open>Liquidation\<close>, \<open>Liquidation_Safety\<close> (\<open>state/liquidation_operations.rs\<close>): C13, C12, C11, C14.
  \<^item> \<open>Reserve_Flows\<close>, \<open>Reserve_Histories\<close> (\<open>lending_market/lending_operations.rs\<close>): refresh, deposits,
    redemptions, queue, fees and flash loans of one reserve, and their histories, C19.
  \<^item> \<open>Lending_Checks\<close> (\<open>lending_market/lending_checks.rs\<close>): the guards of the instructions.
  \<^item> \<open>Withdraw_Queue\<close>, \<open>Queue_Safety\<close> (\<open>state/withdraw_ticket.rs\<close> and four handlers): the queue of
    withdrawals that wait for liquidity, with the vaults of their owners, C16, C18, C17.
  \<^item> \<open>Position_Checks\<close>, \<open>Position_Operations\<close>, \<open>Refresh_Obligation\<close> (\<open>lending_market/lending_operations.rs\<close>):
    the operations on obligations, composed of the parts above, with the trackers of the debt of
    elevation groups. \<open>Obligation_Figures\<close> relates the refresh to a reference computation (C6),
    \<open>Position_Safety\<close> shows what an accepted borrow or withdrawal leaves (C8, C9).
  \<^item> \<open>Liquidate\<close>, \<open>Rollover\<close> (\<open>lending_market/lending_operations.rs\<close>): whole liquidations with the redemption
    of the seized shares, and rollovers of loans. \<open>Position_Effects\<close> and \<open>Position_Transfers\<close> give the
    effect of every operation on the books of the obligation and on the shares of the reserves; on
    them rest \<open>Liquidation_Settlement\<close> (C10) and \<open>Rollover_Settlement\<close>
    (C15).
  \<^item> \<open>Ledger\<close>: all reserves and obligations of a market together, with the instructions as steps that name
    their accounts by key, and the safety of suppliers over every history of them
    (C1).
  \<^item> \<open>Reserve_Updates\<close>, \<open>Reserve_Rules\<close> (\<open>lending_market/lending_operations.rs\<close>,
    \<open>handlers/handler_update_reserve_config.rs\<close>, \<open>handlers/handler_clone_reserve_config.rs\<close>,
    \<open>handlers/handler_init_reserve.rs\<close>): every change of a reserve's configuration with its validation, the
    integrity of the whole, and who may make it (C20, C40). \<open>Administration\<close> interleaves
    these changes with the instructions of \<open>Ledger\<close> (C2).
  \<^item> \<open>Borrow_Instruction\<close> (\<open>handlers/handler_borrow_obligation_liquidity.rs\<close>): the borrow as the handler runs
    it, with permission, referrer, transfers and the comparison of the vault with the books (C7).
    \<open>Borrow_Orders\<close> (\<open>state/borrow_order_operations.rs\<close> and its two handlers) builds on it: orders that
    anyone may fill by borrowing for their owner (C29). \<open>Obligation_Updates\<close>
    (\<open>handlers/handler_update_obligation_config.rs\<close>): the rollover settings of a loan, which stay complete.

  How the parts interact. An instruction checks its accounts (\<open>Lending_Checks\<close>, \<open>Permissioning\<close>) and
  its transaction (\<open>Transaction\<close>), refreshes what it prices (\<open>Last_Update\<close>, \<open>Reserve_Flows\<close>,
  \<open>Refresh_Obligation\<close>), performs an operation on positions (\<open>Position_Operations\<close>) that sizes amounts
  with the reserve (\<open>Reserve\<close>) and changes slots (\<open>Obligation\<close>), closes with the checks of
  \<open>Position_Checks\<close>, moves tokens (\<open>Token_Program\<close>) and compares the vaults with the books.

  Bounds and recursion. Loops run over the fixed arrays of the accounts by structural recursion; no
  definition uses fuel. The power of a fraction recurses on
  the binary digits of its exponent.

  Not modelled: accounts as bytes (paddings, discriminators, zero-copy loading, text forms), rent and
  the creation of accounts, the oracle programs from which \<open>utils/prices\<close> reads prices (a price
  is an argument of the refresh), the farms program, the client library \<open>klend-interface\<close>, which
  has no state, and the example programs beside the lending program.
\<close>

end
